(* ===== verification/Prelude.thy ===== *)
theory Prelude
  imports Complex_Main "HOL-Library.List_Lexorder" "HOL-Library.Char_ord"
begin

text \<open>
  Shared vocabulary of the development: the exceptions the Python code raises, the error
  monad of its pure functions, the state-and-exception monad of the code that writes the
  durable store, a weakest-precondition calculus for that monad, and the generic lemmas the
  component theories use. An operation of the store has the type
  \<open>'s \<Rightarrow> (py_exc + 'a) \<times> 's\<close>: it returns a value or raises, and the state it
  leaves behind is there in both cases, because the code often writes before it raises.
\<close>

section \<open>Exceptions and the error monad\<close>

datatype py_exc =
    CoordinatorError string
  | ProtocolError string
  | ValueError string
  | RuntimeError string
  | TypeError string
  | KeyError string
  | AttributeError string
  | ActionCancelledError string "string option"
  | ConcurrencyError int int
  | TimeoutError string
  | EnvironmentBlocked string
  | AdapterFailure string
  | FileNotFoundError string
  | PermissionError string
  | OSError string

type_synonym 'a res = "py_exc + 'a"
type_synonym time = rat

named_theorems res_simps \<open>equations that run the error monad\<close>
named_theorems res_iff \<open>when a computation of the error monad returns a given value\<close>
named_theorems wp \<open>weakest preconditions of the state monad's combinators\<close>
named_theorems vcg \<open>introduction rules that generate one goal per path of an operation\<close>
named_theorems keeps_rules \<open>invariant preservation, one rule per combinator or operation\<close>

definition bindE :: "'a res \<Rightarrow> ('a \<Rightarrow> 'b res) \<Rightarrow> 'b res" where
  "bindE m f = (case m of Inl e \<Rightarrow> Inl e | Inr x \<Rightarrow> f x)"

definition checkE :: "bool \<Rightarrow> py_exc \<Rightarrow> unit res" where
  "checkE b e = (if b then Inr () else Inl e)"

fun mapE :: "('a \<Rightarrow> 'b res) \<Rightarrow> 'a list \<Rightarrow> 'b list res" where
  "mapE f [] = Inr []"
| "mapE f (x # xs) = bindE (f x) (\<lambda>y. bindE (mapE f xs) (\<lambda>ys. Inr (y # ys)))"

definition isOK :: "'a res \<Rightarrow> bool" where
  "isOK r = (case r of Inl _ \<Rightarrow> False | Inr _ \<Rightarrow> True)"

lemma bindE_simps [simp, res_simps]:
  "bindE (Inr x) f = f x"
  "bindE (Inl e) f = Inl e"
  by (simp_all add: bindE_def)

lemma checkE_simps [simp, res_simps]:
  "checkE True e = Inr ()"
  "checkE False e = Inl e"
  by (simp_all add: checkE_def)

lemma bindE_Inr_iff [res_iff]: "bindE m f = Inr y \<longleftrightarrow> (\<exists>x. m = Inr x \<and> f x = Inr y)"
  by (cases m) auto

lemma checkE_Inr_iff [res_iff]: "checkE b e = Inr u \<longleftrightarrow> b"
  by (simp add: checkE_def)

lemma bindE_assoc: "bindE (bindE m f) g = bindE m (\<lambda>x. bindE (f x) g)"
  by (cases m) auto

lemma bindE_cong [fundef_cong]:
  "m = n \<Longrightarrow> (\<And>y. n = Inr y \<Longrightarrow> f y = g y) \<Longrightarrow> bindE m f = bindE n g"
  by (cases n) auto

lemma mapE_cong [fundef_cong]: "xs = ys \<Longrightarrow> (\<And>x. x \<in> set ys \<Longrightarrow> f x = g x) \<Longrightarrow> mapE f xs = mapE g ys"
  by (induction ys arbitrary: xs) auto

lemma mapE_Inr_length: "mapE f xs = Inr ys \<Longrightarrow> length ys = length xs"
  by (induction xs arbitrary: ys) (auto simp: res_iff)

lemma mapE_Inr_set: "mapE f xs = Inr ys \<Longrightarrow> y \<in> set ys \<Longrightarrow> \<exists>x\<in>set xs. f x = Inr y"
  by (induction xs arbitrary: ys) (auto simp: res_iff)

lemma mapE_Inr_dom: "mapE f xs = Inr ys \<Longrightarrow> x \<in> set xs \<Longrightarrow> \<exists>y. f x = Inr y"
  by (induction xs arbitrary: ys) (auto simp: res_iff)

lemma mapE_all_Inr: "(\<And>x. x \<in> set xs \<Longrightarrow> f x = Inr (g x)) \<Longrightarrow> mapE f xs = Inr (map g xs)"
  by (induction xs) auto

lemma isOK_simps [simp]: "isOK (Inr x)" "\<not> isOK (Inl e)"
  by (simp_all add: isOK_def)

lemma isOK_iff: "isOK r \<longleftrightarrow> (\<exists>x. r = Inr x)"
  by (cases r) auto

section \<open>The state-and-exception monad\<close>

type_synonym ('s, 'a) pyM = "'s \<Rightarrow> 'a res \<times> 's"

definition retM :: "'a \<Rightarrow> ('s, 'a) pyM" where
  "retM x = (\<lambda>s. (Inr x, s))"

definition raiseM :: "py_exc \<Rightarrow> ('s, 'a) pyM" where
  "raiseM e = (\<lambda>s. (Inl e, s))"

definition bindM :: "('s, 'a) pyM \<Rightarrow> ('a \<Rightarrow> ('s, 'b) pyM) \<Rightarrow> ('s, 'b) pyM" where
  "bindM m f = (\<lambda>s. case m s of (r, t) \<Rightarrow>
     (case r of Inl e \<Rightarrow> (Inl e, t) | Inr x \<Rightarrow> f x t))"

definition thenM :: "('s, 'a) pyM \<Rightarrow> ('s, 'b) pyM \<Rightarrow> ('s, 'b) pyM" where
  "thenM m n = bindM m (\<lambda>_. n)"

definition getsM :: "('s \<Rightarrow> 'a) \<Rightarrow> ('s, 'a) pyM" where
  "getsM f = (\<lambda>s. (Inr (f s), s))"

definition modifyM :: "('s \<Rightarrow> 's) \<Rightarrow> ('s, unit) pyM" where
  "modifyM f = (\<lambda>s. (Inr (), f s))"

definition guardM :: "bool \<Rightarrow> py_exc \<Rightarrow> ('s, unit) pyM" where
  "guardM b e = (\<lambda>s. (if b then Inr () else Inl e, s))"

definition liftM :: "'a res \<Rightarrow> ('s, 'a) pyM" where
  "liftM r = (\<lambda>s. (r, s))"

definition catchM :: "('s, 'a) pyM \<Rightarrow> (py_exc \<Rightarrow> ('s, 'a) pyM) \<Rightarrow> ('s, 'a) pyM" where
  "catchM m h = (\<lambda>s. case m s of (r, t) \<Rightarrow>
     (case r of Inl e \<Rightarrow> h e t | Inr x \<Rightarrow> (Inr x, t)))"

primrec forM :: "'a list \<Rightarrow> ('a \<Rightarrow> ('s, unit) pyM) \<Rightarrow> ('s, unit) pyM" where
  "forM [] f = retM ()"
| "forM (x # xs) f = thenM (f x) (forM xs f)"

primrec foldM :: "('b \<Rightarrow> 'a \<Rightarrow> ('s, 'b) pyM) \<Rightarrow> 'b \<Rightarrow> 'a list \<Rightarrow> ('s, 'b) pyM" where
  "foldM f b [] = retM b"
| "foldM f b (x # xs) = bindM (f b x) (\<lambda>b'. foldM f b' xs)"

lemmas monad_defs = retM_def raiseM_def bindM_def thenM_def getsM_def modifyM_def
  guardM_def liftM_def catchM_def

subsection \<open>Weakest preconditions\<close>

text \<open>
  \<open>wpM m Q E s\<close>: run from \<open>s\<close>, the operation ends in \<open>Q\<close> if it returns and in
  \<open>E\<close> if it raises. The calculus is total: every operation of the model is a total
  function.
\<close>

definition wpM :: "('s, 'a) pyM \<Rightarrow> ('a \<Rightarrow> 's \<Rightarrow> bool) \<Rightarrow> (py_exc \<Rightarrow> 's \<Rightarrow> bool) \<Rightarrow> 's \<Rightarrow> bool" where
  "wpM m Q E s = (case m s of (r, t) \<Rightarrow> (case r of Inl e \<Rightarrow> E e t | Inr x \<Rightarrow> Q x t))"

lemma wpM_retM [wp]: "wpM (retM x) Q E s = Q x s"
  by (auto simp: wpM_def monad_defs split: prod.splits sum.splits)

lemma wpM_raiseM [wp]: "wpM (raiseM e) Q E s = E e s"
  by (auto simp: wpM_def monad_defs split: prod.splits sum.splits)

lemma wpM_bindM [wp]: "wpM (bindM m f) Q E s = wpM m (\<lambda>x. wpM (f x) Q E) E s"
  by (auto simp: wpM_def monad_defs split: prod.splits sum.splits)

lemma wpM_thenM [wp]: "wpM (thenM m n) Q E s = wpM m (\<lambda>_. wpM n Q E) E s"
  by (auto simp: wpM_def monad_defs split: prod.splits sum.splits)

lemma wpM_getsM [wp]: "wpM (getsM g) Q E s = Q (g s) s"
  by (auto simp: wpM_def monad_defs split: prod.splits sum.splits)

lemma wpM_modifyM [wp]: "wpM (modifyM h) Q E s = Q () (h s)"
  by (auto simp: wpM_def monad_defs split: prod.splits sum.splits)

lemma wpM_guardM [wp]: "wpM (guardM b e) Q E s = (if b then Q () s else E e s)"
  by (auto simp: wpM_def monad_defs split: prod.splits sum.splits)

lemma wpM_liftM [wp]: "wpM (liftM r) Q E s = (case r of Inl e \<Rightarrow> E e s | Inr x \<Rightarrow> Q x s)"
  by (auto simp: wpM_def monad_defs split: prod.splits sum.splits)

lemma wpM_catchM [wp]: "wpM (catchM m k) Q E s = wpM m Q (\<lambda>e. wpM (k e) Q E) s"
  by (auto simp: wpM_def monad_defs split: prod.splits sum.splits)

lemma wpM_if [wp]: "wpM (if b then m else n) Q E s = (if b then wpM m Q E s else wpM n Q E s)"
  by simp

lemma wpM_result:
  "wpM m Q E s \<Longrightarrow> m s = (Inr x, t) \<Longrightarrow> Q x t"
  "wpM m Q E s \<Longrightarrow> m s = (Inl e, t) \<Longrightarrow> E e t"
  by (simp_all add: wpM_def)

lemma wpM_returns: "wpM m Q (\<lambda>_ _. False) s \<longleftrightarrow> (\<exists>x t. m s = (Inr x, t) \<and> Q x t)"
  by (auto simp: wpM_def split: prod.splits sum.splits)

lemma wpM_raises: "wpM m (\<lambda>_ _. False) E s \<longleftrightarrow> (\<exists>e t. m s = (Inl e, t) \<and> E e t)"
  by (auto simp: wpM_def split: prod.splits sum.splits)

lemma wpM_conseq:
  "wpM m Q E s \<Longrightarrow> (\<And>x t. Q x t \<Longrightarrow> Q' x t) \<Longrightarrow> (\<And>e t. E e t \<Longrightarrow> E' e t) \<Longrightarrow> wpM m Q' E' s"
  by (auto simp: wpM_def split: prod.splits sum.splits)

text \<open>The same calculus as introduction rules: \<open>intro vcg\<close> follows the code and leaves one
  goal for each way an operation can end.\<close>

lemma vcg_retM [vcg]: "Q x s \<Longrightarrow> wpM (retM x) Q E s"
  by (simp add: wp)

lemma vcg_raiseM [vcg]: "E e s \<Longrightarrow> wpM (raiseM e) Q E s"
  by (simp add: wp)

lemma vcg_bindM [vcg]: "wpM m (\<lambda>x. wpM (f x) Q E) E s \<Longrightarrow> wpM (bindM m f) Q E s"
  by (simp add: wp)

lemma vcg_thenM [vcg]: "wpM m (\<lambda>_. wpM n Q E) E s \<Longrightarrow> wpM (thenM m n) Q E s"
  by (simp add: wp)

lemma vcg_getsM [vcg]: "Q (g s) s \<Longrightarrow> wpM (getsM g) Q E s"
  by (simp add: wp)

lemma vcg_modifyM [vcg]: "Q () (h s) \<Longrightarrow> wpM (modifyM h) Q E s"
  by (simp add: wp)

lemma vcg_guardM [vcg]: "(\<not> b \<Longrightarrow> E e s) \<Longrightarrow> (b \<Longrightarrow> Q () s) \<Longrightarrow> wpM (guardM b e) Q E s"
  by (simp add: wp)

lemma vcg_liftM [vcg]:
  "(\<And>e. r = Inl e \<Longrightarrow> E e s) \<Longrightarrow> (\<And>x. r = Inr x \<Longrightarrow> Q x s) \<Longrightarrow> wpM (liftM r) Q E s"
  by (simp add: wp split: sum.splits)

lemma vcg_catchM [vcg]: "wpM m Q (\<lambda>e. wpM (k e) Q E) s \<Longrightarrow> wpM (catchM m k) Q E s"
  by (simp add: wp)

lemma vcg_if [vcg]: "(b \<Longrightarrow> wpM m Q E s) \<Longrightarrow> (\<not> b \<Longrightarrow> wpM n Q E s) \<Longrightarrow> wpM (if b then m else n) Q E s"
  by simp

lemma vcg_Let [vcg]: "wpM (f x) Q E s \<Longrightarrow> wpM (Let x f) Q E s"
  by simp

lemma vcg_case_option [vcg]:
  "(x = None \<Longrightarrow> wpM m Q E s) \<Longrightarrow> (\<And>y. x = Some y \<Longrightarrow> wpM (f y) Q E s) \<Longrightarrow>
   wpM (case x of None \<Rightarrow> m | Some y \<Rightarrow> f y) Q E s"
  by (cases x) auto

lemma vcg_case_sum [vcg]:
  "(\<And>e. x = Inl e \<Longrightarrow> wpM (f e) Q E s) \<Longrightarrow> (\<And>y. x = Inr y \<Longrightarrow> wpM (g y) Q E s) \<Longrightarrow>
   wpM (case x of Inl e \<Rightarrow> f e | Inr y \<Rightarrow> g y) Q E s"
  by (cases x) auto

lemma vcg_case_prod [vcg]:
  "(\<And>a b. p = (a, b) \<Longrightarrow> wpM (f a b) Q E s) \<Longrightarrow> wpM (case p of (a, b) \<Rightarrow> f a b) Q E s"
  by (cases p) auto

subsection \<open>Preservation of a state predicate\<close>

text \<open>
  \<open>keeps P m\<close>: whatever the operation does, return or raise, it keeps \<open>P\<close>. With
  \<open>P = (\<lambda>s. g s = c)\<close> this is a frame property: the operation leaves \<open>g\<close> alone.
\<close>

definition keeps :: "('s \<Rightarrow> bool) \<Rightarrow> ('s, 'a) pyM \<Rightarrow> bool" where
  "keeps P m \<longleftrightarrow> (\<forall>s. P s \<longrightarrow> P (snd (m s)))"

lemma keepsI: "(\<And>s. P s \<Longrightarrow> P (snd (m s))) \<Longrightarrow> keeps P m"
  by (simp add: keeps_def)

lemma keepsD: "keeps P m \<Longrightarrow> P s \<Longrightarrow> P (snd (m s))"
  by (simp add: keeps_def)

lemma keepsD': "keeps P m \<Longrightarrow> P s \<Longrightarrow> m s = (r, t) \<Longrightarrow> P t"
  by (metis keepsD snd_conv)

lemma wpM_state_only: "wpM m (\<lambda>_. P) (\<lambda>_. P) s \<longleftrightarrow> P (snd (m s))"
  by (cases "m s"; cases "fst (m s)") (auto simp: wpM_def)

lemma keeps_iff_wp: "keeps P m \<longleftrightarrow> (\<forall>s. P s \<longrightarrow> wpM m (\<lambda>_. P) (\<lambda>_. P) s)"
  by (simp add: keeps_def wpM_state_only)

lemma keeps_via_wp: "(\<And>s. P s \<Longrightarrow> wpM m (\<lambda>_. P) (\<lambda>_. P) s) \<Longrightarrow> keeps P m"
  by (simp add: keeps_iff_wp)

lemma keeps_retM [keeps_rules]: "keeps P (retM x)"
  and keeps_raiseM [keeps_rules]: "keeps P (raiseM e)"
  and keeps_getsM [keeps_rules]: "keeps P (getsM g)"
  and keeps_guardM [keeps_rules]: "keeps P (guardM b e)"
  and keeps_liftM [keeps_rules]: "keeps P (liftM r)"
  by (simp_all add: keeps_def monad_defs)

lemma keeps_bindM [keeps_rules]:
  "keeps P m \<Longrightarrow> (\<And>x. keeps P (f x)) \<Longrightarrow> keeps P (bindM m f)"
  by (fastforce simp: keeps_def bindM_def split: prod.splits sum.splits)

lemma keeps_thenM [keeps_rules]: "keeps P m \<Longrightarrow> keeps P n \<Longrightarrow> keeps P (thenM m n)"
  by (simp add: thenM_def keeps_bindM)

lemma keeps_catchM [keeps_rules]:
  "keeps P m \<Longrightarrow> (\<And>e. keeps P (h e)) \<Longrightarrow> keeps P (catchM m h)"
  by (fastforce simp: keeps_def catchM_def split: prod.splits sum.splits)

lemma keeps_modifyM: "(\<And>s. P s \<Longrightarrow> P (h s)) \<Longrightarrow> keeps P (modifyM h)"
  by (simp add: keeps_def modifyM_def)

lemma keeps_if [keeps_rules]:
  "(b \<Longrightarrow> keeps P m) \<Longrightarrow> (\<not> b \<Longrightarrow> keeps P n) \<Longrightarrow> keeps P (if b then m else n)"
  by simp

lemma keeps_Let [keeps_rules]: "keeps P (f x) \<Longrightarrow> keeps P (Let x f)"
  by simp

lemma keeps_case_option [keeps_rules]:
  "(x = None \<Longrightarrow> keeps P m) \<Longrightarrow> (\<And>y. x = Some y \<Longrightarrow> keeps P (f y)) \<Longrightarrow>
   keeps P (case x of None \<Rightarrow> m | Some y \<Rightarrow> f y)"
  by (cases x) auto

lemma keeps_case_sum [keeps_rules]:
  "(\<And>e. x = Inl e \<Longrightarrow> keeps P (f e)) \<Longrightarrow> (\<And>y. x = Inr y \<Longrightarrow> keeps P (g y)) \<Longrightarrow>
   keeps P (case x of Inl e \<Rightarrow> f e | Inr y \<Rightarrow> g y)"
  by (cases x) auto

lemma keeps_case_prod [keeps_rules]:
  "(\<And>a b. p = (a, b) \<Longrightarrow> keeps P (f a b)) \<Longrightarrow> keeps P (case p of (a, b) \<Rightarrow> f a b)"
  by (cases p) auto

lemma keeps_forM [keeps_rules]: "(\<And>x. x \<in> set xs \<Longrightarrow> keeps P (f x)) \<Longrightarrow> keeps P (forM xs f)"
  by (induction xs) (auto intro: keeps_rules)

lemma keeps_foldM [keeps_rules]:
  "(\<And>b x. x \<in> set xs \<Longrightarrow> keeps P (f b x)) \<Longrightarrow> keeps P (foldM f b xs)"
  by (induction xs arbitrary: b) (auto intro: keeps_rules)

lemma keeps_conj: "keeps P m \<Longrightarrow> keeps Q m \<Longrightarrow> keeps (\<lambda>s. P s \<and> Q s) m"
  by (simp add: keeps_def)

lemma keeps_frame: "keeps (\<lambda>s. g s = c) m \<Longrightarrow> g s = c \<Longrightarrow> g (snd (m s)) = c"
  by (simp add: keeps_def)

lemma keeps_frame_all: "(\<And>c. keeps (\<lambda>s. g s = c) m) \<Longrightarrow> g (snd (m s)) = g s"
  by (simp add: keeps_def)

text \<open>Loops: an invariant of the body is an invariant of the loop.\<close>

lemma wpM_forM:
  assumes "I s"
    and "\<And>x t. x \<in> set xs \<Longrightarrow> I t \<Longrightarrow> wpM (f x) (\<lambda>_. I) E t"
    and "\<And>t. I t \<Longrightarrow> Q () t"
  shows "wpM (forM xs f) Q E s"
  using assms(1,2)
proof (induction xs arbitrary: s)
  case Nil
  then show ?case by (simp add: wp assms(3))
next
  case (Cons x xs)
  have "wpM (f x) (\<lambda>_. I) E s" using Cons.prems by simp
  moreover have "wpM (forM xs f) Q E t" if "I t" for t
    using that Cons.prems(2) by (intro Cons.IH) simp_all
  ultimately show ?case
    unfolding forM.simps wp by (rule wpM_conseq)
qed

text \<open>Loops with an invariant on what is left to do.\<close>

lemma wpM_forM_rest:
  assumes "I xs s"
    and "\<And>x ys t. I (x # ys) t \<Longrightarrow> wpM (f x) (\<lambda>_. I ys) E t"
    and "\<And>t. I [] t \<Longrightarrow> Q () t"
  shows "wpM (forM xs f) Q E s"
  using assms(1)
proof (induction xs arbitrary: s)
  case (Cons x xs)
  show ?case unfolding forM.simps wp
    by (rule wpM_conseq [OF assms(2) [OF Cons.prems]]) (use Cons.IH in auto)
qed (simp add: wp assms(3))

lemma wpM_foldM_rest:
  assumes "I xs b s"
    and "\<And>x ys b t. I (x # ys) b t \<Longrightarrow> wpM (f b x) (I ys) E t"
    and "\<And>b t. I [] b t \<Longrightarrow> Q b t"
  shows "wpM (foldM f b xs) Q E s"
  using assms(1)
proof (induction xs arbitrary: b s)
  case (Cons x xs)
  show ?case unfolding foldM.simps wp
    by (rule wpM_conseq [OF assms(2) [OF Cons.prems]]) (use Cons.IH in auto)
qed (simp add: wp assms(3))

section \<open>Option, list and numeric helpers\<close>

definition opt_or :: "'a option \<Rightarrow> 'a \<Rightarrow> 'a" where
  "opt_or x d = (case x of None \<Rightarrow> d | Some y \<Rightarrow> y)"

lemma opt_or_simps [simp]: "opt_or None d = d" "opt_or (Some y) d = y"
  by (simp_all add: opt_or_def)

lemma find_Some_mem: "List.find P xs = Some x \<Longrightarrow> x \<in> set xs \<and> P x"
  by (induction xs) (auto split: if_splits)

lemma find_None_all: "List.find P xs = None \<longleftrightarrow> (\<forall>x\<in>set xs. \<not> P x)"
  by (induction xs) auto

end
