(* ===== verification/PyText.thy ===== *)
theory PyText
  imports Prelude
begin

text \<open>
  The part of Python's \<open>str\<close> the code uses. A string is a \<open>string\<close> (a list of
  characters), each character standing for the code point \<open>of_char c\<close>, so the model
  covers the Latin-1 range (code points up to 255). White space, letter case and digits are
  those of Python's \<open>str\<close> methods on that range.
\<close>

section \<open>Character classes\<close>

definition code_pt :: "char \<Rightarrow> nat" where
  "code_pt c = of_char c"

definition is_digit :: "char \<Rightarrow> bool" where
  "is_digit c \<longleftrightarrow> 48 \<le> code_pt c \<and> code_pt c \<le> 57"

definition is_upper_ascii :: "char \<Rightarrow> bool" where
  "is_upper_ascii c \<longleftrightarrow> 65 \<le> code_pt c \<and> code_pt c \<le> 90"

definition is_lower_ascii :: "char \<Rightarrow> bool" where
  "is_lower_ascii c \<longleftrightarrow> 97 \<le> code_pt c \<and> code_pt c \<le> 122"

definition is_alnum_ascii :: "char \<Rightarrow> bool" where
  "is_alnum_ascii c \<longleftrightarrow> is_digit c \<or> is_upper_ascii c \<or> is_lower_ascii c"

definition is_hex_lower :: "char \<Rightarrow> bool" where
  "is_hex_lower c \<longleftrightarrow> is_digit c \<or> 97 \<le> code_pt c \<and> code_pt c \<le> 102"

text \<open>\<open>str.isspace\<close> and the regular expression \<open>\s\<close> on code points up to 255.\<close>

definition is_space :: "char \<Rightarrow> bool" where
  "is_space c \<longleftrightarrow> (let n = code_pt c in
     9 \<le> n \<and> n \<le> 13 \<or> 28 \<le> n \<and> n \<le> 32 \<or> n = 133 \<or> n = 160)"

section \<open>Methods of str\<close>

definition py_lstrip :: "string \<Rightarrow> string" where
  "py_lstrip s = dropWhile is_space s"

definition py_rstrip :: "string \<Rightarrow> string" where
  "py_rstrip s = rev (dropWhile is_space (rev s))"

definition py_strip :: "string \<Rightarrow> string" where
  "py_strip s = py_rstrip (py_lstrip s)"

text \<open>Lower case on Latin-1: the ASCII letters and U+00C0 to U+00DE but U+00D7.\<close>

definition lower_char :: "char \<Rightarrow> char" where
  "lower_char c = (let n = code_pt c in
     if is_upper_ascii c \<or> (192 \<le> n \<and> n \<le> 222 \<and> n \<noteq> 215) then char_of (n + 32) else c)"

definition py_lower :: "string \<Rightarrow> string" where
  "py_lower s = map lower_char s"

definition py_startswith :: "string \<Rightarrow> string \<Rightarrow> bool" where
  "py_startswith s p \<longleftrightarrow> take (length p) s = p"

definition py_endswith :: "string \<Rightarrow> string \<Rightarrow> bool" where
  "py_endswith s p \<longleftrightarrow> length p \<le> length s \<and> drop (length s - length p) s = p"

text \<open>\<open>s.split(sep)\<close> for a one-character separator: never empty.\<close>

fun py_split :: "char \<Rightarrow> string \<Rightarrow> string list" where
  "py_split d [] = [[]]"
| "py_split d (c # cs) = (if c = d then [] # py_split d cs
     else (case py_split d cs of [] \<Rightarrow> [[c]] | w # ws \<Rightarrow> (c # w) # ws))"

fun py_join :: "string \<Rightarrow> string list \<Rightarrow> string" where
  "py_join sep [] = []"
| "py_join sep [w] = w"
| "py_join sep (w # v # ws) = w @ sep @ py_join sep (v # ws)"

definition py_replace_char :: "char \<Rightarrow> char \<Rightarrow> string \<Rightarrow> string" where
  "py_replace_char a b s = map (\<lambda>c. if c = a then b else c) s"

subsection \<open>Decimal numerals\<close>

definition digit_char :: "nat \<Rightarrow> char" where
  "digit_char n = char_of (48 + n)"

fun nat_str :: "nat \<Rightarrow> string" where
  "nat_str n = (if n < 10 then [digit_char n] else nat_str (n div 10) @ [digit_char (n mod 10)])"

declare nat_str.simps [simp del]

definition int_str :: "int \<Rightarrow> string" where
  "int_str i = (if i < 0 then ''-'' @ nat_str (nat (- i)) else nat_str (nat i))"

definition digits_val :: "string \<Rightarrow> nat" where
  "digits_val ds = foldl (\<lambda>a c. 10 * a + (code_pt c - 48)) 0 ds"

text \<open>The digits of an \<open>int()\<close> literal: single underscores may separate them.\<close>

fun int_digits :: "string \<Rightarrow> string option" where
  "int_digits [] = None"
| "int_digits [c] = (if is_digit c then Some [c] else None)"
| "int_digits (c # d # cs) =
     (if \<not> is_digit c then None
      else if d = CHR ''_'' then map_option (Cons c) (int_digits cs)
      else map_option (Cons c) (int_digits (d # cs)))"

definition int_of_str :: "string \<Rightarrow> int option" where
  "int_of_str s = (let t = py_strip s in
     case t of [] \<Rightarrow> None
     | c # cs \<Rightarrow>
        if c = CHR ''-'' then map_option (\<lambda>ds. - int (digits_val ds)) (int_digits cs)
        else if c = CHR ''+'' then map_option (\<lambda>ds. int (digits_val ds)) (int_digits cs)
        else map_option (\<lambda>ds. int (digits_val ds)) (int_digits t))"

section \<open>Lemmas\<close>

lemmas char_class_defs = is_digit_def is_upper_ascii_def is_lower_ascii_def is_alnum_ascii_def
  is_hex_lower_def is_space_def code_pt_def Let_def

lemma code_pt_less: "code_pt c < 256"
  by (simp add: code_pt_def)

lemma digit_char_digit: "n < 10 \<Longrightarrow> is_digit (digit_char n)"
  by (simp add: is_digit_def digit_char_def code_pt_def)

lemma alnum_not_space: "is_alnum_ascii c \<Longrightarrow> \<not> is_space c"
  by (auto simp: char_class_defs)

lemma nat_str_digits: "c \<in> set (nat_str n) \<Longrightarrow> is_digit c"
proof (induction n rule: nat_str.induct)
  case (1 n)
  then show ?case
    by (subst (asm) (2) nat_str.simps) (auto simp: digit_char_digit split: if_splits)
qed

lemma nat_str_nonempty: "nat_str n \<noteq> []"
  by (subst nat_str.simps) auto

lemma digits_val_nat_str: "digits_val (nat_str n) = n"
proof (induction n rule: nat_str.induct)
  case (1 n)
  have snoc: "digits_val (xs @ [c]) = 10 * digits_val xs + (code_pt c - 48)" for xs c
    by (simp add: digits_val_def)
  show ?case
  proof (cases "n < 10")
    case True
    then show ?thesis
      by (simp add: nat_str.simps [of n] digits_val_def digit_char_def code_pt_def)
  next
    case False
    with "1.IH" show ?thesis
      by (subst nat_str.simps)
        (simp add: snoc digit_char_def code_pt_def mult_div_mod_eq)
  qed
qed

lemma py_rstrip_snoc: "\<not> is_space c \<Longrightarrow> py_rstrip (s @ [c]) = s @ [c]"
  by (simp add: py_rstrip_def)

lemma py_strip_no_space:
  assumes "\<forall>c\<in>set s. \<not> is_space c"
  shows "py_strip s = s"
proof -
  have l: "py_lstrip s = s"
    using assms by (cases s) (auto simp: py_lstrip_def)
  have "py_rstrip s = s"
  proof (cases s rule: rev_cases)
    case Nil
    then show ?thesis by (simp add: py_rstrip_def)
  next
    case (snoc ys y)
    with assms show ?thesis by (simp add: py_rstrip_snoc)
  qed
  with l show ?thesis by (simp add: py_strip_def)
qed

lemma py_strip_set: "set (py_strip s) \<subseteq> set s"
  unfolding py_strip_def py_rstrip_def py_lstrip_def
  using set_dropWhileD by (metis set_rev subsetI)

lemma dropWhile_hd_not: "dropWhile P xs \<noteq> [] \<Longrightarrow> \<not> P (hd (dropWhile P xs))"
  by (induction xs) auto

lemma py_rstrip_last: "py_rstrip s \<noteq> [] \<Longrightarrow> \<not> is_space (last (py_rstrip s))"
  by (auto simp: py_rstrip_def last_rev dropWhile_hd_not)

lemma dropWhile_twice: "dropWhile P (dropWhile P xs) = dropWhile P xs"
  by (induction xs) auto

lemma py_rstrip_idem: "py_rstrip (py_rstrip s) = py_rstrip s"
  by (simp add: py_rstrip_def dropWhile_twice)

lemma py_strip_idem [simp]: "py_strip (py_strip s) = py_strip s"
proof (cases "py_strip s = []")
  case True
  moreover have "py_strip [] = []"
    by (simp add: py_strip_def py_rstrip_def py_lstrip_def)
  ultimately show ?thesis by metis
next
  case False
  let ?l = "dropWhile is_space s"
  have "hd (py_strip s) = hd ?l \<and> ?l \<noteq> []"
  proof -
    obtain ys where ys: "?l = py_strip s @ ys"
      unfolding py_strip_def py_rstrip_def py_lstrip_def
      by (metis rev_append rev_rev_ident takeWhile_dropWhile_id)
    with False show ?thesis by auto
  qed
  then have "\<not> is_space (hd (py_strip s))"
    using dropWhile_hd_not by metis
  with False have "py_lstrip (py_strip s) = py_strip s"
    by (cases "py_strip s") (auto simp: py_lstrip_def)
  then show ?thesis
    unfolding py_strip_def [of "py_strip s"] by (simp add: py_strip_def py_rstrip_idem)
qed

lemma py_split_not_Nil [simp]: "py_split d s \<noteq> []"
  by (cases s) (auto split: list.splits)

lemma py_split_no_sep: "w \<in> set (py_split d s) \<Longrightarrow> d \<notin> set w"
proof (induction s arbitrary: w)
  case (Cons c cs)
  then show ?case
    by (cases "py_split d cs") (auto split: if_splits)
qed simp

lemma py_split_set: "w \<in> set (py_split d s) \<Longrightarrow> x \<in> set w \<Longrightarrow> x \<in> set s"
proof (induction s arbitrary: w)
  case (Cons c cs)
  then show ?case
    by (cases "py_split d cs") (fastforce split: if_splits)+
qed simp

lemma py_split_word: "d \<notin> set w \<Longrightarrow> py_split d w = [w]"
  by (induction w) auto

lemma py_split_app: "d \<notin> set w \<Longrightarrow> py_split d (w @ d # t) = w # py_split d t"
  by (induction w) auto

lemma py_split_join:
  "ws \<noteq> [] \<Longrightarrow> \<forall>w\<in>set ws. d \<notin> set w \<Longrightarrow> py_split d (py_join [d] ws) = ws"
proof (induction "[d]" ws rule: py_join.induct)
  case (2 w)
  then show ?case by (simp add: py_split_word)
next
  case (3 w v ws)
  then show ?case by (simp add: py_split_app)
qed simp

lemma lower_char_idem [simp]: "lower_char (lower_char c) = lower_char c"
proof (cases "is_upper_ascii c \<or> (192 \<le> code_pt c \<and> code_pt c \<le> 222 \<and> code_pt c \<noteq> 215)")
  case True
  then have "code_pt c + 32 < 256" by (auto simp: is_upper_ascii_def)
  then have "code_pt (lower_char c) = code_pt c + 32"
    using True by (auto simp: lower_char_def Let_def code_pt_def)
  with True show ?thesis
    unfolding lower_char_def [of "lower_char c"]
    by (auto simp: Let_def is_upper_ascii_def)
next
  case False
  then have "lower_char c = c" unfolding lower_char_def Let_def by (rule if_not_P)
  then show ?thesis by simp
qed

lemma py_lower_idem [simp]: "py_lower (py_lower s) = py_lower s"
  by (simp add: py_lower_def)

end
