(* ===== verification/PyJson.thy ===== *)
theory PyJson
  imports PyText
begin

text \<open>
  JSON values as the Python code holds them after \<open>json.loads\<close>, and the built-in
  conversions the code applies to them: truth value, \<open>str\<close>, \<open>int\<close>, \<open>float\<close>,
  iteration, \<open>dict\<close>, and \<open>json.dumps\<close> with sorted keys. An object is an association
  list with one entry per key, in insertion order. A float is the rational it denotes;
  infinities and NaN do not occur. Python's decimal rendering of a float, and its parsing of
  one from text, are the parameters \<open>float_repr\<close> and \<open>float_of_str\<close> of the
  interpreter environment \<open>pyenv\<close>; so is Unicode NFKC normalisation.
\<close>

datatype json =
    JNull
  | JBool bool
  | JInt int
  | JFloat rat
  | JStr string
  | JArr "json list"
  | JObj "(string \<times> json) list"

type_synonym jobj = "(string \<times> json) list"

record pyenv =
  float_repr :: "rat \<Rightarrow> string"
  float_of_str :: "string \<Rightarrow> rat option"
  nfkc :: "string \<Rightarrow> string"
  bracketed_host_ok :: "string \<Rightarrow> bool"

section \<open>Objects\<close>

text \<open>\<open>value.get(key)\<close> on a dict; an absent key is \<open>None\<close>, which is JSON's null.\<close>

definition jlookup :: "jobj \<Rightarrow> string \<Rightarrow> json option" where
  "jlookup o' k = map_of o' k"

definition jget :: "jobj \<Rightarrow> string \<Rightarrow> json" where
  "jget o' k = opt_or (jlookup o' k) JNull"

definition jget_d :: "jobj \<Rightarrow> string \<Rightarrow> json \<Rightarrow> json" where
  "jget_d o' k d = opt_or (jlookup o' k) d"

definition jhas :: "jobj \<Rightarrow> string \<Rightarrow> bool" where
  "jhas o' k \<longleftrightarrow> jlookup o' k \<noteq> None"

text \<open>\<open>d[key] = v\<close>: in place for a present key, at the end for a new one.\<close>

fun jset :: "jobj \<Rightarrow> string \<Rightarrow> json \<Rightarrow> jobj" where
  "jset [] k v = [(k, v)]"
| "jset ((k', v') # o') k v = (if k' = k then (k, v) # o' else (k', v') # jset o' k v)"

definition jpop :: "jobj \<Rightarrow> string \<Rightarrow> jobj" where
  "jpop o' k = filter (\<lambda>p. fst p \<noteq> k) o'"

text \<open>\<open>{**a, **b}\<close> and \<open>a.update(b)\<close>.\<close>

definition jmerge :: "jobj \<Rightarrow> jobj \<Rightarrow> jobj" where
  "jmerge a b = foldl (\<lambda>o' p. jset o' (fst p) (snd p)) a b"

section \<open>Conversions\<close>

fun truthy :: "json \<Rightarrow> bool" where
  "truthy JNull = False"
| "truthy (JBool b) = b"
| "truthy (JInt i) = (i \<noteq> 0)"
| "truthy (JFloat r) = (r \<noteq> 0)"
| "truthy (JStr s) = (s \<noteq> [])"
| "truthy (JArr xs) = (xs \<noteq> [])"
| "truthy (JObj o') = (o' \<noteq> [])"

text \<open>\<open>v or d\<close>\<close>

definition jor :: "json \<Rightarrow> json \<Rightarrow> json" where
  "jor v d = (if truthy v then v else d)"

subsection \<open>repr and str\<close>

definition hex_digit :: "nat \<Rightarrow> char" where
  "hex_digit n = (if n < 10 then char_of (48 + n) else char_of (87 + n))"

definition printable :: "char \<Rightarrow> bool" where
  "printable c \<longleftrightarrow> (let n = code_pt c in 32 \<le> n \<and> n \<le> 126 \<or> 161 \<le> n \<and> n \<noteq> 173)"

definition repr_char :: "char \<Rightarrow> char \<Rightarrow> string" where
  "repr_char q c = (
     if c = q \<or> c = CHR 0x5C then [CHR 0x5C, c]
     else if c = CHR 0x09 then [CHR 0x5C, CHR ''t'']
     else if c = CHR 0x0A then [CHR 0x5C, CHR ''n'']
     else if c = CHR 0x0D then [CHR 0x5C, CHR ''r'']
     else if printable c then [c]
     else [CHR 0x5C, CHR ''x'', hex_digit (code_pt c div 16), hex_digit (code_pt c mod 16)])"

definition str_repr :: "string \<Rightarrow> string" where
  "str_repr s = (let q = (if CHR 0x27 \<in> set s \<and> CHR 0x22 \<notin> set s then CHR 0x22 else CHR 0x27)
     in q # concat (map (repr_char q) s) @ [q])"

fun py_repr :: "pyenv \<Rightarrow> json \<Rightarrow> string" where
  "py_repr E JNull = ''None''"
| "py_repr E (JBool b) = (if b then ''True'' else ''False'')"
| "py_repr E (JInt i) = int_str i"
| "py_repr E (JFloat r) = float_repr E r"
| "py_repr E (JStr s) = str_repr s"
| "py_repr E (JArr xs) = ''['' @ py_join '', '' (map (py_repr E) xs) @ '']''"
| "py_repr E (JObj o') =
     ''{'' @ py_join '', '' (map (\<lambda>p. str_repr (fst p) @ '': '' @ py_repr E (snd p)) o') @ ''}''"

definition py_str :: "pyenv \<Rightarrow> json \<Rightarrow> string" where
  "py_str E v = (case v of JStr s \<Rightarrow> s | _ \<Rightarrow> py_repr E v)"

subsection \<open>int, float, iteration, dict\<close>

definition rat_trunc :: "rat \<Rightarrow> int" where
  "rat_trunc r = (if r < 0 then \<lceil>r\<rceil> else \<lfloor>r\<rfloor>)"

definition py_int :: "json \<Rightarrow> int res" where
  "py_int v = (case v of
      JBool b \<Rightarrow> Inr (if b then 1 else 0)
    | JInt i \<Rightarrow> Inr i
    | JFloat r \<Rightarrow> Inr (rat_trunc r)
    | JStr s \<Rightarrow> (case int_of_str s of Some i \<Rightarrow> Inr i
                 | None \<Rightarrow> Inl (ValueError ''invalid literal for int()''))
    | _ \<Rightarrow> Inl (TypeError ''int() argument must be a string or a number''))"

definition py_float :: "pyenv \<Rightarrow> json \<Rightarrow> rat res" where
  "py_float E v = (case v of
      JBool b \<Rightarrow> Inr (if b then 1 else 0)
    | JInt i \<Rightarrow> Inr (of_int i)
    | JFloat r \<Rightarrow> Inr r
    | JStr s \<Rightarrow> (case float_of_str E s of Some r \<Rightarrow> Inr r
                 | None \<Rightarrow> Inl (ValueError ''could not convert string to float''))
    | _ \<Rightarrow> Inl (TypeError ''float() argument must be a string or a number''))"

definition py_iter :: "json \<Rightarrow> json list res" where
  "py_iter v = (case v of
      JArr xs \<Rightarrow> Inr xs
    | JObj o' \<Rightarrow> Inr (map (\<lambda>p. JStr (fst p)) o')
    | JStr s \<Rightarrow> Inr (map (\<lambda>c. JStr [c]) s)
    | _ \<Rightarrow> Inl (TypeError ''object is not iterable''))"

definition dict_pair :: "json \<Rightarrow> (string \<times> json) res" where
  "dict_pair v = (case v of
      JArr [JStr k, x] \<Rightarrow> Inr (k, x)
    | JStr [a, b] \<Rightarrow> Inr ([a], JStr [b])
    | JArr _ \<Rightarrow> Inl (ValueError ''dictionary update sequence element has wrong length'')
    | JStr _ \<Rightarrow> Inl (ValueError ''dictionary update sequence element has wrong length'')
    | _ \<Rightarrow> Inl (TypeError ''cannot convert dictionary update sequence element to a sequence''))"

definition py_dict :: "json \<Rightarrow> jobj res" where
  "py_dict v = (case v of
      JObj o' \<Rightarrow> Inr o'
    | JArr xs \<Rightarrow> bindE (mapE dict_pair xs) (\<lambda>ps. Inr (jmerge [] ps))
    | JStr s \<Rightarrow> (if s = [] then Inr [] else Inl (ValueError ''dictionary update sequence element has wrong length''))
    | _ \<Rightarrow> Inl (TypeError ''object is not iterable''))"

text \<open>\<open>tuple(map(str, v or ()))\<close>\<close>

definition str_list_of :: "pyenv \<Rightarrow> json \<Rightarrow> string list res" where
  "str_list_of E v = (if truthy v then bindE (py_iter v) (\<lambda>xs. Inr (map (py_str E) xs)) else Inr [])"

text \<open>\<open>isinstance(v, Mapping)\<close> with the dict it then is.\<close>

definition as_obj :: "json \<Rightarrow> jobj option" where
  "as_obj v = (case v of JObj o' \<Rightarrow> Some o' | _ \<Rightarrow> None)"

section \<open>json.dumps with sorted keys\<close>

definition json_escape :: "char \<Rightarrow> string" where
  "json_escape c = (let n = code_pt c in
     if c = CHR 0x22 \<or> c = CHR 0x5C then [CHR 0x5C, c]
     else if n = 8 then [CHR 0x5C, CHR ''b'']
     else if n = 9 then [CHR 0x5C, CHR ''t'']
     else if n = 10 then [CHR 0x5C, CHR ''n'']
     else if n = 12 then [CHR 0x5C, CHR ''f'']
     else if n = 13 then [CHR 0x5C, CHR ''r'']
     else if n < 32 then [CHR 0x5C, CHR ''u'', CHR ''0'', CHR ''0'', hex_digit (n div 16), hex_digit (n mod 16)]
     else [c])"

definition json_string :: "string \<Rightarrow> string" where
  "json_string s = CHR 0x22 # concat (map json_escape s) @ [CHR 0x22]"

fun dumps_sorted :: "pyenv \<Rightarrow> json \<Rightarrow> string" where
  "dumps_sorted E JNull = ''null''"
| "dumps_sorted E (JBool b) = (if b then ''true'' else ''false'')"
| "dumps_sorted E (JInt i) = int_str i"
| "dumps_sorted E (JFloat r) = float_repr E r"
| "dumps_sorted E (JStr s) = json_string s"
| "dumps_sorted E (JArr xs) = ''['' @ py_join '','' (map (dumps_sorted E) xs) @ '']''"
| "dumps_sorted E (JObj o') =
     ''{'' @ py_join '','' (map (\<lambda>p. json_string (fst p) @ '':'' @ snd p)
        (sort_key fst (map (\<lambda>p. (fst p, dumps_sorted E (snd p))) o'))) @ ''}''"

text \<open>The same text with \<open>ensure_ascii=True\<close>: characters from DEL on, which occur only
  inside string literals, are escaped.\<close>

definition dumps_ascii :: "pyenv \<Rightarrow> json \<Rightarrow> string" where
  "dumps_ascii E v = concat (map (\<lambda>c. let n = code_pt c in
     if 127 \<le> n then [CHR 0x5C, CHR ''u'', CHR ''0'', CHR ''0'', hex_digit (n div 16), hex_digit (n mod 16)]
     else [c]) (dumps_sorted E v))"

section \<open>Equality of values\<close>

text \<open>
  \<open>==\<close>: numbers compare by value whatever their type (\<open>True == 1 == 1.0\<close>) and the order
  of the keys of a dict does not matter.
\<close>

fun num_val :: "json \<Rightarrow> rat option" where
  "num_val (JBool b) = Some (if b then 1 else 0)"
| "num_val (JInt i) = Some (of_int i)"
| "num_val (JFloat r) = Some r"
| "num_val _ = None"

fun py_eq :: "json \<Rightarrow> json \<Rightarrow> bool" where
  "py_eq (JArr xs) w = (case w of JArr ys \<Rightarrow> length xs = length ys
      \<and> list_all id (map2 (\<lambda>f y. f y) (map py_eq xs) ys) | _ \<Rightarrow> False)"
| "py_eq (JObj a) w = (case w of JObj b \<Rightarrow> a = b \<or> length a = length b
      \<and> list_all (\<lambda>(k, f). case map_of b k of None \<Rightarrow> False | Some y \<Rightarrow> f y)
          (map (\<lambda>p. (fst p, py_eq (snd p))) a) | _ \<Rightarrow> False)"
| "py_eq (JStr s) w = (w = JStr s)"
| "py_eq JNull w = (w = JNull)"
| "py_eq v w = (num_val v = num_val w)"

section \<open>Lemmas\<close>

lemma py_eq_refl [simp]: "py_eq v v"
  by (induction v) (auto simp: list_all_length)

lemma py_eq_JStr_right: "py_eq v (JStr s) \<longleftrightarrow> v = JStr s"
  by (cases v) auto

lemma jget_simps [simp]:
  "jget [] k = JNull"
  "jget ((k', v) # o') k = (if k = k' then v else jget o' k)"
  by (simp_all add: jget_def jlookup_def)

lemma jget_d_simps [simp]:
  "jget_d [] k d = d"
  "jget_d ((k', v) # o') k d = (if k = k' then v else jget_d o' k d)"
  by (simp_all add: jget_d_def jlookup_def)

lemma jlookup_simps [simp]:
  "jlookup [] k = None"
  "jlookup ((k', v) # o') k = (if k = k' then Some v else jlookup o' k)"
  by (simp_all add: jlookup_def)

lemma jlookup_jset [simp]: "jlookup (jset o' k v) k' = (if k' = k then Some v else jlookup o' k')"
  by (induction o' k v rule: jset.induct) auto

lemma jget_jset [simp]: "jget (jset o' k v) k' = (if k' = k then v else jget o' k')"
  by (simp add: jget_def)

lemma jlookup_jpop [simp]: "jlookup (jpop o' k) k' = (if k' = k then None else jlookup o' k')"
  by (induction o') (auto simp: jpop_def)

lemma jget_jpop [simp]: "jget (jpop o' k) k' = (if k' = k then JNull else jget o' k')"
  by (simp add: jget_def)

lemma jset_keys: "set (map fst (jset o' k v)) = insert k (set (map fst o'))"
  by (induction o' k v rule: jset.induct) auto

lemma jset_distinct: "distinct (map fst o') \<Longrightarrow> distinct (map fst (jset o' k v))"
  by (induction o' k v rule: jset.induct) (auto simp: jset_keys[simplified])

lemma jpop_fresh: "k \<notin> set (map fst o') \<Longrightarrow> jpop o' k = o'"
  by (induction o') (auto simp: jpop_def)

lemma jpop_jset_fresh: "k \<notin> set (map fst o') \<Longrightarrow> jpop (jset o' k v) k = o'"
  by (induction o' k v rule: jset.induct) (auto simp: jpop_def)

lemma py_int_JInt [simp]: "py_int (JInt i) = Inr i"
  by (simp add: py_int_def)

lemma py_float_simps [simp]: "py_float E (JFloat r) = Inr r" "py_float E (JInt i) = Inr (of_int i)"
  by (simp_all add: py_float_def)

lemma py_str_JStr [simp]: "py_str E (JStr s) = s"
  by (simp add: py_str_def)

lemma py_dict_JObj [simp]: "py_dict (JObj o') = Inr o'"
  by (simp add: py_dict_def)

lemma py_iter_JArr [simp]: "py_iter (JArr xs) = Inr xs"
  by (simp add: py_iter_def)

lemma as_obj_simps [simp]:
  "as_obj (JObj o') = Some o'" "as_obj JNull = None" "as_obj (JStr s) = None"
  "as_obj (JInt i) = None" "as_obj (JBool b) = None" "as_obj (JFloat r) = None"
  "as_obj (JArr xs) = None"
  by (simp_all add: as_obj_def)

lemma as_obj_Some: "as_obj v = Some o' \<longleftrightarrow> v = JObj o'"
  by (cases v) auto

lemma str_list_of_strs [simp]: "str_list_of E (JArr (map JStr ss)) = Inr ss"
  by (simp add: str_list_of_def comp_def)

lemma str_list_of_JNull [simp]: "str_list_of E JNull = Inr []"
  by (simp add: str_list_of_def)

lemma jor_simps [simp]:
  "truthy v \<Longrightarrow> jor v d = v"
  "\<not> truthy v \<Longrightarrow> jor v d = d"
  by (simp_all add: jor_def)

lemma jor_str: "jor (JStr s) (JStr []) = JStr s"
  by (cases s) (simp_all add: jor_def)

lemma jor_int0: "jor (JInt i) (JInt 0) = JInt i"
  by (simp add: jor_def)

end
