(* ===== verification/PyHash.thy ===== *)
theory PyHash
  imports PyJson "HOL-Library.Word"
begin

unbundle bit_operations_syntax

text \<open>
  The byte-level standard library the code calls: UTF-8 encoding, \<open>hashlib.sha256\<close>
  (FIPS 180-4), \<open>hmac.new(key, msg, sha256)\<close> (FIPS 198-1), \<open>hexdigest\<close> and
  \<open>base64\<close>. Bytes are natural numbers below 256. The properties of the development use
  the hash through its output format only; the definitions are the real functions, so the
  model has no free parameter here.
\<close>

type_synonym bytes = "nat list"

text \<open>UTF-8 of a code point up to 255: one or two bytes.\<close>

definition utf8_char :: "char \<Rightarrow> bytes" where
  "utf8_char c = (let n = code_pt c in if n < 128 then [n] else [192 + n div 64, 128 + n mod 64])"

definition utf8 :: "string \<Rightarrow> bytes" where
  "utf8 s = concat (map utf8_char s)"

section \<open>SHA-256\<close>

definition sha_k :: "32 word list" where
  "sha_k = [
   1116352408, 1899447441, 3049323471, 3921009573, 961987163, 1508970993, 2453635748, 2870763221,
   3624381080, 310598401, 607225278, 1426881987, 1925078388, 2162078206, 2614888103, 3248222580,
   3835390401, 4022224774, 264347078, 604807628, 770255983, 1249150122, 1555081692, 1996064986,
   2554220882, 2821834349, 2952996808, 3210313671, 3336571891, 3584528711, 113926993, 338241895,
   666307205, 773529912, 1294757372, 1396182291, 1695183700, 1986661051, 2177026350, 2456956037,
   2730485921, 2820302411, 3259730800, 3345764771, 3516065817, 3600352804, 4094571909, 275423344,
   430227734, 506948616, 659060556, 883997877, 958139571, 1322822218, 1537002063, 1747873779,
   1955562222, 2024104815, 2227730452, 2361852424, 2428436474, 2756734187, 3204031479, 3329325298]"

definition sha_init :: "32 word list" where
  "sha_init = [1779033703, 3144134277, 1013904242, 2773480762,
               1359893119, 2600822924, 528734635, 1541459225]"

definition small_sigma0 :: "32 word \<Rightarrow> 32 word" where
  "small_sigma0 x = word_rotr 7 x XOR word_rotr 18 x XOR drop_bit 3 x"

definition small_sigma1 :: "32 word \<Rightarrow> 32 word" where
  "small_sigma1 x = word_rotr 17 x XOR word_rotr 19 x XOR drop_bit 10 x"

definition big_sigma0 :: "32 word \<Rightarrow> 32 word" where
  "big_sigma0 x = word_rotr 2 x XOR word_rotr 13 x XOR word_rotr 22 x"

definition big_sigma1 :: "32 word \<Rightarrow> 32 word" where
  "big_sigma1 x = word_rotr 6 x XOR word_rotr 11 x XOR word_rotr 25 x"

text \<open>The message schedule, 48 further words after the 16 of the block.\<close>

fun sha_schedule :: "nat \<Rightarrow> 32 word list \<Rightarrow> 32 word list" where
  "sha_schedule 0 w = w"
| "sha_schedule (Suc n) w = (let t = length w in
     sha_schedule n (w @ [small_sigma1 (w ! (t - 2)) + w ! (t - 7)
                          + small_sigma0 (w ! (t - 15)) + w ! (t - 16)]))"

definition sha_round :: "32 word list \<Rightarrow> 32 word \<times> 32 word \<Rightarrow> 32 word list" where
  "sha_round st kw = (case st of
      [a, b, c, d, e, f, g, h] \<Rightarrow>
        (let t1 = h + big_sigma1 e + ((e AND f) XOR (NOT e AND g)) + fst kw + snd kw;
             t2 = big_sigma0 a + ((a AND b) XOR (a AND c) XOR (b AND c))
         in [t1 + t2, a, b, c, d + t1, e, f, g])
    | _ \<Rightarrow> st)"

definition word_of_bytes :: "bytes \<Rightarrow> 32 word" where
  "word_of_bytes bs = word_of_nat (foldl (\<lambda>a b. 256 * a + b) 0 bs)"

fun chunks :: "nat \<Rightarrow> 'a list \<Rightarrow> 'a list list" where
  "chunks n xs = (if n = 0 \<or> xs = [] then [] else take n xs # chunks n (drop n xs))"

declare chunks.simps [simp del]

definition sha_block :: "32 word list \<Rightarrow> bytes \<Rightarrow> 32 word list" where
  "sha_block st blk = (let w = sha_schedule 48 (map word_of_bytes (chunks 4 blk))
     in map2 (+) st (foldl sha_round st (zip sha_k w)))"

definition sha_pad :: "bytes \<Rightarrow> bytes" where
  "sha_pad bs = (let n = length bs; z = (119 - n mod 64) mod 64
     in bs @ [128] @ replicate z 0 @
        map (\<lambda>i. (8 * n div 256 ^ (7 - i)) mod 256) [0..<8])"

definition bytes_of_word :: "32 word \<Rightarrow> bytes" where
  "bytes_of_word w = (let n = unat w in
     [n div 16777216 mod 256, n div 65536 mod 256, n div 256 mod 256, n mod 256])"

definition sha256 :: "bytes \<Rightarrow> bytes" where
  "sha256 bs = concat (map bytes_of_word (foldl sha_block sha_init (chunks 64 (sha_pad bs))))"

definition hexdigest :: "bytes \<Rightarrow> string" where
  "hexdigest bs = concat (map (\<lambda>b. [hex_digit (b div 16), hex_digit (b mod 16)]) bs)"

definition hmac_sha256 :: "bytes \<Rightarrow> bytes \<Rightarrow> bytes" where
  "hmac_sha256 key msg = (let k0 = (if length key > 64 then sha256 key else key);
       k = k0 @ replicate (64 - length k0) 0
     in sha256 (map (\<lambda>b. b XOR 0x5c) k @ sha256 (map (\<lambda>b. b XOR 0x36) k @ msg)))"

section \<open>Base64\<close>

definition b64_char :: "nat \<Rightarrow> char" where
  "b64_char n = (if n < 26 then char_of (65 + n) else if n < 52 then char_of (71 + n)
     else if n < 62 then char_of (n - 4) else if n = 62 then CHR ''+'' else CHR ''/'')"

fun b64encode :: "bytes \<Rightarrow> string" where
  "b64encode [] = []"
| "b64encode [a] = [b64_char (a div 4), b64_char (a mod 4 * 16), CHR ''='', CHR ''='']"
| "b64encode [a, b] = [b64_char (a div 4), b64_char (a mod 4 * 16 + b div 16),
     b64_char (b mod 16 * 4), CHR ''='']"
| "b64encode (a # b # c # bs) = [b64_char (a div 4), b64_char (a mod 4 * 16 + b div 16),
     b64_char (b mod 16 * 4 + c div 64), b64_char (c mod 64)] @ b64encode bs"

definition urlsafe_b64encode :: "bytes \<Rightarrow> string" where
  "urlsafe_b64encode bs = py_replace_char (CHR ''/'') (CHR ''_'')
     (py_replace_char (CHR ''+'') (CHR ''-'') (b64encode bs))"

definition b64_val :: "char \<Rightarrow> nat option" where
  "b64_val c = (if is_upper_ascii c then Some (code_pt c - 65)
     else if is_lower_ascii c then Some (code_pt c - 71)
     else if is_digit c then Some (code_pt c + 4)
     else if c = CHR ''+'' then Some 62 else if c = CHR ''/'' then Some 63 else None)"

text \<open>
  \<open>binascii.a2b_base64\<close> in its default, lenient mode: characters outside the alphabet are
  skipped, a complete padding stops the input, an incomplete quartet is an error. The
  arguments are the position in the quartet, the pending bits and the padding seen.
\<close>

fun a2b_base64 :: "nat \<Rightarrow> nat \<Rightarrow> nat \<Rightarrow> string \<Rightarrow> bytes option" where
  "a2b_base64 quad left pads [] = (if quad = 0 then Some [] else None)"
| "a2b_base64 quad left pads (c # cs) =
     (if c = CHR ''='' then
        (if quad \<ge> 2 \<and> quad + Suc pads \<ge> 4 then Some []
         else a2b_base64 quad left (if quad \<ge> 2 then Suc pads else pads) cs)
      else (case b64_val c of
          None \<Rightarrow> a2b_base64 quad left pads cs
        | Some v \<Rightarrow>
           (if quad = 0 then a2b_base64 1 v 0 cs
            else if quad = 1 then map_option (Cons (left * 4 + v div 16)) (a2b_base64 2 (v mod 16) 0 cs)
            else if quad = 2 then map_option (Cons (left * 16 + v div 4)) (a2b_base64 3 (v mod 4) 0 cs)
            else map_option (Cons (left * 64 + v)) (a2b_base64 0 0 0 cs))))"

definition urlsafe_b64decode :: "string \<Rightarrow> bytes option" where
  "urlsafe_b64decode s = a2b_base64 0 0 0
     (py_replace_char (CHR ''_'') (CHR ''/'') (py_replace_char (CHR ''-'') (CHR ''+'') s))"

section \<open>Output format of the digest\<close>

lemma sha_round_length: "length st = 8 \<Longrightarrow> length (sha_round st kw) = 8"
  by (auto simp: sha_round_def Let_def split: list.splits)

lemma sha_rounds_length: "length st = 8 \<Longrightarrow> length (foldl sha_round st kws) = 8"
  by (induction kws arbitrary: st) (simp_all add: sha_round_length)

lemma sha_blocks_length: "length st = 8 \<Longrightarrow> length (foldl sha_block st bs) = 8"
  by (induction bs arbitrary: st) (simp_all add: sha_block_def Let_def sha_rounds_length)

lemma sha256_length [simp]: "length (sha256 bs) = 32"
proof -
  have "length (concat (map bytes_of_word ws)) = 4 * length ws" for ws
    by (induction ws) (simp_all add: bytes_of_word_def Let_def)
  moreover have "length (foldl sha_block sha_init bss) = 8" for bss
    by (rule sha_blocks_length) (simp add: sha_init_def)
  ultimately show ?thesis by (simp add: sha256_def)
qed

lemma sha256_byte: "b \<in> set (sha256 bs) \<Longrightarrow> b < 256"
  by (auto simp: sha256_def bytes_of_word_def Let_def)

lemma hex_digit_hex: "n < 16 \<Longrightarrow> is_hex_lower (hex_digit n)"
  by (auto simp: hex_digit_def is_hex_lower_def is_digit_def code_pt_def)

lemma hexdigest_length [simp]: "length (hexdigest bs) = 2 * length bs"
  by (induction bs) (simp_all add: hexdigest_def)

lemma hexdigest_hex: "\<forall>b\<in>set bs. b < 256 \<Longrightarrow> c \<in> set (hexdigest bs) \<Longrightarrow> is_hex_lower c"
  by (auto simp: hexdigest_def intro!: hex_digit_hex)

text \<open>A \<open>sha256\<close> hex digest as the code recognises it: \<open>[0-9a-f]{64}\<close>.\<close>

definition is_sha256_hex :: "string \<Rightarrow> bool" where
  "is_sha256_hex s \<longleftrightarrow> length s = 64 \<and> list_all is_hex_lower s"

definition sha256_hex :: "string \<Rightarrow> string" where
  "sha256_hex s = hexdigest (sha256 (utf8 s))"

lemma sha256_hex_format: "is_sha256_hex (sha256_hex s)"
  by (auto simp: is_sha256_hex_def sha256_hex_def list_all_iff
      intro: hexdigest_hex sha256_byte)

end
