(* ===== verification/WorkerProtocol.thy ===== *)
theory WorkerProtocol
  imports PyHash
begin

text \<open>
  The Worker protocol (\<open>worker_protocol.py\<close>): identifiers, sandbox-relative paths, the
  redaction of public values, the wire dataclasses with the checks of their
  \<open>__post_init__\<close>, their \<open>from_dict\<close> and \<open>to_dict\<close>, capability matching, the
  authorisation of a model grant and the evidence receipt. A dataclass is a record; its
  \<open>__post_init__\<close> is the check \<open>..._post_init\<close> that construction runs. A dataclass
  field declared \<open>Mapping[str, Any]\<close> is a JSON object, and a goal revision is kept as the
  raw JSON value because its type is checked at run time.
\<close>

section \<open>Constants\<close>

definition PROTOCOL_VERSION :: string where
  "PROTOCOL_VERSION = ''across-worker-session/1.0''"
definition CAPABILITY_SCHEMA :: string where
  "CAPABILITY_SCHEMA = ''across-node-capability/1.0''"
definition JOB_SCHEMA :: string where
  "JOB_SCHEMA = ''across-job-manifest/1.0''"
definition LEASE_SCHEMA :: string where
  "LEASE_SCHEMA = ''across-job-lease/1.0''"
definition EVENT_SCHEMA :: string where
  "EVENT_SCHEMA = ''across-job-event/1.0''"
definition ARTIFACT_SCHEMA :: string where
  "ARTIFACT_SCHEMA = ''across-artifact-manifest/1.0''"
definition MODEL_GRANT_SCHEMA :: string where
  "MODEL_GRANT_SCHEMA = ''across-model-grant/1.0''"
definition EVIDENCE_SCHEMA :: string where
  "EVIDENCE_SCHEMA = ''across-worker-evidence/1.0''"

definition NODE_STATES :: "string list" where
  "NODE_STATES = [''pending_approval'', ''online_idle'', ''online_busy'', ''draining'',
     ''offline'', ''incompatible'', ''degraded'', ''revoked'']"

definition JOB_STATES :: "string list" where
  "JOB_STATES = [''queued'', ''leased'', ''preparing'', ''running'', ''waiting_model'',
     ''uploading'', ''verifying'', ''waiting_review'', ''completed'', ''failed'',
     ''cancelled'', ''lost'', ''expired'']"

definition TERMINAL_JOB_STATES :: "string list" where
  "TERMINAL_JOB_STATES = [''completed'', ''failed'', ''cancelled'', ''lost'', ''expired'']"

definition EXECUTORS :: "string list" where
  "EXECUTORS = [''bounded-process'', ''oci-container'', ''macos-container-or-vm'',
     ''agent-adapter'', ''workflow-runtime'']"

definition ISOLATION_LEVELS :: "string list" where
  "ISOLATION_LEVELS = [''isolated'', ''bounded'', ''unavailable'']"

section \<open>Hashes, identifiers, schemas and paths\<close>

definition canonical_json :: "pyenv \<Rightarrow> json \<Rightarrow> string" where
  "canonical_json E v = dumps_sorted E v"

definition payload_hash :: "pyenv \<Rightarrow> json \<Rightarrow> string" where
  "payload_hash E v = sha256_hex (canonical_json E v)"

definition ident_tail_char :: "char \<Rightarrow> bool" where
  "ident_tail_char c \<longleftrightarrow> is_alnum_ascii c \<or> c \<in> set ''._:-''"

text \<open>The regular expression \<open>_IDENTIFIER\<close>, full match.\<close>

definition is_identifier :: "string \<Rightarrow> bool" where
  "is_identifier s = (case s of [] \<Rightarrow> False
     | c # cs \<Rightarrow> is_alnum_ascii c \<and> list_all ident_tail_char cs \<and> length cs \<le> 127)"

definition require_identifier :: "string \<Rightarrow> string \<Rightarrow> string res" where
  "require_identifier value field_name = (let text = py_strip value in
     if is_identifier text then Inr text
     else Inl (ProtocolError (field_name @ '' must be a stable protocol identifier'')))"

fun require_identifiers :: "(string \<times> string) list \<Rightarrow> unit res" where
  "require_identifiers [] = Inr ()"
| "require_identifiers ((name, v) # r) =
     bindE (require_identifier v name) (\<lambda>_. require_identifiers r)"

definition require_schema :: "jobj \<Rightarrow> string \<Rightarrow> unit res" where
  "require_schema value expected = checkE (jget value ''schema_version'' = JStr expected)
     (ProtocolError (''unsupported schema_version; expected '' @ expected))"

text \<open>
  \<open>PurePosixPath(raw).parts\<close> of a relative path: empty and \<open>.\<close> components are
  dropped, \<open>..\<close> is kept.
\<close>

definition posix_parts :: "string \<Rightarrow> string list" where
  "posix_parts raw = filter (\<lambda>w. w \<noteq> [] \<and> w \<noteq> ''.'') (py_split (CHR ''/'') raw)"

definition normalize_relative_path :: "string \<Rightarrow> string \<Rightarrow> string res" where
  "normalize_relative_path value field_name =
     (let raw = py_strip (py_replace_char (CHR 0x5C) (CHR ''/'') value);
          parts = posix_parts raw
      in if raw = [] \<or> py_startswith raw ''/'' \<or> (\<exists>p\<in>set parts. p = [] \<or> p = ''.'' \<or> p = ''..'')
         then Inl (ProtocolError (field_name @ '' must stay inside the job sandbox''))
         else Inr (if parts = [] then ''.'' else py_join ''/'' parts))"

section \<open>Redaction of public values\<close>

definition secret_suffixes :: "string list" where
  "secret_suffixes = [''apikey'', ''api_key'', ''api-key'', ''authorization'', ''credential'',
     ''password'', ''privatekey'', ''private_key'', ''private-key'', ''sessionkey'',
     ''session_key'', ''session-key'', ''secret'', ''token'']"

text \<open>\<open>_SECRET_KEY.search\<close>: the dollar also matches before a final newline.\<close>

definition is_secret_key :: "string \<Rightarrow> bool" where
  "is_secret_key name \<longleftrightarrow> (let n = py_lower name in
     \<exists>w\<in>set secret_suffixes. py_endswith n w \<or> py_endswith n (w @ [CHR 0x0A]))"

text \<open>
  \<open>re.sub\<close> for a pattern given as a matcher: the length of the match at the current
  position, given the character before it.
\<close>

function re_sub :: "(char option \<Rightarrow> string \<Rightarrow> nat option) \<Rightarrow> string \<Rightarrow> char option \<Rightarrow> string \<Rightarrow> string" where
  "re_sub m rep prev s = (case s of [] \<Rightarrow> []
     | c # cs \<Rightarrow> (case m prev s of
          Some n \<Rightarrow> (if n = 0 then c # re_sub m rep (Some c) cs
                     else rep @ re_sub m rep (Some (last (take n s))) (drop n s))
        | None \<Rightarrow> c # re_sub m rep (Some c) cs))"
  by pat_completeness auto
termination
  by (relation "measure (\<lambda>(m, rep, prev, s). length s)") auto

declare re_sub.simps [simp del]

definition path_seg_char :: "char \<Rightarrow> bool" where
  "path_seg_char c \<longleftrightarrow> c \<noteq> CHR ''/'' \<and> \<not> is_space c"

definition match_prefix_then :: "string \<Rightarrow> (char \<Rightarrow> bool) \<Rightarrow> string \<Rightarrow> nat option" where
  "match_prefix_then p ok s = (if py_startswith s p
     then (let k = length (takeWhile ok (drop (length p) s)) in if k = 0 then None else Some (length p + k))
     else None)"

definition match_user_path :: "char option \<Rightarrow> string \<Rightarrow> nat option" where
  "match_user_path prev s = (case match_prefix_then ''/Users/'' path_seg_char s of
     Some n \<Rightarrow> Some n | None \<Rightarrow> match_prefix_then ''/home/'' path_seg_char s)"

definition bearer_char :: "char \<Rightarrow> bool" where
  "bearer_char c \<longleftrightarrow> is_alnum_ascii c \<or> c \<in> set ''._~+/-''"

definition match_bearer :: "char option \<Rightarrow> string \<Rightarrow> nat option" where
  "match_bearer prev s = (if py_startswith (py_lower (take 6 s)) ''bearer''
     then (let r1 = drop 6 s; ws = length (takeWhile is_space r1); r2 = drop ws r1;
               k = length (takeWhile bearer_char r2); r3 = drop k r2;
               eqs = length (takeWhile (\<lambda>c. c = CHR ''='') r3)
           in if ws = 0 \<or> k = 0 then None else Some (6 + ws + k + eqs))
     else None)"

definition key_char :: "char \<Rightarrow> bool" where
  "key_char c \<longleftrightarrow> is_alnum_ascii c \<or> c = CHR ''_'' \<or> c = CHR ''-''"

definition match_key_after :: "nat \<Rightarrow> string \<Rightarrow> nat option" where
  "match_key_after n s = (case drop n s of
      c # r \<Rightarrow> (if c = CHR ''-'' \<or> c = CHR ''_''
        then (let k = length (takeWhile key_char r) in if 16 \<le> k then Some (n + 1 + k) else None)
        else None)
    | [] \<Rightarrow> None)"

definition match_api_key :: "char option \<Rightarrow> string \<Rightarrow> nat option" where
  "match_api_key prev s =
     (if (case prev of Some c \<Rightarrow> is_alnum_ascii c | None \<Rightarrow> False) then None
      else if py_lower (take 2 s) = ''sk'' then match_key_after 2 s
      else if py_lower (take 3 s) = ''gho'' \<or> py_lower (take 3 s) = ''ghp'' then match_key_after 3 s
      else None)"

definition sanitize_text :: "string \<Rightarrow> string" where
  "sanitize_text t = re_sub match_api_key ''[redacted]'' None
     (re_sub match_bearer ''Bearer [redacted]'' None
       (re_sub match_user_path ''<user-home>'' None t))"

definition is_jbool :: "json \<Rightarrow> bool" where
  "is_jbool v = (case v of JBool _ \<Rightarrow> True | _ \<Rightarrow> False)"

fun sanitize_public :: "json \<Rightarrow> json" where
  "sanitize_public (JObj o') = JObj (map (\<lambda>p. (fst p,
      if is_secret_key (fst p) \<and> \<not> is_jbool (snd p) then JStr ''[redacted]''
      else sanitize_public (snd p))) o')"
| "sanitize_public (JArr xs) = JArr (map sanitize_public xs)"
| "sanitize_public (JStr s) = JStr (sanitize_text s)"
| "sanitize_public v = v"

definition sanitize_obj :: "jobj \<Rightarrow> jobj" where
  "sanitize_obj o' = (case sanitize_public (JObj o') of JObj r \<Rightarrow> r | _ \<Rightarrow> [])"

section \<open>Helpers on optional fields\<close>

text \<open>\<open>bool(x)\<close> of a field that is a string or \<open>None\<close>.\<close>

definition opt_truthy :: "string option \<Rightarrow> bool" where
  "opt_truthy x \<longleftrightarrow> x \<noteq> None \<and> x \<noteq> Some []"

definition jopt :: "string option \<Rightarrow> json" where
  "jopt x = (case x of None \<Rightarrow> JNull | Some s \<Rightarrow> JStr s)"

definition jstrs :: "string list \<Rightarrow> json" where
  "jstrs ss = JArr (map JStr ss)"

text \<open>\<open>str(v) if v is not None else None\<close>\<close>

definition opt_str :: "pyenv \<Rightarrow> json \<Rightarrow> string option" where
  "opt_str E v = (if v = JNull then None else Some (py_str E v))"

text \<open>\<open>str(value.get(k) or d)\<close> and \<open>int(value.get(k) or d)\<close>\<close>

definition get_str :: "pyenv \<Rightarrow> jobj \<Rightarrow> string \<Rightarrow> string \<Rightarrow> string" where
  "get_str E o' k d = py_str E (jor (jget o' k) (JStr d))"

definition get_int :: "jobj \<Rightarrow> string \<Rightarrow> int \<Rightarrow> int res" where
  "get_int o' k d = py_int (jor (jget o' k) (JInt d))"

definition get_float :: "pyenv \<Rightarrow> jobj \<Rightarrow> string \<Rightarrow> rat \<Rightarrow> rat res" where
  "get_float E o' k d = py_float E (jor (jget o' k) (JFloat d))"

definition get_dict :: "jobj \<Rightarrow> string \<Rightarrow> jobj res" where
  "get_dict o' k = py_dict (jor (jget o' k) (JObj []))"

definition get_strs :: "pyenv \<Rightarrow> jobj \<Rightarrow> string \<Rightarrow> string list res" where
  "get_strs E o' k = str_list_of E (jget o' k)"

text \<open>\<open>type(v) is int and v > 0\<close>: booleans are not of type int.\<close>

definition is_pos_int :: "json \<Rightarrow> bool" where
  "is_pos_int v = (case v of JInt i \<Rightarrow> 0 < i | _ \<Rightarrow> False)"

end
