(* ===== verification/WorkerModels.thy ===== *)
theory WorkerModels
  imports WorkerProtocol
begin

text \<open>
  The dataclasses of \<open>worker_protocol.py\<close>: capability manifest, job manifest, lease,
  event, artifact descriptor, model grant, and the evidence receipt built from them.
\<close>

section \<open>CapabilityManifest\<close>

record capability =
  cm_node_id :: string
  cm_worker_version :: string
  cm_os :: string
  cm_os_version :: string
  cm_architecture :: string
  cm_cpu_count :: int
  cm_memory_bytes :: int
  cm_disk_available_bytes :: int
  cm_executors :: "string list"
  cm_isolation_level :: string
  cm_roles :: "string list"
  cm_protocol_versions :: "string list"
  cm_workflow_runtimes :: "string list"
  cm_tools :: "string list"
  cm_agents :: "string list"
  cm_labels :: "string list"
  cm_max_concurrency :: int
  cm_current_load :: rat
  cm_verification_status :: string
  cm_capability_source :: string
  cm_last_verified_at :: time
  cm_schema_version :: string

definition capability_post_init :: "capability \<Rightarrow> unit res" where
  "capability_post_init m =
     bindE (require_identifier (cm_node_id m) ''node_id'') (\<lambda>_.
     bindE (checkE (cm_schema_version m = CAPABILITY_SCHEMA)
       (ProtocolError ''unsupported capability manifest schema'')) (\<lambda>_.
     bindE (checkE (cm_architecture m \<in> {''x86_64'', ''arm64''})
       (ProtocolError ''unsupported worker architecture'')) (\<lambda>_.
     bindE (checkE (cm_os m \<in> {''macos'', ''linux''})
       (ProtocolError ''unsupported worker operating system'')) (\<lambda>_.
     bindE (checkE (cm_executors m \<noteq> [] \<and> list_all (\<lambda>e. e \<in> set EXECUTORS) (cm_executors m))
       (ProtocolError ''capability manifest contains an unsupported executor'')) (\<lambda>_.
     bindE (checkE (cm_isolation_level m \<in> set ISOLATION_LEVELS)
       (ProtocolError ''unsupported isolation level'')) (\<lambda>_.
     bindE (checkE (1 \<le> cm_max_concurrency m)
       (ProtocolError ''max_concurrency must be positive'')) (\<lambda>_.
     checkE (0 \<le> min (cm_cpu_count m) (min (cm_memory_bytes m) (cm_disk_available_bytes m)))
       (ProtocolError ''resource values cannot be negative''))))))))"

definition capability_from_dict :: "pyenv \<Rightarrow> jobj \<Rightarrow> capability res" where
  "capability_from_dict E value =
     bindE (require_schema value CAPABILITY_SCHEMA) (\<lambda>_.
     bindE (get_int value ''cpu_count'' 0) (\<lambda>cpu.
     bindE (get_int value ''memory_bytes'' 0) (\<lambda>mem.
     bindE (get_int value ''disk_available_bytes'' 0) (\<lambda>disk.
     bindE (get_strs E value ''executors'') (\<lambda>executors.
     bindE (str_list_of E (jor (jget value ''roles'') (JArr [JStr ''worker'']))) (\<lambda>roles.
     bindE (get_strs E value ''protocol_versions'') (\<lambda>versions.
     bindE (get_strs E value ''workflow_runtimes'') (\<lambda>runtimes.
     bindE (get_strs E value ''tools'') (\<lambda>tools.
     bindE (get_strs E value ''agents'') (\<lambda>agents.
     bindE (get_strs E value ''labels'') (\<lambda>labels.
     bindE (get_int value ''max_concurrency'' 1) (\<lambda>maxc.
     bindE (get_float E value ''current_load'' 0) (\<lambda>load.
     bindE (get_float E value ''last_verified_at'' 0) (\<lambda>verified_at.
     let m = \<lparr>
       cm_node_id = get_str E value ''node_id'' '''',
       cm_worker_version = get_str E value ''worker_version'' '''',
       cm_os = get_str E value ''os'' '''',
       cm_os_version = get_str E value ''os_version'' '''',
       cm_architecture = get_str E value ''architecture'' '''',
       cm_cpu_count = cpu, cm_memory_bytes = mem, cm_disk_available_bytes = disk,
       cm_executors = executors,
       cm_isolation_level = get_str E value ''isolation_level'' ''unavailable'',
       cm_roles = roles, cm_protocol_versions = versions, cm_workflow_runtimes = runtimes,
       cm_tools = tools, cm_agents = agents, cm_labels = labels,
       cm_max_concurrency = maxc, cm_current_load = load,
       cm_verification_status = get_str E value ''verification_status'' ''unknown'',
       cm_capability_source = get_str E value ''capability_source'' ''self-report'',
       cm_last_verified_at = verified_at, cm_schema_version = CAPABILITY_SCHEMA\<rparr>
     in bindE (capability_post_init m) (\<lambda>_. Inr m)))))))))))))))"

definition capability_to_dict :: "capability \<Rightarrow> jobj" where
  "capability_to_dict m = [
     (''node_id'', JStr (cm_node_id m)),
     (''worker_version'', JStr (cm_worker_version m)),
     (''os'', JStr (cm_os m)),
     (''os_version'', JStr (cm_os_version m)),
     (''architecture'', JStr (cm_architecture m)),
     (''cpu_count'', JInt (cm_cpu_count m)),
     (''memory_bytes'', JInt (cm_memory_bytes m)),
     (''disk_available_bytes'', JInt (cm_disk_available_bytes m)),
     (''executors'', jstrs (cm_executors m)),
     (''isolation_level'', JStr (cm_isolation_level m)),
     (''roles'', jstrs (cm_roles m)),
     (''protocol_versions'', jstrs (cm_protocol_versions m)),
     (''workflow_runtimes'', jstrs (cm_workflow_runtimes m)),
     (''tools'', jstrs (cm_tools m)),
     (''agents'', jstrs (cm_agents m)),
     (''labels'', jstrs (cm_labels m)),
     (''max_concurrency'', JInt (cm_max_concurrency m)),
     (''current_load'', JFloat (cm_current_load m)),
     (''verification_status'', JStr (cm_verification_status m)),
     (''capability_source'', JStr (cm_capability_source m)),
     (''last_verified_at'', JFloat (cm_last_verified_at m)),
     (''schema_version'', JStr (cm_schema_version m))]"

text \<open>The list checks of \<open>supports\<close>, in its order, stopping at the first that fails.\<close>

fun supports_lists :: "pyenv \<Rightarrow> jobj \<Rightarrow> (string \<times> string list) list \<Rightarrow> bool res" where
  "supports_lists E required [] = Inr True"
| "supports_lists E required ((key, available) # r) =
     bindE (get_strs E required key) (\<lambda>wanted.
       if set wanted \<subseteq> set available then supports_lists E required r else Inr False)"

definition supports :: "pyenv \<Rightarrow> capability \<Rightarrow> jobj \<Rightarrow> bool res" where
  "supports E m required =
     (if cm_verification_status m \<noteq> ''verified'' \<or> cm_capability_source m \<noteq> ''local-probe''
         \<or> PROTOCOL_VERSION \<notin> set (cm_protocol_versions m) then Inr False
      else if truthy (jget required ''os'') \<and> jget required ''os'' \<noteq> JStr (cm_os m) then Inr False
      else if truthy (jget required ''architecture'')
         \<and> jget required ''architecture'' \<noteq> JStr (cm_architecture m) then Inr False
      else if truthy (jget required ''executor'')
         \<and> jget required ''executor'' \<notin> JStr ` set (cm_executors m) then Inr False
      else if jget required ''isolation_level'' = JStr ''isolated''
         \<and> cm_isolation_level m \<noteq> ''isolated'' then Inr False
      else bindE (supports_lists E required [(''labels'', cm_labels m), (''tools'', cm_tools m),
             (''workflow_runtimes'', cm_workflow_runtimes m), (''agents'', cm_agents m)]) (\<lambda>ok.
        if \<not> ok then Inr False else
        bindE (get_int required ''memory_bytes'' 0) (\<lambda>mem.
        if mem > cm_memory_bytes m then Inr False else
        bindE (get_int required ''disk_bytes'' 0) (\<lambda>disk.
        Inr (disk \<le> cm_disk_available_bytes m)))))"

section \<open>JobManifest\<close>

record job_manifest =
  jm_job_id :: string
  jm_run_id :: string
  jm_project_id :: string
  jm_task_id :: "string option"
  jm_workflow_id :: string
  jm_idempotency_key :: string
  jm_command_argv :: "json list"
  jm_required_capabilities :: jobj
  jm_permissions :: jobj
  jm_budgets :: jobj
  jm_expected_outputs :: "string list"
  jm_executor :: string
  jm_retry_policy :: jobj
  jm_cancellation_policy :: jobj
  jm_cleanup_policy :: jobj
  jm_model_policy :: jobj
  jm_input_artifacts :: "jobj list"
  jm_preferred_labels :: "string list"
  jm_quality_gates :: "string list"
  jm_evidence_requirements :: "string list"
  jm_created_by :: string
  jm_created_at :: time
  jm_goal_id :: "string option"
  jm_goal_revision :: json
  jm_goal_node_id :: "string option"
  jm_criterion_ids :: "string list"
  jm_input_fingerprint :: "string option"
  jm_required_evidence :: "string list"
  jm_schema_version :: string

definition argv_item_ok :: "json \<Rightarrow> bool" where
  "argv_item_ok v = (case v of JStr s \<Rightarrow> s \<noteq> [] | _ \<Rightarrow> False)"

definition argv_item_len :: "json \<Rightarrow> nat" where
  "argv_item_len v = (case v of JStr s \<Rightarrow> length s | _ \<Rightarrow> 0)"

definition network_mode_check :: "jobj \<Rightarrow> unit res" where
  "network_mode_check permissions = (case jget_d permissions ''network'' (JObj []) of
      JObj net \<Rightarrow> (case jget_d net ''mode'' (JStr ''none'') of
           JStr mode \<Rightarrow> checkE (mode \<in> {''none'', ''allowlist''})
             (ProtocolError ''worker network permission must be none or allowlist'')
         | JArr _ \<Rightarrow> Inl (TypeError ''unhashable type'')
         | JObj _ \<Rightarrow> Inl (TypeError ''unhashable type'')
         | _ \<Rightarrow> Inl (ProtocolError ''worker network permission must be none or allowlist''))
    | _ \<Rightarrow> Inl (AttributeError ''get''))"

definition goal_values_present :: "job_manifest \<Rightarrow> bool" where
  "goal_values_present m \<longleftrightarrow> opt_truthy (jm_goal_id m) \<or> jm_goal_revision m \<noteq> JNull
     \<or> opt_truthy (jm_goal_node_id m) \<or> jm_criterion_ids m \<noteq> []
     \<or> opt_truthy (jm_input_fingerprint m) \<or> jm_required_evidence m \<noteq> []"

definition goal_values_complete :: "job_manifest \<Rightarrow> bool" where
  "goal_values_complete m \<longleftrightarrow> opt_truthy (jm_goal_id m) \<and> opt_truthy (jm_task_id m)
     \<and> is_pos_int (jm_goal_revision m) \<and> opt_truthy (jm_goal_node_id m)
     \<and> jm_criterion_ids m \<noteq> [] \<and> opt_truthy (jm_input_fingerprint m)
     \<and> jm_required_evidence m \<noteq> []"

definition goal_binding_check :: "job_manifest \<Rightarrow> unit res" where
  "goal_binding_check m = (if goal_values_present m then
     bindE (checkE (goal_values_complete m) (ProtocolError
       ''goal binding must include task, id, revision, node, criteria, input fingerprint, and evidence'')) (\<lambda>_.
     bindE (require_identifier (opt_or (jm_goal_id m) []) ''goal_id'') (\<lambda>_.
     bindE (require_identifier (opt_or (jm_goal_node_id m) []) ''goal_node_id'') (\<lambda>_.
     bindE (mapE (\<lambda>c. require_identifier c ''criterion_ids'') (jm_criterion_ids m)) (\<lambda>_.
     bindE (mapE (\<lambda>k. require_identifier k ''required_evidence'') (jm_required_evidence m)) (\<lambda>_.
     checkE (is_sha256_hex (opt_or (jm_input_fingerprint m) []))
       (ProtocolError ''goal binding input_fingerprint must be sha256''))))))
   else Inr ())"

definition manifest_post_init :: "job_manifest \<Rightarrow> unit res" where
  "manifest_post_init m =
     bindE (require_identifiers [(''job_id'', jm_job_id m), (''run_id'', jm_run_id m),
       (''project_id'', jm_project_id m), (''workflow_id'', jm_workflow_id m),
       (''idempotency_key'', jm_idempotency_key m)]) (\<lambda>_.
     bindE (case jm_task_id m of None \<Rightarrow> Inr [] | Some t \<Rightarrow> require_identifier t ''task_id'') (\<lambda>_.
     bindE (checkE (jm_schema_version m = JOB_SCHEMA)
       (ProtocolError ''unsupported job manifest schema'')) (\<lambda>_.
     bindE (checkE (jm_executor m \<in> set EXECUTORS) (ProtocolError ''unsupported job executor'')) (\<lambda>_.
     bindE (checkE (jm_command_argv m \<noteq> [] \<and> list_all argv_item_ok (jm_command_argv m))
       (ProtocolError ''command_argv must be a non-empty structured argument list'')) (\<lambda>_.
     bindE (checkE (length (jm_command_argv m) \<le> 128
         \<and> sum_list (map argv_item_len (jm_command_argv m)) \<le> 32768)
       (ProtocolError ''command_argv exceeds protocol limits'')) (\<lambda>_.
     bindE (mapE (\<lambda>out. normalize_relative_path out ''expected_outputs'') (jm_expected_outputs m)) (\<lambda>_.
     bindE (checkE (\<not> (truthy (jget (jm_retry_policy m) ''external_side_effects'')
         \<and> truthy (jget_d (jm_retry_policy m) ''retry_safe'' (JBool True))))
       (ProtocolError ''jobs with external side effects cannot be marked retry_safe'')) (\<lambda>_.
     bindE (network_mode_check (jm_permissions m)) (\<lambda>_.
     goal_binding_check m)))))))))"

definition manifest_from_dict :: "pyenv \<Rightarrow> time \<Rightarrow> jobj \<Rightarrow> job_manifest res" where
  "manifest_from_dict E now value =
     bindE (require_schema value JOB_SCHEMA) (\<lambda>_.
     bindE (case jget value ''command_argv'' of JArr xs \<Rightarrow> Inr xs
        | _ \<Rightarrow> Inl (ProtocolError ''command_argv must be an array, never a shell string'')) (\<lambda>command.
     bindE (get_dict value ''required_capabilities'') (\<lambda>caps.
     bindE (get_dict value ''permissions'') (\<lambda>perms.
     bindE (get_dict value ''budgets'') (\<lambda>budgets.
     bindE (get_strs E value ''expected_outputs'') (\<lambda>outs.
     bindE (get_dict value ''retry_policy'') (\<lambda>retry.
     bindE (get_dict value ''cancellation_policy'') (\<lambda>cancel.
     bindE (get_dict value ''cleanup_policy'') (\<lambda>cleanup.
     bindE (get_dict value ''model_policy'') (\<lambda>model.
     bindE (py_iter (jor (jget value ''input_artifacts'') (JArr []))) (\<lambda>raw_inputs.
     bindE (mapE py_dict raw_inputs) (\<lambda>inputs.
     bindE (get_strs E value ''preferred_labels'') (\<lambda>labels.
     bindE (get_strs E value ''quality_gates'') (\<lambda>gates.
     bindE (get_strs E value ''evidence_requirements'') (\<lambda>reqs.
     bindE (get_float E value ''created_at'' now) (\<lambda>created_at.
     bindE (get_strs E value ''criterion_ids'') (\<lambda>criteria.
     bindE (get_strs E value ''required_evidence'') (\<lambda>evidence.
     let m = \<lparr>
       jm_job_id = get_str E value ''job_id'' '''',
       jm_run_id = get_str E value ''run_id'' '''',
       jm_project_id = get_str E value ''project_id'' '''',
       jm_task_id = opt_str E (jget value ''task_id''),
       jm_workflow_id = get_str E value ''workflow_id'' '''',
       jm_idempotency_key = get_str E value ''idempotency_key'' '''',
       jm_command_argv = command,
       jm_required_capabilities = caps, jm_permissions = perms, jm_budgets = budgets,
       jm_expected_outputs = outs,
       jm_executor = get_str E value ''executor'' ''bounded-process'',
       jm_retry_policy = retry, jm_cancellation_policy = cancel,
       jm_cleanup_policy = cleanup, jm_model_policy = model,
       jm_input_artifacts = inputs, jm_preferred_labels = labels, jm_quality_gates = gates,
       jm_evidence_requirements = reqs,
       jm_created_by = get_str E value ''created_by'' ''host'',
       jm_created_at = created_at,
       jm_goal_id = opt_str E (jget value ''goal_id''),
       jm_goal_revision = jget value ''goal_revision'',
       jm_goal_node_id = opt_str E (jget value ''goal_node_id''),
       jm_criterion_ids = criteria,
       jm_input_fingerprint = opt_str E (jget value ''input_fingerprint''),
       jm_required_evidence = evidence,
       jm_schema_version = JOB_SCHEMA\<rparr>
     in bindE (manifest_post_init m) (\<lambda>_. Inr m)))))))))))))))))))"

definition manifest_to_dict :: "job_manifest \<Rightarrow> jobj" where
  "manifest_to_dict m =
    [(''job_id'', JStr (jm_job_id m)),
     (''run_id'', JStr (jm_run_id m)),
     (''project_id'', JStr (jm_project_id m)),
     (''task_id'', jopt (jm_task_id m)),
     (''workflow_id'', JStr (jm_workflow_id m)),
     (''idempotency_key'', JStr (jm_idempotency_key m)),
     (''command_argv'', JArr (jm_command_argv m)),
     (''required_capabilities'', JObj (jm_required_capabilities m)),
     (''permissions'', JObj (jm_permissions m)),
     (''budgets'', JObj (jm_budgets m)),
     (''expected_outputs'', jstrs (jm_expected_outputs m)),
     (''executor'', JStr (jm_executor m)),
     (''retry_policy'', JObj (jm_retry_policy m)),
     (''cancellation_policy'', JObj (jm_cancellation_policy m)),
     (''cleanup_policy'', JObj (jm_cleanup_policy m)),
     (''model_policy'', JObj (jm_model_policy m)),
     (''input_artifacts'', JArr (map JObj (jm_input_artifacts m))),
     (''preferred_labels'', jstrs (jm_preferred_labels m)),
     (''quality_gates'', jstrs (jm_quality_gates m)),
     (''evidence_requirements'', jstrs (jm_evidence_requirements m)),
     (''created_by'', JStr (jm_created_by m)),
     (''created_at'', JFloat (jm_created_at m))] @
    (if jm_goal_id m = None then [] else
    [(''goal_id'', jopt (jm_goal_id m)),
     (''goal_revision'', jm_goal_revision m),
     (''goal_node_id'', jopt (jm_goal_node_id m)),
     (''criterion_ids'', jstrs (jm_criterion_ids m)),
     (''input_fingerprint'', jopt (jm_input_fingerprint m)),
     (''required_evidence'', jstrs (jm_required_evidence m))]) @
    [(''schema_version'', JStr (jm_schema_version m))]"

definition manifest_hash :: "pyenv \<Rightarrow> job_manifest \<Rightarrow> string" where
  "manifest_hash E m = payload_hash E (JObj (manifest_to_dict m))"

section \<open>JobLease\<close>

record job_lease =
  jl_lease_id :: string
  jl_job_id :: string
  jl_run_id :: string
  jl_node_id :: string
  jl_attempt :: int
  jl_manifest_hash :: string
  jl_issued_at :: time
  jl_expires_at :: time
  jl_heartbeat_interval_seconds :: rat
  jl_goal_id :: "string option"
  jl_goal_revision :: json
  jl_acknowledged_at :: "time option"
  jl_schema_version :: string

definition lease_post_init :: "job_lease \<Rightarrow> unit res" where
  "lease_post_init l =
     bindE (require_identifiers [(''lease_id'', jl_lease_id l), (''job_id'', jl_job_id l),
       (''run_id'', jl_run_id l), (''node_id'', jl_node_id l)]) (\<lambda>_.
     bindE (checkE (1 \<le> jl_attempt l \<and> jl_issued_at l < jl_expires_at l)
       (ProtocolError ''lease attempt and expiry must be valid'')) (\<lambda>_.
     bindE (checkE (is_sha256_hex (jl_manifest_hash l))
       (ProtocolError ''lease manifest_hash must be sha256'')) (\<lambda>_.
     bindE (checkE (opt_truthy (jl_goal_id l) = (jl_goal_revision l \<noteq> JNull))
       (ProtocolError ''lease goal binding must include id and revision'')) (\<lambda>_.
     if opt_truthy (jl_goal_id l) then
       bindE (require_identifier (opt_or (jl_goal_id l) []) ''goal_id'') (\<lambda>_.
       checkE (is_pos_int (jl_goal_revision l)) (ProtocolError ''lease goal_revision must be positive''))
     else Inr ()))))"

section \<open>JobEvent\<close>

record job_event =
  je_event_id :: string
  je_job_id :: string
  je_run_id :: string
  je_node_id :: string
  je_lease_id :: string
  je_attempt :: int
  je_sequence :: int
  je_state :: string
  je_goal_id :: "string option"
  je_goal_revision :: json
  je_reason_category :: "string option"
  je_payload :: jobj
  je_created_at :: time
  je_schema_version :: string

definition event_post_init :: "job_event \<Rightarrow> unit res" where
  "event_post_init e =
     bindE (checkE (je_state e \<in> set JOB_STATES) (ProtocolError ''unsupported job state'')) (\<lambda>_.
     bindE (checkE (1 \<le> je_attempt e \<and> 1 \<le> je_sequence e)
       (ProtocolError ''event attempt and sequence must be positive'')) (\<lambda>_.
     bindE (require_identifiers [(''event_id'', je_event_id e), (''job_id'', je_job_id e),
       (''run_id'', je_run_id e), (''node_id'', je_node_id e), (''lease_id'', je_lease_id e)]) (\<lambda>_.
     bindE (checkE (opt_truthy (je_goal_id e) = (je_goal_revision e \<noteq> JNull))
       (ProtocolError ''event goal binding must include id and revision'')) (\<lambda>_.
     if opt_truthy (je_goal_id e) then
       bindE (require_identifier (opt_or (je_goal_id e) []) ''goal_id'') (\<lambda>_.
       checkE (is_pos_int (je_goal_revision e)) (ProtocolError ''event goal_revision must be positive''))
     else Inr ()))))"

definition event_fields :: "job_event \<Rightarrow> jobj" where
  "event_fields e =
    [(''event_id'', JStr (je_event_id e)),
     (''job_id'', JStr (je_job_id e)),
     (''run_id'', JStr (je_run_id e)),
     (''node_id'', JStr (je_node_id e)),
     (''lease_id'', JStr (je_lease_id e)),
     (''attempt'', JInt (je_attempt e)),
     (''sequence'', JInt (je_sequence e)),
     (''state'', JStr (je_state e))] @
    (if je_goal_id e = None then [] else
    [(''goal_id'', jopt (je_goal_id e)),
     (''goal_revision'', je_goal_revision e)]) @
    [(''reason_category'', jopt (je_reason_category e)),
     (''payload'', JObj (je_payload e)),
     (''created_at'', JFloat (je_created_at e)),
     (''schema_version'', JStr (je_schema_version e))]"

definition event_to_dict :: "job_event \<Rightarrow> jobj" where
  "event_to_dict e = sanitize_obj (event_fields e)"

section \<open>ArtifactDescriptor\<close>

record artifact =
  ad_artifact_id :: string
  ad_run_id :: string
  ad_job_id :: string
  ad_node_id :: string
  ad_logical_name :: string
  ad_media_type :: string
  ad_size :: int
  ad_sha256 :: string
  ad_sensitivity :: string
  ad_retention :: string
  ad_producer :: string
  ad_chunks :: "jobj list"
  ad_upload_status :: string
  ad_verification_status :: string
  ad_created_at :: time
  ad_schema_version :: string

definition artifact_post_init :: "artifact \<Rightarrow> unit res" where
  "artifact_post_init a =
     bindE (require_identifiers [(''artifact_id'', ad_artifact_id a), (''run_id'', ad_run_id a),
       (''job_id'', ad_job_id a), (''node_id'', ad_node_id a)]) (\<lambda>_.
     bindE (normalize_relative_path (ad_logical_name a) ''logical_name'') (\<lambda>_.
     checkE (0 \<le> ad_size a \<and> is_sha256_hex (ad_sha256 a))
       (ProtocolError ''artifact size/hash is invalid'')))"

definition artifact_to_dict :: "artifact \<Rightarrow> jobj" where
  "artifact_to_dict a = [
     (''artifact_id'', JStr (ad_artifact_id a)),
     (''run_id'', JStr (ad_run_id a)),
     (''job_id'', JStr (ad_job_id a)),
     (''node_id'', JStr (ad_node_id a)),
     (''logical_name'', JStr (ad_logical_name a)),
     (''media_type'', JStr (ad_media_type a)),
     (''size'', JInt (ad_size a)),
     (''sha256'', JStr (ad_sha256 a)),
     (''sensitivity'', JStr (ad_sensitivity a)),
     (''retention'', JStr (ad_retention a)),
     (''producer'', JStr (ad_producer a)),
     (''chunks'', JArr (map JObj (ad_chunks a))),
     (''upload_status'', JStr (ad_upload_status a)),
     (''verification_status'', JStr (ad_verification_status a)),
     (''created_at'', JFloat (ad_created_at a)),
     (''schema_version'', JStr (ad_schema_version a))]"

text \<open>
  \<open>ArtifactDescriptor(**values)\<close> for keyword values of the declared types; an unknown or
  missing keyword is a TypeError, and so, here, is a value of another type.
\<close>

definition kw_str :: "jobj \<Rightarrow> string \<Rightarrow> string option \<Rightarrow> string res" where
  "kw_str o' k d = (case jlookup o' k of
      Some (JStr s) \<Rightarrow> Inr s
    | Some _ \<Rightarrow> Inl (TypeError k)
    | None \<Rightarrow> (case d of Some s \<Rightarrow> Inr s | None \<Rightarrow> Inl (TypeError (''missing argument '' @ k))))"

definition artifact_keys :: "string list" where
  "artifact_keys = [''artifact_id'', ''run_id'', ''job_id'', ''node_id'', ''logical_name'',
     ''media_type'', ''size'', ''sha256'', ''sensitivity'', ''retention'', ''producer'', ''chunks'',
     ''upload_status'', ''verification_status'', ''created_at'', ''schema_version'']"

definition artifact_of_kwargs :: "time \<Rightarrow> jobj \<Rightarrow> artifact res" where
  "artifact_of_kwargs now v =
     bindE (checkE (list_all (\<lambda>p. fst p \<in> set artifact_keys) v)
       (TypeError ''unexpected keyword argument'')) (\<lambda>_.
     bindE (kw_str v ''artifact_id'' None) (\<lambda>aid.
     bindE (kw_str v ''run_id'' None) (\<lambda>rid.
     bindE (kw_str v ''job_id'' None) (\<lambda>jid.
     bindE (kw_str v ''node_id'' None) (\<lambda>nid.
     bindE (kw_str v ''logical_name'' None) (\<lambda>name.
     bindE (kw_str v ''media_type'' None) (\<lambda>media.
     bindE (case jget v ''size'' of JInt i \<Rightarrow> Inr i | _ \<Rightarrow> Inl (TypeError ''size'')) (\<lambda>size.
     bindE (kw_str v ''sha256'' None) (\<lambda>digest.
     bindE (kw_str v ''sensitivity'' (Some ''internal'')) (\<lambda>sens.
     bindE (kw_str v ''retention'' (Some ''run'')) (\<lambda>ret.
     bindE (kw_str v ''producer'' (Some ''worker'')) (\<lambda>prod.
     bindE (case jlookup v ''chunks'' of None \<Rightarrow> Inr []
        | Some (JArr xs) \<Rightarrow> mapE py_dict xs | Some _ \<Rightarrow> Inl (TypeError ''chunks'')) (\<lambda>chunks.
     bindE (kw_str v ''upload_status'' (Some ''pending'')) (\<lambda>up.
     bindE (kw_str v ''verification_status'' (Some ''pending'')) (\<lambda>ver.
     bindE (case jlookup v ''created_at'' of None \<Rightarrow> Inr now | Some (JFloat r) \<Rightarrow> Inr r
        | Some (JInt i) \<Rightarrow> Inr (of_int i) | Some _ \<Rightarrow> Inl (TypeError ''created_at'')) (\<lambda>created.
     bindE (kw_str v ''schema_version'' (Some ARTIFACT_SCHEMA)) (\<lambda>schema.
     let a = \<lparr>ad_artifact_id = aid, ad_run_id = rid, ad_job_id = jid, ad_node_id = nid,
       ad_logical_name = name, ad_media_type = media, ad_size = size, ad_sha256 = digest,
       ad_sensitivity = sens, ad_retention = ret, ad_producer = prod, ad_chunks = chunks,
       ad_upload_status = up, ad_verification_status = ver, ad_created_at = created,
       ad_schema_version = schema\<rparr>
     in bindE (artifact_post_init a) (\<lambda>_. Inr a))))))))))))))))))"

section \<open>ModelGrant\<close>

record model_grant =
  mg_grant_id :: string
  mg_run_id :: string
  mg_job_id :: string
  mg_node_id :: string
  mg_audience :: string
  mg_scopes :: "string list"
  mg_model_policy :: string
  mg_purposes :: "string list"
  mg_max_calls :: int
  mg_max_tokens :: int
  mg_max_concurrency :: int
  mg_max_cost_usd :: rat
  mg_issued_at :: time
  mg_expires_at :: time
  mg_revoked_at :: "time option"
  mg_schema_version :: string

definition grant_post_init :: "model_grant \<Rightarrow> unit res" where
  "grant_post_init g =
     bindE (require_identifiers [(''grant_id'', mg_grant_id g), (''run_id'', mg_run_id g),
       (''job_id'', mg_job_id g), (''node_id'', mg_node_id g), (''audience'', mg_audience g)]) (\<lambda>_.
     checkE (mg_issued_at g < mg_expires_at g
         \<and> 0 \<le> min (mg_max_calls g) (min (mg_max_tokens g) (mg_max_concurrency g)))
       (ProtocolError ''model grant limits or expiry are invalid''))"

definition grant_authorize ::
  "model_grant \<Rightarrow> string \<Rightarrow> string \<Rightarrow> string \<Rightarrow> string \<Rightarrow> string \<Rightarrow> string \<Rightarrow> time \<Rightarrow> unit res" where
  "grant_authorize g run_id job_id node_id audience scope purpose timestamp =
     bindE (checkE (mg_revoked_at g = None \<and> timestamp < mg_expires_at g)
       (ProtocolError ''model grant is expired or revoked'')) (\<lambda>_.
     bindE (checkE ((run_id, job_id, node_id, audience)
          = (mg_run_id g, mg_job_id g, mg_node_id g, mg_audience g))
       (ProtocolError ''model grant binding mismatch'')) (\<lambda>_.
     checkE (scope \<in> set (mg_scopes g) \<and> purpose \<in> set (mg_purposes g))
       (ProtocolError ''model grant scope or purpose denied'')))"

section \<open>Evidence receipt\<close>

definition receipt_artifact :: "artifact \<Rightarrow> json" where
  "receipt_artifact a = JObj [(''artifact_id'', JStr (ad_artifact_id a)),
     (''logical_name'', JStr (ad_logical_name a)), (''size'', JInt (ad_size a)),
     (''sha256'', JStr (ad_sha256 a))]"

definition receipt_body ::
  "pyenv \<Rightarrow> job_manifest \<Rightarrow> capability \<Rightarrow> job_lease \<Rightarrow> string \<Rightarrow> artifact list \<Rightarrow> jobj \<Rightarrow> jobj
   \<Rightarrow> string \<Rightarrow> time \<Rightarrow> time \<Rightarrow> jobj \<Rightarrow> jobj" where
  "receipt_body E manifest node lease terminal_state artifacts quality_gates model_usage
      cleanup_status started_at ended_at resource_usage =
    [(''schema_version'', JStr EVIDENCE_SCHEMA),
     (''run_id'', JStr (jm_run_id manifest)),
     (''job_id'', JStr (jm_job_id manifest)),
     (''task_id'', jopt (jm_task_id manifest)),
     (''goal_hash'', JStr (payload_hash E (JObj [(''workflow_id'', JStr (jm_workflow_id manifest)),
        (''project_id'', JStr (jm_project_id manifest))]))),
     (''manifest_hash'', JStr (manifest_hash E manifest)),
     (''permission_plan_hash'', JStr (payload_hash E (JObj (jm_permissions manifest)))),
     (''node'', JObj [(''node_id'', JStr (cm_node_id node)),
        (''worker_version'', JStr (cm_worker_version node)),
        (''platform'', JStr (cm_os node @ ''/'' @ cm_architecture node)),
        (''executor'', JStr (jm_executor manifest)),
        (''isolation_level'', JStr (cm_isolation_level node))]),
     (''attempt'', JInt (jl_attempt lease)),
     (''lease_id'', JStr (jl_lease_id lease)),
     (''started_at'', JFloat started_at),
     (''ended_at'', JFloat ended_at),
     (''terminal_state'', JStr terminal_state),
     (''artifacts'', JArr (map receipt_artifact artifacts)),
     (''model_usage'', sanitize_public (JObj model_usage)),
     (''quality_gates'', sanitize_public (JObj quality_gates)),
     (''cleanup_status'', JStr cleanup_status),
     (''resource_usage'', sanitize_public (JObj resource_usage))] @
    (if opt_truthy (jm_goal_id manifest) then
    [(''goal_id'', jopt (jm_goal_id manifest)),
     (''goal_revision'', jm_goal_revision manifest),
     (''goal_node_id'', jopt (jm_goal_node_id manifest)),
     (''criterion_ids'', jstrs (jm_criterion_ids manifest)),
     (''input_fingerprint'', jopt (jm_input_fingerprint manifest)),
     (''required_evidence'', jstrs (jm_required_evidence manifest))] else [])"

definition build_evidence_receipt ::
  "pyenv \<Rightarrow> job_manifest \<Rightarrow> capability \<Rightarrow> job_lease \<Rightarrow> string \<Rightarrow> artifact list \<Rightarrow> jobj \<Rightarrow> jobj
   \<Rightarrow> string \<Rightarrow> time \<Rightarrow> time \<Rightarrow> jobj \<Rightarrow> jobj res" where
  "build_evidence_receipt E manifest node lease terminal_state artifacts quality_gates model_usage
      cleanup_status started_at ended_at resource_usage =
     bindE (checkE (terminal_state \<in> set TERMINAL_JOB_STATES \<or> terminal_state = ''waiting_review'')
       (ProtocolError ''evidence receipt requires a terminal or review state'')) (\<lambda>_.
     let receipt = receipt_body E manifest node lease terminal_state artifacts quality_gates
       model_usage cleanup_status started_at ended_at resource_usage
     in Inr (jset receipt ''receipt_hash'' (JStr (payload_hash E (JObj receipt)))))"

end
