(* ===== verification/ProtocolFacts.thy ===== *)
theory ProtocolFacts
  imports WorkerModels
begin

text \<open>
  Properties of the Worker protocol layer: what an accepted identifier or path looks like,
  that redaction leaves no secret-shaped field behind, that the capability and job manifests
  survive the trip through their dictionaries, that capability matching is sound, and that an
  evidence receipt carries the hash of its own content.
\<close>

section \<open>Identifiers and paths\<close>

lemma is_identifier_chars:
  assumes "is_identifier s" and "c \<in> set s"
  shows "ident_tail_char c"
  using assms by (cases s) (auto simp: is_identifier_def list_all_iff ident_tail_char_def)

lemma ident_tail_char_not_space: "ident_tail_char c \<Longrightarrow> \<not> is_space c"
  by (auto simp: ident_tail_char_def char_class_defs)

lemma ident_tail_char_not_sep: "ident_tail_char c \<Longrightarrow> c \<noteq> CHR ''/'' \<and> c \<noteq> CHR 0x5C"
  by (auto simp: ident_tail_char_def char_class_defs)

lemma is_identifier_strip: "is_identifier s \<Longrightarrow> py_strip s = s"
  by (rule py_strip_no_space) (blast dest: is_identifier_chars ident_tail_char_not_space)

lemma is_identifier_length: "is_identifier s \<Longrightarrow> s \<noteq> [] \<and> length s \<le> 128"
  by (cases s) (auto simp: is_identifier_def)

lemma require_identifier_Inr [res_iff]:
  "require_identifier v f = Inr t \<longleftrightarrow> t = py_strip v \<and> is_identifier t"
  by (auto simp: require_identifier_def Let_def)

lemma is_identifier_not_dots: "is_identifier s \<Longrightarrow> s \<noteq> ''.'' \<and> s \<noteq> ''..''"
  by (auto simp: is_identifier_def char_class_defs)

lemma require_identifiers_Inr [res_iff]:
  "require_identifiers ps = Inr u \<longleftrightarrow> (\<forall>p\<in>set ps. is_identifier (py_strip (snd p)))"
  by (induction ps rule: require_identifiers.induct) (auto simp: res_iff)

subsection \<open>A sandbox-relative path never leaves the sandbox\<close>

text \<open>
  The walk a file system does along the components of a path, below a directory given as the
  list of its components, innermost first: \<open>..\<close> pops one.
\<close>

fun walk :: "string list \<Rightarrow> string list \<Rightarrow> string list" where
  "walk dir [] = dir"
| "walk dir (p # ps) = (if p = [] \<or> p = ''.'' then walk dir ps
     else if p = ''..'' then walk (tl dir) ps else walk (p # dir) ps)"

lemma walk_below: "''..'' \<notin> set ps \<Longrightarrow> \<exists>below. walk dir ps = below @ dir"
proof (induction ps arbitrary: dir)
  case (Cons p ps)
  then obtain b where "walk (p # dir) ps = b @ p # dir" by fastforce
  moreover obtain b' where "walk dir ps = b' @ dir" using Cons by fastforce
  ultimately show ?case
    using Cons.prems by (auto intro: exI [of _ "b @ [p]"])
qed simp

lemma posix_parts_plain: "p \<in> set (posix_parts raw) \<Longrightarrow> p \<noteq> [] \<and> p \<noteq> ''.'' \<and> CHR ''/'' \<notin> set p"
  by (auto simp: posix_parts_def dest: py_split_no_sep)

lemma posix_parts_join:
  assumes "\<forall>p\<in>set ps. p \<noteq> [] \<and> p \<noteq> ''.'' \<and> CHR ''/'' \<notin> set p"
  shows "posix_parts (if ps = [] then ''.'' else py_join ''/'' ps) = ps"
proof (cases "ps = []")
  case True
  then show ?thesis by (simp add: posix_parts_def)
next
  case False
  with assms have "py_split (CHR ''/'') (py_join ''/'' ps) = ps"
    by (intro py_split_join) auto
  with False assms show ?thesis by (simp add: posix_parts_def)
qed

lemma py_join_hd: "ps \<noteq> [] \<Longrightarrow> hd ps \<noteq> [] \<Longrightarrow> \<exists>r. py_join s ps = hd ps @ r"
  by (induction s ps rule: py_join.induct) auto

lemma normalized_path_parts:
  assumes "normalize_relative_path v f = Inr p"
  shows "''..'' \<notin> set (posix_parts p) \<and> \<not> py_startswith p ''/''"
proof -
  let ?raw = "py_strip (py_replace_char (CHR 0x5C) (CHR ''/'') v)"
  let ?ps = "posix_parts ?raw"
  from assms have p: "p = (if ?ps = [] then ''.'' else py_join ''/'' ?ps)"
    and nodots: "''..'' \<notin> set ?ps"
    by (auto simp: normalize_relative_path_def Let_def split: if_splits)
  have plain: "\<forall>q\<in>set ?ps. q \<noteq> [] \<and> q \<noteq> ''.'' \<and> CHR ''/'' \<notin> set q"
    using posix_parts_plain by blast
  have parts: "posix_parts p = ?ps"
    unfolding p by (rule posix_parts_join [OF plain])
  have "\<not> py_startswith p ''/''"
  proof (cases "?ps = []")
    case True
    then show ?thesis by (simp add: p py_startswith_def)
  next
    case False
    then have "hd ?ps \<in> set ?ps" by simp
    with plain have h: "hd ?ps \<noteq> []" "CHR ''/'' \<notin> set (hd ?ps)" by blast+
    then obtain c cs r where "hd ?ps = c # cs" "py_join ''/'' ?ps = c # r"
      using py_join_hd [OF False h(1), of "''/''"] by (cases "hd ?ps") auto
    with h False show ?thesis by (auto simp: p py_startswith_def)
  qed
  with parts nodots show ?thesis by simp
qed

section \<open>Redaction\<close>

text \<open>No object of the value, at any depth, holds more than a flag or the redaction mark
  under a secret-shaped key.\<close>

fun redacted :: "json \<Rightarrow> bool" where
  "redacted (JObj o') \<longleftrightarrow> list_all (\<lambda>p.
      (is_secret_key (fst p) \<longrightarrow> is_jbool (snd p) \<or> snd p = JStr ''[redacted]'')
      \<and> redacted (snd p)) o'"
| "redacted (JArr xs) \<longleftrightarrow> list_all redacted xs"
| "redacted v \<longleftrightarrow> True"

lemma sanitize_public_redacted: "redacted (sanitize_public v)"
proof (induction v rule: sanitize_public.induct)
  case (1 o')
  then show ?case
    by (auto simp: list_all_iff is_jbool_def split: json.splits)
qed (auto simp: list_all_iff)

lemma sanitize_obj_eq: "JObj (sanitize_obj o') = sanitize_public (JObj o')"
  by (simp add: sanitize_obj_def)

lemma sanitize_obj_keys: "map fst (sanitize_obj o') = map fst o'"
  by (simp add: sanitize_obj_def)

lemma sanitize_obj_get:
  "jget (sanitize_obj o') k = (if jhas o' k then
     (if is_secret_key k \<and> \<not> is_jbool (jget o' k) then JStr ''[redacted]''
      else sanitize_public (jget o' k)) else JNull)"
  by (induction o') (auto simp: sanitize_obj_def jhas_def)

section \<open>Round trips\<close>

lemma wire_read:
  "py_str E (jor (JStr s) (JStr [])) = s"
  "s \<noteq> [] \<Longrightarrow> py_str E (jor (JStr s) (JStr d)) = s"
  "py_int (jor (JInt i) (JInt 0)) = Inr i"
  "i \<noteq> 0 \<Longrightarrow> py_int (jor (JInt i) (JInt n)) = Inr i"
  "py_float E (jor (JFloat r) (JFloat 0)) = Inr r"
  "r \<noteq> 0 \<Longrightarrow> py_float E (jor (JFloat r) (JFloat q)) = Inr r"
  "py_dict (jor (JObj b) (JObj [])) = Inr b"
  "str_list_of E (jstrs ss) = Inr ss"
  "ss \<noteq> [] \<Longrightarrow> str_list_of E (jor (jstrs ss) v) = Inr ss"
  "opt_str E (jopt x) = x"
  by (auto simp: jor_def jstrs_def jopt_def opt_str_def split: option.splits)

lemmas wire_defs = get_str_def get_int_def get_float_def get_dict_def get_strs_def wire_read

lemma truthy_jstrs: "truthy (jstrs xs) \<longleftrightarrow> xs \<noteq> []"
  by (simp add: jstrs_def)

lemma capability_post_init_Inr [res_iff]:
  "capability_post_init m = Inr u \<longleftrightarrow>
     is_identifier (py_strip (cm_node_id m)) \<and> cm_schema_version m = CAPABILITY_SCHEMA
     \<and> cm_architecture m \<in> {''x86_64'', ''arm64''} \<and> cm_os m \<in> {''macos'', ''linux''}
     \<and> cm_executors m \<noteq> [] \<and> set (cm_executors m) \<subseteq> set EXECUTORS
     \<and> cm_isolation_level m \<in> set ISOLATION_LEVELS \<and> 1 \<le> cm_max_concurrency m
     \<and> 0 \<le> cm_cpu_count m \<and> 0 \<le> cm_memory_bytes m \<and> 0 \<le> cm_disk_available_bytes m"
  by (auto simp: capability_post_init_def res_iff list_all_iff)

lemma capability_to_dict_get:
  "jget (capability_to_dict m) ''node_id'' = JStr (cm_node_id m)"
  "jget (capability_to_dict m) ''worker_version'' = JStr (cm_worker_version m)"
  "jget (capability_to_dict m) ''os'' = JStr (cm_os m)"
  "jget (capability_to_dict m) ''os_version'' = JStr (cm_os_version m)"
  "jget (capability_to_dict m) ''architecture'' = JStr (cm_architecture m)"
  "jget (capability_to_dict m) ''cpu_count'' = JInt (cm_cpu_count m)"
  "jget (capability_to_dict m) ''memory_bytes'' = JInt (cm_memory_bytes m)"
  "jget (capability_to_dict m) ''disk_available_bytes'' = JInt (cm_disk_available_bytes m)"
  "jget (capability_to_dict m) ''executors'' = jstrs (cm_executors m)"
  "jget (capability_to_dict m) ''isolation_level'' = JStr (cm_isolation_level m)"
  "jget (capability_to_dict m) ''roles'' = jstrs (cm_roles m)"
  "jget (capability_to_dict m) ''protocol_versions'' = jstrs (cm_protocol_versions m)"
  "jget (capability_to_dict m) ''workflow_runtimes'' = jstrs (cm_workflow_runtimes m)"
  "jget (capability_to_dict m) ''tools'' = jstrs (cm_tools m)"
  "jget (capability_to_dict m) ''agents'' = jstrs (cm_agents m)"
  "jget (capability_to_dict m) ''labels'' = jstrs (cm_labels m)"
  "jget (capability_to_dict m) ''max_concurrency'' = JInt (cm_max_concurrency m)"
  "jget (capability_to_dict m) ''current_load'' = JFloat (cm_current_load m)"
  "jget (capability_to_dict m) ''verification_status'' = JStr (cm_verification_status m)"
  "jget (capability_to_dict m) ''capability_source'' = JStr (cm_capability_source m)"
  "jget (capability_to_dict m) ''last_verified_at'' = JFloat (cm_last_verified_at m)"
  "jget (capability_to_dict m) ''schema_version'' = JStr (cm_schema_version m)"
  by (simp_all add: capability_to_dict_def)

lemma capability_roundtrip_aux:
  assumes ok: "capability_post_init m = Inr ()"
    and set: "cm_verification_status m \<noteq> []" "cm_capability_source m \<noteq> []" "cm_roles m \<noteq> []"
  shows "capability_from_dict E (capability_to_dict m) = Inr m"
proof -
  from ok have "cm_schema_version m = CAPABILITY_SCHEMA" "cm_isolation_level m \<noteq> []"
    "1 \<le> cm_max_concurrency m"
    by (auto simp: res_iff ISOLATION_LEVELS_def)
  with ok set show ?thesis
    by (cases m) (simp add: capability_from_dict_def require_schema_def capability_to_dict_get
        wire_defs Let_def)
qed

lemma manifest_to_dict_get:
  "jget (manifest_to_dict m) ''job_id'' = JStr (jm_job_id m)"
  "jget (manifest_to_dict m) ''run_id'' = JStr (jm_run_id m)"
  "jget (manifest_to_dict m) ''project_id'' = JStr (jm_project_id m)"
  "jget (manifest_to_dict m) ''task_id'' = jopt (jm_task_id m)"
  "jget (manifest_to_dict m) ''workflow_id'' = JStr (jm_workflow_id m)"
  "jget (manifest_to_dict m) ''idempotency_key'' = JStr (jm_idempotency_key m)"
  "jget (manifest_to_dict m) ''command_argv'' = JArr (jm_command_argv m)"
  "jget (manifest_to_dict m) ''required_capabilities'' = JObj (jm_required_capabilities m)"
  "jget (manifest_to_dict m) ''permissions'' = JObj (jm_permissions m)"
  "jget (manifest_to_dict m) ''budgets'' = JObj (jm_budgets m)"
  "jget (manifest_to_dict m) ''expected_outputs'' = jstrs (jm_expected_outputs m)"
  "jget (manifest_to_dict m) ''executor'' = JStr (jm_executor m)"
  "jget (manifest_to_dict m) ''retry_policy'' = JObj (jm_retry_policy m)"
  "jget (manifest_to_dict m) ''cancellation_policy'' = JObj (jm_cancellation_policy m)"
  "jget (manifest_to_dict m) ''cleanup_policy'' = JObj (jm_cleanup_policy m)"
  "jget (manifest_to_dict m) ''model_policy'' = JObj (jm_model_policy m)"
  "jget (manifest_to_dict m) ''input_artifacts'' = JArr (map JObj (jm_input_artifacts m))"
  "jget (manifest_to_dict m) ''preferred_labels'' = jstrs (jm_preferred_labels m)"
  "jget (manifest_to_dict m) ''quality_gates'' = jstrs (jm_quality_gates m)"
  "jget (manifest_to_dict m) ''evidence_requirements'' = jstrs (jm_evidence_requirements m)"
  "jget (manifest_to_dict m) ''created_by'' = JStr (jm_created_by m)"
  "jget (manifest_to_dict m) ''created_at'' = JFloat (jm_created_at m)"
  "jget (manifest_to_dict m) ''goal_id'' = (if jm_goal_id m = None then JNull else jopt (jm_goal_id m))"
  "jget (manifest_to_dict m) ''goal_revision'' = (if jm_goal_id m = None then JNull else jm_goal_revision m)"
  "jget (manifest_to_dict m) ''goal_node_id'' = (if jm_goal_id m = None then JNull else jopt (jm_goal_node_id m))"
  "jget (manifest_to_dict m) ''criterion_ids'' = (if jm_goal_id m = None then JNull else jstrs (jm_criterion_ids m))"
  "jget (manifest_to_dict m) ''input_fingerprint'' = (if jm_goal_id m = None then JNull else jopt (jm_input_fingerprint m))"
  "jget (manifest_to_dict m) ''required_evidence'' = (if jm_goal_id m = None then JNull else jstrs (jm_required_evidence m))"
  "jget (manifest_to_dict m) ''schema_version'' = JStr (jm_schema_version m)"
  by (simp_all add: manifest_to_dict_def)

lemma mapE_py_dict_JObj: "mapE py_dict (map JObj xs) = Inr xs"
  by (induction xs) auto

lemma py_iter_inputs: "py_iter (jor (JArr xs) (JArr [])) = Inr xs"
  by (simp add: jor_def)

lemma manifest_post_init_goal_absent:
  assumes "manifest_post_init m = Inr ()" and "jm_goal_id m = None"
  shows "\<not> goal_values_present m"
  using assms
  by (auto simp: manifest_post_init_def goal_binding_check_def goal_values_complete_def
      opt_truthy_def res_iff split: if_splits)

text \<open>A manifest whose optional fields are in the form \<open>from_dict\<close> gives them.\<close>

definition manifest_canonical :: "job_manifest \<Rightarrow> bool" where
  "manifest_canonical m \<longleftrightarrow> jm_created_by m \<noteq> [] \<and> jm_created_at m \<noteq> 0
     \<and> (jm_goal_id m = None \<longrightarrow> jm_goal_node_id m = None \<and> jm_input_fingerprint m = None)"

lemma manifest_roundtrip_aux:
  assumes ok: "manifest_post_init m = Inr ()" and can: "manifest_canonical m"
  shows "manifest_from_dict E now (manifest_to_dict m) = Inr m"
proof -
  from ok have sch: "jm_schema_version m = JOB_SCHEMA" and ex: "jm_executor m \<noteq> []"
    by (auto simp: manifest_post_init_def EXECUTORS_def res_iff)
  have opt: "opt_str E (if jm_goal_id m = None then JNull else jopt x) = (if jm_goal_id m = None then None else x)"
    and strs: "str_list_of E (if jm_goal_id m = None then JNull else jstrs ss)
       = Inr (if jm_goal_id m = None then [] else ss)" for x ss
    by (simp_all add: wire_read) (simp add: opt_str_def)
  have absent: "jm_goal_id m = None \<Longrightarrow>
      jm_goal_revision m = JNull \<and> jm_criterion_ids m = [] \<and> jm_required_evidence m = []"
    using manifest_post_init_goal_absent [OF ok] by (simp add: goal_values_present_def)
  have goal: "(if jm_goal_id m = None then None else jm_goal_id m) = jm_goal_id m"
      "(if jm_goal_id m = None then JNull else jm_goal_revision m) = jm_goal_revision m"
      "(if jm_goal_id m = None then None else jm_goal_node_id m) = jm_goal_node_id m"
      "(if jm_goal_id m = None then [] else jm_criterion_ids m) = jm_criterion_ids m"
      "(if jm_goal_id m = None then None else jm_input_fingerprint m) = jm_input_fingerprint m"
      "(if jm_goal_id m = None then [] else jm_required_evidence m) = jm_required_evidence m"
    using can absent by (auto simp: manifest_canonical_def)
  have "manifest_from_dict E now (manifest_to_dict m) = bindE (manifest_post_init m) (\<lambda>_. Inr m)"
    using sch ex can
    by (simp add: manifest_from_dict_def require_schema_def manifest_to_dict_get wire_defs opt strs
        goal mapE_py_dict_JObj py_iter_inputs manifest_canonical_def Let_def del: if_split)
      (cases m, simp)
  with ok show ?thesis by simp
qed

section \<open>Capability matching\<close>

lemma supports_lists_True [res_iff]:
  "supports_lists E required ps = Inr True \<longleftrightarrow>
     (\<forall>(key, available)\<in>set ps. \<exists>wanted. get_strs E required key = Inr wanted \<and> set wanted \<subseteq> set available)"
  by (induction ps rule: supports_lists.induct) (auto simp: res_iff split: if_splits)

lemma early_False_iff: "(if c then Inr False else x) = (Inr True :: bool res) \<longleftrightarrow> \<not> c \<and> x = Inr True"
  by simp

lemma supports_Inr_True:
  "supports E m required = Inr True \<longleftrightarrow>
     cm_verification_status m = ''verified'' \<and> cm_capability_source m = ''local-probe''
     \<and> PROTOCOL_VERSION \<in> set (cm_protocol_versions m)
     \<and> (truthy (jget required ''os'') \<longrightarrow> jget required ''os'' = JStr (cm_os m))
     \<and> (truthy (jget required ''architecture'') \<longrightarrow> jget required ''architecture'' = JStr (cm_architecture m))
     \<and> (truthy (jget required ''executor'') \<longrightarrow> jget required ''executor'' \<in> JStr ` set (cm_executors m))
     \<and> (jget required ''isolation_level'' = JStr ''isolated'' \<longrightarrow> cm_isolation_level m = ''isolated'')
     \<and> supports_lists E required [(''labels'', cm_labels m), (''tools'', cm_tools m),
          (''workflow_runtimes'', cm_workflow_runtimes m), (''agents'', cm_agents m)] = Inr True
     \<and> (\<exists>mem disk. get_int required ''memory_bytes'' 0 = Inr mem \<and> mem \<le> cm_memory_bytes m
          \<and> get_int required ''disk_bytes'' 0 = Inr disk \<and> disk \<le> cm_disk_available_bytes m)"
  unfolding supports_def early_False_iff bindE_Inr_iff
  by (simp add: linorder_not_less ex_bool_eq del: supports_lists.simps) blast

lemma supports_mono_aux:
  assumes "supports E m required = Inr True"
    and "cm_verification_status m' = cm_verification_status m"
    and "cm_capability_source m' = cm_capability_source m"
    and "cm_os m' = cm_os m" and "cm_architecture m' = cm_architecture m"
    and "cm_isolation_level m' = cm_isolation_level m"
    and "set (cm_protocol_versions m) \<subseteq> set (cm_protocol_versions m')"
    and "set (cm_executors m) \<subseteq> set (cm_executors m')"
    and "set (cm_labels m) \<subseteq> set (cm_labels m')" and "set (cm_tools m) \<subseteq> set (cm_tools m')"
    and "set (cm_workflow_runtimes m) \<subseteq> set (cm_workflow_runtimes m')"
    and "set (cm_agents m) \<subseteq> set (cm_agents m')"
    and "cm_memory_bytes m \<le> cm_memory_bytes m'"
    and "cm_disk_available_bytes m \<le> cm_disk_available_bytes m'"
  shows "supports E m' required = Inr True"
  using assms unfolding supports_Inr_True supports_lists_True
proof (elim conjE exE, intro conjI, goal_cases)
  case 3
  then show ?case by blast
next
  case 6
  then show ?case by blast
next
  case 8
  then show ?case by simp (meson subset_trans)
next
  case 9
  then show ?case by (blast intro: order_trans)
qed simp_all

section \<open>Properties\<close>

text \<open>an accepted identifier is its own normal form: it is the stripped input, has between 1
  and 128 characters, contains no path separator and no white space, is neither \<open>.\<close> nor
  \<open>..\<close>, and is accepted again unchanged.\<close>

lemma require_identifier_safe:
  assumes "require_identifier v f = Inr t"
  shows "t = py_strip v \<and> t \<noteq> [] \<and> length t \<le> 128 \<and> t \<notin> {''.'', ''..''}
    \<and> (\<forall>c\<in>set t. c \<noteq> CHR ''/'' \<and> c \<noteq> CHR 0x5C \<and> \<not> is_space c)
    \<and> require_identifier t g = Inr t"
proof -
  from assms have t: "t = py_strip v" and id: "is_identifier t" by (auto simp: res_iff)
  have "\<forall>c\<in>set t. c \<noteq> CHR ''/'' \<and> c \<noteq> CHR 0x5C \<and> \<not> is_space c"
    using id is_identifier_chars ident_tail_char_not_sep ident_tail_char_not_space by blast
  moreover have "require_identifier t g = Inr t"
    using id by (simp add: res_iff is_identifier_strip)
  ultimately show ?thesis
    using t is_identifier_length [OF id] is_identifier_not_dots [OF id] by blast
qed

lemma require_identifier_safe_sample:
  "require_identifier '' node-1 '' ''node_id'' = Inr ''node-1''
   \<and> require_identifier ''node-1'' ''x'' = Inr ''node-1''"
proof -
  have h: "require_identifier '' node-1 '' ''node_id'' = Inr ''node-1''"
    by (simp add: require_identifier_def py_strip_def py_lstrip_def py_rstrip_def
        is_identifier_def ident_tail_char_def char_class_defs)
  show ?thesis using h require_identifier_safe [OF h, of "''x''"] by blast
qed

text \<open>A path accepted by \<open>normalize_relative_path\<close> is relative and has no
  \<open>..\<close> component, so walking it from any directory ends in that directory or below it.\<close>

theorem normalize_relative_path_contained:
  assumes "normalize_relative_path v f = Inr p"
  shows "\<not> py_startswith p ''/'' \<and> (\<exists>below. walk dir (posix_parts p) = below @ dir)"
  using normalized_path_parts [OF assms] walk_below by blast

theorem normalize_relative_path_contained_sample:
  "normalize_relative_path ''out/a.txt'' ''path'' = Inr ''out/a.txt''
   \<and> (\<exists>below. walk [''sandbox''] (posix_parts ''out/a.txt'') = below @ [''sandbox''])"
proof -
  have h: "normalize_relative_path ''out/a.txt'' ''path'' = Inr ''out/a.txt''"
    by (simp add: normalize_relative_path_def py_strip_def py_lstrip_def py_rstrip_def
        py_replace_char_def posix_parts_def py_startswith_def char_class_defs)
  show ?thesis using h normalize_relative_path_contained [OF h] by blast
qed

text \<open>After redaction no object at any depth of a public value holds anything but a flag
  or the redaction mark under a secret-shaped key, and redaction keeps the keys of an object and
  their order.\<close>

theorem sanitize_public_no_secrets:
  "redacted (sanitize_public v) \<and> map fst (sanitize_obj o') = map fst o'
   \<and> (is_secret_key k \<and> jhas o' k \<and> \<not> is_jbool (jget o' k) \<longrightarrow>
        jget (sanitize_obj o') k = JStr ''[redacted]'')"
  by (simp add: sanitize_public_redacted sanitize_obj_keys sanitize_obj_get)

theorem sanitize_public_no_secrets_sample:
  "is_secret_key ''api_key'' \<and> jget (sanitize_obj [(''api_key'', JInt 7)]) ''api_key'' = JStr ''[redacted]''"
proof -
  have k: "is_secret_key ''api_key''"
    by (simp add: is_secret_key_def secret_suffixes_def py_lower_def lower_char_def
        py_endswith_def char_class_defs)
  have "jhas [(''api_key'', JInt 7)] ''api_key'' \<and> \<not> is_jbool (jget [(''api_key'', JInt 7)] ''api_key'')"
    by (simp add: jhas_def is_jbool_def)
  then show ?thesis
    using k sanitize_public_no_secrets [of JNull "[(''api_key'', JInt 7)]" "''api_key''"] by blast
qed

text \<open>a valid capability manifest that names its roles, verification status and source is
  restored by \<open>from_dict\<close> from its dictionary.\<close>

lemma capability_roundtrip:
  assumes "capability_post_init m = Inr ()"
    and "cm_verification_status m \<noteq> []" "cm_capability_source m \<noteq> []" "cm_roles m \<noteq> []"
  shows "capability_from_dict E (capability_to_dict m) = Inr m"
  using assms by (rule capability_roundtrip_aux)

definition sample_env :: pyenv where
  "sample_env = \<lparr>float_repr = (\<lambda>r. int_str \<lfloor>r\<rfloor> @ ''.0''), float_of_str = (\<lambda>_. None), nfkc = id,
     bracketed_host_ok = (\<lambda>_. False)\<rparr>"

definition sample_capability :: capability where
  "sample_capability = \<lparr>cm_node_id = ''node-1'', cm_worker_version = ''0.12.0'', cm_os = ''linux'',
     cm_os_version = ''6.1'', cm_architecture = ''x86_64'', cm_cpu_count = 8,
     cm_memory_bytes = 1000, cm_disk_available_bytes = 2000,
     cm_executors = [''bounded-process''], cm_isolation_level = ''bounded'',
     cm_roles = [''worker''], cm_protocol_versions = [PROTOCOL_VERSION],
     cm_workflow_runtimes = [], cm_tools = [''git''], cm_agents = [], cm_labels = [''gpu''],
     cm_max_concurrency = 1, cm_current_load = 0, cm_verification_status = ''verified'',
     cm_capability_source = ''local-probe'', cm_last_verified_at = 5,
     cm_schema_version = CAPABILITY_SCHEMA\<rparr>"

lemma sample_capability_ok: "capability_post_init sample_capability = Inr ()"
  by (simp add: res_iff sample_capability_def is_identifier_def ident_tail_char_def char_class_defs
      py_strip_def py_lstrip_def py_rstrip_def EXECUTORS_def ISOLATION_LEVELS_def)

lemma capability_roundtrip_sample:
  "capability_post_init sample_capability = Inr ()
   \<and> capability_from_dict sample_env (capability_to_dict sample_capability) = Inr sample_capability"
  using sample_capability_ok capability_roundtrip [OF sample_capability_ok, of sample_env]
  by (simp add: sample_capability_def)

text \<open>C31: a valid job manifest that names its creator and creation time is restored by
  \<open>from_dict\<close> from its dictionary, so the hash of the stored manifest is the hash of the
  submitted one.\<close>

theorem manifest_roundtrip:
  assumes "manifest_post_init m = Inr ()" and "manifest_canonical m"
  shows "manifest_from_dict E now (manifest_to_dict m) = Inr m
    \<and> (\<forall>m'. manifest_from_dict E now (manifest_to_dict m) = Inr m' \<longrightarrow> manifest_hash E m' = manifest_hash E m)"
  using manifest_roundtrip_aux [OF assms] by simp

definition sample_manifest :: job_manifest where
  "sample_manifest = \<lparr>jm_job_id = ''job-1'', jm_run_id = ''run-1'', jm_project_id = ''p-1'', jm_task_id = None,
     jm_workflow_id = ''w-1'', jm_idempotency_key = ''k-1'', jm_command_argv = [JStr ''true''],
     jm_required_capabilities = [], jm_permissions = [], jm_budgets = [], jm_expected_outputs = [],
     jm_executor = ''bounded-process'', jm_retry_policy = [], jm_cancellation_policy = [], jm_cleanup_policy = [],
     jm_model_policy = [], jm_input_artifacts = [], jm_preferred_labels = [''gpu''], jm_quality_gates = [''unit''],
     jm_evidence_requirements = [], jm_created_by = ''host'', jm_created_at = 5, jm_goal_id = None,
     jm_goal_revision = JNull, jm_goal_node_id = None, jm_criterion_ids = [], jm_input_fingerprint = None,
     jm_required_evidence = [], jm_schema_version = JOB_SCHEMA\<rparr>"

lemma sample_manifest_ok: "manifest_post_init sample_manifest = Inr ()" "manifest_canonical sample_manifest"
  by code_simp+

theorem manifest_roundtrip_witness:
  "manifest_from_dict sample_env 7 (manifest_to_dict sample_manifest) = Inr sample_manifest"
  using manifest_roundtrip [OF sample_manifest_ok, of sample_env 7] by blast

text \<open>capability matching is monotone: a node that offers at least the executors, labels,
  tools, runtimes, agents, memory and disk of a node that supports a job supports that job too.\<close>

lemma supports_monotone:
  assumes "supports E m required = Inr True"
    and "cm_verification_status m' = cm_verification_status m"
    and "cm_capability_source m' = cm_capability_source m"
    and "cm_os m' = cm_os m" and "cm_architecture m' = cm_architecture m"
    and "cm_isolation_level m' = cm_isolation_level m"
    and "set (cm_protocol_versions m) \<subseteq> set (cm_protocol_versions m')"
    and "set (cm_executors m) \<subseteq> set (cm_executors m')"
    and "set (cm_labels m) \<subseteq> set (cm_labels m')" and "set (cm_tools m) \<subseteq> set (cm_tools m')"
    and "set (cm_workflow_runtimes m) \<subseteq> set (cm_workflow_runtimes m')"
    and "set (cm_agents m) \<subseteq> set (cm_agents m')"
    and "cm_memory_bytes m \<le> cm_memory_bytes m'"
    and "cm_disk_available_bytes m \<le> cm_disk_available_bytes m'"
  shows "supports E m' required = Inr True"
  using assms by (rule supports_mono_aux)

lemma supports_monotone_sample:
  "supports sample_env (sample_capability\<lparr>cm_labels := [''big'', ''gpu''], cm_memory_bytes := 4000\<rparr>)
     [(''labels'', jstrs [''gpu'']), (''executor'', JStr ''bounded-process''), (''memory_bytes'', JInt 900)] = Inr True"
proof -
  have "supports sample_env sample_capability
     [(''labels'', jstrs [''gpu'']), (''executor'', JStr ''bounded-process''), (''memory_bytes'', JInt 900)] = Inr True"
    by code_simp
  then show ?thesis by (rule supports_monotone) (simp_all add: sample_capability_def)
qed

end
