(* ===== verification/WorkerStore.thy ===== *)
theory WorkerStore
  imports ProtocolFacts
begin

text \<open>
  The durable JSON store (\<open>worker_store.py\<close>). A collection is a directory of one file
  per record, listed in the order of the file names; it is modelled as an association list
  sorted by file name, from record ids to the records of one type. A log is a
  \<open>.jsonl\<close> file of appended entries. Every access goes through the path check
  \<open>_safe_record_id\<close> and takes the lock \<open>collection-id\<close>, whose name passes the same
  check. Writes are atomic replacements, so a record is never half written. The locales
  \<open>record_store\<close> and \<open>append_log\<close> state what the coordinator relies on; the
  interpretations discharge their laws for the model.
\<close>

section \<open>Record ids\<close>

definition safe_record_id :: "string \<Rightarrow> string res" where
  "safe_record_id value = (let clean = py_strip value in
     if clean = [] \<or> clean \<in> {''.'', ''..''} \<or> CHR ''/'' \<in> set clean \<or> CHR 0x5C \<in> set clean
        \<or> length clean > 160
     then Inl (ValueError ''unsafe worker store record id'') else Inr clean)"

text \<open>The lock of a record, or a named lock: only its name can fail.\<close>

definition lock_name :: "string \<Rightarrow> unit res" where
  "lock_name name = bindE (safe_record_id name) (\<lambda>_. Inr ())"

section \<open>Collections\<close>

type_synonym 'v coll = "(string \<times> 'v) list"

text \<open>The file name of a record, which orders a listing.\<close>

definition fkey :: "string \<Rightarrow> string" where
  "fkey k = k @ ''.json''"

fun coll_upd :: "string \<Rightarrow> 'v \<Rightarrow> 'v coll \<Rightarrow> 'v coll" where
  "coll_upd k v [] = [(k, v)]"
| "coll_upd k v ((k', v') # c) =
     (if k = k' then (k, v) # c
      else if fkey k < fkey k' then (k, v) # (k', v') # c
      else (k', v') # coll_upd k v c)"

definition coll_del :: "string \<Rightarrow> 'v coll \<Rightarrow> 'v coll" where
  "coll_del k c = filter (\<lambda>p. fst p \<noteq> k) c"

definition coll_wf :: "'v coll \<Rightarrow> bool" where
  "coll_wf c \<longleftrightarrow> sorted_wrt (\<lambda>a b. fkey a < fkey b) (map fst c)"

definition coll_put :: "string \<Rightarrow> string \<Rightarrow> 'v \<Rightarrow> 'v coll \<Rightarrow> 'v coll res" where
  "coll_put collection record_id v c =
     bindE (safe_record_id record_id) (\<lambda>k.
     bindE (lock_name (collection @ ''-'' @ record_id)) (\<lambda>_.
     Inr (coll_upd k v c)))"

definition coll_get :: "string \<Rightarrow> string \<Rightarrow> 'v coll \<Rightarrow> 'v option res" where
  "coll_get collection record_id c =
     bindE (safe_record_id record_id) (\<lambda>k.
     case map_of c k of None \<Rightarrow> Inr None
     | Some v \<Rightarrow> bindE (lock_name (collection @ ''-'' @ record_id)) (\<lambda>_. Inr (Some v)))"

definition coll_delete :: "string \<Rightarrow> string \<Rightarrow> 'v coll \<Rightarrow> (bool \<times> 'v coll) res" where
  "coll_delete collection record_id c =
     bindE (safe_record_id record_id) (\<lambda>k.
     bindE (lock_name (collection @ ''-'' @ record_id)) (\<lambda>_.
     Inr (map_of c k \<noteq> None, coll_del k c)))"

definition coll_list :: "'v coll \<Rightarrow> 'v list" where
  "coll_list c = map snd c"

section \<open>Logs\<close>

type_synonym 'e logs = "(string \<times> 'e list) list"

definition log_entries :: "'e logs \<Rightarrow> string \<Rightarrow> 'e list" where
  "log_entries l k = opt_or (map_of l k) []"

definition log_add :: "string \<Rightarrow> 'e \<Rightarrow> 'e logs \<Rightarrow> 'e logs" where
  "log_add k e l = coll_upd k (log_entries l k @ [e]) l"

text \<open>
  \<open>append\<close>: the entry is a function of the next sequence number, which the store fills
  in where the entry has none.
\<close>

definition log_append :: "string \<Rightarrow> string \<Rightarrow> (nat \<Rightarrow> 'e) \<Rightarrow> 'e logs \<Rightarrow> (nat \<times> 'e logs) res" where
  "log_append collection record_id entry l =
     bindE (safe_record_id record_id) (\<lambda>k.
     bindE (lock_name (collection @ ''-'' @ record_id)) (\<lambda>_.
     let sequence = length (log_entries l k) + 1
     in Inr (sequence, log_add k (entry sequence) l)))"

definition log_read :: "string \<Rightarrow> string \<Rightarrow> 'e logs \<Rightarrow> 'e list res" where
  "log_read collection record_id l =
     bindE (safe_record_id record_id) (\<lambda>k.
     if map_of l k = None then Inr []
     else bindE (lock_name (collection @ ''-'' @ record_id)) (\<lambda>_. Inr (log_entries l k)))"

section \<open>The contract of a record store\<close>

locale record_store =
  fixes empty :: 'st
    and get :: "'st \<Rightarrow> string \<Rightarrow> 'v option"
    and put :: "string \<Rightarrow> 'v \<Rightarrow> 'st \<Rightarrow> 'st"
    and delete :: "string \<Rightarrow> 'st \<Rightarrow> 'st"
    and listing :: "'st \<Rightarrow> (string \<times> 'v) list"
    and wf :: "'st \<Rightarrow> bool"
  assumes get_empty: "get empty k = None"
    and get_put: "get (put k v s) k' = (if k' = k then Some v else get s k')"
    and get_delete: "get (delete k s) k' = (if k' = k then None else get s k')"
    and listing_get: "wf s \<Longrightarrow> map_of (listing s) = get s \<and> distinct (map fst (listing s))"
    and wf_empty: "wf empty"
    and wf_put: "wf s \<Longrightarrow> wf (put k v s)"
    and wf_delete: "wf s \<Longrightarrow> wf (delete k s)"
begin

lemma listing_mem: "wf s \<Longrightarrow> (k, v) \<in> set (listing s) \<longleftrightarrow> get s k = Some v"
  using listing_get [of s] by (metis map_of_eq_Some_iff)

lemma put_overwrites: "get (put k w (put k v s)) = get (put k w s)"
  by (rule ext) (simp add: get_put)

lemma put_commutes: "k \<noteq> k' \<Longrightarrow> get (put k v (put k' w s)) = get (put k' w (put k v s))"
  by (rule ext) (simp add: get_put)

lemma delete_put: "get (delete k (put k v s)) = get (delete k s)"
  by (rule ext) (simp add: get_put get_delete)

lemma listing_put:
  assumes "wf s"
  shows "set (listing (put k v s)) = insert (k, v) {p \<in> set (listing s). fst p \<noteq> k}"
proof -
  have "(k', v') \<in> set (listing (put k v s)) \<longleftrightarrow>
      (k', v') \<in> insert (k, v) {p \<in> set (listing s). fst p \<noteq> k}" for k' v'
    using listing_mem [OF wf_put [OF assms], of k' v' k v] listing_mem [OF assms, of k' v']
    by (auto simp: get_put)
  then show ?thesis by auto
qed

lemma all_put:
  "\<forall>k' v'. get s k' = Some v' \<longrightarrow> P k' v' \<Longrightarrow> P k v \<Longrightarrow>
   \<forall>k' v'. get (put k v s) k' = Some v' \<longrightarrow> P k' v'"
  by (auto simp: get_put)

lemma all_delete:
  "\<forall>k' v'. get s k' = Some v' \<longrightarrow> P k' v' \<Longrightarrow> \<forall>k' v'. get (delete k s) k' = Some v' \<longrightarrow> P k' v'"
  by (auto simp: get_delete)

end

section \<open>The model meets the contract\<close>

lemma fkey_inj [simp]: "fkey a = fkey b \<longleftrightarrow> a = b"
  by (simp add: fkey_def)

lemma map_of_coll_upd: "map_of (coll_upd k v c) k' = (if k' = k then Some v else map_of c k')"
  by (induction k v c rule: coll_upd.induct) auto

lemma map_of_coll_del: "map_of (coll_del k c) k' = (if k' = k then None else map_of c k')"
  by (induction c) (auto simp: coll_del_def)

lemma coll_upd_keys: "set (map fst (coll_upd k v c)) = insert k (set (map fst c))"
  by (induction k v c rule: coll_upd.induct) auto

lemma coll_wf_Nil [simp]: "coll_wf []"
  by (simp add: coll_wf_def)

lemma coll_wf_Cons: "coll_wf ((k, v) # c) \<longleftrightarrow> (\<forall>x\<in>set (map fst c). fkey k < fkey x) \<and> coll_wf c"
  by (simp add: coll_wf_def)

lemma coll_wf_upd: "coll_wf c \<Longrightarrow> coll_wf (coll_upd k v c)"
proof (induction k v c rule: coll_upd.induct)
  case (1 k v)
  then show ?case by (simp add: coll_wf_def)
next
  case (2 k v k' v' c)
  have less: "k \<noteq> k' \<Longrightarrow> \<not> fkey k < fkey k' \<Longrightarrow> fkey k' < fkey k"
    by (metis fkey_inj linorder_less_linear)
  consider "k = k'" | "k \<noteq> k'" "fkey k < fkey k'" | "k \<noteq> k'" "\<not> fkey k < fkey k'" by blast
  then show ?case
  proof cases
    case 1
    with "2.prems" show ?thesis by (simp add: coll_wf_Cons)
  next
    case 2
    with "2.prems" show ?thesis by (auto simp: coll_wf_Cons intro: less_trans)
  next
    case 3
    with "2.prems" have "coll_wf (coll_upd k v c)" by (auto simp: coll_wf_Cons intro: "2.IH")
    moreover have "\<forall>x\<in>set (map fst (coll_upd k v c)). fkey k' < fkey x"
      using "2.prems" less 3 unfolding coll_upd_keys by (auto simp: coll_wf_Cons)
    ultimately show ?thesis using 3 by (simp add: coll_wf_Cons)
  qed
qed

lemma coll_wf_del: "coll_wf c \<Longrightarrow> coll_wf (coll_del k c)"
  by (induction c) (auto simp: coll_wf_def coll_del_def)

lemma coll_wf_distinct: "coll_wf c \<Longrightarrow> distinct (map fst c)"
  by (induction c) (auto simp: coll_wf_def)

interpretation cs: record_store "[]" "map_of :: 'v coll \<Rightarrow> string \<Rightarrow> 'v option" coll_upd coll_del
    "\<lambda>c. c" coll_wf
  by unfold_locales
    (simp_all add: map_of_coll_upd map_of_coll_del coll_wf_upd coll_wf_del coll_wf_distinct)

lemmas coll_lookup [simp] = map_of_coll_upd map_of_coll_del

section \<open>The contract of an append-only log\<close>

locale append_log =
  fixes entries :: "'st \<Rightarrow> string \<Rightarrow> 'e list"
    and add :: "string \<Rightarrow> 'e \<Rightarrow> 'st \<Rightarrow> 'st"
  assumes entries_add: "entries (add k e s) k' = (if k' = k then entries s k @ [e] else entries s k')"
begin

lemma add_prefix: "\<exists>new. entries (add k e s) k' = entries s k' @ new"
  by (simp add: entries_add)

lemma add_length: "length (entries (add k e s) k') = length (entries s k') + (if k' = k then 1 else 0)"
  by (simp add: entries_add)

lemma add_mem: "x \<in> set (entries s k') \<Longrightarrow> x \<in> set (entries (add k e s) k')"
  by (auto simp: entries_add)

end

lemma log_entries_add: "log_entries (log_add k e l) k' = (if k' = k then log_entries l k @ [e] else log_entries l k')"
  by (simp add: log_entries_def log_add_def)

interpretation lg: append_log "log_entries :: 'e logs \<Rightarrow> string \<Rightarrow> 'e list" log_add
  by unfold_locales (rule log_entries_add)

section \<open>Lemmas on the checked operations\<close>

lemma safe_record_id_Inr [res_iff]:
  "safe_record_id v = Inr k \<longleftrightarrow> k = py_strip v \<and> k \<noteq> [] \<and> k \<notin> {''.'', ''..''}
     \<and> CHR ''/'' \<notin> set k \<and> CHR 0x5C \<notin> set k \<and> length k \<le> 160"
  by (auto simp: safe_record_id_def Let_def)

lemma safe_record_id_idem: "safe_record_id v = Inr k \<Longrightarrow> safe_record_id k = Inr k"
  by (auto simp: res_iff)

lemma coll_put_Inr [res_iff]:
  "coll_put n rid v c = Inr c' \<longleftrightarrow> (\<exists>k. safe_record_id rid = Inr k \<and> isOK (lock_name (n @ ''-'' @ rid))
     \<and> c' = coll_upd k v c)"
  by (auto simp: coll_put_def bindE_Inr_iff isOK_iff)

lemma coll_get_Inr_Some [res_iff]:
  "coll_get n rid c = Inr (Some v) \<longleftrightarrow> (\<exists>k. safe_record_id rid = Inr k \<and> map_of c k = Some v
     \<and> isOK (lock_name (n @ ''-'' @ rid)))"
  by (auto simp: coll_get_def bindE_Inr_iff isOK_iff split: option.splits)

lemma coll_get_Inr_None [res_iff]:
  "coll_get n rid c = Inr None \<longleftrightarrow> (\<exists>k. safe_record_id rid = Inr k \<and> map_of c k = None)"
  by (auto simp: coll_get_def bindE_Inr_iff split: option.splits)

lemma coll_put_wf: "coll_wf c \<Longrightarrow> coll_put n rid v c = Inr c' \<Longrightarrow> coll_wf c'"
  by (auto simp: coll_put_Inr coll_wf_upd)

lemma coll_delete_Inr [res_iff]:
  "coll_delete n rid c = Inr (b, c') \<longleftrightarrow> (\<exists>k. safe_record_id rid = Inr k
     \<and> isOK (lock_name (n @ ''-'' @ rid)) \<and> b = (map_of c k \<noteq> None) \<and> c' = coll_del k c)"
  by (auto simp: coll_delete_def bindE_Inr_iff isOK_iff)

lemma log_append_Inr [res_iff]:
  "log_append n rid f l = Inr (q, l') \<longleftrightarrow> (\<exists>k. safe_record_id rid = Inr k
     \<and> isOK (lock_name (n @ ''-'' @ rid)) \<and> q = length (log_entries l k) + 1
     \<and> l' = log_add k (f q) l)"
  by (auto simp: log_append_def bindE_Inr_iff isOK_iff Let_def)

text \<open>An identifier of the protocol is a safe record id, and with a collection name of at
  most 31 characters so is the name of its lock: the store accepts it.\<close>

lemma identifier_safe_record_id: "is_identifier v \<Longrightarrow> safe_record_id v = Inr v"
  using is_identifier_chars ident_tail_char_not_sep
  by (fastforce simp: res_iff is_identifier_strip dest: is_identifier_length is_identifier_not_dots)

section \<open>Properties\<close>

text \<open>every record id the store accepts names a file directly inside its collection
  directory: the id it uses is stripped, non-empty, at most 160 characters, has no separator, is
  not a dot name, and is accepted again unchanged; and every identifier the Worker protocol
  accepts is such an id, unchanged after stripping.\<close>

lemma store_ids_confined:
  "(\<forall>v k. safe_record_id v = Inr k \<longrightarrow>
      k \<noteq> [] \<and> length k \<le> 160 \<and> CHR ''/'' \<notin> set k \<and> CHR 0x5C \<notin> set k \<and> k \<notin> {''.'', ''..''}
      \<and> safe_record_id k = Inr k)
   \<and> (\<forall>v f t. require_identifier v f = Inr t \<longrightarrow> safe_record_id v = Inr t)"
proof (intro conjI allI impI)
  fix v f t assume "require_identifier v f = Inr t"
  then have t: "t = py_strip v" and "is_identifier t" by (auto simp: require_identifier_Inr)
  then have "safe_record_id t = Inr t" by (simp add: identifier_safe_record_id)
  then show "safe_record_id v = Inr t" by (auto simp: safe_record_id_Inr t)
qed (auto simp: safe_record_id_Inr)

lemma store_ids_confined_sample:
  "safe_record_id '' job-1'' = Inr ''job-1'' \<and> safe_record_id ''job-1'' = Inr ''job-1''"
proof -
  have h: "safe_record_id '' job-1'' = Inr ''job-1''"
    by (simp add: safe_record_id_def py_strip_def py_lstrip_def py_rstrip_def char_class_defs)
  show ?thesis using h store_ids_confined by blast
qed

text \<open>the store is a map: after a successful \<open>put\<close>, \<open>get\<close> under the same id
  returns exactly the stored record, a read of any id with another file name is unaffected, and
  the listing is that record together with the previous listing minus the replaced record, still
  sorted by file name.\<close>

lemma store_put_get:
  assumes "coll_wf c" and "coll_put n rid v c = Inr c'"
  shows "coll_get n rid c' = Inr (Some v)
    \<and> (\<forall>rid'. py_strip rid' \<noteq> py_strip rid \<longrightarrow> coll_get n rid' c' = coll_get n rid' c)
    \<and> set c' = insert (py_strip rid, v) {p \<in> set c. fst p \<noteq> py_strip rid}
    \<and> coll_wf c'"
proof -
  from assms(2) obtain k where k: "safe_record_id rid = Inr k" "isOK (lock_name (n @ ''-'' @ rid))"
    and c': "c' = coll_upd k v c" by (auto simp: coll_put_Inr)
  have strip: "k = py_strip rid" using k(1) by (simp add: safe_record_id_Inr)
  have "coll_get n rid c' = Inr (Some v)" using k c' by (simp add: coll_get_Inr_Some)
  moreover have "coll_get n rid' c' = coll_get n rid' c" if "py_strip rid' \<noteq> py_strip rid" for rid'
  proof (cases "safe_record_id rid'")
    case (Inr k')
    then have "k' \<noteq> k" using that strip by (simp add: safe_record_id_Inr)
    with Inr c' show ?thesis by (simp add: coll_get_def)
  qed (simp add: coll_get_def)
  moreover have "set c' = insert (k, v) {p \<in> set c. fst p \<noteq> k}"
    using cs.listing_put [OF assms(1), of k v] c' by simp
  ultimately show ?thesis using assms(1) c' strip by (simp add: coll_wf_upd)
qed

lemma store_put_get_sample:
  "coll_put ''jobs'' ''b'' (2::int) [(''a'', 1)] = Inr [(''a'', 1), (''b'', 2)]
   \<and> coll_get ''jobs'' ''b'' [(''a'', 1), (''b'', 2::int)] = Inr (Some 2)"
proof -
  have w: "coll_wf [(''a'', 1::int)]" by (simp add: coll_wf_def)
  have h: "coll_put ''jobs'' ''b'' (2::int) [(''a'', 1)] = Inr [(''a'', 1), (''b'', 2)]"
    by (simp add: coll_put_def safe_record_id_def lock_name_def py_strip_def py_lstrip_def
        py_rstrip_def char_class_defs fkey_def less_char_def)
  show ?thesis using h store_put_get [OF w h] by blast
qed

end
