(* ===== verification/CoordState.thy ===== *)
theory CoordState
  imports WorkerStore
begin

text \<open>
  The state of the Worker coordinator (\<open>coordinator.py\<close>): one typed record per
  collection of the store, the logs, and what the process reads from its environment (clock,
  UUIDs, random digits, the pairing secret, the interpreter). A key the code sets only
  sometimes is an option. The clock is a field of the state that steps of the environment
  advance: it does not move while one operation runs. UUIDs and random digits are read from
  arbitrary streams. The operations of the coordinator run one at a time: the file locks the
  code takes serialise them.
\<close>

declare sanitize_public.simps [simp del]

section \<open>Records of the store\<close>

record update_directive =
  ud_directive_id :: string
  ud_version :: string
  ud_url :: string
  ud_sha256 :: string
  ud_status :: string
  ud_requested_at :: time
  ud_updated_at :: "time option"
  ud_error :: "string option"

record transport_directive =
  td_directive_id :: string
  td_transport :: string
  td_endpoint :: "string option"
  td_server_name :: "string option"
  td_status :: string
  td_requested_at :: "time option"
  td_updated_at :: "time option"
  td_error :: "string option"
  td_relay :: "(string \<times> string \<times> string) option"

record node_rec =
  nd_node_id :: string
  nd_state :: string
  nd_display_name :: string
  nd_fingerprint :: string
  nd_algorithm :: string
  nd_certificate_fingerprint :: "string option"
  nd_capability_manifest :: jobj
  nd_verification_code :: "string option"
  nd_approved_at :: "time option"
  nd_identity_expires_at :: "time option"
  nd_revoked_at :: "time option"
  nd_revocation_reason :: "string option"
  nd_last_seen_at :: "time option"
  nd_last_disconnected_at :: "time option"
  nd_disconnect_reason :: "string option"
  nd_transport :: string
  nd_session_generation :: "int option"
  nd_draining :: bool
  nd_update_directive :: "update_directive option"
  nd_transport_directive :: "transport_directive option"

record enrollment_rec =
  en_enrollment_id :: string
  en_code_hash :: string
  en_created_at :: time
  en_expires_at :: time
  en_used_at :: "time option"
  en_failed_attempts :: int
  en_max_failures :: int
  en_status :: string
  en_node_id :: "string option"

record job_rec =
  j_job_id :: string
  j_run_id :: string
  j_manifest :: jobj
  j_manifest_hash :: string
  j_status :: string
  j_attempt :: int
  j_node_id :: "string option"
  j_lease_id :: "string option"
  j_terminal_event_id :: "string option"
  j_created_at :: time
  j_updated_at :: time
  j_inputs_base64 :: "(string \<times> string) list"
  j_cancel_requested_at :: "time option"
  j_cancel_reason :: "string option"
  j_recovery_reason :: "string option"
  j_last_lease_failure :: "string option"
  j_reason_category :: "string option"
  j_scheduling_decision :: "jobj option"
  j_resource_usage :: "jobj option"
  j_cleanup_status :: "string option"
  j_model_usage :: "jobj option"
  j_evidence_receipt :: "jobj option"
  j_goal_evidence_binding :: "jobj option"
  j_validator_results :: jobj
  j_registered_validator_ids :: "string list"

record artifact_rec =
  ar_artifact_id :: string
  ar_descriptor :: jobj
  ar_job_id :: string
  ar_run_id :: string
  ar_node_id :: string
  ar_lease_id :: "string option"
  ar_attempt :: int
  ar_status :: string
  ar_created_at :: time
  ar_updated_at :: time
  ar_verified_at :: "time option"

record grant_usage =
  us_calls :: int
  us_tokens :: int
  us_cost_usd :: rat

record reservation =
  rs_requested_tokens :: int
  rs_started_at :: time

text \<open>
  A stored grant: the fields of the dataclass, the usage, and the two keys later operations
  add, \<open>reservations\<close> (by \<open>begin_model_grant_call\<close>) and \<open>active_calls\<close> (by
  \<open>revoke_node\<close>). Their presence matters: the dataclass is rebuilt from the stored keys.
\<close>

record grant_rec =
  gr_grant :: model_grant
  gr_usage :: grant_usage
  gr_reservations :: "(string \<times> reservation) list option"
  gr_has_active_calls :: bool

record goal_revision_rec =
  gv_goal_id :: string
  gv_goal_revision :: int
  gv_updated_at :: time

datatype idem_rec =
    JobIdem (ji_key: string) (ji_job_id: string) (ji_manifest_hash: string)
  | RevalIdem (ri_key: string) (ri_request_hash: string) (ri_attempt_id: string)

record tx_rec =
  tx_event_id :: string
  tx_job_id :: string
  tx_job :: job_rec
  tx_event :: jobj
  tx_status :: string
  tx_created_at :: time
  tx_updated_at :: time

record attempt_rec =
  ra_schema_version :: string
  ra_attempt_id :: string
  ra_attempt_number :: int
  ra_plan_id :: string
  ra_plan_hash :: "string option"
  ra_goal_id :: string
  ra_goal_revision :: json
  ra_task_id :: "string option"
  ra_input_fingerprint :: "string option"
  ra_criterion_ids :: "string list"
  ra_changed_fingerprints :: "string list"
  ra_supersedes_evidence_ids :: "string list"
  ra_preserved_evidence_ids :: "string list"
  ra_execution_mode :: "string option"
  ra_state :: string
  ra_job_ids :: "string list"
  ra_created_at :: time
  ra_updated_at :: time
  ra_replacement_evidence_ids :: "string list option"
  ra_evidence_receipt_hash :: "string option"
  ra_completed_at :: "time option"

record audit_rec =
  au_event :: string
  au_created_at :: time
  au_payload :: json
  au_payload_hash :: "string option"
  au_sequence :: nat

section \<open>The coordinator's state\<close>

record cstate =
  nodes :: "node_rec coll"
  enrollments :: "enrollment_rec coll"
  jobs :: "job_rec coll"
  leases :: "job_lease coll"
  artifacts :: "artifact_rec coll"
  grants :: "grant_rec coll"
  idempotency :: "idem_rec coll"
  goal_revisions :: "goal_revision_rec coll"
  invalidation_plans :: "jobj coll"
  revalidation_attempts :: "attempt_rec coll"
  terminal_transactions :: "tx_rec coll"
  events :: "jobj logs"
  quarantine :: "jobj logs"
  audit :: "audit_rec logs"
  clk :: time
  lease_seconds :: rat
  uuid_src :: "nat \<Rightarrow> string"
  uuid_next :: nat
  rand_src :: "nat \<Rightarrow> nat"
  rand_next :: nat
  pairing_secret :: bytes
  interp :: pyenv

type_synonym 'a coord = "(cstate, 'a) pyM"

definition init_cstate :: "time \<Rightarrow> rat \<Rightarrow> (nat \<Rightarrow> string) \<Rightarrow> (nat \<Rightarrow> nat) \<Rightarrow> bytes \<Rightarrow> pyenv \<Rightarrow> cstate" where
  "init_cstate now lease_secs uuids rands secret E = \<lparr>nodes = [], enrollments = [], jobs = [],
     leases = [], artifacts = [], grants = [], idempotency = [], goal_revisions = [],
     invalidation_plans = [], revalidation_attempts = [], terminal_transactions = [],
     events = [], quarantine = [], audit = [], clk = now,
     lease_seconds = max 5 lease_secs, uuid_src = uuids, uuid_next = 0, rand_src = rands,
     rand_next = 0, pairing_secret = secret, interp = E\<rparr>"

section \<open>Access to the store\<close>

definition st_get :: "string \<Rightarrow> (cstate \<Rightarrow> 'v coll) \<Rightarrow> string \<Rightarrow> 'v option coord" where
  "st_get n g rid = (\<lambda>s. (coll_get n rid (g s), s))"

definition st_put :: "string \<Rightarrow> (cstate \<Rightarrow> 'v coll) \<Rightarrow> (('v coll \<Rightarrow> 'v coll) \<Rightarrow> cstate \<Rightarrow> cstate)
    \<Rightarrow> string \<Rightarrow> 'v \<Rightarrow> unit coord" where
  "st_put n g u rid v = (\<lambda>s. case coll_put n rid v (g s) of
      Inl e \<Rightarrow> (Inl e, s) | Inr c \<Rightarrow> (Inr (), u (\<lambda>_. c) s))"

definition st_delete :: "string \<Rightarrow> (cstate \<Rightarrow> 'v coll) \<Rightarrow> (('v coll \<Rightarrow> 'v coll) \<Rightarrow> cstate \<Rightarrow> cstate)
    \<Rightarrow> string \<Rightarrow> bool coord" where
  "st_delete n g u rid = (\<lambda>s. case coll_delete n rid (g s) of
      Inl e \<Rightarrow> (Inl e, s) | Inr r \<Rightarrow> (Inr (fst r), u (\<lambda>_. snd r) s))"

definition st_append :: "string \<Rightarrow> (cstate \<Rightarrow> 'e logs) \<Rightarrow> (('e logs \<Rightarrow> 'e logs) \<Rightarrow> cstate \<Rightarrow> cstate)
    \<Rightarrow> string \<Rightarrow> (nat \<Rightarrow> 'e) \<Rightarrow> unit coord" where
  "st_append n g u rid f = (\<lambda>s. case log_append n rid f (g s) of
      Inl e \<Rightarrow> (Inl e, s) | Inr r \<Rightarrow> (Inr (), u (\<lambda>_. snd r) s))"

definition st_read_log :: "string \<Rightarrow> (cstate \<Rightarrow> 'e logs) \<Rightarrow> string \<Rightarrow> 'e list coord" where
  "st_read_log n g rid = (\<lambda>s. (log_read n rid (g s), s))"

abbreviation get_node where "get_node \<equiv> st_get ''nodes'' nodes"
abbreviation put_node where "put_node \<equiv> st_put ''nodes'' nodes nodes_update"
abbreviation del_node where "del_node \<equiv> st_delete ''nodes'' nodes nodes_update"
abbreviation get_enrollment where "get_enrollment \<equiv> st_get ''enrollments'' enrollments"
abbreviation put_enrollment where "put_enrollment \<equiv> st_put ''enrollments'' enrollments enrollments_update"
abbreviation get_job where "get_job \<equiv> st_get ''jobs'' jobs"
abbreviation put_job where "put_job \<equiv> st_put ''jobs'' jobs jobs_update"
abbreviation del_job where "del_job \<equiv> st_delete ''jobs'' jobs jobs_update"
abbreviation get_lease where "get_lease \<equiv> st_get ''leases'' leases"
abbreviation put_lease where "put_lease \<equiv> st_put ''leases'' leases leases_update"
abbreviation get_artifact where "get_artifact \<equiv> st_get ''artifacts'' artifacts"
abbreviation put_artifact where "put_artifact \<equiv> st_put ''artifacts'' artifacts artifacts_update"
abbreviation get_grant where "get_grant \<equiv> st_get ''grants'' grants"
abbreviation put_grant where "put_grant \<equiv> st_put ''grants'' grants grants_update"
abbreviation get_idem where "get_idem \<equiv> st_get ''idempotency'' idempotency"
abbreviation put_idem where "put_idem \<equiv> st_put ''idempotency'' idempotency idempotency_update"
abbreviation del_idem where "del_idem \<equiv> st_delete ''idempotency'' idempotency idempotency_update"
abbreviation get_goal_rev where "get_goal_rev \<equiv> st_get ''goal_revisions'' goal_revisions"
abbreviation put_goal_rev where "put_goal_rev \<equiv> st_put ''goal_revisions'' goal_revisions goal_revisions_update"
abbreviation get_plan where "get_plan \<equiv> st_get ''invalidation_plans'' invalidation_plans"
abbreviation put_plan where "put_plan \<equiv> st_put ''invalidation_plans'' invalidation_plans invalidation_plans_update"
abbreviation del_plan where "del_plan \<equiv> st_delete ''invalidation_plans'' invalidation_plans invalidation_plans_update"
abbreviation get_attempt where "get_attempt \<equiv> st_get ''revalidation_attempts'' revalidation_attempts"
abbreviation put_attempt where "put_attempt \<equiv> st_put ''revalidation_attempts'' revalidation_attempts revalidation_attempts_update"
abbreviation del_attempt where "del_attempt \<equiv> st_delete ''revalidation_attempts'' revalidation_attempts revalidation_attempts_update"
abbreviation get_tx where "get_tx \<equiv> st_get ''terminal_transactions'' terminal_transactions"
abbreviation put_tx where "put_tx \<equiv> st_put ''terminal_transactions'' terminal_transactions terminal_transactions_update"
abbreviation append_event where "append_event \<equiv> st_append ''events'' events events_update"
abbreviation append_quarantine where "append_quarantine \<equiv> st_append ''quarantine'' quarantine quarantine_update"
abbreviation append_audit where "append_audit \<equiv> st_append ''audit'' audit audit_update"
abbreviation read_events where "read_events \<equiv> st_read_log ''events'' events"
abbreviation listM where "listM g \<equiv> getsM (\<lambda>s. coll_list (g s))"
abbreviation clockM where "clockM \<equiv> getsM clk"

text \<open>\<open>with store.lock(name)\<close>: operations are sequential, so only the name is checked.\<close>

definition lockM :: "string \<Rightarrow> unit coord" where
  "lockM name = liftM (lock_name name)"

definition new_protocol_id :: "string \<Rightarrow> string coord" where
  "new_protocol_id prefix = bindM (getsM (\<lambda>s. uuid_src s (uuid_next s))) (\<lambda>u.
     thenM (modifyM (\<lambda>s. s\<lparr>uuid_next := Suc (uuid_next s)\<rparr>)) (retM (prefix @ ''-'' @ u)))"

text \<open>An entry of a log of JSON objects: the store adds the sequence number when absent.\<close>

definition with_sequence :: "jobj \<Rightarrow> nat \<Rightarrow> jobj" where
  "with_sequence o' n = (if jhas o' ''sequence'' then o' else jset o' ''sequence'' (JInt (int n)))"

text \<open>A stored time as a truth value: absent and zero are false.\<close>

definition time_truthy :: "time option \<Rightarrow> bool" where
  "time_truthy x \<longleftrightarrow> x \<noteq> None \<and> x \<noteq> Some 0"

section \<open>Shared accessors of the coordinator\<close>

definition coord_audit :: "string \<Rightarrow> jobj \<Rightarrow> unit coord" where
  "coord_audit event payload = bindM clockM (\<lambda>now. bindM (getsM interp) (\<lambda>E.
     append_audit ''worker-control'' (\<lambda>n. \<lparr>au_event = event, au_created_at = now,
       au_payload = sanitize_public (JObj payload),
       au_payload_hash = Some (payload_hash E (sanitize_public (JObj payload))), au_sequence = n\<rparr>)))"

definition coord_node :: "string \<Rightarrow> node_rec coord" where
  "coord_node node_id = bindM (get_node node_id) (\<lambda>r. case r of
      None \<Rightarrow> raiseM (CoordinatorError ''node not found'')
    | Some node \<Rightarrow> thenM (guardM (nd_state node \<in> set NODE_STATES)
        (CoordinatorError ''node record has invalid state'')) (retM node))"

definition coord_job :: "string \<Rightarrow> job_rec coord" where
  "coord_job job_id = bindM (get_job job_id) (\<lambda>r. case r of
      None \<Rightarrow> raiseM (CoordinatorError ''job not found'') | Some job \<Rightarrow> retM job)"

definition coord_lease :: "string \<Rightarrow> job_lease coord" where
  "coord_lease lease_id = bindM (get_lease lease_id) (\<lambda>r. case r of
      None \<Rightarrow> raiseM (CoordinatorError ''lease not found'') | Some lease \<Rightarrow> retM lease)"

section \<open>Lemmas\<close>

lemma wp_st_get [wp]: "wpM (st_get n g rid) Q E s =
    (case coll_get n rid (g s) of Inl e \<Rightarrow> E e s | Inr r \<Rightarrow> Q r s)"
  by (simp add: wpM_def st_get_def)

lemma wp_st_put [wp]: "wpM (st_put n g u rid v) Q E s =
    (case coll_put n rid v (g s) of Inl e \<Rightarrow> E e s | Inr c \<Rightarrow> Q () (u (\<lambda>_. c) s))"
  by (simp add: wpM_def st_put_def split: sum.splits)

lemma wp_st_delete [wp]: "wpM (st_delete n g u rid) Q E s =
    (case coll_delete n rid (g s) of Inl e \<Rightarrow> E e s | Inr r \<Rightarrow> Q (fst r) (u (\<lambda>_. snd r) s))"
  by (simp add: wpM_def st_delete_def split: sum.splits)

lemma wp_st_append [wp]: "wpM (st_append n g u rid f) Q E s =
    (case log_append n rid f (g s) of Inl e \<Rightarrow> E e s | Inr r \<Rightarrow> Q () (u (\<lambda>_. snd r) s))"
  by (simp add: wpM_def st_append_def split: sum.splits)

lemma wp_st_read_log [wp]: "wpM (st_read_log n g rid) Q E s =
    (case log_read n rid (g s) of Inl e \<Rightarrow> E e s | Inr r \<Rightarrow> Q r s)"
  by (simp add: wpM_def st_read_log_def)

lemma keeps_st_get [keeps_rules]: "keeps P (st_get n g rid)"
  by (simp add: keeps_def st_get_def)

lemma keeps_st_read_log [keeps_rules]: "keeps P (st_read_log n g rid)"
  by (simp add: keeps_def st_read_log_def)

lemma keeps_lockM [keeps_rules]: "keeps P (lockM n)"
  by (simp add: lockM_def keeps_rules)

lemma keeps_st_put: "(\<And>s c. P s \<Longrightarrow> coll_put n rid v (g s) = Inr c \<Longrightarrow> P (u (\<lambda>_. c) s)) \<Longrightarrow>
    keeps P (st_put n g u rid v)"
  by (auto simp: keeps_def st_put_def split: sum.splits)

lemma keeps_st_delete: "(\<And>s b c. P s \<Longrightarrow> coll_delete n rid (g s) = Inr (b, c) \<Longrightarrow> P (u (\<lambda>_. c) s)) \<Longrightarrow>
    keeps P (st_delete n g u rid)"
  by (auto simp: keeps_def st_delete_def split: sum.splits)

lemma keeps_st_append: "(\<And>s q l. P s \<Longrightarrow> log_append n rid f (g s) = Inr (q, l) \<Longrightarrow> P (u (\<lambda>_. l) s)) \<Longrightarrow>
    keeps P (st_append n g u rid f)"
  by (auto simp: keeps_def st_append_def split: sum.splits)

lemma keeps_coord_node [keeps_rules]: "keeps P (coord_node nid)"
  and keeps_coord_job [keeps_rules]: "keeps P (coord_job jid)"
  and keeps_coord_lease [keeps_rules]: "keeps P (coord_lease lid)"
  unfolding coord_node_def coord_job_def coord_lease_def by (intro keeps_rules)+

text \<open>A predicate that ignores the audit log and the id counter survives auditing and the
  drawing of an id.\<close>

lemma keeps_coord_audit:
  "(\<And>s a. P (s\<lparr>audit := a\<rparr>) = P s) \<Longrightarrow> keeps P (coord_audit ev pl)"
  unfolding coord_audit_def by (intro keeps_rules keeps_st_append) simp

lemma keeps_new_protocol_id:
  "(\<And>s i. P (s\<lparr>uuid_next := i\<rparr>) = P s) \<Longrightarrow> keeps P (new_protocol_id p)"
  unfolding new_protocol_id_def by (intro keeps_rules keeps_modifyM) simp

lemma wp_new_protocol_id [wp]: "wpM (new_protocol_id p) Q E s =
   Q (p @ ''-'' @ uuid_src s (uuid_next s)) (s\<lparr>uuid_next := Suc (uuid_next s)\<rparr>)"
  by (simp add: new_protocol_id_def wp)

lemma coord_node_result:
  "coord_node nid s = (Inr node, t) \<longleftrightarrow> t = s \<and> nd_state node \<in> set NODE_STATES
     \<and> coll_get ''nodes'' nid (nodes s) = Inr (Some node)"
  by (auto simp: coord_node_def monad_defs st_get_def split: option.splits sum.splits if_splits)

lemma coord_job_result:
  "coord_job jid s = (Inr job, t) \<longleftrightarrow> t = s \<and> coll_get ''jobs'' jid (jobs s) = Inr (Some job)"
  by (auto simp: coord_job_def monad_defs st_get_def split: option.splits sum.splits)

lemma coord_lease_result:
  "coord_lease lid s = (Inr lease, t) \<longleftrightarrow> t = s \<and> coll_get ''leases'' lid (leases s) = Inr (Some lease)"
  by (auto simp: coord_lease_def monad_defs st_get_def split: option.splits sum.splits)

lemma wp_coord_node [wp]: "wpM (coord_node nid) Q E s =
   (case coll_get ''nodes'' nid (nodes s) of Inl e \<Rightarrow> E e s
    | Inr None \<Rightarrow> E (CoordinatorError ''node not found'') s
    | Inr (Some node) \<Rightarrow> (if nd_state node \<in> set NODE_STATES then Q node s
        else E (CoordinatorError ''node record has invalid state'') s))"
  by (simp add: coord_node_def wp split: sum.splits option.splits)

lemma wp_coord_job [wp]: "wpM (coord_job jid) Q E s =
   (case coll_get ''jobs'' jid (jobs s) of Inl e \<Rightarrow> E e s
    | Inr None \<Rightarrow> E (CoordinatorError ''job not found'') s | Inr (Some job) \<Rightarrow> Q job s)"
  by (simp add: coord_job_def wp split: sum.splits option.splits)

lemma wp_coord_lease [wp]: "wpM (coord_lease lid) Q E s =
   (case coll_get ''leases'' lid (leases s) of Inl e \<Rightarrow> E e s
    | Inr None \<Rightarrow> E (CoordinatorError ''lease not found'') s | Inr (Some l) \<Rightarrow> Q l s)"
  by (simp add: coord_lease_def wp split: sum.splits option.splits)

lemma wp_lockM [wp]: "wpM (lockM n) Q E s = (case lock_name n of Inl e \<Rightarrow> E e s | Inr x \<Rightarrow> Q x s)"
  by (simp add: lockM_def wp)

subsection \<open>The audit log always accepts an entry\<close>

lemma worker_control_safe [simp]:
  "safe_record_id ''worker-control'' = Inr ''worker-control''"
  "safe_record_id ''audit-worker-control'' = Inr ''audit-worker-control''"
  by (simp_all add: safe_record_id_def py_strip_def py_lstrip_def py_rstrip_def char_class_defs)

definition audit_with :: "string option \<Rightarrow> string \<Rightarrow> jobj \<Rightarrow> cstate \<Rightarrow> cstate" where
  "audit_with h ev pl s = s\<lparr>audit := log_add ''worker-control'' \<lparr>au_event = ev, au_created_at = clk s,
     au_payload = sanitize_public (JObj pl), au_payload_hash = h,
     au_sequence = length (log_entries (audit s) ''worker-control'') + 1\<rparr> (audit s)\<rparr>"

definition audited :: "string \<Rightarrow> jobj \<Rightarrow> cstate \<Rightarrow> cstate" where
  "audited ev pl s = audit_with (Some (payload_hash (interp s) (sanitize_public (JObj pl)))) ev pl s"

lemma append_audit_ok:
  "append_audit ''worker-control'' (\<lambda>n. \<lparr>au_event = ev, au_created_at = clk s,
     au_payload = sanitize_public (JObj pl), au_payload_hash = h, au_sequence = n\<rparr>) s
   = (Inr (), audit_with h ev pl s)"
  by (simp add: st_append_def log_append_def lock_name_def audit_with_def Let_def)

lemma coord_audit_eq: "coord_audit ev pl s = (Inr (), audited ev pl s)"
  by (simp add: coord_audit_def bindM_def getsM_def append_audit_ok audited_def)

lemma wp_coord_audit [wp]: "wpM (coord_audit ev pl) Q E s = Q () (audited ev pl s)"
  by (simp add: wpM_def coord_audit_eq)

lemma audit_with_frame [simp]:
  "nodes (audit_with h ev pl s) = nodes s"
  "enrollments (audit_with h ev pl s) = enrollments s"
  "jobs (audit_with h ev pl s) = jobs s"
  "leases (audit_with h ev pl s) = leases s"
  "artifacts (audit_with h ev pl s) = artifacts s"
  "grants (audit_with h ev pl s) = grants s"
  "idempotency (audit_with h ev pl s) = idempotency s"
  "goal_revisions (audit_with h ev pl s) = goal_revisions s"
  "invalidation_plans (audit_with h ev pl s) = invalidation_plans s"
  "revalidation_attempts (audit_with h ev pl s) = revalidation_attempts s"
  "terminal_transactions (audit_with h ev pl s) = terminal_transactions s"
  "events (audit_with h ev pl s) = events s"
  "quarantine (audit_with h ev pl s) = quarantine s"
  "clk (audit_with h ev pl s) = clk s"
  "lease_seconds (audit_with h ev pl s) = lease_seconds s"
  "uuid_src (audit_with h ev pl s) = uuid_src s"
  "uuid_next (audit_with h ev pl s) = uuid_next s"
  "rand_src (audit_with h ev pl s) = rand_src s"
  "rand_next (audit_with h ev pl s) = rand_next s"
  "pairing_secret (audit_with h ev pl s) = pairing_secret s"
  "interp (audit_with h ev pl s) = interp s"
  by (simp_all add: audit_with_def)

lemma audited_frame [simp]:
  "nodes (audited ev pl s) = nodes s"
  "enrollments (audited ev pl s) = enrollments s"
  "jobs (audited ev pl s) = jobs s"
  "leases (audited ev pl s) = leases s"
  "artifacts (audited ev pl s) = artifacts s"
  "grants (audited ev pl s) = grants s"
  "idempotency (audited ev pl s) = idempotency s"
  "goal_revisions (audited ev pl s) = goal_revisions s"
  "invalidation_plans (audited ev pl s) = invalidation_plans s"
  "revalidation_attempts (audited ev pl s) = revalidation_attempts s"
  "terminal_transactions (audited ev pl s) = terminal_transactions s"
  "events (audited ev pl s) = events s"
  "quarantine (audited ev pl s) = quarantine s"
  "clk (audited ev pl s) = clk s"
  "lease_seconds (audited ev pl s) = lease_seconds s"
  "uuid_src (audited ev pl s) = uuid_src s"
  "uuid_next (audited ev pl s) = uuid_next s"
  "rand_src (audited ev pl s) = rand_src s"
  "rand_next (audited ev pl s) = rand_next s"
  "pairing_secret (audited ev pl s) = pairing_secret s"
  "interp (audited ev pl s) = interp s"
  by (simp_all add: audited_def)

subsection \<open>Path generation for the store's operations\<close>

lemma vcg_st_get [vcg]:
  "(\<And>e. coll_get n rid (g s) = Inl e \<Longrightarrow> E e s) \<Longrightarrow>
   (\<And>r. coll_get n rid (g s) = Inr r \<Longrightarrow> Q r s) \<Longrightarrow> wpM (st_get n g rid) Q E s"
  by (simp add: wp split: sum.splits)

lemma vcg_st_put [vcg]:
  "(\<And>e. \<not> (isOK (safe_record_id rid) \<and> isOK (lock_name (n @ ''-'' @ rid))) \<Longrightarrow> E e s) \<Longrightarrow>
   (\<And>k. safe_record_id rid = Inr k \<Longrightarrow> isOK (lock_name (n @ ''-'' @ rid)) \<Longrightarrow>
      Q () (u (\<lambda>_. coll_upd k v (g s)) s)) \<Longrightarrow> wpM (st_put n g u rid v) Q E s"
  by (cases "safe_record_id rid"; cases "lock_name (n @ ''-'' @ rid)") (auto simp: wp coll_put_def Let_def)

lemma vcg_st_delete [vcg]:
  "(\<And>e. \<not> (isOK (safe_record_id rid) \<and> isOK (lock_name (n @ ''-'' @ rid))) \<Longrightarrow> E e s) \<Longrightarrow>
   (\<And>k. safe_record_id rid = Inr k \<Longrightarrow> isOK (lock_name (n @ ''-'' @ rid)) \<Longrightarrow>
      Q (map_of (g s) k \<noteq> None) (u (\<lambda>_. coll_del k (g s)) s)) \<Longrightarrow> wpM (st_delete n g u rid) Q E s"
  by (cases "safe_record_id rid"; cases "lock_name (n @ ''-'' @ rid)") (auto simp: wp coll_delete_def Let_def)

lemma vcg_st_append [vcg]:
  "(\<And>e. \<not> (isOK (safe_record_id rid) \<and> isOK (lock_name (n @ ''-'' @ rid))) \<Longrightarrow> E e s) \<Longrightarrow>
   (\<And>k. safe_record_id rid = Inr k \<Longrightarrow> isOK (lock_name (n @ ''-'' @ rid)) \<Longrightarrow>
      Q () (u (\<lambda>_. log_add k (f (length (log_entries (g s) k) + 1)) (g s)) s)) \<Longrightarrow>
   wpM (st_append n g u rid f) Q E s"
  by (cases "safe_record_id rid"; cases "lock_name (n @ ''-'' @ rid)") (auto simp: wp log_append_def Let_def)

lemma vcg_st_read_log [vcg]:
  "(\<And>e. log_read n rid (g s) = Inl e \<Longrightarrow> E e s) \<Longrightarrow>
   (\<And>r. log_read n rid (g s) = Inr r \<Longrightarrow> Q r s) \<Longrightarrow> wpM (st_read_log n g rid) Q E s"
  by (simp add: wp split: sum.splits)

lemma vcg_lockM [vcg]:
  "(\<And>e. \<not> isOK (lock_name n) \<Longrightarrow> E e s) \<Longrightarrow> (isOK (lock_name n) \<Longrightarrow> Q () s) \<Longrightarrow> wpM (lockM n) Q E s"
  by (simp add: wp split: sum.splits)

lemma vcg_new_protocol_id [vcg]:
  "Q (p @ ''-'' @ uuid_src s (uuid_next s)) (s\<lparr>uuid_next := Suc (uuid_next s)\<rparr>) \<Longrightarrow>
   wpM (new_protocol_id p) Q E s"
  by (simp add: wp)

lemma vcg_coord_audit [vcg]: "Q () (audited ev pl s) \<Longrightarrow> wpM (coord_audit ev pl) Q E s"
  by (simp add: wp)

lemma vcg_coord_node [vcg]:
  "(\<And>e. \<nexists>x. coll_get ''nodes'' nid (nodes s) = Inr (Some x) \<and> nd_state x \<in> set NODE_STATES \<Longrightarrow> E e s) \<Longrightarrow> (\<And>node. coll_get ''nodes'' nid (nodes s) = Inr (Some node) \<Longrightarrow>
     nd_state node \<in> set NODE_STATES \<Longrightarrow> Q node s) \<Longrightarrow> wpM (coord_node nid) Q E s"
  by (auto simp: wp split: sum.splits option.splits)

lemma vcg_coord_job [vcg]:
  "(\<And>e. \<nexists>x. coll_get ''jobs'' jid (jobs s) = Inr (Some x) \<Longrightarrow> E e s) \<Longrightarrow> (\<And>job. coll_get ''jobs'' jid (jobs s) = Inr (Some job) \<Longrightarrow> Q job s) \<Longrightarrow>
   wpM (coord_job jid) Q E s"
  by (auto simp: wp split: sum.splits option.splits)

lemma vcg_coord_lease [vcg]:
  "(\<And>e. \<nexists>x. coll_get ''leases'' lid (leases s) = Inr (Some x) \<Longrightarrow> E e s) \<Longrightarrow> (\<And>l. coll_get ''leases'' lid (leases s) = Inr (Some l) \<Longrightarrow> Q l s) \<Longrightarrow>
   wpM (coord_lease lid) Q E s"
  by (auto simp: wp split: sum.splits option.splits)

text \<open>\<open>hmac.compare_digest\<close> on strings: only ASCII text is accepted.\<close>

definition compare_digest :: "string \<Rightarrow> string \<Rightarrow> bool res" where
  "compare_digest a b = (if list_all (\<lambda>c. code_pt c < 128) (a @ b) then Inr (a = b)
     else Inl (TypeError ''comparing strings with non-ASCII characters is not supported''))"

section \<open>A property of every record of a collection\<close>

definition coll_all :: "('v \<Rightarrow> bool) \<Rightarrow> 'v coll \<Rightarrow> bool" where
  "coll_all P c \<longleftrightarrow> (\<forall>k v. map_of c k = Some v \<longrightarrow> P v)"

lemma coll_all_Nil [simp]: "coll_all P []"
  by (simp add: coll_all_def)

lemma coll_all_upd [intro]: "coll_all P c \<Longrightarrow> P v \<Longrightarrow> coll_all P (coll_upd k v c)"
  by (simp add: coll_all_def)

lemma coll_all_del [intro]: "coll_all P c \<Longrightarrow> coll_all P (coll_del k c)"
  by (simp add: coll_all_def)

lemma coll_all_get: "coll_all P c \<Longrightarrow> coll_get n rid c = Inr (Some v) \<Longrightarrow> P v"
  by (auto simp: coll_all_def coll_get_Inr_Some)

lemma coll_all_lookup: "coll_all P c \<Longrightarrow> map_of c k = Some v \<Longrightarrow> P v"
  by (auto simp: coll_all_def)

section \<open>Records filed under their own id\<close>

text \<open>
  Every record of a collection carries the id it is stored under, and that id passes the checks
  of the store, so writing a record back under its own id replaces it and cannot fail.
\<close>

definition keyed :: "string \<Rightarrow> ('v \<Rightarrow> string) \<Rightarrow> 'v coll \<Rightarrow> bool" where
  "keyed n rid c \<longleftrightarrow> coll_wf c \<and> (\<forall>k v. map_of c k = Some v \<longrightarrow>
     safe_record_id (rid v) = Inr k \<and> isOK (lock_name (n @ ''-'' @ rid v)))"

lemma keyed_Nil [simp]: "keyed n rid []"
  by (simp add: keyed_def)

lemma keyed_upd:
  "keyed n rid c \<Longrightarrow> safe_record_id (rid v) = Inr k \<Longrightarrow> isOK (lock_name (n @ ''-'' @ rid v)) \<Longrightarrow>
   keyed n rid (coll_upd k v c)"
  by (auto simp: keyed_def coll_wf_upd split: if_splits)

lemma keyed_del: "keyed n rid c \<Longrightarrow> keyed n rid (coll_del k c)"
  by (auto simp: keyed_def coll_wf_del split: if_splits)

lemma keyed_lookup: "keyed n rid c \<Longrightarrow> map_of c k = Some v \<Longrightarrow> safe_record_id (rid v) = Inr k"
  by (auto simp: keyed_def)

lemma keyed_lock: "keyed n rid c \<Longrightarrow> map_of c k = Some v \<Longrightarrow> isOK (lock_name (n @ ''-'' @ rid v))"
  by (auto simp: keyed_def)

lemma keyed_mem: "keyed n rid c \<Longrightarrow> v \<in> set (coll_list c) \<longleftrightarrow> (\<exists>k. map_of c k = Some v)"
  by (force simp: keyed_def coll_list_def coll_wf_distinct map_of_eq_Some_iff)

lemma keyed_distinct: "keyed n rid c \<Longrightarrow> distinct (coll_list c)"
proof -
  assume k: "keyed n rid c"
  then have d: "distinct (map fst c)" by (simp add: keyed_def coll_wf_distinct)
  have "inj_on snd (set c)"
  proof (rule inj_onI)
    fix p q assume pq: "p \<in> set c" "q \<in> set c" "snd p = snd q"
    then have "map_of c (fst p) = Some (snd p)" "map_of c (fst q) = Some (snd p)"
      using d by (metis map_of_eq_Some_iff prod.collapse)+
    then have "fst p = fst q" using keyed_lookup [OF k] by (metis sum.inject(2))
    then show "p = q" using pq(3) by (simp add: prod_eq_iff)
  qed
  then show ?thesis using d by (simp add: coll_list_def distinct_map)
qed

text \<open>A loop over the records of a collection that rewrites those it selects: afterwards the
  collection is the old one with the selected records rewritten.\<close>

lemma wp_rewrite_loop:
  fixes g :: "cstate \<Rightarrow> 'v coll"
  assumes key: "keyed n rid (g s)"
    and lens: "\<And>c t. g (u (\<lambda>_. c) t) = c"
    and frame: "F s" "\<And>c t. F t \<Longrightarrow> F (u (\<lambda>_. c) t)"
    and body: "\<And>v t. v \<in> set (coll_list (g s)) \<Longrightarrow> F t \<Longrightarrow>
        body v t = (if P v then st_put n g u (rid v) (f v) else retM ()) t"
    and rid: "\<And>v. rid (f v) = rid v"
    and post: "\<And>t. F t \<Longrightarrow> keyed n rid (g t) \<Longrightarrow>
        (\<And>k. map_of (g t) k = map_option (\<lambda>v. if P v then f v else v) (map_of (g s) k)) \<Longrightarrow> Q () t"
  shows "wpM (forM (coll_list (g s)) body) Q E s"
proof -
  define I where "I rest t \<longleftrightarrow> F t \<and> keyed n rid (g t) \<and> distinct rest \<and> set rest \<subseteq> set (coll_list (g s))
     \<and> (\<forall>k. map_of (g t) k = map_option (\<lambda>v. if P v \<and> v \<notin> set rest then f v else v) (map_of (g s) k))" for rest t
  show ?thesis
  proof (rule wpM_forM_rest [where I = I])
    have "map_of (g s) k = map_option (\<lambda>v. if P v \<and> v \<notin> set (coll_list (g s)) then f v else v) (map_of (g s) k)" for k
      using keyed_mem [OF key] by (cases "map_of (g s) k") auto
    then show "I (coll_list (g s)) s"
      using key frame keyed_distinct [OF key] by (simp add: I_def)
    fix v ys t assume i: "I (v # ys) t"
    then obtain k where k: "map_of (g s) k = Some v" by (auto simp: I_def keyed_mem [OF key])
    have b: "body v t = (if P v then st_put n g u (rid v) (f v) else retM ()) t" using i body by (simp add: I_def)
    have sk: "safe_record_id (rid v) = Inr k" and lk: "isOK (lock_name (n @ ''-'' @ rid v))"
      using k key by (auto simp: keyed_def)
    have uniq: "k' = k" if "map_of (g s) k' = Some v" for k'
      using keyed_lookup [OF key that] sk by simp
    define t' where "t' = (if P v then u (\<lambda>_. coll_upd k (f v) (g t)) t else t)"
    have frames: "F t'" "keyed n rid (g t')" "distinct ys" "v \<notin> set ys" "set ys \<subseteq> set (coll_list (g s))"
      using i frame(2) sk lk rid by (simp_all add: I_def t'_def lens keyed_upd)
    have maps: "map_of (g t') k' = map_option (\<lambda>v. if P v \<and> v \<notin> set ys then f v else v) (map_of (g s) k')" for k'
    proof (cases "k' = k")
      case True
      then show ?thesis using i k frames(4) by (simp add: I_def t'_def lens)
    next
      case False
      have "map_of (g t') k' = map_of (g t) k'" using False by (simp add: t'_def lens)
      also have "\<dots> = map_option (\<lambda>w. if P w \<and> w \<notin> set (v # ys) then f w else w) (map_of (g s) k')"
        using i by (simp add: I_def)
      also have "\<dots> = map_option (\<lambda>v. if P v \<and> v \<notin> set ys then f v else v) (map_of (g s) k')"
        using uniq [of k'] False by (cases "map_of (g s) k'") auto
      finally show ?thesis .
    qed
    have step: "I ys t'" unfolding I_def using frames maps by blast
    have "wpM (if P v then st_put n g u (rid v) (f v) else retM ()) (\<lambda>_. I ys) E t"
      using step sk lk by (intro vcg) (simp_all add: t'_def isOK_iff)
    then show "wpM (body v) (\<lambda>_. I ys) E t" by (simp add: wpM_def b)
  next
    fix t assume "I [] t"
    then show "Q () t" using post [of t] by (simp add: I_def)
  qed
qed

section \<open>A small concrete state\<close>

lemmas eval_ids = safe_record_id_def lock_name_def py_strip_def py_lstrip_def py_rstrip_def
  char_class_defs is_identifier_def ident_tail_char_def require_identifier_def

definition sample_state :: cstate where
  "sample_state = init_cstate 100 60 (\<lambda>_. ''u'') (\<lambda>_. 0) [] sample_env"

lemma sample_state_simps [simp]:
  "nodes sample_state = []" "enrollments sample_state = []" "jobs sample_state = []"
  "leases sample_state = []" "artifacts sample_state = []" "grants sample_state = []"
  "idempotency sample_state = []" "goal_revisions sample_state = []"
  "invalidation_plans sample_state = []" "revalidation_attempts sample_state = []"
  "terminal_transactions sample_state = []" "events sample_state = []"
  "quarantine sample_state = []" "audit sample_state = []" "clk sample_state = 100"
  "lease_seconds sample_state = 60" "uuid_src sample_state = (\<lambda>_. ''u'')"
  "uuid_next sample_state = 0" "pairing_secret sample_state = []" "interp sample_state = sample_env"
  by (simp_all add: sample_state_def init_cstate_def)

end
