(* ===== verification/Enrollment.thy ===== *)
theory Enrollment
  imports CoordState
begin

text \<open>
  The pairing lifecycle (\<open>EnrollmentAuthority\<close> in \<open>coordinator.py\<close>): a one-time
  pairing code with an expiry and a bounded number of wrong tries, the pending node it
  creates, and the host's approval, rejection, revocation and deletion of a node. A method
  returns the record it wrote; the public view the code returns is its redaction.
\<close>

section \<open>Codes\<close>

definition hash_code :: "bytes \<Rightarrow> string \<Rightarrow> string \<Rightarrow> string" where
  "hash_code secret enrollment_id code = hexdigest (hmac_sha256 secret (utf8 (enrollment_id @ '':'' @ code)))"

definition hex_val :: "char \<Rightarrow> nat" where
  "hex_val c = (if is_digit c then code_pt c - 48 else code_pt c - 87)"

definition hex_nat :: "string \<Rightarrow> nat" where
  "hex_nat s = foldl (\<lambda>a c. 16 * a + hex_val c) 0 s"

definition zero_pad :: "nat \<Rightarrow> nat \<Rightarrow> string" where
  "zero_pad w n = (let t = nat_str n in replicate (w - length t) (CHR ''0'') @ t)"

definition verification_code :: "bytes \<Rightarrow> string \<Rightarrow> string \<Rightarrow> string \<Rightarrow> string" where
  "verification_code secret enrollment_id node_id fingerprint =
     (let raw = hexdigest (hmac_sha256 secret (utf8 (enrollment_id @ '':'' @ node_id @ '':'' @ fingerprint)))
      in zero_pad 6 (hex_nat (take 8 raw) mod 1000000))"

definition enr_audit :: "string \<Rightarrow> jobj \<Rightarrow> unit coord" where
  "enr_audit event payload = bindM clockM (\<lambda>now.
     append_audit ''worker-control'' (\<lambda>n. \<lparr>au_event = event, au_created_at = now,
       au_payload = sanitize_public (JObj payload), au_payload_hash = None, au_sequence = n\<rparr>))"

definition enr_node :: "string \<Rightarrow> node_rec coord" where
  "enr_node node_id = bindM (get_node node_id) (\<lambda>r. case r of
      None \<Rightarrow> raiseM (CoordinatorError ''node not found'') | Some node \<Rightarrow> retM node)"

text \<open>\<open>secrets.randbelow(10000)\<close>, from the random stream.\<close>

definition randbelow :: "nat \<Rightarrow> nat coord" where
  "randbelow n = bindM (getsM (\<lambda>s. rand_src s (rand_next s) mod n)) (\<lambda>r.
     thenM (modifyM (\<lambda>s. s\<lparr>rand_next := Suc (rand_next s)\<rparr>)) (retM r))"

section \<open>Operations\<close>

definition create_pairing_code :: "int \<Rightarrow> int \<Rightarrow> (string \<times> string \<times> time) coord" where
  "create_pairing_code ttl_seconds max_failures =
     (let ttl = max 60 (min ttl_seconds 600) in
     bindM (new_protocol_id ''enrollment'') (\<lambda>enrollment_id.
     bindM (randbelow 10000) (\<lambda>a. bindM (randbelow 10000) (\<lambda>b. bindM (randbelow 10000) (\<lambda>c.
     let raw_code = py_join ''-'' [zero_pad 4 a, zero_pad 4 b, zero_pad 4 c] in
     bindM clockM (\<lambda>now.
     bindM (getsM pairing_secret) (\<lambda>secret.
     let r = \<lparr>en_enrollment_id = enrollment_id, en_code_hash = hash_code secret enrollment_id raw_code,
       en_created_at = now, en_expires_at = now + of_int ttl, en_used_at = None,
       en_failed_attempts = 0, en_max_failures = max 1 (min max_failures 20),
       en_status = ''issued'', en_node_id = None\<rparr> in
     thenM (put_enrollment enrollment_id r)
     (thenM (enr_audit ''pairing.created'' [(''enrollment_id'', JStr enrollment_id),
        (''expires_at'', JFloat (en_expires_at r))])
     (retM (enrollment_id, raw_code, en_expires_at r))))))))))"

definition enrollment_failure_limit :: "enrollment_rec \<Rightarrow> int" where
  "enrollment_failure_limit r = (if en_max_failures r = 0 then 5 else en_max_failures r)"

definition submit_pairing :: "string \<Rightarrow> string \<Rightarrow> jobj \<Rightarrow> jobj \<Rightarrow> (string \<times> string) coord" where
  "submit_pairing enrollment_id pairing_code public_identity capability_summary =
     thenM (lockM (''pairing-'' @ enrollment_id))
     (bindM (get_enrollment enrollment_id) (\<lambda>found. case found of
        None \<Rightarrow> raiseM (CoordinatorError ''pairing request rejected'')
      | Some r \<Rightarrow>
     bindM clockM (\<lambda>now. bindM (getsM pairing_secret) (\<lambda>secret. bindM (getsM interp) (\<lambda>E.
     if en_status r \<noteq> ''issued'' \<or> en_used_at r \<noteq> None then
       thenM (enr_audit ''pairing.replay_rejected'' [(''enrollment_id'', JStr enrollment_id)])
         (raiseM (CoordinatorError ''pairing request rejected''))
     else if en_expires_at r \<le> now then
       thenM (put_enrollment enrollment_id (r\<lparr>en_status := ''expired''\<rparr>))
       (thenM (enr_audit ''pairing.expired_rejected'' [(''enrollment_id'', JStr enrollment_id)])
         (raiseM (CoordinatorError ''pairing request rejected'')))
     else if en_failed_attempts r \<ge> enrollment_failure_limit r then
       thenM (put_enrollment enrollment_id (r\<lparr>en_status := ''rate_limited''\<rparr>))
       (thenM (enr_audit ''pairing.rate_limited'' [(''enrollment_id'', JStr enrollment_id)])
         (raiseM (CoordinatorError ''pairing request rate limited'')))
     else if en_code_hash r \<noteq> hash_code secret enrollment_id pairing_code then
       (let n = en_failed_attempts r + 1 in
       thenM (put_enrollment enrollment_id (r\<lparr>en_failed_attempts := n\<rparr>))
       (thenM (enr_audit ''pairing.invalid_rejected'' [(''enrollment_id'', JStr enrollment_id),
          (''failed_attempts'', JInt n)])
         (raiseM (CoordinatorError ''pairing request rejected''))))
     else
       (let node_id = get_str E public_identity ''node_id'' '''' in
       thenM (liftM (capability_from_dict E capability_summary))
       (thenM (guardM (jget capability_summary ''node_id'' = JStr node_id)
          (CoordinatorError ''pairing identity does not match capability manifest''))
       (let fingerprint = get_str E public_identity ''fingerprint'' '''' in
       thenM (guardM (16 \<le> length fingerprint) (CoordinatorError ''pairing public identity is invalid''))
       (let code = verification_code secret enrollment_id node_id fingerprint;
            pending = \<lparr>nd_node_id = node_id, nd_state = ''pending_approval'',
              nd_display_name = get_str E public_identity ''display_name'' node_id,
              nd_fingerprint = fingerprint,
              nd_algorithm = get_str E public_identity ''algorithm'' ''ed25519'',
              nd_certificate_fingerprint = None, nd_capability_manifest = capability_summary,
              nd_verification_code = Some code, nd_approved_at = None,
              nd_identity_expires_at = None, nd_revoked_at = None, nd_revocation_reason = None,
              nd_last_seen_at = None, nd_last_disconnected_at = None, nd_disconnect_reason = None,
              nd_transport = ''pending'', nd_session_generation = None, nd_draining = False,
              nd_update_directive = None, nd_transport_directive = None\<rparr>
        in thenM (put_enrollment enrollment_id (r\<lparr>en_used_at := Some now,
               en_status := ''pending_approval'', en_node_id := Some node_id\<rparr>))
          (thenM (put_node node_id pending)
          (thenM (enr_audit ''pairing.submitted'' [(''enrollment_id'', JStr enrollment_id),
             (''node_id'', JStr node_id)])
          (retM (node_id, code)))))))))))))"

definition approve :: "string \<Rightarrow> string \<Rightarrow> node_rec coord" where
  "approve node_id code =
     thenM (lockM (''node-'' @ node_id))
     (bindM (enr_node node_id) (\<lambda>node.
     thenM (guardM (nd_state node = ''pending_approval'') (CoordinatorError ''node is not pending approval''))
     (bindM (liftM (compare_digest (opt_or (nd_verification_code node) []) code)) (\<lambda>same.
      if \<not> same then
        thenM (enr_audit ''node.approval_rejected'' [(''node_id'', JStr node_id)])
          (raiseM (CoordinatorError ''verification code does not match''))
      else bindM clockM (\<lambda>now.
        let node' = node\<lparr>nd_state := ''offline'', nd_approved_at := Some now,
          nd_identity_expires_at := Some (now + 24 * 60 * 60), nd_session_generation := Some 1\<rparr> in
        thenM (put_node node_id node')
        (thenM (enr_audit ''node.approved'' [(''node_id'', JStr node_id)]) (retM node')))))))"

definition reject :: "string \<Rightarrow> node_rec coord" where
  "reject node_id = bindM (enr_node node_id) (\<lambda>node.
     thenM (guardM (nd_state node = ''pending_approval'') (CoordinatorError ''node is not pending approval''))
     (bindM clockM (\<lambda>now.
       let node' = node\<lparr>nd_state := ''revoked'', nd_revoked_at := Some now\<rparr> in
       thenM (put_node node_id node')
       (thenM (enr_audit ''node.rejected'' [(''node_id'', JStr node_id)]) (retM node')))))"

definition revoke :: "string \<Rightarrow> string \<Rightarrow> node_rec coord" where
  "revoke node_id reason = bindM (enr_node node_id) (\<lambda>node. bindM clockM (\<lambda>now.
     let node' = node\<lparr>nd_state := ''revoked'', nd_revoked_at := Some now,
       nd_revocation_reason := Some (take 120 reason),
       nd_session_generation := Some (opt_or (nd_session_generation node) 0 + 1)\<rparr> in
     thenM (put_node node_id node')
     (thenM (enr_audit ''node.revoked'' [(''node_id'', JStr node_id), (''reason'', JStr reason)])
       (retM node'))))"

definition enr_delete :: "string \<Rightarrow> bool coord" where
  "enr_delete node_id = bindM (enr_node node_id) (\<lambda>node.
     thenM (if nd_state node \<noteq> ''revoked'' then thenM (revoke node_id ''deleted'') (retM ()) else retM ())
     (bindM (del_node node_id) (\<lambda>deleted.
     thenM (enr_audit ''node.deleted'' [(''node_id'', JStr node_id)]) (retM deleted))))"

section \<open>Lemmas\<close>

lemma enr_audit_eq: "enr_audit ev pl s = (Inr (), audit_with None ev pl s)"
  by (simp add: enr_audit_def bindM_def getsM_def append_audit_ok)

lemma wp_enr_audit [wp]: "wpM (enr_audit ev pl) Q E s = Q () (audit_with None ev pl s)"
  by (simp add: wpM_def enr_audit_eq)

lemma wp_enr_node [wp]: "wpM (enr_node nid) Q E s =
   (case coll_get ''nodes'' nid (nodes s) of Inl e \<Rightarrow> E e s
    | Inr None \<Rightarrow> E (CoordinatorError ''node not found'') s | Inr (Some node) \<Rightarrow> Q node s)"
  by (simp add: enr_node_def wp split: sum.splits option.splits)

lemma vcg_enr_audit [vcg]: "Q () (audit_with None ev pl s) \<Longrightarrow> wpM (enr_audit ev pl) Q E s"
  by (simp add: wp)

lemma vcg_enr_node [vcg]:
  "(\<And>e. \<nexists>node. coll_get ''nodes'' nid (nodes s) = Inr (Some node) \<Longrightarrow> E e s) \<Longrightarrow>
   (\<And>node. coll_get ''nodes'' nid (nodes s) = Inr (Some node) \<Longrightarrow> Q node s) \<Longrightarrow>
   wpM (enr_node nid) Q E s"
  by (simp add: wp split: sum.splits option.splits)

lemma wp_randbelow [wp]: "wpM (randbelow n) Q E s =
   Q (rand_src s (rand_next s) mod n) (s\<lparr>rand_next := Suc (rand_next s)\<rparr>)"
  by (simp add: randbelow_def wp)

text \<open>The conditions under which a pairing code is consumed.\<close>

definition pairing_open :: "cstate \<Rightarrow> string \<Rightarrow> string \<Rightarrow> enrollment_rec \<Rightarrow> bool" where
  "pairing_open s eid code r \<longleftrightarrow> coll_get ''enrollments'' eid (enrollments s) = Inr (Some r)
     \<and> en_status r = ''issued'' \<and> en_used_at r = None \<and> clk s < en_expires_at r
     \<and> en_failed_attempts r < enrollment_failure_limit r
     \<and> en_code_hash r = hash_code (pairing_secret s) eid code"

lemma submit_pairing_wp:
  "wpM (submit_pairing eid code ident cap) (\<lambda>x t. \<exists>r k. pairing_open s eid code r
       \<and> safe_record_id eid = Inr k \<and> isOK (lock_name (''pairing-'' @ eid))
       \<and> enrollments t = coll_upd k (r\<lparr>en_used_at := Some (clk s), en_status := ''pending_approval'',
            en_node_id := Some (fst x)\<rparr>) (enrollments s)
       \<and> snd x = verification_code (pairing_secret s) eid (fst x) (get_str (interp s) ident ''fingerprint'' [])
       \<and> (\<exists>node. coll_get ''nodes'' (fst x) (nodes t) = Inr (Some node)
            \<and> nd_node_id node = fst x \<and> nd_state node = ''pending_approval''
            \<and> nd_approved_at node = None \<and> nd_verification_code node = Some (snd x)))
     (\<lambda>e t. True) s"
  unfolding submit_pairing_def
  by (intro vcg) (auto simp: pairing_open_def coll_get_Inr_Some)

lemma submit_pairing_closed:
  assumes "coll_get ''enrollments'' eid (enrollments s) = Inr (Some r)"
    and "en_status r \<noteq> ''issued'' \<or> en_used_at r \<noteq> None"
    and "isOK (lock_name (''pairing-'' @ eid))"
  shows "submit_pairing eid code ident cap s = (Inl (CoordinatorError ''pairing request rejected''),
     audit_with None ''pairing.replay_rejected'' [(''enrollment_id'', JStr eid)] s)"
  using assms
  by (auto simp: submit_pairing_def thenM_def bindM_def lockM_def liftM_def getsM_def raiseM_def
      st_get_def enr_audit_eq isOK_iff)

definition enrollment_bounded :: "enrollment_rec \<Rightarrow> bool" where
  "enrollment_bounded r \<longleftrightarrow> 1 \<le> en_max_failures r \<and> en_max_failures r \<le> 20
     \<and> 0 \<le> en_failed_attempts r \<and> en_failed_attempts r \<le> en_max_failures r"

definition enrollments_bounded :: "cstate \<Rightarrow> bool" where
  "enrollments_bounded s \<longleftrightarrow> (\<forall>k r. map_of (enrollments s) k = Some r \<longrightarrow> enrollment_bounded r)"

lemma enrollments_bounded_audit [simp]: "enrollments_bounded (audit_with h ev pl s) = enrollments_bounded s"
  by (simp add: enrollments_bounded_def)

lemma enrollments_bounded_put:
  "enrollments_bounded s \<Longrightarrow> enrollment_bounded r \<Longrightarrow>
   enrollments_bounded (s\<lparr>enrollments := coll_upd k r (enrollments s)\<rparr>)"
  by (simp add: enrollments_bounded_def)

lemma create_pairing_code_bounded: "keeps enrollments_bounded (create_pairing_code ttl n)"
  unfolding create_pairing_code_def
  by (rule keeps_via_wp)
    (auto simp: wp Let_def coll_put_Inr enrollments_bounded_def enrollment_bounded_def
      split: sum.splits if_splits)

lemma submit_pairing_bounded: "keeps enrollments_bounded (submit_pairing eid code ident cap)"
proof (rule keeps_via_wp)
  fix s assume b: "enrollments_bounded s"
  have "enrollment_bounded r" if "coll_get ''enrollments'' eid (enrollments s) = Inr (Some r)" for r
    using b that by (auto simp: coll_get_Inr_Some enrollments_bounded_def)
  then show "wpM (submit_pairing eid code ident cap) (\<lambda>_. enrollments_bounded) (\<lambda>_. enrollments_bounded) s"
    using b unfolding submit_pairing_def
    by (intro vcg) (auto simp: enrollment_failure_limit_def enrollments_bounded_def
        enrollment_bounded_def)
qed

lemma approve_wp:
  "wpM (approve nid code) (\<lambda>node' t. \<exists>node k. coll_get ''nodes'' nid (nodes s) = Inr (Some node)
       \<and> safe_record_id nid = Inr k
       \<and> nd_state node = ''pending_approval'' \<and> code = opt_or (nd_verification_code node) []
       \<and> nodes t = coll_upd k node' (nodes s)
       \<and> node' = node\<lparr>nd_state := ''offline'', nd_approved_at := Some (clk s),
            nd_identity_expires_at := Some (clk s + 24 * 60 * 60), nd_session_generation := Some 1\<rparr>)
     (\<lambda>e t. nodes t = nodes s) s"
  unfolding approve_def
  by (intro vcg) (auto simp: compare_digest_def split: if_splits)

lemma is_digit_ascii: "is_digit c \<Longrightarrow> code_pt c < 128"
  by (simp add: is_digit_def)

lemma zero_pad_digits: "c \<in> set (zero_pad w n) \<Longrightarrow> is_digit c"
  by (auto simp: zero_pad_def Let_def is_digit_def code_pt_def dest: nat_str_digits)

lemma verification_code_ascii: "list_all (\<lambda>c. code_pt c < 128) (verification_code k e n f)"
  by (auto simp: verification_code_def Let_def list_all_iff intro!: is_digit_ascii dest!: zero_pad_digits)

text \<open>Wrong guesses at a code, one after another, at whatever times they come.\<close>

fun run_guesses :: "string \<Rightarrow> (time \<times> string \<times> jobj \<times> jobj) list \<Rightarrow> cstate \<Rightarrow> cstate" where
  "run_guesses eid [] s = s"
| "run_guesses eid ((now, code, ident, cap) # gs) s =
     run_guesses eid gs (snd (submit_pairing eid code ident cap (s\<lparr>clk := now\<rparr>)))"

text \<open>At least \<open>n\<close> guesses at a code are used up, or the code is closed for good.\<close>

definition guesses_used :: "string \<Rightarrow> enrollment_rec \<Rightarrow> bytes \<Rightarrow> int \<Rightarrow> cstate \<Rightarrow> bool" where
  "guesses_used k r secret n s \<longleftrightarrow> pairing_secret s = secret \<and> (\<exists>r'. map_of (enrollments s) k = Some r'
     \<and> en_code_hash r' = en_code_hash r \<and> enrollment_failure_limit r' = enrollment_failure_limit r
     \<and> (en_status r' \<noteq> ''issued'' \<or> en_used_at r' \<noteq> None \<or> n \<le> en_failed_attempts r'
        \<or> enrollment_failure_limit r \<le> en_failed_attempts r'))"

lemma enrollment_failure_limit_upd [simp]:
  "enrollment_failure_limit (r\<lparr>en_status := x\<rparr>) = enrollment_failure_limit r"
  "enrollment_failure_limit (r\<lparr>en_failed_attempts := n\<rparr>) = enrollment_failure_limit r"
  by (simp_all add: enrollment_failure_limit_def)

lemma guess_step:
  assumes "guesses_used k r secret n s" and "safe_record_id eid = Inr k"
    and "isOK (lock_name (''pairing-'' @ eid))" and "isOK (lock_name (''enrollments-'' @ eid))"
    and "en_code_hash r \<noteq> hash_code secret eid code"
  shows "wpM (submit_pairing eid code ident cap) (\<lambda>_ _. False) (\<lambda>_. guesses_used k r secret (n + 1)) s"
proof -
  have lock: "isOK (lock_name (''enrollments'' @ ''-'' @ eid))" using assms(4) by simp
  show ?thesis
    using assms unfolding submit_pairing_def
    by (intro vcg) (use lock in \<open>auto simp: guesses_used_def coll_get_def isOK_iff\<close>)
qed

lemma guesses_used_clk [simp]: "guesses_used k r secret n (s\<lparr>clk := x\<rparr>) = guesses_used k r secret n s"
  by (simp add: guesses_used_def)

lemma run_guesses_used:
  assumes "guesses_used k r secret n s" and "safe_record_id eid = Inr k"
    and "isOK (lock_name (''pairing-'' @ eid))" and "isOK (lock_name (''enrollments-'' @ eid))"
    and "\<And>now code ident cap. (now, code, ident, cap) \<in> set gs \<Longrightarrow> en_code_hash r \<noteq> hash_code secret eid code"
  shows "guesses_used k r secret (n + int (length gs)) (run_guesses eid gs s)"
  using assms(1,5)
proof (induction gs arbitrary: n s)
  case (Cons g gs)
  obtain now code ident cap where g: "g = (now, code, ident, cap)" by (cases g)
  have "wpM (submit_pairing eid code ident cap) (\<lambda>_ _. False) (\<lambda>_. guesses_used k r secret (n + 1)) (s\<lparr>clk := now\<rparr>)"
    using Cons.prems assms(2-4) by (intro guess_step) (auto simp: g)
  then have "guesses_used k r secret (n + 1) (snd (submit_pairing eid code ident cap (s\<lparr>clk := now\<rparr>)))"
    by (auto simp: wpM_def split: prod.splits sum.splits)
  from Cons.IH [OF this] Cons.prems(2) show ?case by (auto simp: g algebra_simps)
qed simp

section \<open>Properties\<close>

definition pairing_sample :: cstate where
  "pairing_sample = sample_state\<lparr>enrollments := [(''e-1'', \<lparr>en_enrollment_id = ''e-1'',
     en_code_hash = hash_code [] ''e-1'' ''c'', en_created_at = 50, en_expires_at = 150,
     en_used_at = None, en_failed_attempts = 0, en_max_failures = 1, en_status = ''issued'',
     en_node_id = None\<rparr>)]\<rparr>"

abbreviation sample_identity :: jobj where
  "sample_identity \<equiv> [(''node_id'', JStr ''node-1''), (''fingerprint'', JStr ''0123456789abcdef'')]"

lemma sample_pairing_ok: "\<exists>vcode t. submit_pairing ''e-1'' ''c'' sample_identity
    (capability_to_dict sample_capability) pairing_sample = (Inr (''node-1'', vcode), t)"
proof -
  have cap: "capability_from_dict E (capability_to_dict sample_capability) = Inr sample_capability" for E
    by (rule capability_roundtrip_aux [OF sample_capability_ok]) (simp_all add: sample_capability_def)
  have nid: "jget (capability_to_dict sample_capability) ''node_id'' = JStr ''node-1''"
    by (simp add: capability_to_dict_get sample_capability_def)
  have "wpM (submit_pairing ''e-1'' ''c'' sample_identity (capability_to_dict sample_capability))
     (\<lambda>x t. fst x = ''node-1'') (\<lambda>_ _. False) pairing_sample"
    unfolding submit_pairing_def
    by (intro vcg) (auto simp: cap nid eval_ids coll_get_def pairing_sample_def enrollment_failure_limit_def
        get_str_def jor_def isOK_iff)
  then show ?thesis by (auto simp: wpM_returns)
qed

text \<open>C35: a pairing code is one-shot. A submission succeeds only against an issued, unused,
  unexpired enrolment with guesses left and the exact code, and it leaves a pending,
  unapproved node; from then on every further submission for that enrolment, with any code,
  identity and capability and at any later time, is rejected and writes nothing but an audit
  entry.\<close>

theorem pairing_one_shot:
  assumes "submit_pairing eid code ident cap s = (Inr (nid, vcode), t)"
  shows "(\<exists>r. pairing_open s eid code r)
    \<and> (\<exists>node. coll_get ''nodes'' nid (nodes t) = Inr (Some node)
         \<and> nd_state node = ''pending_approval'' \<and> nd_approved_at node = None)
    \<and> (\<forall>u code' ident' cap'. enrollments u = enrollments t \<longrightarrow>
         submit_pairing eid code' ident' cap' u
         = (Inl (CoordinatorError ''pairing request rejected''),
            audit_with None ''pairing.replay_rejected'' [(''enrollment_id'', JStr eid)] u))"
proof -
  obtain r k where r: "pairing_open s eid code r" and k: "safe_record_id eid = Inr k"
    and lock: "isOK (lock_name (''pairing-'' @ eid))"
    and en: "enrollments t = coll_upd k (r\<lparr>en_used_at := Some (clk s),
       en_status := ''pending_approval'', en_node_id := Some nid\<rparr>) (enrollments s)"
    and node: "\<exists>node. coll_get ''nodes'' nid (nodes t) = Inr (Some node)
         \<and> nd_state node = ''pending_approval'' \<and> nd_approved_at node = None"
    using wpM_result(1) [OF submit_pairing_wp assms] by (auto simp del: coll_lookup)
  have "isOK (lock_name (''enrollments'' @ ''-'' @ eid))"
    using r by (auto simp: pairing_open_def coll_get_Inr_Some)
  then have "coll_get ''enrollments'' eid (enrollments t) = Inr (Some (r\<lparr>en_used_at := Some (clk s),
       en_status := ''pending_approval'', en_node_id := Some nid\<rparr>))"
    using k en by (simp add: coll_get_Inr_Some)
  then show ?thesis using r node lock by (auto intro!: submit_pairing_closed)
qed

theorem pairing_one_shot_witness:
  "\<exists>vcode t. submit_pairing ''e-1'' ''c'' sample_identity (capability_to_dict sample_capability)
      pairing_sample = (Inr (''node-1'', vcode), t)
    \<and> fst (submit_pairing ''e-1'' ''c'' sample_identity (capability_to_dict sample_capability) t)
      = Inl (CoordinatorError ''pairing request rejected'')"
proof -
  obtain vcode t where h: "submit_pairing ''e-1'' ''c'' sample_identity
    (capability_to_dict sample_capability) pairing_sample = (Inr (''node-1'', vcode), t)"
    using sample_pairing_ok by blast
  from pairing_one_shot [OF h] h show ?thesis by auto
qed

text \<open>Guessing is bounded. Once as many wrong codes have been submitted as the enrolment
  tolerates, counting those already used, no submission is accepted any more, not even one with
  the right code.\<close>

theorem pairing_guesses_bounded:
  assumes "coll_get ''enrollments'' eid (enrollments s) = Inr (Some r)"
    and "\<forall>(now, code, ident, cap) \<in> set gs. en_code_hash r \<noteq> hash_code (pairing_secret s) eid code"
    and "enrollment_failure_limit r \<le> en_failed_attempts r + int (length gs)"
  shows "fst (submit_pairing eid code ident cap (run_guesses eid gs s)) \<noteq> Inr x"
proof
  assume ok: "fst (submit_pairing eid code ident cap (run_guesses eid gs s)) = Inr x"
  then obtain r' where r': "pairing_open (run_guesses eid gs s) eid code r'"
    and lock: "isOK (lock_name (''pairing-'' @ eid))"
    using submit_pairing_wp [of eid code ident cap "run_guesses eid gs s"]
    by (auto simp: wpM_def split: prod.splits sum.splits)
  obtain k where k: "safe_record_id eid = Inr k" "map_of (enrollments s) k = Some r"
    "isOK (lock_name (''enrollments-'' @ eid))"
    using assms(1) by (auto simp: coll_get_Inr_Some)
  have "guesses_used k r (pairing_secret s) (en_failed_attempts r) s"
    using k by (auto simp: guesses_used_def)
  then have "guesses_used k r (pairing_secret s) (en_failed_attempts r + int (length gs)) (run_guesses eid gs s)"
    by (rule run_guesses_used) (use k lock assms(2) in auto)
  then show False using r' k assms(3)
    by (auto simp: guesses_used_def pairing_open_def coll_get_Inr_Some)
qed

theorem pairing_guesses_bounded_sample:
  "let r = snd (hd (enrollments pairing_sample))\<lparr>en_code_hash := ''x''\<rparr>;
       s = pairing_sample\<lparr>enrollments := [(''e-1'', r)]\<rparr>
   in \<forall>x. fst (submit_pairing ''e-1'' ''c'' [] [] (run_guesses ''e-1'' [(100, ''d'', [], [])] s)) \<noteq> Inr x"
proof -
  have len: "length (hash_code [] ''e-1'' ''d'') = 64"
    by (simp add: hash_code_def hmac_sha256_def Let_def)
  have hash: "''x'' \<noteq> hash_code [] ''e-1'' ''d''"
  proof
    assume "''x'' = hash_code [] ''e-1'' ''d''"
    from arg_cong [OF this, of length] len show False by simp
  qed
  show ?thesis
    unfolding Let_def
    by (intro allI, rule pairing_guesses_bounded)
     (auto simp: pairing_sample_def coll_get_def eval_ids hash enrollment_failure_limit_def)
qed

text \<open>the approval ceremony. After a successful pairing, approving the pending node succeeds
  with exactly the verification code the pairing displayed: that code makes the node an approved
  offline node of session generation 1 whose identity lasts one day, and any other code is
  refused and leaves every node record unchanged.\<close>

lemma pairing_approval_exact:
  assumes "submit_pairing eid code ident cap s = (Inr (nid, vcode), t)"
    and "isOK (lock_name (''node-'' @ nid))"
  shows "(\<exists>node u. approve nid vcode t = (Inr node, u) \<and> nd_state node = ''offline''
       \<and> nd_approved_at node = Some (clk t) \<and> nd_identity_expires_at node = Some (clk t + 86400)
       \<and> nd_session_generation node = Some 1 \<and> coll_get ''nodes'' nid (nodes u) = Inr (Some node))
    \<and> (\<forall>c. c \<noteq> vcode \<longrightarrow> (\<exists>e u. approve nid c t = (Inl e, u) \<and> nodes u = nodes t))"
proof -
  obtain node where node: "coll_get ''nodes'' nid (nodes t) = Inr (Some node)"
    "nd_state node = ''pending_approval''" "nd_verification_code node = Some vcode"
    and vc: "vcode = verification_code (pairing_secret s) eid nid (get_str (interp s) ident ''fingerprint'' [])"
    using wpM_result(1) [OF submit_pairing_wp assms(1)] by auto
  have ascii: "list_all (\<lambda>c. code_pt c < 128) (vcode @ vcode)"
    using verification_code_ascii by (simp add: vc)
  have "wpM (approve nid vcode) (\<lambda>node' u. nd_state node' = ''offline''
       \<and> nd_approved_at node' = Some (clk t) \<and> nd_identity_expires_at node' = Some (clk t + 86400)
       \<and> nd_session_generation node' = Some 1 \<and> coll_get ''nodes'' nid (nodes u) = Inr (Some node'))
     (\<lambda>_ _. False) t"
    unfolding approve_def
    by (intro vcg) (use node assms(2) ascii in \<open>auto simp: compare_digest_def coll_get_Inr_Some\<close>)
  moreover have "wpM (approve nid c) (\<lambda>_ _. False) (\<lambda>e u. nodes u = nodes t) t" if "c \<noteq> vcode" for c
    using approve_wp [of nid c t] node that by (auto elim: wpM_conseq)
  ultimately show ?thesis by (auto simp: wpM_returns wpM_raises)
qed

lemma pairing_approval_exact_sample:
  "\<exists>vcode t. submit_pairing ''e-1'' ''c'' sample_identity (capability_to_dict sample_capability)
      pairing_sample = (Inr (''node-1'', vcode), t)
    \<and> (\<exists>node u. approve ''node-1'' vcode t = (Inr node, u) \<and> nd_state node = ''offline'')"
proof -
  obtain vcode t where h: "submit_pairing ''e-1'' ''c'' sample_identity
    (capability_to_dict sample_capability) pairing_sample = (Inr (''node-1'', vcode), t)"
    using sample_pairing_ok by blast
  have "isOK (lock_name (''node-'' @ ''node-1''))" by (simp add: eval_ids)
  from pairing_approval_exact [OF h this] h show ?thesis by blast
qed

end
