(* ===== verification/EvidenceBinding.thy ===== *)
theory EvidenceBinding
  imports ProtocolFacts
begin

text \<open>
  Binding an evidence receipt to the criteria of a goal (\<open>bind_evidence_to_criteria\<close> in
  \<open>evidence.py\<close>). The caller's binding names evidence, criteria and artifact digests; who
  vouches for them comes from the coordinator's authority record alone.
\<close>

section \<open>Definitions\<close>

definition worker_payload_hash :: "pyenv \<Rightarrow> json \<Rightarrow> string" where
  "worker_payload_hash E v = sha256_hex (dumps_sorted E v)"

definition canonical_sha256 :: "pyenv \<Rightarrow> json \<Rightarrow> string" where
  "canonical_sha256 E v = sha256_hex (dumps_ascii E v)"

definition GOAL_EVIDENCE_SCHEMA :: string where
  "GOAL_EVIDENCE_SCHEMA = ''across-goal-evidence-binding/1.0''"

definition caller_owned_forbidden :: "string list" where
  "caller_owned_forbidden = [''verified'', ''passed'', ''verdict'', ''trust_state'', ''lease_state'',
     ''validator'', ''validator_results'', ''goal_id'', ''goal_revision'', ''task_id'', ''job_id'',
     ''run_id'', ''attempt'', ''attempt_id'', ''lease_id'', ''input_fingerprint'']"

definition bound_fields :: "string list" where
  "bound_fields = [''goal_id'', ''goal_revision'', ''task_id'', ''job_id'', ''run_id'', ''attempt'',
     ''lease_id'', ''input_fingerprint'']"

text \<open>A dict of strings, built by assignment: a later key replaces an earlier one.\<close>

fun sset :: "(string \<times> string) list \<Rightarrow> string \<Rightarrow> string \<Rightarrow> (string \<times> string) list" where
  "sset [] k v = [(k, v)]"
| "sset ((k', v') # d) k v = (if k' = k then (k, v) # d else (k', v') # sset d k v)"

definition sdict :: "(string \<times> string) list \<Rightarrow> (string \<times> string) list" where
  "sdict ps = foldl (\<lambda>d p. sset d (fst p) (snd p)) [] ps"

definition receipt_artifact_digests :: "pyenv \<Rightarrow> jobj \<Rightarrow> (string \<times> string) list res" where
  "receipt_artifact_digests E receipt =
     bindE (py_iter (jor (jget receipt ''artifacts'') (JArr []))) (\<lambda>items.
     Inr (sdict (List.map_filter (\<lambda>v. map_option (\<lambda>o'. (py_str E (jget o' ''artifact_id''),
        py_str E (jget o' ''sha256''))) (as_obj v)) items)))"

definition bound_artifact_digests :: "pyenv \<Rightarrow> jobj \<Rightarrow> (string \<times> string) list res" where
  "bound_artifact_digests E binding = (case jor (jget binding ''artifact_digests'') (JObj []) of
      JObj o' \<Rightarrow> Inr (sdict (map (\<lambda>p. (fst p, py_str E (snd p))) o'))
    | _ \<Rightarrow> Inl (AttributeError ''items''))"

text \<open>The loop over the sorted criteria: the validators recorded and whether all of them pass.\<close>

definition validator_passes :: "string \<Rightarrow> bool" where
  "validator_passes status \<longleftrightarrow> status \<in> {''passed'', ''ready'', ''verified''}"

fun check_validators ::
  "pyenv \<Rightarrow> string list \<Rightarrow> jobj \<Rightarrow> string list \<Rightarrow> jobj \<Rightarrow> bool \<Rightarrow> (jobj \<times> bool) res" where
  "check_validators E registered results [] validators verified = Inr (validators, verified)"
| "check_validators E registered results (c # cs) validators verified =
     (case as_obj (jget results c) of
        None \<Rightarrow> check_validators E registered results cs validators False
      | Some result \<Rightarrow>
        let validator_id = get_str E result ''validator_id'' ''''; mthd = get_str E result ''method'' '''';
            status = py_lower (get_str E result ''status'' '''')
        in if validator_id = [] \<or> validator_id \<notin> set registered \<or> mthd = []
           then Inl (ValueError ''evidence validator is not registered by the host'')
           else check_validators E registered results cs
             (jset validators c (JObj [(''validator_id'', JStr validator_id), (''method'', JStr mthd),
                (''status'', JStr status)]))
             (verified \<and> validator_passes status))"

definition receipt_hash_field :: "jobj \<Rightarrow> string" where
  "receipt_hash_field receipt = (if py_eq (jget receipt ''schema_version'') (JStr EVIDENCE_SCHEMA)
     then ''receipt_hash'' else ''evidence_sha256'')"

definition observed_receipt_hash :: "pyenv \<Rightarrow> jobj \<Rightarrow> string" where
  "observed_receipt_hash E receipt = (let f = receipt_hash_field receipt; unhashed = JObj (jpop receipt f)
     in if f = ''receipt_hash'' then worker_payload_hash E unhashed else canonical_sha256 E unhashed)"

fun check_bound_fields :: "string list \<Rightarrow> jobj \<Rightarrow> jobj \<Rightarrow> unit res" where
  "check_bound_fields [] authority receipt = Inr ()"
| "check_bound_fields (f # fs) authority receipt =
     (if py_eq (jget authority f) (jget receipt f) then check_bound_fields fs authority receipt
      else Inl (ValueError (''evidence '' @ f @ '' binding mismatch'')))"

definition bind_evidence_to_criteria :: "pyenv \<Rightarrow> jobj \<Rightarrow> jobj \<Rightarrow> jobj \<Rightarrow> jobj res" where
  "bind_evidence_to_criteria E receipt binding authority =
     bindE (checkE (py_eq (jget binding ''schema_version'') (JStr GOAL_EVIDENCE_SCHEMA))
       (ValueError ''unsupported goal evidence binding schema'')) (\<lambda>_.
     bindE (checkE (list_all (\<lambda>k. \<not> jhas binding k) caller_owned_forbidden)
       (ValueError ''evidence trust cannot be supplied by the caller'')) (\<lambda>_.
     let receipt_hash = get_str E receipt (receipt_hash_field receipt) '''' in
     bindE (checkE (receipt_hash = observed_receipt_hash E receipt)
       (ValueError ''evidence receipt hash is invalid'')) (\<lambda>_.
     bindE (check_bound_fields bound_fields authority receipt) (\<lambda>_.
     bindE (checkE (py_eq (jget authority ''lease_state'') (JStr ''terminal_valid''))
       (ValueError ''evidence lease is expired or invalid'')) (\<lambda>_.
     bindE (checkE (py_eq (jget receipt ''terminal_state'') (JStr ''completed''))
       (ValueError ''evidence receipt is not completed'')) (\<lambda>_.
     bindE (get_strs E receipt ''criterion_ids'') (\<lambda>receipt_criteria.
     bindE (get_strs E binding ''criterion_ids'') (\<lambda>bound_criteria.
     bindE (checkE (bound_criteria \<noteq> [] \<and> set bound_criteria \<subseteq> set receipt_criteria)
       (ValueError ''evidence criterion binding mismatch'')) (\<lambda>_.
     bindE (receipt_artifact_digests E receipt) (\<lambda>receipt_artifacts.
     bindE (bound_artifact_digests E binding) (\<lambda>bound_artifacts.
     bindE (checkE (set bound_artifacts = set receipt_artifacts)
       (ValueError ''evidence artifact digest mismatch'')) (\<lambda>_.
     bindE (get_strs E authority ''registered_validator_ids'') (\<lambda>registered.
     bindE (case as_obj (jget authority ''validator_results'') of
         None \<Rightarrow> Inl (ValueError ''host validator results must be an object'') | Some r \<Rightarrow> Inr r) (\<lambda>results.
     let criteria = sort (remdups bound_criteria) in
     bindE (check_validators E registered results criteria [] True) (\<lambda>vv.
     let verdict = JStr (if snd vv then ''verified'' else ''needs_review'') in
     bindE (checkE (list_all (jhas authority) bound_fields) (KeyError ''authority'')) (\<lambda>_.
     Inr (jmerge binding
       [(''goal_id'', jget authority ''goal_id''),
        (''goal_revision'', jget authority ''goal_revision''),
        (''task_id'', jget authority ''task_id''),
        (''job_id'', jget authority ''job_id''),
        (''run_id'', jget authority ''run_id''),
        (''attempt'', jget authority ''attempt''),
        (''attempt_id'', JStr (py_str E (jget authority ''job_id'') @ '':'' @ py_str E (jget authority ''attempt''))),
        (''lease_id'', jget authority ''lease_id''),
        (''lease_state'', jget authority ''lease_state''),
        (''input_fingerprint'', jget authority ''input_fingerprint''),
        (''criterion_ids'', jstrs criteria),
        (''artifact_digests'', JObj (map (\<lambda>p. (fst p, JStr (snd p))) (sort_key fst bound_artifacts))),
        (''validators'', JObj (fst vv)),
        (''receipt_hash'', JStr receipt_hash),
        (''verdict'', verdict),
        (''trust_state'', verdict),
        (''authority'', JStr ''across-orchestrator-worker-coordinator'')])))))))))))))))))"

section \<open>Trust comes from the host\<close>

text \<open>The host's result for a criterion is by a validator it registered, and the result passes.\<close>

definition registered_result :: "pyenv \<Rightarrow> string list \<Rightarrow> jobj \<Rightarrow> bool" where
  "registered_result E registered result \<longleftrightarrow> get_str E result ''validator_id'' '''' \<noteq> []
     \<and> get_str E result ''validator_id'' '''' \<in> set registered \<and> get_str E result ''method'' '''' \<noteq> []"

definition criterion_verified :: "pyenv \<Rightarrow> string list \<Rightarrow> jobj \<Rightarrow> string \<Rightarrow> bool" where
  "criterion_verified E registered results c \<longleftrightarrow> (\<exists>result. jget results c = JObj result
     \<and> registered_result E registered result \<and> validator_passes (py_lower (get_str E result ''status'' '''')))"

lemma check_validators_exact:
  assumes "check_validators E registered results cs vs b = Inr (vs', b')"
  shows "(b' \<longleftrightarrow> b \<and> (\<forall>c\<in>set cs. criterion_verified E registered results c))
    \<and> (\<forall>c\<in>set cs. \<forall>result. jget results c = JObj result \<longrightarrow> registered_result E registered result)"
  using assms
  by (induction cs arbitrary: vs b)
    (auto simp: Let_def registered_result_def criterion_verified_def as_obj_Some as_obj_def
      split: option.splits json.splits if_splits)

lemma check_bound_fields_ok:
  "check_bound_fields fs authority receipt = Inr u \<Longrightarrow> f \<in> set fs \<Longrightarrow> py_eq (jget authority f) (jget receipt f)"
  by (induction fs) (auto split: if_splits simp del: py_eq.simps)

lemma jget_jmerge: "distinct (map fst b) \<Longrightarrow> jget (jmerge a b) k = (if k \<in> fst ` set b then jget b k else jget a k)"
proof (induction b arbitrary: a)
  case (Cons p b)
  then show ?case by (cases p) (auto simp: jmerge_def)
qed (simp add: jmerge_def)

lemma obj_or_error: "(case as_obj v of None \<Rightarrow> Inl e | Some r \<Rightarrow> Inr r) = Inr r' \<longleftrightarrow> v = JObj r'"
  by (simp add: as_obj_def split: json.splits)

text \<open>C29: evidence trust is never the caller's. A binding that is accepted has no trust field of
  its own, names a completed receipt whose hash is the one computed from its content, agrees with
  the host's record on goal, revision, task, job, run, attempt, lease and input (and carries the
  host's values), covers only criteria of the receipt and exactly the receipt's artifact digests.
  Its trust state is \<open>verified\<close> exactly when every bound criterion has a passing result
  of a validator the host registered, and \<open>needs_review\<close> otherwise.\<close>

theorem evidence_binding_exact:
  assumes "bind_evidence_to_criteria E receipt binding authority = Inr out"
  shows "\<exists>cs rcs ds rds registered results.
     get_strs E binding ''criterion_ids'' = Inr cs \<and> get_strs E receipt ''criterion_ids'' = Inr rcs
     \<and> cs \<noteq> [] \<and> set cs \<subseteq> set rcs \<and> jget out ''criterion_ids'' = jstrs (sort (remdups cs))
     \<and> bound_artifact_digests E binding = Inr ds \<and> receipt_artifact_digests E receipt = Inr rds \<and> set ds = set rds
     \<and> list_all (\<lambda>k. \<not> jhas binding k) caller_owned_forbidden
     \<and> jget receipt ''terminal_state'' = JStr ''completed''
     \<and> jget authority ''lease_state'' = JStr ''terminal_valid''
     \<and> get_str E receipt (receipt_hash_field receipt) '''' = observed_receipt_hash E receipt
     \<and> jget out ''receipt_hash'' = JStr (observed_receipt_hash E receipt)
     \<and> list_all (\<lambda>f. py_eq (jget authority f) (jget receipt f) \<and> jget out f = jget authority f) bound_fields
     \<and> get_strs E authority ''registered_validator_ids'' = Inr registered
     \<and> jget authority ''validator_results'' = JObj results
     \<and> jget out ''trust_state'' = JStr (if \<forall>c\<in>set cs. criterion_verified E registered results c
          then ''verified'' else ''needs_review'')
     \<and> jget out ''verdict'' = jget out ''trust_state''"
proof -
  from assms obtain cs rcs ds rds registered results vv where h:
    "list_all (\<lambda>k. \<not> jhas binding k) caller_owned_forbidden"
    "get_str E receipt (receipt_hash_field receipt) '''' = observed_receipt_hash E receipt"
    "check_bound_fields bound_fields authority receipt = Inr ()"
    "jget authority ''lease_state'' = JStr ''terminal_valid''" "jget receipt ''terminal_state'' = JStr ''completed''"
    "get_strs E receipt ''criterion_ids'' = Inr rcs" "get_strs E binding ''criterion_ids'' = Inr cs"
    "cs \<noteq> []" "set cs \<subseteq> set rcs" "receipt_artifact_digests E receipt = Inr rds"
    "bound_artifact_digests E binding = Inr ds" "set ds = set rds"
    "get_strs E authority ''registered_validator_ids'' = Inr registered"
    "jget authority ''validator_results'' = JObj results"
    "check_validators E registered results (sort (remdups cs)) [] True = Inr vv"
    and out: "out = jmerge binding
       [(''goal_id'', jget authority ''goal_id''), (''goal_revision'', jget authority ''goal_revision''),
        (''task_id'', jget authority ''task_id''), (''job_id'', jget authority ''job_id''),
        (''run_id'', jget authority ''run_id''), (''attempt'', jget authority ''attempt''),
        (''attempt_id'', JStr (py_str E (jget authority ''job_id'') @ '':'' @ py_str E (jget authority ''attempt''))),
        (''lease_id'', jget authority ''lease_id''), (''lease_state'', jget authority ''lease_state''),
        (''input_fingerprint'', jget authority ''input_fingerprint''),
        (''criterion_ids'', jstrs (sort (remdups cs))),
        (''artifact_digests'', JObj (map (\<lambda>p. (fst p, JStr (snd p))) (sort_key fst ds))),
        (''validators'', JObj (fst vv)), (''receipt_hash'', JStr (observed_receipt_hash E receipt)),
        (''verdict'', JStr (if snd vv then ''verified'' else ''needs_review'')),
        (''trust_state'', JStr (if snd vv then ''verified'' else ''needs_review'')),
        (''authority'', JStr ''across-orchestrator-worker-coordinator'')]"
    unfolding bind_evidence_to_criteria_def Let_def bindE_Inr_iff checkE_Inr_iff py_eq_JStr_right obj_or_error sum.inject
    by - (elim exE conjE, rule that, (assumption | simp)+)
  have fields: "list_all (\<lambda>f. py_eq (jget authority f) (jget receipt f) \<and> jget out f = jget authority f) bound_fields"
    using check_bound_fields_ok [OF h(3)] unfolding out
    by (simp add: bound_fields_def jget_jmerge del: py_eq.simps)
  have "snd vv \<longleftrightarrow> (\<forall>c\<in>set cs. criterion_verified E registered results c)"
    using check_validators_exact [of E registered results "sort (remdups cs)" "[]" True "fst vv" "snd vv"] h(15) by simp
  moreover have "jget out ''criterion_ids'' = jstrs (sort (remdups cs))"
    "jget out ''receipt_hash'' = JStr (observed_receipt_hash E receipt)"
    "jget out ''trust_state'' = JStr (if snd vv then ''verified'' else ''needs_review'')"
    "jget out ''verdict'' = JStr (if snd vv then ''verified'' else ''needs_review'')"
    unfolding out by (simp_all add: jget_jmerge)
  ultimately show ?thesis using h fields
    by (intro exI [of _ cs] exI [of _ rcs] exI [of _ ds] exI [of _ rds] exI [of _ registered] exI [of _ results] conjI)
      (assumption | simp only:)+
qed

text \<open>A receipt of two criteria of which the host's registered validator passed one.\<close>

definition receipt_core :: jobj where
  "receipt_core = [(''schema_version'', JStr EVIDENCE_SCHEMA), (''goal_id'', JStr ''g-1''), (''goal_revision'', JInt 1),
     (''task_id'', JStr ''t-1''), (''job_id'', JStr ''job-1''), (''run_id'', JStr ''r-1''), (''attempt'', JInt 1),
     (''lease_id'', JStr ''l-1''), (''input_fingerprint'', JStr ''fp''), (''terminal_state'', JStr ''completed''),
     (''criterion_ids'', jstrs [''c-1'', ''c-2'']), (''artifacts'', JArr [])]"

definition host_record :: jobj where
  "host_record = [(''goal_id'', JStr ''g-1''), (''goal_revision'', JInt 1), (''task_id'', JStr ''t-1''),
     (''job_id'', JStr ''job-1''), (''run_id'', JStr ''r-1''), (''attempt'', JInt 1), (''lease_id'', JStr ''l-1''),
     (''input_fingerprint'', JStr ''fp''), (''lease_state'', JStr ''terminal_valid''),
     (''registered_validator_ids'', jstrs [''v-1'']),
     (''validator_results'', JObj [(''c-1'', JObj [(''validator_id'', JStr ''v-1''), (''method'', JStr ''unit''),
        (''status'', JStr ''PASSED'')])])]"

definition signed_receipt :: "pyenv \<Rightarrow> jobj" where
  "signed_receipt E = (''receipt_hash'', JStr (worker_payload_hash E (JObj receipt_core))) # receipt_core"

definition sample_binding :: "string list \<Rightarrow> jobj" where
  "sample_binding cs = [(''schema_version'', JStr GOAL_EVIDENCE_SCHEMA), (''criterion_ids'', jstrs cs)]"

lemma signed_receipt_hash:
  "receipt_hash_field (signed_receipt E) = ''receipt_hash''"
  "get_str E (signed_receipt E) ''receipt_hash'' '''' = worker_payload_hash E (JObj receipt_core)"
  "observed_receipt_hash E (signed_receipt E) = worker_payload_hash E (JObj receipt_core)"
proof -
  show f: "receipt_hash_field (signed_receipt E) = ''receipt_hash''"
    by (simp add: receipt_hash_field_def signed_receipt_def receipt_core_def)
  show "get_str E (signed_receipt E) ''receipt_hash'' '''' = worker_payload_hash E (JObj receipt_core)"
    by (simp add: get_str_def signed_receipt_def jor_def)
  have "jpop (signed_receipt E) ''receipt_hash'' = receipt_core"
    by (simp add: jpop_def signed_receipt_def receipt_core_def)
  then show "observed_receipt_hash E (signed_receipt E) = worker_payload_hash E (JObj receipt_core)"
    by (simp add: observed_receipt_hash_def f)
qed

lemma signed_receipt_fields: "k \<noteq> ''receipt_hash'' \<Longrightarrow> jget (signed_receipt E) k = jget receipt_core k"
  by (simp add: signed_receipt_def)

lemma sample_binding_accepted:
  "\<exists>out. bind_evidence_to_criteria sample_env (signed_receipt sample_env) (sample_binding [''c-1'']) host_record = Inr out"
proof -
  let ?r = "signed_receipt sample_env" and ?b = "sample_binding [''c-1'']"
  have "check_bound_fields bound_fields host_record ?r = Inr ()"
    by (simp add: bound_fields_def signed_receipt_fields) code_simp
  moreover have "get_strs sample_env ?r ''criterion_ids'' = Inr [''c-1'', ''c-2'']"
    "receipt_artifact_digests sample_env ?r = Inr []" "jget ?r ''terminal_state'' = JStr ''completed''"
    unfolding get_strs_def receipt_artifact_digests_def by (simp_all add: signed_receipt_fields; code_simp)+
  moreover have "get_strs sample_env ?b ''criterion_ids'' = Inr [''c-1'']" "bound_artifact_digests sample_env ?b = Inr []"
    "jget ?b ''schema_version'' = JStr GOAL_EVIDENCE_SCHEMA" "list_all (\<lambda>k. \<not> jhas ?b k) caller_owned_forbidden"
    "get_strs sample_env host_record ''registered_validator_ids'' = Inr [''v-1'']"
    "jget host_record ''lease_state'' = JStr ''terminal_valid''" "list_all (jhas host_record) bound_fields" by code_simp+
  moreover obtain r vv where "jget host_record ''validator_results'' = JObj r"
    "check_validators sample_env [''v-1''] r [''c-1''] [] True = Inr vv"
  proof (rule that)
    show "jget host_record ''validator_results'' = JObj [(''c-1'', JObj [(''validator_id'', JStr ''v-1''),
        (''method'', JStr ''unit''), (''status'', JStr ''PASSED'')])]" by (simp add: host_record_def)
    show "check_validators sample_env [''v-1''] [(''c-1'', JObj [(''validator_id'', JStr ''v-1''),
        (''method'', JStr ''unit''), (''status'', JStr ''PASSED'')])] [''c-1''] [] True
      = Inr ([(''c-1'', JObj [(''validator_id'', JStr ''v-1''), (''method'', JStr ''unit''), (''status'', JStr ''passed'')])], True)"
      by code_simp
  qed
  ultimately show ?thesis
    by (simp add: bind_evidence_to_criteria_def signed_receipt_hash Let_def del: jget_simps check_validators.simps)
qed

theorem evidence_binding_exact_witness:
  "\<exists>out. bind_evidence_to_criteria sample_env (signed_receipt sample_env) (sample_binding [''c-1'']) host_record = Inr out
     \<and> jget out ''receipt_hash'' = JStr (worker_payload_hash sample_env (JObj receipt_core))"
proof -
  obtain out where h: "bind_evidence_to_criteria sample_env (signed_receipt sample_env) (sample_binding [''c-1'']) host_record = Inr out"
    using sample_binding_accepted by blast
  have "jget out ''receipt_hash'' = JStr (observed_receipt_hash sample_env (signed_receipt sample_env))"
    using evidence_binding_exact [OF h] by (elim exE conjE)
  then show ?thesis using h by (simp add: signed_receipt_hash)
qed

end
