(* ===== verification/Jobs.thy ===== *)
theory Jobs
  imports CoordState EvidenceBinding "HOL-Library.Product_Lexorder"
begin

text \<open>
  Jobs and leases of \<open>WorkerCoordinator\<close> (\<open>coordinator.py\<close>): idempotent submission, the
  goal revision watermark that fences stale work, the choice of a node, the lease a node takes
  for a queued job and how it is acknowledged, renewed, lost and recovered, and cancellation.
\<close>

section \<open>Goal revisions\<close>

text \<open>\<open>int(value or 0)\<close>\<close>

definition int_or0 :: "json \<Rightarrow> int res" where
  "int_or0 v = py_int (jor v (JInt 0))"

definition authorized_goal_revision :: "jobj \<Rightarrow> int coord" where
  "authorized_goal_revision binding =
     bindM (getsM interp) (\<lambda>E.
     let goal_id = get_str E binding ''goal_id'' '''' in
     bindM (liftM (int_or0 (jget binding ''goal_revision''))) (\<lambda>fallback.
     if goal_id = [] then retM fallback
     else bindM (get_goal_rev goal_id) (\<lambda>authority.
       retM (case authority of None \<Rightarrow> fallback
         | Some g \<Rightarrow> if gv_goal_revision g = 0 then fallback else gv_goal_revision g))))"

definition stale_job_update :: "time \<Rightarrow> job_rec \<Rightarrow> job_rec" where
  "stale_job_update now job = job\<lparr>j_cancel_requested_at := Some now, j_cancel_reason := Some ''stale_goal_revision'',
     j_status := ''stale'', j_updated_at := now\<rparr>"

definition fence_job :: "string \<Rightarrow> int \<Rightarrow> time \<Rightarrow> job_rec \<Rightarrow> unit coord" where
  "fence_job identifier goal_revision now job =
     (if jget (j_manifest job) ''goal_id'' \<noteq> JStr identifier then retM ()
      else bindM (liftM (int_or0 (jget (j_manifest job) ''goal_revision''))) (\<lambda>revision.
        if revision \<ge> goal_revision \<or> opt_truthy (j_terminal_event_id job) then retM ()
        else put_job (j_job_id job) (stale_job_update now job)))"

definition authorize_goal_revision :: "string \<Rightarrow> int \<Rightarrow> goal_revision_rec coord" where
  "authorize_goal_revision goal_id goal_revision =
     (let identifier = py_strip goal_id in
     thenM (guardM (identifier \<noteq> []) (CoordinatorError ''goal_id is required''))
     (thenM (guardM (1 \<le> goal_revision) (CoordinatorError ''goal_revision must be a positive integer''))
     (thenM (lockM (''goal-revision-'' @ identifier))
     (bindM (get_goal_rev identifier) (\<lambda>current.
     let current_revision = (case current of None \<Rightarrow> 0 | Some g \<Rightarrow> gv_goal_revision g) in
     thenM (guardM (current_revision \<le> goal_revision) (CoordinatorError ''Goal revision cannot move backwards''))
     (bindM clockM (\<lambda>now.
     let r = \<lparr>gv_goal_id = identifier, gv_goal_revision = goal_revision, gv_updated_at = now\<rparr> in
     thenM (put_goal_rev identifier r)
     (thenM (if current_revision < goal_revision
        then bindM (listM jobs) (\<lambda>js. forM js (fence_job identifier goal_revision now)) else retM ())
     (thenM (coord_audit ''goal.revision_authorized'' [(''goal_id'', JStr identifier),
        (''goal_revision'', JInt goal_revision)])
     (retM r))))))))))"

section \<open>Submission\<close>

definition declared_inputs :: "pyenv \<Rightarrow> job_manifest \<Rightarrow> (string \<times> string) list" where
  "declared_inputs E m = sdict (map (\<lambda>item. (get_str E item ''logical_name'' '''', get_str E item ''sha256'' ''''))
     (jm_input_artifacts m))"

definition validate_inputs :: "pyenv \<Rightarrow> job_manifest \<Rightarrow> (string \<times> bytes) list \<Rightarrow> (string \<times> string) list res" where
  "validate_inputs E m inputs =
     (let declared = declared_inputs E m in
      if set (map fst inputs) \<noteq> set (map fst declared)
      then Inl (CoordinatorError ''job input payloads do not match the manifest'')
      else mapE (\<lambda>(name, payload).
        bindE (checkE (map_of declared name = Some (hexdigest (sha256 payload)))
          (CoordinatorError ''job input payload hash mismatch'')) (\<lambda>_.
        Inr (name, b64encode payload))) inputs)"

definition new_job :: "pyenv \<Rightarrow> time \<Rightarrow> job_manifest \<Rightarrow> (string \<times> string) list \<Rightarrow> job_rec" where
  "new_job E now m inputs = \<lparr>j_job_id = jm_job_id m, j_run_id = jm_run_id m, j_manifest = manifest_to_dict m,
     j_manifest_hash = manifest_hash E m, j_status = ''queued'', j_attempt = 0, j_node_id = None,
     j_lease_id = None, j_terminal_event_id = None, j_created_at = now, j_updated_at = now,
     j_inputs_base64 = inputs, j_cancel_requested_at = None, j_cancel_reason = None,
     j_recovery_reason = None, j_last_lease_failure = None, j_reason_category = None,
     j_scheduling_decision = None, j_resource_usage = None, j_cleanup_status = None,
     j_model_usage = None, j_evidence_receipt = None, j_goal_evidence_binding = None,
     j_validator_results = [], j_registered_validator_ids = []\<rparr>"

definition submit_goal_check :: "job_manifest \<Rightarrow> unit coord" where
  "submit_goal_check m =
     (if \<not> opt_truthy (jm_goal_id m) then retM () else
      let goal_id = opt_or (jm_goal_id m) [] in
      bindM (get_goal_rev goal_id) (\<lambda>authority.
      let current_revision = (case authority of None \<Rightarrow> 0 | Some g \<Rightarrow> gv_goal_revision g) in
      bindM (liftM (int_or0 (jm_goal_revision m))) (\<lambda>revision.
      thenM (guardM (current_revision = 0 \<or> current_revision \<le> revision)
        (CoordinatorError ''job Goal revision is older than host authority''))
      (if current_revision < revision then thenM (authorize_goal_revision goal_id revision) (retM ())
       else retM ()))))"

definition create_job :: "job_manifest \<Rightarrow> (string \<times> bytes) list \<Rightarrow> job_rec coord" where
  "create_job m inputs =
     thenM (submit_goal_check m)
     (bindM (getsM interp) (\<lambda>E.
     bindM (liftM (validate_inputs E m inputs)) (\<lambda>encoded.
     bindM clockM (\<lambda>now.
     let r = new_job E now m encoded in
     thenM (put_job (jm_job_id m) r)
     (thenM (put_idem (jm_idempotency_key m) (JobIdem (jm_idempotency_key m) (jm_job_id m) (manifest_hash E m)))
     (thenM (coord_audit ''job.created'' [(''job_id'', JStr (jm_job_id m)), (''run_id'', JStr (jm_run_id m))])
     (retM r)))))))"

definition submit_job :: "job_manifest \<Rightarrow> (string \<times> bytes) list \<Rightarrow> job_rec coord" where
  "submit_job m inputs =
     bindM (get_idem (jm_idempotency_key m)) (\<lambda>existing.
     case existing of
       None \<Rightarrow> create_job m inputs
     | Some (RevalIdem k h a) \<Rightarrow> raiseM (KeyError ''job_id'')
     | Some (JobIdem k jid h) \<Rightarrow>
         bindM (get_job jid) (\<lambda>found. case found of
           None \<Rightarrow> create_job m inputs
         | Some job \<Rightarrow> bindM (getsM interp) (\<lambda>E.
             thenM (guardM (j_manifest_hash job = manifest_hash E m)
               (CoordinatorError ''idempotency key was reused with a different manifest''))
             (retM job))))"

section \<open>Scheduling\<close>

definition job_requirements :: "job_manifest \<Rightarrow> jobj" where
  "job_requirements m = jset (jm_required_capabilities m) ''executor'' (JStr (jm_executor m))"

definition schedulable :: "node_rec \<Rightarrow> bool" where
  "schedulable node \<longleftrightarrow> nd_state node \<in> {''online_idle'', ''online_busy''} \<and> \<not> nd_draining node"

type_synonym score = "int \<times> rat \<times> int \<times> string"

definition node_score :: "job_manifest \<Rightarrow> capability \<Rightarrow> score" where
  "node_score m c = (- int (card (set (jm_preferred_labels m) \<inter> set (cm_labels c))), cm_current_load c,
     - cm_disk_available_bytes c, cm_node_id c)"

text \<open>One turn of the loop of \<open>choose_node\<close>: a candidate, or none.\<close>

definition candidate :: "pyenv \<Rightarrow> job_manifest \<Rightarrow> node_rec \<Rightarrow> (score \<times> node_rec) option res" where
  "candidate E m node =
     (if \<not> schedulable node then Inr None
      else (case capability_from_dict E (nd_capability_manifest node) of
        Inl (KeyError t) \<Rightarrow> Inr None
      | Inl (ProtocolError t) \<Rightarrow> Inr None
      | Inl e \<Rightarrow> Inl e
      | Inr capability \<Rightarrow>
          bindE (supports E capability (job_requirements m)) (\<lambda>ok.
          Inr (if ok then Some (node_score m capability, node) else None))))"

definition choose_among :: "pyenv \<Rightarrow> job_manifest \<Rightarrow> node_rec list \<Rightarrow> node_rec option res" where
  "choose_among E m ns =
     bindE (mapE (candidate E m) ns) (\<lambda>cs.
     case sort_key fst (List.map_filter id cs) of
       [] \<Rightarrow> Inr None | best # _ \<Rightarrow> Inr (Some (snd best)))"

definition choose_node :: "job_manifest \<Rightarrow> node_rec option coord" where
  "choose_node m = bindM (listM nodes) (\<lambda>ns. bindM (getsM interp) (\<lambda>E. liftM (choose_among E m ns)))"

definition new_lease :: "pyenv \<Rightarrow> time \<Rightarrow> rat \<Rightarrow> string \<Rightarrow> string \<Rightarrow> int \<Rightarrow> job_manifest \<Rightarrow> job_lease" where
  "new_lease E now secs lease_id node_id attempt m = \<lparr>jl_lease_id = lease_id, jl_job_id = jm_job_id m,
     jl_run_id = jm_run_id m, jl_node_id = node_id, jl_attempt = attempt,
     jl_manifest_hash = manifest_hash E m, jl_issued_at = now, jl_expires_at = now + secs,
     jl_heartbeat_interval_seconds = min 10 (secs / 3), jl_goal_id = jm_goal_id m,
     jl_goal_revision = jm_goal_revision m, jl_acknowledged_at = None, jl_schema_version = LEASE_SCHEMA\<rparr>"

definition scheduling_decision :: "time \<Rightarrow> string \<Rightarrow> job_manifest \<Rightarrow> jobj" where
  "scheduling_decision now node_id m = [(''selected_node_id'', JStr node_id),
     (''reason'', JStr ''safe capability match ranked by preferred labels, current load, available disk, then stable Node ID''),
     (''required_capabilities'', JObj (jm_required_capabilities m)),
     (''preferred_labels'', jstrs (jm_preferred_labels m)), (''decided_at'', JFloat now)]"

definition goal_binding_of :: "job_manifest \<Rightarrow> jobj" where
  "goal_binding_of m = [(''goal_id'', jopt (jm_goal_id m)), (''goal_revision'', jm_goal_revision m)]"

text \<open>\<open>manifest.goal_id and int(manifest.goal_revision or 0) != authorized\<close>\<close>

definition manifest_stale :: "job_manifest \<Rightarrow> bool coord" where
  "manifest_stale m = (if \<not> opt_truthy (jm_goal_id m) then retM False else
     bindM (liftM (int_or0 (jm_goal_revision m))) (\<lambda>revision.
     bindM (authorized_goal_revision (goal_binding_of m)) (\<lambda>authorized. retM (revision \<noteq> authorized))))"

definition grant_lease :: "string \<Rightarrow> job_rec \<Rightarrow> job_manifest \<Rightarrow> job_lease coord" where
  "grant_lease node_id job m =
     bindM clockM (\<lambda>now. bindM (getsM lease_seconds) (\<lambda>secs. bindM (getsM interp) (\<lambda>E.
     bindM (new_protocol_id ''lease'') (\<lambda>lease_id.
     let attempt = j_attempt job + 1;
         lease = new_lease E now secs lease_id node_id attempt m;
         decision = scheduling_decision now node_id m in
     thenM (liftM (lease_post_init lease))
     (thenM (put_lease lease_id lease)
     (thenM (put_job (jm_job_id m) (job\<lparr>j_status := ''leased'', j_attempt := attempt, j_node_id := Some node_id,
        j_lease_id := Some lease_id, j_updated_at := now, j_scheduling_decision := Some decision\<rparr>))
     (thenM (coord_audit ''job.leased'' [(''job_id'', JStr (jm_job_id m)), (''node_id'', JStr node_id),
        (''lease_id'', JStr lease_id), (''attempt'', JInt attempt), (''scheduling_decision'', JObj decision)])
     (retM lease))))))))"

text \<open>The loop of \<open>_lease_next_locked\<close> over the jobs in order of creation.\<close>

primrec lease_scan :: "string \<Rightarrow> capability \<Rightarrow> job_rec list \<Rightarrow> job_lease option coord" where
  "lease_scan node_id cap [] = retM None"
| "lease_scan node_id cap (job # js) =
     (if j_status job \<noteq> ''queued'' then lease_scan node_id cap js else
      bindM (getsM interp) (\<lambda>E. bindM clockM (\<lambda>now.
      bindM (liftM (manifest_from_dict E now (j_manifest job))) (\<lambda>m.
      bindM (manifest_stale m) (\<lambda>stale.
      if stale then
        thenM (put_job (j_job_id job) (job\<lparr>j_status := ''stale'', j_cancel_reason := Some ''stale_goal_revision'',
          j_updated_at := now\<rparr>)) (lease_scan node_id cap js)
      else
      bindM (liftM (supports E cap (job_requirements m))) (\<lambda>ok.
      if \<not> ok then lease_scan node_id cap js else
      bindM (choose_node m) (\<lambda>selected. case selected of
          None \<Rightarrow> lease_scan node_id cap js
        | Some sel \<Rightarrow> if sanitize_text (nd_node_id sel) \<noteq> node_id then lease_scan node_id cap js
            else bindM (grant_lease node_id job m) (\<lambda>lease. retM (Some lease)))))))))"

definition lease_order :: "job_rec list \<Rightarrow> job_rec list" where
  "lease_order js = sort_key (\<lambda>j. (j_created_at j, j_job_id j)) js"

definition lease_next :: "string \<Rightarrow> job_lease option coord" where
  "lease_next node_id =
     thenM (lockM ''worker-scheduler'')
     (bindM (coord_node node_id) (\<lambda>node.
      if \<not> schedulable node then retM None else
      bindM (getsM interp) (\<lambda>E.
      bindM (liftM (capability_from_dict E (nd_capability_manifest node))) (\<lambda>cap.
      bindM (listM jobs) (\<lambda>js. lease_scan node_id cap (lease_order js))))))"

section \<open>Leases\<close>

definition quarantine_lease_submission :: "job_lease \<Rightarrow> string \<Rightarrow> unit coord" where
  "quarantine_lease_submission lease reason_code = bindM clockM (\<lambda>now.
     append_quarantine (jl_job_id lease) (with_sequence [(''reason_code'', JStr reason_code),
       (''lease_id'', JStr (jl_lease_id lease)), (''attempt'', JInt (jl_attempt lease)),
       (''goal_id'', jopt (jl_goal_id lease)), (''goal_revision'', jl_goal_revision lease),
       (''created_at'', JFloat now)]))"

definition requeue_expired :: "job_lease \<Rightarrow> string \<Rightarrow> unit coord" where
  "requeue_expired lease reason =
     bindM (coord_job (jl_job_id lease)) (\<lambda>job.
     if opt_truthy (j_terminal_event_id job) \<or> j_lease_id job \<noteq> Some (jl_lease_id lease) then retM ()
     else bindM (getsM interp) (\<lambda>E. bindM clockM (\<lambda>now.
     bindM (liftM (manifest_from_dict E now (j_manifest job))) (\<lambda>m.
     bindM (manifest_stale m) (\<lambda>stale.
     thenM (put_job (j_job_id job) (job\<lparr>j_status := (if stale then ''stale'' else ''queued''), j_node_id := None,
       j_lease_id := None, j_updated_at := now, j_last_lease_failure := Some reason\<rparr>))
     (coord_audit ''job.requeued'' [(''job_id'', JStr (j_job_id job)), (''reason'', JStr reason)]))))))"

text \<open>\<open>record.get("goal_id") and (record goal differs from the caller's goal)\<close>\<close>

definition goal_mismatch :: "job_lease \<Rightarrow> string option \<Rightarrow> json \<Rightarrow> bool res" where
  "goal_mismatch lease goal_id goal_revision =
     (if \<not> opt_truthy (jl_goal_id lease) then Inr False
      else if jl_goal_id lease \<noteq> goal_id then Inr True
      else bindE (int_or0 (jl_goal_revision lease)) (\<lambda>a.
           bindE (int_or0 goal_revision) (\<lambda>b. Inr (a \<noteq> b))))"

definition lease_superseded :: "job_lease \<Rightarrow> bool coord" where
  "lease_superseded lease = (if \<not> opt_truthy (jl_goal_id lease) then retM False else
     bindM (liftM (int_or0 (jl_goal_revision lease))) (\<lambda>revision.
     bindM (authorized_goal_revision [(''goal_id'', jopt (jl_goal_id lease)), (''goal_revision'', jl_goal_revision lease)])
       (\<lambda>authorized. retM (revision \<noteq> authorized))))"

definition acknowledge_lease :: "string \<Rightarrow> string \<Rightarrow> string option \<Rightarrow> json \<Rightarrow> job_lease coord" where
  "acknowledge_lease lease_id hash goal_id goal_revision =
     bindM (coord_lease lease_id) (\<lambda>lease. bindM clockM (\<lambda>now.
     if jl_expires_at lease \<le> now then
       thenM (requeue_expired lease ''expired'') (raiseM (CoordinatorError ''lease expired before acknowledgement''))
     else
     bindM (liftM (compare_digest (jl_manifest_hash lease) hash)) (\<lambda>same.
     if \<not> same then
       thenM (requeue_expired lease ''manifest_hash_mismatch'') (raiseM (CoordinatorError ''manifest hash mismatch''))
     else
     bindM (liftM (goal_mismatch lease goal_id goal_revision)) (\<lambda>mismatch.
     if mismatch then
       thenM (quarantine_lease_submission lease ''stale_goal_revision'')
       (thenM (requeue_expired lease ''goal_revision_mismatch'') (raiseM (CoordinatorError ''lease goal revision mismatch'')))
     else
     bindM (lease_superseded lease) (\<lambda>superseded.
     if superseded then
       thenM (quarantine_lease_submission lease ''stale_goal_revision'')
       (thenM (requeue_expired lease ''stale_goal_revision'')
         (raiseM (CoordinatorError ''lease goal revision is older than host authority'')))
     else
       let lease' = lease\<lparr>jl_acknowledged_at := Some now\<rparr> in
       thenM (put_lease lease_id lease') (thenM (liftM (lease_post_init lease')) (retM lease')))))))"

definition heartbeat_lease :: "string \<Rightarrow> string \<Rightarrow> int \<Rightarrow> string option \<Rightarrow> json \<Rightarrow> job_lease coord" where
  "heartbeat_lease lease_id node_id attempt goal_id goal_revision =
     bindM (coord_lease lease_id) (\<lambda>lease.
     thenM (guardM (jl_node_id lease = node_id \<and> jl_attempt lease = attempt) (CoordinatorError ''stale lease heartbeat''))
     (bindM (liftM (goal_mismatch lease goal_id goal_revision)) (\<lambda>mismatch.
     if mismatch then
       thenM (quarantine_lease_submission lease ''stale_goal_revision'')
         (raiseM (CoordinatorError ''lease goal revision mismatch''))
     else
     bindM (lease_superseded lease) (\<lambda>superseded.
     if superseded then
       thenM (quarantine_lease_submission lease ''stale_goal_revision'')
         (raiseM (CoordinatorError ''lease goal revision is older than host authority''))
     else
     thenM (guardM (jl_acknowledged_at lease \<noteq> None) (CoordinatorError ''lease must be acknowledged before heartbeat''))
     (bindM clockM (\<lambda>now.
     if jl_expires_at lease \<le> now then
       thenM (requeue_expired lease ''expired'') (raiseM (CoordinatorError ''lease expired''))
     else
     bindM (getsM lease_seconds) (\<lambda>secs.
       let lease' = lease\<lparr>jl_expires_at := now + secs\<rparr> in
       thenM (put_lease lease_id lease') (thenM (liftM (lease_post_init lease')) (retM lease')))))))))"

definition lease_control ::
  "string \<Rightarrow> string \<Rightarrow> int \<Rightarrow> string option \<Rightarrow> json \<Rightarrow> (job_lease \<times> bool \<times> string option) coord" where
  "lease_control lease_id node_id attempt goal_id goal_revision =
     bindM (heartbeat_lease lease_id node_id attempt goal_id goal_revision) (\<lambda>lease.
     bindM (coord_job (jl_job_id lease)) (\<lambda>job.
     retM (lease, time_truthy (j_cancel_requested_at job),
       if opt_truthy (j_cancel_reason job) then j_cancel_reason job else None)))"

definition cancel_job :: "string \<Rightarrow> string \<Rightarrow> job_rec coord" where
  "cancel_job job_id reason =
     bindM (coord_job job_id) (\<lambda>job.
     if opt_truthy (j_terminal_event_id job) then retM job else
     bindM clockM (\<lambda>now.
     let job1 = job\<lparr>j_cancel_requested_at := Some now, j_cancel_reason := Some (take 120 reason)\<rparr> in
     bindM (if j_status job = ''queued'' then
         bindM (new_protocol_id ''cancel'') (\<lambda>c. retM (job1\<lparr>j_status := ''cancelled'', j_terminal_event_id := Some c\<rparr>))
       else retM job1) (\<lambda>job'.
     thenM (put_job job_id job')
     (thenM (coord_audit ''job.cancel_requested'' [(''job_id'', JStr job_id), (''reason'', JStr reason)])
     (retM job')))))"

definition retry_safe :: "job_manifest \<Rightarrow> bool" where
  "retry_safe m \<longleftrightarrow> truthy (jget_d (jm_retry_policy m) ''retry_safe'' (JBool True))
     \<and> \<not> truthy (jget (jm_retry_policy m) ''external_side_effects'')"

definition recover_lease :: "time \<Rightarrow> job_lease \<Rightarrow> string list coord" where
  "recover_lease now lease =
     (if now < jl_expires_at lease then retM []
      else bindM (get_job (jl_job_id lease)) (\<lambda>found. case found of
          None \<Rightarrow> retM []
        | Some job \<Rightarrow>
        if opt_truthy (j_terminal_event_id job) \<or> j_lease_id job \<noteq> Some (jl_lease_id lease) then retM []
        else bindM (getsM interp) (\<lambda>E.
        bindM (liftM (manifest_from_dict E now (j_manifest job))) (\<lambda>m.
        bindM (manifest_stale m) (\<lambda>stale.
        bindM (liftM (py_int (jor (jget (jm_retry_policy m) ''max_attempts'') (JInt 1)))) (\<lambda>max_attempts.
        let status = (if stale then ''stale'' else if retry_safe m \<and> j_attempt job < max_attempts then ''queued''
               else ''waiting_review'') in
        thenM (put_job (jm_job_id m) (job\<lparr>j_status := status, j_node_id := None, j_lease_id := None,
          j_updated_at := now\<rparr>))
        (thenM (coord_audit ''job.lease_recovered'' [(''job_id'', JStr (jm_job_id m)), (''result'', JStr status)])
        (retM (if stale then [] else [jm_job_id m]))))))))) "

definition recover_expired_leases :: "string list coord" where
  "recover_expired_leases = bindM clockM (\<lambda>now. bindM (listM leases) (\<lambda>ls.
     foldM (\<lambda>recovered lease. bindM (recover_lease now lease) (\<lambda>r. retM (recovered @ r))) [] ls))"

end
