(* ===== verification/Grants.thy ===== *)
theory Grants
  imports CoordState "HOL-Library.AList"
begin

text \<open>
  Model grants of \<open>WorkerCoordinator\<close> (\<open>coordinator.py\<close>): short-lived, revocable budgets
  under which the Worker that owns a job may call the model gateway. A grant is issued to the
  owner of a job, consumed at once or through a reserved call, and revoked when the job ends or
  its node is revoked.
\<close>

section \<open>Operations\<close>

definition issue_model_grant ::
  "string \<Rightarrow> string \<Rightarrow> string \<Rightarrow> string list \<Rightarrow> string list \<Rightarrow> string \<Rightarrow> int \<Rightarrow> int \<Rightarrow> int \<Rightarrow> rat \<Rightarrow> int
   \<Rightarrow> model_grant coord" where
  "issue_model_grant job_id node_id audience scopes purposes model_policy max_calls max_tokens
      max_concurrency max_cost_usd ttl_seconds =
     bindM (coord_job job_id) (\<lambda>job.
     thenM (guardM (j_node_id job = Some node_id) (CoordinatorError ''model grant node does not own the job lease''))
     (bindM clockM (\<lambda>now.
     bindM (new_protocol_id ''grant'') (\<lambda>grant_id.
     let grant = \<lparr>mg_grant_id = grant_id, mg_run_id = j_run_id job, mg_job_id = job_id,
       mg_node_id = node_id, mg_audience = audience, mg_scopes = scopes, mg_model_policy = model_policy,
       mg_purposes = purposes, mg_max_calls = max_calls, mg_max_tokens = max_tokens,
       mg_max_concurrency = max_concurrency, mg_max_cost_usd = max_cost_usd, mg_issued_at = now,
       mg_expires_at = now + of_int (max 30 (min ttl_seconds 3600)), mg_revoked_at = None,
       mg_schema_version = MODEL_GRANT_SCHEMA\<rparr> in
     thenM (liftM (grant_post_init grant))
     (thenM (put_grant grant_id \<lparr>gr_grant = grant, gr_usage = \<lparr>us_calls = 0, us_tokens = 0, us_cost_usd = 0\<rparr>,
        gr_reservations = None, gr_has_active_calls = False\<rparr>)
     (thenM (coord_audit ''model_grant.issued'' [(''grant_id'', JStr grant_id), (''job_id'', JStr job_id),
        (''node_id'', JStr node_id)])
     (retM grant)))))))"

definition get_grant_rec :: "string \<Rightarrow> grant_rec coord" where
  "get_grant_rec grant_id = bindM (get_grant grant_id) (\<lambda>r. case r of
      None \<Rightarrow> raiseM (CoordinatorError ''model grant not found'') | Some g \<Rightarrow> retM g)"

text \<open>\<open>_grant_from_record\<close>: the dataclass is rebuilt from every stored key but
  \<open>usage\<close> and \<open>reservations\<close>, so any other extra key is a TypeError.\<close>

definition grant_from_record :: "grant_rec \<Rightarrow> model_grant res" where
  "grant_from_record r =
     bindE (checkE (\<not> gr_has_active_calls r) (TypeError ''unexpected keyword argument active_calls'')) (\<lambda>_.
     bindE (grant_post_init (gr_grant r)) (\<lambda>_. Inr (gr_grant r)))"

text \<open>\<open>consume_model_grant\<close> leaves out \<open>usage\<close> only.\<close>

definition consume_grant_fields :: "grant_rec \<Rightarrow> model_grant res" where
  "consume_grant_fields r =
     bindE (checkE (gr_reservations r = None) (TypeError ''unexpected keyword argument reservations'')) (\<lambda>_.
     bindE (checkE (\<not> gr_has_active_calls r) (TypeError ''unexpected keyword argument active_calls'')) (\<lambda>_.
     bindE (grant_post_init (gr_grant r)) (\<lambda>_. Inr (gr_grant r))))"

definition next_usage :: "grant_usage \<Rightarrow> int \<Rightarrow> rat \<Rightarrow> grant_usage" where
  "next_usage u tokens cost_usd = \<lparr>us_calls = us_calls u + 1, us_tokens = us_tokens u + max 0 tokens,
     us_cost_usd = us_cost_usd u + max 0 cost_usd\<rparr>"

definition within_budget :: "model_grant \<Rightarrow> grant_usage \<Rightarrow> bool" where
  "within_budget g u \<longleftrightarrow> us_calls u \<le> mg_max_calls g \<and> us_tokens u \<le> mg_max_tokens g
     \<and> us_cost_usd u \<le> mg_max_cost_usd g + 1 / 10 ^ 9"

definition consume_model_grant ::
  "string \<Rightarrow> string \<Rightarrow> string \<Rightarrow> string \<Rightarrow> string \<Rightarrow> string \<Rightarrow> string \<Rightarrow> int \<Rightarrow> rat \<Rightarrow> grant_usage coord" where
  "consume_model_grant grant_id run_id job_id node_id audience scope purpose tokens cost_usd =
     thenM (lockM (''grant-'' @ grant_id))
     (bindM (get_grant_rec grant_id) (\<lambda>r.
     bindM (liftM (consume_grant_fields r)) (\<lambda>grant.
     bindM clockM (\<lambda>now.
     thenM (liftM (grant_authorize grant run_id job_id node_id audience scope purpose now))
     (let usage = next_usage (gr_usage r) tokens cost_usd in
      if \<not> within_budget grant usage then
        thenM (coord_audit ''model_grant.budget_denied'' [(''grant_id'', JStr grant_id), (''job_id'', JStr job_id)])
          (raiseM (CoordinatorError ''model grant budget exceeded''))
      else thenM (put_grant grant_id (r\<lparr>gr_usage := usage\<rparr>)) (retM usage))))))"

definition reserved_tokens :: "(string \<times> reservation) list \<Rightarrow> int" where
  "reserved_tokens rs = sum_list (map (\<lambda>p. rs_requested_tokens (snd p)) rs)"

definition begin_model_grant_call ::
  "string \<Rightarrow> string \<Rightarrow> string \<Rightarrow> string \<Rightarrow> string \<Rightarrow> string \<Rightarrow> string \<Rightarrow> int \<Rightarrow> (string \<times> int \<times> nat) coord" where
  "begin_model_grant_call grant_id run_id job_id node_id audience scope purpose requested_tokens =
     thenM (lockM (''grant-'' @ grant_id))
     (bindM (get_grant_rec grant_id) (\<lambda>r.
     bindM (liftM (grant_from_record r)) (\<lambda>grant.
     bindM clockM (\<lambda>now.
     thenM (liftM (grant_authorize grant run_id job_id node_id audience scope purpose now))
     (let usage = gr_usage r; reservations = opt_or (gr_reservations r) [];
          requested = max 1 requested_tokens in
     thenM (guardM (int (length reservations) < mg_max_concurrency grant)
       (CoordinatorError ''model grant concurrency budget exceeded''))
     (thenM (guardM (us_calls usage + int (length reservations) + 1 \<le> mg_max_calls grant)
       (CoordinatorError ''model grant call budget exceeded''))
     (thenM (guardM (us_tokens usage + reserved_tokens reservations + requested \<le> mg_max_tokens grant)
       (CoordinatorError ''model grant token budget exceeded''))
     (bindM (new_protocol_id ''model-call'') (\<lambda>call_id.
     let reservations' = AList.update call_id \<lparr>rs_requested_tokens = requested, rs_started_at = now\<rparr> reservations in
     thenM (put_grant grant_id (r\<lparr>gr_reservations := Some reservations'\<rparr>))
     (thenM (coord_audit ''model_grant.call_started'' [(''grant_id'', JStr grant_id), (''call_id'', JStr call_id),
        (''job_id'', JStr job_id)])
     (retM (call_id, requested, length reservations'))))))))))))"

definition finish_model_grant_call ::
  "string \<Rightarrow> string \<Rightarrow> int \<Rightarrow> rat \<Rightarrow> string \<Rightarrow> (grant_usage \<times> nat) coord" where
  "finish_model_grant_call grant_id call_id tokens cost_usd outcome =
     thenM (lockM (''grant-'' @ grant_id))
     (bindM (get_grant_rec grant_id) (\<lambda>r.
     bindM (liftM (grant_from_record r)) (\<lambda>grant.
     let reservations = opt_or (gr_reservations r) [] in
     thenM (guardM (map_of reservations call_id \<noteq> None) (CoordinatorError ''model grant call reservation not found''))
     (let rest = AList.delete call_id reservations; usage = next_usage (gr_usage r) tokens cost_usd in
      if \<not> within_budget grant usage then
        thenM (put_grant grant_id (r\<lparr>gr_reservations := Some rest\<rparr>))
          (raiseM (CoordinatorError ''model grant final usage exceeded budget''))
      else thenM (put_grant grant_id (r\<lparr>gr_usage := usage, gr_reservations := Some rest\<rparr>))
        (thenM (coord_audit ''model_grant.call_finished'' [(''grant_id'', JStr grant_id),
           (''call_id'', JStr call_id), (''outcome'', JStr (take 40 outcome))])
        (retM (usage, length rest)))))))"

definition revoke_model_grant :: "string \<Rightarrow> grant_rec coord" where
  "revoke_model_grant grant_id = bindM (get_grant_rec grant_id) (\<lambda>r. bindM clockM (\<lambda>now.
     let r' = r\<lparr>gr_grant := (gr_grant r)\<lparr>mg_revoked_at := Some now\<rparr>\<rparr> in
     thenM (put_grant grant_id r')
     (thenM (coord_audit ''model_grant.revoked'' [(''grant_id'', JStr grant_id)]) (retM r'))))"

section \<open>Lemmas\<close>

lemma vcg_get_grant_rec [vcg]:
  "(\<And>e. \<nexists>g. coll_get ''grants'' gid (grants s) = Inr (Some g) \<Longrightarrow> E e s) \<Longrightarrow>
   (\<And>g. coll_get ''grants'' gid (grants s) = Inr (Some g) \<Longrightarrow> Q g s) \<Longrightarrow> wpM (get_grant_rec gid) Q E s"
  by (auto simp: get_grant_rec_def wp split: sum.splits option.splits)

lemma grant_from_record_Inr [res_iff]:
  "grant_from_record r = Inr g \<longleftrightarrow> \<not> gr_has_active_calls r \<and> grant_post_init (gr_grant r) = Inr () \<and> g = gr_grant r"
  by (auto simp: grant_from_record_def res_iff)

lemma consume_grant_fields_Inr [res_iff]:
  "consume_grant_fields r = Inr g \<longleftrightarrow> gr_reservations r = None \<and> \<not> gr_has_active_calls r
     \<and> grant_post_init (gr_grant r) = Inr () \<and> g = gr_grant r"
  by (auto simp: consume_grant_fields_def res_iff)

lemma grant_authorize_Inr [res_iff]:
  "grant_authorize g run job node aud scope purpose now = Inr u \<longleftrightarrow>
     mg_revoked_at g = None \<and> now < mg_expires_at g \<and> mg_run_id g = run \<and> mg_job_id g = job
     \<and> mg_node_id g = node \<and> mg_audience g = aud \<and> scope \<in> set (mg_scopes g) \<and> purpose \<in> set (mg_purposes g)"
  by (auto simp: grant_authorize_def bindE_Inr_iff checkE_Inr_iff)

lemma grant_post_init_limits: "grant_post_init g = Inr () \<Longrightarrow>
    0 \<le> mg_max_calls g \<and> 0 \<le> mg_max_tokens g \<and> 0 \<le> mg_max_concurrency g"
  by (simp add: grant_post_init_def res_iff)

abbreviation open_calls :: "grant_rec \<Rightarrow> (string \<times> reservation) list" where
  "open_calls r \<equiv> opt_or (gr_reservations r) []"

text \<open>The budget of a grant is respected: finished and running calls together, tokens, cost and
  concurrency.\<close>

definition grant_ok :: "grant_rec \<Rightarrow> bool" where
  "grant_ok r \<longleftrightarrow> 0 \<le> us_calls (gr_usage r) \<and> 0 \<le> us_tokens (gr_usage r) \<and> 0 \<le> us_cost_usd (gr_usage r)
     \<and> us_calls (gr_usage r) + int (length (open_calls r)) \<le> mg_max_calls (gr_grant r)
     \<and> us_tokens (gr_usage r) \<le> mg_max_tokens (gr_grant r)
     \<and> us_cost_usd (gr_usage r) \<le> max 0 (mg_max_cost_usd (gr_grant r) + 1 / 10 ^ 9)
     \<and> int (length (open_calls r)) \<le> mg_max_concurrency (gr_grant r)
     \<and> distinct (map fst (open_calls r)) \<and> (\<forall>p\<in>set (open_calls r). 1 \<le> rs_requested_tokens (snd p))"

definition grants_ok :: "cstate \<Rightarrow> bool" where
  "grants_ok s \<longleftrightarrow> coll_all grant_ok (grants s)"

lemma update_length: "length (AList.update k v xs) \<le> Suc (length xs)"
  by (induction xs) auto

lemma update_snd: "p \<in> set (AList.update k v xs) \<Longrightarrow> snd p = v \<or> p \<in> set xs"
  by (induction xs) (auto split: if_splits)

lemma delete_length: "map_of xs k \<noteq> None \<Longrightarrow> distinct (map fst xs) \<Longrightarrow>
    Suc (length (AList.delete k xs)) = length xs"
proof (induction xs)
  case (Cons p xs)
  show ?case
  proof (cases "fst p = k")
    case True
    then have "filter (\<lambda>(k', _). k \<noteq> k') xs = xs" using Cons.prems(2) by (intro filter_True) (auto simp: image_iff split: prod.splits)
    then show ?thesis using True by (cases p) (simp add: AList.delete_eq)
  next
    case False
    then show ?thesis using Cons by (cases p) (auto simp: AList.delete_eq)
  qed
qed simp

lemma delete_subset: "set (AList.delete k xs) \<subseteq> set xs"
  by (auto simp: AList.delete_eq)

lemma delete_distinct: "distinct (map fst xs) \<Longrightarrow> distinct (map fst (AList.delete k xs))"
  by (simp add: AList.delete_eq distinct_map_filter)

lemma issue_ok: "keeps grants_ok (issue_model_grant jid nid aud scopes purposes pol mc mt mx cost ttl)"
  unfolding issue_model_grant_def
  by (rule keeps_via_wp, intro vcg)
    (auto simp: grants_ok_def grant_ok_def dest!: grant_post_init_limits intro!: coll_all_upd)

lemma spend_ok:
  assumes "grant_ok g" and "gr_reservations g = None"
    and "within_budget (gr_grant g) (next_usage (gr_usage g) tok cost)"
  shows "grant_ok (g\<lparr>gr_usage := next_usage (gr_usage g) tok cost\<rparr>)"
  using assms by (auto simp: grant_ok_def within_budget_def next_usage_def)

lemma consume_ok: "keeps grants_ok (consume_model_grant gid run jid nid aud sc pu tok cost)"
proof (rule keeps_via_wp)
  fix s assume ok: "grants_ok s"
  show "wpM (consume_model_grant gid run jid nid aud sc pu tok cost) (\<lambda>_. grants_ok) (\<lambda>_. grants_ok) s"
    unfolding consume_model_grant_def
    by (intro vcg) (use ok in \<open>auto simp: grants_ok_def consume_grant_fields_Inr
        intro!: spend_ok elim: coll_all_get\<close>)
qed

lemma reserve_ok:
  assumes "grant_ok g" and "int (length (open_calls g)) < mg_max_concurrency (gr_grant g)"
    and "us_calls (gr_usage g) + int (length (open_calls g)) + 1 \<le> mg_max_calls (gr_grant g)"
  shows "grant_ok (g\<lparr>gr_reservations := Some (AList.update cid \<lparr>rs_requested_tokens = max 1 tok,
     rs_started_at = now\<rparr> (open_calls g))\<rparr>)"
  using assms update_length [of cid "\<lparr>rs_requested_tokens = max 1 tok, rs_started_at = now\<rparr>" "open_calls g"]
  by (auto simp: grant_ok_def intro: distinct_update dest: update_snd)

lemma release_ok:
  assumes "grant_ok g" and "map_of (open_calls g) cid \<noteq> None"
  shows "grant_ok (g\<lparr>gr_reservations := Some (AList.delete cid (open_calls g))\<rparr>)"
  using assms delete_length [OF assms(2)] delete_subset [of cid "open_calls g"]
  by (auto simp: grant_ok_def delete_distinct)

lemma settle_ok:
  assumes "grant_ok g" and "map_of (open_calls g) cid \<noteq> None"
    and "within_budget (gr_grant g) (next_usage (gr_usage g) tok cost)"
  shows "grant_ok (g\<lparr>gr_usage := next_usage (gr_usage g) tok cost,
     gr_reservations := Some (AList.delete cid (open_calls g))\<rparr>)"
  using assms delete_length [OF assms(2)] delete_subset [of cid "open_calls g"]
  by (auto simp: grant_ok_def delete_distinct within_budget_def next_usage_def)

lemma begin_ok: "keeps grants_ok (begin_model_grant_call gid run jid nid aud sc pu tok)"
proof (rule keeps_via_wp)
  fix s assume ok: "grants_ok s"
  show "wpM (begin_model_grant_call gid run jid nid aud sc pu tok) (\<lambda>_. grants_ok) (\<lambda>_. grants_ok) s"
    unfolding begin_model_grant_call_def
    by (intro vcg) (use ok in \<open>auto simp: grants_ok_def grant_from_record_Inr
        intro!: reserve_ok elim: coll_all_get\<close>)
qed

lemma finish_ok: "keeps grants_ok (finish_model_grant_call gid cid tok cost out)"
proof (rule keeps_via_wp)
  fix s assume ok: "grants_ok s"
  show "wpM (finish_model_grant_call gid cid tok cost out) (\<lambda>_. grants_ok) (\<lambda>_. grants_ok) s"
    unfolding finish_model_grant_call_def
    by (intro vcg) (use ok in \<open>auto simp: grants_ok_def grant_from_record_Inr
        intro!: release_ok settle_ok elim: coll_all_get\<close>)
qed

lemma revoked_ok: "grant_ok g \<Longrightarrow> grant_ok (g\<lparr>gr_grant := (gr_grant g)\<lparr>mg_revoked_at := x\<rparr>\<rparr>)"
  by (simp add: grant_ok_def)

lemma revoke_grant_ok: "keeps grants_ok (revoke_model_grant gid)"
proof (rule keeps_via_wp)
  fix s assume ok: "grants_ok s"
  show "wpM (revoke_model_grant gid) (\<lambda>_. grants_ok) (\<lambda>_. grants_ok) s"
    unfolding revoke_model_grant_def
    by (intro vcg) (use ok in \<open>auto simp: grants_ok_def intro!: revoked_ok elim: coll_all_get\<close>)
qed

section \<open>Properties\<close>

text \<open>C37: a model grant never exceeds its budget. In every state whose grants respect their
  limits, each grant operation, whether it returns or raises, leaves every grant with its finished
  and running calls within the call limit, its tokens and cost within theirs, and no more running
  calls than its concurrency.\<close>

theorem grant_budgets_kept:
  "keeps grants_ok (issue_model_grant jid nid aud scopes purposes pol mc mt mx mcost ttl)
   \<and> keeps grants_ok (consume_model_grant gid run jid nid aud sc pu tok cost)
   \<and> keeps grants_ok (begin_model_grant_call gid run jid nid aud sc pu tok)
   \<and> keeps grants_ok (finish_model_grant_call gid cid tok cost out)
   \<and> keeps grants_ok (revoke_model_grant gid)"
  by (simp add: issue_ok consume_ok begin_ok finish_ok revoke_grant_ok)

text \<open>What the admission of a model call means for a grant in the state before and after.\<close>

definition call_admitted :: "string \<Rightarrow> string \<times> string \<times> string \<times> string \<Rightarrow> string \<Rightarrow> string \<Rightarrow> int \<Rightarrow> cstate
    \<Rightarrow> string \<Rightarrow> cstate \<Rightarrow> bool" where
  "call_admitted gid binding sc pu requested s cid t \<longleftrightarrow>
     (\<exists>r res. coll_get ''grants'' gid (grants s) = Inr (Some r)
        \<and> mg_revoked_at (gr_grant r) = None \<and> clk s < mg_expires_at (gr_grant r)
        \<and> (mg_run_id (gr_grant r), mg_job_id (gr_grant r), mg_node_id (gr_grant r), mg_audience (gr_grant r)) = binding
        \<and> sc \<in> set (mg_scopes (gr_grant r)) \<and> pu \<in> set (mg_purposes (gr_grant r))
        \<and> us_calls (gr_usage r) + int (length (open_calls r)) + 1 \<le> mg_max_calls (gr_grant r)
        \<and> us_tokens (gr_usage r) + reserved_tokens (open_calls r) + requested \<le> mg_max_tokens (gr_grant r)
        \<and> coll_get ''grants'' gid (grants t) = Inr (Some (r\<lparr>gr_reservations := Some res\<rparr>))
        \<and> map_of res cid = Some \<lparr>rs_requested_tokens = requested, rs_started_at = clk s\<rparr>)"

lemma begin_wp:
  "wpM (begin_model_grant_call gid run jid nid aud sc pu tok)
     (\<lambda>x t. fst (snd x) = max 1 tok \<and> call_admitted gid (run, jid, nid, aud) sc pu (max 1 tok) s (fst x) t)
     (\<lambda>e t. grants t = grants s) s"
  unfolding begin_model_grant_call_def
  by (intro vcg) (auto simp: call_admitted_def grant_from_record_Inr grant_authorize_Inr coll_get_Inr_Some update_conv')

lemma consume_revoked_wp:
  assumes "coll_get ''grants'' gid (grants s) = Inr (Some r)" and "mg_revoked_at (gr_grant r) \<noteq> None"
  shows "wpM (consume_model_grant gid run jid nid aud sc pu tok cost) (\<lambda>_ _. False) (\<lambda>_ t. t = s) s"
  unfolding consume_model_grant_def
  by (intro vcg) (use assms in \<open>auto simp: consume_grant_fields_Inr grant_authorize_Inr\<close>)

text \<open>A model call is only admitted under a grant that is live and bound to exactly this run,
  job, node and audience, for a scope and a purpose it names, and within the remaining call and
  token budget; a revoked grant admits neither a call nor a direct consumption, and refusing
  leaves every grant as it was.\<close>

theorem grant_admission:
  "(case begin_model_grant_call gid run jid nid aud sc pu tok s of
     (Inr x, t) \<Rightarrow> fst (snd x) = max 1 tok \<and> call_admitted gid (run, jid, nid, aud) sc pu (max 1 tok) s (fst x) t
   | (Inl e, t) \<Rightarrow> grants t = grants s)
   \<and> (\<forall>r. coll_get ''grants'' gid (grants s) = Inr (Some r) \<and> mg_revoked_at (gr_grant r) \<noteq> None \<longrightarrow>
        (\<exists>e t. begin_model_grant_call gid run jid nid aud sc pu tok s = (Inl e, t) \<and> grants t = grants s)
        \<and> (\<exists>e. consume_model_grant gid run jid nid aud sc pu tok cost s = (Inl e, s)))"
proof (intro conjI allI impI)
  show c: "case begin_model_grant_call gid run jid nid aud sc pu tok s of
     (Inr x, t) \<Rightarrow> fst (snd x) = max 1 tok \<and> call_admitted gid (run, jid, nid, aud) sc pu (max 1 tok) s (fst x) t
   | (Inl e, t) \<Rightarrow> grants t = grants s"
    using begin_wp [of gid run jid nid aud sc pu tok s] by (simp only: wpM_def)
  fix r assume r: "coll_get ''grants'' gid (grants s) = Inr (Some r) \<and> mg_revoked_at (gr_grant r) \<noteq> None"
  show "\<exists>e t. begin_model_grant_call gid run jid nid aud sc pu tok s = (Inl e, t) \<and> grants t = grants s"
    using c r by (auto simp: call_admitted_def split: prod.splits sum.splits)
  show "\<exists>e. consume_model_grant gid run jid nid aud sc pu tok cost s = (Inl e, s)"
    using consume_revoked_wp [of gid s r run jid nid aud sc pu tok cost] r by (auto simp: wpM_raises)
qed

definition sample_grant :: grant_rec where
  "sample_grant = \<lparr>gr_grant = \<lparr>mg_grant_id = ''g'', mg_run_id = ''r'', mg_job_id = ''j'', mg_node_id = ''n'',
     mg_audience = ''a'', mg_scopes = [''s''], mg_model_policy = ''p'', mg_purposes = [''u''], mg_max_calls = 2,
     mg_max_tokens = 10, mg_max_concurrency = 1, mg_max_cost_usd = 0, mg_issued_at = 50, mg_expires_at = 150,
     mg_revoked_at = None, mg_schema_version = MODEL_GRANT_SCHEMA\<rparr>,
     gr_usage = \<lparr>us_calls = 0, us_tokens = 0, us_cost_usd = 0\<rparr>, gr_reservations = None, gr_has_active_calls = False\<rparr>"

theorem grant_admission_sample:
  "let r = sample_grant\<lparr>gr_grant := (gr_grant sample_grant)\<lparr>mg_revoked_at := Some 90\<rparr>\<rparr>;
       s = sample_state\<lparr>grants := [(''g'', r)]\<rparr>
   in coll_get ''grants'' ''g'' (grants s) = Inr (Some r)
      \<and> (\<exists>e t. begin_model_grant_call ''g'' ''r'' ''j'' ''n'' ''a'' ''s'' ''u'' 4 s = (Inl e, t) \<and> grants t = grants s)
      \<and> (\<exists>e. consume_model_grant ''g'' ''r'' ''j'' ''n'' ''a'' ''s'' ''u'' 4 0 s = (Inl e, s))"
proof -
  define r where "r = sample_grant\<lparr>gr_grant := (gr_grant sample_grant)\<lparr>mg_revoked_at := Some 90\<rparr>\<rparr>"
  define s where "s = sample_state\<lparr>grants := [(''g'', r)]\<rparr>"
  have h: "coll_get ''grants'' ''g'' (grants s) = Inr (Some r)" "mg_revoked_at (gr_grant r) \<noteq> None"
    by (simp_all add: r_def s_def coll_get_def eval_ids)
  show ?thesis unfolding Let_def r_def [symmetric] s_def [symmetric]
    using h grant_admission [where gid = "''g''" and run = "''r''" and jid = "''j''" and nid = "''n''"
      and aud = "''a''" and sc = "''s''" and pu = "''u''" and tok = 4 and s = s and cost = 0] by blast
qed

text \<open>A grant that ever had a reserved call can no longer be consumed directly: rebuilding the
  dataclass from the stored keys meets \<open>reservations\<close>.\<close>

lemma reserved_grant_not_consumable:
  assumes "coll_get ''grants'' gid (grants s) = Inr (Some r)" and "gr_reservations r \<noteq> None"
    and "isOK (lock_name (''grant-'' @ gid))"
  shows "consume_model_grant gid run jid nid aud sc pu tok cost s
    = (Inl (TypeError ''unexpected keyword argument reservations''), s)"
  using assms by (auto simp: consume_model_grant_def get_grant_rec_def monad_defs st_get_def lockM_def isOK_iff
      consume_grant_fields_def)

text \<open>A grant revoked with its node answers with a TypeError instead of a refusal.\<close>

lemma revoked_node_grant_type_error:
  assumes "coll_get ''grants'' gid (grants s) = Inr (Some r)" and "gr_has_active_calls r"
    and "isOK (lock_name (''grant-'' @ gid))"
  shows "begin_model_grant_call gid run jid nid aud sc pu tok s
    = (Inl (TypeError ''unexpected keyword argument active_calls''), s)"
  using assms by (auto simp: begin_model_grant_call_def get_grant_rec_def monad_defs st_get_def lockM_def isOK_iff
      grant_from_record_def)

end
