(* ===== verification/Events.thy ===== *)
theory Events
  imports Jobs Grants
begin

text \<open>
  Job events of \<open>WorkerCoordinator\<close> (\<open>coordinator.py\<close>): artifact uploads, the
  validation of an event against the current lease and goal revision, quarantine, the terminal
  projection with its evidence receipt and criterion binding, and the write-ahead transaction
  that makes a terminal event durable exactly once. A crash between two writes of a transaction
  is repaired when the coordinator starts and before the next terminal event of the job.
\<close>

section \<open>Artifacts\<close>

definition begin_artifact_upload :: "artifact \<Rightarrow> artifact_rec coord" where
  "begin_artifact_upload d =
     bindM (coord_job (ad_job_id d)) (\<lambda>job.
     thenM (guardM (\<not> opt_truthy (j_terminal_event_id job) \<and> j_status job \<in> {''leased'', ''running''})
       (CoordinatorError ''artifact upload requires an active Job lease''))
     (thenM (guardM (j_run_id job = ad_run_id d \<and> j_node_id job = Some (ad_node_id d))
       (CoordinatorError ''artifact upload does not match Job ownership''))
     (bindM (getsM interp) (\<lambda>E. bindM clockM (\<lambda>now.
     bindM (liftM (manifest_from_dict E now (j_manifest job))) (\<lambda>m.
     thenM (guardM (jm_expected_outputs m = [] \<or> ad_logical_name d \<in> set (jm_expected_outputs m))
       (CoordinatorError ''artifact is not declared by the Job manifest''))
     (let r = \<lparr>ar_artifact_id = ad_artifact_id d, ar_descriptor = artifact_to_dict d, ar_job_id = ad_job_id d,
        ar_run_id = ad_run_id d, ar_node_id = ad_node_id d, ar_lease_id = j_lease_id job,
        ar_attempt = j_attempt job, ar_status = ''uploading'', ar_created_at = now, ar_updated_at = now,
        ar_verified_at = None\<rparr> in
     bindM (get_artifact (ad_artifact_id d)) (\<lambda>existing. case existing of
       Some old \<Rightarrow>
         thenM (guardM (py_eq (JObj (ar_descriptor old)) (JObj (ar_descriptor r)) \<and> ar_job_id old = ar_job_id r
             \<and> ar_run_id old = ar_run_id r \<and> ar_node_id old = ar_node_id r \<and> ar_lease_id old = ar_lease_id r
             \<and> ar_attempt old = ar_attempt r)
           (CoordinatorError ''artifact id is already bound to another upload'')) (retM old)
     | None \<Rightarrow> thenM (put_artifact (ad_artifact_id d) r) (retM r)))))))))"

definition finalize_artifact_upload :: "string \<Rightarrow> string \<Rightarrow> int \<Rightarrow> artifact_rec coord" where
  "finalize_artifact_upload artifact_id digest nbytes =
     bindM (get_artifact artifact_id) (\<lambda>found. case found of
       None \<Rightarrow> raiseM (CoordinatorError ''artifact upload was not registered'')
     | Some r \<Rightarrow> bindM clockM (\<lambda>now.
     bindM (liftM (artifact_of_kwargs now (ar_descriptor r))) (\<lambda>d.
     thenM (guardM (ad_sha256 d = digest \<and> ad_size d = nbytes)
       (CoordinatorError ''final artifact does not match its authoritative descriptor''))
     (bindM (coord_job (ar_job_id r)) (\<lambda>job.
     thenM (guardM (j_lease_id job = ar_lease_id r \<and> j_attempt job = ar_attempt r)
       (CoordinatorError ''artifact upload belongs to a stale Job attempt''))
     (let r' = r\<lparr>ar_status := ''verified'', ar_verified_at := Some now, ar_updated_at := now\<rparr> in
     thenM (put_artifact artifact_id r') (retM r')))))))"

text \<open>The descriptors a terminal event names: keyword objects only, chunks made a tuple.\<close>

definition event_artifacts :: "time \<Rightarrow> jobj \<Rightarrow> artifact list res" where
  "event_artifacts now payload =
     bindE (py_iter (jor (jget payload ''artifacts'') (JArr []))) (\<lambda>raws.
     mapE (\<lambda>values. bindE (py_iter (jor (jget values ''chunks'') (JArr []))) (\<lambda>chunks.
       artifact_of_kwargs now (jset values ''chunks'' (JArr chunks))))
     (List.map_filter as_obj raws))"

definition artifact_backed :: "artifact_rec \<Rightarrow> artifact \<Rightarrow> job_event \<Rightarrow> bool" where
  "artifact_backed stored a event \<longleftrightarrow> ar_status stored = ''verified''
     \<and> py_eq (JObj (ar_descriptor stored)) (JObj (artifact_to_dict a))
     \<and> ar_lease_id stored = Some (je_lease_id event) \<and> ar_attempt stored = je_attempt event"

definition check_artifact :: "job_event \<Rightarrow> artifact \<Rightarrow> unit coord" where
  "check_artifact event a =
     bindM (get_artifact (ad_artifact_id a)) (\<lambda>stored.
     if (case stored of None \<Rightarrow> False | Some r \<Rightarrow> artifact_backed r a event) then retM ()
     else bindM clockM (\<lambda>now.
       thenM (append_quarantine (je_job_id event) (with_sequence [(''reason_code'', JStr ''unverified_artifact''),
         (''artifact_id'', JStr (ad_artifact_id a)), (''created_at'', JFloat now)]))
       (raiseM (CoordinatorError ''terminal event referenced an unverified artifact''))))"

definition authoritative_terminal_artifacts :: "job_rec \<Rightarrow> job_event \<Rightarrow> artifact list coord" where
  "authoritative_terminal_artifacts job event =
     bindM clockM (\<lambda>now. bindM (getsM interp) (\<lambda>E.
     bindM (liftM (event_artifacts now (je_payload event))) (\<lambda>artifacts.
     thenM (forM artifacts (check_artifact event))
     (bindM (liftM (manifest_from_dict E now (j_manifest job))) (\<lambda>m.
     thenM (guardM (jm_expected_outputs m = []
         \<or> set (map ad_logical_name artifacts) = set (jm_expected_outputs m))
       (CoordinatorError ''terminal artifacts do not satisfy expected outputs''))
     (retM artifacts))))))"

section \<open>Terminal transactions\<close>

definition evidence_field :: "job_rec \<Rightarrow> string \<Rightarrow> json" where
  "evidence_field job k = jget (opt_or (j_goal_evidence_binding job) []) k"

definition attempt_after :: "pyenv \<Rightarrow> time \<Rightarrow> job_rec list \<Rightarrow> attempt_rec \<Rightarrow> attempt_rec" where
  "attempt_after E now js a =
     (if \<not> list_all (\<lambda>j. opt_truthy (j_terminal_event_id j)) js
      then a\<lparr>ra_state := ''running'', ra_updated_at := now\<rparr>
      else a\<lparr>ra_state := (if list_all (\<lambda>j. j_status j = ''completed''
               \<and> evidence_field j ''trust_state'' = JStr ''verified'') js then ''completed'' else ''needs_review''),
             ra_replacement_evidence_ids := Some (map (\<lambda>j. py_str E (evidence_field j ''evidence_id''))
               (filter (\<lambda>j. truthy (evidence_field j ''evidence_id'')) js)),
             ra_updated_at := now\<rparr>)"

definition update_revalidation_attempt_for_job :: "string \<Rightarrow> unit coord" where
  "update_revalidation_attempt_for_job job_id =
     bindM (listM revalidation_attempts) (\<lambda>as. forM as (\<lambda>a.
       if job_id \<notin> set (ra_job_ids a) then retM () else
       bindM (foldM (\<lambda>js i. bindM (coord_job i) (\<lambda>j. retM (js @ [j]))) [] (ra_job_ids a)) (\<lambda>js.
       bindM clockM (\<lambda>now. bindM (getsM interp) (\<lambda>E.
       put_attempt (ra_attempt_id a) (attempt_after E now js a))))))"

definition is_terminal_event :: "jobj \<Rightarrow> bool" where
  "is_terminal_event item \<longleftrightarrow> jget item ''state'' \<in> JStr ` set TERMINAL_JOB_STATES"

definition apply_terminal_transaction :: "tx_rec \<Rightarrow> unit coord" where
  "apply_terminal_transaction tx =
     (let event_id = tx_event_id tx; job_id = tx_job_id tx in
     bindM (get_job job_id) (\<lambda>found. case found of
       None \<Rightarrow> raiseM (CoordinatorError ''terminal transaction Job no longer exists'')
     | Some persisted \<Rightarrow>
     thenM (guardM (\<not> opt_truthy (j_terminal_event_id persisted) \<or> j_terminal_event_id persisted = Some event_id)
       (CoordinatorError ''Job already has a different terminal event''))
     (bindM (read_events job_id) (\<lambda>log.
     thenM (guardM (\<not> list_ex (\<lambda>item. is_terminal_event item \<and> jget item ''event_id'' \<noteq> JStr event_id) log)
       (CoordinatorError ''Job event log already has a different terminal event''))
     (let matching = filter (\<lambda>item. jget item ''event_id'' = JStr event_id) log in
     thenM (guardM (matching = [] \<or> py_eq (JObj (hd matching)) (JObj (tx_event tx)))
       (CoordinatorError ''terminal transaction conflicts with an existing event''))
     (thenM (put_job job_id (tx_job tx))
     (thenM (if matching = [] then append_event job_id (with_sequence (tx_event tx)) else retM ())
     (thenM (update_revalidation_attempt_for_job job_id)
     (bindM clockM (\<lambda>now.
     put_tx event_id (tx\<lparr>tx_status := ''committed'', tx_updated_at := now\<rparr>)))))))))))"

definition recover_terminal_transactions :: "string list coord" where
  "recover_terminal_transactions = bindM (listM terminal_transactions) (\<lambda>txs.
     foldM (\<lambda>recovered tx. if tx_status tx = ''committed'' then retM recovered else
       thenM (lockM (''terminal-job-'' @ tx_job_id tx))
       (thenM (lockM (''terminal-event-'' @ tx_event_id tx))
       (thenM (apply_terminal_transaction tx) (retM (recovered @ [tx_event_id tx]))))) [] txs)"

definition recover_terminal_transactions_for_job :: "string \<Rightarrow> bool \<Rightarrow> unit coord" where
  "recover_terminal_transactions_for_job job_id job_locked =
     thenM (guardM job_locked (RuntimeError ''terminal Job lock is required''))
     (bindM (listM terminal_transactions) (\<lambda>txs. forM txs (\<lambda>tx.
       if tx_job_id tx \<noteq> job_id \<or> tx_status tx = ''committed'' then retM () else
       thenM (lockM (''terminal-event-'' @ tx_event_id tx)) (apply_terminal_transaction tx))))"

definition recover_terminal_transaction :: "string \<Rightarrow> string \<Rightarrow> bool \<Rightarrow> unit coord" where
  "recover_terminal_transaction event_id job_id job_locked =
     bindM (get_tx event_id) (\<lambda>found. case found of
       None \<Rightarrow> retM ()
     | Some tx \<Rightarrow>
       if tx_status tx = ''committed'' then retM () else
       thenM (guardM (tx_job_id tx = job_id) (CoordinatorError ''terminal event id is reserved by another Job''))
       (thenM (guardM job_locked (RuntimeError ''terminal Job lock is required''))
       (thenM (lockM (''terminal-event-'' @ event_id)) (apply_terminal_transaction tx))))"

definition commit_terminal_event :: "job_rec \<Rightarrow> jobj \<Rightarrow> bool \<Rightarrow> unit coord" where
  "commit_terminal_event job serialized job_locked =
     thenM (guardM job_locked (RuntimeError ''terminal Job lock is required''))
     (bindM (getsM interp) (\<lambda>E. bindM clockM (\<lambda>now.
     let event_id = py_str E (jget serialized ''event_id'');
         tx = \<lparr>tx_event_id = event_id, tx_job_id = j_job_id job, tx_job = job, tx_event = serialized,
           tx_status = ''prepared'', tx_created_at = now, tx_updated_at = now\<rparr> in
     thenM (lockM (''terminal-event-'' @ event_id))
     (bindM (get_tx event_id) (\<lambda>existing. case existing of
       Some old \<Rightarrow>
         thenM (guardM (tx_job_id old = tx_job_id tx \<and> py_eq (JObj (tx_event old)) (JObj (tx_event tx)))
           (CoordinatorError ''terminal event id is already reserved by a conflicting transaction''))
         (apply_terminal_transaction old)
     | None \<Rightarrow> thenM (put_tx event_id tx) (apply_terminal_transaction tx))))))"

section \<open>Recording an event\<close>

text \<open>\<open>max(sequence of the events of this attempt, default=0)\<close>\<close>

definition event_attempt :: "jobj \<Rightarrow> int res" where
  "event_attempt item = int_or0 (jget item ''attempt'')"

fun attempt_sequences :: "int \<Rightarrow> jobj list \<Rightarrow> int list res" where
  "attempt_sequences attempt [] = Inr []"
| "attempt_sequences attempt (item # items) =
     bindE (event_attempt item) (\<lambda>a.
     if a \<noteq> attempt then attempt_sequences attempt items
     else bindE (int_or0 (jget item ''sequence'')) (\<lambda>q.
       bindE (attempt_sequences attempt items) (\<lambda>qs. Inr (q # qs))))"

definition current_sequence :: "int \<Rightarrow> jobj list \<Rightarrow> int res" where
  "current_sequence attempt items =
     bindE (attempt_sequences attempt items) (\<lambda>qs. Inr (if qs = [] then 0 else fold max (tl qs) (hd qs)))"

definition job_grants :: "string \<Rightarrow> grant_rec list \<Rightarrow> grant_rec list" where
  "job_grants job_id gs = filter (\<lambda>g. mg_job_id (gr_grant g) = job_id) gs"

definition grant_totals :: "grant_rec list \<Rightarrow> jobj" where
  "grant_totals gs = [(''calls'', JInt (sum_list (map (\<lambda>g. us_calls (gr_usage g)) gs))),
     (''tokens'', JInt (sum_list (map (\<lambda>g. us_tokens (gr_usage g)) gs))),
     (''cost_usd'', JFloat (sum_list (map (\<lambda>g. us_cost_usd (gr_usage g)) gs)))]"

definition goal_binding :: "job_event \<Rightarrow> job_manifest \<Rightarrow> artifact list \<Rightarrow> jobj" where
  "goal_binding event m arts = [(''schema_version'', JStr GOAL_EVIDENCE_SCHEMA),
     (''evidence_id'', JStr (''evidence-'' @ je_event_id event)),
     (''criterion_ids'', jstrs (jm_criterion_ids m)),
     (''artifact_digests'', JObj (map (\<lambda>p. (fst p, JStr (snd p)))
        (sdict (map (\<lambda>a. (ad_artifact_id a, ad_sha256 a)) arts))))]"

definition goal_authority :: "job_rec \<Rightarrow> job_manifest \<Rightarrow> job_lease \<Rightarrow> jobj" where
  "goal_authority job m lease = [(''goal_id'', jopt (jm_goal_id m)), (''goal_revision'', jm_goal_revision m),
     (''task_id'', jopt (jm_task_id m)), (''job_id'', JStr (jm_job_id m)), (''run_id'', JStr (jm_run_id m)),
     (''attempt'', JInt (jl_attempt lease)), (''lease_id'', JStr (jl_lease_id lease)),
     (''lease_state'', JStr ''terminal_valid''), (''input_fingerprint'', jopt (jm_input_fingerprint m)),
     (''registered_validator_ids'', jstrs (j_registered_validator_ids job)),
     (''validator_results'', JObj (j_validator_results job))]"

definition review_binding :: "job_event \<Rightarrow> jobj \<Rightarrow> jobj \<Rightarrow> jobj \<Rightarrow> jobj" where
  "review_binding event receipt binding authority = jmerge (jmerge binding authority)
     [(''receipt_hash'', jget receipt ''receipt_hash''), (''terminal_state'', JStr (je_state event)),
      (''verdict'', JStr ''needs_review''), (''trust_state'', JStr ''needs_review'')]"

text \<open>The terminal projection of a job: usage, receipt and criterion binding, and the ids of
  the grants to revoke.\<close>

definition terminal_projection :: "job_rec \<Rightarrow> job_event \<Rightarrow> artifact list \<Rightarrow> (job_rec \<times> string list) coord" where
  "terminal_projection job event arts =
     bindM (getsM interp) (\<lambda>E. bindM clockM (\<lambda>now.
     let job1 = job\<lparr>j_terminal_event_id := Some (je_event_id event),
           j_resource_usage := (case jget (je_payload event) ''resource_usage'' of JObj r \<Rightarrow> Some r
              | _ \<Rightarrow> j_resource_usage job),
           j_cleanup_status := Some (get_str E (je_payload event) ''cleanup_status'' ''unknown'')\<rparr>;
         worker_receipt = (case jget (je_payload event) ''evidence_receipt'' of JObj r \<Rightarrow> r | _ \<Rightarrow> []) in
     bindM (liftM (manifest_from_dict E now (j_manifest job))) (\<lambda>m.
     bindM (listM grants) (\<lambda>gs.
     let mine = job_grants (je_job_id event) gs;
         ids = filter (\<lambda>i. i \<noteq> []) (map (\<lambda>g. mg_grant_id (gr_grant g)) mine);
         usage = grant_totals mine in
     bindM (coord_lease (je_lease_id event)) (\<lambda>lease.
     thenM (liftM (lease_post_init lease))
     (bindM (coord_node (je_node_id event)) (\<lambda>node_rec.
     bindM (liftM (capability_from_dict E (nd_capability_manifest node_rec))) (\<lambda>node.
     bindM (liftM (get_float E worker_receipt ''started_at'' (je_created_at event))) (\<lambda>started.
     bindM (liftM (get_float E worker_receipt ''ended_at'' (je_created_at event))) (\<lambda>ended.
     bindM (liftM (build_evidence_receipt E m node lease (je_state event) arts [] usage
        (opt_or (j_cleanup_status job1) []) started ended (opt_or (j_resource_usage job1) []))) (\<lambda>receipt.
     let job2 = job1\<lparr>j_model_usage := Some usage, j_evidence_receipt := Some receipt\<rparr> in
     if \<not> opt_truthy (jm_goal_id m) then retM (job2, ids)
     else
       let binding = goal_binding event m arts; authority = goal_authority job m lease in
       bindM (if je_state event = ''completed''
          then liftM (bind_evidence_to_criteria E receipt binding authority)
          else retM (review_binding event receipt binding authority)) (\<lambda>b.
       retM (job2\<lparr>j_goal_evidence_binding := Some b\<rparr>, ids)))))))))))))"

definition quarantine_event :: "job_event \<Rightarrow> jobj \<Rightarrow> unit coord" where
  "quarantine_event event entry = append_quarantine (je_job_id event) (with_sequence entry)"

text \<open>The goal fence: an event for a job bound to a goal must name that goal and the revision
  the host has authorised; any other is quarantined.\<close>

definition event_goal_check :: "job_rec \<Rightarrow> job_event \<Rightarrow> unit coord" where
  "event_goal_check job event =
     (let goal_id = jget (j_manifest job) ''goal_id'' in
      if \<not> truthy goal_id then retM () else
      bindM (authorized_goal_revision (j_manifest job)) (\<lambda>revision.
      if py_eq (jopt (je_goal_id event)) goal_id \<and> py_eq (je_goal_revision event) (JInt revision) then retM ()
      else bindM clockM (\<lambda>now.
        thenM (quarantine_event event [(''reason_code'', JStr ''stale_goal_revision''),
          (''event'', JObj (event_to_dict event)), (''expected_goal_id'', goal_id),
          (''expected_goal_revision'', JInt revision), (''created_at'', JFloat now)])
        (thenM (coord_audit ''job.event_quarantined'' [(''job_id'', JStr (je_job_id event)),
          (''reason_code'', JStr ''stale_goal_revision'')])
        (raiseM (CoordinatorError ''event goal revision mismatch''))))))"

definition owns_lease :: "job_rec \<Rightarrow> job_event \<Rightarrow> bool" where
  "owns_lease job event \<longleftrightarrow> j_lease_id job = Some (je_lease_id event)
     \<and> j_node_id job = Some (je_node_id event) \<and> j_attempt job = je_attempt event"

definition event_owner_check :: "job_rec \<Rightarrow> job_event \<Rightarrow> unit coord" where
  "event_owner_check job event =
     (if owns_lease job event then retM ()
      else bindM clockM (\<lambda>now.
        thenM (quarantine_event event [(''reason_code'', JStr ''stale_or_foreign_lease''),
          (''event'', JObj (event_to_dict event)), (''created_at'', JFloat now)])
        (raiseM (CoordinatorError ''event belongs to an old or different lease''))))"

definition event_lease_check :: "job_event \<Rightarrow> unit coord" where
  "event_lease_check event =
     bindM (coord_lease (je_lease_id event)) (\<lambda>lease. bindM clockM (\<lambda>now.
     if jl_acknowledged_at lease = None then
       thenM (quarantine_lease_submission lease ''unacknowledged_lease'')
         (raiseM (CoordinatorError ''lease must be acknowledged before events''))
     else if jl_expires_at lease \<le> now then
       thenM (quarantine_lease_submission lease ''expired_lease'')
       (thenM (requeue_expired lease ''expired_lease'')
         (raiseM (CoordinatorError ''lease expired before event submission'')))
     else retM ()))"

definition commit_event :: "job_rec \<Rightarrow> job_event \<Rightarrow> bool \<Rightarrow> jobj coord" where
  "commit_event job event job_locked =
     (let terminal = je_state event \<in> set TERMINAL_JOB_STATES; serialized = event_to_dict event in
     bindM (if terminal then authoritative_terminal_artifacts job event else retM []) (\<lambda>artifacts.
     bindM clockM (\<lambda>now.
     let job1 = job\<lparr>j_status := je_state event, j_updated_at := now,
       j_reason_category := (if opt_truthy (je_reason_category event) then je_reason_category event
          else j_reason_category job)\<rparr> in
     thenM (if terminal then
         bindM (terminal_projection job1 event artifacts) (\<lambda>(job2, ids).
         thenM (commit_terminal_event job2 serialized job_locked)
         (forM ids (\<lambda>i. thenM (revoke_model_grant i) (retM ()))))
       else thenM (append_event (je_job_id event) (with_sequence serialized)) (put_job (je_job_id event) job1))
     (thenM (coord_audit ''job.event'' [(''job_id'', JStr (je_job_id event)), (''event_id'', JStr (je_event_id event)),
        (''state'', JStr (je_state event)), (''attempt'', JInt (je_attempt event))])
     (retM serialized)))))"

definition record_event_locked :: "job_event \<Rightarrow> bool \<Rightarrow> jobj coord" where
  "record_event_locked event job_locked =
     thenM (recover_terminal_transaction (je_event_id event) (je_job_id event) job_locked)
     (bindM (coord_job (je_job_id event)) (\<lambda>job.
     thenM (event_goal_check job event)
     (thenM (event_owner_check job event)
     (bindM (read_events (je_job_id event)) (\<lambda>log.
     case List.find (\<lambda>item. jget item ''event_id'' = JStr (je_event_id event)) log of
       Some duplicate \<Rightarrow>
         thenM (guardM (j_terminal_event_id job = Some (je_event_id event)
             \<and> py_eq (JObj duplicate) (JObj (event_to_dict event)))
           (CoordinatorError ''duplicate event was not fully committed or does not match''))
         (retM duplicate)
     | None \<Rightarrow>
     thenM (event_lease_check event)
     (bindM (liftM (current_sequence (je_attempt event) log)) (\<lambda>current.
     thenM (guardM (current < je_sequence event) (CoordinatorError ''event sequence must increase monotonically''))
     (thenM (guardM (\<not> opt_truthy (j_terminal_event_id job)) (CoordinatorError ''job already has a valid terminal event''))
     (commit_event job event job_locked)))))))))"

definition record_event :: "job_event \<Rightarrow> jobj coord" where
  "record_event event =
     (if je_state event \<in> set TERMINAL_JOB_STATES then
        thenM (lockM (''terminal-job-'' @ je_job_id event))
        (thenM (recover_terminal_transactions_for_job (je_job_id event) True)
        (record_event_locked event True))
      else record_event_locked event False)"

section \<open>Validator results and views\<close>

definition record_validator_result :: "string \<Rightarrow> string \<Rightarrow> string \<Rightarrow> string \<Rightarrow> string \<Rightarrow> jobj coord" where
  "record_validator_result job_id criterion_id validator_id mthd status =
     bindM (coord_job job_id) (\<lambda>job.
     thenM (guardM (\<not> opt_truthy (j_terminal_event_id job))
       (CoordinatorError ''validator results cannot change after terminal evidence''))
     (bindM (getsM interp) (\<lambda>E. bindM clockM (\<lambda>now.
     bindM (liftM (manifest_from_dict E now (j_manifest job))) (\<lambda>m.
     thenM (guardM (criterion_id \<in> set (jm_criterion_ids m))
       (CoordinatorError ''validator criterion is not part of the job Goal binding''))
     (let allowed = map (\<lambda>gate. ''quality-gate:'' @ gate) (jm_quality_gates m) in
     thenM (guardM (validator_id \<in> set allowed) (CoordinatorError ''validator is not registered by the host manifest''))
     (thenM (guardM (py_strip mthd \<noteq> []) (CoordinatorError ''validator method is required''))
     (let normalized = py_lower (py_strip status) in
     thenM (guardM (normalized \<in> {''passed'', ''ready'', ''verified'', ''failed'', ''blocked'', ''needs_review''})
       (CoordinatorError ''validator status is invalid''))
     (let result = [(''validator_id'', JStr validator_id), (''method'', JStr (py_strip mthd)),
            (''status'', JStr normalized)];
          job' = job\<lparr>j_validator_results := jset (j_validator_results job) criterion_id (JObj result),
            j_registered_validator_ids := sort (remdups allowed), j_updated_at := now\<rparr> in
     thenM (put_job job_id job')
     (thenM (coord_audit ''job.validator_result'' [(''job_id'', JStr job_id), (''criterion_id'', JStr criterion_id),
        (''validator_id'', JStr validator_id), (''status'', JStr normalized)])
     (retM result)))))))))))"

definition job_view :: "string \<Rightarrow> (job_rec \<times> jobj list) coord" where
  "job_view job_id = bindM (coord_job job_id) (\<lambda>job. bindM (read_events job_id) (\<lambda>log.
     retM (job\<lparr>j_inputs_base64 := []\<rparr>, log)))"

definition worker_job_payload :: "string \<Rightarrow> (jobj \<times> (string \<times> string) list) coord" where
  "worker_job_payload job_id = bindM (coord_job job_id) (\<lambda>job. retM (j_manifest job, j_inputs_base64 job))"

end
