(* ===== verification/PyUrl.thy ===== *)
theory PyUrl
  imports PyJson
begin

text \<open>
  \<open>urllib.parse.urlparse\<close> of Python 3.11, as far as the code reads its result: scheme,
  host name, user name, password and fragment. The check of a bracketed IP literal and the NFKC
  normalisation are those of the interpreter (\<open>pyenv\<close>).
\<close>

record url =
  ur_scheme :: string
  ur_netloc :: string
  ur_path :: string
  ur_query :: string
  ur_fragment :: string

text \<open>\<open>s.partition(c)\<close>: the text before and after the first separator, and whether there is one.\<close>

definition py_partition :: "char \<Rightarrow> string \<Rightarrow> string \<times> bool \<times> string" where
  "py_partition d s = (let a = takeWhile (\<lambda>c. c \<noteq> d) s; r = drop (length a) s
     in (a, r \<noteq> [], drop 1 r))"

definition py_rpartition :: "char \<Rightarrow> string \<Rightarrow> string \<times> bool \<times> string" where
  "py_rpartition d s = (let b = rev (takeWhile (\<lambda>c. c \<noteq> d) (rev s)); n = length s - length b
     in if d \<in> set s then (take (n - 1) s, True, b) else ([], False, s))"

definition scheme_char :: "char \<Rightarrow> bool" where
  "scheme_char c \<longleftrightarrow> is_alnum_ascii c \<or> c \<in> {CHR ''+'', CHR ''-'', CHR ''.''}"

definition url_clean :: "string \<Rightarrow> string" where
  "url_clean u = filter (\<lambda>c. code_pt c \<notin> {9, 10, 13}) (dropWhile (\<lambda>c. code_pt c \<le> 32) u)"

definition split_scheme :: "string \<Rightarrow> string \<times> string" where
  "split_scheme u = (case py_partition (CHR '':'') u of (s, found, rest) \<Rightarrow>
     if found \<and> s \<noteq> [] \<and> (is_upper_ascii (hd s) \<or> is_lower_ascii (hd s)) \<and> list_all scheme_char s
     then (py_lower s, rest) else ([], u))"

definition split_netloc :: "string \<Rightarrow> string \<times> string" where
  "split_netloc u = (if py_startswith u ''//'' then
     (let rest = drop 2 u; net = takeWhile (\<lambda>c. c \<notin> {CHR ''/'', CHR ''?'', CHR ''#''}) rest
      in (net, drop (length net) rest)) else ([], u))"

definition check_netloc :: "pyenv \<Rightarrow> string \<Rightarrow> unit res" where
  "check_netloc E netloc =
     (if list_all (\<lambda>c. code_pt c < 128) netloc then Inr ()
      else let n = filter (\<lambda>c. c \<notin> {CHR ''@'', CHR '':'', CHR ''#'', CHR ''?''}) netloc; n2 = nfkc E n
        in checkE (n = n2 \<or> list_all (\<lambda>c. c \<notin> {CHR ''/'', CHR ''?'', CHR ''#'', CHR ''@'', CHR '':''}) n2)
          (ValueError ''netloc contains invalid characters under NFKC normalization''))"

definition check_brackets :: "pyenv \<Rightarrow> string \<Rightarrow> unit res" where
  "check_brackets E netloc =
     (let o' = CHR ''['' \<in> set netloc; c = CHR '']'' \<in> set netloc in
      if o' \<noteq> c then Inl (ValueError ''Invalid IPv6 URL'')
      else if o' then checkE (bracketed_host_ok E
          (fst (py_partition (CHR '']'') (snd (snd (py_partition (CHR ''['') netloc))))))
        (ValueError ''invalid bracketed host'')
      else Inr ())"

definition urlparse :: "pyenv \<Rightarrow> string \<Rightarrow> url res" where
  "urlparse E u0 =
     (let (scheme, u1) = split_scheme (url_clean u0); (netloc, u2) = split_netloc u1 in
      bindE (check_brackets E netloc) (\<lambda>_.
      let (u3, _, fragment) = py_partition (CHR ''#'') u2; (path, _, query) = py_partition (CHR ''?'') u3 in
      bindE (check_netloc E netloc) (\<lambda>_.
      Inr \<lparr>ur_scheme = scheme, ur_netloc = netloc, ur_path = path, ur_query = query,
        ur_fragment = fragment\<rparr>)))"

text \<open>The derived attributes; \<open>None\<close> and the empty text are both false.\<close>

definition url_hostname :: "url \<Rightarrow> string" where
  "url_hostname u =
     (let hostinfo = snd (snd (py_rpartition (CHR ''@'') (ur_netloc u)));
          (_, bracket, inner) = py_partition (CHR ''['') hostinfo;
          host = (if bracket then fst (py_partition (CHR '']'') inner)
                  else fst (py_partition (CHR '':'') hostinfo));
          (name, percent, zone) = py_partition (CHR ''%'') host
      in py_lower name @ (if percent then ''%'' @ zone else []))"

definition url_userinfo :: "url \<Rightarrow> string" where
  "url_userinfo u = fst (py_rpartition (CHR ''@'') (ur_netloc u))"

definition url_username :: "url \<Rightarrow> string" where
  "url_username u = fst (py_partition (CHR '':'') (url_userinfo u))"

definition url_password :: "url \<Rightarrow> string" where
  "url_password u = snd (snd (py_partition (CHR '':'') (url_userinfo u)))"

end
