(* ===== verification/Nodes.thy ===== *)
theory Nodes
  imports CoordState PyUrl
begin

text \<open>
  The node directory of \<open>WorkerCoordinator\<close> (\<open>coordinator.py\<close>): importing an approved
  node, the session lifecycle (connect, heartbeat, disconnect, stale expiry), draining, the
  update and transport directives, and revocation with what it takes from the node: its
  unfinished jobs and its model grants. An operation returns the record it wrote; the public
  view the code returns is its redaction.
\<close>

section \<open>Approval import and sessions\<close>

definition import_approved_node ::
  "capability \<Rightarrow> string option \<Rightarrow> string \<Rightarrow> int \<Rightarrow> time option \<Rightarrow> node_rec coord" where
  "import_approved_node manifest display_name fingerprint session_generation identity_expires_at =
     thenM (guardM (16 \<le> length fingerprint) (CoordinatorError ''approved node fingerprint is invalid''))
     (bindM clockM (\<lambda>now.
     let name = (if opt_truthy display_name then opt_or display_name [] else cm_node_id manifest);
         r = \<lparr>nd_node_id = cm_node_id manifest, nd_state = ''offline'',
           nd_display_name = take 120 name, nd_fingerprint = fingerprint, nd_algorithm = ''ed25519'',
           nd_certificate_fingerprint = Some fingerprint,
           nd_capability_manifest = capability_to_dict manifest, nd_verification_code = None,
           nd_approved_at = Some now,
           nd_identity_expires_at = Some (if time_truthy identity_expires_at
              then opt_or identity_expires_at 0 else now + 24 * 60 * 60),
           nd_revoked_at = None, nd_revocation_reason = None, nd_last_seen_at = None,
           nd_last_disconnected_at = None, nd_disconnect_reason = None, nd_transport = ''pending'',
           nd_session_generation = Some (max 1 session_generation), nd_draining = False,
           nd_update_directive = None, nd_transport_directive = None\<rparr>
     in thenM (put_node (cm_node_id manifest) r)
        (thenM (coord_audit ''node.approval_imported'' [(''node_id'', JStr (cm_node_id manifest))])
        (retM r))))"

definition peer_identity_check :: "node_rec \<Rightarrow> string \<Rightarrow> string option \<Rightarrow> string option \<Rightarrow> unit coord" where
  "peer_identity_check node node_id peer_node_id peer_fingerprint =
     thenM (guardM (opt_truthy peer_node_id \<and> peer_node_id = Some node_id)
       (CoordinatorError ''TLS peer identity does not match claimed node''))
     (let expected = opt_or (nd_certificate_fingerprint node) [] in
     thenM (guardM (expected \<noteq> []) (CoordinatorError ''approved node has no bound TLS certificate''))
     (thenM (guardM (opt_truthy peer_fingerprint)
       (CoordinatorError ''TLS peer certificate does not match approved node''))
     (bindM (liftM (compare_digest (py_lower expected) (py_lower (opt_or peer_fingerprint [])))) (\<lambda>same.
       guardM same (CoordinatorError ''TLS peer certificate does not match approved node'')))))"

definition connect_node ::
  "capability \<Rightarrow> string \<Rightarrow> int \<Rightarrow> string option \<Rightarrow> string option \<Rightarrow> bool \<Rightarrow> node_rec coord" where
  "connect_node manifest transport identity_generation peer_node_id peer_fingerprint require_peer =
     (let node_id = cm_node_id manifest in
     thenM (guardM (transport \<in> {''direct'', ''overlay'', ''relay'', ''local''})
       (CoordinatorError ''unsupported transport''))
     (thenM (lockM (''node-'' @ node_id))
     (bindM (get_node node_id) (\<lambda>found. case found of
        None \<Rightarrow> raiseM (CoordinatorError ''node is not approved'')
      | Some node \<Rightarrow>
     thenM (guardM (time_truthy (nd_approved_at node)) (CoordinatorError ''node is not approved''))
     (thenM (if require_peer then peer_identity_check node node_id peer_node_id peer_fingerprint else retM ())
     (thenM (guardM (nd_state node \<noteq> ''revoked'' \<and> opt_or (nd_session_generation node) 0 = identity_generation)
       (CoordinatorError ''node identity is revoked or stale''))
     (if PROTOCOL_VERSION \<notin> set (cm_protocol_versions manifest) then
        thenM (put_node node_id (node\<lparr>nd_state := ''incompatible''\<rparr>))
          (raiseM (CoordinatorError ''worker protocol is incompatible''))
      else bindM clockM (\<lambda>now.
        let node' = node\<lparr>nd_capability_manifest := capability_to_dict manifest,
          nd_state := (if nd_draining node then ''draining'' else ''online_idle''),
          nd_last_seen_at := Some now, nd_transport := transport\<rparr> in
        thenM (put_node node_id node')
        (thenM (coord_audit ''node.connected'' [(''node_id'', JStr node_id), (''transport'', JStr transport)])
        (retM node'))))))))))"

definition disconnect_node :: "string \<Rightarrow> string \<Rightarrow> node_rec coord" where
  "disconnect_node node_id reason =
     thenM (lockM (''node-'' @ node_id))
     (bindM (coord_node node_id) (\<lambda>node. bindM clockM (\<lambda>now.
       let node1 = (if nd_state node \<notin> {''revoked'', ''incompatible'', ''pending_approval''}
                    then node\<lparr>nd_state := ''offline''\<rparr> else node);
           node' = node1\<lparr>nd_last_disconnected_at := Some now, nd_disconnect_reason := Some (take 120 reason)\<rparr>
       in thenM (put_node node_id node')
          (thenM (coord_audit ''node.disconnected'' [(''node_id'', JStr node_id), (''reason'', JStr reason)])
          (retM node')))))"

definition expire_stale_nodes :: "rat \<Rightarrow> string list coord" where
  "expire_stale_nodes stale_after_seconds =
     bindM clockM (\<lambda>now. let cutoff = now - max 5 stale_after_seconds in
     bindM (listM nodes) (\<lambda>ns.
     foldM (\<lambda>expired node.
       if nd_state node \<notin> {''online_idle'', ''online_busy'', ''draining''} then retM expired
       else if opt_or (nd_last_seen_at node) 0 > cutoff then retM expired
       else if nd_node_id node = [] then retM expired
       else thenM (disconnect_node (nd_node_id node) ''heartbeat_stale'') (retM (expired @ [nd_node_id node])))
     [] ns))"

definition heartbeat_node :: "string \<Rightarrow> rat \<Rightarrow> node_rec coord" where
  "heartbeat_node node_id current_load =
     bindM (coord_node node_id) (\<lambda>node.
     thenM (guardM (nd_state node \<noteq> ''revoked'') (CoordinatorError ''node is revoked''))
     (bindM (getsM interp) (\<lambda>E.
     bindM (liftM (capability_from_dict E (nd_capability_manifest node))) (\<lambda>manifest.
     bindM clockM (\<lambda>now.
     let updated = manifest\<lparr>cm_current_load := max 0 (min current_load 1), cm_last_verified_at := now\<rparr> in
     thenM (liftM (capability_post_init updated))
     (let node1 = node\<lparr>nd_capability_manifest := capability_to_dict updated, nd_last_seen_at := Some now\<rparr>;
          node' = (if nd_state node \<notin> {''draining'', ''incompatible''}
            then node1\<lparr>nd_state := (if current_load > 0 then ''online_busy'' else ''online_idle'')\<rparr> else node1)
      in thenM (put_node node_id node') (retM node')))))))"

section \<open>Draining and directives\<close>

definition set_draining :: "string \<Rightarrow> bool \<Rightarrow> node_rec coord" where
  "set_draining node_id draining = bindM (coord_node node_id) (\<lambda>node.
     let node' = node\<lparr>nd_draining := draining, nd_state := (if draining then ''draining'' else ''online_idle'')\<rparr>
     in thenM (put_node node_id node')
        (thenM (coord_audit ''node.draining_changed'' [(''node_id'', JStr node_id), (''draining'', JBool draining)])
        (retM node')))"

definition is_update_version :: "string \<Rightarrow> bool" where
  "is_update_version v \<longleftrightarrow> v \<noteq> [] \<and> length v \<le> 64 \<and> is_alnum_ascii (hd v)
     \<and> list_all (\<lambda>c. is_alnum_ascii c \<or> c \<in> {CHR ''.'', CHR ''_'', CHR ''-''}) (tl v)"

definition plain_https :: "url \<Rightarrow> bool" where
  "plain_https u \<longleftrightarrow> ur_scheme u = ''https'' \<and> url_hostname u \<noteq> [] \<and> url_username u = []
     \<and> url_password u = [] \<and> ur_fragment u = []"

definition request_node_update :: "string \<Rightarrow> string \<Rightarrow> string \<Rightarrow> string \<Rightarrow> node_rec coord" where
  "request_node_update node_id version url_text sha256_value =
     thenM (guardM (is_update_version version) (CoordinatorError ''Worker update version is invalid''))
     (bindM (getsM interp) (\<lambda>E.
     bindM (liftM (urlparse E url_text)) (\<lambda>parsed.
     thenM (guardM (plain_https parsed) (CoordinatorError ''Worker update URL must be credential-free HTTPS''))
     (thenM (guardM (is_sha256_hex sha256_value) (CoordinatorError ''Worker update checksum is invalid''))
     (bindM (coord_node node_id) (\<lambda>node.
     thenM (guardM (nd_state node \<notin> {''revoked'', ''pending_approval''})
       (CoordinatorError ''Worker update requires an approved node''))
     (bindM (new_protocol_id ''update'') (\<lambda>directive_id.
     bindM clockM (\<lambda>now.
     let directive = \<lparr>ud_directive_id = directive_id, ud_version = version, ud_url = url_text,
           ud_sha256 = sha256_value, ud_status = ''requested'', ud_requested_at = now,
           ud_updated_at = None, ud_error = None\<rparr>;
         node' = node\<lparr>nd_draining := True, nd_state := ''draining'', nd_update_directive := Some directive\<rparr>
     in thenM (put_node node_id node')
        (thenM (coord_audit ''node.update_requested'' [(''node_id'', JStr node_id),
           (''directive_id'', JStr directive_id), (''version'', JStr version)])
        (retM node')))))))))))"

definition node_update_directive :: "string \<Rightarrow> update_directive option coord" where
  "node_update_directive node_id = bindM (coord_node node_id) (\<lambda>node.
     retM (case nd_update_directive node of None \<Rightarrow> None
       | Some d \<Rightarrow> if ud_status d \<in> {''requested'', ''downloading''} then Some d else None))"

definition record_node_update :: "string \<Rightarrow> string \<Rightarrow> string \<Rightarrow> string option \<Rightarrow> node_rec coord" where
  "record_node_update node_id directive_id status err =
     thenM (guardM (status \<in> {''downloading'', ''completed'', ''failed''})
       (CoordinatorError ''Worker update status is invalid''))
     (bindM (coord_node node_id) (\<lambda>node.
      case nd_update_directive node of
        None \<Rightarrow> raiseM (CoordinatorError ''Worker update directive is stale'')
      | Some d \<Rightarrow>
     thenM (guardM (ud_directive_id d = directive_id) (CoordinatorError ''Worker update directive is stale''))
     (bindM clockM (\<lambda>now.
     let updated = d\<lparr>ud_status := status, ud_updated_at := Some now,
           ud_error := (if opt_truthy err then map_option (take 120) err else ud_error d)\<rparr>;
         node1 = node\<lparr>nd_update_directive := Some updated\<rparr>;
         node' = (if status \<in> {''completed'', ''failed''}
                  then node1\<lparr>nd_draining := False, nd_state := ''offline''\<rparr> else node1)
     in thenM (put_node node_id node')
        (thenM (coord_audit ''node.update_status'' [(''node_id'', JStr node_id),
           (''directive_id'', JStr directive_id), (''status'', JStr status), (''error'', jopt err)])
        (retM node'))))))"

text \<open>The relay material of a transport directive: session id, peer and a 32-byte key.\<close>

definition relay_material :: "string option \<Rightarrow> string option \<Rightarrow> string option \<Rightarrow> (string \<times> string \<times> string) res" where
  "relay_material session_id peer_node_id session_key =
     (let sid = opt_or session_id []; peer = opt_or peer_node_id []; key = opt_or session_key [] in
      if \<not> list_all (\<lambda>c. code_pt c < 128) key then Inl (CoordinatorError ''Worker Relay session key is invalid'')
      else (case urlsafe_b64decode key of
        None \<Rightarrow> Inl (CoordinatorError ''Worker Relay session key is invalid'')
      | Some bs \<Rightarrow> bindE (checkE (sid \<noteq> [] \<and> peer \<noteq> [] \<and> length bs = 32)
          (CoordinatorError ''Worker Relay session material is invalid'')) (\<lambda>_. Inr (sid, peer, key))))"

definition request_node_transport ::
  "string \<Rightarrow> string \<Rightarrow> string \<Rightarrow> string option \<Rightarrow> string option \<Rightarrow> string option \<Rightarrow> string option \<Rightarrow> node_rec coord" where
  "request_node_transport node_id transport endpoint server_name relay_session_id relay_peer relay_key =
     thenM (guardM (transport \<in> {''direct'', ''overlay'', ''relay''}) (CoordinatorError ''Worker transport is invalid''))
     (bindM (getsM interp) (\<lambda>E.
     bindM (liftM (urlparse E endpoint)) (\<lambda>parsed.
     thenM (guardM (plain_https parsed) (CoordinatorError ''Worker transport endpoint must be credential-free HTTPS''))
     (bindM (coord_node node_id) (\<lambda>node.
     thenM (guardM (nd_state node \<notin> {''revoked'', ''pending_approval''})
       (CoordinatorError ''Worker transport change requires an approved node''))
     (bindM (new_protocol_id ''transport'') (\<lambda>directive_id.
     bindM clockM (\<lambda>now.
     bindM (if transport = ''relay'' then
         bindM (liftM (relay_material relay_session_id relay_peer relay_key)) (\<lambda>m. retM (Some m))
       else retM None) (\<lambda>relay.
     let directive = \<lparr>td_directive_id = directive_id, td_transport = transport, td_endpoint = Some endpoint,
           td_server_name = Some (if opt_truthy server_name then opt_or server_name [] else url_hostname parsed),
           td_status = ''requested'', td_requested_at = Some now, td_updated_at = None, td_error = None,
           td_relay = relay\<rparr>;
         node' = node\<lparr>nd_transport_directive := Some directive\<rparr>
     in thenM (put_node node_id node')
        (thenM (coord_audit ''node.transport_requested'' [(''node_id'', JStr node_id),
           (''directive_id'', JStr directive_id), (''transport'', JStr transport)])
        (retM node')))))))))))"

definition node_transport_directive :: "string \<Rightarrow> transport_directive option coord" where
  "node_transport_directive node_id = bindM (coord_node node_id) (\<lambda>node.
     retM (case nd_transport_directive node of None \<Rightarrow> None
       | Some d \<Rightarrow> if td_status d \<in> {''requested'', ''applying''} then Some d else None))"

definition record_node_transport :: "string \<Rightarrow> string \<Rightarrow> string \<Rightarrow> string option \<Rightarrow> node_rec coord" where
  "record_node_transport node_id directive_id status err =
     thenM (guardM (status \<in> {''applying'', ''completed'', ''failed''})
       (CoordinatorError ''Worker transport status is invalid''))
     (bindM (coord_node node_id) (\<lambda>node.
      case nd_transport_directive node of
        None \<Rightarrow> raiseM (CoordinatorError ''Worker transport directive is stale'')
      | Some d \<Rightarrow>
     thenM (guardM (td_directive_id d = directive_id) (CoordinatorError ''Worker transport directive is stale''))
     (bindM clockM (\<lambda>now.
     let target = td_transport d;
         updated = (if status = ''applying'' then d\<lparr>td_status := status, td_updated_at := Some now\<rparr>
           else \<lparr>td_directive_id = directive_id, td_transport = target, td_endpoint = None,
             td_server_name = None, td_status = status, td_requested_at = None,
             td_updated_at = Some now,
             td_error = (if opt_truthy err then map_option (take 120) err else None), td_relay = None\<rparr>);
         node1 = (if status = ''completed'' then node\<lparr>nd_transport := target\<rparr> else node);
         node' = node1\<lparr>nd_transport_directive := Some updated\<rparr>
     in thenM (put_node node_id node')
        (thenM (coord_audit ''node.transport_status'' [(''node_id'', JStr node_id),
           (''directive_id'', JStr directive_id), (''transport'', JStr target), (''status'', JStr status),
           (''error'', jopt err)])
        (retM node'))))))"

section \<open>Revocation\<close>

definition owned_open :: "string \<Rightarrow> job_rec \<Rightarrow> bool" where
  "owned_open node_id job \<longleftrightarrow> j_node_id job = Some node_id \<and> \<not> opt_truthy (j_terminal_event_id job)"

definition job_of_revoked_node :: "time \<Rightarrow> job_rec \<Rightarrow> job_rec" where
  "job_of_revoked_node now job = job\<lparr>j_status := ''waiting_review'', j_recovery_reason := Some ''node_revoked'',
     j_node_id := None, j_lease_id := None, j_updated_at := now\<rparr>"

definition revoke_jobs :: "string \<Rightarrow> job_rec list \<Rightarrow> string list coord" where
  "revoke_jobs node_id js = bindM clockM (\<lambda>now.
     thenM (forM js (\<lambda>job. if owned_open node_id job then put_job (j_job_id job) (job_of_revoked_node now job) else retM ()))
     (retM (map j_job_id (filter (owned_open node_id) js))))"

definition grant_of_node :: "string \<Rightarrow> grant_rec \<Rightarrow> bool" where
  "grant_of_node node_id g \<longleftrightarrow> mg_node_id (gr_grant g) = node_id \<and> \<not> time_truthy (mg_revoked_at (gr_grant g))"

definition grant_of_revoked_node :: "time \<Rightarrow> grant_rec \<Rightarrow> grant_rec" where
  "grant_of_revoked_node now g = g\<lparr>gr_grant := (gr_grant g)\<lparr>mg_revoked_at := Some now\<rparr>, gr_has_active_calls := True\<rparr>"

definition revoke_grants :: "string \<Rightarrow> grant_rec list \<Rightarrow> unit coord" where
  "revoke_grants node_id gs = bindM clockM (\<lambda>now. forM gs (\<lambda>g.
     if grant_of_node node_id g then put_grant (mg_grant_id (gr_grant g)) (grant_of_revoked_node now g) else retM ()))"

definition revoke_node :: "string \<Rightarrow> string \<Rightarrow> (node_rec \<times> string list) coord" where
  "revoke_node node_id reason =
     thenM (lockM (''node-'' @ node_id))
     (bindM (coord_node node_id) (\<lambda>node.
     bindM clockM (\<lambda>now.
     let node' = node\<lparr>nd_state := ''revoked'', nd_draining := True, nd_revoked_at := Some now,
       nd_revocation_reason := Some (take 120 reason),
       nd_session_generation := Some (opt_or (nd_session_generation node) 0 + 1)\<rparr> in
     thenM (put_node node_id node')
     (bindM (listM jobs) (\<lambda>js.
     bindM (revoke_jobs node_id js) (\<lambda>affected.
     bindM (listM grants) (\<lambda>gs.
     thenM (revoke_grants node_id gs)
     (thenM (coord_audit ''node.revoked'' [(''node_id'', JStr node_id), (''reason'', JStr reason),
        (''affected_job_ids'', jstrs affected)])
     (retM (node', affected))))))))))"

definition delete_node :: "string \<Rightarrow> bool coord" where
  "delete_node node_id = bindM (coord_node node_id) (\<lambda>node.
     thenM (if nd_state node \<noteq> ''revoked'' then thenM (revoke_node node_id ''deleted'') (retM ()) else retM ())
     (bindM (del_node node_id) (\<lambda>deleted.
     thenM (coord_audit ''node.deleted'' [(''node_id'', JStr node_id)]) (retM deleted))))"

section \<open>Lemmas\<close>







section \<open>Properties\<close>


definition sample_node :: node_rec where
  "sample_node = \<lparr>nd_node_id = ''node-1'', nd_state = ''offline'', nd_display_name = ''n'',
     nd_fingerprint = ''0123456789abcdef'', nd_algorithm = ''ed25519'',
     nd_certificate_fingerprint = Some ''ab'', nd_capability_manifest = capability_to_dict sample_capability,
     nd_verification_code = None, nd_approved_at = Some 10, nd_identity_expires_at = Some 500,
     nd_revoked_at = None, nd_revocation_reason = None, nd_last_seen_at = None,
     nd_last_disconnected_at = None, nd_disconnect_reason = None, nd_transport = ''pending'',
     nd_session_generation = Some 1, nd_draining = False, nd_update_directive = None,
     nd_transport_directive = None\<rparr>"

definition node_state :: cstate where
  "node_state = sample_state\<lparr>nodes := [(''node-1'', sample_node)]\<rparr>"

lemma node_state_get: "coll_get ''nodes'' ''node-1'' (nodes node_state) = Inr (Some sample_node)"
  by (simp add: node_state_def coll_get_def eval_ids)


text \<open>Connecting takes an approved, unrevoked node of the current session generation. A
  successful connection stores the announced capabilities, leaves the approval and the generation
  as they were, and puts the node online, or into draining if it is draining; with a required peer
  identity the TLS peer is that node and its certificate is the approved one up to letter case.\<close>

theorem connect_node_authentic:
  assumes "connect_node cap tr gen peer fp req s = (Inr node', t)"
  shows "\<exists>node. coll_get ''nodes'' (cm_node_id cap) (nodes s) = Inr (Some node)
    \<and> coll_get ''nodes'' (cm_node_id cap) (nodes t) = Inr (Some node')
    \<and> time_truthy (nd_approved_at node) \<and> nd_state node \<noteq> ''revoked''
    \<and> opt_or (nd_session_generation node) 0 = gen \<and> PROTOCOL_VERSION \<in> set (cm_protocol_versions cap)
    \<and> nd_state node' = (if nd_draining node then ''draining'' else ''online_idle'')
    \<and> nd_capability_manifest node' = capability_to_dict cap \<and> nd_approved_at node' = nd_approved_at node
    \<and> nd_session_generation node' = nd_session_generation node
    \<and> (req \<longrightarrow> peer = Some (cm_node_id cap) \<and> opt_truthy (nd_certificate_fingerprint node)
         \<and> py_lower (opt_or fp []) = py_lower (opt_or (nd_certificate_fingerprint node) []))"
proof -
  have "wpM (connect_node cap tr gen peer fp req) (\<lambda>node' t. \<exists>node. coll_get ''nodes'' (cm_node_id cap) (nodes s) = Inr (Some node)
    \<and> coll_get ''nodes'' (cm_node_id cap) (nodes t) = Inr (Some node')
    \<and> time_truthy (nd_approved_at node) \<and> nd_state node \<noteq> ''revoked''
    \<and> opt_or (nd_session_generation node) 0 = gen \<and> PROTOCOL_VERSION \<in> set (cm_protocol_versions cap)
    \<and> nd_state node' = (if nd_draining node then ''draining'' else ''online_idle'')
    \<and> nd_capability_manifest node' = capability_to_dict cap \<and> nd_approved_at node' = nd_approved_at node
    \<and> nd_session_generation node' = nd_session_generation node
    \<and> (req \<longrightarrow> peer = Some (cm_node_id cap) \<and> opt_truthy (nd_certificate_fingerprint node)
         \<and> py_lower (opt_or fp []) = py_lower (opt_or (nd_certificate_fingerprint node) []))) (\<lambda>_ _. True) s"
    unfolding connect_node_def peer_identity_check_def
    by (intro vcg) (auto simp: coll_get_Inr_Some compare_digest_def opt_truthy_def opt_or_def
        split: if_splits option.splits)
  then show ?thesis using assms by (rule wpM_result)
qed

theorem connect_node_authentic_sample:
  "\<exists>node' t. connect_node sample_capability ''direct'' 1 (Some ''node-1'') (Some ''ab'') True node_state = (Inr node', t)
     \<and> nd_state node' = ''online_idle''"
proof -
  have "wpM (connect_node sample_capability ''direct'' 1 (Some ''node-1'') (Some ''ab'') True) (\<lambda>_ _. True)
     (\<lambda>_ _. False) node_state"
    unfolding connect_node_def peer_identity_check_def
    by (intro vcg) (use node_state_get in \<open>auto simp: sample_capability_def sample_node_def eval_ids time_truthy_def
        opt_truthy_def py_lower_def lower_char_def compare_digest_def isOK_iff\<close>)
  then obtain node' t where h: "connect_node sample_capability ''direct'' 1 (Some ''node-1'') (Some ''ab'') True node_state
      = (Inr node', t)" by (auto simp: wpM_returns)
  have "coll_get ''nodes'' (cm_node_id sample_capability) (nodes node_state) = Inr (Some sample_node)"
    using node_state_get by (simp add: sample_capability_def)
  with connect_node_authentic [OF h] h show ?thesis by (auto simp: sample_node_def)
qed

section \<open>Draining and revocation\<close>

text \<open>Ending the drain of a revoked node puts it back among the idle online nodes: the operation
  does not look at the node's state.\<close>

lemma undrain_revoked_node:
  assumes "coll_get ''nodes'' nid (nodes s) = Inr (Some node)" and "nd_state node = ''revoked''"
  shows "\<exists>node' t. set_draining nid False s = (Inr node', t) \<and> nd_state node' = ''online_idle''
    \<and> nd_revoked_at node' = nd_revoked_at node"
proof -
  have "wpM (set_draining nid False) (\<lambda>node' _. nd_state node' = ''online_idle'' \<and> nd_revoked_at node' = nd_revoked_at node)
      (\<lambda>_ _. False) s"
    unfolding set_draining_def
    by (intro vcg) (use assms in \<open>auto simp: coll_get_Inr_Some NODE_STATES_def\<close>)
  then show ?thesis by (auto simp: wpM_returns)
qed

end
