(* ===== verification/JobProps.thy ===== *)
theory JobProps
  imports JobFacts
begin

text \<open>
  The properties of jobs and leases, on the lemmas of the job component: the fence of a new goal
  revision, idempotent submission, sound leasing to a best node, the conditions under which a
  lease is acknowledged or renewed, and the recovery of an expired lease.
\<close>

section \<open>Goal revisions\<close>

text \<open>C27: a newly authorised goal revision is a fence. It never lies below the recorded one, it
  is recorded, and when it is newer every unfinished job of the goal with an older revision becomes
  stale with a cancellation request, while all other jobs stay as they are.\<close>

theorem goal_revision_fence:
  assumes "keyed ''jobs'' j_job_id (jobs s)" and "coll_all revision_readable (jobs s)"
    and "authorize_goal_revision g r s = (Inr v, t)"
  shows "watermark (py_strip g) r t
    \<and> (\<forall>n. watermark (py_strip g) n s \<longrightarrow> n \<le> r)
    \<and> (\<not> watermark (py_strip g) r s \<longrightarrow>
        (\<forall>k. map_of (jobs t) k = map_option (\<lambda>j. if outdated (py_strip g) r j then stale_job_update (clk s) j else j)
           (map_of (jobs s) k)))"
  using wpM_result(1) [OF authorize_wp [OF assms(1,2)] assms(3)]
  by (fastforce simp: watermark_def not_le)

definition goal_job :: job_rec where
  "goal_job = (new_job sample_env 90 sample_manifest [])\<lparr>j_manifest := [(''goal_id'', JStr ''g-1''), (''goal_revision'', JInt 1)]\<rparr>"

lemma goal_job_simps [simp]: "j_job_id goal_job = ''job-1''" "j_terminal_event_id goal_job = None"
  "j_manifest goal_job = [(''goal_id'', JStr ''g-1''), (''goal_revision'', JInt 1)]"
  by (simp_all add: goal_job_def new_job_def sample_manifest_def)

theorem goal_revision_fence_witness:
  "\<exists>v t. authorize_goal_revision '' g-1'' 2 (sample_state\<lparr>jobs := [(''job-1'', goal_job)]\<rparr>) = (Inr v, t)
     \<and> map_of (jobs t) ''job-1'' = Some (stale_job_update 100 goal_job)"
proof -
  let ?s = "sample_state\<lparr>jobs := [(''job-1'', goal_job)]\<rparr>"
  have k: "keyed ''jobs'' j_job_id (jobs ?s)"
    by (simp add: keyed_def coll_wf_def fkey_def eval_ids)
  have r: "coll_all revision_readable (jobs ?s)"
    by (simp add: coll_all_def revision_readable_def int_or0_def)
  have st: "py_strip '' g-1'' = ''g-1''" by (simp add: eval_ids)
  have "wpM (authorize_goal_revision '' g-1'' 2) (\<lambda>v t. True) (\<lambda>_ _. False) ?s"
    unfolding authorize_goal_revision_def
    by (intro vcg fence_loop_wp) (use k r in \<open>auto simp: st eval_ids coll_get_def\<close>)
  then obtain v t where h: "authorize_goal_revision '' g-1'' 2 ?s = (Inr v, t)" by (auto simp: wpM_returns)
  have "outdated ''g-1'' 2 goal_job" by (simp add: outdated_def job_revision_def int_or0_def opt_truthy_def)
  then show ?thesis using goal_revision_fence [OF k r h] h by (auto simp: st watermark_def)
qed

section \<open>Submission\<close>

lemma submit_goal_check_frame: "keeps (\<lambda>s. (interp s, idempotency s) = c) (submit_goal_check m)"
  unfolding submit_goal_check_def authorize_goal_revision_def fence_job_def
  by (intro keeps_rules keeps_st_put keeps_coord_audit) simp_all

lemma vcg_case_idem [vcg]:
  "(\<And>k j h. i = JobIdem k j h \<Longrightarrow> wpM (f k j h) Q E s) \<Longrightarrow> (\<And>k h a. i = RevalIdem k h a \<Longrightarrow> wpM (g k h a) Q E s) \<Longrightarrow>
   wpM (case i of JobIdem k j h \<Rightarrow> f k j h | RevalIdem k h a \<Rightarrow> g k h a) Q E s"
  by (cases i) auto

text \<open>A submission whose key is known with the hash of the same manifest.\<close>

definition submitted :: "job_manifest \<Rightarrow> job_rec \<Rightarrow> cstate \<Rightarrow> bool" where
  "submitted m job s \<longleftrightarrow> (\<exists>k jid h. coll_get ''idempotency'' (jm_idempotency_key m) (idempotency s) = Inr (Some (JobIdem k jid h))
     \<and> coll_get ''jobs'' jid (jobs s) = Inr (Some job) \<and> j_manifest_hash job = manifest_hash (interp s) m)"

lemma create_job_wp: "wpM (create_job m inputs) (\<lambda>job t. submitted m job t \<and> interp t = interp s) (\<lambda>_ t. True) s"
  unfolding create_job_def
  by (rule vcg_thenM, rule wp_frame [where g = "\<lambda>s. (interp s, idempotency s)", OF submit_goal_check_frame], intro vcg)
    (auto simp: submitted_def coll_get_Inr_Some new_job_def)

lemma submitted_again:
  assumes "submitted m job s"
  shows "submit_job m inputs s = (Inr job, s)"
    and "manifest_hash (interp s) m' \<noteq> manifest_hash (interp s) m \<Longrightarrow> jm_idempotency_key m' = jm_idempotency_key m \<Longrightarrow>
      submit_job m' inputs s = (Inl (CoordinatorError ''idempotency key was reused with a different manifest''), s)"
  using assms by (auto simp: submitted_def submit_job_def monad_defs st_get_def)

lemma submit_job_wp: "wpM (submit_job m inputs) (\<lambda>job t. submitted m job t \<and> interp t = interp s) (\<lambda>_ _. True) s"
  unfolding submit_job_def by (intro vcg create_job_wp) (auto simp: submitted_def)

text \<open>C28: submission is idempotent. After a successful submission, submitting the same manifest
  again returns the job and changes nothing, with whatever payloads; submitting a manifest with
  another hash under the same key is refused and changes nothing.\<close>

theorem submit_job_idempotent:
  assumes "submit_job m inputs s = (Inr job, t)"
  shows "submit_job m inputs' t = (Inr job, t)
    \<and> (jm_idempotency_key m' = jm_idempotency_key m \<and> manifest_hash (interp s) m' \<noteq> manifest_hash (interp s) m \<longrightarrow>
        submit_job m' inputs' t = (Inl (CoordinatorError ''idempotency key was reused with a different manifest''), t))"
  using wpM_result(1) [OF submit_job_wp assms] submitted_again by auto

theorem submit_job_idempotent_witness:
  "\<exists>job t. submit_job sample_manifest [] sample_state = (Inr job, t)
     \<and> submit_job sample_manifest [] t = (Inr job, t) \<and> j_status job = ''queued''"
proof -
  have "wpM (submit_job sample_manifest []) (\<lambda>job t. j_status job = ''queued'') (\<lambda>_ _. False) sample_state"
    unfolding submit_job_def create_job_def submit_goal_check_def
    by (intro vcg) (auto simp: sample_manifest_def coll_get_def eval_ids opt_truthy_def validate_inputs_def
        declared_inputs_def sdict_def new_job_def)
  then obtain job t where "submit_job sample_manifest [] sample_state = (Inr job, t)" "j_status job = ''queued''"
    by (auto simp: wpM_returns)
  with submit_job_idempotent [OF this(1), of "[]"] show ?thesis by blast
qed

section \<open>Leasing\<close>

text \<open>C26: leasing is sound. A lease is only handed to a known, schedulable node whose own
  capabilities support a queued job of the current goal revision, and only if that node is ranked
  first: no eligible node scores better on preferred labels, load, free disk and id. The lease
  carries the next attempt and expires in the future, is unacknowledged, and is stored together
  with the job it leases.\<close>

theorem lease_next_sound:
  assumes "lease_next nid s = (Inr (Some lease), t)"
  shows "\<exists>node cap job m. coll_get ''nodes'' nid (nodes s) = Inr (Some node) \<and> schedulable node
    \<and> capability_from_dict (interp s) (nd_capability_manifest node) = Inr cap
    \<and> job \<in> set (coll_list (jobs s)) \<and> j_status job = ''queued''
    \<and> manifest_from_dict (interp s) (clk s) (j_manifest job) = Inr m
    \<and> fst (manifest_stale m s) = Inr False \<and> supports (interp s) cap (job_requirements m) = Inr True
    \<and> (\<exists>best bcap. best \<in> set (coll_list (nodes s)) \<and> sanitize_text (nd_node_id best) = nid
         \<and> eligible (interp s) m best bcap
         \<and> (\<forall>node'\<in>set (coll_list (nodes s)). \<forall>cap'. eligible (interp s) m node' cap' \<longrightarrow> node_score m bcap \<le> node_score m cap'))
    \<and> jl_job_id lease = jm_job_id m \<and> jl_node_id lease = nid \<and> jl_attempt lease = j_attempt job + 1
    \<and> jl_acknowledged_at lease = None \<and> jl_issued_at lease = clk s \<and> clk s < jl_expires_at lease
    \<and> coll_get ''leases'' (jl_lease_id lease) (leases t) = Inr (Some lease)
    \<and> coll_get ''jobs'' (jm_job_id m) (jobs t) = Inr (Some (leased_job (clk s) nid (jl_lease_id lease) m job))"
proof -
  obtain node cap job where n: "coll_get ''nodes'' nid (nodes s) = Inr (Some node)" "schedulable node"
      "capability_from_dict (interp s) (nd_capability_manifest node) = Inr cap" "job \<in> set (coll_list (jobs s))"
    and g: "lease_granted s nid cap job lease t"
    using wpM_result(1) [OF lease_next_wp assms] by auto
  from g obtain m sel lid where m: "j_status job = ''queued''" "manifest_from_dict (interp s) (clk s) (j_manifest job) = Inr m"
      "fst (manifest_stale m s) = Inr False" "supports (interp s) cap (job_requirements m) = Inr True"
      "sanitize_text (nd_node_id sel) = nid"
      "lease = new_lease (interp s) (clk s) (lease_seconds s) lid nid (j_attempt job + 1) m" "lease_post_init lease = Inr ()"
      "coll_get ''leases'' lid (leases t) = Inr (Some lease)"
      "coll_get ''jobs'' (jm_job_id m) (jobs t) = Inr (Some (leased_job (clk s) nid lid m job))"
    and sel: "choose_among (interp s) m (coll_list (nodes s)) = Inr (Some sel)"
    unfolding lease_granted_def by blast
  have fields: "jl_lease_id lease = lid" "jl_job_id lease = jm_job_id m" "jl_node_id lease = nid"
    "jl_attempt lease = j_attempt job + 1" "jl_acknowledged_at lease = None" "jl_issued_at lease = clk s"
    by (simp_all add: m(6) new_lease_def)
  have "clk s < jl_expires_at lease" using m(7) fields by (auto simp: lease_post_init_def res_iff)
  moreover from choose_among_spec [OF sel] obtain bcap where "sel \<in> set (coll_list (nodes s))" "eligible (interp s) m sel bcap"
    "\<forall>node'\<in>set (coll_list (nodes s)). \<forall>cap'. eligible (interp s) m node' cap' \<longrightarrow> node_score m bcap \<le> node_score m cap'"
    by auto
  ultimately show ?thesis using n m fields by metis
qed

definition ready_state :: cstate where
  "ready_state = sample_state\<lparr>nodes := [(''node-1'', sample_node\<lparr>nd_state := ''online_idle''\<rparr>)],
     jobs := [(''job-1'', new_job sample_env 90 sample_manifest [])]\<rparr>"

lemma sample_capability_roundtrip: "capability_from_dict E (capability_to_dict sample_capability) = Inr sample_capability"
  by (rule capability_roundtrip_aux [OF sample_capability_ok]) (simp_all add: sample_capability_def)

lemma sample_supports: "supports sample_env sample_capability (job_requirements sample_manifest) = Inr True"
  by code_simp

lemma ready_leases: "wpM (lease_next ''node-1'') (\<lambda>r t. r \<noteq> None) (\<lambda>_ _. False) ready_state"
proof -
  have man: "manifest_from_dict sample_env 100 (manifest_to_dict sample_manifest) = Inr sample_manifest"
    by (rule manifest_roundtrip_aux [OF sample_manifest_ok])
  have ns: "manifest_stale sample_manifest s = (Inr False, s)" for s
    by (simp add: manifest_stale_def sample_manifest_def opt_truthy_def retM_def)
  have node: "nd_capability_manifest sample_node = capability_to_dict sample_capability" "nd_node_id sample_node = ''node-1''"
    "\<not> nd_draining sample_node" by (simp_all add: sample_node_def)
  have sched: "schedulable (sample_node\<lparr>nd_state := ''online_idle''\<rparr>)" by (simp add: schedulable_def node)
  have ch: "choose_among sample_env sample_manifest [sample_node\<lparr>nd_state := ''online_idle''\<rparr>]
      = Inr (Some (sample_node\<lparr>nd_state := ''online_idle''\<rparr>))"
    by (simp add: choose_among_def candidate_def sched node sample_capability_roundtrip sample_supports map_filter_simps)
  have san: "sanitize_text ''node-1'' = ''node-1''" by code_simp
  have job: "j_status (new_job sample_env 90 sample_manifest []) = ''queued''"
    "j_manifest (new_job sample_env 90 sample_manifest []) = manifest_to_dict sample_manifest"
    "j_attempt (new_job sample_env 90 sample_manifest []) = 0" by (simp_all add: new_job_def)
  have lease: "lease_post_init (new_lease sample_env 100 60 ''lease-u'' ''node-1'' 1 sample_manifest) = Inr ()"
    by (simp add: lease_post_init_def new_lease_def res_iff sample_manifest_def opt_truthy_def eval_ids
        manifest_hash_def payload_hash_def sha256_hex_format)
  have st: "coll_list (nodes ready_state) = [sample_node\<lparr>nd_state := ''online_idle''\<rparr>]"
    "coll_list (jobs ready_state) = [new_job sample_env 90 sample_manifest []]" "interp ready_state = sample_env"
    "clk ready_state = 100" "lease_seconds ready_state = 60" "uuid_src ready_state = (\<lambda>_. ''u'')"
    "coll_get ''nodes'' ''node-1'' (nodes ready_state) = Inr (Some (sample_node\<lparr>nd_state := ''online_idle''\<rparr>))"
    by (simp_all add: ready_state_def coll_list_def coll_get_def eval_ids)
  have ids: "jm_job_id sample_manifest = ''job-1''" by (simp add: sample_manifest_def)
  show ?thesis
    unfolding lease_next_def
    by (intro vcg)
      (use sched in \<open>auto simp: st node sample_capability_roundtrip lease_order_def wp job man ns wpM_def
         sample_supports choose_node_def ch san grant_lease_def lease ids eval_ids NODE_STATES_def monad_defs
         st_put_def coll_put_def coord_audit_eq new_protocol_id_def lockM_def\<close>)
qed

theorem lease_next_sound_witness:
  "\<exists>lease t. lease_next ''node-1'' ready_state = (Inr (Some lease), t) \<and> jl_node_id lease = ''node-1''
     \<and> jl_attempt lease = 1"
proof -
  obtain lease t where h: "lease_next ''node-1'' ready_state = (Inr (Some lease), t)"
    using ready_leases by (auto simp: wpM_returns)
  obtain job where "job \<in> set (coll_list (jobs ready_state))" "jl_node_id lease = ''node-1''" "jl_attempt lease = j_attempt job + 1"
    using lease_next_sound [OF h] by blast
  then show ?thesis using h by (auto simp: ready_state_def coll_list_def new_job_def)
qed

section \<open>Acknowledgement and renewal\<close>

lemma lease_superseded_keeps [keeps_rules]: "keeps P (lease_superseded l)"
  unfolding lease_superseded_def by (intro keeps_rules)

lemma vcg_lease_superseded [vcg]: "(\<And>e. E e s) \<Longrightarrow> (\<And>b. Q b s) \<Longrightarrow> wpM (lease_superseded l) Q E s"
  by (rule keeps_wp [where P = "\<lambda>t. t = s"]) (auto intro: keeps_rules)

lemma requeue_expired_leases: "keeps (\<lambda>s. leases s = c) (requeue_expired l r)"
  unfolding requeue_expired_def coord_job_def by (intro keeps_rules keeps_st_put keeps_coord_audit) simp_all

lemma vcg_requeue_expired:
  "(\<And>t. leases t = leases s \<Longrightarrow> Q () t) \<Longrightarrow> (\<And>e t. leases t = leases s \<Longrightarrow> E e t) \<Longrightarrow> wpM (requeue_expired l r) Q E s"
  by (rule wp_frame [where g = leases]) (auto intro: requeue_expired_leases)

text \<open>Only the holder of a live, acknowledged lease renews it. A heartbeat that succeeds comes
  from the node and attempt of the lease, for its goal, before the lease expired and after it was
  acknowledged; it moves the expiry to one lease period from now and touches nothing but the
  lease. A heartbeat refused before its write leaves every lease as it was.\<close>

theorem heartbeat_lease_checked:
  assumes "coll_get ''leases'' lid (leases s) = Inr (Some l)" and "heartbeat_lease lid nid att gid grev s = (r, t)"
  shows "(\<forall>l'. r = Inr l' \<longrightarrow> jl_node_id l = nid \<and> jl_attempt l = att \<and> jl_acknowledged_at l \<noteq> None
      \<and> clk s < jl_expires_at l \<and> (opt_truthy (jl_goal_id l) \<longrightarrow> jl_goal_id l = gid)
      \<and> l' = l\<lparr>jl_expires_at := clk s + lease_seconds s\<rparr> \<and> coll_get ''leases'' lid (leases t) = Inr (Some l')
      \<and> (\<exists>ls. t = s\<lparr>leases := ls\<rparr>))
    \<and> (jl_node_id l \<noteq> nid \<or> jl_attempt l \<noteq> att \<or> jl_acknowledged_at l = None \<or> jl_expires_at l \<le> clk s \<longrightarrow>
      (\<exists>e. r = Inl e) \<and> leases t = leases s)"
proof -
  have mism: "\<not> opt_truthy (jl_goal_id l) \<or> jl_goal_id l = gid" if "goal_mismatch l gid grev = Inr False"
    using that by (auto simp: goal_mismatch_def res_iff split: if_splits)
  have "wpM (heartbeat_lease lid nid att gid grev) (\<lambda>l' t. jl_node_id l = nid \<and> jl_attempt l = att \<and> jl_acknowledged_at l \<noteq> None
      \<and> clk s < jl_expires_at l \<and> (opt_truthy (jl_goal_id l) \<longrightarrow> jl_goal_id l = gid)
      \<and> l' = l\<lparr>jl_expires_at := clk s + lease_seconds s\<rparr> \<and> coll_get ''leases'' lid (leases t) = Inr (Some l')
      \<and> (\<exists>ls. t = s\<lparr>leases := ls\<rparr>))
    (\<lambda>e t. jl_node_id l \<noteq> nid \<or> jl_attempt l \<noteq> att \<or> jl_acknowledged_at l = None \<or> jl_expires_at l \<le> clk s \<longrightarrow>
      leases t = leases s) s"
    unfolding heartbeat_lease_def quarantine_lease_submission_def
    by (intro vcg vcg_requeue_expired) (use assms(1) mism in \<open>auto simp: coll_get_Inr_Some\<close>)
  then show ?thesis using assms(2) by (auto simp: wpM_def split: sum.splits)
qed

definition held_lease :: job_lease where
  "held_lease = (new_lease sample_env 90 60 ''l-1'' ''node-1'' 1 sample_manifest)\<lparr>jl_acknowledged_at := Some 95\<rparr>"

theorem heartbeat_lease_checked_sample:
  "\<exists>t. heartbeat_lease ''l-1'' ''node-1'' 1 None JNull (sample_state\<lparr>leases := [(''l-1'', held_lease)]\<rparr>)
     = (Inr (held_lease\<lparr>jl_expires_at := 160\<rparr>), t) \<and> coll_get ''leases'' ''l-1'' (leases t) = Inr (Some (held_lease\<lparr>jl_expires_at := 160\<rparr>))"
proof -
  let ?s = "sample_state\<lparr>leases := [(''l-1'', held_lease)]\<rparr>"
  have g: "coll_get ''leases'' ''l-1'' (leases ?s) = Inr (Some held_lease)" by (simp add: coll_get_def eval_ids)
  have f: "jl_node_id held_lease = ''node-1''" "jl_attempt held_lease = 1" "jl_goal_id held_lease = None"
    "jl_acknowledged_at held_lease = Some 95" "jl_expires_at held_lease = 150"
    by (simp_all add: held_lease_def new_lease_def sample_manifest_def)
  have p: "lease_post_init (held_lease\<lparr>jl_expires_at := 160\<rparr>) = Inr ()"
    by (simp add: lease_post_init_def held_lease_def new_lease_def res_iff sample_manifest_def opt_truthy_def eval_ids
        manifest_hash_def payload_hash_def sha256_hex_format)
  have "wpM (heartbeat_lease ''l-1'' ''node-1'' 1 None JNull) (\<lambda>_ _. True) (\<lambda>_ _. False) ?s"
    unfolding heartbeat_lease_def lease_superseded_def
    by (intro vcg) (use g f p in \<open>auto simp: goal_mismatch_def opt_truthy_def eval_ids\<close>)
  then obtain l' t where h: "heartbeat_lease ''l-1'' ''node-1'' 1 None JNull ?s = (Inr l', t)" by (auto simp: wpM_returns)
  from heartbeat_lease_checked [OF g h] h show ?thesis by auto
qed

text \<open>a lease is acknowledged only by whoever knows the manifest. An acknowledgement succeeds
  only before the lease expires, with the lease's manifest hash and goal; it stamps the lease and
  touches nothing else.\<close>

lemma acknowledge_lease_checked:
  assumes "coll_get ''leases'' lid (leases s) = Inr (Some l)" and "acknowledge_lease lid h gid grev s = (Inr l', t)"
  shows "clk s < jl_expires_at l \<and> h = jl_manifest_hash l \<and> (opt_truthy (jl_goal_id l) \<longrightarrow> jl_goal_id l = gid)
    \<and> l' = l\<lparr>jl_acknowledged_at := Some (clk s)\<rparr> \<and> coll_get ''leases'' lid (leases t) = Inr (Some l')
    \<and> (\<exists>ls. t = s\<lparr>leases := ls\<rparr>)"
proof -
  have mism: "\<not> opt_truthy (jl_goal_id l) \<or> jl_goal_id l = gid" if "goal_mismatch l gid grev = Inr False"
    using that by (auto simp: goal_mismatch_def res_iff split: if_splits)
  have "wpM (acknowledge_lease lid h gid grev) (\<lambda>l' t. clk s < jl_expires_at l \<and> h = jl_manifest_hash l
      \<and> (opt_truthy (jl_goal_id l) \<longrightarrow> jl_goal_id l = gid)
      \<and> l' = l\<lparr>jl_acknowledged_at := Some (clk s)\<rparr> \<and> coll_get ''leases'' lid (leases t) = Inr (Some l')
      \<and> (\<exists>ls. t = s\<lparr>leases := ls\<rparr>)) (\<lambda>_ _. True) s"
    unfolding acknowledge_lease_def quarantine_lease_submission_def
    by (intro vcg vcg_requeue_expired)
      (use assms(1) mism in \<open>auto simp: coll_get_Inr_Some compare_digest_def split: if_splits\<close>)
  from wpM_result(1) [OF this assms(2)] show ?thesis .
qed

lemma acknowledge_lease_checked_sample:
  "\<exists>l' t. acknowledge_lease ''l-1'' (jl_manifest_hash held_lease) None JNull
      (sample_state\<lparr>leases := [(''l-1'', held_lease)]\<rparr>) = (Inr l', t) \<and> jl_acknowledged_at l' = Some 100"
proof -
  let ?s = "sample_state\<lparr>leases := [(''l-1'', held_lease)]\<rparr>"
  have g: "coll_get ''leases'' ''l-1'' (leases ?s) = Inr (Some held_lease)" by (simp add: coll_get_def eval_ids)
  have f: "jl_goal_id held_lease = None" "jl_expires_at held_lease = 150"
    by (simp_all add: held_lease_def new_lease_def sample_manifest_def)
  have p: "lease_post_init (held_lease\<lparr>jl_acknowledged_at := Some 100\<rparr>) = Inr ()"
    by (simp add: lease_post_init_def held_lease_def new_lease_def res_iff sample_manifest_def opt_truthy_def eval_ids
        manifest_hash_def payload_hash_def sha256_hex_format)
  have hex: "is_sha256_hex (jl_manifest_hash held_lease)"
    by (simp add: held_lease_def new_lease_def manifest_hash_def payload_hash_def sha256_hex_format)
  then have "list_all (\<lambda>c. code_pt c < 128) (jl_manifest_hash held_lease)"
    by (auto simp: is_sha256_hex_def list_all_iff is_hex_lower_def is_digit_def Let_def)
  then have cd: "compare_digest (jl_manifest_hash held_lease) (jl_manifest_hash held_lease) = Inr True"
    by (simp add: compare_digest_def)
  have "wpM (acknowledge_lease ''l-1'' (jl_manifest_hash held_lease) None JNull) (\<lambda>_ _. True) (\<lambda>_ _. False) ?s"
    unfolding acknowledge_lease_def lease_superseded_def
    by (intro vcg) (use g f p cd in \<open>auto simp: goal_mismatch_def opt_truthy_def eval_ids\<close>)
  then obtain l' t where h: "acknowledge_lease ''l-1'' (jl_manifest_hash held_lease) None JNull ?s = (Inr l', t)"
    by (auto simp: wpM_returns)
  from acknowledge_lease_checked [OF g h] h show ?thesis by auto
qed

section \<open>Recovery\<close>

lemma manifest_stale_fst: "manifest_stale m s = (Inr b, s) \<Longrightarrow> fst (manifest_stale m s) = Inr b"
  by simp

text \<open>What recovery makes of a job whose lease expired.\<close>

definition recovered_status :: "bool \<Rightarrow> job_manifest \<Rightarrow> int \<Rightarrow> int \<Rightarrow> string" where
  "recovered_status stale m attempt max_attempts = (if stale then ''stale''
     else if retry_safe m \<and> attempt < max_attempts then ''queued'' else ''waiting_review'')"

lemma recover_lease_wp:
  assumes "coll_get ''jobs'' (jl_job_id l) (jobs s) = Inr (Some job)"
  shows "wpM (recover_lease now l) (\<lambda>r t.
      if now < jl_expires_at l \<or> opt_truthy (j_terminal_event_id job) \<or> j_lease_id job \<noteq> Some (jl_lease_id l) then t = s \<and> r = []
      else \<exists>m stale max_attempts. manifest_from_dict (interp s) now (j_manifest job) = Inr m
        \<and> fst (manifest_stale m s) = Inr stale
        \<and> py_int (jor (jget (jm_retry_policy m) ''max_attempts'') (JInt 1)) = Inr max_attempts
        \<and> coll_get ''jobs'' (jm_job_id m) (jobs t) = Inr (Some (job\<lparr>j_node_id := None, j_lease_id := None, j_updated_at := now,
            j_status := recovered_status stale m (j_attempt job) max_attempts\<rparr>)))
     (\<lambda>_ t. jobs t = jobs s) s"
  unfolding recover_lease_def
  by (intro vcg) (use assms in \<open>auto simp: coll_get_Inr_Some recovered_status_def dest!: manifest_stale_fst\<close>)

text \<open>Recovery retries only what is safe to retry. A job whose lease has expired is queued
  again exactly when its goal revision is current, its retry policy allows it and declares no
  external side effects, and attempts are left; otherwise it becomes stale or waits for review. A
  finished job, a job under another lease and a job whose lease is still live are not touched.\<close>

theorem recover_lease_exact:
  assumes "coll_get ''jobs'' (jl_job_id l) (jobs s) = Inr (Some job)" and "recover_lease now l s = (Inr r, t)"
  shows "(now < jl_expires_at l \<or> opt_truthy (j_terminal_event_id job) \<or> j_lease_id job \<noteq> Some (jl_lease_id l) \<longrightarrow> t = s \<and> r = [])
    \<and> (jl_expires_at l \<le> now \<and> \<not> opt_truthy (j_terminal_event_id job) \<and> j_lease_id job = Some (jl_lease_id l) \<longrightarrow>
      (\<exists>m stale max_attempts job'. manifest_from_dict (interp s) now (j_manifest job) = Inr m
        \<and> fst (manifest_stale m s) = Inr stale
        \<and> py_int (jor (jget (jm_retry_policy m) ''max_attempts'') (JInt 1)) = Inr max_attempts
        \<and> coll_get ''jobs'' (jm_job_id m) (jobs t) = Inr (Some job') \<and> j_lease_id job' = None \<and> j_node_id job' = None
        \<and> j_attempt job' = j_attempt job
        \<and> (j_status job' = ''queued'' \<longleftrightarrow> \<not> stale \<and> retry_safe m \<and> j_attempt job < max_attempts)
        \<and> (j_status job' = ''stale'' \<longleftrightarrow> stale) \<and> j_status job' \<in> {''queued'', ''stale'', ''waiting_review''}))"
proof -
  let ?skip = "now < jl_expires_at l \<or> opt_truthy (j_terminal_event_id job) \<or> j_lease_id job \<noteq> Some (jl_lease_id l)"
  note w = wpM_result(1) [OF recover_lease_wp [OF assms(1)] assms(2)]
  show ?thesis
  proof (intro conjI impI, goal_cases)
    case 1
    then show ?case using w by (simp only: if_True)
  next
    case 2
    then show ?case using w by (simp only: if_True)
  next
    case 3
    then have "\<not> ?skip" by auto
    with w obtain m stale max_attempts where m: "manifest_from_dict (interp s) now (j_manifest job) = Inr m"
      "fst (manifest_stale m s) = Inr stale" "py_int (jor (jget (jm_retry_policy m) ''max_attempts'') (JInt 1)) = Inr max_attempts"
      "coll_get ''jobs'' (jm_job_id m) (jobs t) = Inr (Some (job\<lparr>j_node_id := None, j_lease_id := None, j_updated_at := now,
         j_status := recovered_status stale m (j_attempt job) max_attempts\<rparr>))"
      by (simp only: if_False) blast
    show ?case
      by (intro exI conjI, rule m, rule m, rule m, rule m) (auto simp: recovered_status_def)
  qed
qed

definition lost_job :: job_rec where
  "lost_job = (new_job sample_env 90 sample_manifest [])\<lparr>j_status := ''running'', j_attempt := 1, j_lease_id := Some ''l-1'',
     j_node_id := Some ''node-1''\<rparr>"

theorem recover_lease_exact_sample:
  "\<exists>r t job'. recover_lease 200 held_lease (sample_state\<lparr>jobs := [(''job-1'', lost_job)]\<rparr>) = (Inr r, t)
     \<and> coll_get ''jobs'' ''job-1'' (jobs t) = Inr (Some job') \<and> j_status job' = ''waiting_review''"
proof -
  let ?s = "sample_state\<lparr>jobs := [(''job-1'', lost_job)]\<rparr>"
  have f: "jl_job_id held_lease = ''job-1''" "jl_expires_at held_lease = 150" "jl_lease_id held_lease = ''l-1''"
    by (simp_all add: held_lease_def new_lease_def sample_manifest_def)
  have g: "coll_get ''jobs'' (jl_job_id held_lease) (jobs ?s) = Inr (Some lost_job)"
    by (simp add: f coll_get_def eval_ids)
  have j: "j_terminal_event_id lost_job = None" "j_lease_id lost_job = Some ''l-1''" "j_attempt lost_job = 1"
    "j_manifest lost_job = manifest_to_dict sample_manifest"
    by (simp_all add: lost_job_def new_job_def)
  have man: "manifest_from_dict sample_env 200 (manifest_to_dict sample_manifest) = Inr sample_manifest"
    by (rule manifest_roundtrip_aux [OF sample_manifest_ok])
  have m: "jm_job_id sample_manifest = ''job-1''" "jm_retry_policy sample_manifest = []"
    by (simp_all add: sample_manifest_def)
  have ns: "manifest_stale sample_manifest s = (Inr False, s)" for s
    by (simp add: manifest_stale_def sample_manifest_def opt_truthy_def retM_def)
  have "wpM (recover_lease 200 held_lease) (\<lambda>_ _. True) (\<lambda>_ _. False) ?s"
    using g unfolding recover_lease_def
    by (simp add: wp f j opt_truthy_def man m) (simp add: wpM_def ns monad_defs st_put_def coll_put_def eval_ids m coord_audit_eq)
  then obtain r t where h: "recover_lease 200 held_lease ?s = (Inr r, t)" by (auto simp: wpM_returns)
  from recover_lease_exact [OF g h] h show ?thesis
    by (auto simp: f j opt_truthy_def man m ns)
qed

text \<open>The other way back to the queue, \<open>_requeue_expired\<close>, which a late acknowledgement, heartbeat or
  event takes, does not read the retry policy: a job that declares external side effects or has
  no attempts left is queued again.\<close>

lemma requeue_ignores_retry_policy:
  assumes "coll_get ''jobs'' (jl_job_id l) (jobs s) = Inr (Some job)"
    and "\<not> opt_truthy (j_terminal_event_id job)" and "j_lease_id job = Some (jl_lease_id l)"
    and "isOK (safe_record_id (j_job_id job))" and "isOK (lock_name (''jobs-'' @ j_job_id job))"
    and "manifest_from_dict (interp s) (clk s) (j_manifest job) = Inr m" and "manifest_stale m s = (Inr False, s)"
    and "\<not> retry_safe m"
  shows "\<exists>t job'. requeue_expired l reason s = (Inr (), t) \<and> coll_get ''jobs'' (j_job_id job) (jobs t) = Inr (Some job')
     \<and> j_status job' = ''queued''"
proof -
  have "wpM (manifest_stale m) Q E s = Q False s" for Q E using assms(7) by (simp add: wpM_def)
  then have "wpM (requeue_expired l reason) (\<lambda>_ t. \<exists>job'. coll_get ''jobs'' (j_job_id job) (jobs t) = Inr (Some job')
      \<and> j_status job' = ''queued'') (\<lambda>_ _. False) s"
    using assms unfolding requeue_expired_def
    by (simp add: wp) (auto simp: isOK_iff coll_put_def coll_get_Inr_Some wp)
  then show ?thesis by (auto simp: wpM_returns)
qed

section \<open>Reuse of a job id\<close>

text \<open>A submission under a fresh idempotency key replaces whatever job has the same id, also a
  finished one: only the key is looked up.\<close>

lemma submit_replaces_job:
  assumes "submit_job m inputs s = (Inr job, t)" and "coll_get ''idempotency'' (jm_idempotency_key m) (idempotency s) = Inr None"
  shows "\<exists>job. coll_get ''jobs'' (jm_job_id m) (jobs t) = Inr (Some job) \<and> j_status job = ''queued''
    \<and> j_terminal_event_id job = None \<and> j_attempt job = 0"
proof -
  have "wpM (submit_job m inputs) (\<lambda>_ t. \<exists>job. coll_get ''jobs'' (jm_job_id m) (jobs t) = Inr (Some job) \<and> j_status job = ''queued''
    \<and> j_terminal_event_id job = None \<and> j_attempt job = 0) (\<lambda>_ _. True) s"
    unfolding submit_job_def create_job_def
    by (intro vcg wp_frame [where g = "\<lambda>s. (interp s, idempotency s)", OF submit_goal_check_frame])
      (use assms(2) in \<open>auto simp: coll_get_Inr_Some new_job_def\<close>)
  then show ?thesis using wpM_result(1) assms(1) by fast
qed

end
