(* ===== verification/EventFacts.thy ===== *)
theory EventFacts
  imports Events JobProps
begin

text \<open>
  What the event operations guarantee: a job's log never holds two terminal events, an event is
  accepted only from the holder of the current acknowledged lease with a growing sequence number,
  any other is quarantined without touching the job, and a terminal transaction interrupted
  between two of its writes is completed exactly once.
\<close>

section \<open>Serialised events\<close>

lemma plain_event_keys: "\<not> is_secret_key ''state''" "\<not> is_secret_key ''event_id''" "\<not> is_secret_key ''sequence''"
  "\<not> is_secret_key ''attempt''"
  by code_simp+

lemma event_to_dict_get:
  "jget (event_to_dict e) ''state'' = JStr (sanitize_text (je_state e))"
  "jget (event_to_dict e) ''event_id'' = JStr (sanitize_text (je_event_id e))"
  "jget (event_to_dict e) ''sequence'' = JInt (je_sequence e)"
  "jget (event_to_dict e) ''attempt'' = JInt (je_attempt e)"
  by (simp_all add: event_to_dict_def sanitize_obj_get plain_event_keys event_fields_def jhas_def sanitize_public.simps)

lemma event_to_dict_sequence: "with_sequence (event_to_dict e) n = event_to_dict e"
proof -
  have "jhas (event_to_dict e) ''sequence''"
    using event_to_dict_get(3) [of e]
    by (cases "jlookup (event_to_dict e) ''sequence''") (auto simp: jhas_def jget_def)
  then show ?thesis by (simp add: with_sequence_def)
qed

lemma job_states_plain: "list_all (\<lambda>s. sanitize_text s = s) JOB_STATES"
  by code_simp

lemma event_state_plain: "event_post_init e = Inr () \<Longrightarrow> sanitize_text (je_state e) = je_state e"
  using job_states_plain by (auto simp: event_post_init_def res_iff list_all_iff)

lemma event_terminal:
  "event_post_init e = Inr () \<Longrightarrow> is_terminal_event (event_to_dict e) \<longleftrightarrow> je_state e \<in> set TERMINAL_JOB_STATES"
  by (auto simp: is_terminal_event_def event_to_dict_get event_state_plain)

section \<open>At most one terminal event\<close>

definition terminal_entries :: "cstate \<Rightarrow> string \<Rightarrow> jobj list" where
  "terminal_entries s k = filter is_terminal_event (log_entries (events s) k)"

definition one_terminal :: "cstate \<Rightarrow> bool" where
  "one_terminal s \<longleftrightarrow> (\<forall>k. length (terminal_entries s k) \<le> 1)"

lemma one_terminal_frame: "(\<And>c. keeps (\<lambda>s. events s = c) m) \<Longrightarrow> keeps one_terminal m"
  by (rule keeps_via_wp, rule wp_frame [where g = events]) (auto simp: one_terminal_def terminal_entries_def)

lemma log_read_Inr: "log_read n rid l = Inr r \<Longrightarrow> \<exists>k. safe_record_id rid = Inr k \<and> r = log_entries l k"
  by (auto simp: log_read_def bindE_Inr_iff log_entries_def split: if_splits)

lemma update_attempts_events: "keeps (\<lambda>s. events s = c) (update_revalidation_attempt_for_job jid)"
  unfolding update_revalidation_attempt_for_job_def
  by (intro keeps_rules keeps_st_put) simp

lemma one_terminal_append_none:
  assumes "one_terminal s" and "terminal_entries s k = []"
  shows "one_terminal (s\<lparr>events := log_add k e (events s)\<rparr>)"
  using assms by (auto simp: one_terminal_def terminal_entries_def log_entries_add)

lemma one_terminal_append_plain:
  assumes "one_terminal s" and "\<not> is_terminal_event e"
  shows "one_terminal (s\<lparr>events := log_add k e (events s)\<rparr>)"
  using assms by (auto simp: one_terminal_def terminal_entries_def log_entries_add)

lemma one_terminal_jobs [simp]: "one_terminal (s\<lparr>jobs := c\<rparr>) = one_terminal s"
  and one_terminal_tx [simp]: "one_terminal (s\<lparr>terminal_transactions := x\<rparr>) = one_terminal s"
  and one_terminal_audited [simp]: "one_terminal (audited ev pl s) = one_terminal s"
  and one_terminal_audit [simp]: "one_terminal (s\<lparr>audit := a\<rparr>) = one_terminal s"
  and one_terminal_quarantine [simp]: "one_terminal (s\<lparr>quarantine := q\<rparr>) = one_terminal s"
  and one_terminal_grants [simp]: "one_terminal (s\<lparr>grants := g\<rparr>) = one_terminal s"
  by (simp_all add: one_terminal_def terminal_entries_def)

text \<open>With no other terminal event and no entry under its id, a job's log has no terminal event.\<close>

lemma no_terminal_entries:
  assumes "\<not> list_ex (\<lambda>item. is_terminal_event item \<and> jget item ''event_id'' \<noteq> v) xs"
    and "filter (\<lambda>item. jget item ''event_id'' = v) xs = []"
  shows "filter is_terminal_event xs = []"
  using assms by (auto simp: list_ex_iff filter_empty_conv)

lemma apply_one_terminal [keeps_rules]: "keeps one_terminal (apply_terminal_transaction tx)"
proof (rule keeps_via_wp)
  fix s assume I: "one_terminal s"
  have upd: "wpM (update_revalidation_attempt_for_job jid) Q E t"
    if "\<And>u. one_terminal u \<Longrightarrow> Q () u" "\<And>e u. one_terminal u \<Longrightarrow> E e u" "one_terminal t" for jid Q E t
    by (rule keeps_wp [OF one_terminal_frame [OF update_attempts_events]]) (use that in auto)
  show "wpM (apply_terminal_transaction tx) (\<lambda>_. one_terminal) (\<lambda>_. one_terminal) s"
    unfolding apply_terminal_transaction_def
    by (intro vcg upd)
      (use I in \<open>auto simp: terminal_entries_def dest!: log_read_Inr
        intro!: one_terminal_append_none [where s = "s\<lparr>jobs := _\<rparr>", simplified] no_terminal_entries\<close>)
qed

lemma read_only_projections [keeps_rules]:
  "keeps P (terminal_projection job e arts)"
  unfolding terminal_projection_def by (intro keeps_rules)

lemma artifacts_one_terminal: "keeps one_terminal (authoritative_terminal_artifacts job e)"
  unfolding authoritative_terminal_artifacts_def check_artifact_def
  by (intro keeps_rules keeps_st_append) simp

lemma commit_terminal_one_terminal: "keeps one_terminal (commit_terminal_event job ser locked)"
  unfolding commit_terminal_event_def by (intro keeps_rules keeps_st_put) simp

lemma revoke_grant_one_terminal: "keeps one_terminal (revoke_model_grant g)"
  unfolding revoke_model_grant_def get_grant_rec_def by (intro keeps_rules keeps_st_put keeps_coord_audit) simp_all

lemma append_plain_one_terminal:
  "\<not> is_terminal_event (event_to_dict e) \<Longrightarrow> keeps one_terminal (append_event j (with_sequence (event_to_dict e)))"
  by (rule keeps_st_append) (auto simp: event_to_dict_sequence log_append_Inr intro: one_terminal_append_plain)

lemma commit_event_one_terminal:
  "event_post_init e = Inr () \<Longrightarrow> keeps one_terminal (commit_event job e locked)"
  unfolding commit_event_def
  by (intro keeps_rules artifacts_one_terminal commit_terminal_one_terminal revoke_grant_one_terminal
      append_plain_one_terminal keeps_st_put keeps_coord_audit) (auto simp: event_terminal)

lemma requeue_one_terminal: "keeps one_terminal (requeue_expired l r)"
  unfolding requeue_expired_def by (intro keeps_rules keeps_st_put keeps_coord_audit) simp_all

lemma event_checks_one_terminal:
  "keeps one_terminal (event_goal_check job e)" "keeps one_terminal (event_owner_check job e)"
  "keeps one_terminal (event_lease_check e)"
  unfolding event_goal_check_def event_owner_check_def event_lease_check_def quarantine_event_def
    quarantine_lease_submission_def
  by (intro keeps_rules keeps_st_append keeps_coord_audit requeue_one_terminal; simp)+

lemma recover_one_terminal:
  "keeps one_terminal (recover_terminal_transaction i j b)" "keeps one_terminal (recover_terminal_transactions_for_job j b)"
  "keeps one_terminal recover_terminal_transactions"
  unfolding recover_terminal_transaction_def recover_terminal_transactions_for_job_def recover_terminal_transactions_def
  by (intro keeps_rules)+

lemma record_event_one_terminal:
  "event_post_init e = Inr () \<Longrightarrow> keeps one_terminal (record_event e)"
  unfolding record_event_def record_event_locked_def
  by (intro keeps_rules recover_one_terminal event_checks_one_terminal commit_event_one_terminal)

text \<open>C1: a job finishes once. In every log at most one entry is a terminal event, and recording
  any valid event, recovering the interrupted transactions of a job and recovering all of them
  keep it so, whatever they return or raise.\<close>

theorem terminal_event_unique:
  assumes "event_post_init e = Inr ()"
  shows "keeps one_terminal (record_event e) \<and> keeps one_terminal recover_terminal_transactions
    \<and> keeps one_terminal (recover_terminal_transactions_for_job j b)"
  using assms by (simp add: record_event_one_terminal recover_one_terminal)

definition sample_event :: job_event where
  "sample_event = \<lparr>je_event_id = ''ev-1'', je_job_id = ''job-1'', je_run_id = ''run-1'', je_node_id = ''node-1'',
     je_lease_id = ''l-1'', je_attempt = 1, je_sequence = 1, je_state = ''running'', je_goal_id = None,
     je_goal_revision = JNull, je_reason_category = None, je_payload = [], je_created_at = 100,
     je_schema_version = EVENT_SCHEMA\<rparr>"

lemma sample_event_ok: "event_post_init sample_event = Inr ()" "event_post_init (sample_event\<lparr>je_state := ''failed''\<rparr>) = Inr ()"
  by code_simp+

theorem terminal_event_unique_witness:
  "one_terminal (snd (record_event (sample_event\<lparr>je_state := ''failed''\<rparr>) sample_state))"
  using terminal_event_unique [OF sample_event_ok(2)] by (auto simp: keeps_def one_terminal_def terminal_entries_def log_entries_def)

section \<open>Acceptance\<close>

text \<open>The goal an event names is the job's, at the revision the host has authorised.\<close>

definition goal_current :: "job_rec \<Rightarrow> job_event \<Rightarrow> cstate \<Rightarrow> bool" where
  "goal_current job e s \<longleftrightarrow> (truthy (jget (j_manifest job) ''goal_id'') \<longrightarrow>
     py_eq (jopt (je_goal_id e)) (jget (j_manifest job) ''goal_id'')
     \<and> (\<exists>r. fst (authorized_goal_revision (j_manifest job) s) = Inr r \<and> py_eq (je_goal_revision e) (JInt r)))"

text \<open>The stored transactions are all committed, and one under the event's own id has its event
  in the job's log.\<close>

definition settled :: "job_event \<Rightarrow> cstate \<Rightarrow> bool" where
  "settled e s \<longleftrightarrow> list_all (\<lambda>tx. tx_status tx = ''committed'') (coll_list (terminal_transactions s))
     \<and> (\<forall>tx log. coll_get ''terminal_transactions'' (je_event_id e) (terminal_transactions s) = Inr (Some tx)
          \<and> log_read ''events'' (je_job_id e) (events s) = Inr log \<longrightarrow>
          (\<exists>item\<in>set log. jget item ''event_id'' = JStr (je_event_id e)))"

lemma forM_noop: "(\<And>x. x \<in> set xs \<Longrightarrow> f x s = (Inr (), s)) \<Longrightarrow> forM xs f s = (Inr (), s)"
  by (induction xs) (auto simp: monad_defs)

lemma vcg_recover_for_job_settled:
  assumes "settled e s" "\<And>e'. E e' s" "Q () s"
  shows "wpM (recover_terminal_transactions_for_job j b) Q E s"
proof -
  have "forM (coll_list (terminal_transactions s)) (\<lambda>tx. if tx_job_id tx \<noteq> j \<or> tx_status tx = ''committed'' then retM () else
       thenM (lockM (''terminal-event-'' @ tx_event_id tx)) (apply_terminal_transaction tx)) s = (Inr (), s)"
    using assms(1) by (intro forM_noop) (auto simp: settled_def list_all_iff retM_def)
  then show ?thesis
    unfolding recover_terminal_transactions_for_job_def
    by (intro vcg) (use assms in \<open>simp_all add: wpM_def\<close>)
qed

lemma settled_committed:
  "settled e s \<Longrightarrow> coll_get ''terminal_transactions'' i (terminal_transactions s) = Inr (Some tx) \<Longrightarrow> tx_status tx = ''committed''"
  by (auto simp: settled_def list_all_iff coll_list_def coll_get_Inr_Some dest!: map_of_SomeD)

lemma vcg_recover_settled:
  assumes "settled e s" "\<And>e'. E e' s" "Q () s"
  shows "wpM (recover_terminal_transaction i j b) Q E s"
  unfolding recover_terminal_transaction_def
  by (intro vcg) (use assms settled_committed in auto)

lemma vcg_goal_check:
  assumes "\<And>e' t. E e' t" "goal_current job e s \<Longrightarrow> Q () s"
  shows "wpM (event_goal_check job e) Q E s"
proof -
  have "keeps (\<lambda>t. t = s) (authorized_goal_revision (j_manifest job))" by (rule authorized_goal_revision_keeps)
  then have "snd (authorized_goal_revision (j_manifest job) s) = s" by (auto dest: keepsD)
  then have auth: "wpM (authorized_goal_revision (j_manifest job)) Q' E s" if "\<And>r. fst (authorized_goal_revision (j_manifest job) s) = Inr r \<Longrightarrow> Q' r s" for Q'
    using that assms(1) by (cases "authorized_goal_revision (j_manifest job) s") (auto simp: wpM_def split: sum.splits)
  show ?thesis
    unfolding event_goal_check_def quarantine_event_def
    by (intro vcg auth) (use assms in \<open>auto simp: goal_current_def\<close>)
qed

lemma vcg_owner_check:
  assumes "\<And>e' t. E e' t" "owns_lease job e \<Longrightarrow> Q () s"
  shows "wpM (event_owner_check job e) Q E s"
  unfolding event_owner_check_def quarantine_event_def by (intro vcg) (use assms in auto)

definition lease_live :: "job_event \<Rightarrow> cstate \<Rightarrow> bool" where
  "lease_live e s \<longleftrightarrow> (\<exists>l. coll_get ''leases'' (je_lease_id e) (leases s) = Inr (Some l)
     \<and> jl_acknowledged_at l \<noteq> None \<and> clk s < jl_expires_at l)"

lemma vcg_lease_check:
  assumes "\<And>e' t. E e' t" "lease_live e s \<Longrightarrow> Q () s"
  shows "wpM (event_lease_check e) Q E s"
  unfolding event_lease_check_def quarantine_lease_submission_def
  by (intro vcg vcg_requeue_expired) (use assms in \<open>auto simp: lease_live_def not_le\<close>)

lemma vcg_artifacts:
  assumes "\<And>e' t. E e' t" "\<And>arts. Q arts s"
  shows "wpM (authoritative_terminal_artifacts job e) Q E s"
proof -
  have loop: "wpM (forM arts (check_artifact e)) Q' E s" if "Q' () s" for arts Q'
    by (rule wpM_forM [where I = "\<lambda>t. t = s"])
      (use assms(1) that in \<open>auto simp: check_artifact_def intro!: vcg\<close>)
  show ?thesis
    unfolding authoritative_terminal_artifacts_def by (intro vcg loop) (use assms in auto)
qed

lemma vcg_terminal_projection:
  assumes "\<And>e' t. E e' t"
    and "\<And>j ids. j_terminal_event_id j = Some (je_event_id e) \<Longrightarrow> j_status j = j_status job \<Longrightarrow>
       j_job_id j = j_job_id job \<Longrightarrow> Q (j, ids) s"
  shows "wpM (terminal_projection job e arts) Q E s"
  unfolding terminal_projection_def by (intro vcg) (use assms in auto)

lemma vcg_update_attempts:
  assumes "\<And>e' t. E e' t" "\<And>t. events t = events s \<Longrightarrow> jobs t = jobs s \<Longrightarrow> Q () t"
  shows "wpM (update_revalidation_attempt_for_job j) Q E s"
proof (rule wp_frame [where g = "\<lambda>s. (events s, jobs s)"])
  show "keeps (\<lambda>s. (events s, jobs s) = c) (update_revalidation_attempt_for_job j)" for c
    unfolding update_revalidation_attempt_for_job_def by (intro keeps_rules keeps_st_put) simp
qed (use assms in auto)

lemma vcg_revoke_loop:
  assumes "\<And>e' t. E e' t" "\<And>t. events t = events s \<Longrightarrow> jobs t = jobs s \<Longrightarrow> Q () t"
  shows "wpM (forM ids (\<lambda>i. thenM (revoke_model_grant i) (retM ()))) Q E s"
proof (rule wp_frame [where g = "\<lambda>s. (events s, jobs s)"])
  show "keeps (\<lambda>s. (events s, jobs s) = c) (forM ids (\<lambda>i. thenM (revoke_model_grant i) (retM ())))" for c
    unfolding revoke_model_grant_def get_grant_rec_def by (intro keeps_rules keeps_st_put keeps_coord_audit) simp_all
qed (use assms in auto)

text \<open>The log of a job after one more entry.\<close>

definition extended :: "string \<Rightarrow> jobj \<Rightarrow> cstate \<Rightarrow> cstate \<Rightarrow> bool" where
  "extended k item s t \<longleftrightarrow> (\<forall>k'. log_entries (events t) k' = log_entries (events s) k' @ (if k' = k then [item] else []))"

lemma apply_fresh_wp:
  assumes "safe_record_id (tx_job_id tx) = Inr k"
    and "filter (\<lambda>item. jget item ''event_id'' = JStr (tx_event_id tx)) (log_entries (events s) k) = []"
    and "\<And>n. with_sequence (tx_event tx) n = tx_event tx"
  shows "wpM (apply_terminal_transaction tx) (\<lambda>_ t. extended k (tx_event tx) s t \<and> map_of (jobs t) k = Some (tx_job tx))
     (\<lambda>_ _. True) s"
  unfolding apply_terminal_transaction_def
  by (intro vcg vcg_update_attempts)
    (use assms in \<open>auto simp: extended_def log_entries_add dest!: log_read_Inr\<close>)

lemma commit_terminal_wp:
  assumes "safe_record_id (j_job_id job) = Inr k"
    and "coll_get ''terminal_transactions'' (je_event_id e) (terminal_transactions s) = Inr None"
    and "sanitize_text (je_event_id e) = je_event_id e"
    and "filter (\<lambda>item. jget item ''event_id'' = JStr (je_event_id e)) (log_entries (events s) k) = []"
  shows "wpM (commit_terminal_event job (event_to_dict e) b) (\<lambda>_ t. extended k (event_to_dict e) s t
     \<and> map_of (jobs t) k = Some job) (\<lambda>_ _. True) s"
proof -
  have ap: "wpM (apply_terminal_transaction tx) (\<lambda>_ t. extended k (event_to_dict e) s t \<and> map_of (jobs t) k = Some job)
     (\<lambda>_ _. True) u"
    if "tx_event_id tx = je_event_id e" "tx_job_id tx = j_job_id job" "tx_job tx = job" "tx_event tx = event_to_dict e"
      "events u = events s" for tx u
    by (rule wpM_conseq [OF apply_fresh_wp [of tx k u]])
      (use assms that in \<open>auto simp: event_to_dict_sequence extended_def\<close>)
  show ?thesis
    unfolding commit_terminal_event_def
    by (intro vcg ap) (use assms in \<open>auto simp: event_to_dict_get\<close>)
qed

definition accepted :: "job_event \<Rightarrow> cstate \<Rightarrow> cstate \<Rightarrow> bool" where
  "accepted e s t \<longleftrightarrow> (\<exists>job k current job'. safe_record_id (je_job_id e) = Inr k \<and> map_of (jobs s) k = Some job
     \<and> owns_lease job e \<and> lease_live e s \<and> goal_current job e s \<and> \<not> opt_truthy (j_terminal_event_id job)
     \<and> current_sequence (je_attempt e) (log_entries (events s) k) = Inr current \<and> current < je_sequence e
     \<and> extended k (event_to_dict e) s t \<and> map_of (jobs t) k = Some job' \<and> j_status job' = je_state e
     \<and> (je_state e \<in> set TERMINAL_JOB_STATES \<longrightarrow> j_terminal_event_id job' = Some (je_event_id e)))"

lemma commit_event_wp:
  assumes "keyed ''jobs'' j_job_id (jobs s)" and "settled e s" and "sanitize_text (je_event_id e) = je_event_id e"
    and "safe_record_id (je_job_id e) = Inr k" and "map_of (jobs s) k = Some job"
    and "log_read ''events'' (je_job_id e) (events s) = Inr evs"
    and "List.find (\<lambda>item. jget item ''event_id'' = JStr (je_event_id e)) evs = None"
  shows "wpM (commit_event job e b) (\<lambda>_ t. extended k (event_to_dict e) s t \<and> (\<exists>job'. map_of (jobs t) k = Some job'
     \<and> j_status job' = je_state e \<and> (je_state e \<in> set TERMINAL_JOB_STATES \<longrightarrow> j_terminal_event_id job' = Some (je_event_id e))))
     (\<lambda>_ _. True) s"
proof -
  have evs: "evs = log_entries (events s) k" using log_read_Inr [OF assms(6)] assms(4) by auto
  have fresh: "filter (\<lambda>item. jget item ''event_id'' = JStr (je_event_id e)) (log_entries (events s) k) = []"
    using assms(7) evs by (auto simp: find_None_all filter_empty_conv)
  have jid: "safe_record_id (j_job_id job) = Inr k" using keyed_lookup [OF assms(1,5)] .
  have tx: "coll_get ''terminal_transactions'' (je_event_id e) (terminal_transactions s) \<noteq> Inr (Some x)" for x
    using assms(2,6,7) by (auto simp: settled_def find_None_all)
  have com: "wpM (commit_terminal_event j (event_to_dict e) b) Q (\<lambda>_ _. True) s"
    if "j_job_id j = j_job_id job" "\<And>t. extended k (event_to_dict e) s t \<Longrightarrow> map_of (jobs t) k = Some j \<Longrightarrow> Q () t" for j Q
  proof (cases "coll_get ''terminal_transactions'' (je_event_id e) (terminal_transactions s) = Inr None")
    case True
    show ?thesis
      by (rule wpM_conseq [OF commit_terminal_wp [OF _ True assms(3) fresh]]) (use that jid in auto)
  next
    case False
    then obtain err where "coll_get ''terminal_transactions'' (je_event_id e) (terminal_transactions s) = Inl err"
      using tx by (metis option.exhaust sumE)
    then show ?thesis
      unfolding commit_terminal_event_def by (intro vcg) (auto simp: event_to_dict_get assms(3))
  qed
  show ?thesis
    unfolding commit_event_def
    by (intro vcg vcg_artifacts vcg_terminal_projection com vcg_revoke_loop)
      (use assms(4) in \<open>auto simp: extended_def log_entries_add event_to_dict_sequence\<close>)
qed

lemma record_event_locked_wp:
  assumes "keyed ''jobs'' j_job_id (jobs s)" and "settled e s" and "sanitize_text (je_event_id e) = je_event_id e"
  shows "wpM (record_event_locked e b) (\<lambda>_ t. (t = s \<and> (\<exists>job. coll_get ''jobs'' (je_job_id e) (jobs s) = Inr (Some job)
     \<and> j_terminal_event_id job = Some (je_event_id e))) \<or> accepted e s t) (\<lambda>_ _. True) s"
proof -
  have com: "wpM (commit_event job e b) (\<lambda>_ t. (t = s \<and> (\<exists>job. coll_get ''jobs'' (je_job_id e) (jobs s) = Inr (Some job)
     \<and> j_terminal_event_id job = Some (je_event_id e))) \<or> accepted e s t) (\<lambda>_ _. True) s"
    if h: "coll_get ''jobs'' (je_job_id e) (jobs s) = Inr (Some job)" "goal_current job e s" "owns_lease job e"
      "log_read ''events'' (je_job_id e) (events s) = Inr evs"
      "List.find (\<lambda>item. jget item ''event_id'' = JStr (je_event_id e)) evs = None" "lease_live e s"
      "current_sequence (je_attempt e) evs = Inr cur" "cur < je_sequence e" "\<not> opt_truthy (j_terminal_event_id job)" for job evs cur
  proof -
    obtain k where k: "safe_record_id (je_job_id e) = Inr k" "map_of (jobs s) k = Some job"
      using h(1) by (auto simp: coll_get_Inr_Some)
    have evs: "evs = log_entries (events s) k" using log_read_Inr [OF h(4)] k by auto
    show ?thesis
      by (rule wpM_conseq [OF commit_event_wp [OF assms k h(4,5)]]) (use h k evs in \<open>auto simp: accepted_def\<close>)
  qed
  show ?thesis
    unfolding record_event_locked_def
    by (intro vcg vcg_recover_settled [OF assms(2)] vcg_goal_check vcg_owner_check vcg_lease_check com) auto
qed

text \<open>C4: an event changes a job only with full authority. When no transaction is pending, a
  recorded event is either the repetition of the job's committed terminal event, which changes
  nothing, or it comes from the node and attempt holding the job's current lease, acknowledged and
  not expired, names the authorised goal revision, has a larger sequence number than every event
  of the attempt, and the job is not finished; then the log of the job, and no other log, grows by
  exactly this event, and the job takes its state, a terminal one together with the event's id.\<close>

theorem event_acceptance:
  assumes "keyed ''jobs'' j_job_id (jobs s)" and "settled e s" and "sanitize_text (je_event_id e) = je_event_id e"
    and "record_event e s = (Inr out, t)"
  shows "(t = s \<and> (\<exists>job. coll_get ''jobs'' (je_job_id e) (jobs s) = Inr (Some job) \<and> j_terminal_event_id job = Some (je_event_id e)))
    \<or> accepted e s t"
proof -
  have "wpM (record_event e) (\<lambda>_ t. (t = s \<and> (\<exists>job. coll_get ''jobs'' (je_job_id e) (jobs s) = Inr (Some job)
     \<and> j_terminal_event_id job = Some (je_event_id e))) \<or> accepted e s t) (\<lambda>_ _. True) s"
    unfolding record_event_def
    by (intro vcg vcg_recover_for_job_settled [OF assms(2)] record_event_locked_wp [OF assms(1-3)]) auto
  from wpM_result(1) [OF this assms(4)] show ?thesis .
qed

definition running_state :: cstate where
  "running_state = sample_state\<lparr>jobs := [(''job-1'', lost_job)], leases := [(''l-1'', held_lease)]\<rparr>"

lemma running_state_simps [simp]: "jobs running_state = [(''job-1'', lost_job)]" "leases running_state = [(''l-1'', held_lease)]"
  "events running_state = []" "terminal_transactions running_state = []" "clk running_state = 100"
  "quarantine running_state = []" "interp running_state = sample_env"
  by (simp_all add: running_state_def)

lemma lost_job_simps [simp]: "j_job_id lost_job = ''job-1''" "j_terminal_event_id lost_job = None" "j_lease_id lost_job = Some ''l-1''"
  "j_node_id lost_job = Some ''node-1''" "j_attempt lost_job = 1" "j_manifest lost_job = manifest_to_dict sample_manifest"
  by (simp_all add: lost_job_def new_job_def sample_manifest_def)

lemma sample_no_goal: "jget (manifest_to_dict sample_manifest) ''goal_id'' = JNull"
  by code_simp

lemma held_lease_simps [simp]: "jl_acknowledged_at held_lease = Some 95" "jl_expires_at held_lease = 150"
  by (simp_all add: held_lease_def new_lease_def)

lemma running_state_ok: "keyed ''jobs'' j_job_id (jobs running_state)" "settled e running_state"
  by (simp_all add: keyed_def coll_wf_def fkey_def eval_ids settled_def coll_list_def coll_get_Inr_Some)

lemma sample_event_simps [simp]: "je_event_id sample_event = ''ev-1''" "je_job_id sample_event = ''job-1''"
  "je_lease_id sample_event = ''l-1''" "je_node_id sample_event = ''node-1''" "je_attempt sample_event = 1"
  "je_sequence sample_event = 1" "je_state sample_event = ''running''" "je_reason_category sample_event = None"
  by (simp_all add: sample_event_def)

lemma running_accepts: "wpM (record_event sample_event) (\<lambda>_ _. True) (\<lambda>_ _. False) running_state"
  unfolding record_event_def record_event_locked_def recover_terminal_transaction_def event_goal_check_def
    event_owner_check_def event_lease_check_def commit_event_def
  by (intro vcg) (auto simp: coll_get_def eval_ids sample_no_goal owns_lease_def log_read_def current_sequence_def
      opt_truthy_def TERMINAL_JOB_STATES_def)

theorem event_acceptance_witness:
  "\<exists>out t. record_event sample_event running_state = (Inr out, t)
     \<and> log_entries (events t) ''job-1'' = [event_to_dict sample_event]"
proof -
  obtain out t where h: "record_event sample_event running_state = (Inr out, t)"
    using running_accepts by (auto simp: wpM_returns)
  have "sanitize_text (je_event_id sample_event) = je_event_id sample_event" by code_simp
  from event_acceptance [OF running_state_ok this h] h show ?thesis
    by (auto simp: accepted_def extended_def coll_get_Inr_Some eval_ids log_entries_def)
qed

section \<open>Quarantine\<close>

text \<open>The state with one more quarantined entry of a job, and possibly an audit entry.\<close>

definition quarantined :: "job_event \<Rightarrow> cstate \<Rightarrow> cstate \<Rightarrow> bool" where
  "quarantined e s t \<longleftrightarrow> (\<exists>k item q a. safe_record_id (je_job_id e) = Inr k \<and> t = s\<lparr>quarantine := q, audit := a\<rparr>
     \<and> log_entries q k = log_entries (quarantine s) k @ [item] \<and> jget item ''event'' = JObj (event_to_dict e))"

lemma with_sequence_event [simp]: "jget (with_sequence o' n) ''event'' = jget o' ''event''"
  by (simp add: with_sequence_def)

lemma audited_state: "\<exists>a. audited ev pl s = s\<lparr>audit := a\<rparr>"
  by (auto simp: audited_def audit_with_def)

lemma quarantinedI:
  assumes "safe_record_id (je_job_id e) = Inr k" "jget item ''event'' = JObj (event_to_dict e)"
  shows "quarantined e s (s\<lparr>quarantine := log_add k item (quarantine s), audit := a\<rparr>)"
proof -
  have "log_entries (log_add k item (quarantine s)) k = log_entries (quarantine s) k @ [item]"
    by (simp add: log_entries_add)
  with assms show ?thesis unfolding quarantined_def by blast
qed

lemma quarantined_entry:
  assumes "safe_record_id (je_job_id e) = Inr k" "jget item ''event'' = JObj (event_to_dict e)"
  shows "quarantined e s (s\<lparr>quarantine := log_add k item (quarantine s)\<rparr>)"
    and "quarantined e s (audited ev pl (s\<lparr>quarantine := log_add k item (quarantine s)\<rparr>))"
proof -
  show "quarantined e s (s\<lparr>quarantine := log_add k item (quarantine s)\<rparr>)"
    using quarantinedI [OF assms, of s "audit s"] by simp
  obtain a where "audited ev pl (s\<lparr>quarantine := log_add k item (quarantine s)\<rparr>)
      = s\<lparr>quarantine := log_add k item (quarantine s)\<rparr>\<lparr>audit := a\<rparr>"
    using audited_state by blast
  then show "quarantined e s (audited ev pl (s\<lparr>quarantine := log_add k item (quarantine s)\<rparr>))"
    using quarantinedI [OF assms, of s a] by simp
qed

lemma goal_check_exact:
  assumes "\<And>e'. E e' s" "\<And>e' t. quarantined e s t \<Longrightarrow> E e' t" "goal_current job e s \<Longrightarrow> Q () s"
  shows "wpM (event_goal_check job e) Q E s"
proof -
  have "keeps (\<lambda>t. t = s) (authorized_goal_revision (j_manifest job))" by (rule authorized_goal_revision_keeps)
  then have "snd (authorized_goal_revision (j_manifest job) s) = s" by (auto dest: keepsD)
  then have auth: "wpM (authorized_goal_revision (j_manifest job)) Q' E s" if "\<And>r. fst (authorized_goal_revision (j_manifest job) s) = Inr r \<Longrightarrow> Q' r s" for Q'
    using that assms(1) by (cases "authorized_goal_revision (j_manifest job) s") (auto simp: wpM_def split: sum.splits)
  show ?thesis
    unfolding event_goal_check_def quarantine_event_def
    by (intro vcg auth) (use assms in \<open>auto simp: goal_current_def intro!: assms(2) quarantined_entry\<close>)
qed

lemma owner_check_exact:
  assumes "\<And>e'. E e' s" "\<And>e' t. quarantined e s t \<Longrightarrow> E e' t" "owns_lease job e \<Longrightarrow> Q () s"
  shows "wpM (event_owner_check job e) Q E s"
  unfolding event_owner_check_def quarantine_event_def
  by (intro vcg) (use assms in \<open>auto intro!: assms(2) quarantined_entry\<close>)

text \<open>C5: a stale or foreign event cannot touch a job. When no transaction is pending, an event
  that names another goal revision than the authorised one, or comes from any other than the node
  and attempt of the job's current lease, is refused; the state stays as it was, except that the
  event may be kept in the quarantine log of the job and an audit entry be written.\<close>

theorem stale_event_quarantined:
  assumes "settled e s" and "coll_get ''jobs'' (je_job_id e) (jobs s) = Inr (Some job)"
    and "\<not> (goal_current job e s \<and> owns_lease job e)"
  shows "\<exists>err t. record_event e s = (Inl err, t) \<and> (t = s \<or> quarantined e s t)"
proof -
  have "wpM (record_event_locked e b) (\<lambda>_ _. False) (\<lambda>_ t. t = s \<or> quarantined e s t) s" for b
    unfolding record_event_locked_def wpM_thenM wpM_bindM
    by (intro vcg vcg_recover_settled [OF assms(1)] goal_check_exact owner_check_exact) (use assms in auto)
  then have "wpM (record_event e) (\<lambda>_ _. False) (\<lambda>_ t. t = s \<or> quarantined e s t) s"
    unfolding record_event_def
    by (intro vcg vcg_recover_for_job_settled [OF assms(1)]) auto
  then show ?thesis by (auto simp: wpM_raises)
qed

theorem stale_event_quarantined_witness:
  "\<exists>err t. record_event (sample_event\<lparr>je_attempt := 2\<rparr>) running_state = (Inl err, t) \<and> jobs t = jobs running_state"
proof -
  have "coll_get ''jobs'' (je_job_id (sample_event\<lparr>je_attempt := 2\<rparr>)) (jobs running_state) = Inr (Some lost_job)"
    by (simp add: coll_get_def eval_ids)
  moreover have "\<not> (goal_current lost_job (sample_event\<lparr>je_attempt := 2\<rparr>) running_state
      \<and> owns_lease lost_job (sample_event\<lparr>je_attempt := 2\<rparr>))" by (simp add: owns_lease_def)
  ultimately obtain err t where "record_event (sample_event\<lparr>je_attempt := 2\<rparr>) running_state = (Inl err, t)"
    "t = running_state \<or> quarantined (sample_event\<lparr>je_attempt := 2\<rparr>) running_state t"
    using stale_event_quarantined [OF running_state_ok(2)] by blast
  then show ?thesis by (auto simp: quarantined_def)
qed

end
