(* ===== verification/TerminalRecovery.thy ===== *)
theory TerminalRecovery
  imports EventFacts
begin

text \<open>
  Crash recovery of terminal transactions. A terminal event is made durable by a transaction
  record, then the job, the log entry, the revalidation attempts and the commit mark. A crash can
  fall between any two of these writes. Applying the stored transaction again from any such state
  gives the same job and the same log as a run without a crash.
\<close>

section \<open>States a crash can leave\<close>

text \<open>What \<open>_commit_terminal_event\<close> prepares.\<close>

definition prepared :: "tx_rec \<Rightarrow> bool" where
  "prepared tx \<longleftrightarrow> j_terminal_event_id (tx_job tx) = Some (tx_event_id tx)
     \<and> jget (tx_event tx) ''event_id'' = JStr (tx_event_id tx) \<and> jhas (tx_event tx) ''sequence''"

definition storable :: "string \<Rightarrow> tx_rec \<Rightarrow> bool" where
  "storable k tx \<longleftrightarrow> safe_record_id (tx_job_id tx) = Inr k \<and> isOK (lock_name (''jobs-'' @ tx_job_id tx))
     \<and> isOK (lock_name (''events-'' @ tx_job_id tx)) \<and> isOK (safe_record_id (tx_event_id tx))
     \<and> isOK (lock_name (''terminal_transactions-'' @ tx_event_id tx))"

text \<open>The job is open and its log has neither a terminal event nor an entry under the id.\<close>

definition applicable :: "string \<Rightarrow> tx_rec \<Rightarrow> cstate \<Rightarrow> bool" where
  "applicable k tx s \<longleftrightarrow> (\<exists>job. map_of (jobs s) k = Some job \<and> \<not> opt_truthy (j_terminal_event_id job))
     \<and> terminal_entries s k = []
     \<and> list_all (\<lambda>item. jget item ''event_id'' \<noteq> JStr (tx_event_id tx)) (log_entries (events s) k)"

text \<open>Every attempt is filed under its id and names jobs that exist.\<close>

definition attempts_ok :: "cstate \<Rightarrow> bool" where
  "attempts_ok s \<longleftrightarrow> keyed ''revalidation_attempts'' ra_attempt_id (revalidation_attempts s)
     \<and> coll_all (\<lambda>a. \<forall>j\<in>set (ra_job_ids a). \<exists>job. coll_get ''jobs'' j (jobs s) = Inr (Some job)) (revalidation_attempts s)"

text \<open>Before the first write, after the job, or after the job and the log entry, with the
  attempts, the transaction record and everything else at any stage.\<close>

definition interrupted :: "string \<Rightarrow> tx_rec \<Rightarrow> cstate \<Rightarrow> cstate \<Rightarrow> bool" where
  "interrupted k tx s s' \<longleftrightarrow> attempts_ok s' \<and>
     (jobs s' = jobs s \<and> events s' = events s
      \<or> jobs s' = coll_upd k (tx_job tx) (jobs s) \<and> events s' = events s
      \<or> jobs s' = coll_upd k (tx_job tx) (jobs s) \<and> events s' = log_add k (tx_event tx) (events s))"

section \<open>The update of the attempts returns\<close>

lemma foldM_jobs:
  "(\<And>i. i \<in> set ids \<Longrightarrow> coll_get ''jobs'' i (jobs t) = Inr (Some (J i))) \<Longrightarrow>
   foldM (\<lambda>js i. bindM (coord_job i) (\<lambda>j. retM (js @ [j]))) acc ids t = (Inr (acc @ map J ids), t)"
proof (induction ids arbitrary: acc)
  case (Cons i ids)
  have "coord_job i t = (Inr (J i), t)" using Cons.prems by (simp add: coord_job_result)
  moreover have "foldM (\<lambda>js i. bindM (coord_job i) (\<lambda>j. retM (js @ [j]))) (acc @ [J i]) ids t
      = (Inr ((acc @ [J i]) @ map J ids), t)" using Cons.prems by (intro Cons.IH) simp
  ultimately show ?case by (simp add: bindM_def retM_def)
qed (simp add: retM_def)

lemma bindM_run: "m s = (Inr x, t) \<Longrightarrow> bindM m f s = f x t"
  by (simp add: bindM_def)

lemma vcg_update_attempts_ok:
  assumes "attempts_ok s" and "\<And>t. (\<exists>c. t = s\<lparr>revalidation_attempts := c\<rparr>) \<Longrightarrow> Q () t"
  shows "wpM (update_revalidation_attempt_for_job j) Q E s"
proof -
  define J where "J i = (case coll_get ''jobs'' i (jobs s) of Inr (Some job) \<Rightarrow> job | _ \<Rightarrow> undefined)" for i
  have key: "keyed ''revalidation_attempts'' ra_attempt_id (revalidation_attempts s)" using assms(1) by (simp add: attempts_ok_def)
  have J: "coll_get ''jobs'' i (jobs s) = Inr (Some (J i))"
    if "a \<in> set (coll_list (revalidation_attempts s))" "i \<in> set (ra_job_ids a)" for a i
    using that assms(1) keyed_mem [OF key] by (fastforce simp: attempts_ok_def coll_all_def J_def)
  have body: "(if j \<notin> set (ra_job_ids a) then retM () else
       bindM (foldM (\<lambda>js i. bindM (coord_job i) (\<lambda>j. retM (js @ [j]))) [] (ra_job_ids a)) (\<lambda>js.
       bindM clockM (\<lambda>now. bindM (getsM interp) (\<lambda>E.
       put_attempt (ra_attempt_id a) (attempt_after E now js a))))) t
     = (if j \<in> set (ra_job_ids a) then put_attempt (ra_attempt_id a) (attempt_after (interp s) (clk s) (map J (ra_job_ids a)) a)
        else retM ()) t"
    if a: "a \<in> set (coll_list (revalidation_attempts s))" and t: "\<exists>c. t = s\<lparr>revalidation_attempts := c\<rparr>" for a t
  proof -
    have "foldM (\<lambda>js i. bindM (coord_job i) (\<lambda>j. retM (js @ [j]))) [] (ra_job_ids a) t = (Inr ([] @ map J (ra_job_ids a)), t)"
      by (rule foldM_jobs) (use J [OF a] t in auto)
    moreover have "clk t = clk s" "interp t = interp s" using t by auto
    ultimately show ?thesis by (simp add: bindM_run getsM_def)
  qed
  have rid: "ra_attempt_id (attempt_after E' now js a) = ra_attempt_id a" for E' now js a by (simp add: attempt_after_def)
  have self: "\<exists>c. s = s\<lparr>revalidation_attempts := c\<rparr>" by (rule exI [of _ "revalidation_attempts s"]) simp
  show ?thesis
    unfolding update_revalidation_attempt_for_job_def
  proof (rule vcg_bindM, rule vcg_getsM, rule wp_rewrite_loop [where F = "\<lambda>t. \<exists>c. t = s\<lparr>revalidation_attempts := c\<rparr>"
        and g = revalidation_attempts and u = revalidation_attempts_update and n = "''revalidation_attempts''"
        and rid = ra_attempt_id and P = "\<lambda>a. j \<in> set (ra_job_ids a)"
        and f = "\<lambda>a. attempt_after (interp s) (clk s) (map J (ra_job_ids a)) a", OF key _ self _ _ rid], goal_cases)
    case (3 v t)
    then show ?case by (rule body)
  next
    case (4 t)
    then show ?case by (intro assms(2))
  qed auto
qed

lemma coll_get_upd_Some: "coll_get n i c = Inr (Some x) \<Longrightarrow> \<exists>y. coll_get n i (coll_upd k v c) = Inr (Some y)"
  by (rule exI [of _ "if safe_record_id i = Inr k then v else x"]) (auto simp: coll_get_Inr_Some)

lemma attempts_ok_jobs:
  assumes "attempts_ok s" "revalidation_attempts t = revalidation_attempts s" "jobs t = coll_upd k v (jobs s)"
  shows "attempts_ok t"
  using assms(1) coll_get_upd_Some unfolding attempts_ok_def coll_all_def assms(2,3) by metis

section \<open>Applying again\<close>

lemma upd_again: "map_of (coll_upd k v (coll_upd k v c)) = map_of (coll_upd k v c)"
  by (rule ext) simp

lemma applicable_filters:
  assumes "applicable k tx s"
  shows "filter is_terminal_event (log_entries (events s) k) = []"
    and "filter (\<lambda>item. jget item ''event_id'' = JStr (tx_event_id tx)) (log_entries (events s) k) = []"
  using assms by (auto simp: applicable_def terminal_entries_def list_all_iff filter_empty_conv)

lemma terminal_list_ex: "filter is_terminal_event xs = [] \<Longrightarrow> \<not> list_ex (\<lambda>item. is_terminal_event item \<and> P item) xs"
  by (auto simp: list_ex_iff filter_empty_conv)

lemma log_read_ok:
  "safe_record_id rid = Inr k \<Longrightarrow> isOK (lock_name (n @ ''-'' @ rid)) \<Longrightarrow> log_read n rid l = Inr (log_entries l k)"
  by (auto simp: log_read_def isOK_iff log_entries_def split: option.splits)

lemma apply_interrupted_wp:
  assumes p: "prepared tx" and st: "storable k tx" and ap: "applicable k tx s" and int: "interrupted k tx s s'"
  shows "wpM (apply_terminal_transaction tx) (\<lambda>_ t. map_of (jobs t) = map_of (coll_upd k (tx_job tx) (jobs s))
     \<and> extended k (tx_event tx) s t
     \<and> coll_get ''terminal_transactions'' (tx_event_id tx) (terminal_transactions t)
       = Inr (Some (tx\<lparr>tx_status := ''committed'', tx_updated_at := clk s'\<rparr>))) (\<lambda>_ _. False) s'"
proof -
  let ?L = "log_entries (events s') k"
  note f = applicable_filters [OF ap]
  have seq: "with_sequence (tx_event tx) n = tx_event tx" for n using p by (simp add: prepared_def with_sequence_def)
  have rd: "log_read ''events'' (tx_job_id tx) (events s') = Inr ?L"
    using st by (intro log_read_ok) (simp_all add: storable_def)
  have old: "?L = log_entries (events s) k \<or> ?L = log_entries (events s) k @ [tx_event tx]"
    using int by (auto simp: interrupted_def log_entries_add)
  have ev: "jget (tx_event tx) ''event_id'' = JStr (tx_event_id tx)" using p by (simp add: prepared_def)
  have guard: "\<not> list_ex (\<lambda>item. is_terminal_event item \<and> jget item ''event_id'' \<noteq> JStr (tx_event_id tx)) ?L"
    using old terminal_list_ex [OF f(1)] ev by auto
  have match: "filter (\<lambda>item. jget item ''event_id'' = JStr (tx_event_id tx)) ?L
      = (if events s' = events s then [] else [tx_event tx])"
    using int f(2) ev by (auto simp: interrupted_def log_entries_add split: if_splits)
  have ext: "extended k (tx_event tx) s t" if "events t = (if events s' = events s then log_add k (tx_event tx) (events s') else events s')" for t
    using that int by (auto simp: interrupted_def extended_def log_entries_add split: if_splits)
  have job: "\<exists>job. coll_get ''jobs'' (tx_job_id tx) (jobs s') = Inr (Some job)
      \<and> (\<not> opt_truthy (j_terminal_event_id job) \<or> j_terminal_event_id job = Some (tx_event_id tx))"
    using int ap st p by (auto simp: interrupted_def applicable_def storable_def prepared_def coll_get_Inr_Some)
  have up: "map_of (coll_upd k (tx_job tx) (jobs s')) = map_of (coll_upd k (tx_job tx) (jobs s))"
    using int by (auto simp: interrupted_def upd_again)
  have ok: "attempts_ok s'" using int by (simp add: interrupted_def)
  have at: "attempts_ok (s'\<lparr>jobs := coll_upd k (tx_job tx) (jobs s')\<rparr>)"
    "attempts_ok (s'\<lparr>jobs := coll_upd k (tx_job tx) (jobs s'), events := es\<rparr>)" for es
    by (rule attempts_ok_jobs [OF ok]; simp)+
  obtain x where ids: "safe_record_id (tx_job_id tx) = Inr k" "isOK (lock_name (''jobs-'' @ tx_job_id tx))"
    "isOK (lock_name (''events-'' @ tx_job_id tx))" "safe_record_id (tx_event_id tx) = Inr x"
    "isOK (lock_name (''terminal_transactions-'' @ tx_event_id tx))"
    using st by (auto simp: storable_def isOK_iff)
  obtain job where j: "coll_get ''jobs'' (tx_job_id tx) (jobs s') = Inr (Some job)"
    "\<not> opt_truthy (j_terminal_event_id job) \<or> j_terminal_event_id job = Some (tx_event_id tx)" using job by blast
  have put: "wpM (put_job (tx_job_id tx) v) Q E u = Q () (u\<lparr>jobs := coll_upd k v (jobs u)\<rparr>)"
    "wpM (append_event (tx_job_id tx) (with_sequence (tx_event tx))) Q' E u
      = Q' () (u\<lparr>events := log_add k (tx_event tx) (events u)\<rparr>)"
    "wpM (put_tx (tx_event_id tx) w) Q'' E u
      = Q'' () (u\<lparr>terminal_transactions := coll_upd x w (terminal_transactions u)\<rparr>)" for v w Q Q' Q'' E u
    using ids by (auto simp: wp isOK_iff coll_put_def log_append_def seq Let_def)
  have tx: "coll_get ''terminal_transactions'' (tx_event_id tx) (coll_upd x v c) = Inr (Some v)" for v and c :: "tx_rec coll"
    using ids by (simp add: coll_get_Inr_Some)
  note run = apply_terminal_transaction_def Let_def wpM_bindM wpM_thenM wpM_guardM wp_st_get wp_st_read_log j(1) rd put
    wpM_getsM sum.case option.case if_True not_False_eq_True
  show ?thesis
  proof (cases "events s' = events s")
    case True
    then have m: "filter (\<lambda>item. jget item ''event_id'' = JStr (tx_event_id tx)) ?L = []" using match by simp
    show ?thesis
      unfolding run m if_P [OF j(2)] if_P [OF guard]
      by (simp add: put, rule vcg_update_attempts_ok [OF at(2)]) (auto simp: put tx up True intro!: ext)
  next
    case False
    then have m: "filter (\<lambda>item. jget item ''event_id'' = JStr (tx_event_id tx)) ?L = [tx_event tx]" using match by simp
    show ?thesis
      unfolding run m if_P [OF j(2)] if_P [OF guard]
      by (simp add: wpM_retM del: py_eq.simps, rule vcg_update_attempts_ok [OF at(1)])
        (auto simp: put tx up False intro!: ext)
  qed
qed

text \<open>C3: terminal recovery is exactly once. Let a terminal transaction be prepared for an open job whose
  log has no terminal event. Whatever prefix of its writes a crash left behind (none, the job, or
  the job and the log entry), applying the stored transaction returns, the job is the one of the
  transaction, the job's log has the terminal event appended exactly once, every other job and log
  is as before, and the transaction is marked committed.\<close>

theorem terminal_recovery_exactly_once:
  assumes "prepared tx" and "storable k tx" and "applicable k tx s" and "interrupted k tx s s'"
  shows "\<exists>t. apply_terminal_transaction tx s' = (Inr (), t)
     \<and> map_of (jobs t) = (map_of (jobs s))(k \<mapsto> tx_job tx)
     \<and> (\<forall>k'. log_entries (events t) k' = log_entries (events s) k' @ (if k' = k then [tx_event tx] else []))
     \<and> coll_get ''terminal_transactions'' (tx_event_id tx) (terminal_transactions t)
       = Inr (Some (tx\<lparr>tx_status := ''committed'', tx_updated_at := clk s'\<rparr>))"
proof -
  have "map_of (coll_upd k (tx_job tx) (jobs s)) = (map_of (jobs s))(k \<mapsto> tx_job tx)" by (rule ext) simp
  then show ?thesis using apply_interrupted_wp [OF assms] by (auto simp: wpM_returns extended_def)
qed

text \<open>A terminal transaction of the sample job, and the state a crash after the job write leaves.\<close>

definition failed_event :: jobj where
  "failed_event = [(''event_id'', JStr ''e-9''), (''job_id'', JStr ''job-1''), (''state'', JStr ''failed''), (''sequence'', JInt 1)]"

definition sample_tx :: tx_rec where
  "sample_tx = \<lparr>tx_event_id = ''e-9'', tx_job_id = ''job-1'',
     tx_job = lost_job\<lparr>j_status := ''failed'', j_terminal_event_id := Some ''e-9''\<rparr>,
     tx_event = failed_event, tx_status = ''prepared'', tx_created_at = 100, tx_updated_at = 100\<rparr>"

theorem terminal_recovery_exactly_once_witness:
  "\<exists>t. apply_terminal_transaction sample_tx (running_state\<lparr>jobs := [(''job-1'', tx_job sample_tx)]\<rparr>) = (Inr (), t)
     \<and> log_entries (events t) ''job-1'' = [failed_event]"
proof -
  have ids: "isOK (lock_name ''jobs-job-1'')" "isOK (lock_name ''events-job-1'')" "isOK (lock_name ''terminal_transactions-e-9'')"
    "safe_record_id ''job-1'' = Inr ''job-1''" "isOK (safe_record_id ''e-9'')" by code_simp+
  have st: "storable ''job-1'' sample_tx" by (simp add: storable_def sample_tx_def ids)
  have p: "prepared sample_tx" by (simp add: prepared_def sample_tx_def failed_event_def jget_def jhas_def)
  have ap: "applicable ''job-1'' sample_tx running_state"
    by (simp add: applicable_def opt_truthy_def terminal_entries_def log_entries_def)
  have int: "interrupted ''job-1'' sample_tx running_state (running_state\<lparr>jobs := [(''job-1'', tx_job sample_tx)]\<rparr>)"
    by (simp add: interrupted_def attempts_ok_def running_state_def keyed_def coll_all_def)
  have e: "tx_event sample_tx = failed_event" by (simp add: sample_tx_def)
  obtain t where "apply_terminal_transaction sample_tx (running_state\<lparr>jobs := [(''job-1'', tx_job sample_tx)]\<rparr>) = (Inr (), t)"
    "\<forall>k'. log_entries (events t) k' = log_entries (events running_state) k' @ (if k' = ''job-1'' then [failed_event] else [])"
    using terminal_recovery_exactly_once [OF p st ap int] unfolding e by blast
  then show ?thesis by (simp add: log_entries_def)
qed

end
