(* ===== verification/GoalGraph.thy ===== *)
theory GoalGraph
  imports ProtocolFacts
begin

text \<open>
  Invalidation over the criteria of a goal (\<open>goal_graph.py\<close>): a criterion is affected when
  one of its input fingerprints changed or it depends on an affected criterion; the evidence of
  the affected criteria is stale and all other evidence is preserved.
\<close>

section \<open>Definitions\<close>

record invalidation_plan =
  ip_changed_fingerprints :: "string list"
  ip_affected_criterion_ids :: "string list"
  ip_stale_evidence_ids :: "string list"
  ip_preserved_evidence_ids :: "string list"
  ip_stale_evidence_by_criterion :: "(string \<times> string list) list"

text \<open>\<open>set(map(str, (raw or {}).get(key) or ()))\<close>\<close>

definition raw_strs :: "pyenv \<Rightarrow> json \<Rightarrow> string \<Rightarrow> string list res" where
  "raw_strs E raw key = (case jor raw (JObj []) of
      JObj o' \<Rightarrow> str_list_of E (jget o' key)
    | _ \<Rightarrow> Inl (AttributeError ''get''))"

text \<open>One list of every criterion: its id and the strings under a key.\<close>

definition criteria_strs :: "pyenv \<Rightarrow> jobj \<Rightarrow> string \<Rightarrow> (string \<times> string list) list res" where
  "criteria_strs E criteria key =
     mapE (\<lambda>p. bindE (raw_strs E (snd p) key) (\<lambda>ss. Inr (fst p, ss))) criteria"

text \<open>One pass of the \<open>for\<close> loop; the set of affected criteria grows while it runs.\<close>

fun sweep :: "(string \<times> string list) list \<Rightarrow> string set \<Rightarrow> bool \<Rightarrow> string set \<times> bool" where
  "sweep [] affected advanced = (affected, advanced)"
| "sweep ((c, deps) # rest) affected advanced =
     (if c \<notin> affected \<and> set deps \<inter> affected \<noteq> {} then sweep rest (insert c affected) True
      else sweep rest affected advanced)"

lemma sweep_subset: "sweep ds a b = (a', b') \<Longrightarrow> a \<subseteq> a' \<and> a' \<subseteq> a \<union> fst ` set ds"
  by (induction ds a b rule: sweep.induct) (auto split: if_splits)

lemma sweep_unchanged: "sweep ds a b = (a', b') \<Longrightarrow> \<not> b' \<Longrightarrow> a' = a \<and> \<not> b"
  by (induction ds a b rule: sweep.induct) (auto split: if_splits)

lemma sweep_advanced: "sweep ds a False = (a', True) \<Longrightarrow> \<exists>c\<in>fst ` set ds. c \<notin> a \<and> c \<in> a'"
proof (induction ds a False rule: sweep.induct)
  case (2 c deps rest affected)
  show ?case
  proof (cases "c \<notin> affected \<and> set deps \<inter> affected \<noteq> {}")
    case True
    then have "sweep rest (insert c affected) True = (a', True)" using "2.prems" by simp
    then show ?thesis using True sweep_subset by (metis fst_conv image_eqI insert_subset list.set_intros(1))
  qed (use 2 in auto)
qed simp

lemma sweep_card:
  assumes "sweep ds a False = (a', True)"
  shows "card (fst ` set ds - a') < card (fst ` set ds - a)"
proof -
  obtain c where c: "c \<in> fst ` set ds" "c \<notin> a" "c \<in> a'" using assms sweep_advanced by blast
  have "fst ` set ds - a' \<subset> fst ` set ds - a" using c sweep_subset [OF assms] by auto
  then show ?thesis by (simp add: psubset_card_mono)
qed

text \<open>The \<open>while advanced\<close> loop.\<close>

function invalidate_closure :: "(string \<times> string list) list \<Rightarrow> string set \<Rightarrow> string set" where
  "invalidate_closure ds affected = (case sweep ds affected False of (affected', advanced) \<Rightarrow>
     if advanced then invalidate_closure ds affected' else affected')"
  by auto
termination
  by (relation "measure (\<lambda>(ds, a). card (fst ` set ds - a))") (auto dest: sweep_card [OF sym])

declare invalidate_closure.simps [simp del]

definition sorted_set :: "string set \<Rightarrow> string list" where
  "sorted_set A = sorted_list_of_set A"

definition compute_invalidation :: "pyenv \<Rightarrow> jobj \<Rightarrow> string list \<Rightarrow> invalidation_plan res" where
  "compute_invalidation E graph changed_fingerprints =
     bindE (case as_obj (jget graph ''criteria'') of
         None \<Rightarrow> Inl (ValueError ''goal graph criteria must be an object'') | Some c \<Rightarrow> Inr c) (\<lambda>criteria.
     let changed = sorted_set {c \<in> set changed_fingerprints. c \<noteq> []} in
     bindE (criteria_strs E criteria ''input_fingerprints'') (\<lambda>fps.
     let direct = fst ` {p \<in> set fps. set (snd p) \<inter> set changed \<noteq> {}} in
     bindE (criteria_strs E criteria ''depends_on'') (\<lambda>deps.
     let affected = invalidate_closure deps direct in
     bindE (criteria_strs E criteria ''evidence_ids'') (\<lambda>evs.
     let stale = \<Union> (set ` snd ` {p \<in> set evs. fst p \<in> affected});
         all_evidence = \<Union> (set ` snd ` set evs) in
     Inr \<lparr>ip_changed_fingerprints = changed,
       ip_affected_criterion_ids = sorted_set affected,
       ip_stale_evidence_ids = sorted_set stale,
       ip_preserved_evidence_ids = sorted_set (all_evidence - stale),
       ip_stale_evidence_by_criterion = map (\<lambda>p. (fst p, sort (snd p)))
         (filter (\<lambda>p. fst p \<in> affected) (sort_key fst evs))\<rparr>))))"

section \<open>The closure is the least one\<close>

text \<open>Affected criteria as the code's comments mean them: directly, or through a dependency.\<close>

inductive_set affected_by :: "(string \<times> string list) list \<Rightarrow> string set \<Rightarrow> string set"
  for ds direct where
  base: "c \<in> direct \<Longrightarrow> c \<in> affected_by ds direct"
| dep: "(c, deps) \<in> set ds \<Longrightarrow> d \<in> set deps \<Longrightarrow> d \<in> affected_by ds direct \<Longrightarrow> c \<in> affected_by ds direct"

lemma sweep_sound:
  "sweep ds a b = (a', b') \<Longrightarrow> set ds \<subseteq> set all \<Longrightarrow> a \<subseteq> affected_by all direct \<Longrightarrow> a' \<subseteq> affected_by all direct"
proof (induction ds a b rule: sweep.induct)
  case (2 c deps rest affected advanced)
  show ?case
  proof (cases "c \<notin> affected \<and> set deps \<inter> affected \<noteq> {}")
    case True
    then have "c \<in> affected_by all direct" using "2.prems" by (auto intro: affected_by.dep)
    then show ?thesis using True "2.IH"(1) "2.prems" by simp
  next
    case False
    then have "sweep rest affected advanced = (a', b')" using "2.prems"(1) by (simp split: if_splits)
    then show ?thesis using "2.IH"(2) [OF False] "2.prems" by simp
  qed
qed simp

lemma sweep_closed:
  "sweep ds a b = (a', False) \<Longrightarrow> (c, deps) \<in> set ds \<Longrightarrow> d \<in> set deps \<Longrightarrow> d \<in> a \<Longrightarrow> c \<in> a"
  by (induction ds a b rule: sweep.induct) (auto split: if_splits dest: sweep_unchanged)

lemma invalidate_closure_sound: "a \<subseteq> affected_by ds direct \<Longrightarrow> invalidate_closure ds a \<subseteq> affected_by ds direct"
proof (induction ds a rule: invalidate_closure.induct)
  case (1 ds a)
  obtain a' b' where s: "sweep ds a False = (a', b')" by (cases "sweep ds a False")
  then have "a' \<subseteq> affected_by ds direct" using "1.prems" sweep_sound by blast
  then show ?case using "1.IH" [OF s [symmetric]] s by (subst invalidate_closure.simps) auto
qed

lemma invalidate_closure_extends: "a \<subseteq> invalidate_closure ds a"
proof (induction ds a rule: invalidate_closure.induct)
  case (1 ds a)
  obtain a' b' where s: "sweep ds a False = (a', b')" by (cases "sweep ds a False")
  then have "a \<subseteq> a'" using sweep_subset by blast
  then show ?case using "1.IH" [OF s [symmetric]] s by (subst invalidate_closure.simps) auto
qed

lemma invalidate_closure_closed:
  "(c, deps) \<in> set ds \<Longrightarrow> d \<in> set deps \<Longrightarrow> d \<in> invalidate_closure ds a \<Longrightarrow> c \<in> invalidate_closure ds a"
proof (induction ds a rule: invalidate_closure.induct)
  case (1 ds a)
  obtain a' b' where s: "sweep ds a False = (a', b')" by (cases "sweep ds a False")
  show ?case
  proof (cases b')
    case True
    then show ?thesis using "1.IH" [OF s [symmetric] True] "1.prems" s
      by (subst invalidate_closure.simps) (subst (asm) (3) invalidate_closure.simps, auto)
  next
    case False
    then have eq: "invalidate_closure ds a = a" using s sweep_unchanged by (subst invalidate_closure.simps) auto
    then show ?thesis using "1.prems" s False sweep_closed [of ds a False a' c deps d] by simp
  qed
qed

lemma invalidate_closure_least: "invalidate_closure ds direct = affected_by ds direct"
proof
  show "invalidate_closure ds direct \<subseteq> affected_by ds direct"
    by (rule invalidate_closure_sound) (auto intro: affected_by.base)
  show "affected_by ds direct \<subseteq> invalidate_closure ds direct"
  proof
    fix c assume "c \<in> affected_by ds direct"
    then show "c \<in> invalidate_closure ds direct"
      by induction (use invalidate_closure_extends invalidate_closure_closed in blast)+
  qed
qed

lemma affected_by_mono: "direct \<subseteq> direct' \<Longrightarrow> affected_by ds direct \<subseteq> affected_by ds direct'"
proof
  fix c assume le: "direct \<subseteq> direct'" and "c \<in> affected_by ds direct"
  from this(2) show "c \<in> affected_by ds direct'"
    by induction (use le in \<open>auto intro: affected_by.intros\<close>)
qed

lemma affected_by_ids: "direct \<subseteq> fst ` set ds \<Longrightarrow> affected_by ds direct \<subseteq> fst ` set ds"
proof
  fix c assume le: "direct \<subseteq> fst ` set ds" and "c \<in> affected_by ds direct"
  from this(2) show "c \<in> fst ` set ds"
    by induction (use le in force)+
qed

section \<open>The plan\<close>

lemma criteria_strs_ids: "criteria_strs E c k = Inr xs \<Longrightarrow> map fst xs = map fst c"
  unfolding criteria_strs_def by (induction c arbitrary: xs) (auto simp: res_iff)

lemma criteria_strs_id_set: "criteria_strs E c k = Inr xs \<Longrightarrow> fst ` set xs = fst ` set c"
  using criteria_strs_ids [of E c k xs] by (metis list.set_map)

definition direct_hits :: "(string \<times> string list) list \<Rightarrow> string list \<Rightarrow> string set" where
  "direct_hits fps changed = {c. \<exists>fs. (c, fs) \<in> set fps \<and> set fs \<inter> {x \<in> set changed. x \<noteq> []} \<noteq> {}}"

definition evidence_of :: "(string \<times> string list) list \<Rightarrow> string set \<Rightarrow> string set" where
  "evidence_of evs A = {e. \<exists>c es. (c, es) \<in> set evs \<and> c \<in> A \<and> e \<in> set es}"

lemma finite_evidence_of [simp]: "finite (evidence_of evs A)"
proof (rule finite_subset)
  show "evidence_of evs A \<subseteq> \<Union> (set ` snd ` set evs)" by (force simp: evidence_of_def)
qed simp

lemma direct_hits_ids: "direct_hits fps changed \<subseteq> fst ` set fps"
  by (force simp: direct_hits_def)

lemma direct_hits_mono: "set changed \<subseteq> set changed' \<Longrightarrow> direct_hits fps changed \<subseteq> direct_hits fps changed'"
  by (fastforce simp: direct_hits_def)

lemma evidence_of_mono: "A \<subseteq> B \<Longrightarrow> evidence_of evs A \<subseteq> evidence_of evs B"
  by (auto simp: evidence_of_def)

lemma sorted_set_props [simp]:
  assumes "finite A"
  shows "set (sorted_set A) = A" "sorted (sorted_set A)" "distinct (sorted_set A)"
  using assms by (simp_all add: sorted_set_def)

text \<open>What a plan is, in terms of the three readings of the graph.\<close>

lemma compute_invalidation_Inr:
  assumes "compute_invalidation E graph changed = Inr plan"
  obtains criteria fps deps evs where
    "jget graph ''criteria'' = JObj criteria"
    "criteria_strs E criteria ''input_fingerprints'' = Inr fps"
    "criteria_strs E criteria ''depends_on'' = Inr deps"
    "criteria_strs E criteria ''evidence_ids'' = Inr evs"
    "ip_changed_fingerprints plan = sorted_set {c \<in> set changed. c \<noteq> []}"
    "ip_affected_criterion_ids plan = sorted_set (affected_by deps (direct_hits fps changed))"
    "finite (affected_by deps (direct_hits fps changed))"
    "ip_stale_evidence_ids plan = sorted_set (evidence_of evs (affected_by deps (direct_hits fps changed)))"
    "ip_preserved_evidence_ids plan
       = sorted_set (evidence_of evs UNIV - evidence_of evs (affected_by deps (direct_hits fps changed)))"
proof -
  obtain criteria fps deps evs where c: "jget graph ''criteria'' = JObj criteria"
    and f: "criteria_strs E criteria ''input_fingerprints'' = Inr fps"
    and d: "criteria_strs E criteria ''depends_on'' = Inr deps"
    and e: "criteria_strs E criteria ''evidence_ids'' = Inr evs"
    using assms by (auto simp: compute_invalidation_def res_iff as_obj_Some Let_def split: option.splits)
  have hits: "fst ` {p \<in> set fps. set (snd p) \<inter> {c \<in> set changed. c \<noteq> []} \<noteq> {}}
      = direct_hits fps changed"
    by (force simp: direct_hits_def)
  have stale: "(\<Union>x\<in>{p \<in> set evs. fst p \<in> A}. set (snd x)) = evidence_of evs A" for A
    by (force simp: evidence_of_def)
  have every: "(\<Union>x\<in>set evs. set (snd x)) = evidence_of evs UNIV"
    by (force simp: evidence_of_def)
  have "direct_hits fps changed \<subseteq> fst ` set deps"
    using direct_hits_ids criteria_strs_id_set [OF f] criteria_strs_id_set [OF d] by blast
  then have fin: "finite (affected_by deps (direct_hits fps changed))"
    using affected_by_ids by (metis finite_imageI finite_set finite_subset)
  show ?thesis
    by (rule that [OF c f d e _ _ fin]) (use assms in \<open>auto simp: compute_invalidation_def c f d e Let_def
        hits stale every invalidate_closure_least\<close>)
qed

definition sample_graph :: jobj where
  "sample_graph = [(''criteria'', JObj [
     (''a'', JObj [(''input_fingerprints'', JArr [JStr ''f1'']), (''evidence_ids'', JArr [JStr ''e1''])]),
     (''b'', JObj [(''depends_on'', JArr [JStr ''a'']), (''evidence_ids'', JArr [JStr ''e2''])]),
     (''c'', JObj [(''input_fingerprints'', JArr [JStr ''f2'']), (''evidence_ids'', JArr [JStr ''e3''])])])]"

definition sample_plan :: invalidation_plan where
  "sample_plan = \<lparr>ip_changed_fingerprints = [''f1''], ip_affected_criterion_ids = [''a'', ''b''],
     ip_stale_evidence_ids = [''e1'', ''e2''], ip_preserved_evidence_ids = [''e3''],
     ip_stale_evidence_by_criterion = [(''a'', [''e1'']), (''b'', [''e2''])]\<rparr>"

lemma sample_plan_eq: "compute_invalidation sample_env sample_graph [''f1''] = Inr sample_plan"
  by code_simp

section \<open>Properties\<close>

text \<open>C40: the affected criteria of an invalidation plan are exactly the least set that contains
  every criterion with a changed input fingerprint and every criterion that depends on a member
  of the set; they are listed in order without repetition. The loop that computes them ends.\<close>

theorem invalidation_least_closure:
  assumes "compute_invalidation E graph changed = Inr plan"
  shows "\<exists>criteria fps deps. jget graph ''criteria'' = JObj criteria
    \<and> criteria_strs E criteria ''input_fingerprints'' = Inr fps
    \<and> criteria_strs E criteria ''depends_on'' = Inr deps
    \<and> set (ip_affected_criterion_ids plan) = affected_by deps (direct_hits fps changed)
    \<and> sorted (ip_affected_criterion_ids plan) \<and> distinct (ip_affected_criterion_ids plan)"
  using assms by (elim compute_invalidation_Inr) auto

theorem invalidation_least_closure_witness:
  "compute_invalidation sample_env sample_graph [''f1''] = Inr sample_plan
   \<and> distinct (ip_affected_criterion_ids sample_plan) \<and> ''b'' \<in> set (ip_affected_criterion_ids sample_plan)"
  using sample_plan_eq invalidation_least_closure [OF sample_plan_eq] by (auto simp: sample_plan_def)

text \<open>an invalidation plan splits the evidence of the graph: stale and preserved evidence are
  disjoint, together they are all evidence the graph names, and the stale evidence is exactly the
  evidence of the affected criteria, so evidence shared with an affected criterion is never
  preserved.\<close>

lemma invalidation_partition:
  assumes "compute_invalidation E graph changed = Inr plan"
  shows "\<exists>criteria evs. jget graph ''criteria'' = JObj criteria
    \<and> criteria_strs E criteria ''evidence_ids'' = Inr evs
    \<and> set (ip_stale_evidence_ids plan) \<inter> set (ip_preserved_evidence_ids plan) = {}
    \<and> set (ip_stale_evidence_ids plan) \<union> set (ip_preserved_evidence_ids plan) = evidence_of evs UNIV
    \<and> set (ip_stale_evidence_ids plan) = evidence_of evs (set (ip_affected_criterion_ids plan))"
  using assms by (elim compute_invalidation_Inr) (auto dest: evidence_of_mono [OF subset_UNIV, THEN subsetD])

lemma invalidation_partition_sample:
  "compute_invalidation sample_env sample_graph [''f1''] = Inr sample_plan
   \<and> set (ip_stale_evidence_ids sample_plan) \<inter> set (ip_preserved_evidence_ids sample_plan) = {}"
  using sample_plan_eq invalidation_partition [OF sample_plan_eq] by blast

text \<open>a larger change invalidates at least as much: more changed fingerprints affect at
  least the same criteria, make at least the same evidence stale and preserve no more.\<close>

lemma invalidation_monotone:
  assumes "compute_invalidation E graph changed = Inr plan"
    and "compute_invalidation E graph changed' = Inr plan'"
    and "set changed \<subseteq> set changed'"
  shows "set (ip_affected_criterion_ids plan) \<subseteq> set (ip_affected_criterion_ids plan')
    \<and> set (ip_stale_evidence_ids plan) \<subseteq> set (ip_stale_evidence_ids plan')
    \<and> set (ip_preserved_evidence_ids plan') \<subseteq> set (ip_preserved_evidence_ids plan)"
proof -
  obtain criteria fps deps evs where p: "jget graph ''criteria'' = JObj criteria"
    "criteria_strs E criteria ''input_fingerprints'' = Inr fps"
    "criteria_strs E criteria ''depends_on'' = Inr deps"
    "criteria_strs E criteria ''evidence_ids'' = Inr evs"
    and a: "set (ip_affected_criterion_ids plan) = affected_by deps (direct_hits fps changed)"
      "set (ip_stale_evidence_ids plan) = evidence_of evs (affected_by deps (direct_hits fps changed))"
      "set (ip_preserved_evidence_ids plan)
        = evidence_of evs UNIV - evidence_of evs (affected_by deps (direct_hits fps changed))"
    using assms(1) by (elim compute_invalidation_Inr) simp
  have b: "set (ip_affected_criterion_ids plan') = affected_by deps (direct_hits fps changed')"
      "set (ip_stale_evidence_ids plan') = evidence_of evs (affected_by deps (direct_hits fps changed'))"
      "set (ip_preserved_evidence_ids plan')
        = evidence_of evs UNIV - evidence_of evs (affected_by deps (direct_hits fps changed'))"
    using assms(2) p by (elim compute_invalidation_Inr; simp)+
  have le: "affected_by deps (direct_hits fps changed) \<subseteq> affected_by deps (direct_hits fps changed')"
    using assms(3) by (intro affected_by_mono direct_hits_mono)
  show ?thesis unfolding a b using le evidence_of_mono [OF le, of evs] by blast
qed

lemma invalidation_monotone_sample:
  "\<exists>plan'. compute_invalidation sample_env sample_graph [''f1'', ''f2''] = Inr plan'
     \<and> set (ip_affected_criterion_ids sample_plan) \<subseteq> set (ip_affected_criterion_ids plan')
     \<and> set (ip_preserved_evidence_ids plan') \<subseteq> {''e3''}"
proof -
  have "isOK (compute_invalidation sample_env sample_graph [''f1'', ''f2''])" by code_simp
  then obtain plan' where h: "compute_invalidation sample_env sample_graph [''f1'', ''f2''] = Inr plan'"
    by (auto simp: isOK_iff)
  have "set [''f1''] \<subseteq> set [''f1'', ''f2'']" by simp
  from invalidation_monotone [OF sample_plan_eq h this] h show ?thesis by (auto simp: sample_plan_def)
qed

end
