(* ===== verification/Revalidation.thy ===== *)
theory Revalidation
  imports Jobs GoalGraph
begin

text \<open>
  Revalidation of a goal after an input changed (\<open>revalidation.py\<close>): a deterministic plan
  with a hash, the start of an attempt under an idempotency key, either for evidence the host
  validates or for replacement jobs submitted as one batch that is undone when it fails, and the
  completion of a host attempt by a receipt bound to it.
\<close>

section \<open>Plans\<close>

definition REVALIDATION_REQUEST_SCHEMA :: string where
  "REVALIDATION_REQUEST_SCHEMA = ''across-goal-revalidation-request/1.1''"
definition REVALIDATION_PLAN_SCHEMA :: string where
  "REVALIDATION_PLAN_SCHEMA = ''across-goal-revalidation-plan/1.1''"
definition REVALIDATION_ATTEMPT_SCHEMA :: string where
  "REVALIDATION_ATTEMPT_SCHEMA = ''across-goal-revalidation-attempt/1.1''"
definition HOST_EVIDENCE_SCHEMA :: string where
  "HOST_EVIDENCE_SCHEMA = ''across-goal-host-validation-evidence/1.1''"

definition non_empty_text :: "pyenv \<Rightarrow> json \<Rightarrow> string \<Rightarrow> string res" where
  "non_empty_text E v field_name = (let text = py_strip (py_str E (jor v (JStr []))) in
     if text = [] then Inl (ValueError (field_name @ '' is required'')) else Inr text)"

definition sha256_text :: "pyenv \<Rightarrow> json \<Rightarrow> string \<Rightarrow> string res" where
  "sha256_text E v field_name = bindE (non_empty_text E v field_name) (\<lambda>t.
     let text = py_lower t in
     if is_sha256_hex text then Inr text else Inl (ValueError (field_name @ '' must be a SHA-256 digest'')))"

record reval_authority =
  rq_graph :: jobj
  rq_goal_id :: string
  rq_goal_revision :: int
  rq_task_id :: string
  rq_input_fingerprint :: string

definition request_authority :: "pyenv \<Rightarrow> jobj \<Rightarrow> reval_authority res" where
  "request_authority E payload =
     bindE (checkE (jget payload ''schema_version'' = JStr REVALIDATION_REQUEST_SCHEMA)
       (ValueError (''goal revalidation schema_version must be '' @ REVALIDATION_REQUEST_SCHEMA))) (\<lambda>_.
     bindE (case as_obj (jget payload ''graph'') of None \<Rightarrow> Inl (ValueError ''goal revalidation graph must be an object'')
        | Some g \<Rightarrow> Inr g) (\<lambda>graph.
     bindE (int_or0 (jget payload ''goal_revision'')) (\<lambda>goal_revision.
     bindE (checkE (1 \<le> goal_revision) (ValueError ''goal_revision must be positive'')) (\<lambda>_.
     bindE (non_empty_text E (jget payload ''goal_id'') ''goal_id'') (\<lambda>goal_id.
     bindE (non_empty_text E (jget payload ''task_id'') ''task_id'') (\<lambda>task_id.
     bindE (sha256_text E (jget payload ''input_fingerprint'') ''input_fingerprint'') (\<lambda>fp.
     Inr \<lparr>rq_graph = graph, rq_goal_id = goal_id, rq_goal_revision = goal_revision, rq_task_id = task_id,
       rq_input_fingerprint = fp\<rparr>)))))))"

record reval_plan =
  pl_goal_id :: string
  pl_goal_revision :: int
  pl_task_id :: string
  pl_input_fingerprint :: string
  pl_criterion_ids :: "string list"
  pl_changed_fingerprints :: "string list"
  pl_affected_criterion_ids :: "string list"
  pl_supersedes_evidence_ids :: "string list"
  pl_preserved_evidence_ids :: "string list"
  pl_attempt_number :: int

definition nonempty_strs :: "pyenv \<Rightarrow> json \<Rightarrow> string list res" where
  "nonempty_strs E v = bindE (str_list_of E v) (\<lambda>ss. Inr (filter (\<lambda>s. s \<noteq> []) ss))"

text \<open>The evidence a selection of criteria supersedes.\<close>

definition superseded_evidence :: "invalidation_plan \<Rightarrow> string list \<Rightarrow> string list" where
  "superseded_evidence plan selected = sorted_set (\<Union>c\<in>set selected.
     set (opt_or (map_of (ip_stale_evidence_by_criterion plan) c) (ip_stale_evidence_ids plan)))"

definition plan_fields :: "pyenv \<Rightarrow> jobj \<Rightarrow> reval_plan res" where
  "plan_fields E payload =
     bindE (request_authority E payload) (\<lambda>a.
     bindE (nonempty_strs E (jget payload ''changed_fingerprints'')) (\<lambda>changed.
     bindE (compute_invalidation E (rq_graph a) changed) (\<lambda>plan.
     bindE (nonempty_strs E (jget payload ''criterion_ids'')) (\<lambda>raw.
     let selected = sorted_set (set raw) in
     bindE (checkE (selected \<noteq> [] \<and> set selected \<subseteq> set (ip_affected_criterion_ids plan))
       (ValueError ''revalidation criteria must be affected by the invalidation plan'')) (\<lambda>_.
     bindE (int_or0 (jget payload ''prior_attempt_number'')) (\<lambda>prior.
     Inr \<lparr>pl_goal_id = rq_goal_id a, pl_goal_revision = rq_goal_revision a, pl_task_id = rq_task_id a,
       pl_input_fingerprint = rq_input_fingerprint a, pl_criterion_ids = selected,
       pl_changed_fingerprints = ip_changed_fingerprints plan,
       pl_affected_criterion_ids = ip_affected_criterion_ids plan,
       pl_supersedes_evidence_ids = superseded_evidence plan selected,
       pl_preserved_evidence_ids = ip_preserved_evidence_ids plan,
       pl_attempt_number = max 0 prior + 1\<rparr>))))))"

definition plan_unsigned :: "reval_plan \<Rightarrow> jobj" where
  "plan_unsigned p = [(''schema_version'', JStr REVALIDATION_PLAN_SCHEMA),
     (''goal_id'', JStr (pl_goal_id p)), (''goal_revision'', JInt (pl_goal_revision p)),
     (''task_id'', JStr (pl_task_id p)), (''input_fingerprint'', JStr (pl_input_fingerprint p)),
     (''criterion_ids'', jstrs (pl_criterion_ids p)),
     (''changed_fingerprints'', jstrs (pl_changed_fingerprints p)),
     (''affected_criterion_ids'', jstrs (pl_affected_criterion_ids p)),
     (''supersedes_evidence_ids'', jstrs (pl_supersedes_evidence_ids p)),
     (''preserved_evidence_ids'', jstrs (pl_preserved_evidence_ids p)),
     (''attempt_number'', JInt (pl_attempt_number p))]"

text \<open>\<open>plan_revalidation\<close>: the fields of the plan and its hash.\<close>

definition plan_revalidation :: "pyenv \<Rightarrow> jobj \<Rightarrow> (reval_plan \<times> string) res" where
  "plan_revalidation E payload = bindE (plan_fields E payload) (\<lambda>p.
     Inr (p, payload_hash E (JObj (plan_unsigned p))))"

definition invalidation_plan_from_fields :: "reval_plan \<Rightarrow> invalidation_plan" where
  "invalidation_plan_from_fields p = \<lparr>ip_changed_fingerprints = pl_changed_fingerprints p,
     ip_affected_criterion_ids = pl_affected_criterion_ids p,
     ip_stale_evidence_ids = pl_supersedes_evidence_ids p,
     ip_preserved_evidence_ids = pl_preserved_evidence_ids p, ip_stale_evidence_by_criterion = []\<rparr>"

section \<open>Attempts with replacement jobs\<close>

text \<open>Run an operation and keep its exception as a value: the \<open>try\<close> of a block whose handler
  reads what the block had done.\<close>

definition tryM :: "'a coord \<Rightarrow> 'a res coord" where
  "tryM m = (\<lambda>s. case m s of (r, t) \<Rightarrow> (Inr r, t))"

definition build_revalidation_attempt :: "invalidation_plan \<Rightarrow> string list \<Rightarrow> int \<Rightarrow> attempt_rec coord" where
  "build_revalidation_attempt plan criterion_ids prior_attempt_number =
     (let selected = sorted_set (set criterion_ids) in
     thenM (guardM (selected \<noteq> [] \<and> set selected \<subseteq> set (ip_affected_criterion_ids plan))
       (ValueError ''revalidation criteria must be affected by the invalidation plan''))
     (bindM (new_protocol_id ''revalidation-attempt'') (\<lambda>attempt_id.
     retM \<lparr>ra_schema_version = ''across-goal-revalidation-attempt/1.0'', ra_attempt_id = attempt_id,
       ra_attempt_number = max 0 prior_attempt_number + 1, ra_plan_id = [], ra_plan_hash = None, ra_goal_id = [],
       ra_goal_revision = JNull, ra_task_id = None, ra_input_fingerprint = None, ra_criterion_ids = selected,
       ra_changed_fingerprints = ip_changed_fingerprints plan,
       ra_supersedes_evidence_ids = superseded_evidence plan selected,
       ra_preserved_evidence_ids = ip_preserved_evidence_ids plan, ra_execution_mode = None,
       ra_state = ''planned'', ra_job_ids = [], ra_created_at = 0, ra_updated_at = 0,
       ra_replacement_evidence_ids = None, ra_evidence_receipt_hash = None, ra_completed_at = None\<rparr>)))"

fun match_manifests :: "string list \<Rightarrow> (string \<times> job_manifest) list \<Rightarrow> job_manifest list
    \<Rightarrow> (string \<times> job_manifest) list res" where
  "match_manifests selected by_criterion [] = Inr by_criterion"
| "match_manifests selected by_criterion (m # ms) = (case jm_criterion_ids m of
      [c] \<Rightarrow>
        bindE (checkE (c \<in> set selected \<and> c \<notin> fst ` set by_criterion)
          (ValueError ''revalidation Job manifests must match selected criteria exactly'')) (\<lambda>_.
        bindE (checkE (opt_truthy (jm_goal_id m) \<and> opt_truthy (jm_task_id m))
          (ValueError ''revalidation Job manifest must include the complete Goal binding'')) (\<lambda>_.
        match_manifests selected (by_criterion @ [(c, m)]) ms))
    | _ \<Rightarrow> Inl (ValueError ''revalidation Job manifest must bind exactly one criterion''))"

definition goal_triple :: "job_manifest \<Rightarrow> string option \<times> string option \<times> json" where
  "goal_triple m = (jm_goal_id m, jm_task_id m, jm_goal_revision m)"

definition preflight_manifest :: "job_manifest \<Rightarrow> unit coord" where
  "preflight_manifest m =
     thenM (guardM (jm_input_artifacts m = []) (ValueError
       ''revalidation Job manifests with input artifacts require an atomic payload-aware submission path''))
     (bindM (getsM interp) (\<lambda>E.
     bindM (get_goal_rev (opt_or (jm_goal_id m) [])) (\<lambda>authority.
     bindM (liftM (int_or0 (jm_goal_revision m))) (\<lambda>revision.
     thenM (guardM (case authority of None \<Rightarrow> True | Some g \<Rightarrow> gv_goal_revision g \<le> revision)
       (ValueError ''revalidation Goal revision is older than host authority''))
     (bindM (get_job (jm_job_id m)) (\<lambda>existing_job.
     thenM (guardM (case existing_job of None \<Rightarrow> True | Some j \<Rightarrow> j_manifest_hash j = manifest_hash E m)
       (ValueError ''revalidation Job id conflicts with existing work''))
     (bindM (get_idem (jm_idempotency_key m)) (\<lambda>existing. case existing of
        None \<Rightarrow> retM ()
      | Some i \<Rightarrow> bindM (get_job (case i of JobIdem k j h \<Rightarrow> j | RevalIdem k h a \<Rightarrow> [])) (\<lambda>job.
          guardM (case job of None \<Rightarrow> False | Some j \<Rightarrow> j_manifest_hash j = manifest_hash E m)
            (ValueError ''revalidation idempotency key conflicts with existing work''))))))))))"

definition submit_step :: "job_manifest \<Rightarrow> bool coord" where
  "submit_step m = bindM (get_job (jm_job_id m)) (\<lambda>old.
     thenM (submit_job m []) (retM (old \<noteq> None)))"

text \<open>The submissions of the batch in order: the exception that stopped it, if any, the job ids
  and the manifests whose jobs it created.\<close>

primrec submit_batch :: "job_manifest list \<Rightarrow> string list \<Rightarrow> job_manifest list
    \<Rightarrow> (py_exc option \<times> string list \<times> job_manifest list) coord" where
  "submit_batch [] job_ids created = retM (None, job_ids, created)"
| "submit_batch (m # ms) job_ids created = bindM (tryM (submit_step m)) (\<lambda>r. case r of
      Inl e \<Rightarrow> retM (Some e, job_ids, created)
    | Inr existed \<Rightarrow> submit_batch ms (job_ids @ [jm_job_id m]) (if existed then created else created @ [m]))"

definition rollback_batch :: "string \<Rightarrow> string \<Rightarrow> job_manifest list \<Rightarrow> unit coord" where
  "rollback_batch attempt_id plan_id created =
     thenM (del_attempt attempt_id) (thenM (del_plan plan_id)
     (forM created (\<lambda>m. thenM (del_job (jm_job_id m)) (thenM (del_idem (jm_idempotency_key m)) (retM ())))))"

definition batch_plan_record :: "string \<Rightarrow> time \<Rightarrow> invalidation_plan \<Rightarrow> job_manifest \<Rightarrow> jobj" where
  "batch_plan_record plan_id now plan m = [(''schema_version'', JStr ''across-goal-invalidation-plan/1.0''),
     (''plan_id'', JStr plan_id), (''changed_fingerprints'', jstrs (ip_changed_fingerprints plan)),
     (''affected_criterion_ids'', jstrs (ip_affected_criterion_ids plan)),
     (''stale_evidence_ids'', jstrs (ip_stale_evidence_ids plan)),
     (''preserved_evidence_ids'', jstrs (ip_preserved_evidence_ids plan)),
     (''goal_id'', jopt (jm_goal_id m)), (''task_id'', jopt (jm_task_id m)),
     (''goal_revision'', jm_goal_revision m), (''created_at'', JFloat now)]"

definition run_batch :: "attempt_rec \<Rightarrow> string \<Rightarrow> jobj \<Rightarrow> job_manifest list \<Rightarrow> attempt_rec coord" where
  "run_batch persisted plan_id plan_record ordered =
     (let attempt_id = ra_attempt_id persisted in
     bindM (tryM (lockM (''revalidation-batch-'' @ attempt_id))) (\<lambda>locked.
     case locked of Inl e \<Rightarrow> thenM (rollback_batch attempt_id plan_id []) (raiseM e)
     | Inr _ \<Rightarrow>
     bindM (submit_batch ordered [] []) (\<lambda>(failure, job_ids, created).
     case failure of Some e \<Rightarrow> thenM (rollback_batch attempt_id plan_id created) (raiseM e)
     | None \<Rightarrow>
       let final = persisted\<lparr>ra_job_ids := job_ids\<rparr> in
       bindM (tryM (thenM (put_plan plan_id plan_record) (put_attempt attempt_id final))) (\<lambda>stored.
       case stored of Inl e \<Rightarrow> thenM (rollback_batch attempt_id plan_id created) (raiseM e)
       | Inr _ \<Rightarrow> retM final))))"

definition create_revalidation_attempt ::
  "invalidation_plan \<Rightarrow> string list \<Rightarrow> job_manifest list \<Rightarrow> int \<Rightarrow> attempt_rec coord" where
  "create_revalidation_attempt plan criterion_ids manifests prior_attempt_number =
     bindM (build_revalidation_attempt plan criterion_ids prior_attempt_number) (\<lambda>attempt.
     let selected = ra_criterion_ids attempt in
     bindM (liftM (match_manifests selected [] manifests)) (\<lambda>by_criterion.
     thenM (guardM (fst ` set by_criterion = set selected)
       (ValueError ''one revalidation Job manifest is required per selected criterion''))
     (thenM (guardM (length (remdups (map (goal_triple \<circ> snd) by_criterion)) = 1)
       (ValueError ''revalidation Job manifests must share one Goal, Task, and revision''))
     (let m0 = snd (hd by_criterion) in
     thenM (forM (map snd by_criterion) preflight_manifest)
     (bindM (new_protocol_id ''invalidation-plan'') (\<lambda>plan_id.
     bindM clockM (\<lambda>now.
     let persisted = attempt\<lparr>ra_plan_id := plan_id, ra_goal_id := opt_or (jm_goal_id m0) [],
           ra_task_id := jm_task_id m0, ra_goal_revision := jm_goal_revision m0, ra_state := ''queued'',
           ra_created_at := now, ra_updated_at := now\<rparr> in
     run_batch persisted plan_id (batch_plan_record plan_id now plan m0)
       (map snd (sort_key fst by_criterion)))))))))"

section \<open>Starting and completing an attempt\<close>

definition host_attempt :: "string \<Rightarrow> string \<Rightarrow> string \<Rightarrow> time \<Rightarrow> reval_plan \<Rightarrow> attempt_rec" where
  "host_attempt attempt_id plan_id plan_hash now p = \<lparr>ra_schema_version = REVALIDATION_ATTEMPT_SCHEMA,
     ra_attempt_id = attempt_id, ra_attempt_number = pl_attempt_number p, ra_plan_id = plan_id,
     ra_plan_hash = Some plan_hash, ra_goal_id = pl_goal_id p, ra_goal_revision = JInt (pl_goal_revision p),
     ra_task_id = Some (pl_task_id p), ra_input_fingerprint = Some (pl_input_fingerprint p),
     ra_criterion_ids = pl_criterion_ids p, ra_changed_fingerprints = pl_changed_fingerprints p,
     ra_supersedes_evidence_ids = pl_supersedes_evidence_ids p,
     ra_preserved_evidence_ids = pl_preserved_evidence_ids p, ra_execution_mode = Some ''host_validation'',
     ra_state = ''awaiting_host_evidence'', ra_job_ids = [], ra_created_at = now, ra_updated_at = now,
     ra_replacement_evidence_ids = None, ra_evidence_receipt_hash = None, ra_completed_at = None\<rparr>"

definition raw_manifests :: "json \<Rightarrow> json list res" where
  "raw_manifests v = (case jor v (JArr []) of JArr xs \<Rightarrow> Inr xs
     | _ \<Rightarrow> Inl (ValueError ''job_manifests must be an array''))"

definition manifest_of_item :: "pyenv \<Rightarrow> time \<Rightarrow> json \<Rightarrow> job_manifest res" where
  "manifest_of_item E now v = (case as_obj v of None \<Rightarrow> Inl (AttributeError ''get'')
     | Some o' \<Rightarrow> manifest_from_dict E now o')"

definition start_worker_attempt :: "jobj \<Rightarrow> reval_plan \<Rightarrow> string \<Rightarrow> attempt_rec coord" where
  "start_worker_attempt payload p plan_hash =
     bindM (getsM interp) (\<lambda>E. bindM clockM (\<lambda>now.
     bindM (liftM (raw_manifests (jget payload ''job_manifests''))) (\<lambda>raws.
     bindM (liftM (mapE (manifest_of_item E now) raws)) (\<lambda>manifests.
     bindM (create_revalidation_attempt (invalidation_plan_from_fields p) (pl_criterion_ids p) manifests
        (pl_attempt_number p - 1)) (\<lambda>attempt.
     let attempt' = attempt\<lparr>ra_schema_version := REVALIDATION_ATTEMPT_SCHEMA,
       ra_execution_mode := Some ''worker_reexecution'', ra_input_fingerprint := Some (pl_input_fingerprint p),
       ra_plan_hash := Some plan_hash\<rparr> in
     thenM (put_attempt (ra_attempt_id attempt') attempt') (retM attempt'))))))"

definition host_plan_record :: "reval_plan \<Rightarrow> string \<Rightarrow> string \<Rightarrow> time \<Rightarrow> jobj" where
  "host_plan_record p plan_hash plan_id now = plan_unsigned p @ [(''plan_hash'', JStr plan_hash),
     (''plan_id'', JStr plan_id), (''created_at'', JFloat now)]"

definition start_host_attempt :: "reval_plan \<Rightarrow> string \<Rightarrow> string \<Rightarrow> string \<Rightarrow> attempt_rec coord" where
  "start_host_attempt p plan_hash idempotency_key request_hash =
     bindM (getsM interp) (\<lambda>E. bindM clockM (\<lambda>now.
     let attempt_id = ''revalidation-attempt-'' @ take 32 (payload_hash E (JObj
           [(''idempotency_key'', JStr idempotency_key), (''request_hash'', JStr request_hash)]));
         plan_id = ''invalidation-plan-'' @ take 32 plan_hash;
         attempt = host_attempt attempt_id plan_id plan_hash now p in
     bindM (get_plan plan_id) (\<lambda>old.
     thenM (catchM (thenM (put_plan plan_id (host_plan_record p plan_hash plan_id now)) (put_attempt attempt_id attempt))
       (\<lambda>e. thenM (del_attempt attempt_id)
         (thenM (if old = None then thenM (del_plan plan_id) (retM ()) else retM ()) (raiseM e))))
     (retM attempt))))"

definition start_revalidation_attempt :: "jobj \<Rightarrow> attempt_rec coord" where
  "start_revalidation_attempt payload =
     bindM (getsM interp) (\<lambda>E.
     bindM (liftM (plan_revalidation E payload)) (\<lambda>(p, plan_hash).
     bindM (liftM (sha256_text E (jget payload ''plan_hash'') ''plan_hash'')) (\<lambda>claimed.
     thenM (guardM (claimed = plan_hash) (ValueError ''plan_hash does not match the deterministic revalidation plan''))
     (bindM (liftM (non_empty_text E (jget payload ''execution_mode'') ''execution_mode'')) (\<lambda>execution_mode.
     thenM (guardM (execution_mode \<in> {''host_validation'', ''worker_reexecution''})
       (ValueError ''execution_mode must be host_validation or worker_reexecution''))
     (thenM (guardM (\<not> (execution_mode = ''host_validation'' \<and> jhas payload ''job_manifests''))
       (ValueError ''host_validation must not include job_manifests''))
     (bindM (liftM (non_empty_text E (jget payload ''idempotency_key'') ''idempotency_key'')) (\<lambda>idempotency_key.
     let idempotency_id = ''goal-revalidation-'' @ take 32 (payload_hash E (JStr idempotency_key));
         request_hash = payload_hash E (JObj payload) in
     thenM (lockM (''goal-revalidation-start-'' @ idempotency_id))
     (bindM (get_idem idempotency_id) (\<lambda>existing. case existing of
       Some i \<Rightarrow> (case i of
           RevalIdem k h a \<Rightarrow>
             thenM (guardM (h = request_hash) (ValueError ''revalidation idempotency key conflicts with existing work''))
             (bindM (get_attempt a) (\<lambda>att. case att of
                None \<Rightarrow> raiseM (ValueError ''revalidation idempotency record references missing work'')
              | Some x \<Rightarrow> retM x))
         | JobIdem k j h \<Rightarrow> raiseM (ValueError ''revalidation idempotency key conflicts with existing work''))
     | None \<Rightarrow>
     bindM (get_goal_rev (pl_goal_id p)) (\<lambda>authority.
     thenM (guardM (case authority of None \<Rightarrow> True | Some g \<Rightarrow> gv_goal_revision g \<le> pl_goal_revision p)
       (ValueError ''revalidation Goal revision is older than host authority''))
     (bindM (if execution_mode = ''worker_reexecution'' then start_worker_attempt payload p plan_hash
             else start_host_attempt p plan_hash idempotency_key request_hash) (\<lambda>attempt.
     thenM (catchM (put_idem idempotency_id (RevalIdem idempotency_key request_hash (ra_attempt_id attempt)))
       (\<lambda>e. thenM (if execution_mode = ''host_validation'' then thenM (del_attempt (ra_attempt_id attempt)) (retM ())
           else retM ()) (raiseM e)))
     (retM attempt))))))))))))))"

fun check_digests :: "pyenv \<Rightarrow> jobj \<Rightarrow> unit res" where
  "check_digests E [] = Inr ()"
| "check_digests E ((name, digest) # rest) =
     bindE (non_empty_text E (JStr name) ''artifact logical name'') (\<lambda>_.
     bindE (sha256_text E digest ''artifact digest'') (\<lambda>_. check_digests E rest))"

fun check_expected :: "jobj \<Rightarrow> jobj \<Rightarrow> unit res" where
  "check_expected receipt [] = Inr ()"
| "check_expected receipt ((f, v) # rest) = (if py_eq (jget receipt f) v then check_expected receipt rest
     else Inl (ValueError (''host evidence '' @ f @ '' does not match the revalidation attempt'')))"

definition attempt_binding :: "attempt_rec \<Rightarrow> jobj" where
  "attempt_binding a = [(''attempt_id'', JStr (ra_attempt_id a)), (''goal_id'', JStr (ra_goal_id a)),
     (''goal_revision'', ra_goal_revision a), (''task_id'', jopt (ra_task_id a)),
     (''criterion_ids'', jstrs (ra_criterion_ids a)), (''input_fingerprint'', jopt (ra_input_fingerprint a))]"

definition validate_host_receipt :: "pyenv \<Rightarrow> attempt_rec \<Rightarrow> jobj \<Rightarrow> string res" where
  "validate_host_receipt E attempt receipt =
     bindE (checkE (jget receipt ''schema_version'' = JStr HOST_EVIDENCE_SCHEMA)
       (ValueError (''host evidence schema_version must be '' @ HOST_EVIDENCE_SCHEMA))) (\<lambda>_.
     bindE (sha256_text E (jget receipt ''receipt_hash'') ''receipt_hash'') (\<lambda>receipt_hash.
     bindE (checkE (payload_hash E (JObj (jpop receipt ''receipt_hash'')) = receipt_hash)
       (ValueError ''host evidence receipt hash is invalid'')) (\<lambda>_.
     bindE (check_expected receipt (attempt_binding attempt)) (\<lambda>_.
     bindE (checkE (jget receipt ''verdict'' = JStr ''verified'') (ValueError ''host evidence verdict must be verified'')) (\<lambda>_.
     bindE (non_empty_text E (jget receipt ''validator_id'') ''validator_id'') (\<lambda>_.
     bindE (case jget receipt ''artifact_digests'' of JObj (x # xs) \<Rightarrow> Inr (x # xs)
        | _ \<Rightarrow> Inl (ValueError ''host evidence artifact_digests must be a non-empty object'')) (\<lambda>digests.
     bindE (check_digests E digests) (\<lambda>_. Inr receipt_hash))))))))"

definition complete_host_revalidation_attempt :: "jobj \<Rightarrow> attempt_rec coord" where
  "complete_host_revalidation_attempt payload =
     bindM (getsM interp) (\<lambda>E.
     bindM (liftM (non_empty_text E (jget payload ''attempt_id'') ''attempt_id'')) (\<lambda>attempt_id.
     bindM (liftM (case as_obj (jget payload ''receipt'') of None \<Rightarrow> Inl (ValueError ''receipt must be an object'')
        | Some r \<Rightarrow> Inr r)) (\<lambda>receipt.
     thenM (lockM (''goal-revalidation-complete-'' @ attempt_id))
     (bindM (get_attempt attempt_id) (\<lambda>found. case found of
        None \<Rightarrow> raiseM (ValueError ''revalidation attempt was not found'')
      | Some attempt \<Rightarrow>
     thenM (guardM (ra_execution_mode attempt = Some ''host_validation'')
       (ValueError ''only a host_validation attempt accepts host evidence''))
     (bindM (liftM (validate_host_receipt E attempt receipt)) (\<lambda>receipt_hash.
     if ra_state attempt = ''completed'' then
       thenM (guardM (ra_evidence_receipt_hash attempt = Some receipt_hash)
         (ValueError ''completed revalidation attempt has different evidence'')) (retM attempt)
     else
     thenM (guardM (ra_state attempt = ''awaiting_host_evidence'')
       (ValueError ''revalidation attempt is not awaiting host evidence''))
     (bindM clockM (\<lambda>now.
     let updated = attempt\<lparr>ra_state := ''completed'', ra_evidence_receipt_hash := Some receipt_hash,
       ra_replacement_evidence_ids := Some [''evidence-'' @ take 24 receipt_hash],
       ra_completed_at := Some now, ra_updated_at := now\<rparr> in
     thenM (put_attempt attempt_id updated) (retM updated))))))))))"

end
