(* ===== verification/RevalFacts.thy ===== *)
theory RevalFacts
  imports Revalidation JobProps
begin

text \<open>
  The properties of goal revalidation: starting an attempt is idempotent under its key, a host
  attempt is completed only by a receipt bound to it and at most once, and a plan selects affected
  criteria only and never supersedes preserved evidence.
\<close>

section \<open>Starting an attempt\<close>

lemma keeps_tryM [keeps_rules]: "keeps P m \<Longrightarrow> keeps P (tryM m)"
  by (auto simp: keeps_def tryM_def split: prod.splits)

lemma wpM_tryM [wp]: "wpM (tryM m) Q E s = wpM m (\<lambda>x. Q (Inr x)) (\<lambda>e. Q (Inl e)) s"
  by (auto simp: wpM_def tryM_def split: prod.splits sum.splits)

lemma vcg_tryM [vcg]: "wpM m (\<lambda>x. Q (Inr x)) (\<lambda>e. Q (Inl e)) s \<Longrightarrow> wpM (tryM m) Q E s"
  by (simp add: wp)


lemma submit_job_interp [keeps_rules]: "keeps (\<lambda>s. interp s = c) (submit_job m inputs)"
  unfolding submit_job_def create_job_def submit_goal_check_def authorize_goal_revision_def fence_job_def
  by (intro keeps_rules keeps_st_put keeps_coord_audit) simp_all

lemma submit_batch_interp [keeps_rules]: "keeps (\<lambda>s. interp s = c) (submit_batch ms ids created)"
  unfolding submit_step_def
  by (induction ms arbitrary: ids created) (auto simp: submit_step_def intro!: keeps_rules)

lemma create_attempt_interp: "keeps (\<lambda>s. interp s = c) (create_revalidation_attempt plan cs ms n)"
  unfolding create_revalidation_attempt_def build_revalidation_attempt_def preflight_manifest_def run_batch_def
    rollback_batch_def
  by (intro keeps_rules keeps_st_put keeps_st_delete keeps_new_protocol_id) simp_all

text \<open>Both kinds of start file the attempt they return under its id.\<close>

definition attempt_filed :: "attempt_rec \<Rightarrow> cstate \<Rightarrow> bool" where
  "attempt_filed a t \<longleftrightarrow> coll_get ''revalidation_attempts'' (ra_attempt_id a) (revalidation_attempts t) = Inr (Some a)"

lemma start_worker_filed:
  "wpM (start_worker_attempt payload p h) (\<lambda>a t. attempt_filed a t \<and> interp t = interp s) (\<lambda>_ _. True) s"
  unfolding start_worker_attempt_def Let_def
  by (intro vcg wp_frame [where g = interp, OF create_attempt_interp]) (auto simp: attempt_filed_def coll_get_Inr_Some)

lemma start_host_filed:
  "wpM (start_host_attempt p h k r) (\<lambda>a t. attempt_filed a t \<and> interp t = interp s) (\<lambda>_ _. True) s"
  unfolding start_host_attempt_def Let_def
  by (intro vcg) (auto simp: attempt_filed_def coll_get_Inr_Some host_attempt_def)

text \<open>The record a start leaves for its key: the request's hash and the attempt it returned.\<close>

definition request_key :: "jobj \<Rightarrow> cstate \<Rightarrow> string res" where
  "request_key payload s = bindE (non_empty_text (interp s) (jget payload ''idempotency_key'') ''idempotency_key'') (\<lambda>key.
     Inr (''goal-revalidation-'' @ take 32 (payload_hash (interp s) (JStr key))))"

definition key_taken :: "jobj \<Rightarrow> attempt_rec \<Rightarrow> cstate \<Rightarrow> bool" where
  "key_taken payload a t \<longleftrightarrow> (\<exists>i k aid. request_key payload t = Inr i
     \<and> coll_get ''idempotency'' i (idempotency t) = Inr (Some (RevalIdem k (payload_hash (interp t) (JObj payload)) aid))
     \<and> coll_get ''revalidation_attempts'' aid (revalidation_attempts t) = Inr (Some a))"

definition start_valid :: "jobj \<Rightarrow> cstate \<Rightarrow> bool" where
  "start_valid payload t \<longleftrightarrow> (\<exists>p h mode i. plan_revalidation (interp t) payload = Inr (p, h)
     \<and> sha256_text (interp t) (jget payload ''plan_hash'') ''plan_hash'' = Inr h
     \<and> non_empty_text (interp t) (jget payload ''execution_mode'') ''execution_mode'' = Inr mode
     \<and> mode \<in> {''host_validation'', ''worker_reexecution''} \<and> \<not> (mode = ''host_validation'' \<and> jhas payload ''job_manifests'')
     \<and> request_key payload t = Inr i \<and> isOK (lock_name (''goal-revalidation-start-'' @ i)))"

lemma start_again:
  assumes "start_valid payload t" and "key_taken payload a t"
  shows "start_revalidation_attempt payload t = (Inr a, t)"
proof -
  have "wpM (start_revalidation_attempt payload) (\<lambda>x u. x = a \<and> u = t) (\<lambda>_ _. False) t"
    unfolding start_revalidation_attempt_def
    by (intro vcg; use assms in \<open>clarsimp simp: start_valid_def key_taken_def request_key_def bindE_Inr_iff simp del: append.simps\<close>)
  then show ?thesis by (auto simp: wpM_returns)
qed

lemma start_conflict:
  assumes "key_taken payload a t" "request_key payload' t = request_key payload t"
    "payload_hash (interp t) (JObj payload') \<noteq> payload_hash (interp t) (JObj payload)"
  shows "\<exists>e. start_revalidation_attempt payload' t = (Inl e, t)"
proof -
  have "wpM (start_revalidation_attempt payload') (\<lambda>_ _. False) (\<lambda>_ u. u = t) t"
    unfolding start_revalidation_attempt_def
    by (intro vcg; use assms in \<open>clarsimp simp: key_taken_def request_key_def bindE_Inr_iff simp del: append.simps\<close>)
  then show ?thesis by (auto simp: wpM_raises)
qed

lemma start_wp:
  "wpM (start_revalidation_attempt payload) (\<lambda>a t. start_valid payload t \<and> key_taken payload a t) (\<lambda>_ _. True) s"
proof -
  have store: "wpM (thenM (catchM (put_idem i r) (\<lambda>e. thenM (if b then thenM (del_attempt x) (retM ()) else retM ()) (raiseM e))) (retM a)) Q (\<lambda>_ _. True) t"
    if "\<And>k. safe_record_id i = Inr k \<Longrightarrow> isOK (lock_name (''idempotency-'' @ i)) \<Longrightarrow>
      Q a (t\<lparr>idempotency := coll_upd k r (idempotency t)\<rparr>)" for i r b x a Q t
    by (intro vcg) (use that in auto)
  have start: "wpM (if c then start_worker_attempt payload p h else start_host_attempt p h k r)
     (\<lambda>a. wpM (thenM (catchM (put_idem i (RevalIdem k r (ra_attempt_id a))) (\<lambda>e. thenM (if b then thenM (del_attempt (ra_attempt_id a)) (retM ()) else retM ()) (raiseM e))) (retM a)) Q (\<lambda>_ _. True)) (\<lambda>_ _. True) s"
    if "\<And>a t j. attempt_filed a t \<Longrightarrow> interp t = interp s \<Longrightarrow>
      coll_get ''idempotency'' i (coll_upd j (RevalIdem k r (ra_attempt_id a)) (idempotency t)) = Inr (Some (RevalIdem k r (ra_attempt_id a))) \<Longrightarrow>
      Q a (t\<lparr>idempotency := coll_upd j (RevalIdem k r (ra_attempt_id a)) (idempotency t)\<rparr>)" for c p h k r i b Q
  proof (rule wpM_conseq)
    note that' = that
    show "wpM (if c then start_worker_attempt payload p h else start_host_attempt p h k r)
        (\<lambda>a t. attempt_filed a t \<and> interp t = interp s) (\<lambda>_ _. True) s"
      using start_worker_filed start_host_filed by simp
    show "wpM (thenM (catchM (put_idem i (RevalIdem k r (ra_attempt_id a))) (\<lambda>e. thenM (if b then thenM (del_attempt (ra_attempt_id a)) (retM ()) else retM ()) (raiseM e))) (retM a)) Q (\<lambda>_ _. True) t"
      if "attempt_filed a t \<and> interp t = interp s" for a t
      by (rule store, rule that') (use that in \<open>simp_all add: coll_get_Inr_Some\<close>)
  qed simp
  show ?thesis
    unfolding start_revalidation_attempt_def
    by (intro vcg_getsM vcg_bindM vcg_liftM vcg_thenM vcg_guardM vcg_Let vcg_lockM vcg_st_get vcg_case_option vcg_case_idem vcg_raiseM
        vcg_retM vcg_case_prod start; (rule TrueI)?)
      (auto simp: start_valid_def key_taken_def request_key_def attempt_filed_def simp del: append.simps)
qed

text \<open>Starting a revalidation is idempotent. After a start has succeeded, the same request
  returns the same attempt and changes nothing, so no second batch of jobs is submitted, and any
  different request under the same key is refused and changes nothing.\<close>

theorem start_revalidation_idempotent:
  assumes "start_revalidation_attempt payload s = (Inr a, t)"
  shows "start_revalidation_attempt payload t = (Inr a, t)
    \<and> (request_key payload' t = request_key payload t
        \<and> payload_hash (interp t) (JObj payload') \<noteq> payload_hash (interp t) (JObj payload)
       \<longrightarrow> (\<exists>e. start_revalidation_attempt payload' t = (Inl e, t)))"
  using wpM_result(1) [OF start_wp assms] start_again start_conflict by blast

text \<open>Ids built from a digest are always acceptable.\<close>

lemma hex_lower_plain: "is_hex_lower c \<Longrightarrow> \<not> is_space c \<and> c \<noteq> CHR ''/'' \<and> c \<noteq> CHR 0x5C \<and> py_lower [c] = [c]"
  by (auto simp: char_class_defs py_lower_def lower_char_def)

definition plain_prefix :: "string \<Rightarrow> bool" where
  "plain_prefix pre \<longleftrightarrow> 3 \<le> length pre \<and> length pre \<le> 96
     \<and> list_all (\<lambda>c. \<not> is_space c \<and> c \<noteq> CHR ''/'' \<and> c \<noteq> CHR 0x5C) pre"

lemma digest_id_safe:
  assumes "is_sha256_hex h" and "plain_prefix pre"
  shows "safe_record_id (pre @ take n h) = Inr (pre @ take n h)" and "isOK (lock_name (pre @ take n h))"
proof -
  define x where "x = pre @ take n h"
  have c: "\<not> is_space c \<and> c \<noteq> CHR ''/'' \<and> c \<noteq> CHR 0x5C" if "c \<in> set x" for c
    using assms that hex_lower_plain unfolding x_def by (auto simp: is_sha256_hex_def plain_prefix_def list_all_iff dest: in_set_takeD)
  have len: "3 \<le> length x" "length x \<le> 160"
    using assms unfolding x_def by (auto simp: is_sha256_hex_def plain_prefix_def)
  have "x \<noteq> []" "x \<noteq> ''.''" "x \<noteq> ''..''" using len by auto
  moreover have "CHR ''/'' \<notin> set x" "CHR 0x5C \<notin> set x" using c by blast+
  ultimately have "safe_record_id x = Inr x"
    using c len(2) py_strip_no_space [of x] by (simp add: safe_record_id_Inr)
  then show "safe_record_id (pre @ take n h) = Inr (pre @ take n h)" "isOK (lock_name (pre @ take n h))"
    by (simp_all add: lock_name_def x_def)
qed

lemma sha256_text_digest: "is_sha256_hex h \<Longrightarrow> sha256_text E (JStr h) f = Inr h"
proof -
  assume h: "is_sha256_hex h"
  have c: "\<not> is_space c" "py_lower [c] = [c]" if "c \<in> set h" for c
    using h that hex_lower_plain by (auto simp: is_sha256_hex_def list_all_iff)
  have "py_strip h = h" using c(1) by (intro py_strip_no_space) blast
  moreover have "py_lower h = h" using c(2) by (simp add: py_lower_def map_idI)
  moreover have "h \<noteq> []" using h by (auto simp: is_sha256_hex_def)
  ultimately show ?thesis using h by (simp add: sha256_text_def non_empty_text_def jor_def)
qed

section \<open>Samples\<close>

definition request_core :: jobj where
  "request_core = [(''schema_version'', JStr REVALIDATION_REQUEST_SCHEMA), (''graph'', JObj sample_graph),
     (''goal_id'', JStr ''g-1''), (''goal_revision'', JInt 2), (''task_id'', JStr ''t-1''),
     (''input_fingerprint'', JStr (replicate 64 (CHR ''a''))), (''changed_fingerprints'', jstrs [''f1'']),
     (''criterion_ids'', jstrs [''a'']), (''execution_mode'', JStr ''host_validation''), (''idempotency_key'', JStr ''k-1'')]"

definition request_plan :: reval_plan where
  "request_plan = \<lparr>pl_goal_id = ''g-1'', pl_goal_revision = 2, pl_task_id = ''t-1'',
     pl_input_fingerprint = replicate 64 (CHR ''a''), pl_criterion_ids = [''a''], pl_changed_fingerprints = [''f1''],
     pl_affected_criterion_ids = [''a'', ''b''], pl_supersedes_evidence_ids = [''e1''],
     pl_preserved_evidence_ids = [''e3''], pl_attempt_number = 1\<rparr>"

definition request_plan_hash :: string where
  "request_plan_hash = payload_hash sample_env (JObj (plan_unsigned request_plan))"

definition start_request :: jobj where
  "start_request = (''plan_hash'', JStr request_plan_hash) # request_core"

lemma request_plan_ok: "plan_revalidation sample_env request_core = Inr (request_plan, request_plan_hash)"
  "plan_revalidation sample_env start_request = Inr (request_plan, request_plan_hash)"
proof -
  have "plan_fields sample_env request_core = Inr request_plan" by code_simp
  moreover have "plan_fields sample_env start_request = plan_fields sample_env request_core"
    by (simp add: plan_fields_def request_authority_def start_request_def)
  ultimately show "plan_revalidation sample_env request_core = Inr (request_plan, request_plan_hash)"
    "plan_revalidation sample_env start_request = Inr (request_plan, request_plan_hash)"
    by (simp_all add: plan_revalidation_def request_plan_hash_def)
qed

lemma payload_hash_hex [simp]: "is_sha256_hex (payload_hash E v)"
  by (simp add: payload_hash_def sha256_hex_format)

lemma sample_start_returns:
  "wpM (start_revalidation_attempt start_request) (\<lambda>a t. ra_state a = ''awaiting_host_evidence'' \<and> ra_goal_id a = ''g-1'') (\<lambda>_ _. False) sample_state"
proof -
  have hash: "sha256_text sample_env (jget start_request ''plan_hash'') ''plan_hash'' = Inr request_plan_hash"
    by (simp add: start_request_def sha256_text_digest request_plan_hash_def)
  have fields: "non_empty_text sample_env (jget start_request ''execution_mode'') ''execution_mode'' = Inr ''host_validation''"
    "non_empty_text sample_env (jget start_request ''idempotency_key'') ''idempotency_key'' = Inr ''k-1''"
    by (simp_all add: start_request_def request_core_def non_empty_text_def jor_def eval_ids)
  have m: "\<not> jhas start_request ''job_manifests''" by (simp add: start_request_def request_core_def jhas_def)
  have ids: "plain_prefix ''goal-revalidation-start-goal-revalidation-''" "plain_prefix ''goal-revalidation-''"
    "plain_prefix ''idempotency-goal-revalidation-''" "plain_prefix ''revalidation-attempt-''"
    "plain_prefix ''revalidation_attempts-revalidation-attempt-''" "plain_prefix ''invalidation-plan-''"
    "plain_prefix ''invalidation_plans-invalidation-plan-''" by code_simp+
  have g: "pl_goal_id request_plan = ''g-1''" by (simp add: request_plan_def)
  have eval_goal: "safe_record_id ''g-1'' = Inr ''g-1''" by code_simp
  note safe = digest_id_safe [OF payload_hash_hex ids(1)] digest_id_safe [OF payload_hash_hex ids(2)]
    digest_id_safe [OF payload_hash_hex ids(3)] digest_id_safe [OF payload_hash_hex ids(4)]
    digest_id_safe [OF payload_hash_hex ids(5)] digest_id_safe [OF payload_hash_hex ids(6)]
    digest_id_safe [OF payload_hash_hex ids(7)]
  show ?thesis
    unfolding start_revalidation_attempt_def start_host_attempt_def Let_def
    by (intro vcg) (simp_all add: request_plan_ok hash fields m g safe [simplified] coll_get_def coll_get_Inr_Some eval_goal
        host_attempt_def request_plan_hash_def)
qed

theorem start_revalidation_idempotent_sample:
  "\<exists>a t. start_revalidation_attempt start_request sample_state = (Inr a, t) \<and> ra_state a = ''awaiting_host_evidence''
     \<and> start_revalidation_attempt start_request t = (Inr a, t)"
proof -
  obtain a t where "start_revalidation_attempt start_request sample_state = (Inr a, t)" "ra_state a = ''awaiting_host_evidence''"
    using sample_start_returns by (auto simp: wpM_returns)
  with start_revalidation_idempotent [OF this(1)] show ?thesis by blast
qed

section \<open>Plans\<close>

lemma stale_by_criterion_stale:
  assumes "compute_invalidation E graph changed = Inr plan"
    and "map_of (ip_stale_evidence_by_criterion plan) c = Some es"
  shows "set es \<subseteq> set (ip_stale_evidence_ids plan)"
  using assms by (auto simp: compute_invalidation_def res_iff as_obj_Some Let_def sorted_set_def
      split: option.splits dest!: map_of_SomeD; blast)

lemma superseded_stale:
  "compute_invalidation E graph changed = Inr plan \<Longrightarrow> set (superseded_evidence plan selected) \<subseteq> set (ip_stale_evidence_ids plan)"
  using stale_by_criterion_stale by (fastforce simp: superseded_evidence_def opt_or_def split: option.splits)

text \<open>A revalidation plan is sound. It names at least one criterion, each once and in order, and
  only criteria the change affects; the evidence it supersedes is disjoint from the evidence it
  preserves; its goal revision and attempt number are positive, its input fingerprint is a SHA-256
  digest, and its hash is the digest of exactly its fields.\<close>

theorem plan_revalidation_sound:
  assumes "plan_revalidation E payload = Inr (p, h)"
  shows "pl_criterion_ids p \<noteq> [] \<and> sorted (pl_criterion_ids p) \<and> distinct (pl_criterion_ids p)
    \<and> set (pl_criterion_ids p) \<subseteq> set (pl_affected_criterion_ids p)
    \<and> set (pl_supersedes_evidence_ids p) \<inter> set (pl_preserved_evidence_ids p) = {}
    \<and> 1 \<le> pl_goal_revision p \<and> 1 \<le> pl_attempt_number p \<and> is_sha256_hex (pl_input_fingerprint p)
    \<and> h = payload_hash E (JObj (plan_unsigned p))"
proof -
  obtain a changed plan raw prior where r: "request_authority E payload = Inr a"
      "compute_invalidation E (rq_graph a) changed = Inr plan"
      "sorted_set (set raw) \<noteq> []" "set (sorted_set (set raw)) \<subseteq> set (ip_affected_criterion_ids plan)"
    and p: "p = \<lparr>pl_goal_id = rq_goal_id a, pl_goal_revision = rq_goal_revision a, pl_task_id = rq_task_id a,
       pl_input_fingerprint = rq_input_fingerprint a, pl_criterion_ids = sorted_set (set raw),
       pl_changed_fingerprints = ip_changed_fingerprints plan,
       pl_affected_criterion_ids = ip_affected_criterion_ids plan,
       pl_supersedes_evidence_ids = superseded_evidence plan (sorted_set (set raw)),
       pl_preserved_evidence_ids = ip_preserved_evidence_ids plan, pl_attempt_number = max 0 prior + 1\<rparr>"
    and h: "h = payload_hash E (JObj (plan_unsigned p))"
    using assms by (auto simp: plan_revalidation_def plan_fields_def res_iff Let_def)
  have "1 \<le> rq_goal_revision a" "is_sha256_hex (rq_input_fingerprint a)"
    using r(1) by (auto simp: request_authority_def sha256_text_def res_iff Let_def split: if_splits)
  moreover have "set (ip_stale_evidence_ids plan) \<inter> set (ip_preserved_evidence_ids plan) = {}"
    using r(2) by (elim compute_invalidation_Inr) auto
  ultimately show ?thesis using r superseded_stale [OF r(2)] h by (auto simp: p)
qed

theorem plan_revalidation_sound_sample:
  "plan_revalidation sample_env request_core = Inr (request_plan, request_plan_hash)
   \<and> set (pl_supersedes_evidence_ids request_plan) \<inter> set (pl_preserved_evidence_ids request_plan) = {}"
  using request_plan_ok(1) plan_revalidation_sound [OF request_plan_ok(1)] by blast

section \<open>Completing a host attempt\<close>

text \<open>A receipt that is bound to an attempt: its hash is that of its own content, every identifying
  field is the attempt's, and its verdict is verified.\<close>

definition receipt_bound :: "pyenv \<Rightarrow> attempt_rec \<Rightarrow> jobj \<Rightarrow> string \<Rightarrow> bool" where
  "receipt_bound E a receipt h \<longleftrightarrow> sha256_text E (jget receipt ''receipt_hash'') ''receipt_hash'' = Inr h
     \<and> payload_hash E (JObj (jpop receipt ''receipt_hash'')) = h
     \<and> list_all (\<lambda>(f, v). py_eq (jget receipt f) v) (attempt_binding a) \<and> jget receipt ''verdict'' = JStr ''verified''"

lemma check_expected_ok: "check_expected receipt xs = Inr u \<longleftrightarrow> list_all (\<lambda>(f, v). py_eq (jget receipt f) v) xs"
  by (induction receipt xs rule: check_expected.induct) (auto simp del: py_eq.simps)

lemma validated_bound: "validate_host_receipt E a receipt = Inr h \<Longrightarrow> receipt_bound E a receipt h"
  by (auto simp: validate_host_receipt_def receipt_bound_def bindE_Inr_iff checkE_Inr_iff check_expected_ok simp del: py_eq.simps)

definition completed_attempt :: "string \<Rightarrow> time \<Rightarrow> attempt_rec \<Rightarrow> attempt_rec" where
  "completed_attempt h now a = a\<lparr>ra_state := ''completed'', ra_evidence_receipt_hash := Some h,
     ra_replacement_evidence_ids := Some [''evidence-'' @ take 24 h], ra_completed_at := Some now, ra_updated_at := now\<rparr>"

lemma validate_completed [simp]: "validate_host_receipt E (completed_attempt h now a) receipt = validate_host_receipt E a receipt"
  by (simp add: validate_host_receipt_def attempt_binding_def completed_attempt_def)

text \<open>The attempt and the receipt a completion is about.\<close>

definition completes :: "jobj \<Rightarrow> cstate \<Rightarrow> string \<Rightarrow> attempt_rec \<Rightarrow> jobj \<Rightarrow> string \<Rightarrow> bool" where
  "completes payload s aid a receipt h \<longleftrightarrow>
     non_empty_text (interp s) (jget payload ''attempt_id'') ''attempt_id'' = Inr aid
     \<and> jget payload ''receipt'' = JObj receipt \<and> isOK (lock_name (''goal-revalidation-complete-'' @ aid))
     \<and> coll_get ''revalidation_attempts'' aid (revalidation_attempts s) = Inr (Some a)
     \<and> ra_execution_mode a = Some ''host_validation'' \<and> validate_host_receipt (interp s) a receipt = Inr h"

lemma completesI:
  "non_empty_text (interp s) (jget payload ''attempt_id'') ''attempt_id'' = Inr aid \<Longrightarrow> jget payload ''receipt'' = JObj receipt \<Longrightarrow>
   isOK (lock_name (''goal-revalidation-complete-'' @ aid)) \<Longrightarrow>
   coll_get ''revalidation_attempts'' aid (revalidation_attempts s) = Inr (Some a) \<Longrightarrow>
   ra_execution_mode a = Some ''host_validation'' \<Longrightarrow> validate_host_receipt (interp s) a receipt = Inr h \<Longrightarrow>
   completes payload s aid a receipt h"
  by (simp add: completes_def)

lemma complete_wp:
  "wpM (complete_host_revalidation_attempt payload) (\<lambda>a' t. \<exists>aid k a receipt h. completes payload s aid a receipt h
     \<and> (ra_state a = ''completed'' \<and> ra_evidence_receipt_hash a = Some h \<and> a' = a \<and> t = s
        \<or> ra_state a = ''awaiting_host_evidence'' \<and> a' = completed_attempt h (clk s) a \<and> safe_record_id aid = Inr k
          \<and> t = s\<lparr>revalidation_attempts := coll_upd k a' (revalidation_attempts s)\<rparr>))
   (\<lambda>_ t. t = s) s"
  unfolding complete_host_revalidation_attempt_def obj_or_error Let_def
  apply (intro vcg_getsM vcg_bindM vcg_liftM vcg_thenM vcg_guardM vcg_Let vcg_lockM vcg_st_get vcg_case_option vcg_raiseM
        vcg_retM vcg_if vcg_st_put; (rule refl)?)
  subgoal by (simp only: obj_or_error; intro exI conjI disjI1 completesI; (assumption | rule refl))
  subgoal by (simp only: obj_or_error completed_attempt_def; intro exI conjI disjI2 completesI; (assumption | rule refl))
  done

lemma complete_again:
  assumes "completes payload s aid a receipt h" "ra_state a = ''completed''" "ra_evidence_receipt_hash a = Some h"
  shows "complete_host_revalidation_attempt payload s = (Inr a, s)"
proof -
  have f: "non_empty_text (interp s) (jget payload ''attempt_id'') ''attempt_id'' = Inr aid" "jget payload ''receipt'' = JObj receipt"
    "coll_get ''revalidation_attempts'' aid (revalidation_attempts s) = Inr (Some a)"
    "ra_execution_mode a = Some ''host_validation''" "validate_host_receipt (interp s) a receipt = Inr h"
    and l: "lock_name (''goal-revalidation-complete-'' @ aid) = Inr ()"
    using assms(1) by (auto simp: completes_def isOK_iff simp del: append.simps)
  have "wpM (complete_host_revalidation_attempt payload) (\<lambda>x t. x = a \<and> t = s) (\<lambda>_ _. False) s"
    unfolding complete_host_revalidation_attempt_def wp f l as_obj_simps option.case sum.case if_True assms(2,3)
    by simp
  then show ?thesis by (auto simp: wpM_returns)
qed

lemma completes_after:
  assumes c: "completes payload s aid a receipt h" and k: "safe_record_id aid = Inr k"
  shows "completes payload (s\<lparr>revalidation_attempts := coll_upd k (completed_attempt h now a) (revalidation_attempts s)\<rparr>)
     aid (completed_attempt h now a) receipt h"
proof -
  have "coll_get ''revalidation_attempts'' aid (coll_upd k (completed_attempt h now a) (revalidation_attempts s))
      = Inr (Some (completed_attempt h now a))"
    using c k unfolding completes_def by (auto simp: coll_get_Inr_Some)
  moreover have "ra_execution_mode (completed_attempt h now a) = ra_execution_mode a" by (simp add: completed_attempt_def)
  ultimately show ?thesis using c unfolding completes_def by simp
qed

text \<open>C30: a host attempt is completed only by its own evidence and only once. A completion
  returns only for a host attempt and a receipt whose hash is that of its content, whose attempt,
  goal, revision, task, criteria and input are the attempt's and whose verdict is verified. The
  attempt then is completed with that receipt's hash; if it had been completed before it is
  unchanged, and otherwise it was awaiting evidence. Completing again with the same request returns
  the same attempt and changes nothing.\<close>

theorem host_completion_bound:
  assumes "complete_host_revalidation_attempt payload s = (Inr a', t)"
  shows "\<exists>aid a receipt h. coll_get ''revalidation_attempts'' aid (revalidation_attempts s) = Inr (Some a)
    \<and> ra_execution_mode a = Some ''host_validation'' \<and> jget payload ''receipt'' = JObj receipt
    \<and> receipt_bound (interp s) a receipt h
    \<and> ra_state a' = ''completed'' \<and> ra_evidence_receipt_hash a' = Some h
    \<and> coll_get ''revalidation_attempts'' aid (revalidation_attempts t) = Inr (Some a')
    \<and> (ra_state a = ''completed'' \<and> a' = a \<and> t = s \<or> ra_state a = ''awaiting_host_evidence'')
    \<and> complete_host_revalidation_attempt payload t = (Inr a', t)"
proof -
  obtain aid k a receipt h where c: "completes payload s aid a receipt h"
    and d: "ra_state a = ''completed'' \<and> ra_evidence_receipt_hash a = Some h \<and> a' = a \<and> t = s
        \<or> ra_state a = ''awaiting_host_evidence'' \<and> a' = completed_attempt h (clk s) a \<and> safe_record_id aid = Inr k
          \<and> t = s\<lparr>revalidation_attempts := coll_upd k a' (revalidation_attempts s)\<rparr>"
    using wpM_result(1) [OF complete_wp assms] by blast
  have fin: "ra_state a' = ''completed''" "ra_evidence_receipt_hash a' = Some h"
    using d by (auto simp: completed_attempt_def)
  have c': "completes payload t aid a' receipt h" using d c completes_after [OF c] by auto
  have g: "coll_get ''revalidation_attempts'' aid (revalidation_attempts s) = Inr (Some a)"
    "ra_execution_mode a = Some ''host_validation''" "jget payload ''receipt'' = JObj receipt"
    "coll_get ''revalidation_attempts'' aid (revalidation_attempts t) = Inr (Some a')"
    using c c' by (simp_all add: completes_def)
  have b: "receipt_bound (interp s) a receipt h" using c by (auto simp: completes_def intro: validated_bound)
  show ?thesis using g b fin d complete_again [OF c' fin] by blast
qed

definition host_receipt_core :: jobj where
  "host_receipt_core = [(''schema_version'', JStr HOST_EVIDENCE_SCHEMA), (''attempt_id'', JStr ''ra-1''), (''goal_id'', JStr ''g-1''),
     (''goal_revision'', JInt 2), (''task_id'', JStr ''t-1''), (''criterion_ids'', jstrs [''a'']),
     (''input_fingerprint'', JStr (replicate 64 (CHR ''a''))), (''verdict'', JStr ''verified''), (''validator_id'', JStr ''v-1''),
     (''artifact_digests'', JObj [(''report'', JStr (replicate 64 (CHR ''b'')))])]"

definition complete_request :: jobj where
  "complete_request = [(''attempt_id'', JStr ''ra-1''),
     (''receipt'', JObj ((''receipt_hash'', JStr (payload_hash sample_env (JObj host_receipt_core))) # host_receipt_core))]"

definition waiting_state :: cstate where
  "waiting_state = sample_state\<lparr>revalidation_attempts := [(''ra-1'', host_attempt ''ra-1'' ''p-1'' [] 90 request_plan)]\<rparr>"

lemma sample_completes:
  "completes complete_request waiting_state ''ra-1'' (host_attempt ''ra-1'' ''p-1'' [] 90 request_plan)
     ((''receipt_hash'', JStr (payload_hash sample_env (JObj host_receipt_core))) # host_receipt_core)
     (payload_hash sample_env (JObj host_receipt_core))"
proof (rule completesI)
  let ?r = "(''receipt_hash'', JStr (payload_hash sample_env (JObj host_receipt_core))) # host_receipt_core"
  let ?a = "host_attempt ''ra-1'' ''p-1'' [] 90 request_plan"
  have "jpop ?r ''receipt_hash'' = host_receipt_core" by (simp add: jpop_def host_receipt_core_def)
  moreover have "check_expected ?r (attempt_binding ?a) = Inr ()"
    by (simp add: attempt_binding_def host_attempt_def request_plan_def host_receipt_core_def jopt_def)
  moreover have "non_empty_text sample_env (jget host_receipt_core ''validator_id'') ''validator_id'' = Inr ''v-1''"
    "check_digests sample_env [(''report'', JStr (replicate 64 (CHR ''b'')))] = Inr ()" by code_simp+
  moreover have "jget host_receipt_core ''artifact_digests'' = JObj [(''report'', JStr (replicate 64 (CHR ''b'')))]"
    "jget host_receipt_core ''schema_version'' = JStr HOST_EVIDENCE_SCHEMA" "jget host_receipt_core ''verdict'' = JStr ''verified''"
    by (simp_all add: host_receipt_core_def)
  ultimately show "validate_host_receipt (interp waiting_state) ?a ?r = Inr (payload_hash sample_env (JObj host_receipt_core))"
    by (simp add: validate_host_receipt_def sha256_text_digest waiting_state_def del: check_expected.simps check_digests.simps)
  show "coll_get ''revalidation_attempts'' ''ra-1'' (revalidation_attempts waiting_state) = Inr (Some ?a)"
    by (simp add: waiting_state_def coll_get_def eval_ids)
  show "non_empty_text (interp waiting_state) (jget complete_request ''attempt_id'') ''attempt_id'' = Inr ''ra-1''"
    by (simp add: complete_request_def non_empty_text_def jor_def eval_ids)
  show "isOK (lock_name (''goal-revalidation-complete-'' @ ''ra-1''))" by (simp add: eval_ids)
qed (simp_all add: complete_request_def host_attempt_def)

lemma sample_completion_returns:
  "\<exists>a t. complete_host_revalidation_attempt complete_request waiting_state = (Inr a, t)"
proof -
  let ?a = "host_attempt ''ra-1'' ''p-1'' [] 90 request_plan"
  note c = sample_completes [unfolded completes_def]
  have "ra_state ?a = ''awaiting_host_evidence''" by (simp add: host_attempt_def)
  moreover have "lock_name (''goal-revalidation-complete-'' @ ''ra-1'') = Inr ()"
    "safe_record_id ''ra-1'' = Inr ''ra-1''" "lock_name (''revalidation_attempts'' @ ''-'' @ ''ra-1'') = Inr ()" by (simp_all add: eval_ids)
  ultimately have "wpM (complete_host_revalidation_attempt complete_request) (\<lambda>_ _. True) (\<lambda>_ _. False) waiting_state"
    using c by (simp add: complete_host_revalidation_attempt_def wp Let_def coll_put_def del: append.simps)
  then show ?thesis by (auto simp: wpM_returns)
qed

theorem host_completion_bound_witness:
  "\<exists>a t. complete_host_revalidation_attempt complete_request waiting_state = (Inr a, t) \<and> ra_state a = ''completed''
     \<and> complete_host_revalidation_attempt complete_request t = (Inr a, t)"
proof -
  obtain a t where "complete_host_revalidation_attempt complete_request waiting_state = (Inr a, t)"
    using sample_completion_returns by blast
  with host_completion_bound [OF this] show ?thesis by blast
qed

end
