(* ===== verification/Coordinator.thy ===== *)
theory Coordinator
  imports Enrollment TerminalRecovery RevalFacts
begin

text \<open>
  The coordinator as a state machine. A step is one public operation of the enrollment authority
  or the coordinator, with whatever arguments and whether it returns or raises, or the passing of
  time. Invariants of the steps hold in every state that is reachable from the empty store.
\<close>

section \<open>Steps\<close>

definition void :: "'a coord \<Rightarrow> unit coord" where
  "void m = thenM m (retM ())"

inductive public_op :: "unit coord \<Rightarrow> bool" where
  "public_op (void (create_pairing_code ttl failures))"
| "public_op (void (submit_pairing eid code ident cap))"
| "public_op (void (approve nid code))"
| "public_op (void (reject nid))"
| "public_op (void (revoke nid reason))"
| "public_op (void (enr_delete nid))"
| "public_op (void (import_approved_node capm name fp gen expires))"
| "public_op (void (connect_node capm transport gen peer peer_fp req))"
| "public_op (void (disconnect_node nid reason))"
| "public_op (void (expire_stale_nodes age))"
| "public_op (void (heartbeat_node nid load))"
| "public_op (void (set_draining nid b))"
| "public_op (void (request_node_update nid version url sha))"
| "public_op (void (record_node_update nid did st err))"
| "public_op (void (request_node_transport nid transport endpoint server sid peer key))"
| "public_op (void (record_node_transport nid did st err))"
| "public_op (void (revoke_node nid reason))"
| "public_op (void (delete_node nid))"
| "public_op (void (authorize_goal_revision gid n))"
| "public_op (void (submit_job m inputs))"
| "public_op (void (lease_next nid))"
| "public_op (void (acknowledge_lease lid hash gid grev))"
| "public_op (void (heartbeat_lease lid nid attempt gid grev))"
| "public_op (void (cancel_job jid reason))"
| "public_op (void recover_expired_leases)"
| "public_op (void (begin_artifact_upload d))"
| "public_op (void (finalize_artifact_upload aid digest n))"
| "event_post_init e = Inr () \<Longrightarrow> public_op (void (record_event e))"
| "public_op (void recover_terminal_transactions)"
| "public_op (void (record_validator_result jid crit val mthd status))"
| "public_op (void (issue_model_grant jid nid aud scopes purposes pol mc mt mx mcost ttl))"
| "public_op (void (consume_model_grant gid run jid nid aud sc pu tok cost))"
| "public_op (void (begin_model_grant_call gid run jid nid aud sc pu tok))"
| "public_op (void (finish_model_grant_call gid cid tok cost out))"
| "public_op (void (revoke_model_grant gid))"
| "public_op (void (start_revalidation_attempt payload))"
| "public_op (void (complete_host_revalidation_attempt payload))"

inductive coord_step :: "cstate \<Rightarrow> cstate \<Rightarrow> bool" where
  operation: "public_op m \<Longrightarrow> coord_step s (snd (m s))"
| time_passes: "clk s \<le> now \<Longrightarrow> coord_step s (s\<lparr>clk := now\<rparr>)"

inductive_cases coord_stepE: "coord_step s t"

text \<open>An invariant of the coordinator is kept by every public operation and does not look at the
  clock; then it holds along every run.\<close>

locale coordinator_invariant =
  fixes I :: "cstate \<Rightarrow> bool"
  assumes op_keeps: "public_op m \<Longrightarrow> keeps I m"
    and clock_free: "I (s\<lparr>clk := now\<rparr>) = I s"
begin

lemma step_keeps: "coord_step s t \<Longrightarrow> I s \<Longrightarrow> I t"
  by (elim coord_stepE) (auto simp: clock_free dest: op_keeps intro: keepsD)

lemma run_keeps: "coord_step\<^sup>*\<^sup>* s t \<Longrightarrow> I s \<Longrightarrow> I t"
  by (induction rule: rtranclp_induct) (auto intro: step_keeps)

end

lemma keeps_void: "keeps P m \<Longrightarrow> keeps P (void m)"
  unfolding void_def by (intro keeps_rules)

section \<open>Node and enrollment operations touch nothing else\<close>

text \<open>What these operations may change: the nodes, the enrollments and the audit log.\<close>

definition job_side :: "cstate \<Rightarrow> job_rec coll \<times> job_lease coll \<times> grant_rec coll \<times> goal_revision_rec coll \<times> jobj logs" where
  "job_side s = (jobs s, leases s, grants s, goal_revisions s, events s)"

lemma keeps_enr_audit: "(\<And>s a. P (s\<lparr>audit := a\<rparr>) = P s) \<Longrightarrow> keeps P (enr_audit ev pl)"
  unfolding enr_audit_def by (intro keeps_rules keeps_st_append) simp

lemma keeps_enr_node [keeps_rules]: "keeps P (enr_node nid)"
  unfolding enr_node_def by (intro keeps_rules)

lemmas keeps_writes = keeps_st_put keeps_st_delete keeps_st_append keeps_coord_audit keeps_enr_audit keeps_new_protocol_id

lemma enrollment_frame:
  "keeps (\<lambda>s. job_side s = c) (create_pairing_code ttl failures)"
  "keeps (\<lambda>s. job_side s = c) (submit_pairing eid code ident cap)"
  "keeps (\<lambda>s. job_side s = c) (approve nid code)"
  "keeps (\<lambda>s. job_side s = c) (reject nid)"
  "keeps (\<lambda>s. job_side s = c) (revoke nid reason)"
  "keeps (\<lambda>s. job_side s = c) (enr_delete nid)"
  unfolding create_pairing_code_def submit_pairing_def approve_def reject_def revoke_def enr_delete_def randbelow_def
  by (intro keeps_rules keeps_writes keeps_modifyM; simp add: job_side_def)+

lemma node_frame:
  "keeps (\<lambda>s. (job_side s, enrollments s) = c) (import_approved_node capm name fp gen expires)"
  "keeps (\<lambda>s. (job_side s, enrollments s) = c) (connect_node capm transport gen peer peer_fp req)"
  "keeps (\<lambda>s. (job_side s, enrollments s) = c) (disconnect_node nid reason)"
  "keeps (\<lambda>s. (job_side s, enrollments s) = c) (expire_stale_nodes age)"
  "keeps (\<lambda>s. (job_side s, enrollments s) = c) (heartbeat_node nid load)"
  "keeps (\<lambda>s. (job_side s, enrollments s) = c) (set_draining nid b)"
  "keeps (\<lambda>s. (job_side s, enrollments s) = c) (request_node_update nid version url sha)"
  "keeps (\<lambda>s. (job_side s, enrollments s) = c) (record_node_update nid did st err)"
  "keeps (\<lambda>s. (job_side s, enrollments s) = c) (request_node_transport nid transport endpoint server sid peer key)"
  "keeps (\<lambda>s. (job_side s, enrollments s) = c) (record_node_transport nid did st err)"
  unfolding import_approved_node_def connect_node_def peer_identity_check_def disconnect_node_def expire_stale_nodes_def
    heartbeat_node_def set_draining_def request_node_update_def record_node_update_def request_node_transport_def
    record_node_transport_def
  by (intro keeps_rules keeps_writes; simp add: job_side_def)+

section \<open>Job operations\<close>

text \<open>What the job, lease and artifact operations leave alone.\<close>

definition grant_side :: "cstate \<Rightarrow> enrollment_rec coll \<times> grant_rec coll \<times> jobj logs" where
  "grant_side s = (enrollments s, grants s, events s)"

lemma keeps_authorized_goal_revision [keeps_rules]: "keeps P (authorized_goal_revision b)"
  unfolding authorized_goal_revision_def by (intro keeps_rules)

lemma keeps_manifest_stale [keeps_rules]: "keeps P (manifest_stale m)"
  unfolding manifest_stale_def by (intro keeps_rules)

lemma keeps_choose_node [keeps_rules]: "keeps P (choose_node m)"
  unfolding choose_node_def by (intro keeps_rules)

lemma keeps_lease_superseded [keeps_rules]: "keeps P (lease_superseded l)"
  unfolding lease_superseded_def by (intro keeps_rules)

lemma lease_scan_frame [keeps_rules]: "keeps (\<lambda>s. (grant_side s, goal_revisions s) = c) (lease_scan nid cap js)"
  by (induction js)
    (auto simp: grant_lease_def grant_side_def intro!: keeps_rules keeps_writes)

lemma job_frame:
  "keeps (\<lambda>s. (grant_side s, goal_revisions s) = c) (lease_next nid)"
  "keeps (\<lambda>s. (grant_side s, goal_revisions s) = c) (acknowledge_lease lid hash gid grev)"
  "keeps (\<lambda>s. (grant_side s, goal_revisions s) = c) (heartbeat_lease lid nid attempt gid grev)"
  "keeps (\<lambda>s. (grant_side s, goal_revisions s) = c) (cancel_job jid reason)"
  "keeps (\<lambda>s. (grant_side s, goal_revisions s) = c) recover_expired_leases"
  "keeps (\<lambda>s. (grant_side s, goal_revisions s) = c) (begin_artifact_upload d)"
  "keeps (\<lambda>s. (grant_side s, goal_revisions s) = c) (finalize_artifact_upload aid digest n)"
  "keeps (\<lambda>s. (grant_side s, goal_revisions s) = c) (record_validator_result jid crit val mthd status)"
  unfolding lease_next_def acknowledge_lease_def heartbeat_lease_def quarantine_lease_submission_def requeue_expired_def
    cancel_job_def recover_expired_leases_def recover_lease_def begin_artifact_upload_def finalize_artifact_upload_def
    record_validator_result_def
  by (intro keeps_rules keeps_writes; simp add: grant_side_def)+

lemma submit_frame:
  "keeps (\<lambda>s. grant_side s = c) (authorize_goal_revision gid n)"
  "keeps (\<lambda>s. grant_side s = c) (submit_job m inputs)"
  unfolding submit_job_def create_job_def submit_goal_check_def authorize_goal_revision_def fence_job_def
  by (intro keeps_rules keeps_writes; simp add: grant_side_def)+

section \<open>Revalidation\<close>

lemma keeps_submit_batch: "(\<And>m. keeps P (submit_job m [])) \<Longrightarrow> keeps P (submit_batch ms ids created)"
  by (induction ms arbitrary: ids created) (auto simp: submit_step_def intro!: keeps_rules)

lemma start_keeps:
  assumes "\<And>m. keeps P (submit_job m [])" and "\<And>s c. P (s\<lparr>revalidation_attempts := c\<rparr>) = P s"
    and "\<And>s c. P (s\<lparr>invalidation_plans := c\<rparr>) = P s" and "\<And>s c. P (s\<lparr>idempotency := c\<rparr>) = P s"
    and "\<And>s c. P (s\<lparr>jobs := c\<rparr>) = P s" and "\<And>s n. P (s\<lparr>uuid_next := n\<rparr>) = P s"
  shows "keeps P (start_revalidation_attempt payload)"
  unfolding start_revalidation_attempt_def start_worker_attempt_def start_host_attempt_def create_revalidation_attempt_def
    build_revalidation_attempt_def preflight_manifest_def run_batch_def rollback_batch_def
  by (intro keeps_rules keeps_writes keeps_submit_batch; simp add: assms)

lemma complete_keeps:
  "(\<And>s c. P (s\<lparr>revalidation_attempts := c\<rparr>) = P s) \<Longrightarrow> keeps P (complete_host_revalidation_attempt payload)"
  unfolding complete_host_revalidation_attempt_def by (intro keeps_rules keeps_writes) simp

lemma revalidation_frame:
  "keeps (\<lambda>s. grant_side s = c) (start_revalidation_attempt payload)"
  "keeps (\<lambda>s. (grant_side s, goal_revisions s) = c') (complete_host_revalidation_attempt payload)"
  by (intro start_keeps complete_keeps submit_frame; simp add: grant_side_def)+

section \<open>Grants, revocation and events\<close>

definition event_side :: "cstate \<Rightarrow> enrollment_rec coll \<times> goal_revision_rec coll \<times> jobj logs" where
  "event_side s = (enrollments s, goal_revisions s, events s)"

lemma keeps_get_grant_rec [keeps_rules]: "keeps P (get_grant_rec g)"
  unfolding get_grant_rec_def by (intro keeps_rules)

lemma grant_frame:
  "keeps (\<lambda>s. event_side s = c) (issue_model_grant jid nid aud scopes purposes pol mc mt mx mcost ttl)"
  "keeps (\<lambda>s. event_side s = c) (consume_model_grant gid run jid nid aud sc pu tok cost)"
  "keeps (\<lambda>s. event_side s = c) (begin_model_grant_call gid run jid nid aud sc pu tok)"
  "keeps (\<lambda>s. event_side s = c) (finish_model_grant_call gid cid tok cost out)"
  "keeps (\<lambda>s. event_side s = c) (revoke_model_grant gid)"
  "keeps (\<lambda>s. event_side s = c) (revoke_node nid reason)"
  "keeps (\<lambda>s. event_side s = c) (delete_node nid)"
  unfolding issue_model_grant_def consume_model_grant_def begin_model_grant_call_def finish_model_grant_call_def
    revoke_model_grant_def delete_node_def revoke_node_def revoke_jobs_def revoke_grants_def
  by (intro keeps_rules keeps_writes; simp add: event_side_def)+

lemma apply_frame [keeps_rules]: "keeps (\<lambda>s. (enrollments s, goal_revisions s, grants s) = c) (apply_terminal_transaction tx)"
  unfolding apply_terminal_transaction_def update_revalidation_attempt_for_job_def
  by (intro keeps_rules keeps_writes; simp)

lemma record_event_frame:
  "keeps (\<lambda>s. (enrollments s, goal_revisions s) = c) (record_event e)"
  "keeps (\<lambda>s. (enrollments s, goal_revisions s, grants s) = c') recover_terminal_transactions"
proof -
  have "keeps (\<lambda>s. (enrollments s, goal_revisions s) = c) (apply_terminal_transaction tx)" for tx
    unfolding apply_terminal_transaction_def update_revalidation_attempt_for_job_def by (intro keeps_rules keeps_writes; simp)
  then show "keeps (\<lambda>s. (enrollments s, goal_revisions s) = c) (record_event e)"
    unfolding record_event_def record_event_locked_def recover_terminal_transactions_for_job_def recover_terminal_transaction_def
      event_goal_check_def event_owner_check_def event_lease_check_def quarantine_event_def requeue_expired_def commit_event_def
      authoritative_terminal_artifacts_def check_artifact_def commit_terminal_event_def revoke_model_grant_def quarantine_lease_submission_def
    by (intro keeps_rules keeps_writes; simp)
  show "keeps (\<lambda>s. (enrollments s, goal_revisions s, grants s) = c') recover_terminal_transactions"
    unfolding recover_terminal_transactions_def by (intro keeps_rules)
qed
section \<open>Invariants\<close>

lemma keeps_of_frame: "(\<And>c. keeps (\<lambda>s. g s = c) m) \<Longrightarrow> (\<And>s t. g s = g t \<Longrightarrow> P s = P t) \<Longrightarrow> keeps P m"
  using keeps_frame_all [of g m] by (metis keepsI)

text \<open>No log has two terminal events.\<close>

lemmas event_frames = enrollment_frame node_frame job_frame submit_frame revalidation_frame grant_frame

lemma one_terminal_of_events: "events s = events t \<Longrightarrow> one_terminal s = one_terminal t"
  by (simp add: one_terminal_def terminal_entries_def)

lemma one_terminal_op: "public_op m \<Longrightarrow> keeps one_terminal m"
  by (induction rule: public_op.induct; rule keeps_void)
    (rule record_event_one_terminal recover_one_terminal, assumption?
     | (rule event_frames [THEN keeps_of_frame], rule one_terminal_of_events,
         simp add: job_side_def grant_side_def event_side_def; fail))+

interpretation terminal_events: coordinator_invariant one_terminal
  by unfold_locales (auto intro: one_terminal_op simp: one_terminal_def terminal_entries_def)

text \<open>An enrollment never counts more wrong codes than it tolerates.\<close>

lemma enrollments_bounded_cong: "enrollments s = enrollments t \<Longrightarrow> enrollments_bounded s = enrollments_bounded t"
  by (simp add: enrollments_bounded_def)

lemma approval_enrollments:
  "keeps (\<lambda>s. enrollments s = c) (approve nid code)" "keeps (\<lambda>s. enrollments s = c) (reject nid)"
  "keeps (\<lambda>s. enrollments s = c) (revoke nid reason)" "keeps (\<lambda>s. enrollments s = c) (enr_delete nid)"
  unfolding approve_def reject_def revoke_def enr_delete_def by (intro keeps_rules keeps_writes; simp)+

lemmas enrollment_frames = approval_enrollments node_frame job_frame submit_frame revalidation_frame grant_frame record_event_frame

lemma enrollments_bounded_op: "public_op m \<Longrightarrow> keeps enrollments_bounded m"
  by (induction rule: public_op.induct; rule keeps_void)
    (rule create_pairing_code_bounded submit_pairing_bounded
     | (rule enrollment_frames [THEN keeps_of_frame], rule enrollments_bounded_cong,
         simp add: grant_side_def event_side_def; fail))+

interpretation enrollment_guesses: coordinator_invariant enrollments_bounded
  by unfold_locales (auto intro: enrollments_bounded_op simp: enrollments_bounded_def)

text \<open>The authorised revision of a goal never moves back.\<close>

lemma watermark_cong: "goal_revisions s = goal_revisions t \<Longrightarrow> watermark g n s = watermark g n t"
  by (simp add: watermark_def)

lemma start_watermark: "keeps (watermark g n) (start_revalidation_attempt payload)"
  by (rule start_keeps) (simp_all add: submit_job_watermark watermark_def)

lemmas revision_frames = enrollment_frame node_frame job_frame revalidation_frame(2) grant_frame record_event_frame

lemma watermark_op: "public_op m \<Longrightarrow> keeps (watermark g n) m"
  by (induction rule: public_op.induct; rule keeps_void)
    (rule authorize_watermark submit_job_watermark start_watermark
     | (rule revision_frames [THEN keeps_of_frame], rule watermark_cong,
         simp add: job_side_def event_side_def; fail))+

interpretation goal_watermark: coordinator_invariant "watermark g n" for g n
  by unfold_locales (auto intro: watermark_op simp: watermark_def)

text \<open>No grant exceeds its budget, also when its node is revoked or its job ends.\<close>

definition grants_fine :: "cstate \<Rightarrow> bool" where
  "grants_fine s \<longleftrightarrow> grants_ok s \<and> coll_wf (grants s)"

lemma grants_fine_cong: "grants s = grants t \<Longrightarrow> grants_fine s = grants_fine t"
  by (simp add: grants_fine_def grants_ok_def)

lemma grants_wf:
  "keeps (\<lambda>s. coll_wf (grants s)) (issue_model_grant jid nid aud scopes purposes pol mc mt mx mcost ttl)"
  "keeps (\<lambda>s. coll_wf (grants s)) (consume_model_grant gid run jid nid aud sc pu tok cost)"
  "keeps (\<lambda>s. coll_wf (grants s)) (begin_model_grant_call gid run jid nid aud sc pu tok)"
  "keeps (\<lambda>s. coll_wf (grants s)) (finish_model_grant_call gid cid tok cost out)"
  "keeps (\<lambda>s. coll_wf (grants s)) (revoke_model_grant gid)"
  unfolding issue_model_grant_def consume_model_grant_def begin_model_grant_call_def finish_model_grant_call_def
    revoke_model_grant_def
  by (intro keeps_rules keeps_writes; auto simp: coll_put_Inr coll_wf_upd)+

lemma grant_ops_fine:
  "keeps grants_fine (issue_model_grant jid nid aud scopes purposes pol mc mt mx mcost ttl)"
  "keeps grants_fine (consume_model_grant gid run jid nid aud sc pu tok cost)"
  "keeps grants_fine (begin_model_grant_call gid run jid nid aud sc pu tok)"
  "keeps grants_fine (finish_model_grant_call gid cid tok cost out)"
  "keeps grants_fine (revoke_model_grant gid)"
  unfolding grants_fine_def by (intro keeps_conj issue_ok consume_ok begin_ok finish_ok revoke_grant_ok grants_wf)+

lemma coll_list_mem: "coll_wf c \<Longrightarrow> v \<in> set (coll_list c) \<Longrightarrow> \<exists>k. map_of c k = Some v"
  by (force simp: coll_list_def coll_wf_distinct map_of_eq_Some_iff)

lemma revoked_grant_ok: "grant_ok g \<Longrightarrow> grant_ok (grant_of_revoked_node now g)"
  by (simp add: grant_ok_def grant_of_revoked_node_def)

lemma put_grant_fine: "grant_ok g \<Longrightarrow> keeps grants_fine (put_grant i g)"
  by (rule keeps_st_put) (auto simp: grants_fine_def grants_ok_def coll_put_Inr coll_wf_upd)

lemma revoke_grants_fine: "(\<And>g. g \<in> set gs \<Longrightarrow> grant_ok g) \<Longrightarrow> keeps grants_fine (revoke_grants nid gs)"
  unfolding revoke_grants_def by (intro keeps_rules put_grant_fine revoked_grant_ok) simp

lemma revoke_listed_fine: "keeps grants_fine m \<Longrightarrow>
    keeps grants_fine (bindM (listM grants) (\<lambda>gs. thenM (revoke_grants nid gs) m))"
proof (rule keeps_via_wp)
  fix s assume m: "keeps grants_fine m" and f: "grants_fine s"
  have "grant_ok g" if "g \<in> set (coll_list (grants s))" for g
    using f coll_list_mem [OF _ that] by (auto simp: grants_fine_def grants_ok_def coll_all_def)
  then have "keeps grants_fine (thenM (revoke_grants nid (coll_list (grants s))) m)"
    by (intro keeps_rules revoke_grants_fine m)
  then show "wpM (bindM (listM grants) (\<lambda>gs. thenM (revoke_grants nid gs) m)) (\<lambda>_. grants_fine) (\<lambda>_. grants_fine) s"
    using f by (simp add: wp keeps_iff_wp)
qed

lemma grants_fine_frame: "grants_fine (s\<lparr>jobs := c\<rparr>) = grants_fine s" "grants_fine (s\<lparr>nodes := c'\<rparr>) = grants_fine s"
  "grants_fine (s\<lparr>audit := a\<rparr>) = grants_fine s" "grants_fine (s\<lparr>events := l\<rparr>) = grants_fine s"
  "grants_fine (s\<lparr>quarantine := l'\<rparr>) = grants_fine s" "grants_fine (s\<lparr>terminal_transactions := x\<rparr>) = grants_fine s"
  "grants_fine (s\<lparr>clk := now\<rparr>) = grants_fine s"
  by (simp_all add: grants_fine_def grants_ok_def)

lemma revoke_node_fine [keeps_rules]: "keeps grants_fine (revoke_node nid reason)"
  unfolding revoke_node_def revoke_jobs_def Let_def
  by (intro keeps_lockM keeps_coord_node keeps_getsM keeps_retM keeps_forM keeps_if revoke_listed_fine keeps_bindM keeps_thenM keeps_writes)
    (simp_all add: grants_fine_frame)

lemma delete_node_fine: "keeps grants_fine (delete_node nid)"
  unfolding delete_node_def by (intro keeps_rules keeps_writes) (simp_all add: grants_fine_frame)

lemma apply_fine: "keeps grants_fine (apply_terminal_transaction tx)"
  by (rule apply_frame [THEN keeps_of_frame], rule grants_fine_cong) simp

lemma record_event_fine: "keeps grants_fine (record_event e)"
  unfolding record_event_def record_event_locked_def recover_terminal_transactions_for_job_def recover_terminal_transaction_def
    event_goal_check_def event_owner_check_def event_lease_check_def quarantine_event_def requeue_expired_def commit_event_def
    authoritative_terminal_artifacts_def check_artifact_def commit_terminal_event_def quarantine_lease_submission_def
  by (intro keeps_rules grant_ops_fine apply_fine keeps_writes; simp add: grants_fine_frame)

lemmas grant_frames = enrollment_frame node_frame job_frame submit_frame revalidation_frame record_event_frame(2)

lemma grants_fine_op: "public_op m \<Longrightarrow> keeps grants_fine m"
  by (induction rule: public_op.induct; rule keeps_void)
    (rule grant_ops_fine revoke_node_fine delete_node_fine record_event_fine
     | (rule grant_frames [THEN keeps_of_frame], rule grants_fine_cong,
         simp add: job_side_def grant_side_def; fail))+

interpretation grant_budgets: coordinator_invariant grants_fine
  by unfold_locales (auto intro: grants_fine_op simp: grants_fine_frame)

section \<open>Reachable states\<close>

text \<open>C2: the coordinator is safe in every run. From an empty store, whatever sequence of public
  operations is called with whatever arguments while time passes, no job's log ever holds two
  terminal events, no model grant exceeds its call, token, cost or concurrency budget, no pairing
  accepts more guesses than it tolerates, and along any run the authorised revision of a goal
  never moves back.\<close>

theorem coordinator_run_safe:
  assumes "coord_step\<^sup>*\<^sup>* (init_cstate now secs uuids rands secret E) s" and "coord_step\<^sup>*\<^sup>* s t"
  shows "one_terminal s \<and> grants_ok s \<and> enrollments_bounded s \<and> (watermark g n s \<longrightarrow> watermark g n t)"
proof -
  let ?i = "init_cstate now secs uuids rands secret E"
  have "one_terminal ?i" "grants_fine ?i" "enrollments_bounded ?i"
    by (simp_all add: init_cstate_def one_terminal_def terminal_entries_def log_entries_def grants_fine_def grants_ok_def
        enrollments_bounded_def coll_wf_def)
  then have "one_terminal s" "grants_fine s" "enrollments_bounded s"
    using assms(1) terminal_events.run_keeps grant_budgets.run_keeps enrollment_guesses.run_keeps by blast+
  then show ?thesis using goal_watermark.run_keeps [OF assms(2)] by (auto simp: grants_fine_def)
qed

theorem coordinator_run_safe_witness:
  "\<exists>t. coord_step\<^sup>*\<^sup>* sample_state t \<and> one_terminal t \<and> grants_ok t \<and> jobs t \<noteq> []"
proof -
  let ?t = "snd (void (submit_job sample_manifest []) sample_state)"
  have r: "coord_step\<^sup>*\<^sup>* sample_state ?t"
    by (intro r_into_rtranclp coord_step.operation public_op.intros)
  have "wpM (submit_job sample_manifest []) (\<lambda>_ t. jobs t \<noteq> []) (\<lambda>_ _. False) sample_state"
    unfolding submit_job_def create_job_def submit_goal_check_def
    by (intro vcg) (auto simp: sample_manifest_def coll_get_def eval_ids opt_truthy_def validate_inputs_def
        declared_inputs_def sdict_def new_job_def)
  then have "jobs ?t \<noteq> []" by (auto simp: wpM_returns void_def monad_defs)
  moreover have "one_terminal ?t \<and> grants_ok ?t"
    using coordinator_run_safe [OF r [unfolded sample_state_def] rtranclp.rtrancl_refl] by (simp add: sample_state_def)
  ultimately show ?thesis using r by blast
qed

end
