(* ===== verification/GoalContracts.thy ===== *)
theory GoalContracts
  imports ProtocolFacts
begin

text \<open>
  Goal contracts and change proposals (\<open>goal_contracts.py\<close>): canonical JSON with safe
  integers, normalised text, the checks on a contract and on a proposal, and the paths of a
  contract that only the host may change.
\<close>

section \<open>Canonical values and text\<close>

definition GOAL_CONTRACT_SCHEMA :: string where
  "GOAL_CONTRACT_SCHEMA = ''across-goal-contract/1.0''"
definition GOAL_CHANGE_PROPOSAL_SCHEMA :: string where
  "GOAL_CHANGE_PROPOSAL_SCHEMA = ''across-goal-change-proposal/1.0''"
definition EXECUTION_PROFILES :: "string list" where
  "EXECUTION_PROFILES = [''direct'', ''orchestrated'', ''workflow-pack'']"
definition REVIEW_POLICIES :: "string list" where
  "REVIEW_POLICIES = [''automatic'', ''human'', ''independent_agent'', ''quality_gate'', ''security_policy'']"
definition PROPOSAL_OPERATIONS :: "string list" where
  "PROPOSAL_OPERATIONS = [''add'', ''replace'', ''remove'']"
definition PROPOSAL_DECISIONS :: "string list" where
  "PROPOSAL_DECISIONS = [''pending'', ''accepted'', ''partially_accepted'', ''rejected'', ''superseded'']"
definition HOST_OWNED_PATHS :: "string list" where
  "HOST_OWNED_PATHS = [''/confirmed_by'', ''/confirmed_at'', ''/revision'', ''/goal_id'', ''/task_id'']"

definition is_host_owned_path :: "string \<Rightarrow> bool" where
  "is_host_owned_path path \<longleftrightarrow> list_ex (\<lambda>owned. path = owned \<or> py_startswith path (owned @ ''/'')) HOST_OWNED_PATHS"

text \<open>\<open>re.sub(r"\s+", " ", text)\<close>\<close>

lemma dropWhile_shorter [termination_simp]: "length (dropWhile P xs) < Suc (length xs)"
  by (simp add: le_imp_less_Suc length_dropWhile_le)

fun collapse_space :: "string \<Rightarrow> string" where
  "collapse_space [] = []"
| "collapse_space (c # cs) = (if is_space c then CHR '' '' # collapse_space (dropWhile is_space cs)
     else c # collapse_space cs)"

definition normalized_text :: "pyenv \<Rightarrow> json \<Rightarrow> string" where
  "normalized_text E v = (if v = JNull then [] else py_strip (collapse_space (nfkc E (py_str E v))))"

definition required_text :: "pyenv \<Rightarrow> json \<Rightarrow> string \<Rightarrow> string res" where
  "required_text E v name = (let t = normalized_text E v in
     if t = [] then Inl (ValueError (name @ '' is required'')) else Inr t)"

definition positive_revision :: "json \<Rightarrow> string \<Rightarrow> int res" where
  "positive_revision v name = (case v of
      JInt i \<Rightarrow> if 1 \<le> i then Inr i else Inl (ValueError (name @ '' must be a positive integer''))
    | _ \<Rightarrow> Inl (ValueError (name @ '' must be a positive integer'')))"

definition mapping_of :: "json \<Rightarrow> string \<Rightarrow> jobj res" where
  "mapping_of v name = (case v of JObj o' \<Rightarrow> Inr o' | _ \<Rightarrow> Inl (ValueError (name @ '' must be an object'')))"

definition string_list_check :: "json \<Rightarrow> string \<Rightarrow> unit res" where
  "string_list_check v name = (case v of
      JArr xs \<Rightarrow> checkE (list_all (\<lambda>x. case x of JStr s \<Rightarrow> py_strip s \<noteq> [] | _ \<Rightarrow> False) xs)
        (ValueError (name @ '' must be an array of non-empty strings''))
    | _ \<Rightarrow> Inl (ValueError (name @ '' must be an array of non-empty strings'')))"

definition safe_int_bound :: int where
  "safe_int_bound = 2 ^ 53 - 1"

fun canonical_value :: "json \<Rightarrow> json res" where
  "canonical_value (JObj o') =
     bindE (mapE (\<lambda>p. bindE (canonical_value (snd p)) (\<lambda>v. Inr (fst p, v))) o') (\<lambda>r. Inr (JObj r))"
| "canonical_value (JArr xs) = bindE (mapE canonical_value xs) (\<lambda>r. Inr (JArr r))"
| "canonical_value (JInt i) = (if \<bar>i\<bar> > safe_int_bound
     then Inl (ValueError ''Goal Contract numbers must be finite safe integers'') else Inr (JInt i))"
| "canonical_value (JFloat r) = (if r \<noteq> of_int \<lfloor>r\<rfloor> \<or> \<bar>r\<bar> > of_int safe_int_bound
     then Inl (ValueError ''Goal Contract numbers must be finite safe integers'') else Inr (JInt \<lfloor>r\<rfloor>))"
| "canonical_value v = Inr v"

definition goal_canonical_json :: "pyenv \<Rightarrow> jobj \<Rightarrow> string res" where
  "goal_canonical_json E v = (case canonical_value (JObj v) of
      Inl _ \<Rightarrow> Inl (ValueError ''goal protocol values must be canonical JSON'')
    | Inr c \<Rightarrow> Inr (dumps_sorted E c))"

definition criterion_id :: "pyenv \<Rightarrow> string \<Rightarrow> string \<Rightarrow> string res" where
  "criterion_id E description validator_kind =
     bindE (required_text E (JStr description) ''description'') (\<lambda>d.
     bindE (required_text E (JStr validator_kind) ''validator_kind'') (\<lambda>v.
     Inr (''criterion-'' @ take 16 (sha256_hex (py_lower v @ [CHR 0x0A] @ d)))))"

definition stable_goal_hash :: "pyenv \<Rightarrow> jobj \<Rightarrow> string res" where
  "stable_goal_hash E v = bindE (goal_canonical_json E v) (\<lambda>payload. Inr (sha256_hex payload))"

section \<open>Contracts\<close>

text \<open>\<open>value in {...}\<close> for a set of strings: lists and dicts are not hashable.\<close>

definition in_names :: "json \<Rightarrow> string list \<Rightarrow> bool res" where
  "in_names v names = (case v of
      JStr s \<Rightarrow> Inr (s \<in> set names)
    | JArr _ \<Rightarrow> Inl (TypeError ''unhashable type'')
    | JObj _ \<Rightarrow> Inl (TypeError ''unhashable type'')
    | _ \<Rightarrow> Inr False)"

definition require_in :: "json \<Rightarrow> string list \<Rightarrow> string \<Rightarrow> unit res" where
  "require_in v names message = bindE (in_names v names) (\<lambda>ok. checkE ok (ValueError message))"

definition require_bool :: "json \<Rightarrow> string \<Rightarrow> unit res" where
  "require_bool v message = checkE (is_jbool v) (ValueError message)"

fun check_criteria :: "pyenv \<Rightarrow> nat \<Rightarrow> string list \<Rightarrow> json list \<Rightarrow> unit res" where
  "check_criteria E index seen [] = Inr ()"
| "check_criteria E index seen (raw # rest) =
     bindE (mapping_of raw (''acceptance_criteria['' @ nat_str index @ '']'')) (\<lambda>criterion.
     bindE (required_text E (jget criterion ''criterion_id'') ''criterion_id'') (\<lambda>identifier.
     bindE (checkE (identifier \<notin> set seen) (ValueError (''duplicate criterion_id: '' @ identifier))) (\<lambda>_.
     bindE (required_text E (jget criterion ''description'') ''criterion description'') (\<lambda>_.
     bindE (require_bool (jget criterion ''required'') ''criterion required must be a boolean'') (\<lambda>_.
     bindE (required_text E (jget criterion ''validator_kind'') ''validator_kind'') (\<lambda>_.
     bindE (require_in (jget criterion ''review_policy'') REVIEW_POLICIES ''criterion review_policy is invalid'') (\<lambda>_.
     bindE (required_text E (jget criterion ''source'') ''criterion source'') (\<lambda>_.
     check_criteria E (Suc index) (identifier # seen) rest))))))))"

definition non_empty_array :: "json \<Rightarrow> string \<Rightarrow> json list res" where
  "non_empty_array v message = (case v of JArr (x # xs) \<Rightarrow> Inr (x # xs) | _ \<Rightarrow> Inl (ValueError message))"

definition check_contract :: "pyenv \<Rightarrow> jobj \<Rightarrow> unit res" where
  "check_contract E c =
     bindE (checkE (py_eq (jget c ''schema_version'') (JStr GOAL_CONTRACT_SCHEMA))
       (ValueError (''schema_version must be '' @ GOAL_CONTRACT_SCHEMA))) (\<lambda>_.
     bindE (required_text E (jget c ''goal_id'') ''goal_id'') (\<lambda>_.
     bindE (positive_revision (jget c ''revision'') ''revision'') (\<lambda>_.
     bindE (required_text E (jget c ''task_id'') ''task_id'') (\<lambda>_.
     bindE (required_text E (jget c ''statement'') ''statement'') (\<lambda>_.
     bindE (required_text E (jget c ''success_outcome'') ''success_outcome'') (\<lambda>_.
     bindE (mapping_of (jget c ''scope'') ''scope'') (\<lambda>scope.
     bindE (string_list_check (jget scope ''includes'') ''scope.includes'') (\<lambda>_.
     bindE (string_list_check (jget scope ''excludes'') ''scope.excludes'') (\<lambda>_.
     bindE (non_empty_array (jget c ''acceptance_criteria'') ''acceptance_criteria must be a non-empty array'') (\<lambda>criteria.
     bindE (check_criteria E 0 [] criteria) (\<lambda>_.
     bindE (checkE (case jget c ''dependencies'' of JArr _ \<Rightarrow> True | _ \<Rightarrow> False)
       (ValueError ''dependencies must be an array'')) (\<lambda>_.
     bindE (require_in (jget c ''execution_profile'') EXECUTION_PROFILES ''execution_profile is invalid'') (\<lambda>_.
     bindE (required_text E (jget c ''source'') ''source'') (\<lambda>_.
     bindE (checkE (truthy (jget c ''confirmed_by'') = truthy (jget c ''confirmed_at''))
       (ValueError ''confirmed_by and confirmed_at must be supplied together'')) (\<lambda>_.
     bindE (if jhas c ''confirmed_by'' \<or> jhas c ''confirmed_at'' then
        bindE (required_text E (jget c ''confirmed_by'') ''confirmed_by'') (\<lambda>_.
        required_text E (jget c ''confirmed_at'') ''confirmed_at'') else Inr []) (\<lambda>_.
     bindE (required_text E (jget c ''created_at'') ''created_at'') (\<lambda>_.
     bindE (goal_canonical_json E c) (\<lambda>_. Inr ()))))))))))))))))))"

definition canonical_object :: "jobj \<Rightarrow> jobj res" where
  "canonical_object v = bindE (canonical_value (JObj v)) (\<lambda>c. case c of JObj o' \<Rightarrow> Inr o' | _ \<Rightarrow> Inr [])"

definition normalize_goal_contract :: "pyenv \<Rightarrow> json \<Rightarrow> jobj res" where
  "normalize_goal_contract E value =
     bindE (mapping_of value ''goal contract'') (\<lambda>v.
     bindE (canonical_object v) (\<lambda>contract.
     bindE (check_contract E contract) (\<lambda>_. Inr contract)))"

section \<open>Change proposals\<close>

fun check_operations :: "pyenv \<Rightarrow> nat \<Rightarrow> json list \<Rightarrow> unit res" where
  "check_operations E index [] = Inr ()"
| "check_operations E index (raw # rest) =
     bindE (mapping_of raw (''operations['' @ nat_str index @ '']'')) (\<lambda>operation.
     bindE (require_in (jget operation ''op'') PROPOSAL_OPERATIONS ''proposal operation is invalid'') (\<lambda>_.
     bindE (required_text E (jget operation ''path'') ''operation path'') (\<lambda>path.
     bindE (checkE (py_startswith path ''/'' \<and> \<not> is_host_owned_path path)
       (ValueError ''proposal operation targets host-owned fields'')) (\<lambda>_.
     bindE (checkE (jget operation ''op'' = JStr ''remove'' \<or> jhas operation ''value'')
       (ValueError ''proposal operation value is required'')) (\<lambda>_.
     check_operations E (Suc index) rest)))))"

definition check_proposal :: "pyenv \<Rightarrow> jobj \<Rightarrow> unit res" where
  "check_proposal E p =
     bindE (checkE (py_eq (jget p ''schema_version'') (JStr GOAL_CHANGE_PROPOSAL_SCHEMA))
       (ValueError (''schema_version must be '' @ GOAL_CHANGE_PROPOSAL_SCHEMA))) (\<lambda>_.
     bindE (required_text E (jget p ''proposal_id'') ''proposal_id'') (\<lambda>_.
     bindE (required_text E (jget p ''goal_id'') ''goal_id'') (\<lambda>_.
     bindE (positive_revision (jget p ''base_goal_revision'') ''base_goal_revision'') (\<lambda>_.
     bindE (required_text E (jget p ''proposed_by'') ''proposed_by'') (\<lambda>_.
     bindE (required_text E (jget p ''reason'') ''reason'') (\<lambda>_.
     bindE (non_empty_array (jget p ''operations'') ''operations must be a non-empty array'') (\<lambda>operations.
     bindE (check_operations E 0 operations) (\<lambda>_.
     bindE (mapping_of (jget p ''impact_summary'') ''impact_summary'') (\<lambda>impact.
     bindE (string_list_check (jget impact ''goal_ids'') ''impact_summary.goal_ids'') (\<lambda>_.
     bindE (string_list_check (jget impact ''criterion_ids'') ''impact_summary.criterion_ids'') (\<lambda>_.
     bindE (string_list_check (jget impact ''evidence_ids'') ''impact_summary.evidence_ids'') (\<lambda>_.
     bindE (require_bool (jget impact ''requires_revalidation'') ''impact_summary.requires_revalidation must be a boolean'') (\<lambda>_.
     bindE (mapping_of (jget p ''risk_summary'') ''risk_summary'') (\<lambda>_.
     bindE (mapping_of (jget p ''estimated_cost'') ''estimated_cost'') (\<lambda>_.
     bindE (string_list_check (jget p ''alternatives'') ''alternatives'') (\<lambda>_.
     bindE (require_in (jget p ''decision_state'') PROPOSAL_DECISIONS ''decision_state is invalid'') (\<lambda>_.
     bindE (required_text E (jget p ''created_at'') ''created_at'') (\<lambda>_.
     bindE (goal_canonical_json E p) (\<lambda>_. Inr ())))))))))))))))))))"

definition normalize_goal_change_proposal :: "pyenv \<Rightarrow> json \<Rightarrow> jobj res" where
  "normalize_goal_change_proposal E value =
     bindE (mapping_of value ''goal change proposal'') (\<lambda>v.
     bindE (canonical_object v) (\<lambda>proposal.
     bindE (check_proposal E proposal) (\<lambda>_. Inr proposal)))"

section \<open>Lemmas\<close>

lemma mapE_idem:
  assumes "mapE f xs = Inr ys" and "\<And>x y. x \<in> set xs \<Longrightarrow> f x = Inr y \<Longrightarrow> f y = Inr y"
  shows "mapE f ys = Inr ys"
  using assms
proof (induction xs arbitrary: ys)
  case (Cons x xs)
  then obtain y zs where "f x = Inr y" "mapE f xs = Inr zs" "ys = y # zs" by (auto simp: res_iff)
  moreover from this have "f y = Inr y" using Cons.prems(2) by (meson list.set_intros(1))
  moreover have "mapE f zs = Inr zs" using Cons calculation by (meson list.set_intros(2))
  ultimately show ?case by simp
qed simp

lemma canonical_value_idem: "canonical_value v = Inr c \<Longrightarrow> canonical_value c = Inr c"
proof (induction v arbitrary: c)
  case (JArr xs)
  then obtain r where r: "mapE canonical_value xs = Inr r" "c = JArr r" by (auto simp: res_iff)
  have "mapE canonical_value r = Inr r"
    using JArr.IH by (intro mapE_idem [OF r(1)]) blast
  then show ?case by (simp add: r)
next
  case (JObj ps)
  let ?f = "\<lambda>p. bindE (canonical_value (snd p)) (\<lambda>v. Inr (fst p, v))"
  obtain r where r: "mapE ?f ps = Inr r" "c = JObj r" using JObj.prems by (auto simp: res_iff)
  have "mapE ?f r = Inr r"
    by (rule mapE_idem [OF r(1)]) (use JObj.IH in \<open>force simp: res_iff\<close>)
  then show ?case by (simp add: r)
qed (auto split: if_splits)

lemma canonical_object_Inr [res_iff]: "canonical_object v = Inr c \<longleftrightarrow> canonical_value (JObj v) = Inr (JObj c)"
  by (simp add: canonical_object_def bindE_assoc bindE_Inr_iff)

lemma mapping_of_Inr [res_iff]: "mapping_of v n = Inr o' \<longleftrightarrow> v = JObj o'"
  by (auto simp: mapping_of_def split: json.splits)

lemma non_empty_array_Inr [res_iff]: "non_empty_array v m = Inr xs \<longleftrightarrow> v = JArr xs \<and> xs \<noteq> []"
  by (auto simp: non_empty_array_def split: json.splits list.splits)

lemma require_in_Inr [res_iff]: "require_in v names m = Inr u \<longleftrightarrow> (\<exists>s\<in>set names. v = JStr s)"
  by (cases v) (auto simp: require_in_def in_names_def res_iff)

lemma required_text_Inr [res_iff]: "required_text E v n = Inr t \<longleftrightarrow> t = normalized_text E v \<and> t \<noteq> []"
  by (auto simp: required_text_def Let_def)

lemma goal_canonical_json_Inr [res_iff]:
  "goal_canonical_json E v = Inr t \<longleftrightarrow> (\<exists>c. canonical_value (JObj v) = Inr c \<and> t = dumps_sorted E c)"
  by (auto simp: goal_canonical_json_def split: sum.splits)

lemma canonical_object_idem: "canonical_object v = Inr c \<Longrightarrow> canonical_object c = Inr c"
  by (metis canonical_object_Inr canonical_value_idem)

lemma canonical_object_hash: "canonical_object v = Inr c \<Longrightarrow> stable_goal_hash E c = stable_goal_hash E v"
  by (metis (no_types, lifting) canonical_object_Inr canonical_value_idem goal_canonical_json_def stable_goal_hash_def)

text \<open>Only safe integers remain in a canonical value.\<close>

fun safe_numbers :: "json \<Rightarrow> bool" where
  "safe_numbers (JObj o') = list_all (\<lambda>p. safe_numbers (snd p)) o'"
| "safe_numbers (JArr xs) = list_all safe_numbers xs"
| "safe_numbers (JInt i) = (\<bar>i\<bar> \<le> safe_int_bound)"
| "safe_numbers (JFloat r) = False"
| "safe_numbers v = True"

lemma floor_bound: "r = of_int \<lfloor>r\<rfloor> \<Longrightarrow> \<bar>r\<bar> \<le> of_int b \<Longrightarrow> \<bar>\<lfloor>r\<rfloor>\<bar> \<le> b" for r :: rat
  by (metis of_int_abs of_int_le_iff)

lemma canonical_value_safe: "canonical_value v = Inr c \<Longrightarrow> safe_numbers c"
proof (induction v arbitrary: c)
  case (JFloat r)
  then show ?case by (auto split: if_splits intro!: floor_bound)
next
  case (JArr xs)
  then obtain r where "mapE canonical_value xs = Inr r" "c = JArr r" by (auto simp: res_iff)
  then show ?case using JArr.IH by (auto simp: list_all_iff dest: mapE_Inr_set)
next
  case (JObj ps)
  then obtain r where r: "mapE (\<lambda>p. bindE (canonical_value (snd p)) (\<lambda>v. Inr (fst p, v))) ps = Inr r" "c = JObj r"
    by (auto simp: res_iff)
  then show ?case using JObj.IH by (force simp: list_all_iff res_iff dest: mapE_Inr_set)
qed (auto split: if_splits)

text \<open>The paths and the criterion ids that pass the loops.\<close>

lemma check_operations_Inr:
  "check_operations E i raws = Inr () \<Longrightarrow> raw \<in> set raws \<Longrightarrow>
   \<exists>op. raw = JObj op \<and> (let path = normalized_text E (jget op ''path'') in
     py_startswith path ''/'' \<and> \<not> is_host_owned_path path)
     \<and> (\<exists>k\<in>set PROPOSAL_OPERATIONS. jget op ''op'' = JStr k)
     \<and> (jget op ''op'' = JStr ''remove'' \<or> jhas op ''value'')"
  by (induction E i raws rule: check_operations.induct)
    (auto simp: res_iff Let_def)

definition criterion_ids_of :: "pyenv \<Rightarrow> json list \<Rightarrow> string list" where
  "criterion_ids_of E raws = map (\<lambda>raw. case raw of
     JObj c \<Rightarrow> normalized_text E (jget c ''criterion_id'') | _ \<Rightarrow> []) raws"

lemma check_criteria_Inr:
  "check_criteria E i seen raws = Inr () \<Longrightarrow>
   distinct (criterion_ids_of E raws) \<and> set (criterion_ids_of E raws) \<inter> set seen = {}
   \<and> [] \<notin> set (criterion_ids_of E raws)"
proof (induction E i seen raws rule: check_criteria.induct)
  case (2 E i seen raw rest)
  then obtain c where c: "raw = JObj c" "normalized_text E (jget c ''criterion_id'') \<noteq> []"
    "normalized_text E (jget c ''criterion_id'') \<notin> set seen"
    "check_criteria E (Suc i) (normalized_text E (jget c ''criterion_id'') # seen) rest = Inr ()"
    by (auto simp: res_iff)
  then have "distinct (criterion_ids_of E rest)
      \<and> set (criterion_ids_of E rest) \<inter> set (normalized_text E (jget c ''criterion_id'') # seen) = {}
      \<and> [] \<notin> set (criterion_ids_of E rest)"
    using "2.IH" by (simp add: mapping_of_def required_text_def Let_def)
      (use "2.prems" in \<open>auto simp: res_iff\<close>)
  then show ?case using c by (auto simp: criterion_ids_of_def)
qed (simp add: criterion_ids_of_def)

section \<open>Properties\<close>

text \<open>A normalised goal contract is a normal form. It is accepted again unchanged, every
  number in it is a safe integer, its stable hash is that of the contract it came from, its
  revision is positive, and its acceptance criteria are non-empty and have distinct non-empty
  normalised ids.\<close>

theorem goal_contract_normal_form:
  assumes "normalize_goal_contract E v = Inr c"
  shows "normalize_goal_contract E (JObj c) = Inr c \<and> safe_numbers (JObj c)
    \<and> (\<exists>o' h. v = JObj o' \<and> stable_goal_hash E o' = Inr h \<and> stable_goal_hash E c = Inr h \<and> is_sha256_hex h)
    \<and> (\<exists>r. jget c ''revision'' = JInt r \<and> 1 \<le> r)
    \<and> (\<exists>raws. jget c ''acceptance_criteria'' = JArr raws \<and> raws \<noteq> [] \<and> distinct (criterion_ids_of E raws)
         \<and> [] \<notin> set (criterion_ids_of E raws))"
proof -
  obtain o' where v: "v = JObj o'" and can: "canonical_object o' = Inr c" and chk: "check_contract E c = Inr ()"
    using assms by (auto simp: normalize_goal_contract_def bindE_Inr_iff mapping_of_Inr)
  have "normalize_goal_contract E (JObj c) = Inr c"
    using canonical_object_idem [OF can] chk by (simp add: normalize_goal_contract_def mapping_of_def)
  moreover have "safe_numbers (JObj c)"
    using can by (simp only: canonical_object_Inr) (rule canonical_value_safe)
  moreover have "\<exists>h. stable_goal_hash E o' = Inr h \<and> stable_goal_hash E c = Inr h \<and> is_sha256_hex h"
    using canonical_object_hash [OF can, of E] can
    by (auto simp: stable_goal_hash_def canonical_object_Inr goal_canonical_json_def sha256_hex_format
        simp del: canonical_value.simps)
  moreover have "\<exists>r. jget c ''revision'' = JInt r \<and> 1 \<le> r"
    using chk by (auto simp: check_contract_def bindE_Inr_iff positive_revision_def split: json.splits if_splits)
  moreover have "\<exists>raws. jget c ''acceptance_criteria'' = JArr raws \<and> raws \<noteq> []
      \<and> check_criteria E 0 [] raws = Inr ()"
    using chk by (auto simp: check_contract_def bindE_Inr_iff non_empty_array_Inr)
  ultimately show ?thesis using v check_criteria_Inr by blast
qed

definition sample_contract :: jobj where
  "sample_contract = [(''schema_version'', JStr GOAL_CONTRACT_SCHEMA), (''goal_id'', JStr ''g''),
     (''revision'', JFloat 1), (''task_id'', JStr ''t''), (''statement'', JStr ''s''),
     (''success_outcome'', JStr ''o''),
     (''scope'', JObj [(''includes'', JArr [JStr ''x'']), (''excludes'', JArr [])]),
     (''acceptance_criteria'', JArr [JObj [(''criterion_id'', JStr ''c1''), (''description'', JStr ''d''),
        (''required'', JBool True), (''validator_kind'', JStr ''test''), (''review_policy'', JStr ''human''),
        (''source'', JStr ''user'')]]),
     (''dependencies'', JArr []), (''execution_profile'', JStr ''direct''), (''source'', JStr ''host''),
     (''created_at'', JStr ''now'')]"

theorem goal_contract_normal_form_sample:
  "\<exists>c. normalize_goal_contract sample_env (JObj sample_contract) = Inr c
     \<and> normalize_goal_contract sample_env (JObj c) = Inr c"
proof -
  have "isOK (normalize_goal_contract sample_env (JObj sample_contract))" by code_simp
  then obtain c where h: "normalize_goal_contract sample_env (JObj sample_contract) = Inr c"
    by (auto simp: isOK_iff)
  from goal_contract_normal_form [OF h] h show ?thesis by blast
qed

text \<open>an accepted change proposal never targets a host-owned field: every operation has a
  known kind, its normalised path starts with a slash and is neither a host-owned path nor below
  one, and it carries a value unless it removes; the accepted proposal is a normal form.\<close>

lemma proposal_host_fields_protected:
  assumes "normalize_goal_change_proposal E v = Inr p"
  shows "normalize_goal_change_proposal E (JObj p) = Inr p
    \<and> (\<exists>raws. jget p ''operations'' = JArr raws \<and> raws \<noteq> [] \<and> (\<forall>raw\<in>set raws. \<exists>op path. raw = JObj op
        \<and> path = normalized_text E (jget op ''path'') \<and> py_startswith path ''/''
        \<and> (\<forall>owned\<in>set HOST_OWNED_PATHS. path \<noteq> owned \<and> \<not> py_startswith path (owned @ ''/''))
        \<and> (\<exists>k\<in>set PROPOSAL_OPERATIONS. jget op ''op'' = JStr k)
        \<and> (jget op ''op'' = JStr ''remove'' \<or> jhas op ''value'')))"
proof -
  obtain o' where v: "v = JObj o'" and can: "canonical_object o' = Inr p" and chk: "check_proposal E p = Inr ()"
    using assms by (auto simp: normalize_goal_change_proposal_def bindE_Inr_iff mapping_of_Inr)
  have "normalize_goal_change_proposal E (JObj p) = Inr p"
    using canonical_object_idem [OF can] chk by (simp add: normalize_goal_change_proposal_def mapping_of_def)
  moreover obtain raws where raws: "jget p ''operations'' = JArr raws" "raws \<noteq> []"
    "check_operations E 0 raws = Inr ()"
    using chk by (auto simp: check_proposal_def bindE_Inr_iff non_empty_array_Inr)
  ultimately show ?thesis
    using check_operations_Inr [OF raws(3)] by (fastforce simp: Let_def is_host_owned_path_def list_ex_iff)
qed

definition sample_proposal :: jobj where
  "sample_proposal = [(''schema_version'', JStr GOAL_CHANGE_PROPOSAL_SCHEMA), (''proposal_id'', JStr ''p''),
     (''goal_id'', JStr ''g''), (''base_goal_revision'', JInt 1), (''proposed_by'', JStr ''a''), (''reason'', JStr ''r''),
     (''operations'', JArr [JObj [(''op'', JStr ''replace''), (''path'', JStr ''/statement''), (''value'', JStr ''n'')]]),
     (''impact_summary'', JObj [(''goal_ids'', JArr []), (''criterion_ids'', JArr []), (''evidence_ids'', JArr []),
        (''requires_revalidation'', JBool False)]),
     (''risk_summary'', JObj []), (''estimated_cost'', JObj []), (''alternatives'', JArr []),
     (''decision_state'', JStr ''pending''), (''created_at'', JStr ''now'')]"

lemma proposal_host_fields_protected_sample:
  "\<exists>p. normalize_goal_change_proposal sample_env (JObj sample_proposal) = Inr p
     \<and> normalize_goal_change_proposal sample_env (JObj p) = Inr p"
proof -
  have "isOK (normalize_goal_change_proposal sample_env (JObj sample_proposal))" by code_simp
  then obtain p where h: "normalize_goal_change_proposal sample_env (JObj sample_proposal) = Inr p"
    by (auto simp: isOK_iff)
  from proposal_host_fields_protected [OF h] h show ?thesis by blast
qed

end
