(* ===== verification/Relay.thy ===== *)
theory Relay
  imports ProtocolFacts
begin

text \<open>
  The relay (\<open>relay.py\<close>): frames between two nodes of a session and the router that
  forwards them without seeing their content. The router keeps its live sessions and the last
  sequence number of every session and sender; a frame passes only once and only in order.
\<close>

section \<open>Frames\<close>

definition RELAY_SCHEMA :: string where
  "RELAY_SCHEMA = ''across-relay-frame/1.0''"

definition MAX_FRAME_BYTES :: int where
  "MAX_FRAME_BYTES = 16 * 1024 * 1024"

record relay_frame =
  rf_session_id :: string
  rf_source_node_id :: string
  rf_target_node_id :: string
  rf_sequence :: int
  rf_expires_at :: time
  rf_nonce :: string
  rf_ciphertext :: string
  rf_schema_version :: string

definition frame_post_init :: "relay_frame \<Rightarrow> unit res" where
  "frame_post_init f =
     bindE (require_identifiers [(''session_id'', rf_session_id f), (''source_node_id'', rf_source_node_id f),
       (''target_node_id'', rf_target_node_id f)]) (\<lambda>_.
     bindE (checkE (1 \<le> rf_sequence f \<and> 0 < rf_expires_at f)
       (ProtocolError ''relay frame sequence or expiry is invalid'')) (\<lambda>_.
     case (urlsafe_b64decode (rf_nonce f), urlsafe_b64decode (rf_ciphertext f)) of
       (Some nonce, Some ciphertext) \<Rightarrow>
         checkE (length nonce = 12 \<and> ciphertext \<noteq> [] \<and> int (length ciphertext) \<le> MAX_FRAME_BYTES)
           (ProtocolError ''relay frame size is invalid'')
     | _ \<Rightarrow> Inl (ProtocolError ''relay frame encoding is invalid'')))"

definition frame_from_dict :: "pyenv \<Rightarrow> jobj \<Rightarrow> relay_frame res" where
  "frame_from_dict E value =
     bindE (checkE (jget value ''schema_version'' = JStr RELAY_SCHEMA) (ProtocolError ''unsupported relay frame schema'')) (\<lambda>_.
     bindE (get_int value ''sequence'' 0) (\<lambda>sequence.
     bindE (get_float E value ''expires_at'' 0) (\<lambda>expires_at.
     let f = \<lparr>rf_session_id = get_str E value ''session_id'' '''',
       rf_source_node_id = get_str E value ''source_node_id'' '''',
       rf_target_node_id = get_str E value ''target_node_id'' '''', rf_sequence = sequence,
       rf_expires_at = expires_at, rf_nonce = get_str E value ''nonce'' '''',
       rf_ciphertext = get_str E value ''ciphertext'' '''', rf_schema_version = RELAY_SCHEMA\<rparr>
     in bindE (frame_post_init f) (\<lambda>_. Inr f))))"

definition frame_to_dict :: "relay_frame \<Rightarrow> jobj" where
  "frame_to_dict f = [(''schema_version'', JStr (rf_schema_version f)), (''session_id'', JStr (rf_session_id f)),
     (''source_node_id'', JStr (rf_source_node_id f)), (''target_node_id'', JStr (rf_target_node_id f)),
     (''sequence'', JInt (rf_sequence f)), (''expires_at'', JFloat (rf_expires_at f)),
     (''nonce'', JStr (rf_nonce f)), (''ciphertext'', JStr (rf_ciphertext f))]"

definition frame_aad :: "pyenv \<Rightarrow> relay_frame \<Rightarrow> bytes" where
  "frame_aad E f = utf8 (canonical_json E (JObj [(''schema_version'', JStr (rf_schema_version f)),
     (''session_id'', JStr (rf_session_id f)), (''source_node_id'', JStr (rf_source_node_id f)),
     (''target_node_id'', JStr (rf_target_node_id f)), (''sequence'', JInt (rf_sequence f)),
     (''expires_at'', JFloat (rf_expires_at f))]))"

section \<open>The router\<close>

record relay_session =
  se_node_ids :: "string list"
  se_expires_at :: time

record router =
  ro_clock :: time
  ro_max_sessions :: nat
  ro_max_frame_bytes :: int
  ro_sessions :: "(string \<times> relay_session) list"
  ro_last_sequence :: "((string \<times> string) \<times> int) list"

type_synonym 'a relayM = "(router, 'a) pyM"

definition new_router :: "time \<Rightarrow> int \<Rightarrow> int \<Rightarrow> router" where
  "new_router now max_sessions max_frame_bytes = \<lparr>ro_clock = now, ro_max_sessions = nat (max 1 max_sessions),
     ro_max_frame_bytes = max 1024 (min max_frame_bytes MAX_FRAME_BYTES), ro_sessions = [], ro_last_sequence = []\<rparr>"

definition drop_session :: "string \<Rightarrow> router \<Rightarrow> router" where
  "drop_session sid r = r\<lparr>ro_sessions := filter (\<lambda>p. fst p \<noteq> sid) (ro_sessions r),
     ro_last_sequence := filter (\<lambda>p. fst (fst p) \<noteq> sid) (ro_last_sequence r)\<rparr>"

definition revoke_session :: "string \<Rightarrow> bool relayM" where
  "revoke_session sid = bindM (getsM (\<lambda>r. map_of (ro_sessions r) sid \<noteq> None)) (\<lambda>removed.
     thenM (modifyM (drop_session sid)) (retM removed))"

definition expired_sessions :: "router \<Rightarrow> string list" where
  "expired_sessions r = map fst (filter (\<lambda>p. se_expires_at (snd p) \<le> ro_clock r) (ro_sessions r))"

definition prune :: "unit relayM" where
  "prune = bindM (getsM expired_sessions) (\<lambda>expired. forM expired (\<lambda>sid. thenM (revoke_session sid) (retM ())))"

fun dict_put :: "('k \<times> 'v) list \<Rightarrow> 'k \<Rightarrow> 'v \<Rightarrow> ('k \<times> 'v) list" where
  "dict_put [] k v = [(k, v)]"
| "dict_put ((k', v') # d) k v = (if k' = k then (k, v) # d else (k', v') # dict_put d k v)"

definition register_session :: "string \<Rightarrow> string list \<Rightarrow> int \<Rightarrow> relay_session relayM" where
  "register_session session_id node_ids ttl_seconds =
     thenM (liftM (require_identifier session_id ''session_id''))
     (bindM (liftM (mapE (\<lambda>n. require_identifier n ''node_id'') node_ids)) (\<lambda>names.
     let participants = sort (remdups names) in
     thenM (guardM (length participants = 2)
       (ProtocolError ''relay session requires exactly two distinct participants''))
     (thenM prune
     (bindM (getsM id) (\<lambda>r.
     thenM (guardM (\<not> (map_of (ro_sessions r) session_id = None \<and> ro_max_sessions r \<le> length (ro_sessions r)))
       (ProtocolError ''relay capacity exceeded''))
     (let se = \<lparr>se_node_ids = participants, se_expires_at = ro_clock r + of_int (max 30 (min ttl_seconds 3600))\<rparr> in
     thenM (modifyM (\<lambda>r. r\<lparr>ro_sessions := dict_put (ro_sessions r) session_id se\<rparr>)) (retM se)))))))"

definition last_sequence :: "router \<Rightarrow> string \<times> string \<Rightarrow> int" where
  "last_sequence r k = opt_or (map_of (ro_last_sequence r) k) 0"

definition route :: "relay_frame \<Rightarrow> jobj relayM" where
  "route f =
     thenM prune
     (bindM (getsM id) (\<lambda>r. case map_of (ro_sessions r) (rf_session_id f) of
        None \<Rightarrow> raiseM (ProtocolError ''relay session unavailable'')
      | Some se \<Rightarrow>
     thenM (guardM (ro_clock r < se_expires_at se) (ProtocolError ''relay session unavailable''))
     (thenM (guardM ({rf_source_node_id f, rf_target_node_id f} = set (se_node_ids se))
       (ProtocolError ''cross-node relay delivery rejected''))
     (thenM (guardM (ro_clock r < rf_expires_at f) (ProtocolError ''relay frame expired''))
     (case urlsafe_b64decode (rf_ciphertext f) of
        None \<Rightarrow> raiseM (ValueError ''Incorrect padding'')
      | Some bs \<Rightarrow>
     thenM (guardM (int (length bs) \<le> ro_max_frame_bytes r) (ProtocolError ''relay frame exceeds capacity limit''))
     (thenM (guardM (last_sequence r (rf_session_id f, rf_source_node_id f) < rf_sequence f)
       (ProtocolError ''relay replay or out-of-order frame rejected''))
     (thenM (modifyM (\<lambda>r. r\<lparr>ro_last_sequence := dict_put (ro_last_sequence r)
         (rf_session_id f, rf_source_node_id f) (rf_sequence f)\<rparr>))
     (retM (frame_to_dict f)))))))))"

definition relay_health :: "nat relayM" where
  "relay_health = thenM prune (getsM (\<lambda>r. length (ro_sessions r)))"

section \<open>Lemmas\<close>

lemma map_of_dict_put [simp]: "map_of (dict_put d k v) k' = (if k' = k then Some v else map_of d k')"
  by (induction d k v rule: dict_put.induct) auto

lemma dict_put_keys: "fst ` set (dict_put d k v) = insert k (fst ` set d)"
  by (induction d k v rule: dict_put.induct) auto

lemma dict_put_length: "length (dict_put d k v) = (if map_of d k = None then Suc (length d) else length d)"
  by (induction d k v rule: dict_put.induct) auto

lemma map_of_filter_key: "map_of (filter (\<lambda>p. P (fst p)) d) k = (if P k then map_of d k else None)"
  by (induction d) auto

definition dropped :: "string set \<Rightarrow> router \<Rightarrow> router" where
  "dropped A r = r\<lparr>ro_sessions := filter (\<lambda>p. fst p \<notin> A) (ro_sessions r),
     ro_last_sequence := filter (\<lambda>p. fst (fst p) \<notin> A) (ro_last_sequence r)\<rparr>"

lemma forM_revoke: "forM sids (\<lambda>sid. thenM (revoke_session sid) (retM ())) r = (Inr (), dropped (set sids) r)"
proof (induction sids arbitrary: r)
  case Nil
  then show ?case by (simp add: retM_def dropped_def)
next
  case (Cons sid sids)
  have "thenM (revoke_session sid) (retM ()) r = (Inr (), drop_session sid r)"
    by (simp add: revoke_session_def monad_defs)
  moreover have "dropped (set sids) (drop_session sid r) = dropped (set (sid # sids)) r"
    by (auto simp: dropped_def drop_session_def conj_commute intro!: filter_cong)
  ultimately show ?case using Cons.IH by (simp add: thenM_def bindM_def)
qed

lemma prune_eq: "prune r = (Inr (), dropped (set (expired_sessions r)) r)"
  by (simp add: prune_def bindM_def getsM_def forM_revoke)

lemma wp_prune [wp]: "wpM prune Q E r = Q () (dropped (set (expired_sessions r)) r)"
  by (simp add: wpM_def prune_eq)

lemma vcg_prune [vcg]: "Q () (dropped (set (expired_sessions r)) r) \<Longrightarrow> wpM prune Q E r"
  by (simp add: wp)

lemma dropped_simps [simp]:
  "ro_clock (dropped A r) = ro_clock r"
  "ro_max_sessions (dropped A r) = ro_max_sessions r"
  "ro_max_frame_bytes (dropped A r) = ro_max_frame_bytes r"
  "map_of (ro_sessions (dropped A r)) sid = (if sid \<in> A then None else map_of (ro_sessions r) sid)"
  by (simp_all add: dropped_def map_of_filter_key [where P = "\<lambda>k. k \<notin> A"])

lemma last_sequence_put [simp]:
  "last_sequence (r\<lparr>ro_last_sequence := dict_put (ro_last_sequence r) k v\<rparr>) k' = (if k' = k then v else last_sequence r k')"
  by (simp add: last_sequence_def)

lemma last_sequence_dropped: "last_sequence (dropped A r) k = (if fst k \<in> A then 0 else last_sequence r k)"
  by (simp add: last_sequence_def dropped_def map_of_filter_key [where P = "\<lambda>k. fst k \<notin> A"])

abbreviation frame_key :: "relay_frame \<Rightarrow> string \<times> string" where
  "frame_key f \<equiv> (rf_session_id f, rf_source_node_id f)"

text \<open>A session that is there, with no later number seen from a sender than \<open>n\<close>; or no
  session at all, so that nothing passes.\<close>

definition seen_from :: "router \<Rightarrow> string \<times> string \<Rightarrow> int \<Rightarrow> bool" where
  "seen_from r k n \<longleftrightarrow> (map_of (ro_sessions r) (fst k) \<noteq> None \<longrightarrow> n \<le> last_sequence r k)"

lemma route_wp:
  "wpM (route f)
    (\<lambda>d r'. d = frame_to_dict f \<and> last_sequence r' (frame_key f) = rf_sequence f
       \<and> (\<exists>se. map_of (ro_sessions r) (rf_session_id f) = Some se \<and> ro_clock r < se_expires_at se
            \<and> {rf_source_node_id f, rf_target_node_id f} = set (se_node_ids se))
       \<and> last_sequence r (frame_key f) < rf_sequence f \<and> ro_clock r < rf_expires_at f
       \<and> (\<forall>k n. seen_from r k n \<longrightarrow> seen_from r' k n))
    (\<lambda>e r'. r' = dropped (set (expired_sessions r)) r) r"
  unfolding route_def
  by (intro vcg) (auto simp: seen_from_def last_sequence_dropped split: if_splits)

fun route_run :: "(time \<times> relay_frame) list \<Rightarrow> router \<Rightarrow> relay_frame list" where
  "route_run [] r = []"
| "route_run ((now, f) # fs) r = (case route f (r\<lparr>ro_clock := now\<rparr>) of
      (Inr d, r') \<Rightarrow> f # route_run fs r' | (Inl e, r') \<Rightarrow> route_run fs r')"

lemma seen_from_clock [simp]: "seen_from (r\<lparr>ro_clock := t\<rparr>) k n = seen_from r k n"
  by (simp add: seen_from_def last_sequence_def)

lemma seen_from_dropped: "seen_from r k n \<Longrightarrow> seen_from (dropped A r) k n"
  by (auto simp: seen_from_def last_sequence_dropped)

lemma route_accepts:
  assumes "route f r = (Inr d, r')"
  shows "seen_from r' (frame_key f) (rf_sequence f)"
    and "seen_from r k n \<Longrightarrow> seen_from r' k n"
    and "seen_from r (frame_key f) n \<Longrightarrow> n < rf_sequence f"
proof -
  note accepted = wpM_result(1) [OF route_wp assms]
  show "seen_from r' (frame_key f) (rf_sequence f)" using accepted by (simp add: seen_from_def)
  show "seen_from r k n \<Longrightarrow> seen_from r' k n" using accepted by blast
  show "seen_from r (frame_key f) n \<Longrightarrow> n < rf_sequence f" using accepted by (auto simp: seen_from_def)
qed

lemma route_refuses: "route f r = (Inl e, r') \<Longrightarrow> seen_from r k n \<Longrightarrow> seen_from r' k n"
  using wpM_result(2) [OF route_wp] seen_from_dropped by blast

lemma route_run_above:
  "seen_from r k n \<Longrightarrow> g \<in> set (route_run fs r) \<Longrightarrow> frame_key g = k \<Longrightarrow> n < rf_sequence g"
proof (induction fs r rule: route_run.induct)
  case (2 now f fs r)
  obtain x r' where x: "route f (r\<lparr>ro_clock := now\<rparr>) = (x, r')" by (cases "route f (r\<lparr>ro_clock := now\<rparr>)")
  have s: "seen_from (r\<lparr>ro_clock := now\<rparr>) k n" using "2.prems"(1) by simp
  show ?case
  proof (cases x)
    case (Inl e)
    then show ?thesis using "2.IH"(1) [OF x [symmetric] Inl] "2.prems" route_refuses [OF x [unfolded Inl] s] x by simp
  next
    case (Inr d)
    note rt = x [unfolded Inr]
    consider "g = f" | "g \<in> set (route_run fs r')" using "2.prems"(2) rt by auto
    then show ?thesis
    proof cases
      case 1
      then show ?thesis using route_accepts(3) [OF rt] s "2.prems"(3) by simp
    next
      case 2
      then show ?thesis using "2.IH"(2) [OF x [symmetric] Inr] "2.prems"(3) route_accepts(2) [OF rt s] by simp
    qed
  qed
qed simp

section \<open>Properties\<close>

text \<open>C39: no replay and no reordering. Whatever frames arrive at whatever times, the frames the
  router forwards for one session and sender have strictly increasing sequence numbers.\<close>

theorem relay_sequence_increasing:
  "sorted_wrt (\<lambda>f g. frame_key f = frame_key g \<longrightarrow> rf_sequence f < rf_sequence g) (route_run fs r)"
proof (induction fs r rule: route_run.induct)
  case (2 now f fs r)
  obtain x r' where x: "route f (r\<lparr>ro_clock := now\<rparr>) = (x, r')" by (cases "route f (r\<lparr>ro_clock := now\<rparr>)")
  show ?case
  proof (cases x)
    case (Inl e)
    then show ?thesis using "2.IH"(1) [OF x [symmetric] Inl] x by simp
  next
    case (Inr d)
    then show ?thesis
      using "2.IH"(2) [OF x [symmetric] Inr] x route_run_above [OF route_accepts(1) [OF x [unfolded Inr]]] by auto
  qed
qed simp

definition sample_router :: router where
  "sample_router = (new_router 0 10 4096)\<lparr>ro_sessions := [(''s'', \<lparr>se_node_ids = [''a'', ''b''], se_expires_at = 100\<rparr>)]\<rparr>"

definition sample_frame :: "int \<Rightarrow> relay_frame" where
  "sample_frame n = \<lparr>rf_session_id = ''s'', rf_source_node_id = ''a'', rf_target_node_id = ''b'', rf_sequence = n,
     rf_expires_at = 50, rf_nonce = ''AAAAAAAAAAAAAAAA'', rf_ciphertext = ''AAAA'', rf_schema_version = RELAY_SCHEMA\<rparr>"

theorem relay_sequence_increasing_witness:
  "route_run [(1, sample_frame 1), (2, sample_frame 1), (3, sample_frame 2)] sample_router
     = [sample_frame 1, sample_frame 2]
   \<and> rf_sequence (sample_frame 1) < rf_sequence (sample_frame 2)"
proof -
  have h: "route_run [(1, sample_frame 1), (2, sample_frame 1), (3, sample_frame 2)] sample_router
     = [sample_frame 1, sample_frame 2]" by code_simp
  show ?thesis
    using h relay_sequence_increasing [of "[(1, sample_frame 1), (2, sample_frame 1), (3, sample_frame 2)]" sample_router]
    by (simp add: sample_frame_def)
qed

text \<open>the router delivers only between the two participants of a live session, only frames
  that have not expired, and returns the frame unchanged; a refused frame changes nothing but
  the removal of expired sessions.\<close>

lemma relay_route_checked:
  "case route f r of
     (Inr d, r') \<Rightarrow> d = frame_to_dict f \<and> ro_clock r < rf_expires_at f
       \<and> (\<exists>se. map_of (ro_sessions r) (rf_session_id f) = Some se \<and> ro_clock r < se_expires_at se
            \<and> set (se_node_ids se) = {rf_source_node_id f, rf_target_node_id f})
       \<and> last_sequence r (frame_key f) < rf_sequence f \<and> last_sequence r' (frame_key f) = rf_sequence f
   | (Inl e, r') \<Rightarrow> r' = dropped (set (expired_sessions r)) r"
  using route_wp [of f r] by (auto simp: wpM_def split: prod.splits sum.splits)

end
