(* ===== verification/Findings.thy ===== *)
theory Findings
  imports ProtocolFacts "HOL-Library.Product_Lexorder"
begin

text \<open>
  Quality findings (\<open>findings.py\<close>): the normal form of a finding and of a quality report, the
  aggregation of finding states into the state of a report, the decision whether a report
  passed, the failed gates, and the blocked findings of an exhausted repair. Every function is
  total: the conversions that can raise are caught where the code calls them.
\<close>

section \<open>Tables\<close>

definition FINDING_SCHEMA_VERSION :: string where
  "FINDING_SCHEMA_VERSION = ''across-autopilot-finding/1.0''"

definition FINDING_STATES :: "string list" where
  "FINDING_STATES = [''pass'', ''auto_fix_available'', ''ask_user'', ''blocked'', ''no_op'', ''failed'']"

definition TERMINAL_OK_STATES :: "string list" where
  "TERMINAL_OK_STATES = [''pass'', ''no_op'']"

definition STATE_ALIASES :: "(string \<times> string) list" where
  "STATE_ALIASES = [(''ok'', ''pass''), (''passed'', ''pass''), (''ready'', ''pass''), (''completed'', ''pass''),
     (''success'', ''pass''), (''succeeded'', ''pass''), (''fixed'', ''pass''),
     (''auto_fix'', ''auto_fix_available''), (''autofix'', ''auto_fix_available''),
     (''fix_available'', ''auto_fix_available''), (''needs_fix'', ''auto_fix_available''),
     (''needs_user'', ''ask_user''), (''needs_input'', ''ask_user''), (''user_input'', ''ask_user''),
     (''manual'', ''ask_user''), (''attention'', ''ask_user''), (''partial'', ''ask_user''),
     (''warning'', ''ask_user''), (''warn'', ''ask_user''), (''needs_attention'', ''ask_user''),
     (''environment_blocked'', ''blocked''), (''skipped'', ''no_op''), (''not_applicable'', ''no_op''),
     (''none'', ''no_op''), (''noop'', ''no_op''), (''error'', ''failed''), (''failure'', ''failed''),
     (''fail'', ''failed'')]"

definition SEVERITY_STATES :: "(string \<times> string) list" where
  "SEVERITY_STATES = [(''blocker'', ''blocked''), (''critical'', ''blocked''), (''error'', ''blocked''),
     (''high'', ''blocked''), (''blocking'', ''blocked''), (''warn'', ''no_op''), (''warning'', ''no_op''),
     (''medium'', ''no_op''), (''low'', ''no_op''), (''info'', ''no_op'')]"

section \<open>Conversions\<close>

text \<open>\<open>a or b or ...\<close>\<close>

fun jors :: "json list \<Rightarrow> json" where
  "jors [] = JNull"
| "jors [v] = v"
| "jors (v # w # vs) = jor v (jors (w # vs))"

definition clean :: "pyenv \<Rightarrow> json \<Rightarrow> string" where
  "clean E v = py_strip (py_str E (jor v (JStr [])))"

definition clean_or_none :: "pyenv \<Rightarrow> json \<Rightarrow> json" where
  "clean_or_none E v = (let t = clean E v in if t = [] then JNull else JStr t)"

definition state_token :: "pyenv \<Rightarrow> json \<Rightarrow> string" where
  "state_token E v = py_replace_char (CHR '' '') (CHR ''_'') (py_replace_char (CHR ''-'') (CHR ''_'') (py_lower (clean E v)))"

definition as_list :: "json \<Rightarrow> json list" where
  "as_list v = (case v of JArr xs \<Rightarrow> xs | JNull \<Rightarrow> [] | _ \<Rightarrow> [v])"

definition string_list :: "pyenv \<Rightarrow> json \<Rightarrow> string list" where
  "string_list E v = sort (remdups (filter (\<lambda>s. s \<noteq> []) (map (clean E) (as_list v))))"

definition positive_int :: "json \<Rightarrow> int option" where
  "positive_int v = (case py_int v of Inl _ \<Rightarrow> None | Inr n \<Rightarrow> if n \<ge> 1 then Some n else None)"

definition non_negative_int :: "json \<Rightarrow> int \<Rightarrow> int" where
  "non_negative_int v d = (case py_int v of Inl _ \<Rightarrow> d | Inr n \<Rightarrow> max 0 n)"

fun copy_json_value :: "json \<Rightarrow> json" where
  "copy_json_value (JObj o') = JObj (map (\<lambda>p. (fst p, copy_json_value (snd p))) o')"
| "copy_json_value (JArr xs) = JArr (map copy_json_value xs)"
| "copy_json_value v = v"

text \<open>\<open>_merge_unique\<close>: the cleaned, non-empty strings of both groups, first occurrences.\<close>

definition add_unique :: "string list \<Rightarrow> string \<Rightarrow> string list" where
  "add_unique merged item = (let v = py_strip item in if v \<noteq> [] \<and> v \<notin> set merged then merged @ [v] else merged)"

definition merge_unique :: "string list \<Rightarrow> string list \<Rightarrow> string list" where
  "merge_unique a b = foldl add_unique [] (a @ b)"

fun first_populated :: "json list \<Rightarrow> json" where
  "first_populated [] = JNull"
| "first_populated (v # vs) = (case v of
      JArr (x # xs) \<Rightarrow> v
    | JObj (p # ps) \<Rightarrow> v
    | _ \<Rightarrow> first_populated vs)"

section \<open>States\<close>

definition token_state :: "string \<Rightarrow> string option" where
  "token_state t = (if t \<in> set FINDING_STATES then Some t else map_of STATE_ALIASES t)"

definition normalize_finding_state :: "pyenv \<Rightarrow> json \<Rightarrow> json \<Rightarrow> json \<Rightarrow> json \<Rightarrow> string" where
  "normalize_finding_state E v status passed severity =
     (case token_state (state_token E v) of
        Some t \<Rightarrow> t
      | None \<Rightarrow> (case token_state (state_token E status) of
          Some t \<Rightarrow> t
        | None \<Rightarrow>
            if passed = JBool True then ''pass''
            else if passed = JBool False then ''failed''
            else opt_or (map_of SEVERITY_STATES (state_token E severity)) ''failed''))"

abbreviation state_of :: "pyenv \<Rightarrow> json \<Rightarrow> string" where
  "state_of E v \<equiv> normalize_finding_state E v JNull JNull JNull"

definition finding_state_failed :: "pyenv \<Rightarrow> json \<Rightarrow> bool" where
  "finding_state_failed E v \<longleftrightarrow> state_of E v \<notin> set TERMINAL_OK_STATES"

definition aggregate_finding_state :: "pyenv \<Rightarrow> json \<Rightarrow> json \<Rightarrow> string" where
  "aggregate_finding_state E findings report_state =
     (let states = map (\<lambda>o'. state_of E (jget o' ''state'')) (List.map_filter as_obj (as_list findings));
          report = (if report_state = JNull then None else Some (state_of E report_state)) in
      case List.find (\<lambda>s. s \<in> set states) [''failed'', ''blocked'', ''ask_user'', ''auto_fix_available''] of
        Some s \<Rightarrow> s
      | None \<Rightarrow>
        if report \<notin> {None, Some ''pass'', Some ''no_op''} then opt_or report []
        else if report = Some ''no_op'' \<and> states \<noteq> [] \<and> list_all (\<lambda>s. s = ''no_op'') states then ''no_op''
        else if states \<noteq> [] \<and> list_all (\<lambda>s. s \<in> set TERMINAL_OK_STATES) states
          then (if ''pass'' \<in> set states then ''pass'' else ''no_op'')
        else opt_or report ''failed'')"

section \<open>Findings\<close>

definition metadata_entry :: "json \<Rightarrow> json \<Rightarrow> jobj" where
  "metadata_entry own fallback = (case (case as_obj own of Some _ \<Rightarrow> own | None \<Rightarrow> fallback) of
      JObj (p # ps) \<Rightarrow> [(''metadata'', JObj (map (\<lambda>q. (fst q, copy_json_value (snd q)))
         (filter (\<lambda>q. snd q \<noteq> JNull) (sort_key fst (p # ps)))))]
    | _ \<Rightarrow> [])"

definition text_entry :: "pyenv \<Rightarrow> string \<Rightarrow> json \<Rightarrow> jobj" where
  "text_entry E k v = (let t = clean E v in if t = [] then [] else [(k, JStr t)])"

definition finding_source :: "json \<Rightarrow> jobj" where
  "finding_source finding = (case finding of JObj o' \<Rightarrow> o' | _ \<Rightarrow> [(''summary'', finding)])"

definition finding_state_value :: "pyenv \<Rightarrow> jobj \<Rightarrow> jobj \<Rightarrow> string \<Rightarrow> string" where
  "finding_state_value E source fallback severity =
     (let explicit = (if jget source ''state'' \<noteq> JNull then jget source ''state''
             else if jget source ''verdict'' \<noteq> JNull then jget source ''verdict'' else jget fallback ''state'');
          status = (if jget source ''status'' \<noteq> JNull then jget source ''status'' else jget fallback ''status'');
          passed = (if jhas source ''passed'' then jget source ''passed'' else jget fallback ''passed'') in
      normalize_finding_state E explicit status passed (JStr severity))"

definition finding_severity :: "pyenv \<Rightarrow> jobj \<Rightarrow> jobj \<Rightarrow> string" where
  "finding_severity E source fallback =
     (let t = clean E (jors [jget source ''severity'', jget source ''level'', jget fallback ''severity'']) in
      if t = [] then ''info'' else t)"

definition finding_gate :: "pyenv \<Rightarrow> jobj \<Rightarrow> jobj \<Rightarrow> json" where
  "finding_gate E source fallback = clean_or_none E (jors [jget source ''source_gate'', jget source ''sourceGate'',
     jget source ''gate'', jget fallback ''source_gate''])"

definition finding_id :: "pyenv \<Rightarrow> jobj \<Rightarrow> jobj \<Rightarrow> nat \<Rightarrow> string" where
  "finding_id E source fallback index =
     (let t = clean E (jors [jget source ''id'', jget source ''code'', jget source ''key'', jget source ''check_id'',
        jget source ''checkId'', jget source ''adapter_id'', jget source ''adapterId'', jget source ''gate_id'',
        jget source ''gateId'', jget fallback ''id'', finding_gate E source fallback]) in
      if t = [] then ''finding-'' @ int_str (int index + 1) else t)"

definition finding_summary :: "pyenv \<Rightarrow> jobj \<Rightarrow> jobj \<Rightarrow> nat \<Rightarrow> string" where
  "finding_summary E source fallback index =
     (let t = clean E (jors [jget source ''summary'', jget source ''title'', jget source ''message'',
        jget source ''description'', jget fallback ''summary'']) in
      if t = [] then finding_id E source fallback index else t)"

definition finding_round :: "jobj \<Rightarrow> jobj \<Rightarrow> int" where
  "finding_round source fallback = non_negative_int
     (if jget source ''repair_round'' \<noteq> JNull then jget source ''repair_round''
      else if jget source ''repairRound'' \<noteq> JNull then jget source ''repairRound'' else jget fallback ''repair_round'') 0"

definition normalize_finding :: "pyenv \<Rightarrow> json \<Rightarrow> nat \<Rightarrow> jobj \<Rightarrow> jobj" where
  "normalize_finding E finding index fallback =
     (let source = finding_source finding; severity = finding_severity E source fallback;
          evidence = (if jhas source ''evidence'' then jget source ''evidence'' else jget fallback ''evidence'');
          line = positive_int (if jget source ''line'' \<noteq> JNull then jget source ''line'' else jget fallback ''line'');
          refs = string_list E (jors [jget source ''evidence_refs'', jget source ''evidenceRefs'', jget source ''refs'',
            jget fallback ''evidence_refs'']) in
      [(''schema_version'', JStr FINDING_SCHEMA_VERSION),
       (''id'', JStr (finding_id E source fallback index)),
       (''state'', JStr (finding_state_value E source fallback severity)),
       (''severity'', JStr severity),
       (''summary'', JStr (finding_summary E source fallback index)),
       (''evidence'', copy_json_value evidence),
       (''suggested_action'', clean_or_none E (jors [jget source ''suggested_action'', jget source ''suggestedAction'',
          jget source ''remediation'', jget fallback ''suggested_action''])),
       (''owner'', clean_or_none E (jors [jget source ''owner'', jget source ''repo'', jget source ''repository'',
          jget fallback ''owner''])),
       (''repair_round'', JInt (finding_round source fallback)),
       (''source_gate'', finding_gate E source fallback)]
      @ text_entry E ''details'' (jors [jget source ''details'', jget source ''detail'', jget source ''body'',
          jget source ''excerpt'', jget fallback ''details''])
      @ text_entry E ''source'' (jors [jget source ''source'', jget source ''adapter'', jget source ''check''])
      @ text_entry E ''file'' (jors [jget source ''file'', jget source ''path'', jget fallback ''file''])
      @ (case line of None \<Rightarrow> [] | Some n \<Rightarrow> [(''line'', JInt n)])
      @ (if refs = [] then [] else [(''evidence_refs'', JArr (map JStr refs))])
      @ metadata_entry (jget source ''metadata'') (jget fallback ''metadata''))"

definition state_rank :: "string \<Rightarrow> nat" where
  "state_rank s = (case List.find (\<lambda>p. snd p = s) (List.enumerate 0 FINDING_STATES) of
      Some p \<Rightarrow> fst p | None \<Rightarrow> length FINDING_STATES)"

definition finding_order :: "pyenv \<Rightarrow> jobj \<Rightarrow> nat \<times> string \<times> string" where
  "finding_order E item = (state_rank (py_str E (jget item ''state'')),
     py_str E (jor (jget item ''id'') (JStr [])), py_str E (jor (jget item ''summary'') (JStr [])))"

definition normalize_findings :: "pyenv \<Rightarrow> json \<Rightarrow> jobj \<Rightarrow> bool \<Rightarrow> jobj list" where
  "normalize_findings E findings defaults do_sort =
     (let normalized = map (\<lambda>(i, item). normalize_finding E item i defaults) (List.enumerate 0 (as_list findings)) in
      if do_sort then sort_key (finding_order E) normalized else normalized)"

definition failed_gate_ids_from_findings :: "pyenv \<Rightarrow> json \<Rightarrow> string list" where
  "failed_gate_ids_from_findings E findings = foldl (\<lambda>gates v. case as_obj v of
      None \<Rightarrow> gates
    | Some item \<Rightarrow>
        if \<not> finding_state_failed E (jors [jget item ''state'', jget item ''finding_state'']) then gates
        else let gate = clean E (jors [jget item ''source_gate'', jget item ''sourceGate'', jget item ''id'']) in
          if gate \<noteq> [] \<and> gate \<notin> set gates then gates @ [gate] else gates) [] (as_list findings)"

section \<open>Reports\<close>

definition spaces :: "string \<Rightarrow> string" where
  "spaces s = py_replace_char (CHR ''_'') (CHR '' '') s"

definition gate_name :: "jobj \<Rightarrow> json" where
  "gate_name item = jors [jget item ''adapter_id'', jget item ''adapterId'', jget item ''gate_id'', jget item ''gateId'']"

definition gate_result_finding :: "pyenv \<Rightarrow> jobj \<Rightarrow> json" where
  "gate_result_finding E item = JObj (jset (jset (jset (jset item ''id'' (gate_name item)) ''source_gate'' (gate_name item))
     ''summary'' (jors [jget item ''summary'', jget item ''message'', JStr (py_str E (jors [jget item ''adapter_id'',
        jget item ''gate_id'', JStr ''quality gate'']) @ '' '' @ py_str E (jors [jget item ''status'', JStr ''unknown'']) @ ''.'')]))
     ''evidence'' (if jhas item ''evidence'' then jget item ''evidence'' else JObj item))"

definition gate_flag_finding :: "string \<times> json \<Rightarrow> json" where
  "gate_flag_finding p = (case p of (gate, passed) \<Rightarrow> let ok = (passed = JBool True) in
     JObj [(''id'', JStr gate), (''state'', JStr (if ok then ''pass'' else ''failed'')),
       (''severity'', JStr (if ok then ''info'' else ''error'')),
       (''summary'', JStr (spaces gate @ '' '' @ (if ok then ''passed'' else ''failed'') @ ''.'')),
       (''source_gate'', JStr gate), (''evidence'', JObj [(''passed'', passed)])])"

definition failure_finding :: "json \<Rightarrow> json" where
  "failure_finding item = (case item of
      JObj o' \<Rightarrow> JObj (jset (jset (jset o' ''state'' (jors [jget o' ''state'', JStr ''failed'']))
        ''source_gate'' (jors [jget o' ''source_gate'', jget o' ''sourceGate'', jget o' ''check_id'']))
        ''evidence'' (JObj o'))
    | _ \<Rightarrow> JObj [(''id'', item), (''summary'', item), (''state'', JStr ''failed''), (''source_gate'', item),
        (''evidence'', JObj [(''failure'', item)])])"

definition failed_gate_finding :: "pyenv \<Rightarrow> json \<Rightarrow> json" where
  "failed_gate_finding E gate = JObj [(''id'', gate), (''state'', JStr ''failed''), (''severity'', JStr ''error''),
     (''summary'', JStr (spaces (py_str E gate) @ '' failed.'')), (''source_gate'', gate),
     (''evidence'', JObj [(''failed_gate'', gate)])]"

definition missing_artifacts_finding :: "json \<Rightarrow> json" where
  "missing_artifacts_finding missing = JObj [(''id'', JStr ''required_artifacts_present''), (''state'', JStr ''failed''),
     (''severity'', JStr ''error''), (''summary'', JStr ''Required artifacts are missing.''),
     (''source_gate'', JStr ''required_artifacts_present''),
     (''evidence'', JObj [(''missing_artifacts'', JArr (as_list missing))]),
     (''suggested_action'', JStr ''Produce the missing required artifacts before promotion.'')]"

definition derive_legacy_findings :: "pyenv \<Rightarrow> jobj \<Rightarrow> jobj \<Rightarrow> jobj list" where
  "derive_legacy_findings E result defaults =
     (let gate_results = jors [jget result ''gate_results'', jget result ''gateResults''];
          gates = jget result ''gates''; failures = jget result ''failures'';
          failed_gates = jors [jget result ''failed_gates'', jget result ''failedGates''];
          missing = jors [jget result ''missing_artifacts'', jget result ''missingArtifacts''];
          norm = (\<lambda>items. normalize_findings E (JArr items) defaults True) in
      case gate_results of JArr (g # gs) \<Rightarrow>
        norm (map (gate_result_finding E) (List.map_filter as_obj (g # gs)))
      | _ \<Rightarrow> (case gates of JObj (p # ps) \<Rightarrow> norm (map gate_flag_finding (p # ps))
      | _ \<Rightarrow> if truthy failures then norm (map failure_finding (as_list failures))
        else if truthy failed_gates then norm (map (failed_gate_finding E) (as_list failed_gates))
        else if truthy missing then norm [missing_artifacts_finding missing]
        else []))"

definition fallback_evidence :: "jobj \<Rightarrow> json" where
  "fallback_evidence result =
     (case List.find (\<lambda>k. jget result k \<noteq> JNull) [''evidence'', ''failures'', ''failed_gates'', ''missing_artifacts'',
         ''gates'', ''gate_results''] of
       Some k \<Rightarrow> copy_json_value (jget result k) | None \<Rightarrow> JNull)"

definition report_signal_state :: "pyenv \<Rightarrow> jobj \<Rightarrow> string" where
  "report_signal_state E result = normalize_finding_state E (jget result ''finding_state'')
     (jors [jget result ''status'', jget result ''quality'', jget result ''quality_gate'']) (jget result ''passed'') JNull"

definition report_signal_present :: "jobj \<Rightarrow> bool" where
  "report_signal_present result \<longleftrightarrow>
     list_ex (jhas result) [''finding_state'', ''status'', ''quality'', ''quality_gate'', ''passed'']"

definition opt_json :: "string option \<Rightarrow> json" where
  "opt_json x = (case x of None \<Rightarrow> JNull | Some s \<Rightarrow> JStr s)"

definition report_round :: "jobj \<Rightarrow> int option \<Rightarrow> int" where
  "report_round result repair_round = non_negative_int (case repair_round of Some n \<Rightarrow> JInt n
     | None \<Rightarrow> if jget result ''repair_round'' \<noteq> JNull then jget result ''repair_round'' else jget result ''repairRound'') 0"

definition fallback_finding :: "pyenv \<Rightarrow> jobj \<Rightarrow> string \<Rightarrow> string option \<Rightarrow> json" where
  "fallback_finding E result fid summary = JObj [(''id'', JStr fid),
     (''state'', JStr (report_signal_state E result)),
     (''summary'', jors [opt_json summary, JStr (clean E (jget result ''summary'')), JStr (spaces fid)]),
     (''evidence'', fallback_evidence result)]"

definition report_findings :: "pyenv \<Rightarrow> jobj \<Rightarrow> string \<Rightarrow> string \<Rightarrow> string option \<Rightarrow> string option \<Rightarrow> int option \<Rightarrow> jobj list" where
  "report_findings E result fid gate summary owner repair_round =
     (let round_number = report_round result repair_round;
          defaults = [(''id'', JStr fid), (''source_gate'', JStr gate), (''summary'', opt_json summary),
            (''owner'', opt_json owner), (''repair_round'', JInt round_number)];
          raw = first_populated [jget result ''normalized_findings'', jget result ''normalizedFindings'',
            jget result ''findings'', jget result ''quality_findings'', jget result ''qualityFindings''];
          found = (if raw \<noteq> JNull then normalize_findings E raw defaults True
            else derive_legacy_findings E result defaults);
          findings = (if found \<noteq> [] then found
            else [normalize_finding E (fallback_finding E result fid summary) 0 defaults]) in
      if repair_round \<noteq> None then map (\<lambda>item. jset item ''repair_round'' (JInt round_number)) findings else findings)"

definition normalize_quality_report ::
  "pyenv \<Rightarrow> jobj \<Rightarrow> string \<Rightarrow> string \<Rightarrow> string option \<Rightarrow> string option \<Rightarrow> int option \<Rightarrow> jobj" where
  "normalize_quality_report E result fid gate summary owner repair_round =
     (let findings = report_findings E result fid gate summary owner repair_round;
          items = JArr (map JObj findings);
          report_state = (if report_signal_present result then JStr (report_signal_state E result) else JNull);
          failed = merge_unique (string_list E (jors [jget result ''failed_gates'', jget result ''failedGates'']))
            (failed_gate_ids_from_findings E items);
          gates = merge_unique (string_list E (jors [jget result ''source_gates'', jget result ''sourceGates'']))
            (map (\<lambda>item. py_str E (jget item ''source_gate'')) (filter (\<lambda>item. truthy (jget item ''source_gate'')) findings)) in
      jset (jset (jset (jset (jset (jset result ''repair_round'' (JInt (report_round result repair_round)))
        ''finding_state'' (JStr (aggregate_finding_state E items report_state)))
        ''findings'' items) ''normalized_findings'' items)
        ''failed_gates'' (JArr (map JStr failed))) ''source_gates'' (JArr (map JStr gates)))"

definition enrich_with_finding_state :: "pyenv \<Rightarrow> jobj \<Rightarrow> string \<Rightarrow> string \<Rightarrow> string option \<Rightarrow> jobj" where
  "enrich_with_finding_state E payload fid gate summary = normalize_quality_report E payload fid gate summary None None"

definition quality_report_passed :: "pyenv \<Rightarrow> jobj \<Rightarrow> bool" where
  "quality_report_passed E payload =
     (if jget payload ''finding_state'' \<noteq> JNull
      then state_of E (jget payload ''finding_state'') \<in> set TERMINAL_OK_STATES
      else if jget payload ''findings'' \<noteq> JNull \<or> jget payload ''normalized_findings'' \<noteq> JNull
      then aggregate_finding_state E (jors [jget payload ''findings'', jget payload ''normalized_findings'']) JNull
        \<in> set TERMINAL_OK_STATES
      else if jget payload ''passed'' \<noteq> JNull then jget payload ''passed'' = JBool True
      else normalize_finding_state E JNull (jors [jget payload ''status'', jget payload ''quality'',
        jget payload ''quality_gate'']) JNull JNull \<in> set TERMINAL_OK_STATES)"

section \<open>Exhausted repairs\<close>

definition exhausted_finding :: "pyenv \<Rightarrow> int \<Rightarrow> nat \<Rightarrow> jobj \<Rightarrow> jobj" where
  "exhausted_finding E repair_round index item =
     (let metadata = (case jor (jget item ''metadata'') (JObj []) of JObj m \<Rightarrow> m | _ \<Rightarrow> []);
          metadata' = jset (jset metadata ''previous_state'' (jget item ''state'')) ''transition'' (JStr ''repair_exhausted'') in
      normalize_finding E (JObj (jset (jset (jset (jset item ''state'' (JStr ''blocked''))
        ''repair_round'' (JInt repair_round))
        ''suggested_action'' (jors [jget item ''suggested_action'', JStr ''Review the exhausted repair with a human owner.'']))
        ''metadata'' (JObj metadata'))) index [])"

definition blocked_findings_for_exhaustion :: "pyenv \<Rightarrow> json \<Rightarrow> int \<Rightarrow> jobj list" where
  "blocked_findings_for_exhaustion E findings repair_round =
     List.map_filter (\<lambda>(index, item).
       if jget item ''state'' \<in> JStr ` set TERMINAL_OK_STATES then None
       else Some (exhausted_finding E repair_round index item))
     (List.enumerate 0 (normalize_findings E findings [] False))"

section \<open>Lemmas\<close>

lemma copy_json_value_id [simp]: "copy_json_value v = v"
proof (induction v)
  case (JArr xs)
  then show ?case by (simp add: map_idI)
next
  case (JObj o')
  have "(fst p, copy_json_value (snd p)) = p" if "p \<in> set o'" for p
    using JObj [OF that] by (cases p) simp
  then show ?case by (simp add: map_idI)
qed simp_all

lemma jget_append: "jget (a @ b) k = (if jhas a k then jget a k else jget b k)"
  by (induction a) (auto simp: jhas_def)

lemma jhas_Nil [simp]: "\<not> jhas [] k"
  and jhas_Cons [simp]: "jhas ((k', v) # o') k \<longleftrightarrow> k = k' \<or> jhas o' k"
  by (auto simp: jhas_def)

lemma jget_not_jhas: "\<not> jhas o' k \<Longrightarrow> jget o' k = JNull"
  by (simp add: jhas_def jget_def)

lemma clean_JStr: "clean E (JStr s) = py_strip s"
  by (simp add: clean_def jor_str)

lemma clean_JNull [simp]: "clean E JNull = []"
  by (simp add: clean_def jor_def py_strip_def py_lstrip_def py_rstrip_def)

lemma clean_strip [simp]: "py_strip (clean E v) = clean E v"
  by (simp add: clean_def)

lemma clean_or_none_cases: "clean_or_none E v = (if clean E v = [] then JNull else JStr (clean E v))"
  by (simp add: clean_or_none_def Let_def)

lemma clean_clean_or_none [simp]: "clean E (clean_or_none E v) = clean E v"
  by (simp add: clean_or_none_cases clean_JStr)

lemma clean_or_none_idem [simp]: "clean_or_none E (clean_or_none E v) = clean_or_none E v"
  by (simp add: clean_or_none_cases clean_JStr)

lemma jor_clean_or_none [simp]: "jor (clean_or_none E v) JNull = clean_or_none E v"
  by (simp add: clean_or_none_cases jor_def)

lemma jor_JNull [simp]: "jor JNull v = v"
  by (simp add: jor_def)

subsection \<open>States\<close>

lemma states_of_tables:
  "list_all (\<lambda>p. snd p \<in> set FINDING_STATES) STATE_ALIASES"
  "list_all (\<lambda>p. snd p \<in> set FINDING_STATES) SEVERITY_STATES"
  by code_simp+

lemma map_of_list_all: "list_all (\<lambda>p. snd p \<in> A) ps \<Longrightarrow> map_of ps k = Some v \<Longrightarrow> v \<in> A"
  by (fastforce simp: list_all_iff dest: map_of_SomeD)

lemma token_state_in: "token_state t = Some s \<Longrightarrow> s \<in> set FINDING_STATES"
  by (auto simp: token_state_def split: if_splits dest: map_of_list_all [OF states_of_tables(1)])

lemma finding_states_base: "''pass'' \<in> set FINDING_STATES" "''failed'' \<in> set FINDING_STATES"
  by code_simp+

lemma normalize_finding_state_in: "normalize_finding_state E v st p sv \<in> set FINDING_STATES"
  by (auto simp: normalize_finding_state_def finding_states_base opt_or_def split: option.splits
      dest: token_state_in map_of_list_all [OF states_of_tables(2)])

lemma token_of_state: "s \<in> set FINDING_STATES \<Longrightarrow> state_token E (JStr s) = s"
  unfolding FINDING_STATES_def
  by (auto simp: state_token_def clean_JStr py_strip_def py_lstrip_def py_rstrip_def py_lower_def lower_char_def
      py_replace_char_def char_class_defs)

lemma state_of_state: "s \<in> set FINDING_STATES \<Longrightarrow> normalize_finding_state E (JStr s) st p sv = s"
  by (simp add: normalize_finding_state_def token_of_state token_state_def)

lemma ok_states_in: "set TERMINAL_OK_STATES \<subseteq> set FINDING_STATES"
  by code_simp

lemma blocked_in: "''blocked'' \<in> set FINDING_STATES"
  by code_simp

abbreviation failing_states :: "string list" where
  "failing_states \<equiv> [''failed'', ''blocked'', ''ask_user'', ''auto_fix_available'']"

lemma finding_states_split: "set FINDING_STATES = set failing_states \<union> set TERMINAL_OK_STATES"
  and failing_not_ok: "set failing_states \<inter> set TERMINAL_OK_STATES = {}"
  by code_simp+

text \<open>The finding of a normal form carries one of the six states.\<close>

definition normal_state :: "jobj \<Rightarrow> bool" where
  "normal_state f \<longleftrightarrow> (\<exists>s. jget f ''state'' = JStr s \<and> s \<in> set FINDING_STATES)"

definition ok_finding :: "jobj \<Rightarrow> bool" where
  "ok_finding f \<longleftrightarrow> jget f ''state'' \<in> JStr ` set TERMINAL_OK_STATES"

lemma ok_finding_state: "normal_state f \<Longrightarrow> ok_finding f \<longleftrightarrow> state_of E (jget f ''state'') \<in> set TERMINAL_OK_STATES"
  by (auto simp: ok_finding_def normal_state_def state_of_state)

lemma map_filter_as_obj [simp]: "List.map_filter as_obj (map JObj fs) = fs"
  by (induction fs) (simp_all add: map_filter_simps)

lemma aggregate_ok_iff:
  assumes fs: "\<forall>f\<in>set fs. normal_state f" "fs \<noteq> []"
    and rs: "rs = JNull \<or> (\<exists>s\<in>set FINDING_STATES. rs = JStr s)"
  shows "aggregate_finding_state E (JArr (map JObj fs)) rs \<in> set TERMINAL_OK_STATES
    \<longleftrightarrow> list_all ok_finding fs \<and> (rs = JNull \<or> state_of E rs \<in> set TERMINAL_OK_STATES)"
proof -
  define states where "states = map (\<lambda>o'. state_of E (jget o' ''state'')) fs"
  have ok: "list_all ok_finding fs \<longleftrightarrow> list_all (\<lambda>s. s \<in> set TERMINAL_OK_STATES) states"
    using fs(1) by (auto simp: list_all_iff states_def ok_finding_state [where E = E])
  have sub: "set states \<subseteq> set failing_states \<union> set TERMINAL_OK_STATES"
    unfolding finding_states_split [symmetric] states_def set_map
    by (rule image_subsetI) (rule normalize_finding_state_in)
  have ne: "states \<noteq> []" using fs(2) by (simp add: states_def)
  show ?thesis
  proof (cases "List.find (\<lambda>s. s \<in> set states) failing_states")
    case (Some s)
    from find_Some_mem [OF Some] have "s \<in> set failing_states" "s \<in> set states" by blast+
    moreover then have "\<not> list_all (\<lambda>s. s \<in> set TERMINAL_OK_STATES) states"
      using failing_not_ok by (auto simp: list_all_iff)
    ultimately show ?thesis using Some failing_not_ok ok
      by (auto simp: aggregate_finding_state_def Let_def states_def as_list_def)
  next
    case None
    then have "\<forall>s\<in>set failing_states. s \<notin> set states" by (simp only: find_None_all)
    then have all: "list_all (\<lambda>s. s \<in> set TERMINAL_OK_STATES) states"
      using sub unfolding list_all_iff by blast
    then show ?thesis
      using None ok ne rs unfolding aggregate_finding_state_def Let_def as_list_def states_def
      by (auto simp: opt_or_def TERMINAL_OK_STATES_def state_of_state)
  qed
qed

subsection \<open>The normal form of a finding\<close>

lemma index_id_strip: "py_strip (''finding-'' @ int_str (int i + 1)) = ''finding-'' @ int_str (int i + 1)"
proof (rule py_strip_no_space)
  have "int_str (int i + 1) = nat_str (nat (int i + 1))" by (simp add: int_str_def)
  moreover have "\<not> is_space c" if "c \<in> set (nat_str n)" for c n
    using nat_str_digits [OF that] by (auto simp: char_class_defs)
  ultimately show "\<forall>c\<in>set (''finding-'' @ int_str (int i + 1)). \<not> is_space c"
    by (auto simp: char_class_defs)
qed

lemma finding_id_normal: "finding_id E s d i \<noteq> []" "py_strip (finding_id E s d i) = finding_id E s d i"
  using index_id_strip [of i] by (simp_all add: finding_id_def Let_def)

lemma finding_summary_normal: "finding_summary E s d i \<noteq> []" "py_strip (finding_summary E s d i) = finding_summary E s d i"
  by (simp_all add: finding_summary_def Let_def finding_id_normal)

lemma finding_severity_normal: "finding_severity E s d \<noteq> []" "py_strip (finding_severity E s d) = finding_severity E s d"
  by (simp_all add: finding_severity_def Let_def py_strip_no_space char_class_defs)

lemma finding_state_value_in: "finding_state_value E s d sv \<in> set FINDING_STATES"
  by (simp add: finding_state_value_def Let_def normalize_finding_state_in)

lemma finding_round_nonneg: "0 \<le> finding_round s d"
  by (simp add: finding_round_def non_negative_int_def split: sum.splits)

lemma jhas_text_entry [simp]: "jhas (text_entry E k v) k' \<longleftrightarrow> k' = k \<and> clean E v \<noteq> []"
  by (simp add: text_entry_def Let_def)

lemma jget_text_entry [simp]: "jget (text_entry E k v) k' = (if k' = k then clean_or_none E v else JNull)"
  by (simp add: text_entry_def Let_def clean_or_none_cases)

lemma jhas_metadata_entry: "jhas (metadata_entry a b) k \<Longrightarrow> k = ''metadata''"
  by (auto simp: metadata_entry_def split: json.splits list.splits option.splits)

lemma jget_metadata_entry [simp]: "k \<noteq> ''metadata'' \<Longrightarrow> jget (metadata_entry a b) k = JNull"
  using jhas_metadata_entry jget_not_jhas by blast

definition opt_entry :: "string \<Rightarrow> json option \<Rightarrow> jobj" where
  "opt_entry k v = (case v of None \<Rightarrow> [] | Some x \<Rightarrow> [(k, x)])"

lemma opt_entry_simps [simp]:
  "jhas (opt_entry k v) k' \<longleftrightarrow> k' = k \<and> v \<noteq> None"
  "jget (opt_entry k v) k' = (if k' = k then opt_or v JNull else JNull)"
  by (simp_all add: opt_entry_def split: option.splits)

lemma line_entry: "(case l of None \<Rightarrow> [] | Some n \<Rightarrow> [(''line'', JInt n)]) = opt_entry ''line'' (map_option JInt l)"
  by (simp add: opt_entry_def split: option.splits)

lemma refs_entry: "(if rs = [] then [] else [(k, JArr (map JStr rs))])
    = opt_entry k (if rs = [] then None else Some (JArr (map JStr rs)))"
  by (simp add: opt_entry_def)

definition well_finding :: "pyenv \<Rightarrow> jobj \<Rightarrow> bool" where
  "well_finding E f \<longleftrightarrow> normal_state f
     \<and> clean E (jors [jget f ''source_gate'', jget f ''sourceGate'', jget f ''id'']) \<noteq> []"

lemmas normal_gets = jget_append line_entry refs_entry jhas_metadata_entry

lemma normalize_finding_well: "well_finding E (normalize_finding E v i d)"
proof -
  have "jget (normalize_finding E v i d) ''sourceGate'' = JNull"
    by (simp add: normalize_finding_def Let_def normal_gets)
  then show ?thesis
    by (auto simp: well_finding_def normal_state_def normalize_finding_def Let_def finding_state_value_in
        finding_gate_def clean_or_none_cases clean_JStr finding_id_normal)
qed

lemma well_finding_round [simp]: "well_finding E (jset f ''repair_round'' v) = well_finding E f"
  by (simp add: well_finding_def normal_state_def)

lemma normalize_findings_well: "f \<in> set (normalize_findings E v d b) \<Longrightarrow> well_finding E f"
  by (auto simp: normalize_findings_def Let_def normalize_finding_well split: if_splits)

lemma derive_legacy_well: "f \<in> set (derive_legacy_findings E r d) \<Longrightarrow> well_finding E f"
  unfolding derive_legacy_findings_def Let_def
  by (auto split: json.splits list.splits if_splits dest: normalize_findings_well)

lemma report_findings_well: "f \<in> set (report_findings E r fid g s ow rr) \<Longrightarrow> well_finding E f"
  unfolding report_findings_def Let_def
  by (auto split: if_splits dest: normalize_findings_well derive_legacy_well intro: normalize_finding_well)

lemma report_findings_nonempty: "report_findings E r fid g s ow rr \<noteq> []"
  by (auto simp: report_findings_def Let_def)

lemma failed_gates_empty:
  assumes "\<forall>f\<in>set fs. well_finding E f"
  shows "failed_gate_ids_from_findings E (JArr (map JObj fs)) = [] \<longleftrightarrow> list_all ok_finding fs"
proof -
  define step where "step gates v = (case as_obj v of
      None \<Rightarrow> gates
    | Some item \<Rightarrow>
        if \<not> finding_state_failed E (jors [jget item ''state'', jget item ''finding_state'']) then gates
        else let gate = clean E (jors [jget item ''source_gate'', jget item ''sourceGate'', jget item ''id'']) in
          if gate \<noteq> [] \<and> gate \<notin> set gates then gates @ [gate] else gates)" for gates v
  have fails: "finding_state_failed E (jors [jget f ''state'', jget f ''finding_state'']) \<longleftrightarrow> \<not> ok_finding f"
    if "well_finding E f" for f
  proof -
    obtain s where s: "jget f ''state'' = JStr s" "s \<in> set FINDING_STATES"
      using \<open>well_finding E f\<close> by (auto simp: well_finding_def normal_state_def)
    moreover have "s \<noteq> []" using s(2) by (auto simp: FINDING_STATES_def)
    ultimately show ?thesis by (auto simp: finding_state_failed_def state_of_state ok_finding_def)
  qed
  have nonempty: "foldl step acc vs \<noteq> []" if "acc \<noteq> []" for acc vs
    using that by (induction vs arbitrary: acc) (auto simp: step_def Let_def split: option.splits)
  have "foldl step [] (map JObj fs) = [] \<longleftrightarrow> list_all ok_finding fs" using assms
  proof (induction fs)
    case (Cons f fs)
    show ?case
    proof (cases "ok_finding f")
      case True
      then have "step [] (JObj f) = []" using Cons.prems fails by (simp add: step_def)
      with True Cons show ?thesis by simp
    next
      case False
      then have "step [] (JObj f) \<noteq> []" using Cons.prems fails by (simp add: step_def well_finding_def Let_def)
      with False nonempty show ?thesis by simp
    qed
  qed simp
  then show ?thesis by (simp add: failed_gate_ids_from_findings_def as_list_def step_def [abs_def])
qed

section \<open>Properties\<close>

text \<open>C38: a quality gate passes only on good findings. A normalised report counts as passed
  exactly when every one of its findings is in a passing state and the verdict the report itself
  carried, if any, is passing too; and its findings name no failed gate exactly when all of them
  pass. A report without findings gets one, so no report passes on nothing.\<close>

theorem quality_gate_exact:
  "(quality_report_passed E (normalize_quality_report E r fid g s ow rr)
     \<longleftrightarrow> list_all ok_finding (report_findings E r fid g s ow rr)
       \<and> (report_signal_present r \<longrightarrow> report_signal_state E r \<in> set TERMINAL_OK_STATES))
   \<and> (failed_gate_ids_from_findings E (jget (normalize_quality_report E r fid g s ow rr) ''findings'') = []
     \<longleftrightarrow> list_all ok_finding (report_findings E r fid g s ow rr))
   \<and> report_findings E r fid g s ow rr \<noteq> []"
proof -
  let ?fs = "report_findings E r fid g s ow rr"
  let ?items = "JArr (map JObj ?fs)"
  let ?rs = "if report_signal_present r then JStr (report_signal_state E r) else JNull"
  have wf: "\<forall>f\<in>set ?fs. well_finding E f" using report_findings_well by blast
  then have ns: "\<forall>f\<in>set ?fs. normal_state f" by (simp add: well_finding_def)
  have rs: "?rs = JNull \<or> (\<exists>s\<in>set FINDING_STATES. ?rs = JStr s)"
    by (simp add: report_signal_state_def normalize_finding_state_in)
  have sig: "state_of E (JStr (report_signal_state E r)) = report_signal_state E r"
    by (rule state_of_state) (simp add: report_signal_state_def normalize_finding_state_in)
  have agg: "aggregate_finding_state E ?items ?rs \<in> set FINDING_STATES"
    unfolding aggregate_finding_state_def Let_def using rs
    by (auto split: option.splits dest!: find_Some_mem
        simp: opt_or_def state_of_state FINDING_STATES_def)
  have "quality_report_passed E (normalize_quality_report E r fid g s ow rr)
     \<longleftrightarrow> aggregate_finding_state E ?items ?rs \<in> set TERMINAL_OK_STATES"
    by (simp add: quality_report_passed_def normalize_quality_report_def Let_def state_of_state [OF agg])
  also have "\<dots> \<longleftrightarrow> list_all ok_finding ?fs \<and> (?rs = JNull \<or> state_of E ?rs \<in> set TERMINAL_OK_STATES)"
    by (rule aggregate_ok_iff [OF ns report_findings_nonempty rs])
  finally show ?thesis
    using failed_gates_empty [OF wf] report_findings_nonempty sig
    by (auto simp: normalize_quality_report_def Let_def)
qed

theorem quality_gate_exact_witness:
  "\<not> quality_report_passed sample_env (normalize_quality_report sample_env
     [(''status'', JStr ''error''), (''findings'', JArr [JObj [(''state'', JStr ''pass'')]])] ''q'' ''gate'' None None None)"
proof -
  have "report_signal_present [(''status'', JStr ''error''), (''findings'', JArr [JObj [(''state'', JStr ''pass'')]])]"
    by (simp add: report_signal_present_def)
  moreover have "report_signal_state sample_env [(''status'', JStr ''error''), (''findings'', JArr [JObj [(''state'', JStr ''pass'')]])]
      \<notin> set TERMINAL_OK_STATES"
    by code_simp
  ultimately show ?thesis
    using quality_gate_exact [of sample_env "[(''status'', JStr ''error''), (''findings'', JArr [JObj [(''state'', JStr ''pass'')]])]"
      "''q''" "''gate''" None None None] by blast
qed

subsection \<open>Stability of the normal form\<close>

definition metadata_val :: "json \<Rightarrow> json \<Rightarrow> json option" where
  "metadata_val own fallback = (case (case as_obj own of Some _ \<Rightarrow> own | None \<Rightarrow> fallback) of
      JObj (p # ps) \<Rightarrow> Some (JObj (filter (\<lambda>q. snd q \<noteq> JNull) (sort_key fst (p # ps)))) | _ \<Rightarrow> None)"

lemma metadata_entry_val: "metadata_entry a b = opt_entry ''metadata'' (metadata_val a b)"
  by (simp add: metadata_entry_def metadata_val_def opt_entry_def split: json.splits list.splits)

lemma metadata_val_sorted:
  "metadata_val a b = Some v \<Longrightarrow> \<exists>m. v = JObj m \<and> sorted (map fst m) \<and> list_all (\<lambda>q. snd q \<noteq> JNull) m"
proof -
  assume "metadata_val a b = Some v"
  then have "\<exists>ps. v = JObj (filter (\<lambda>q. snd q \<noteq> JNull) (sort_key fst ps))"
    by (auto simp: metadata_val_def simp del: sort_key_simps split: json.splits list.splits)
  then obtain ps where v: "v = JObj (filter (\<lambda>q. snd q \<noteq> JNull) (sort_key fst ps))" by blast
  have "sorted (map fst (filter (\<lambda>q. snd q \<noteq> JNull) (sort_key fst ps)))"
    by (simp add: sorted_filter)
  then show ?thesis using v by (auto simp: list_all_iff)
qed

lemma metadata_val_stable:
  assumes "metadata_val a b \<noteq> Some (JObj [])"
  shows "metadata_val (opt_or (metadata_val a b) JNull) JNull = metadata_val a b"
proof (cases "metadata_val a b")
  case None
  then show ?thesis by (simp add: metadata_val_def)
next
  case (Some v)
  then obtain p ps where v: "v = JObj (p # ps)" "sorted (map fst (p # ps))" "list_all (\<lambda>q. snd q \<noteq> JNull) (p # ps)"
    using metadata_val_sorted [OF Some] assms by (metis list.exhaust)
  then have "sort_key fst (p # ps) = p # ps" by (intro sort_key_id_if_sorted)
  moreover have "filter (\<lambda>q. snd q \<noteq> JNull) (p # ps) = p # ps" using v(3) by (intro filter_True) (simp add: list_all_iff)
  ultimately show ?thesis using Some v(1) by (simp add: metadata_val_def del: sort_key_simps)
qed

lemma string_list_stable: "string_list E (JArr (map JStr (string_list E v))) = string_list E v"
proof -
  have "\<forall>s\<in>set (string_list E v). s \<noteq> [] \<and> py_strip s = s" by (auto simp: string_list_def)
  then have "map (clean E) (map JStr (string_list E v)) = string_list E v"
    and "filter (\<lambda>s. s \<noteq> []) (string_list E v) = string_list E v"
    by (auto simp: clean_JStr intro: map_idI)
  moreover have "sort (remdups (string_list E v)) = string_list E v"
    by (simp add: string_list_def remdups_id_iff_distinct sort_key_id_if_sorted)
  ultimately show ?thesis by (simp add: string_list_def [of E "JArr _"] as_list_def)
qed

lemma string_list_JNull: "string_list E JNull = []"
  by (simp add: string_list_def as_list_def)

lemma positive_int_stable: "positive_int (opt_or (map_option JInt (positive_int v)) JNull) = positive_int v"
  by (auto simp: positive_int_def py_int_def split: sum.splits json.splits)

lemma truthy_refs: "rs \<noteq> [] \<Longrightarrow> jor (JArr (map JStr rs)) w = JArr (map JStr rs)"
  by (simp add: jor_def)

lemma positive_int_JNull: "positive_int JNull = None"
  by (simp add: positive_int_def py_int_def)

lemma jor_nonempty: "s \<noteq> [] \<Longrightarrow> jor (JStr s) w = JStr s"
  by (simp add: jor_def)

definition finding_keys :: "string list" where
  "finding_keys = [''schema_version'', ''id'', ''state'', ''severity'', ''summary'', ''evidence'', ''suggested_action'',
     ''owner'', ''repair_round'', ''source_gate'', ''details'', ''source'', ''file'', ''line'', ''evidence_refs'', ''metadata'']"

lemma jget_keys: "k \<notin> set (map fst o') \<Longrightarrow> jget o' k = JNull"
  by (induction o') auto

lemma entry_keys: "set (map fst (opt_entry k v)) \<subseteq> {k}" "set (map fst (text_entry E k w)) \<subseteq> {k}"
  by (auto simp: opt_entry_def text_entry_def Let_def split: option.splits)

lemma normalize_finding_keys: "set (map fst (normalize_finding E v i d)) \<subseteq> set finding_keys"
  unfolding normalize_finding_def Let_def line_entry refs_entry metadata_entry_val map_append set_append
  by (intro Un_least order_trans [OF entry_keys(1)] order_trans [OF entry_keys(2)]) (simp_all add: finding_keys_def)

lemma normalize_finding_absent: "k \<notin> set finding_keys \<Longrightarrow> jget (normalize_finding E v i d) k = JNull"
  using normalize_finding_keys by (intro jget_keys) blast

lemma normalize_finding_parts:
  fixes v defines "s \<equiv> finding_source v"
  shows "jget (normalize_finding E v i d) ''id'' = JStr (finding_id E s d i)"
    "jget (normalize_finding E v i d) ''state'' = JStr (finding_state_value E s d (finding_severity E s d))"
    "jget (normalize_finding E v i d) ''severity'' = JStr (finding_severity E s d)"
    "jget (normalize_finding E v i d) ''summary'' = JStr (finding_summary E s d i)"
    "jget (normalize_finding E v i d) ''repair_round'' = JInt (finding_round s d)"
    "jget (normalize_finding E v i d) ''source_gate'' = finding_gate E s d"
    "jhas (normalize_finding E v i d) ''evidence''"
  by (simp_all add: normalize_finding_def Let_def s_def)

lemma normal_parts_stable:
  fixes v E i d defines "s \<equiv> finding_source v" and "n \<equiv> normalize_finding E v i d"
  shows "finding_id E n [] j = finding_id E s d i" "finding_severity E n [] = finding_severity E s d"
    "finding_summary E n [] j = finding_summary E s d i" "finding_round n [] = finding_round s d"
    "finding_gate E n [] = finding_gate E s d"
    "finding_state_value E n [] (finding_severity E n []) = finding_state_value E s d (finding_severity E s d)"
proof -
  note absent = normalize_finding_absent [of _ E v i d, folded n_def]
  note parts = normalize_finding_parts [of E v i d, folded n_def s_def]
  show id: "finding_id E n [] j = finding_id E s d i"
    by (simp add: finding_id_def [of E n] parts jor_nonempty finding_id_normal clean_JStr)
  show sev: "finding_severity E n [] = finding_severity E s d"
    by (simp add: finding_severity_def [of E n] parts jor_nonempty finding_severity_normal clean_JStr)
  show "finding_summary E n [] j = finding_summary E s d i"
    by (simp add: finding_summary_def [of E n] parts jor_nonempty finding_summary_normal clean_JStr)
  show "finding_round n [] = finding_round s d"
    by (simp add: finding_round_def [of n] parts non_negative_int_def finding_round_nonneg max_absorb2)
  have "jors [finding_gate E s d, JNull, JNull, JNull] = finding_gate E s d"
    by (simp add: finding_gate_def)
  then show "finding_gate E n [] = finding_gate E s d"
    unfolding finding_gate_def [of E n] parts
    by (simp add: absent finding_keys_def del: jors.simps) (simp add: finding_gate_def)
  show "finding_state_value E n [] (finding_severity E n []) = finding_state_value E s d (finding_severity E s d)"
    by (simp add: finding_state_value_def [of E n] parts state_of_state finding_state_value_in)
qed

lemma normalize_finding_shape:
  fixes v d defines "s \<equiv> finding_source v"
  shows "normalize_finding E v i d =
      [(''schema_version'', JStr FINDING_SCHEMA_VERSION), (''id'', JStr (finding_id E s d i)),
       (''state'', JStr (finding_state_value E s d (finding_severity E s d))), (''severity'', JStr (finding_severity E s d)),
       (''summary'', JStr (finding_summary E s d i)),
       (''evidence'', if jhas s ''evidence'' then jget s ''evidence'' else jget d ''evidence''),
       (''suggested_action'', clean_or_none E (jors [jget s ''suggested_action'', jget s ''suggestedAction'',
          jget s ''remediation'', jget d ''suggested_action''])),
       (''owner'', clean_or_none E (jors [jget s ''owner'', jget s ''repo'', jget s ''repository'', jget d ''owner''])),
       (''repair_round'', JInt (finding_round s d)), (''source_gate'', finding_gate E s d)]
      @ text_entry E ''details'' (jors [jget s ''details'', jget s ''detail'', jget s ''body'', jget s ''excerpt'', jget d ''details''])
      @ text_entry E ''source'' (jors [jget s ''source'', jget s ''adapter'', jget s ''check''])
      @ text_entry E ''file'' (jors [jget s ''file'', jget s ''path'', jget d ''file''])
      @ opt_entry ''line'' (map_option JInt (positive_int (if jget s ''line'' \<noteq> JNull then jget s ''line'' else jget d ''line'')))
      @ opt_entry ''evidence_refs'' (let refs = string_list E (jors [jget s ''evidence_refs'', jget s ''evidenceRefs'',
           jget s ''refs'', jget d ''evidence_refs'']) in if refs = [] then None else Some (JArr (map JStr refs)))
      @ opt_entry ''metadata'' (metadata_val (jget s ''metadata'') (jget d ''metadata''))"
  unfolding normalize_finding_def Let_def line_entry refs_entry metadata_entry_val s_def copy_json_value_id ..

lemma text_entry_clean [simp]: "text_entry E k (clean_or_none E v) = text_entry E k v"
  by (simp add: text_entry_def)

lemma jors_clean_or_none:
  "jors [clean_or_none E v, JNull, JNull] = clean_or_none E v"
  "jors [clean_or_none E v, JNull, JNull, JNull] = clean_or_none E v"
  "jors [clean_or_none E v, JNull, JNull, JNull, JNull] = clean_or_none E v"
  by simp_all

lemma normalize_finding_tail:
  fixes v d defines "s \<equiv> finding_source v"
  shows "jget (normalize_finding E v i d) ''suggested_action'' = clean_or_none E (jors [jget s ''suggested_action'',
        jget s ''suggestedAction'', jget s ''remediation'', jget d ''suggested_action''])"
    "jget (normalize_finding E v i d) ''owner'' = clean_or_none E (jors [jget s ''owner'', jget s ''repo'',
        jget s ''repository'', jget d ''owner''])"
    "jget (normalize_finding E v i d) ''evidence'' = (if jhas s ''evidence'' then jget s ''evidence'' else jget d ''evidence'')"
    "jget (normalize_finding E v i d) ''details'' = clean_or_none E (jors [jget s ''details'', jget s ''detail'',
        jget s ''body'', jget s ''excerpt'', jget d ''details''])"
    "jget (normalize_finding E v i d) ''source'' = clean_or_none E (jors [jget s ''source'', jget s ''adapter'', jget s ''check''])"
    "jget (normalize_finding E v i d) ''file'' = clean_or_none E (jors [jget s ''file'', jget s ''path'', jget d ''file''])"
    "jget (normalize_finding E v i d) ''line'' = opt_or (map_option JInt (positive_int
        (if jget s ''line'' \<noteq> JNull then jget s ''line'' else jget d ''line''))) JNull"
    "jget (normalize_finding E v i d) ''metadata'' = opt_or (metadata_val (jget s ''metadata'') (jget d ''metadata'')) JNull"
  by (simp_all add: normalize_finding_shape s_def jget_append clean_or_none_cases del: jors.simps)

lemma normalize_finding_refs:
  fixes v d defines "s \<equiv> finding_source v"
  shows "jget (normalize_finding E v i d) ''evidence_refs'' = (let refs = string_list E (jors [jget s ''evidence_refs'',
    jget s ''evidenceRefs'', jget s ''refs'', jget d ''evidence_refs'']) in if refs = [] then JNull else JArr (map JStr refs))"
  by (simp add: normalize_finding_shape s_def jget_append Let_def del: jors.simps)

lemma refs_stable:
  "string_list E (jors [if string_list E v = [] then JNull else JArr (map JStr (string_list E v)), JNull, JNull, JNull])
   = string_list E v"
  by (simp add: string_list_JNull truthy_refs string_list_stable)

lemma line_stable: "positive_int (if l \<noteq> JNull then l else JNull) = positive_int l"
  by simp

lemma normalize_finding_stable:
  assumes "jget (normalize_finding E v i d) ''metadata'' \<noteq> JObj []"
  shows "normalize_finding E (JObj (normalize_finding E v i d)) j [] = normalize_finding E v i d"
proof -
  define n where "n = normalize_finding E v i d"
  define s where "s = finding_source v"
  note absent = normalize_finding_absent [of _ E v i d, folded n_def]
  note parts = normal_parts_stable [of E v i d, folded n_def s_def]
  note tail = normalize_finding_tail [of E v i d, folded n_def s_def]
  have md: "metadata_val (jget n ''metadata'') JNull = metadata_val (jget s ''metadata'') (jget d ''metadata'')"
    unfolding tail by (rule metadata_val_stable) (use assms tail in \<open>auto simp: n_def\<close>)
  have st: "finding_state_value E n [] (finding_severity E s d) = finding_state_value E s d (finding_severity E s d)"
    using parts(6) by (simp only: parts(2))
  have ln: "positive_int (if jget n ''line'' \<noteq> JNull then jget n ''line'' else JNull)
      = positive_int (if jget s ''line'' \<noteq> JNull then jget s ''line'' else jget d ''line'')"
    unfolding line_stable tail by (rule positive_int_stable)
  have ev: "jhas n ''evidence''" by (simp add: n_def normalize_finding_parts)
  have src: "finding_source (JObj n) = n" by (simp add: finding_source_def)
  have keys: "k \<notin> set finding_keys \<Longrightarrow> jget n k = JNull" for k by (rule absent)
  have none: "jget n ''suggestedAction'' = JNull" "jget n ''remediation'' = JNull" "jget n ''repo'' = JNull"
    "jget n ''repository'' = JNull" "jget n ''detail'' = JNull" "jget n ''body'' = JNull" "jget n ''excerpt'' = JNull"
    "jget n ''adapter'' = JNull" "jget n ''check'' = JNull" "jget n ''path'' = JNull" "jget n ''evidenceRefs'' = JNull"
    "jget n ''refs'' = JNull"
    by (rule keys, simp add: finding_keys_def)+
  have "normalize_finding E (JObj n) j [] = normalize_finding E v i d"
    unfolding normalize_finding_shape [of E "JObj n"] normalize_finding_shape [of E v i d] src s_def [symmetric] parts(1-5) st none
      jget_simps md ln normalize_finding_refs [of E v i d, folded n_def s_def] Let_def refs_stable
    by (simp add: tail jors_clean_or_none ev del: jors.simps)
  then show ?thesis by (simp add: n_def)
qed

text \<open>The normal form of a finding is stable: normalising a normal finding again, at any
  position, returns it unchanged. The only exception is a finding whose metadata held nothing but
  null values: its empty metadata object is dropped by the second pass.\<close>

theorem finding_normal_form:
  assumes "jget (normalize_finding E v i d) ''metadata'' \<noteq> JObj []"
  shows "normalize_finding E (JObj (normalize_finding E v i d)) j [] = normalize_finding E v i d"
  using assms by (rule normalize_finding_stable)

theorem finding_normal_form_sample:
  "let f = normalize_finding sample_env (JObj [(''level'', JStr '' high ''), (''title'', JStr ''slow''), (''line'', JStr ''7'')]) 2 []
   in jget f ''state'' = JStr ''blocked'' \<and> jget f ''id'' = JStr ''finding-3''
     \<and> normalize_finding sample_env (JObj f) 0 [] = f"
proof -
  let ?v = "JObj [(''level'', JStr '' high ''), (''title'', JStr ''slow''), (''line'', JStr ''7'')]"
  have "jget (normalize_finding sample_env ?v 2 []) ''metadata'' \<noteq> JObj []" by code_simp
  from finding_normal_form [OF this, of 0]
  have "normalize_finding sample_env (JObj (normalize_finding sample_env ?v 2 [])) 0 [] = normalize_finding sample_env ?v 2 []" .
  moreover have "jget (normalize_finding sample_env ?v 2 []) ''state'' = JStr ''blocked''" by code_simp
  moreover have "jget (normalize_finding sample_env ?v 2 []) ''id'' = JStr ''finding-3''" by code_simp
  ultimately show ?thesis by (simp only: Let_def simp_thms)
qed

subsection \<open>Exhausted repairs\<close>

lemma jget_filter_nonnull:
  "jget xs k \<noteq> JNull \<Longrightarrow> jget (filter (\<lambda>q. snd q \<noteq> JNull) xs) k = jget xs k"
  by (induction xs) (auto split: if_splits)

lemma jget_by_filter: "jget xs k = (case filter (\<lambda>p. fst p = k) xs of [] \<Rightarrow> JNull | p # ps \<Rightarrow> snd p)"
  by (induction xs) auto

lemma jget_sort_key [simp]: "jget (sort_key fst xs) k = jget xs k"
  by (simp add: jget_by_filter sort_key_stable)

text \<open>What becomes of one finding when its repairs are exhausted.\<close>

definition blocked_from :: "int \<Rightarrow> jobj \<Rightarrow> jobj \<Rightarrow> bool" where
  "blocked_from r f b \<longleftrightarrow> jget b ''state'' = JStr ''blocked'' \<and> jget b ''id'' = jget f ''id''
     \<and> jget b ''repair_round'' = JInt (max 0 r) \<and> jget b ''suggested_action'' \<noteq> JNull
     \<and> (\<exists>m. jget b ''metadata'' = JObj m \<and> jget m ''previous_state'' = jget f ''state''
          \<and> jget m ''transition'' = JStr ''repair_exhausted'')"

lemma jset_not_Nil [simp]: "jset o' k v \<noteq> []"
  by (cases o') (auto split: if_splits)

lemma clean_default:
  "py_strip a \<noteq> [] \<Longrightarrow> clean E (jors [jors [clean_or_none E w, JStr a], b, c, JNull]) \<noteq> []"
  by (cases "a = []") (auto simp: clean_or_none_cases clean_JStr jor_nonempty py_strip_no_space)

lemma metadata_val_jset:
  "metadata_val (JObj (jset o' k v)) w = Some (JObj (filter (\<lambda>q. snd q \<noteq> JNull) (sort_key fst (jset o' k v))))"
  using jset_not_Nil [of o' k v] by (auto simp: metadata_val_def simp del: sort_key_simps jset_not_Nil split: list.splits)

lemma exhausted_blocked:
  fixes v d E i defines "f \<equiv> normalize_finding E v i d"
  shows "blocked_from r f (exhausted_finding E r j f)"
proof -
  define m where "m = (case jor (jget f ''metadata'') (JObj []) of JObj m \<Rightarrow> m | _ \<Rightarrow> [])"
  define m' where "m' = jset (jset m ''previous_state'' (jget f ''state'')) ''transition'' (JStr ''repair_exhausted'')"
  define g where "g = jset (jset (jset (jset f ''state'' (JStr ''blocked'')) ''repair_round'' (JInt r))
    ''suggested_action'' (jors [jget f ''suggested_action'', JStr ''Review the exhausted repair with a human owner.'']))
    ''metadata'' (JObj m')"
  have e: "exhausted_finding E r j f = normalize_finding E (JObj g) j []"
    by (simp add: exhausted_finding_def Let_def g_def m'_def m_def)
  have src: "finding_source (JObj g) = g" by (simp add: finding_source_def)
  obtain x where x: "jget f ''id'' = JStr x" "x \<noteq> []" "py_strip x = x"
    unfolding f_def normalize_finding_parts using finding_id_normal by metis
  have id: "finding_id E g [] j = x"
    using x by (simp add: finding_id_def g_def clean_JStr jor_nonempty)
  obtain y where y: "jget f ''state'' = JStr y" unfolding f_def normalize_finding_parts by blast
  have act: "clean E (jors [jors [jget f ''suggested_action'', JStr ''Review the exhausted repair with a human owner.''],
      jget g ''suggestedAction'', jget g ''remediation'', JNull]) \<noteq> []"
    unfolding f_def normalize_finding_tail
    by (rule clean_default) (simp add: py_strip_def py_lstrip_def py_rstrip_def char_class_defs)
  have md: "metadata_val (jget g ''metadata'') JNull = Some (JObj (filter (\<lambda>q. snd q \<noteq> JNull) (sort_key fst m')))"
    by (simp add: g_def m'_def metadata_val_jset del: sort_key_simps)
  have m1: "jget (filter (\<lambda>q. snd q \<noteq> JNull) (sort_key fst m')) ''previous_state'' = jget f ''state''"
    using y by (subst jget_filter_nonnull) (simp_all add: m'_def)
  have m2: "jget (filter (\<lambda>q. snd q \<noteq> JNull) (sort_key fst m')) ''transition'' = JStr ''repair_exhausted''"
    by (subst jget_filter_nonnull) (simp_all add: m'_def)
  have st: "finding_state_value E g [] sv = ''blocked''" for sv
    by (simp add: finding_state_value_def g_def state_of_state blocked_in)
  have rd: "finding_round g [] = max 0 r"
    by (simp add: finding_round_def g_def non_negative_int_def)
  show ?thesis
    unfolding blocked_from_def e normalize_finding_parts normalize_finding_tail src st id rd jget_simps md
    using x m1 m2 act by (auto simp: clean_or_none_cases g_def)
qed

lemma enumerate_filter_rel:
  assumes "\<And>i f. f \<in> set fs \<Longrightarrow> R f (h i f)"
  shows "list_all2 R (filter (\<lambda>f. \<not> P f) fs)
     (List.map_filter (\<lambda>(i, f). if P f then None else Some (h i f)) (List.enumerate n fs))"
  using assms by (induction fs arbitrary: n) (auto simp: map_filter_simps)

text \<open>an exhausted repair is escalated, never dropped. Of the normalised findings, exactly the
  ones that do not pass come out again, in order and under their ids, each now blocked, with the
  repair round, a suggested action for a human, and its previous state recorded in the metadata.\<close>

lemma exhausted_repair_escalated:
  "list_all2 (blocked_from r) (filter (\<lambda>f. \<not> ok_finding f) (normalize_findings E v [] False))
     (blocked_findings_for_exhaustion E v r)"
  unfolding blocked_findings_for_exhaustion_def ok_finding_def
  by (rule enumerate_filter_rel) (auto simp: normalize_findings_def Let_def intro: exhausted_blocked)

end
