(* ===== verification/LoopModel.thy ===== *)
theory LoopModel
  imports Findings WorkerStore
begin

text \<open>
  Data of the agent loop: the loop, its steps, actions and observations (\<open>agent_loop.py\<close>), the
  failure taxonomy (\<open>failures.py\<close>), cancellation categories, and the durable state the runtime
  works on (the loop part of \<open>LocalStore\<close> in \<open>store.py\<close>).

  The runtime mutates a loop object in memory and saves it; exceptions keep what was mutated, so the
  object is a field of the state. Every call of \<open>time.time()\<close> reads the next value of a stream, and
  every \<open>uuid4()\<close> the next of another. Other processes can leave a cancel request at any
  moment: each look at the request file first takes the arrival, if any, of that moment.
\<close>

section \<open>Text helpers\<close>

fun py_contains :: "string \<Rightarrow> string \<Rightarrow> bool" where
  "py_contains [] sub = (sub = [])"
| "py_contains (c # cs) sub = (take (length sub) (c # cs) = sub \<or> py_contains cs sub)"

definition upper_ascii :: "char \<Rightarrow> char" where
  "upper_ascii c = (if is_lower_ascii c then char_of (code_pt c - 32) else c)"

text \<open>\<open>str.title()\<close> on ASCII text: a letter after a letter is lowered, any other letter raised.\<close>

fun title_from :: "bool \<Rightarrow> string \<Rightarrow> string" where
  "title_from cased [] = []"
| "title_from cased (c # cs) = (let letter = is_lower_ascii c \<or> is_upper_ascii c in
     (if letter then (if cased then lower_char c else upper_ascii c) else c) # title_from letter cs)"

definition py_title :: "string \<Rightarrow> string" where
  "py_title s = title_from False s"

text \<open>\<open>str(exc)\<close>: a \<open>KeyError\<close> shows the representation of its key.\<close>

definition exc_str :: "py_exc \<Rightarrow> string" where
  "exc_str e = (case e of CoordinatorError m \<Rightarrow> m | ProtocolError m \<Rightarrow> m | ValueError m \<Rightarrow> m | RuntimeError m \<Rightarrow> m
     | TypeError m \<Rightarrow> m | KeyError m \<Rightarrow> str_repr m | AttributeError m \<Rightarrow> m | ActionCancelledError r c \<Rightarrow> r
     | ConcurrencyError a m \<Rightarrow> ''max_concurrent_loops_exceeded'' | TimeoutError m \<Rightarrow> m | EnvironmentBlocked m \<Rightarrow> m
     | AdapterFailure m \<Rightarrow> m | FileNotFoundError m \<Rightarrow> m | PermissionError m \<Rightarrow> m | OSError m \<Rightarrow> m)"

text \<open>\<open>round\<close>: to the nearest integer, ties to the even one.\<close>

definition py_round :: "rat \<Rightarrow> int" where
  "py_round r = (let f = \<lfloor>r\<rfloor>; d = r - of_int f in
     if d < 1 / 2 then f else if d > 1 / 2 then f + 1 else if even f then f else f + 1)"

section \<open>Failure types\<close>

definition FAILURE_TYPES :: "string list" where
  "FAILURE_TYPES = [''adapter_error'', ''approval_rejected'', ''budget_exceeded'', ''environment_blocked'',
     ''lease_expired'', ''max_runtime_exceeded'', ''max_turns_exceeded'', ''quality_failed'', ''timeout'']"

definition failure_type_for_reason :: "string \<Rightarrow> string" where
  "failure_type_for_reason reason = (let value = py_strip reason in
     if value = ''action_lease_expired'' then ''lease_expired''
     else if value = ''quality_gate_failed'' then ''quality_failed''
     else if value = ''approval_rejected'' then ''approval_rejected''
     else if value = ''budget_exceeded'' then ''budget_exceeded''
     else if value = ''max_runtime_exceeded'' then ''max_runtime_exceeded''
     else if value = ''max_turns_exceeded'' then ''max_turns_exceeded''
     else if value \<in> set FAILURE_TYPES then value
     else ''adapter_error'')"

definition failure_type_for_exception :: "py_exc \<Rightarrow> string" where
  "failure_type_for_exception e = (case e of TimeoutError m \<Rightarrow> ''timeout''
     | EnvironmentBlocked m \<Rightarrow> ''environment_blocked'' | _ \<Rightarrow> ''adapter_error'')"

section \<open>Action types\<close>

definition TERMINAL_LOOP_STATUSES :: "string list" where
  "TERMINAL_LOOP_STATUSES = [''completed'', ''failed'', ''stopped'', ''cancelled'']"

definition SUPPORTED_LOOP_ACTION_TYPES :: "string list" where
  "SUPPORTED_LOOP_ACTION_TYPES = [''memory_search'', ''task_dispatch'', ''remediation_dispatch'', ''quality_gate'',
     ''memory_write_candidate'', ''final_output'']"

definition SUPPORTED_RECOVERY_ACTIONS :: "string list" where
  "SUPPORTED_RECOVERY_ACTIONS = [''stop'', ''retry'', ''remediation'', ''require_human'']"

text \<open>\<open>^[a-z][a-z0-9_]{0,63}_check$\<close> as a full match.\<close>

definition check_action_name :: "string \<Rightarrow> bool" where
  "check_action_name s \<longleftrightarrow> py_endswith s ''_check'' \<and> 7 \<le> length s \<and> length s \<le> 70 \<and> is_lower_ascii (hd s)
     \<and> list_all (\<lambda>c. is_lower_ascii c \<or> is_digit c \<or> c = CHR ''_'') (tl (take (length s - 6) s))"

definition is_supported_loop_action_type :: "pyenv \<Rightarrow> json \<Rightarrow> bool" where
  "is_supported_loop_action_type E v = (let t = clean E v in
     t \<in> set SUPPORTED_LOOP_ACTION_TYPES \<or> check_action_name t)"

definition is_host_declared_check_action :: "string \<Rightarrow> bool" where
  "is_host_declared_check_action action_type = (let t = py_strip action_type in
     t \<notin> set SUPPORTED_LOOP_ACTION_TYPES \<and> check_action_name t)"

definition is_quality_action :: "string \<Rightarrow> bool" where
  "is_quality_action action_type \<longleftrightarrow> action_type = ''quality_gate'' \<or> is_host_declared_check_action action_type"

section \<open>Cancellation categories\<close>

definition CANCEL_CATEGORY_ALIASES :: "(string \<times> string) list" where
  "CANCEL_CATEGORY_ALIASES = [(''user'', ''user_cancelled''), (''cancelled'', ''user_cancelled''),
     (''user_cancelled'', ''user_cancelled''), (''shutdown'', ''shutdown''), (''shutting_down'', ''shutdown''),
     (''superseded'', ''superseded''), (''timeout'', ''timeout_cancelled''),
     (''timeout_cancelled'', ''timeout_cancelled''), (''budget'', ''budget_exceeded''),
     (''budget_exceeded'', ''budget_exceeded'')]"

definition CANCEL_CATEGORY_VALUES :: "string list" where
  "CANCEL_CATEGORY_VALUES = [''user_cancelled'', ''shutdown'', ''superseded'', ''timeout_cancelled'', ''budget_exceeded'']"

definition normalize_cancel_category :: "pyenv \<Rightarrow> json \<Rightarrow> json \<Rightarrow> string res" where
  "normalize_cancel_category E category reason = (let raw = state_token E category in
     if raw \<noteq> [] then
       (case map_of CANCEL_CATEGORY_ALIASES raw of Some n \<Rightarrow> Inr n
        | None \<Rightarrow> Inl (ValueError (''Unsupported cancel category: '' @ py_str E category)))
     else let t = state_token E reason in
       Inr (if py_contains t ''shutdown'' then ''shutdown''
            else if py_contains t ''superseded'' then ''superseded''
            else if py_contains t ''timeout'' then ''timeout_cancelled''
            else if py_contains t ''budget'' then ''budget_exceeded''
            else ''user_cancelled''))"

definition CANCEL_CATEGORY_RELEASE_BLOCKING_VALUES :: "string list" where
  "CANCEL_CATEGORY_RELEASE_BLOCKING_VALUES = [''shutdown'', ''timeout_cancelled'', ''budget_exceeded'']"

definition cancel_category_release_status :: "pyenv \<Rightarrow> json \<Rightarrow> json \<Rightarrow> string res" where
  "cancel_category_release_status E category reason = bindE (normalize_cancel_category E category reason) (\<lambda>n.
     Inr (if n \<in> set CANCEL_CATEGORY_RELEASE_BLOCKING_VALUES then ''blocked'' else ''attention''))"

definition cancel_category_release_risk_severity :: "pyenv \<Rightarrow> json \<Rightarrow> json \<Rightarrow> string res" where
  "cancel_category_release_risk_severity E category reason = bindE (cancel_category_release_status E category reason) (\<lambda>s.
     Inr (if s = ''blocked'' then ''high'' else ''medium''))"

section \<open>Records\<close>

record loop_action =
  la_action_id :: string
  la_type :: string
  la_title :: string
  la_payload :: jobj
  la_requires_approval :: bool
  la_approval_status :: "string option"

record loop_observation =
  lo_observation_id :: string
  lo_status :: string
  lo_payload :: jobj

record loop_step =
  lp_step_id :: string
  lp_loop_id :: string
  lp_turn :: int
  lp_phase :: string
  lp_status :: string
  lp_action :: loop_action
  lp_observation :: loop_observation
  lp_checkpoint :: jobj
  lp_created_at :: time
  lp_updated_at :: time

record loop_run =
  lr_loop_id :: string
  lr_goal :: string
  lr_project_root :: string
  lr_status :: string
  lr_agent :: string
  lr_max_turns :: int
  lr_turn_count :: int
  lr_memory_policy :: jobj
  lr_approval_policy :: jobj
  lr_metadata :: jobj
  lr_steps :: "loop_step list"
  lr_checkpoint_count :: nat
  lr_finding_state :: "string option"
  lr_findings :: "jobj list"
  lr_finding_history :: "jobj list"
  lr_final_output :: json
  lr_error :: "string option"
  lr_created_at :: time
  lr_updated_at :: time

abbreviation "step_type step \<equiv> la_type (lp_action step)"
abbreviation "step_payload step \<equiv> lo_payload (lp_observation step)"

definition action_to_dict :: "loop_action \<Rightarrow> jobj" where
  "action_to_dict a = [(''action_id'', JStr (la_action_id a)), (''type'', JStr (la_type a)),
     (''title'', JStr (la_title a)), (''payload'', JObj (la_payload a)),
     (''requires_approval'', JBool (la_requires_approval a)), (''approval_status'', opt_json (la_approval_status a))]"

definition observation_to_dict :: "loop_observation \<Rightarrow> jobj" where
  "observation_to_dict o' = [(''observation_id'', JStr (lo_observation_id o')), (''status'', JStr (lo_status o')),
     (''payload'', JObj (lo_payload o'))]"

definition step_to_dict :: "loop_step \<Rightarrow> jobj" where
  "step_to_dict s = [(''step_id'', JStr (lp_step_id s)), (''loop_id'', JStr (lp_loop_id s)), (''turn'', JInt (lp_turn s)),
     (''phase'', JStr (lp_phase s)), (''status'', JStr (lp_status s)), (''action'', JObj (action_to_dict (lp_action s))),
     (''observation'', JObj (observation_to_dict (lp_observation s))), (''checkpoint'', JObj (lp_checkpoint s)),
     (''created_at'', JFloat (lp_created_at s)), (''updated_at'', JFloat (lp_updated_at s))]"

section \<open>Failure type of a loop\<close>

definition failure_type_from_step :: "pyenv \<Rightarrow> loop_step \<Rightarrow> string option" where
  "failure_type_from_step E step =
     (if truthy (jget (step_payload step) ''failure_type'') then Some (py_str E (jget (step_payload step) ''failure_type''))
      else if truthy (jget (lp_checkpoint step) ''failure_type'') then Some (py_str E (jget (lp_checkpoint step) ''failure_type''))
      else None)"

definition failure_type_for_loop :: "pyenv \<Rightarrow> loop_run \<Rightarrow> string option \<Rightarrow> string" where
  "failure_type_for_loop E loop fallback_reason =
     (case List.map_filter (failure_type_from_step E) (rev (lr_steps loop)) of
        t # ts \<Rightarrow> t
      | [] \<Rightarrow> failure_type_for_reason (opt_or (if fallback_reason \<noteq> None then fallback_reason else lr_error loop) []))"

end
