(* ===== verification/LoopStore.thy ===== *)
theory LoopStore
  imports LoopModel
begin

text \<open>
  The loop part of \<open>LocalStore\<close> (\<open>store.py\<close>): loops, their event logs with sequence and
  correlation fields, and cancel requests, over a state that also holds the loop object in memory,
  the readings of the clock, the generated ids and the cancel requests other processes leave.
\<close>

section \<open>State\<close>

record cancel_request =
  cr_loop_id :: string
  cr_reason :: string
  cr_cancel_category :: string
  cr_requested_at :: time

record lstate =
  ls_cur :: loop_run
  ls_loops :: "loop_run coll"
  ls_events :: "jobj logs"
  ls_cancels :: "cancel_request coll"
  ls_clock :: "nat \<Rightarrow> time"
  ls_tick :: nat
  ls_uuids :: "nat \<Rightarrow> string"
  ls_uuid_next :: nat
  ls_arrivals :: "nat \<Rightarrow> (string \<times> string) option"
  ls_look :: nat
  ls_calls :: "string list"
  ls_interp :: pyenv

type_synonym 'a lm = "(lstate, 'a) pyM"

text \<open>\<open>time.time()\<close> and \<open>uuid.uuid4().hex\<close>.\<close>

definition nowL :: "time lm" where
  "nowL = bindM (getsM (\<lambda>s. ls_clock s (ls_tick s))) (\<lambda>t.
     thenM (modifyM (\<lambda>s. s\<lparr>ls_tick := Suc (ls_tick s)\<rparr>)) (retM t))"

definition uuidL :: "string lm" where
  "uuidL = bindM (getsM (\<lambda>s. ls_uuids s (ls_uuid_next s))) (\<lambda>u.
     thenM (modifyM (\<lambda>s. s\<lparr>ls_uuid_next := Suc (ls_uuid_next s)\<rparr>)) (retM u))"

definition new_id :: "string \<Rightarrow> string lm" where
  "new_id prefix = bindM uuidL (\<lambda>u. retM (prefix @ ''-'' @ take 10 u))"

text \<open>The loop object in memory.\<close>

abbreviation curL :: "loop_run lm" where
  "curL \<equiv> getsM ls_cur"

definition updL :: "(loop_run \<Rightarrow> loop_run) \<Rightarrow> unit lm" where
  "updL f = modifyM (\<lambda>s. s\<lparr>ls_cur := f (ls_cur s)\<rparr>)"

section \<open>Events\<close>

definition clean_string :: "pyenv \<Rightarrow> json \<Rightarrow> string option" where
  "clean_string E v = (if v = JNull then None else let t = py_strip (py_str E v) in if t = [] then None else Some t)"

definition first_some :: "'a option list \<Rightarrow> 'a option" where
  "first_some xs = (case List.map_filter id xs of [] \<Rightarrow> None | y # ys \<Rightarrow> Some y)"

fun first_string_for_key :: "pyenv \<Rightarrow> string list \<Rightarrow> json \<Rightarrow> string option" where
  "first_string_for_key E keys (JObj o') =
     (case first_some (map (\<lambda>k. clean_string E (jget o' k)) keys) of
        Some t \<Rightarrow> Some t
      | None \<Rightarrow> first_some (map (\<lambda>p. first_string_for_key E keys (snd p)) o'))"
| "first_string_for_key E keys (JArr xs) = first_some (map (first_string_for_key E keys) xs)"
| "first_string_for_key E keys _ = None"

text \<open>A field that is written only for a non-empty string.\<close>

definition string_field :: "string \<Rightarrow> string option \<Rightarrow> jobj" where
  "string_field k v = (case v of Some t \<Rightarrow> [(k, JStr t)] | None \<Rightarrow> [])"

definition build_loop_event :: "pyenv \<Rightarrow> string \<Rightarrow> string \<Rightarrow> jobj \<Rightarrow> nat \<Rightarrow> string \<Rightarrow> time \<Rightarrow> jobj" where
  "build_loop_event E loop_id event_type payload sequence uuid now =
     (let step_id = first_string_for_key E [''step_id''] (JObj payload);
          action_id = first_string_for_key E [''action_id''] (JObj payload);
          task_id = first_string_for_key E [''task_id'', ''taskId''] (JObj payload);
          correlation = (case step_id of Some t \<Rightarrow> ''step:'' @ t
            | None \<Rightarrow> (case action_id of Some t \<Rightarrow> ''action:'' @ t
              | None \<Rightarrow> (case task_id of Some t \<Rightarrow> ''task:'' @ t | None \<Rightarrow> ''loop:'' @ loop_id)));
          causation_id = first_string_for_key E [''causation_id'', ''causationId'', ''parent_event_id'', ''parentEventId'']
            (JObj payload) in
      [(''event_id'', JStr (''loop-event-'' @ uuid)), (''sequence'', JInt (int sequence)), (''type'', JStr event_type),
       (''loop_id'', JStr loop_id), (''timestamp'', JFloat now), (''payload'', JObj payload)]
      @ string_field ''step_id'' step_id @ [(''correlation_id'', JStr correlation)]
      @ string_field ''action_id'' action_id @ string_field ''task_id'' task_id @ string_field ''causation_id'' causation_id)"

definition append_loop_event :: "string \<Rightarrow> string \<Rightarrow> jobj \<Rightarrow> unit lm" where
  "append_loop_event loop_id event_type payload =
     bindM uuidL (\<lambda>u. bindM nowL (\<lambda>now. bindM (getsM ls_interp) (\<lambda>E.
     modifyM (\<lambda>s. s\<lparr>ls_events := log_add loop_id
       (build_loop_event E loop_id event_type payload (length (log_entries (ls_events s) loop_id) + 1) u now) (ls_events s)\<rparr>))))"

definition list_loop_events :: "string \<Rightarrow> jobj list lm" where
  "list_loop_events loop_id = getsM (\<lambda>s. log_entries (ls_events s) loop_id)"

text \<open>An event of the loop in memory.\<close>

definition emit :: "string \<Rightarrow> jobj \<Rightarrow> unit lm" where
  "emit event_type payload = bindM curL (\<lambda>loop. append_loop_event (lr_loop_id loop) event_type payload)"

section \<open>Loops\<close>

definition save_loop :: "unit lm" where
  "save_loop = bindM nowL (\<lambda>now. thenM (updL (\<lambda>l. l\<lparr>lr_updated_at := now\<rparr>))
     (modifyM (\<lambda>s. s\<lparr>ls_loops := coll_upd (lr_loop_id (ls_cur s)) (ls_cur s) (ls_loops s)\<rparr>)))"

text \<open>\<open>get_loop\<close>: the stored loop becomes the object in memory.\<close>

definition load_loop :: "string \<Rightarrow> unit lm" where
  "load_loop loop_id = bindM (getsM (\<lambda>s. map_of (ls_loops s) loop_id)) (\<lambda>found. case found of
      None \<Rightarrow> raiseM (KeyError (''Loop not found: '' @ loop_id))
    | Some loop \<Rightarrow> updL (\<lambda>_. loop))"

definition list_loop_ids :: "string list lm" where
  "list_loop_ids = getsM (\<lambda>s. sort (filter (\<lambda>i. py_startswith i ''loop-'') (map fst (ls_loops s))))"

section \<open>Cancel requests\<close>

definition request_loop_cancel :: "string \<Rightarrow> string \<Rightarrow> string \<Rightarrow> cancel_request lm" where
  "request_loop_cancel loop_id reason category = bindM nowL (\<lambda>now.
     let r = \<lparr>cr_loop_id = loop_id, cr_reason = (if reason = [] then ''cancelled'' else reason),
       cr_cancel_category = (if category = [] then ''user_cancelled'' else category), cr_requested_at = now\<rparr> in
     thenM (modifyM (\<lambda>s. s\<lparr>ls_cancels := coll_upd loop_id r (ls_cancels s)\<rparr>)) (retM r))"

text \<open>What \<open>cancel_loop\<close> writes before it tries the lock of the loop.\<close>

definition announce_cancel :: "string \<Rightarrow> string \<Rightarrow> string \<Rightarrow> unit lm" where
  "announce_cancel loop_id reason category = bindM (request_loop_cancel loop_id reason category) (\<lambda>r.
     append_loop_event loop_id ''loop.cancel_requested'' [(''reason'', JStr reason), (''cancel_category'', JStr category),
       (''requested_at'', JFloat (cr_requested_at r))])"

definition load_loop_cancel_request :: "string \<Rightarrow> cancel_request option lm" where
  "load_loop_cancel_request loop_id =
     bindM (getsM (\<lambda>s. ls_arrivals s (ls_look s))) (\<lambda>arrival.
     thenM (modifyM (\<lambda>s. s\<lparr>ls_look := Suc (ls_look s)\<rparr>))
     (thenM (case arrival of None \<Rightarrow> retM () | Some rc \<Rightarrow> announce_cancel loop_id (fst rc) (snd rc))
     (getsM (\<lambda>s. map_of (ls_cancels s) loop_id))))"

definition clear_loop_cancel_request :: "string \<Rightarrow> unit lm" where
  "clear_loop_cancel_request loop_id = modifyM (\<lambda>s. s\<lparr>ls_cancels := coll_del loop_id (ls_cancels s)\<rparr>)"

end
