(* ===== verification/LoopPolicy.thy ===== *)
theory LoopPolicy
  imports LoopStore
begin

text \<open>
  The decisions of the agent loop that depend on the loop alone (\<open>agent_loop.py\<close> and
  \<open>autopilot_contract.py\<close>): metadata and goal contracts accepted at the start, turn, runtime and
  lease budgets, the action plan and its progress, recovery rules, the next action, and the summary of
  the finding lifecycle. Metadata is free JSON, so every conversion the code makes is written out.
\<close>

section \<open>Small conversions\<close>

text \<open>\<open>dict(v or {})\<close> for an entry the runtime itself wrote as an object.\<close>

definition obj_or_empty :: "json \<Rightarrow> jobj" where
  "obj_or_empty v = (case v of JObj m \<Rightarrow> m | _ \<Rightarrow> [])"

definition objs :: "jobj list \<Rightarrow> json" where
  "objs xs = JArr (map JObj xs)"

text \<open>\<open>dict.setdefault\<close>.\<close>

definition jsetdefault :: "jobj \<Rightarrow> string \<Rightarrow> json \<Rightarrow> jobj" where
  "jsetdefault o' k v = (if jhas o' k then o' else jset o' k v)"

text \<open>\<open>list(dict.fromkeys(xs))\<close>: first occurrences in order.\<close>

definition first_occurrences :: "'a list \<Rightarrow> 'a list" where
  "first_occurrences xs = foldl (\<lambda>acc x. if x \<in> set acc then acc else acc @ [x]) [] xs"

definition float_or_none :: "pyenv \<Rightarrow> json \<Rightarrow> rat option" where
  "float_or_none E v = (case py_float E v of Inr r \<Rightarrow> Some r | Inl _ \<Rightarrow> None)"

definition positive_float_or_none :: "pyenv \<Rightarrow> json \<Rightarrow> rat option" where
  "positive_float_or_none E v = (case float_or_none E v of None \<Rightarrow> None | Some r \<Rightarrow> if r \<le> 0 then None else Some r)"

definition positive_int_or_none :: "json \<Rightarrow> bool \<Rightarrow> int option" where
  "positive_int_or_none v allow_zero = (case py_int v of Inl _ \<Rightarrow> None
     | Inr n \<Rightarrow> if allow_zero \<and> n = 0 then Some 0 else if n \<le> 0 then None else Some n)"

definition clean_agent_id :: "pyenv \<Rightarrow> json \<Rightarrow> string option" where
  "clean_agent_id E v = (let t = clean E v in if t = [] then None else Some t)"

section \<open>Goal execution contracts\<close>

definition goal_execution_fields :: "string list" where
  "goal_execution_fields = [''schema_version'', ''goal_id'', ''goal_revision'', ''task_id'', ''criterion_ids'', ''input_fingerprint'']"

definition blank_string :: "json \<Rightarrow> bool" where
  "blank_string v = (case v of JStr s \<Rightarrow> py_strip s = [] | _ \<Rightarrow> True)"

definition string_items :: "json \<Rightarrow> string list option" where
  "string_items v = (case v of JArr xs \<Rightarrow>
      (if xs \<noteq> [] \<and> list_all (\<lambda>x. \<not> blank_string x) xs then Some (map (\<lambda>x. case x of JStr s \<Rightarrow> s | _ \<Rightarrow> []) xs) else None)
    | _ \<Rightarrow> None)"

definition stripped :: "json \<Rightarrow> json" where
  "stripped v = (case v of JStr s \<Rightarrow> JStr (py_strip s) | _ \<Rightarrow> v)"

definition normalize_goal_execution_contract :: "json \<Rightarrow> jobj res" where
  "normalize_goal_execution_contract v = (case v of
      JObj contract \<Rightarrow>
        bindE (checkE (set (map fst contract) = set goal_execution_fields)
          (ValueError ''Goal execution contract fields are incomplete or unsupported'')) (\<lambda>_.
        bindE (checkE (jget contract ''schema_version'' = JStr ''across-goal-execution-contract/1.0'')
          (ValueError ''unsupported Goal execution contract schema'')) (\<lambda>_.
        bindE (checkE (\<not> blank_string (jget contract ''goal_id'')) (ValueError ''goal_id is required'')) (\<lambda>_.
        bindE (checkE (\<not> blank_string (jget contract ''task_id'')) (ValueError ''task_id is required'')) (\<lambda>_.
        bindE (checkE (case jget contract ''goal_revision'' of JInt n \<Rightarrow> 1 \<le> n | _ \<Rightarrow> False)
          (ValueError ''goal_revision must be a positive integer'')) (\<lambda>_.
        case string_items (jget contract ''criterion_ids'') of
          None \<Rightarrow> Inl (ValueError ''criterion_ids must be a non-empty string list'')
        | Some criteria \<Rightarrow>
            bindE (checkE (distinct criteria) (ValueError ''criterion_ids must be unique'')) (\<lambda>_.
            bindE (checkE (case jget contract ''input_fingerprint'' of
                JStr f \<Rightarrow> length f = 64 \<and> list_all is_hex_lower f | _ \<Rightarrow> False)
              (ValueError ''input_fingerprint must be a sha256 digest'')) (\<lambda>_.
            Inr (jset (jset (jset contract ''goal_id'' (stripped (jget contract ''goal_id'')))
              ''task_id'' (stripped (jget contract ''task_id''))) ''criterion_ids'' (jstrs (sort criteria))))))))))
    | _ \<Rightarrow> Inl (ValueError ''Goal execution contract must be an object''))"

section \<open>Autopilot metadata\<close>

definition AUTOPILOT_METADATA_SCHEMA :: string where
  "AUTOPILOT_METADATA_SCHEMA = ''across-orchestrator-autopilot-metadata/1.0''"

definition REQUIRED_AUTOPILOT_FIELDS :: "string list" where
  "REQUIRED_AUTOPILOT_FIELDS = [''evidence_contract'', ''run_id'', ''schema_version'', ''spec_id'']"

definition string_array :: "json \<Rightarrow> bool" where
  "string_array v = (case v of JArr xs \<Rightarrow> list_all (\<lambda>x. case x of JStr _ \<Rightarrow> True | _ \<Rightarrow> False) xs | _ \<Rightarrow> False)"

definition py_len :: "json \<Rightarrow> nat" where
  "py_len v = (case v of JArr xs \<Rightarrow> length xs | JObj o' \<Rightarrow> length o' | JStr s \<Rightarrow> length s | _ \<Rightarrow> 0)"

definition autopilot_summary :: "pyenv \<Rightarrow> jobj \<Rightarrow> jobj \<Rightarrow> jobj" where
  "autopilot_summary E autopilot sandbox =
     (let str_or = (\<lambda>k. JStr (py_str E (jor (jget autopilot k) (JStr [])))) in
      [(''schema_version'', JStr AUTOPILOT_METADATA_SCHEMA),
       (''run_id'', JStr (py_str E (jget autopilot ''run_id''))),
       (''spec_id'', JStr (py_str E (jget autopilot ''spec_id''))),
       (''candidate_id'', str_or ''candidate_id''), (''candidate_mode'', str_or ''candidate_mode''),
       (''candidate_manifest'', str_or ''candidate_manifest''),
       (''loop_spec_schema'', JStr (py_str E (jget autopilot ''schema_version''))),
       (''evidence_contract'', JStr (py_str E (jget autopilot ''evidence_contract''))),
       (''actions_allowed_count'', JInt (int (py_len (jor (jget autopilot ''actions_allowed'') (JArr []))))),
       (''actions_blocked_count'', JInt (int (py_len (jor (jget autopilot ''actions_blocked'') (JArr []))))),
       (''sandbox_root'', JStr (if sandbox = [] then [] else py_str E (jor (jget sandbox ''root'') (JStr []))))])"

definition validate_autopilot_metadata :: "pyenv \<Rightarrow> jobj \<Rightarrow> jobj option res" where
  "validate_autopilot_metadata E metadata = (case jget metadata ''autopilot'' of
      JNull \<Rightarrow> Inr None
    | JObj autopilot \<Rightarrow>
        (let missing = filter (\<lambda>f. clean E (jget autopilot f) = []) REQUIRED_AUTOPILOT_FIELDS;
             sandbox = jor (jget autopilot ''sandbox'') (JObj []) in
         bindE (checkE (missing = []) (ValueError (''metadata.autopilot missing required fields: '' @ py_join '', '' missing))) (\<lambda>_.
         bindE (checkE (jget autopilot ''schema_version'' = JStr ''across-loop-spec/1.0'')
           (ValueError ''metadata.autopilot.schema_version must be across-loop-spec/1.0'')) (\<lambda>_.
         bindE (checkE (jget autopilot ''evidence_contract'' = JStr ''across-loop-evidence/1.0'')
           (ValueError ''metadata.autopilot.evidence_contract must be across-loop-evidence/1.0'')) (\<lambda>_.
         bindE (checkE (string_array (jget_d autopilot ''actions_allowed'' (JArr [])))
           (ValueError ''metadata.autopilot.actions_allowed must be a string array'')) (\<lambda>_.
         bindE (checkE (string_array (jget_d autopilot ''actions_blocked'' (JArr [])))
           (ValueError ''metadata.autopilot.actions_blocked must be a string array'')) (\<lambda>_.
         bindE (checkE (as_obj sandbox \<noteq> None) (ValueError ''metadata.autopilot.sandbox must be an object'')) (\<lambda>_.
         Inr (Some (autopilot_summary E autopilot (obj_or_empty sandbox))))))))))
    | _ \<Rightarrow> Inl (ValueError ''metadata.autopilot must be an object''))"

definition autopilot_metadata_summary :: "pyenv \<Rightarrow> jobj \<Rightarrow> json" where
  "autopilot_metadata_summary E metadata = (case validate_autopilot_metadata E metadata of
      Inr None \<Rightarrow> JNull
    | Inr (Some o') \<Rightarrow> JObj o'
    | Inl e \<Rightarrow> JObj [(''schema_version'', JStr AUTOPILOT_METADATA_SCHEMA), (''valid'', JBool False),
        (''error'', JStr (exc_str e))])"

section \<open>Metadata and action plan\<close>

definition raw_action_plan :: "jobj \<Rightarrow> json" where
  "raw_action_plan metadata = (if jget metadata ''actionPlan'' = JNull then jget metadata ''action_plan''
     else jget metadata ''actionPlan'')"

definition validated_metadata :: "pyenv \<Rightarrow> jobj \<Rightarrow> jobj res" where
  "validated_metadata E metadata =
     bindE (checkE (\<not> (jhas metadata ''goal_execution_contract'' \<or> jhas metadata ''goalExecutionContract''))
       (ValueError ''goal execution contract is reserved for the first-class host parameter'')) (\<lambda>_.
     bindE (validate_autopilot_metadata E metadata) (\<lambda>_.
     case raw_action_plan metadata of
       JNull \<Rightarrow> Inr metadata
     | JArr items \<Rightarrow> (let invalid = map (clean E) (filter (\<lambda>v. \<not> is_supported_loop_action_type E v) items) in
         if invalid = [] then Inr metadata
         else Inl (ValueError (''unsupported actionPlan entries: '' @ py_join '', '' invalid)))
     | _ \<Rightarrow> Inl (ValueError ''actionPlan must be a list of supported action types'')))"

definition metadata_action_plan :: "pyenv \<Rightarrow> jobj \<Rightarrow> string list" where
  "metadata_action_plan E metadata = (case raw_action_plan metadata of
      JArr items \<Rightarrow> filter (\<lambda>t. is_supported_loop_action_type E (JStr t)) (map (clean E) items)
    | _ \<Rightarrow> [])"

fun implicit_quality_turn_count :: "string list \<Rightarrow> nat" where
  "implicit_quality_turn_count [] = 0"
| "implicit_quality_turn_count (a # plan) =
     (if a \<in> {''task_dispatch'', ''remediation_dispatch''} \<and> take 1 plan \<noteq> [''quality_gate''] then 1 else 0)
     + implicit_quality_turn_count plan"

definition action_plan_min_turns :: "pyenv \<Rightarrow> jobj \<Rightarrow> int option" where
  "action_plan_min_turns E metadata = (let plan = metadata_action_plan E metadata in
     if plan = [] then None else Some (int (length plan + implicit_quality_turn_count plan)))"

section \<open>Budgets\<close>

definition budget_metadata :: "jobj \<Rightarrow> jobj" where
  "budget_metadata metadata = (case List.map_filter (\<lambda>k. as_obj (jget metadata k))
     [''agentLoopBudget'', ''agent_loop_budget'', ''budget''] of b # bs \<Rightarrow> b | [] \<Rightarrow> [])"

definition budget_max_turns :: "jobj \<Rightarrow> int option" where
  "budget_max_turns metadata = (let budget = budget_metadata metadata in
     positive_int_or_none (jors [jget budget ''maxTurnsPerLoop'', jget budget ''max_turns_per_loop'',
       jget budget ''maxTurns'', jget budget ''max_turns'']) False)"

text \<open>\<open>max(1, int(n or 8))\<close>.\<close>

definition turns_or_default :: "int \<Rightarrow> int" where
  "turns_or_default n = max 1 (if n = 0 then 8 else n)"

definition effective_max_turns :: "pyenv \<Rightarrow> jobj \<Rightarrow> int \<Rightarrow> int" where
  "effective_max_turns E metadata requested_max_turns = (let requested = turns_or_default requested_max_turns in
     case action_plan_min_turns E metadata of None \<Rightarrow> requested | Some minimum \<Rightarrow> max requested minimum)"

definition action_plan_budget :: "pyenv \<Rightarrow> jobj \<Rightarrow> int \<Rightarrow> int \<Rightarrow> jobj option" where
  "action_plan_budget E metadata requested_max_turns effective = (case action_plan_min_turns E metadata of
      None \<Rightarrow> None
    | Some minimum \<Rightarrow> (let plan = metadata_action_plan E metadata; requested = turns_or_default requested_max_turns in
        Some [(''schema_version'', JStr ''agent-loop-action-plan-budget/1.0''),
          (''declared_action_count'', JInt (int (length plan))),
          (''implicit_quality_turn_count'', JInt (int (implicit_quality_turn_count plan))),
          (''minimum_turns'', JInt minimum), (''requested_max_turns'', JInt requested),
          (''effective_max_turns'', JInt effective), (''normalized'', JBool (effective > requested))]))"

definition budget_max_runtime_seconds :: "pyenv \<Rightarrow> jobj \<Rightarrow> rat option" where
  "budget_max_runtime_seconds E metadata = (let budget = budget_metadata metadata in
     positive_float_or_none E (jors [jget budget ''maxRuntimeSeconds'', jget budget ''max_runtime_seconds'']))"

definition budget_max_concurrent_loops :: "jobj \<Rightarrow> int option" where
  "budget_max_concurrent_loops metadata = (let budget = budget_metadata metadata in
     positive_int_or_none (jors [jget budget ''maxConcurrentLoops'', jget budget ''max_concurrent_loops'']) True)"

definition action_lease_seconds :: "pyenv \<Rightarrow> jobj \<Rightarrow> rat" where
  "action_lease_seconds E metadata = (case py_float E (jget_d metadata ''actionLeaseSeconds''
       (jget_d metadata ''action_lease_seconds'' (JInt 300))) of
     Inr r \<Rightarrow> max (1 / 1000) r | Inl _ \<Rightarrow> 300)"

definition opt_int :: "int option \<Rightarrow> json" where
  "opt_int x = (case x of None \<Rightarrow> JNull | Some n \<Rightarrow> JInt n)"

definition opt_float :: "rat option \<Rightarrow> json" where
  "opt_float x = (case x of None \<Rightarrow> JNull | Some r \<Rightarrow> JFloat r)"

definition millis :: "rat \<Rightarrow> int" where
  "millis r = max 0 (py_round (r * 1000))"

definition budget_policy :: "pyenv \<Rightarrow> loop_run \<Rightarrow> time \<Rightarrow> jobj" where
  "budget_policy E loop now =
     (let max_runtime = budget_max_runtime_seconds E (lr_metadata loop); runtime = max 0 (now - lr_created_at loop);
          max_concurrent = budget_max_concurrent_loops (lr_metadata loop) in
      [(''schema_version'', JStr ''agent-loop-budget/1.0''), (''max_concurrent_loops'', opt_int max_concurrent),
       (''max_turns_per_loop'', JInt (lr_max_turns loop)), (''turns_used'', JInt (lr_turn_count loop)),
       (''turns_remaining'', JInt (max 0 (lr_max_turns loop - lr_turn_count loop))),
       (''max_runtime_seconds'', opt_float max_runtime),
       (''runtime_seconds'', JFloat (of_int (py_round (runtime * 1000)) / 1000)),
       (''runtime_remaining_ms'', opt_int (map_option (\<lambda>m. millis (m - runtime)) max_runtime)),
       (''action_lease_seconds'', JFloat (action_lease_seconds E (lr_metadata loop))),
       (''timeout_cancel_category'', JStr ''timeout_cancelled''), (''budget_exceeded_category'', JStr ''budget_exceeded''),
       (''enforced'', JObj [(''concurrency'', JBool (max_concurrent \<noteq> None)), (''turns'', JBool True),
          (''runtime'', JBool (max_runtime \<noteq> None))])])"

section \<open>Queries on the steps\<close>

abbreviation "RECOVERY_NEXT_ACTION_METADATA_KEY \<equiv> ''_recoveryNextAction''"

definition latest_step :: "loop_run \<Rightarrow> string \<Rightarrow> loop_step option" where
  "latest_step loop action_type = List.find (\<lambda>s. step_type s = action_type) (rev (lr_steps loop))"

definition latest_quality_action_step :: "loop_run \<Rightarrow> loop_step option" where
  "latest_quality_action_step loop = List.find (\<lambda>s. is_quality_action (step_type s)) (rev (lr_steps loop))"

definition latest_running_step :: "loop_run \<Rightarrow> loop_step option" where
  "latest_running_step loop = List.find (\<lambda>s. lp_status s = ''running'') (rev (lr_steps loop))"

definition pending_approval_step :: "loop_run \<Rightarrow> loop_step option" where
  "pending_approval_step loop = List.find (\<lambda>s. lp_status s = ''waiting_approval''
     \<and> la_approval_status (lp_action s) = Some ''pending'') (lr_steps loop)"

definition has_action :: "loop_run \<Rightarrow> string \<Rightarrow> bool" where
  "has_action loop action_type = list_ex (\<lambda>s. step_type s = action_type) (lr_steps loop)"

definition has_action_after :: "loop_run \<Rightarrow> string \<Rightarrow> int \<Rightarrow> bool" where
  "has_action_after loop action_type index = list_ex (\<lambda>s. step_type s = action_type) (drop (nat (index + 1)) (lr_steps loop))"

definition action_count :: "loop_run \<Rightarrow> string \<Rightarrow> nat" where
  "action_count loop action_type = length (filter (\<lambda>s. step_type s = action_type) (lr_steps loop))"

definition latest_action_index :: "loop_run \<Rightarrow> string list \<Rightarrow> int" where
  "latest_action_index loop action_types =
     (case List.find (\<lambda>i. step_type (lr_steps loop ! i) \<in> set action_types) (rev [0..<length (lr_steps loop)]) of
        Some i \<Rightarrow> int i | None \<Rightarrow> - 1)"

definition quality_failed :: "pyenv \<Rightarrow> loop_step \<Rightarrow> bool" where
  "quality_failed E step \<longleftrightarrow> \<not> quality_report_passed E (step_payload step)"

definition max_remediation_turns :: "loop_run \<Rightarrow> int" where
  "max_remediation_turns loop = (case py_int (jget_d (lr_metadata loop) ''maxRemediationTurns''
       (jget_d (lr_metadata loop) ''max_remediation_turns'' (JInt 1))) of
     Inr n \<Rightarrow> max 0 n | Inl _ \<Rightarrow> 1)"

definition repair_round :: "loop_run \<Rightarrow> int" where
  "repair_round loop = int (action_count loop ''remediation_dispatch'')"

definition host_action_plan :: "pyenv \<Rightarrow> loop_run \<Rightarrow> string list" where
  "host_action_plan E loop = metadata_action_plan E (lr_metadata loop)"

definition host_action_plan_progress :: "loop_run \<Rightarrow> string list \<Rightarrow> nat" where
  "host_action_plan_progress loop plan = foldl (\<lambda>i step.
     if i \<ge> length plan then i else if step_type step = plan ! i then i + 1 else i) 0 (lr_steps loop)"

section \<open>Next action\<close>

definition recovery_next_action :: "pyenv \<Rightarrow> loop_run \<Rightarrow> string option" where
  "recovery_next_action E loop = (let t = clean E (jget (lr_metadata loop) RECOVERY_NEXT_ACTION_METADATA_KEY) in
     if is_supported_loop_action_type E (JStr t) then Some t else None)"

definition default_next_action :: "loop_run \<Rightarrow> string option" where
  "default_next_action loop =
     (if truthy (jget_d (lr_memory_policy loop) ''read'' (JBool True)) \<and> \<not> has_action loop ''memory_search''
        then Some ''memory_search''
      else if \<not> has_action loop ''task_dispatch'' then Some ''task_dispatch''
      else if truthy (jget_d (lr_memory_policy loop) ''writeCandidates'' (JBool True))
          \<and> \<not> has_action_after loop ''memory_write_candidate'' (latest_action_index loop [''quality_gate''])
        then Some ''memory_write_candidate''
      else if \<not> has_action loop ''final_output'' then Some ''final_output''
      else None)"

definition planned_next_action :: "pyenv \<Rightarrow> loop_run \<Rightarrow> string option" where
  "planned_next_action E loop = (let plan = host_action_plan E loop; i = host_action_plan_progress loop plan in
     if plan \<noteq> [] then (if i < length plan then Some (plan ! i) else None) else default_next_action loop)"

definition latest_quality_failed :: "pyenv \<Rightarrow> loop_run \<Rightarrow> bool" where
  "latest_quality_failed E loop = (case latest_step loop ''quality_gate'' of None \<Rightarrow> False | Some s \<Rightarrow> quality_failed E s)"

definition peek_next_action :: "pyenv \<Rightarrow> loop_run \<Rightarrow> string option" where
  "peek_next_action E loop = (case recovery_next_action E loop of
      Some a \<Rightarrow> Some a
    | None \<Rightarrow>
      if latest_action_index loop [''quality_gate''] < latest_action_index loop [''task_dispatch'', ''remediation_dispatch'']
        then Some ''quality_gate''
      else if latest_quality_failed E loop
        then (if int (action_count loop ''remediation_dispatch'') < max_remediation_turns loop
              then Some ''remediation_dispatch'' else None)
      else planned_next_action E loop)"

definition next_action_reason :: "pyenv \<Rightarrow> loop_run \<Rightarrow> string \<Rightarrow> string" where
  "next_action_reason E loop action_type = opt_or (map_of
     [(''memory_search'', ''memory policy requires context before dispatch''),
      (''task_dispatch'', ''no dispatch observation exists for this loop''),
      (''quality_gate'', ''latest dispatch requires verification''),
      (''remediation_dispatch'', ''latest quality gate failed and remediation budget remains''),
      (''memory_write_candidate'', ''quality passed and memory policy allows pending summaries''),
      (''final_output'', ''loop has enough evidence to produce final output'')] action_type)
     (if host_action_plan E loop \<noteq> [] then ''selected by host action plan'' else ''selected by loop policy'')"

definition planned_action_types :: "loop_run \<Rightarrow> string list" where
  "planned_action_types loop =
     (if truthy (jget_d (lr_memory_policy loop) ''read'' (JBool True)) then [''memory_search''] else [])
     @ [''task_dispatch'', ''quality_gate'']
     @ (if truthy (jget_d (lr_memory_policy loop) ''writeCandidates'' (JBool True)) then [''memory_write_candidate''] else [])
     @ [''final_output'']"

definition budget_exceeded_reason :: "pyenv \<Rightarrow> loop_run \<Rightarrow> time \<Rightarrow> string option" where
  "budget_exceeded_reason E loop now =
     (if (case budget_max_runtime_seconds E (lr_metadata loop) of None \<Rightarrow> False | Some m \<Rightarrow> now - lr_created_at loop \<ge> m)
        then Some ''max_runtime_exceeded''
      else if lr_turn_count loop \<ge> lr_max_turns loop \<and> peek_next_action E loop \<noteq> None then Some ''max_turns_exceeded''
      else None)"

definition executable_actions :: "loop_run \<Rightarrow> loop_step option \<Rightarrow> string list" where
  "executable_actions loop pending = (let retry = (if lr_steps loop = [] then [] else [''retry'']) in
     if lr_status loop \<in> {''failed'', ''stopped''} then retry
     else if lr_status loop \<in> {''completed'', ''cancelled''} then []
     else if pending \<noteq> None \<or> lr_status loop = ''awaiting_approval'' then [''approve'', ''reject'', ''cancel''] @ retry
     else [''run'', ''cancel''] @ retry)"

section \<open>Recovery rules\<close>

record recovery_rule =
  rr_action :: string
  rr_max_retries :: int
  rr_source :: string

text \<open>\<open>policy.get(camel, policy.get(snake))\<close>.\<close>

definition jget2 :: "jobj \<Rightarrow> string \<Rightarrow> string \<Rightarrow> json" where
  "jget2 o' k k' = jget_d o' k (jget o' k')"

definition rule_of :: "pyenv \<Rightarrow> json \<Rightarrow> json \<Rightarrow> string \<Rightarrow> recovery_rule option" where
  "rule_of E action raw_max_retries source =
     (let recovery_action = py_lower (py_strip (py_str E (jor action (JStr ''stop''))));
          default = (if recovery_action = ''stop'' then 0 else 1) in
      if recovery_action \<notin> set SUPPORTED_RECOVERY_ACTIONS then None
      else Some \<lparr>rr_action = recovery_action,
        rr_max_retries = (if raw_max_retries = JNull then max 0 default
          else (case py_int raw_max_retries of Inr n \<Rightarrow> max 0 n | Inl _ \<Rightarrow> default)),
        rr_source = source\<rparr>)"

definition recovery_rule_for :: "pyenv \<Rightarrow> jobj \<Rightarrow> string \<Rightarrow> recovery_rule option" where
  "recovery_rule_for E metadata failure_type = (case jget2 metadata ''recoveryPolicy'' ''recovery_policy'' of
      JObj policy \<Rightarrow>
        (let retries = jget2 policy ''maxRetries'' ''max_retries'';
             by_failure = obj_or_empty (jget_d policy ''byFailureType'' (jget_d policy ''by_failure_type'' (JObj [])));
             named = jhas by_failure failure_type;
             raw_rule = (if named then jget by_failure failure_type
               else if jget policy ''defaultAction'' \<noteq> JNull \<or> jget policy ''default_action'' \<noteq> JNull
               then JObj [(''action'', jget2 policy ''defaultAction'' ''default_action''), (''maxRetries'', retries)]
               else JNull);
             source = (if named then ''metadata.recoveryPolicy.byFailureType.'' @ failure_type
               else ''metadata.recoveryPolicy.defaultAction'') in
         case raw_rule of
           JStr action \<Rightarrow> rule_of E raw_rule retries source
         | JObj rule \<Rightarrow> rule_of E (jget2 rule ''action'' ''type'')
             (jget_d rule ''maxRetries'' (jget_d rule ''max_retries'' retries)) source
         | _ \<Rightarrow> None)
    | _ \<Rightarrow> None)"

section \<open>Actions\<close>

definition action_title :: "string \<Rightarrow> string" where
  "action_title action_type = opt_or (map_of
     [(''memory_search'', ''Search shared memory before planning''),
      (''task_dispatch'', ''Dispatch work through host adapter''),
      (''remediation_dispatch'', ''Dispatch remediation through host adapter''),
      (''quality_gate'', ''Verify delivery quality''),
      (''memory_write_candidate'', ''Prepare pending memory candidate''),
      (''final_output'', ''Produce final output'')] action_type)
     (py_title (spaces action_type))"

definition phase_for :: "string \<Rightarrow> string" where
  "phase_for action_type = (if is_host_declared_check_action action_type then ''verify'' else opt_or (map_of
     [(''memory_search'', ''context''), (''task_dispatch'', ''act''), (''remediation_dispatch'', ''act''),
      (''quality_gate'', ''verify''), (''memory_write_candidate'', ''remember''), (''final_output'', ''final'')] action_type) ''act'')"

section \<open>Quality payloads and finding lifecycle\<close>

definition normalize_quality_payload :: "pyenv \<Rightarrow> loop_run \<Rightarrow> string \<Rightarrow> json \<Rightarrow> jobj" where
  "normalize_quality_payload E loop action_type payload =
     (let raw = jsetdefault (case payload of JObj o' \<Rightarrow> o'
          | _ \<Rightarrow> [(''status'', JStr ''failed''), (''passed'', JBool False),
              (''summary'', JStr (py_str E (jor payload (JStr (action_type @ '' returned no quality payload'')))))])
          ''repair_round'' (JInt (repair_round loop));
        summary = clean E (jget raw ''summary'') in
      normalize_quality_report E raw action_type action_type
        (Some (if summary = [] then spaces action_type @ '' result.'' else summary))
        (Some (lr_agent loop)) (Some (repair_round loop)))"

definition history_key :: "jobj \<Rightarrow> json list" where
  "history_key item = [jget (obj_or_empty (jget item ''metadata'')) ''step_id'', jget item ''id'', jget item ''state'',
     jget item ''repair_round'', jget item ''source_gate'']"

definition finding_history_contains :: "loop_run \<Rightarrow> jobj \<Rightarrow> bool" where
  "finding_history_contains loop candidate \<longleftrightarrow>
     list_ex (\<lambda>item. list_all2 py_eq (history_key item) (history_key candidate)) (lr_finding_history loop)"

text \<open>A finding as the history keeps it: the metadata say which step found it.\<close>

definition history_metadata :: "string \<Rightarrow> string \<Rightarrow> json \<Rightarrow> jobj \<Rightarrow> jobj" where
  "history_metadata action_type loop_id step_id item = jmerge (obj_or_empty (jget item ''metadata''))
     [(''action_type'', JStr action_type), (''loop_id'', JStr loop_id), (''step_id'', step_id)]"

definition history_item :: "string \<Rightarrow> string \<Rightarrow> string \<Rightarrow> jobj \<Rightarrow> jobj" where
  "history_item action_type step_id loop_id item =
     jset item ''metadata'' (JObj (history_metadata action_type loop_id (JStr step_id) item))"

text \<open>A blocked finding: there may be no step, and metadata that are \<open>None\<close> are left out.\<close>

definition blocked_history_item :: "string \<Rightarrow> string option \<Rightarrow> string \<Rightarrow> jobj \<Rightarrow> jobj" where
  "blocked_history_item action_type step_id loop_id item = jset item ''metadata'' (JObj (filter (\<lambda>p. snd p \<noteq> JNull)
     (history_metadata action_type loop_id (opt_json step_id) item)))"

definition item_round :: "jobj \<Rightarrow> int res" where
  "item_round item = py_int (jor (jget item ''repair_round'') (JInt 0))"

text \<open>Findings rebuilt from the quality steps of a loop whose history is empty: the round counter, the
  history and the findings of the last quality step.\<close>

definition rebuild_step :: "pyenv \<Rightarrow> loop_run \<Rightarrow> int \<times> jobj list \<times> jobj list \<Rightarrow> loop_step \<Rightarrow> (int \<times> jobj list \<times> jobj list) res" where
  "rebuild_step E loop acc step = (case acc of (rnd, history, current) \<Rightarrow>
     if step_type step = ''remediation_dispatch'' then Inr (rnd + 1, history, current)
     else if \<not> is_quality_action (step_type step) then Inr acc
     else bindE (py_int (jor (jget_d (step_payload step) ''repair_round'' (JInt rnd)) (JInt 0))) (\<lambda>n.
       let found = report_findings E (step_payload step) (step_type step) (step_type step) None (Some (lr_agent loop)) (Some n) in
       Inr (rnd, history @ map (history_item (step_type step) (lp_step_id step) (lr_loop_id loop)) found, found)))"

fun foldE :: "('b \<Rightarrow> 'a \<Rightarrow> 'b res) \<Rightarrow> 'b \<Rightarrow> 'a list \<Rightarrow> 'b res" where
  "foldE f b [] = Inr b"
| "foldE f b (x # xs) = bindE (f b x) (\<lambda>b'. foldE f b' xs)"

definition rounds_add :: "(int \<times> jobj list) list \<Rightarrow> int \<times> jobj \<Rightarrow> (int \<times> jobj list) list" where
  "rounds_add rounds p = (if fst p \<in> fst ` set rounds
     then map (\<lambda>e. if fst e = fst p then (fst e, snd e @ [snd p]) else e) rounds
     else rounds @ [(fst p, [snd p])])"

definition count_state :: "pyenv \<Rightarrow> jobj \<Rightarrow> jobj \<Rightarrow> jobj" where
  "count_state E counts item = (let state = py_str E (jor (jget item ''state'') (JStr ''failed'')) in
     jset counts state (JInt ((case jget counts state of JInt n \<Rightarrow> n | _ \<Rightarrow> 0) + 1)))"

record finding_lifecycle =
  fl_state :: "string option"
  fl_current :: "jobj list"
  fl_history :: "jobj list"
  fl_rounds :: "(int \<times> jobj list) list"
  fl_counts :: jobj
  fl_failed_gates :: "string list"
  fl_source_gates :: "string list"

definition current_findings :: "jobj list \<Rightarrow> jobj list \<Rightarrow> jobj list res" where
  "current_findings current history = (if current \<noteq> [] \<or> history = [] then Inr current
     else bindE (mapE item_round history) (\<lambda>rounds.
       Inr (map fst (filter (\<lambda>p. snd p = Max (set rounds)) (zip history rounds)))))"

definition finding_lifecycle_summary :: "pyenv \<Rightarrow> loop_run \<Rightarrow> finding_lifecycle res" where
  "finding_lifecycle_summary E loop =
     bindE (if lr_finding_history loop \<noteq> [] then Inr (lr_finding_history loop, lr_findings loop)
       else bindE (foldE (rebuild_step E loop) (0, [], lr_findings loop) (lr_steps loop)) (\<lambda>r. Inr (snd r))) (\<lambda>hc.
     bindE (current_findings (snd hc) (fst hc)) (\<lambda>current.
     bindE (mapE item_round (fst hc)) (\<lambda>rounds.
     Inr \<lparr>fl_state = (if lr_finding_state loop \<notin> {None, Some []} then lr_finding_state loop
            else if current \<noteq> [] then Some (aggregate_finding_state E (objs current) JNull) else None),
       fl_current = current, fl_history = fst hc,
       fl_rounds = sort_key fst (foldl rounds_add [] (zip rounds (fst hc))),
       fl_counts = foldl (count_state E) (map (\<lambda>s. (s, JInt 0)) FINDING_STATES) (fst hc),
       fl_failed_gates = failed_gate_ids_from_findings E (objs current),
       fl_source_gates = first_occurrences (map (\<lambda>item. py_str E (jget item ''source_gate''))
         (filter (\<lambda>item. truthy (jget item ''source_gate'')) (fst hc)))\<rparr>)))"

definition lifecycle_to_dict :: "finding_lifecycle \<Rightarrow> jobj" where
  "lifecycle_to_dict l = [(''schema_version'', JStr ''across-finding-lifecycle/1.0''), (''state'', opt_json (fl_state l)),
     (''current'', objs (fl_current l)), (''history'', objs (fl_history l)),
     (''rounds'', JArr (map (\<lambda>r. JObj [(''repair_round'', JInt (fst r)), (''findings'', objs (snd r))]) (fl_rounds l))),
     (''round_count'', JInt (int (length (fl_rounds l)))), (''history_count'', JInt (int (length (fl_history l)))),
     (''counts_by_state'', JObj (fl_counts l)), (''failed_gates'', jstrs (fl_failed_gates l)),
     (''source_gates'', jstrs (fl_source_gates l))]"

text \<open>\<open>max([int(item.get('repair_round') or 0) for item in current] or [self._repair_round(loop)])\<close>\<close>

definition latest_round :: "loop_run \<Rightarrow> jobj list \<Rightarrow> int res" where
  "latest_round loop current = bindE (mapE item_round current) (\<lambda>rounds.
     Inr (if rounds = [] then repair_round loop else Max (set rounds)))"

section \<open>Checkpoints and executions\<close>

definition execution_from_checkpoint :: "loop_step \<Rightarrow> jobj" where
  "execution_from_checkpoint step = obj_or_empty (jget (lp_checkpoint step) ''execution'')"

definition checkpoint_count :: "loop_run \<Rightarrow> nat" where
  "checkpoint_count loop = length (filter (\<lambda>s. lp_checkpoint s \<noteq> []) (lr_steps loop))"

definition complete_execution :: "pyenv \<Rightarrow> loop_step \<Rightarrow> time \<Rightarrow> jobj" where
  "complete_execution E step completed_at =
     (let execution = execution_from_checkpoint step;
          started_at = (case float_or_none E (jget execution ''started_at'') of
            Some r \<Rightarrow> if r = 0 then lp_created_at step else r | None \<Rightarrow> lp_created_at step) in
      jset (jset execution ''completed_at'' (JFloat completed_at)) ''duration_ms'' (JInt (millis (completed_at - started_at))))"

end
