(* ===== verification/LoopRouting.thy ===== *)
theory LoopRouting
  imports LoopPolicy
begin

text \<open>
  Choice of the agent a dispatch goes to (\<open>_agent_routing\<close> and its helpers in
  \<open>agent_loop.py\<close>): static routes of the metadata first, then the agents the capability hints
  name, with forbidden agents excluded; and the payload of an action, which records the choice.
\<close>

section \<open>Tokens and forbidden agents\<close>

text \<open>\<open>str.isalnum\<close> on Latin-1.\<close>

definition is_alnum_latin1 :: "char \<Rightarrow> bool" where
  "is_alnum_latin1 c \<longleftrightarrow> is_alnum_ascii c \<or> code_pt c \<in> {170, 178, 179, 181, 185, 186, 188, 189, 190}
     \<or> (192 \<le> code_pt c \<and> code_pt c \<noteq> 215 \<and> code_pt c \<noteq> 247)"

definition capability_token :: "pyenv \<Rightarrow> json \<Rightarrow> string" where
  "capability_token E v = filter is_alnum_latin1 (py_lower (py_str E (jor v (JStr []))))"

definition capability_hints :: "loop_run \<Rightarrow> json" where
  "capability_hints loop = jget2 (lr_metadata loop) ''agentCapabilityHints'' ''agent_capability_hints''"

definition capability_hint_forbidden_agents :: "pyenv \<Rightarrow> loop_run \<Rightarrow> string list" where
  "capability_hint_forbidden_agents E loop = (case capability_hints loop of
      JObj hints \<Rightarrow> (case jget hints ''constraints'' of
          JObj constraints \<Rightarrow> (case jors [jget constraints ''forbid'', jget constraints ''forbidden'', JArr []] of
              JStr s \<Rightarrow> List.map_filter (clean_agent_id E) [JStr s]
            | JArr xs \<Rightarrow> List.map_filter (clean_agent_id E) xs
            | _ \<Rightarrow> [])
        | _ \<Rightarrow> [])
    | _ \<Rightarrow> [])"

definition latest_failed_gates :: "pyenv \<Rightarrow> loop_run \<Rightarrow> string list" where
  "latest_failed_gates E loop = (case latest_step loop ''quality_gate'' of
      None \<Rightarrow> []
    | Some step \<Rightarrow> (let payload = step_payload step;
          gates = (case jors [jget payload ''failed_gates'', jget payload ''failedGates'', JArr []] of
              JArr xs \<Rightarrow> filter (\<lambda>t. t \<noteq> []) (map (clean E) xs) | _ \<Rightarrow> []) in
        if gates \<noteq> [] then gates else failed_gate_ids_from_findings E (jget payload ''findings'')))"

section \<open>Alternatives\<close>

definition routing_alternatives_from_ids :: "pyenv \<Rightarrow> string list \<Rightarrow> string \<Rightarrow> jobj list" where
  "routing_alternatives_from_ids E agent_ids selected_agent =
     take 12 (map (\<lambda>a. [(''agent_id'', JStr a), (''selected'', JBool (a = selected_agent))])
       (first_occurrences (List.map_filter (\<lambda>a. clean_agent_id E (JStr a)) agent_ids)))"

definition mark_selected_alternative :: "pyenv \<Rightarrow> jobj list \<Rightarrow> string \<Rightarrow> jobj list" where
  "mark_selected_alternative E alternatives selected_agent =
     (if alternatives = [] then routing_alternatives_from_ids E [selected_agent] selected_agent
      else let marked = map (\<lambda>a. jset a ''selected'' (JBool (jget a ''agent_id'' = JStr selected_agent))) (take 12 alternatives) in
        take 12 (if list_ex (\<lambda>a. jget a ''selected'' = JBool True) marked then marked
          else [(''agent_id'', JStr selected_agent), (''selected'', JBool True)] # marked))"

text \<open>The agents the hints register; anything but a list is none.\<close>

definition registered_agents :: "jobj \<Rightarrow> jobj list" where
  "registered_agents hints =
     (let registry = jget_d hints ''registry'' (jget_d hints ''agentRegistry'' (jget_d hints ''agent_registry'' (JObj []))) in
      case (case registry of JObj r \<Rightarrow> jget r ''agents'' | _ \<Rightarrow> jget hints ''agents'') of
        JArr xs \<Rightarrow> List.map_filter as_obj xs
      | _ \<Rightarrow> [])"

definition registry_agent_id :: "pyenv \<Rightarrow> jobj \<Rightarrow> string option" where
  "registry_agent_id E agent = clean_agent_id E (jors [jget agent ''agent_id'', jget agent ''agentId'', jget agent ''id''])"

definition agent_capability_tokens :: "pyenv \<Rightarrow> jobj \<Rightarrow> string list" where
  "agent_capability_tokens E agent =
     (let values = map (jget agent) [''agent_id'', ''agentId'', ''id'', ''display_name'', ''displayName'']
        @ concat (map (\<lambda>k. case jget agent k of JArr xs \<Rightarrow> xs | v \<Rightarrow> if truthy v then [v] else [])
          [''aliases'', ''capabilities'', ''capability_ids'', ''capabilityIds'', ''configured_skill_ids'', ''configuredSkillIds'',
           ''configured_skill_names'', ''configuredSkillNames'', ''enabled_plugin_ids'', ''enabledPluginIds'',
           ''enabled_tool_names'', ''enabledToolNames'', ''tags'']) in
      remdups (filter (\<lambda>t. t \<noteq> []) (map (capability_token E) values)))"

definition agent_capability_alternatives :: "pyenv \<Rightarrow> jobj \<Rightarrow> string \<Rightarrow> string list \<Rightarrow> jobj list" where
  "agent_capability_alternatives E hints query forbidden_agents =
     (let query_token = capability_token E (JStr query) in
      take 12 (List.map_filter (\<lambda>agent. map_option (\<lambda>agent_id.
        let tokens = agent_capability_tokens E agent; matched = query_token \<noteq> [] \<and> query_token \<in> set tokens in
        [(''agent_id'', JStr agent_id), (''matched'', JBool matched), (''forbidden'', JBool (agent_id \<in> set forbidden_agents)),
         (''capability_count'', JInt (int (length tokens)))]
        @ (if matched then [(''matched_capability'', JStr query)] else [])) (registry_agent_id E agent)) (registered_agents hints)))"

definition agent_from_capability_registry :: "pyenv \<Rightarrow> jobj \<Rightarrow> string \<Rightarrow> string list \<Rightarrow> string option" where
  "agent_from_capability_registry E hints query forbidden_agents =
     (let query_token = capability_token E (JStr query) in
      if query_token = [] then None
      else first_some (map (\<lambda>agent. case registry_agent_id E agent of
          None \<Rightarrow> None
        | Some a \<Rightarrow> if a \<notin> set forbidden_agents \<and> query_token \<in> set (agent_capability_tokens E agent) then Some a else None)
        (registered_agents hints)))"

section \<open>Routes\<close>

record agent_route =
  ar_selected_agent :: string
  ar_source :: string
  ar_reason :: string
  ar_matched_gate :: "string option"
  ar_alternatives :: "jobj list"
  ar_capability_hint :: json

definition hint_queries :: "pyenv \<Rightarrow> jobj \<Rightarrow> jobj \<Rightarrow> string list \<Rightarrow> string \<Rightarrow> (string \<times> string \<times> string option) list" where
  "hint_queries E required preferred gates action_type =
     (let named = (\<lambda>table prefix key gate. if truthy (jget table key)
            then [(py_str E (jget table key), prefix @ key, gate)] else []);
          req = ''metadata.agentCapabilityHints.constraints.requireCapability.'' in
      concat (map (\<lambda>gate. named required req (action_type @ ''.'' @ gate) (Some gate) @ named required req gate (Some gate)) gates)
      @ named required req action_type None @ named required req ''default'' None
      @ named preferred ''metadata.agentCapabilityHints.preferred.'' action_type None
      @ named preferred ''metadata.agentCapabilityHints.preferred.'' ''default'' None)"

definition query_route :: "pyenv \<Rightarrow> jobj \<Rightarrow> string list \<Rightarrow> string \<times> string \<times> string option \<Rightarrow> agent_route option" where
  "query_route E hints forbidden_agents q = (case q of (query, source, matched_gate) \<Rightarrow>
     (let alternatives = agent_capability_alternatives E hints query forbidden_agents in
      case agent_from_capability_registry E hints query forbidden_agents of
        Some candidate \<Rightarrow> Some \<lparr>ar_selected_agent = candidate, ar_source = source,
          ar_reason = ''Selected '' @ candidate @ '' because it matched capability hint '' @ query @ ''.'',
          ar_matched_gate = matched_gate, ar_alternatives = mark_selected_alternative E alternatives candidate,
          ar_capability_hint = JStr query\<rparr>
      | None \<Rightarrow> (case clean_agent_id E (JStr query) of
          Some direct \<Rightarrow> if direct \<in> set forbidden_agents then None
            else Some \<lparr>ar_selected_agent = direct, ar_source = source,
              ar_reason = ''Selected direct capability hint target '' @ direct @ ''.'',
              ar_matched_gate = matched_gate,
              ar_alternatives = mark_selected_alternative E (if alternatives \<noteq> [] then alternatives
                else routing_alternatives_from_ids E [direct] direct) direct,
              ar_capability_hint = JStr query\<rparr>
        | None \<Rightarrow> None)))"

definition agent_capability_hint_route :: "pyenv \<Rightarrow> loop_run \<Rightarrow> string \<Rightarrow> string list \<Rightarrow> agent_route option" where
  "agent_capability_hint_route E loop action_type forbidden_agents = (case capability_hints loop of
      JObj hints \<Rightarrow>
        (let constraints = obj_or_empty (jget hints ''constraints'');
             required = obj_or_empty (jors [jget constraints ''requireCapability'', jget constraints ''require_capability'']) in
         first_some (map (query_route E hints forbidden_agents)
           (hint_queries E required (obj_or_empty (jget hints ''preferred'')) (latest_failed_gates E loop) action_type)))
    | _ \<Rightarrow> None)"

text \<open>The static route: the agent, the source, the reason and the failed gate that chose it.\<close>

definition static_route :: "pyenv \<Rightarrow> loop_run \<Rightarrow> string \<Rightarrow> (string \<times> string \<times> string \<times> string option) option" where
  "static_route E loop action_type = (case jget2 (lr_metadata loop) ''agentRouting'' ''agent_routing'' of
      JObj routing \<Rightarrow> (case jget2 routing action_type ''default'' of
          JStr r \<Rightarrow> map_option (\<lambda>c. (c, ''metadata.agentRouting.'' @ action_type,
            ''Selected '' @ c @ '' from static routing metadata for '' @ action_type @ ''.'', None)) (clean_agent_id E (JStr r))
        | JObj route \<Rightarrow>
            (case first_some (map (\<lambda>gate. map_option (\<lambda>c. (c, ''metadata.agentRouting.'' @ action_type @ ''.'' @ gate,
                ''Selected '' @ c @ '' because failed gate '' @ gate @ '' has an explicit route.'', Some gate))
                (clean_agent_id E (jget route gate))) (latest_failed_gates E loop)) of
              Some r \<Rightarrow> Some r
            | None \<Rightarrow> map_option (\<lambda>c. (c, ''metadata.agentRouting.'' @ action_type @ ''.default'',
                ''Selected '' @ c @ '' from default static routing metadata for '' @ action_type @ ''.'', None))
                (clean_agent_id E (jget route ''default'')))
        | _ \<Rightarrow> None)
    | _ \<Rightarrow> None)"

definition base_route :: "pyenv \<Rightarrow> loop_run \<Rightarrow> string \<Rightarrow> bool \<times> agent_route" where
  "base_route E loop action_type = (case static_route E loop action_type of
      Some (c, source, reason, gate) \<Rightarrow> (True, \<lparr>ar_selected_agent = c, ar_source = source, ar_reason = reason,
        ar_matched_gate = gate, ar_alternatives = routing_alternatives_from_ids E [c, lr_agent loop] c, ar_capability_hint = JNull\<rparr>)
    | None \<Rightarrow> (False, \<lparr>ar_selected_agent = lr_agent loop, ar_source = ''loop.agent'',
        ar_reason = ''Using the loop owner agent because no routing rule matched.'', ar_matched_gate = None,
        ar_alternatives = routing_alternatives_from_ids E [lr_agent loop] (lr_agent loop), ar_capability_hint = JNull\<rparr>))"

definition fenced_route :: "pyenv \<Rightarrow> loop_run \<Rightarrow> string list \<Rightarrow> bool \<times> agent_route \<Rightarrow> bool \<times> agent_route" where
  "fenced_route E loop forbidden_agents r =
     (if ar_selected_agent (snd r) \<notin> set forbidden_agents then r
      else let selected = (if lr_agent loop \<notin> set forbidden_agents then lr_agent loop else ar_selected_agent (snd r)) in
        (False, (snd r)\<lparr>ar_selected_agent := selected, ar_source := ''metadata.agentCapabilityHints.constraints.forbid'',
          ar_reason := ''Selected agent was forbidden by host capability constraints; falling back to the loop owner when possible.'',
          ar_alternatives := routing_alternatives_from_ids E (selected # sort (remdups forbidden_agents)) selected\<rparr>))"

definition routing_choice :: "pyenv \<Rightarrow> loop_run \<Rightarrow> string \<Rightarrow> agent_route" where
  "routing_choice E loop action_type =
     (let forbidden = capability_hint_forbidden_agents E loop;
          base = fenced_route E loop forbidden (base_route E loop action_type) in
      case agent_capability_hint_route E loop action_type forbidden of
        None \<Rightarrow> snd base
      | Some hint \<Rightarrow> if fst base then
            (snd base)\<lparr>ar_capability_hint := (if ar_source (snd base) = ar_source hint then ar_capability_hint hint else JNull)\<rparr>
          else hint\<lparr>ar_alternatives := (if ar_alternatives hint = [] then ar_alternatives (snd base) else ar_alternatives hint)\<rparr>)"

definition agent_routing :: "pyenv \<Rightarrow> loop_run \<Rightarrow> string \<Rightarrow> jobj" where
  "agent_routing E loop action_type = (let r = routing_choice E loop action_type in
     [(''schema_version'', JStr ''agent-loop-routing/1.0''), (''action_type'', JStr action_type),
      (''base_agent'', JStr (lr_agent loop)), (''selected_agent'', JStr (ar_selected_agent r)),
      (''source'', JStr (ar_source r)), (''reason'', JStr (ar_reason r)), (''alternatives'', objs (ar_alternatives r))]
     @ string_field ''matched_gate'' (ar_matched_gate r)
     @ (if ar_capability_hint r = JNull then [] else [(''capability_hint'', ar_capability_hint r)]))"

section \<open>Action payloads\<close>

definition action_payload :: "pyenv \<Rightarrow> loop_run \<Rightarrow> string \<Rightarrow> jobj" where
  "action_payload E loop action_type =
     (let provider = (''provider'', jget_d (lr_memory_policy loop) ''provider'' (JStr ''across-context''));
          routing = agent_routing E loop action_type;
          dispatch = [(''agent'', jget routing ''selected_agent''), (''project_root'', JStr (lr_project_root loop)),
            (''host_adapter'', JStr ''provided-by-host'')] in
      if is_host_declared_check_action action_type
        then [(''check'', JStr action_type), (''mode'', JStr ''host_declared_check''), (''side_effects'', JBool False)]
      else if action_type = ''memory_search'' then [(''query'', JStr (lr_goal loop)), provider]
      else if action_type = ''task_dispatch'' then dispatch @ [(''routing'', JObj routing)]
      else if action_type = ''remediation_dispatch''
        then dispatch @ [(''mode'', JStr ''remediation''), (''routing'', JObj routing)]
      else if action_type = ''quality_gate''
        then [(''required'', jstrs [''artifact_integrity'', ''evidence_bundle'', ''memory_policy''])]
      else if action_type = ''memory_write_candidate'' then [(''status'', JStr ''pending''), provider]
      else if action_type = ''final_output'' then [(''format'', JStr ''summary'')]
      else [])"

section \<open>Forbidden agents are avoided\<close>

lemma first_some_Some: "first_some xs = Some y \<Longrightarrow> Some y \<in> set xs"
proof -
  assume "first_some xs = Some y"
  then have "y \<in> set (List.map_filter id xs)" by (cases "List.map_filter id xs") (auto simp: first_some_def)
  then show ?thesis by (auto simp: List.map_filter_def)
qed

lemma registry_agent_allowed:
  assumes "agent_from_capability_registry E hints query forbidden = Some a" shows "a \<notin> set forbidden"
  using assms
  by (auto simp: agent_from_capability_registry_def Let_def split: if_splits option.splits dest!: first_some_Some)

lemma query_route_allowed: "query_route E hints forbidden q = Some r \<Longrightarrow> ar_selected_agent r \<notin> set forbidden"
  by (auto simp: query_route_def Let_def split: prod.splits option.splits if_splits dest: registry_agent_allowed)

lemma hint_route_allowed:
  assumes "agent_capability_hint_route E loop action_type forbidden = Some r"
  shows "ar_selected_agent r \<notin> set forbidden"
proof -
  obtain hints qs where "first_some (map (query_route E hints forbidden) qs) = Some r"
    using assms by (auto simp: agent_capability_hint_route_def Let_def split: json.splits)
  then obtain q where "query_route E hints forbidden q = Some r"
    using first_some_Some by fastforce
  then show ?thesis by (rule query_route_allowed)
qed

lemma fenced_route_allowed:
  "lr_agent loop \<notin> set forbidden \<Longrightarrow> ar_selected_agent (snd (fenced_route E loop forbidden r)) \<notin> set forbidden"
  by (simp add: fenced_route_def Let_def)

lemma routing_choice_allowed:
  assumes "lr_agent loop \<notin> set (capability_hint_forbidden_agents E loop)"
  shows "ar_selected_agent (routing_choice E loop action_type) \<notin> set (capability_hint_forbidden_agents E loop)"
  using assms fenced_route_allowed [OF assms] hint_route_allowed
  by (auto simp: routing_choice_def Let_def split: option.splits)

lemma agent_routing_agent: "jget (agent_routing E loop a) ''selected_agent'' = JStr (ar_selected_agent (routing_choice E loop a))"
  by (simp add: agent_routing_def Let_def)

end
