(* ===== verification/LoopValidation.thy ===== *)
theory LoopValidation
  imports LoopRouting
begin

text \<open>
  Host-declared checks (\<open>_execute_host_declared_check\<close> and the validation contract in
  \<open>agent_loop.py\<close>): which artifacts a contract names, what is checked of each, and the report the check
  ends in. The files of the project are what the checks read of them: whether the path stays inside the
  project, whether the file is there, and its content as JSON, as CSV rows or as text.
\<close>

section \<open>Files\<close>

type_synonym csv_row = "(string \<times> json) list"

record artifact_file =
  af_json :: "string + json"
  af_csv :: "string + csv_row list"
  af_header :: "string list"
  af_text :: string

datatype artifact_view = OutsideProject | MissingFile | PresentFile artifact_file

type_synonym project_view = "string \<Rightarrow> string \<Rightarrow> artifact_view"

section \<open>Evidence\<close>

definition validation_failure :: "string \<Rightarrow> string \<Rightarrow> string \<Rightarrow> jobj" where
  "validation_failure check_id path message = [(''check_id'', JStr check_id), (''path'', JStr path),
     (''message'', JStr message), (''severity'', JStr ''blocking'')]"

record artifact_evidence =
  ae_path :: string
  ae_required :: bool
  ae_type :: string
  ae_present :: bool
  ae_check_count :: nat
  ae_failures :: "jobj list"
  ae_extra :: jobj

text \<open>One more check, which failed with the given message or passed.\<close>

definition checked :: "string \<Rightarrow> string option \<Rightarrow> artifact_evidence \<Rightarrow> artifact_evidence" where
  "checked check_id failure e = e\<lparr>ae_check_count := ae_check_count e + 1,
     ae_failures := ae_failures e @ (case failure of None \<Rightarrow> [] | Some m \<Rightarrow> [validation_failure check_id (ae_path e) m])\<rparr>"

definition fails :: "bool \<Rightarrow> string \<Rightarrow> string option" where
  "fails b m = (if b then Some m else None)"

definition evidence_to_dict :: "artifact_evidence \<Rightarrow> jobj" where
  "evidence_to_dict e = [(''path'', JStr (ae_path e)), (''required'', JBool (ae_required e)), (''type'', JStr (ae_type e)),
     (''present'', JBool (ae_present e)), (''check_count'', JInt (int (ae_check_count e))),
     (''failures'', objs (ae_failures e)), (''warnings'', JArr [])] @ ae_extra e"

section \<open>Artifacts of a contract\<close>

definition validation_contract :: "loop_run \<Rightarrow> jobj" where
  "validation_contract loop = obj_or_empty (jors [jget (lr_metadata loop) ''validationContract'',
     jget (lr_metadata loop) ''validation_contract'', jget (lr_metadata loop) ''artifactContract'',
     jget (lr_metadata loop) ''artifact_contract''])"

definition contract_artifacts :: "jobj \<Rightarrow> jobj list" where
  "contract_artifacts contract =
     (let raw = jors [jget contract ''artifacts'', jget contract ''required_artifacts'', jget contract ''requiredArtifacts'', JArr []];
          items = (case raw of JStr s \<Rightarrow> [raw] | JArr xs \<Rightarrow> xs | _ \<Rightarrow> []) in
      List.map_filter (\<lambda>item. case item of
          JStr s \<Rightarrow> Some [(''path'', item), (''required'', JBool True)]
        | JObj o' \<Rightarrow> Some o'
        | _ \<Rightarrow> None) (take 50 items))"

text \<open>\<open>Path(p).suffix\<close>: of the last component, from its last dot, unless that dot is its first or
  its last character.\<close>

definition path_name :: "string \<Rightarrow> string" where
  "path_name p = (case filter (\<lambda>c. c \<noteq> [] \<and> c \<noteq> ''.'') (py_split (CHR ''/'') p) of [] \<Rightarrow> [] | cs \<Rightarrow> last cs)"

definition path_suffix :: "string \<Rightarrow> string" where
  "path_suffix p = (let name = path_name p; tail = takeWhile (\<lambda>c. c \<noteq> CHR ''.'') (rev name) in
     if tail = [] \<or> length tail + 1 \<ge> length name then [] else CHR ''.'' # rev tail)"

definition artifact_type_from_path :: "string \<Rightarrow> string" where
  "artifact_type_from_path p = (let suffix = py_lower (path_suffix p) in
     if suffix = ''.json'' then ''json'' else if suffix = ''.csv'' then ''csv''
     else if suffix \<in> {''.md'', ''.markdown''} then ''markdown'' else ''text'')"

section \<open>JSON\<close>

definition json_type_name :: "json \<Rightarrow> string" where
  "json_type_name v = (case v of JNull \<Rightarrow> ''NoneType'' | JBool _ \<Rightarrow> ''bool'' | JInt _ \<Rightarrow> ''int'' | JFloat _ \<Rightarrow> ''float''
     | JStr _ \<Rightarrow> ''str'' | JArr _ \<Rightarrow> ''list'' | JObj _ \<Rightarrow> ''dict'')"

fun json_walk :: "json \<Rightarrow> string list \<Rightarrow> json" where
  "json_walk v [] = v"
| "json_walk v (p # ps) = (case v of
      JObj o' \<Rightarrow> (case jlookup o' p of Some w \<Rightarrow> json_walk w ps | None \<Rightarrow> JNull)
    | _ \<Rightarrow> JNull)"

definition json_path_value :: "json \<Rightarrow> string \<Rightarrow> json" where
  "json_path_value v dotted_path = json_walk v (py_split (CHR ''.'') dotted_path)"

definition check_required_json_keys :: "pyenv \<Rightarrow> json \<Rightarrow> jobj \<Rightarrow> artifact_evidence \<Rightarrow> artifact_evidence" where
  "check_required_json_keys E parsed artifact e =
     (case jors [jget artifact ''required_keys'', jget artifact ''requiredKeys'', JArr []] of
        JArr keys \<Rightarrow> foldl (\<lambda>e key. checked ''json_required_key''
          (fails (json_path_value parsed (py_str E key) = JNull) (''missing JSON key: '' @ py_str E key)) e) e (take 50 keys)
      | _ \<Rightarrow> e)"

section \<open>CSV\<close>

definition row_columns :: "csv_row list \<Rightarrow> string list \<Rightarrow> string list" where
  "row_columns rows header = (case rows of [] \<Rightarrow> header | r # rs \<Rightarrow> map fst r)"

text \<open>The sort key of a row: one part per sort specification, a number or the code points of a text; a
  descending text has its code points complemented.\<close>

definition key_part :: "pyenv \<Rightarrow> csv_row \<Rightarrow> jobj \<Rightarrow> rat \<times> int list" where
  "key_part E row spec =
     (let raw = jget_d row (py_str E (jor (jget spec ''field'') (JStr []))) (JStr []);
          desc = (py_lower (py_str E (jor (jget spec ''direction'') (JStr ''asc''))) = ''desc'');
          codes = map (\<lambda>c. int (code_pt c)) (py_str E raw) in
      if truthy (jget spec ''numeric'')
          \<or> py_lower (py_str E (jor (jget spec ''type'') (JStr []))) \<in> {''number'', ''numeric'', ''integer'', ''float''}
      then (let v = opt_or (float_or_none E raw) 0 in (if desc then - v else v, []))
      else (0, if desc then map (\<lambda>n. 1114111 - n) codes else codes))"

definition check_csv_sort :: "pyenv \<Rightarrow> csv_row list \<Rightarrow> jobj \<Rightarrow> artifact_evidence \<Rightarrow> artifact_evidence" where
  "check_csv_sort E rows artifact e =
     (let raw = jors [jget artifact ''sort'', jget artifact ''sort_order'', jget artifact ''sortOrder''];
          items = (case raw of JArr xs \<Rightarrow> xs | _ \<Rightarrow> [raw]); specs = List.map_filter as_obj items in
      if \<not> truthy raw \<or> length specs < length items then e
      else checked ''csv_sort_order'' (fails (rows \<noteq> sort_key (\<lambda>row. map (key_part E row) specs) rows)
        ''rows are not sorted according to contract'') e)"

definition row_text :: "pyenv \<Rightarrow> csv_row \<Rightarrow> string \<Rightarrow> string" where
  "row_text E row k = py_str E (jget_d row k (JStr []))"

definition row_expectation :: "pyenv \<Rightarrow> csv_row list \<Rightarrow> nat \<Rightarrow> jobj \<Rightarrow> string option" where
  "row_expectation E rows index expectation =
     (let matches = obj_or_empty (jget expectation ''match''); expect = obj_or_empty (jget expectation ''expect'') in
      case List.find (\<lambda>row. list_all (\<lambda>(k, v). row_text E row k = py_str E v) matches) rows of
        None \<Rightarrow> Some (''row expectation '' @ nat_str index @ '' did not match any row'')
      | Some row \<Rightarrow> (let mismatches = List.map_filter (\<lambda>(k, v).
            fails (row_text E row k \<noteq> py_str E v) (k @ '' expected '' @ py_str E v @ '' got '' @ row_text E row k)) expect in
          fails (mismatches \<noteq> []) (py_join ''; '' mismatches)))"

definition check_csv_row_expectations :: "pyenv \<Rightarrow> csv_row list \<Rightarrow> jobj \<Rightarrow> artifact_evidence \<Rightarrow> artifact_evidence" where
  "check_csv_row_expectations E rows artifact e =
     (case jors [jget artifact ''row_expectations'', jget artifact ''rowExpectations'', JArr []] of
        JArr xs \<Rightarrow> foldl (\<lambda>e (index, item). case item of
            JObj expectation \<Rightarrow> checked ''csv_row_expectation'' (row_expectation E rows index expectation) e
          | _ \<Rightarrow> e) e (List.enumerate 0 (take 100 xs))
      | _ \<Rightarrow> e)"

definition check_count_rule :: "pyenv \<Rightarrow> json \<Rightarrow> string \<Rightarrow> string \<Rightarrow> (int \<Rightarrow> bool) \<Rightarrow> nat \<Rightarrow> artifact_evidence \<Rightarrow> artifact_evidence res" where
  "check_count_rule E rule check_id label violated n e = (if rule = JNull then Inr e
     else bindE (py_int rule) (\<lambda>k. Inr (checked check_id
       (fails (violated k) (label @ '' expected '' @ py_str E rule @ '' got '' @ nat_str n)) e)))"

definition check_csv_contract :: "pyenv \<Rightarrow> csv_row list \<Rightarrow> string list \<Rightarrow> jobj \<Rightarrow> artifact_evidence \<Rightarrow> artifact_evidence res" where
  "check_csv_contract E rows header artifact e =
     (let actual = row_columns rows header; n = length rows;
          e1 = (case jors [jget artifact ''columns'', jget artifact ''expected_columns'', jget artifact ''expectedColumns''] of
            JArr columns \<Rightarrow> (let expected = map (py_str E) columns in checked ''csv_columns''
              (fails (actual \<noteq> expected) (''columns expected '' @ py_repr E (jstrs expected) @ '' got '' @ py_repr E (jstrs actual))) e)
          | _ \<Rightarrow> e) in
      bindE (check_count_rule E (jget2 artifact ''row_count'' ''rowCount'') ''csv_row_count'' ''row_count'' (\<lambda>k. int n \<noteq> k) n e1) (\<lambda>e2.
      bindE (check_count_rule E (jget2 artifact ''min_rows'' ''minRows'') ''csv_min_rows'' ''min_rows'' (\<lambda>k. int n < k) n e2) (\<lambda>e3.
      Inr (check_csv_row_expectations E rows artifact (check_csv_sort E rows artifact e3)))))"

section \<open>Text\<close>

definition iter_or_none :: "json \<Rightarrow> json list res" where
  "iter_or_none v = (if truthy v then py_iter v else Inr [])"

definition check_text_contract :: "pyenv \<Rightarrow> string \<Rightarrow> jobj \<Rightarrow> artifact_evidence \<Rightarrow> artifact_evidence res" where
  "check_text_contract E body artifact e =
     bindE (iter_or_none (jors [jget artifact ''must_include'', jget artifact ''mustInclude''])) (\<lambda>wanted.
     bindE (iter_or_none (jors [jget artifact ''must_not_include'', jget artifact ''mustNotInclude''])) (\<lambda>banned.
     Inr (foldl (\<lambda>e item. checked ''text_must_not_include''
         (fails (py_contains body (py_str E item)) (''forbidden text present: '' @ py_str E item)) e)
       (foldl (\<lambda>e item. checked ''text_must_include''
         (fails (\<not> py_contains body (py_str E item)) (''missing required text: '' @ py_str E item)) e) e wanted) banned)))"

section \<open>The contract\<close>

definition artifact_start :: "pyenv \<Rightarrow> jobj \<Rightarrow> artifact_evidence" where
  "artifact_start E artifact = (let path_value = clean E (jors [jget artifact ''path'', jget artifact ''file'']) in
     \<lparr>ae_path = path_value, ae_required = (jget_d artifact ''required'' (JBool True) \<noteq> JBool False),
      ae_type = py_str E (jors [jget artifact ''type'', jget artifact ''kind'', JStr (artifact_type_from_path path_value)]),
      ae_present = False, ae_check_count = 0, ae_failures = [], ae_extra = []\<rparr>)"

definition evaluate_file :: "pyenv \<Rightarrow> artifact_file \<Rightarrow> jobj \<Rightarrow> artifact_evidence \<Rightarrow> artifact_evidence res" where
  "evaluate_file E file artifact e =
     (if ae_type e = ''json'' then
        (case af_json file of
           Inl err \<Rightarrow> Inr (checked ''json_parse'' (Some (''JSON parse failed: '' @ err)) e)
         | Inr parsed \<Rightarrow> Inr (check_required_json_keys E parsed artifact
             ((checked ''json_parse'' None e)\<lparr>ae_extra := [(''json_type'', JStr (json_type_name parsed))]\<rparr>)))
      else if ae_type e = ''csv'' then
        (case af_csv file of
           Inl err \<Rightarrow> Inr (checked ''csv_parse'' (Some (''CSV parse failed: '' @ err)) e)
         | Inr rows \<Rightarrow> check_csv_contract E rows (af_header file) artifact
             ((checked ''csv_parse'' None e)\<lparr>ae_extra := [(''row_count'', JInt (int (length rows))),
               (''columns'', jstrs (row_columns rows (af_header file)))]\<rparr>))
      else if ae_type e \<in> {''markdown'', ''text''} then check_text_contract E (af_text file) artifact e
      else Inr e)"

definition evaluate_contract_artifact :: "pyenv \<Rightarrow> project_view \<Rightarrow> loop_run \<Rightarrow> jobj \<Rightarrow> artifact_evidence res" where
  "evaluate_contract_artifact E files loop artifact =
     (let e = artifact_start E artifact in
      if ae_path e = [] then Inr (checked ''artifact_path'' (Some ''artifact path must stay inside project_root'') e)
      else (case files (lr_project_root loop) (ae_path e) of
          OutsideProject \<Rightarrow> Inr (checked ''artifact_path'' (Some ''artifact path must stay inside project_root'') e)
        | MissingFile \<Rightarrow> Inr (checked ''artifact_presence'' (fails (ae_required e) ''required artifact is missing'') e)
        | PresentFile file \<Rightarrow> evaluate_file E file artifact ((checked ''artifact_presence'' None e)\<lparr>ae_present := True\<rparr>)))"

abbreviation "VALIDATION_CONTRACT_SCHEMA \<equiv> ''across-validation-contract/1.0''"
abbreviation "VALIDATION_EVIDENCE_SCHEMA \<equiv> ''across-validation-evidence/1.0''"

definition validation_report :: "pyenv \<Rightarrow> string \<Rightarrow> jobj \<Rightarrow> artifact_evidence list \<Rightarrow> jobj" where
  "validation_report E action_type contract evidence =
     (let failures = concat (map ae_failures evidence); n = nat_str (length evidence) in
      [(''schema_version'', JStr VALIDATION_EVIDENCE_SCHEMA), (''action_type'', JStr action_type),
       (''status'', JStr (if failures = [] then ''passed'' else ''failed'')), (''passed'', JBool (failures = [])),
       (''mode'', JStr ''host_declared_check''), (''side_effects'', JBool False),
       (''contract_schema_version'', JStr (py_str E (jors [jget contract ''schema_version'', jget contract ''schemaVersion'',
          JStr VALIDATION_CONTRACT_SCHEMA]))),
       (''check_count'', JInt (int (sum_list (map ae_check_count evidence)))),
       (''failure_count'', JInt (int (length failures))), (''warning_count'', JInt 0),
       (''failures'', objs (take 50 failures)), (''warnings'', JArr []),
       (''artifacts'', objs (map evidence_to_dict evidence)),
       (''summary'', JStr (if failures = [] then action_type @ '' passed '' @ n @ '' artifact contract(s).''
          else action_type @ '' failed '' @ nat_str (length failures) @ '' validation contract check(s).''))])"

definition evaluate_validation_contract :: "pyenv \<Rightarrow> project_view \<Rightarrow> loop_run \<Rightarrow> string \<Rightarrow> jobj \<Rightarrow> jobj res" where
  "evaluate_validation_contract E files loop action_type contract =
     bindE (mapE (evaluate_contract_artifact E files loop) (contract_artifacts contract)) (\<lambda>evidence.
     Inr (normalize_quality_payload E loop action_type (JObj (validation_report E action_type contract evidence))))"

definition execute_host_declared_check :: "pyenv \<Rightarrow> project_view \<Rightarrow> loop_run \<Rightarrow> string \<Rightarrow> jobj res" where
  "execute_host_declared_check E files loop action_type =
     (let contract = validation_contract loop;
          configured = py_str E (jors [jget contract ''check_action'', jget contract ''checkAction'', JStr action_type]);
          recorded = [(''action_type'', JStr action_type), (''status'', JStr ''passed''), (''mode'', JStr ''host_declared_check''),
            (''side_effects'', JBool False)] in
      if contract = [] then Inr (normalize_quality_payload E loop action_type (JObj (recorded @
        [(''message'', JStr ''host-declared check recorded; validation evidence is owned by the host or plugin tool that performed the check'')])))
      else if configured \<noteq> action_type then Inr (normalize_quality_payload E loop action_type (JObj (recorded @
        [(''validation_contract'', JObj [(''schema_version'', JStr (py_str E (jors [jget contract ''schema_version'',
              jget contract ''schemaVersion'', JStr []]))), (''check_action'', JStr configured), (''applied'', JBool False)]),
         (''message'', JStr (''validation contract is bound to '' @ configured @ ''; '' @ action_type @ '' recorded only''))])))
      else evaluate_validation_contract E files loop action_type contract)"

definition host_declared_check_failed :: "pyenv \<Rightarrow> jobj \<Rightarrow> bool" where
  "host_declared_check_failed E payload \<longleftrightarrow> \<not> quality_report_passed E payload"

end
