(* ===== verification/LoopMemory.thy ===== *)
theory LoopMemory
  imports LoopValidation
begin

text \<open>
  What the loop hands to the host's adapters (\<open>agent_loop.py\<close>): the context of a call, the memory
  candidate with its text cleaned of secrets and traces, and the adapters themselves. A host supplies
  the adapters; the ones the runtime starts with are defined here too.
\<close>

section \<open>Memory candidates\<close>

text \<open>\<open>str.split()\<close>: the words between runs of white space.\<close>

fun words_from :: "string \<Rightarrow> string \<Rightarrow> string list" where
  "words_from w [] = (if w = [] then [] else [w])"
| "words_from w (c # cs) = (if is_space c then (if w = [] then [] else [w]) @ words_from [] cs else words_from (w @ [c]) cs)"

definition py_words :: "string \<Rightarrow> string list" where
  "py_words s = words_from [] s"

definition memory_blocked_words :: "string list" where
  "memory_blocked_words = [''secret'', ''credential'', ''api key'', ''apikey'', ''token'', ''traceback'', ''stack trace'',
     ''screenshot'', ''temporary tool error'']"

definition memory_safe_string :: "pyenv \<Rightarrow> nat \<Rightarrow> json \<Rightarrow> string" where
  "memory_safe_string E limit v =
     (let t = py_join '' '' (py_words (py_replace_char (CHR 0x00) (CHR '' '') (py_str E (jor v (JStr []))))) in
      if list_ex (py_contains (py_lower t)) memory_blocked_words then ''[redacted]'' else take limit t)"

definition memory_safe_list :: "pyenv \<Rightarrow> json \<Rightarrow> string list" where
  "memory_safe_list E v = (case v of
      JStr s \<Rightarrow> [memory_safe_string E 240 v]
    | JArr xs \<Rightarrow> take 20 (map (memory_safe_string E 240) (filter (\<lambda>x. x \<noteq> JNull) xs))
    | _ \<Rightarrow> [])"

definition memory_step_summary :: "pyenv \<Rightarrow> loop_step \<Rightarrow> string option" where
  "memory_step_summary E step = map_option (\<lambda>k. memory_safe_string E 240 (jget (step_payload step) k))
     (List.find (\<lambda>k. truthy (jget (step_payload step) k))
       [''summary'', ''message'', ''final_output'', ''quality'', ''dispatch'', ''status''])"

definition memory_artifact :: "pyenv \<Rightarrow> loop_step \<Rightarrow> json \<Rightarrow> jobj option" where
  "memory_artifact E step item =
     (let (path, kind, action) = (case item of
          JObj o' \<Rightarrow> (jors [jget o' ''path'', jget o' ''file'', jget o' ''name''], jors [jget o' ''kind'', jget o' ''type''],
            jors [jget o' ''action'', JStr ''mentioned''])
        | _ \<Rightarrow> (item, JNull, JStr ''mentioned'')) in
      if \<not> truthy path then None
      else Some ([(''step_id'', JStr (lp_step_id step)), (''path'', JStr (memory_safe_string E 500 path)),
        (''action'', JStr (memory_safe_string E 80 action))]
        @ (if truthy kind then [(''kind'', JStr (memory_safe_string E 80 kind))] else [])))"

definition memory_artifacts :: "pyenv \<Rightarrow> loop_step \<Rightarrow> jobj list" where
  "memory_artifacts E step = (let payload = step_payload step;
       raw = jors [jget payload ''artifacts'', jget payload ''artifact_paths'', jget payload ''artifactPaths'', JArr []] in
     case raw of JStr s \<Rightarrow> List.map_filter (memory_artifact E step) [raw]
     | JArr xs \<Rightarrow> List.map_filter (memory_artifact E step) (take 20 xs)
     | _ \<Rightarrow> [])"

definition memory_command :: "pyenv \<Rightarrow> loop_step \<Rightarrow> jobj option" where
  "memory_command E step = (let payload = step_payload step; command = jors [jget payload ''cmd'', jget payload ''command''] in
     if \<not> truthy command then None
     else Some ([(''step_id'', JStr (lp_step_id step)), (''cmd'', JStr (memory_safe_string E 300 command))]
       @ (case jget2 payload ''exit_code'' ''exitCode'' of
            JNull \<Rightarrow> []
          | v \<Rightarrow> (case py_int v of Inr n \<Rightarrow> [(''exit_code'', JInt n)] | Inl _ \<Rightarrow> []))))"

definition memory_decision :: "pyenv \<Rightarrow> loop_step \<Rightarrow> jobj" where
  "memory_decision E step = [(''step_id'', JStr (lp_step_id step)), (''turn'', JInt (lp_turn step)),
     (''action_type'', JStr (step_type step)), (''status'', JStr (lp_status step))]
     @ (case memory_step_summary E step of Some s \<Rightarrow> if s = [] then [] else [(''summary'', JStr s)] | None \<Rightarrow> [])"

definition memory_failure :: "pyenv \<Rightarrow> loop_step \<Rightarrow> jobj option" where
  "memory_failure E step = (let payload = step_payload step;
       failure_type = jors [jget payload ''failure_type'', jget (lp_checkpoint step) ''failure_type''] in
     if \<not> truthy failure_type then None
     else Some [(''step_id'', JStr (lp_step_id step)), (''action_type'', JStr (step_type step)),
       (''failure_type'', JStr (memory_safe_string E 240 failure_type)),
       (''gates'', jstrs (memory_safe_list E (jors [jget payload ''failed_gates'', jget payload ''failedGates'',
          jstrs (failed_gate_ids_from_findings E (jget payload ''findings''))])))])"

definition memory_remediation :: "pyenv \<Rightarrow> loop_step \<Rightarrow> jobj option" where
  "memory_remediation E step = (if step_type step \<noteq> ''remediation_dispatch'' then None
     else Some [(''step_id'', JStr (lp_step_id step)), (''status'', JStr (lp_status step)),
       (''summary'', JStr (case memory_step_summary E step of
          Some s \<Rightarrow> if s = [] then ''remediation dispatch completed'' else s | None \<Rightarrow> ''remediation dispatch completed''))])"

definition memory_refs :: "pyenv \<Rightarrow> loop_step \<Rightarrow> jobj list res" where
  "memory_refs E step = (if step_type step \<noteq> ''memory_search'' then Inr []
     else bindE (py_iter (jget_d (step_payload step) ''results'' (JArr []))) (\<lambda>items.
       let refs = map (\<lambda>o'. memory_safe_string E 240 (jget o' ''id''))
         (filter (\<lambda>o'. truthy (jget o' ''id'')) (List.map_filter as_obj items)) in
       Inr (if refs = [] then [] else [[(''kind'', JStr ''pre_loop_search''), (''step_id'', JStr (lp_step_id step)),
         (''memory_ids'', jstrs (take 12 refs))]])))"

definition memory_candidate_outcome :: "pyenv \<Rightarrow> loop_run \<Rightarrow> string" where
  "memory_candidate_outcome E loop = (if lr_status loop \<in> set TERMINAL_LOOP_STATUSES then lr_status loop
     else (case latest_step loop ''quality_gate'' of None \<Rightarrow> lr_status loop
       | Some step \<Rightarrow> if quality_failed E step then ''failed'' else ''passed''))"

definition memory_candidate_summary :: "pyenv \<Rightarrow> loop_run \<Rightarrow> jobj res" where
  "memory_candidate_summary E loop = bindE (mapE (memory_refs E) (lr_steps loop)) (\<lambda>refs. Inr
     [(''schema_version'', JStr ''agent-loop-memory-candidate/1.0''), (''loop_id'', JStr (lr_loop_id loop)),
      (''goal'', JStr (memory_safe_string E 300 (JStr (lr_goal loop)))),
      (''project_root'', JStr (memory_safe_string E 500 (JStr (lr_project_root loop)))),
      (''outcome'', JStr (memory_candidate_outcome E loop)),
      (''decisions'', objs (map (memory_decision E) (lr_steps loop))),
      (''artifacts'', objs (concat (map (memory_artifacts E) (lr_steps loop)))),
      (''commands'', objs (List.map_filter (memory_command E) (lr_steps loop))),
      (''failure_types'', objs (List.map_filter (memory_failure E) (lr_steps loop))),
      (''remediation_outcomes'', objs (List.map_filter (memory_remediation E) (lr_steps loop))),
      (''memory_refs'', objs (concat refs))])"

text \<open>\<open>json.dumps(v, ensure_ascii=False, sort_keys=True)\<close> with the default separators.\<close>

fun dumps_spaced :: "pyenv \<Rightarrow> json \<Rightarrow> string" where
  "dumps_spaced E (JArr xs) = ''['' @ py_join '', '' (map (dumps_spaced E) xs) @ '']''"
| "dumps_spaced E (JObj o') =
     ''{'' @ py_join '', '' (map (\<lambda>p. json_string (fst p) @ '': '' @ snd p)
        (sort_key fst (map (\<lambda>p. (fst p, dumps_spaced E (snd p))) o'))) @ ''}''"
| "dumps_spaced E v = dumps_sorted E v"

definition memory_candidate_text :: "pyenv \<Rightarrow> loop_run \<Rightarrow> string res" where
  "memory_candidate_text E loop = bindE (memory_candidate_summary E loop) (\<lambda>o'. Inr (dumps_spaced E (JObj o')))"

section \<open>Context of a call\<close>

definition loop_context :: "loop_run \<Rightarrow> jobj" where
  "loop_context loop = [(''loop_id'', JStr (lr_loop_id loop)), (''goal'', JStr (lr_goal loop)),
     (''project_root'', JStr (lr_project_root loop)), (''steps'', objs (map step_to_dict (lr_steps loop))),
     (''memory'', objs (map step_payload (filter (\<lambda>s. step_type s = ''memory_search'') (lr_steps loop)))),
     (''quality'', objs (map step_payload (filter (\<lambda>s. step_type s = ''quality_gate'') (lr_steps loop))))]"

section \<open>Adapters\<close>

text \<open>
  While a dispatcher works, the runtime polls and the dispatcher may send heartbeats; a dispatch is
  the order of these moments and what the dispatcher finally returns or raises. Every adapter may
  answer differently at every call: it is a function of the number of calls made so far.
\<close>

datatype dispatch_moment = Poll | Beat

record dispatch_run =
  dr_moments :: "dispatch_moment list"
  dr_result :: "json res"

record loop_adapters =
  ad_memory_name :: string
  ad_dispatcher_name :: string
  ad_gate_name :: string
  ad_finalizer_name :: string
  ad_search :: "nat \<Rightarrow> jobj \<Rightarrow> jobj res"
  ad_remember :: "nat \<Rightarrow> string \<Rightarrow> string \<Rightarrow> string list \<Rightarrow> jobj res"
  ad_dispatch :: "nat \<Rightarrow> loop_run \<Rightarrow> string \<Rightarrow> jobj \<Rightarrow> dispatch_run"
  ad_requires_cancel_ack :: bool
  ad_gate :: "nat \<Rightarrow> loop_run \<Rightarrow> jobj \<Rightarrow> json res"
  ad_finalize :: "nat \<Rightarrow> loop_run \<Rightarrow> jobj \<Rightarrow> jobj res"
  ad_files :: "nat \<Rightarrow> project_view"

definition adapter_name :: "loop_adapters \<Rightarrow> string \<Rightarrow> string" where
  "adapter_name A action_type =
     (if action_type \<in> {''memory_search'', ''memory_write_candidate''} then ad_memory_name A
      else if action_type \<in> {''task_dispatch'', ''remediation_dispatch''} then ad_dispatcher_name A
      else if action_type = ''quality_gate'' then ad_gate_name A
      else if action_type = ''final_output'' then ad_finalizer_name A
      else if is_host_declared_check_action action_type then ''host_declared_check''
      else ''unknown'')"

subsection \<open>The adapters the runtime starts with\<close>

definition null_search :: "jobj \<Rightarrow> jobj res" where
  "null_search kwargs = Inr [(''provider'', JStr ''across-context''), (''query'', jget kwargs ''query''),
     (''project_root'', jget kwargs ''project_root''), (''result_count'', JInt 0), (''results'', JArr []),
     (''mode'', JStr ''memory-provider-not-configured'')]"

definition null_remember :: "string \<Rightarrow> string \<Rightarrow> string list \<Rightarrow> jobj res" where
  "null_remember body project_root tags = Inr [(''provider'', JStr ''across-context''),
     (''memory'', JObj [(''id'', JNull), (''text'', JStr body), (''project_root'', JStr project_root),
        (''tags'', jstrs tags), (''status'', JStr ''pending'')]),
     (''mode'', JStr ''memory-provider-not-configured'')]"

definition loop_model_policy :: "loop_run \<Rightarrow> jobj" where
  "loop_model_policy loop = (let metadata = lr_metadata loop;
       raw = (if jget metadata ''model_policy'' = JNull then jget metadata ''modelPolicy'' else jget metadata ''model_policy'') in
     obj_or_empty (if raw = JNull then (case jget metadata ''autopilot'' of
         JObj autopilot \<Rightarrow> jors [jget autopilot ''model_policy'', jget autopilot ''modelPolicy''] | _ \<Rightarrow> JNull) else raw))"

text \<open>\<open>env_command\<close>: whether the environment names a host model command.\<close>

definition model_policy_enabled :: "bool \<Rightarrow> jobj \<Rightarrow> bool" where
  "model_policy_enabled env_command policy \<longleftrightarrow> truthy (jget policy ''required'') \<or> truthy (jget policy ''host_model_command'')
     \<or> truthy (jget policy ''hostModelCommand'') \<or> env_command"

definition latest_dispatch_payload :: "loop_run \<Rightarrow> jobj" where
  "latest_dispatch_payload loop = (case List.find (\<lambda>s. step_type s \<in> {''task_dispatch'', ''remediation_dispatch''})
     (rev (lr_steps loop)) of Some s \<Rightarrow> step_payload s | None \<Rightarrow> [])"

definition host_dispatch :: "bool \<Rightarrow> (loop_run \<Rightarrow> string \<Rightarrow> jobj \<Rightarrow> jobj \<Rightarrow> json res) \<Rightarrow> loop_run \<Rightarrow> string \<Rightarrow> jobj \<Rightarrow> json res" where
  "host_dispatch env_command model_command loop action_type context =
     (if action_type \<in> {''task_dispatch'', ''remediation_dispatch''} \<and> model_policy_enabled env_command (loop_model_policy loop)
        then model_command loop action_type context (loop_model_policy loop)
      else if action_type = ''remediation_dispatch''
        then Inr (JObj [(''dispatch'', JStr ''completed''), (''agent'', JStr (lr_agent loop)), (''adapter'', JStr ''host''),
          (''remediation'', JBool True), (''message'', JStr ''Host remediation adapter accepted the loop action.'')])
      else Inr (JObj [(''dispatch'', JStr ''completed''), (''agent'', JStr (lr_agent loop)), (''adapter'', JStr ''host''),
          (''project_root'', JStr (lr_project_root loop)), (''message'', JStr ''Host dispatch adapter accepted the loop action.'')]))"

definition default_quality_gate :: "loop_run \<Rightarrow> json res" where
  "default_quality_gate loop =
     bindE (py_iter (jor (jget (lr_metadata loop) ''quality_gates'')
       (jstrs [''artifact_integrity'', ''evidence_bundle'', ''memory_policy'']))) (\<lambda>required.
     let latest = latest_dispatch_payload loop; backed = truthy (jget latest ''model_backed'');
         patches = (case jget latest ''patches'' of JArr xs \<Rightarrow> xs | _ \<Rightarrow> []); ok = backed \<and> patches \<noteq> [] in
     if truthy (jget (loop_model_policy loop) ''required'')
     then Inr (JObj [(''quality'', JStr (if ok then ''passed'' else ''failed'')), (''passed'', JBool ok),
       (''gate_count'', JInt (int (length required) + 1)), (''required'', JArr (required @ [JStr ''host_model_decision''])),
       (''summary'', JStr (if ok then ''Host model decision produced candidate patches.''
          else ''Host model decision evidence is missing or patchless.'')),
       (''model_backed'', JBool backed), (''model_patch_count'', JInt (int (length patches)))])
     else Inr (JObj [(''quality'', JStr ''passed''), (''passed'', JBool True), (''gate_count'', JInt (int (length required))),
       (''required'', JArr required), (''summary'', JStr ''Default quality gate passed.'')]))"

definition default_finalize :: "pyenv \<Rightarrow> loop_run \<Rightarrow> jobj res" where
  "default_finalize E loop =
     (let summary = (case latest_step loop ''quality_gate'' of Some s \<Rightarrow> jget (step_payload s) ''summary'' | None \<Rightarrow> JNull);
          shown = truthy summary \<and> summary \<noteq> JStr ''Default quality gate passed.'';
          base = ''Agent loop completed for: '' @ lr_goal loop in
      Inr [(''final_output'', JStr (if shown then base @ ''. '' @ py_str E summary else base)), (''status'', JStr ''completed'')])"

definition default_adapters ::
  "pyenv \<Rightarrow> bool \<Rightarrow> (loop_run \<Rightarrow> string \<Rightarrow> jobj \<Rightarrow> jobj \<Rightarrow> json res) \<Rightarrow> (nat \<Rightarrow> project_view) \<Rightarrow> loop_adapters" where
  "default_adapters E env_command model_command files =
     \<lparr>ad_memory_name = ''NullMemoryProvider'', ad_dispatcher_name = ''HostLoopDispatcher'', ad_gate_name = ''DefaultQualityGate'',
      ad_finalizer_name = ''DefaultFinalizer'', ad_search = (\<lambda>n. null_search), ad_remember = (\<lambda>n. null_remember),
      ad_dispatch = (\<lambda>n loop a c. \<lparr>dr_moments = [], dr_result = host_dispatch env_command model_command loop a c\<rparr>),
      ad_requires_cancel_ack = False, ad_gate = (\<lambda>n loop c. default_quality_gate loop),
      ad_finalize = (\<lambda>n loop c. default_finalize E loop), ad_files = files\<rparr>"

section \<open>No blocked word reaches a memory candidate\<close>

lemma py_contains_iff: "py_contains s w \<longleftrightarrow> (\<exists>a b. s = a @ w @ b)"
proof (induction s)
  case Nil
  then show ?case by auto
next
  case (Cons c s)
  have "take (length w) (c # s) = w \<longleftrightarrow> (\<exists>b. c # s = w @ b)"
    by (metis append_eq_conv_conj)
  then show ?case using Cons by (auto simp: Cons_eq_append_conv)
qed

lemma py_contains_take: "py_contains (take n s) w \<Longrightarrow> py_contains s w"
  by (metis py_contains_iff append.assoc append_take_drop_id)

lemma py_lower_take: "py_lower (take n s) = take n (py_lower s)"
  by (simp add: py_lower_def take_map)

lemma memory_safe_string_clean:
  assumes "w \<in> set memory_blocked_words"
  shows "\<not> py_contains (py_lower (memory_safe_string E limit v)) w"
proof (cases "list_ex (py_contains (py_lower (py_join '' '' (py_words (py_replace_char (CHR 0x00) (CHR '' '')
     (py_str E (jor v (JStr [])))))))) memory_blocked_words")
  case True
  have "list_all (\<lambda>w. \<not> py_contains (py_lower ''[redacted]'') w) memory_blocked_words" by code_simp
  then show ?thesis using True assms by (simp add: memory_safe_string_def list_all_iff)
next
  case False
  then show ?thesis using assms
    by (auto simp: memory_safe_string_def Let_def py_lower_take list_ex_iff dest!: py_contains_take)
qed

end
