(* ===== verification/LoopRuntime.thy ===== *)
theory LoopRuntime
  imports LoopMemory
begin

text \<open>
  The steps of \<open>AgentLoopRuntime\<close> (\<open>agent_loop.py\<close>): creating and settling a step, its
  execution lease, findings of a quality action, execution of an action through the adapters with
  the dispatch guard, recovery after a failure, and the ways a loop ends. Operations act on the loop
  in memory, \<open>ls_cur\<close>; a step object is known by its id.
\<close>

abbreviation withE :: "(pyenv \<Rightarrow> 'a lm) \<Rightarrow> 'a lm" where
  "withE f \<equiv> bindM (getsM ls_interp) f"

section \<open>New objects\<close>

definition new_action :: "string \<Rightarrow> string \<Rightarrow> jobj \<Rightarrow> bool \<Rightarrow> loop_action lm" where
  "new_action action_type title payload requires_approval = bindM (new_id ''action'') (\<lambda>i. retM
     \<lparr>la_action_id = i, la_type = action_type, la_title = title, la_payload = payload,
      la_requires_approval = requires_approval,
      la_approval_status = (if requires_approval then Some ''pending'' else None)\<rparr>)"

definition new_observation :: "string \<Rightarrow> jobj \<Rightarrow> loop_observation lm" where
  "new_observation status payload = bindM (new_id ''observation'') (\<lambda>i. retM
     \<lparr>lo_observation_id = i, lo_status = status, lo_payload = payload\<rparr>)"

definition new_step :: "int \<Rightarrow> string \<Rightarrow> string \<Rightarrow> loop_action \<Rightarrow> loop_observation \<Rightarrow> jobj \<Rightarrow> loop_step lm" where
  "new_step turn phase status action observation checkpoint = bindM curL (\<lambda>loop.
     bindM (new_id ''step'') (\<lambda>i. bindM nowL (\<lambda>created. bindM nowL (\<lambda>updated. retM
     \<lparr>lp_step_id = i, lp_loop_id = lr_loop_id loop, lp_turn = turn, lp_phase = phase, lp_status = status,
      lp_action = action, lp_observation = observation, lp_checkpoint = checkpoint,
      lp_created_at = created, lp_updated_at = updated\<rparr>))))"

section \<open>Steps of the loop in memory\<close>

text \<open>Mutating a step object changes it where it stands; a new one goes to the end.\<close>

definition put_step :: "loop_step \<Rightarrow> loop_run \<Rightarrow> loop_run" where
  "put_step step loop = loop\<lparr>lr_steps :=
     (if lp_step_id step \<in> lp_step_id ` set (lr_steps loop)
      then map (\<lambda>s. if lp_step_id s = lp_step_id step then step else s) (lr_steps loop)
      else lr_steps loop @ [step])\<rparr>"

text \<open>A step object after an adapter ran: only heartbeats touch it meanwhile, and only its checkpoint.\<close>

definition step_now :: "loop_step \<Rightarrow> loop_step lm" where
  "step_now step = bindM curL (\<lambda>loop. retM (case List.find (\<lambda>s. lp_step_id s = lp_step_id step) (lr_steps loop) of
      Some s \<Rightarrow> step\<lparr>lp_checkpoint := lp_checkpoint s, lp_updated_at := lp_updated_at s\<rparr>
    | None \<Rightarrow> step))"

definition count_checkpoints :: "unit lm" where
  "count_checkpoints = updL (\<lambda>l. l\<lparr>lr_checkpoint_count := checkpoint_count l\<rparr>)"

definition checkpoint_dict ::
  "loop_adapters \<Rightarrow> loop_run \<Rightarrow> string \<Rightarrow> int \<Rightarrow> jobj \<Rightarrow> string \<Rightarrow> jobj \<Rightarrow> jobj" where
  "checkpoint_dict A loop action_type turn payload status execution =
     (let latest = (if payload \<noteq> [] then payload else if lr_steps loop = [] then [] else step_payload (last (lr_steps loop))) in
      [(''loop_id'', JStr (lr_loop_id loop)), (''turn'', JInt turn), (''action_type'', JStr action_type),
       (''status'', JStr status), (''adapter'', JStr (adapter_name A action_type)),
       (''observation_status'', jors [jget latest ''quality'', jget latest ''dispatch'', jget latest ''status'', JStr status])]
      @ (if truthy (jget latest ''failure_type'') then [(''failure_type'', jget latest ''failure_type'')] else [])
      @ (if execution = [] then [] else [(''execution'', JObj execution)]))"

text \<open>A step is settled: new status, new observation, closed execution, new checkpoint.\<close>

definition settle_step ::
  "loop_adapters \<Rightarrow> loop_step \<Rightarrow> string \<Rightarrow> string \<Rightarrow> jobj \<Rightarrow> string \<Rightarrow> loop_step lm" where
  "settle_step A step status obs_status payload cp_status = withE (\<lambda>E.
     bindM (new_observation obs_status payload) (\<lambda>obs.
     bindM (step_now step) (\<lambda>s0. let s1 = s0\<lparr>lp_status := status, lp_observation := obs\<rparr> in
     thenM (updL (put_step s1)) (bindM curL (\<lambda>loop.
     bindM nowL (\<lambda>completed_at. bindM nowL (\<lambda>updated.
     let s2 = s1\<lparr>lp_checkpoint := checkpoint_dict A loop (step_type s1) (lp_turn s1) payload cp_status
           (complete_execution E s1 completed_at), lp_updated_at := updated\<rparr> in
     thenM (updL (put_step s2)) (retM s2))))))))"

section \<open>Execution leases\<close>

definition start_execution_lease :: "jobj lm" where
  "start_execution_lease = withE (\<lambda>E. bindM curL (\<lambda>loop. bindM nowL (\<lambda>started_at. bindM (new_id ''lease'') (\<lambda>i.
     let lease_seconds = action_lease_seconds E (lr_metadata loop) in
     retM [(''lease_id'', JStr i), (''started_at'', JFloat started_at), (''heartbeat_at'', JFloat started_at),
       (''lease_seconds'', JFloat lease_seconds), (''lease_expires_at'', JFloat (started_at + lease_seconds)),
       (''renewal_count'', JInt 0)]))))"

definition heartbeat_payload :: "loop_step \<Rightarrow> jobj \<Rightarrow> jobj" where
  "heartbeat_payload step execution = [(''step_id'', JStr (lp_step_id step)), (''action_type'', JStr (step_type step)),
     (''lease_id'', jget execution ''lease_id''), (''heartbeat_at'', jget execution ''heartbeat_at''),
     (''lease_expires_at'', jget execution ''lease_expires_at''), (''renewal_count'', jget execution ''renewal_count'')]"

definition mark_step_running :: "loop_adapters \<Rightarrow> loop_step \<Rightarrow> jobj \<Rightarrow> loop_step lm" where
  "mark_step_running A step observation_payload =
     (let payload = (if observation_payload = [] then [(''action_type'', JStr (step_type step))] else observation_payload) in
      bindM start_execution_lease (\<lambda>execution.
      bindM (new_observation ''running'' payload) (\<lambda>obs.
      bindM curL (\<lambda>loop. bindM nowL (\<lambda>updated.
      let s = step\<lparr>lp_status := ''running'', lp_observation := obs,
            lp_checkpoint := checkpoint_dict A loop (step_type step) (lp_turn step)
              (jmerge [(''status'', JStr ''running'')] payload) ''running'' execution, lp_updated_at := updated\<rparr> in
      thenM (updL (\<lambda>l. put_step s (l\<lparr>lr_status := ''running'', lr_turn_count := max (lr_turn_count l) (lp_turn s)\<rparr>)))
      (thenM count_checkpoints
      (thenM save_loop
      (thenM (emit ''loop.step.started'' (step_to_dict s))
      (thenM (emit ''loop.step.heartbeat'' (heartbeat_payload s execution))
      (retM s)))))))))) "

definition cancel_error :: "pyenv \<Rightarrow> cancel_request \<Rightarrow> py_exc res" where
  "cancel_error E r = bindE (normalize_cancel_category E (JStr (cr_cancel_category r)) (JStr (cr_reason r))) (\<lambda>category.
     Inr (ActionCancelledError (if cr_reason r = [] then ''cancelled'' else cr_reason r) (Some category)))"

text \<open>\<open>LoopCancellationToken.raise_if_cancelled\<close>; the first request it sees raises, so the token
  is never asked again.\<close>

definition raise_if_cancelled :: "unit lm" where
  "raise_if_cancelled = withE (\<lambda>E. bindM curL (\<lambda>loop.
     bindM (load_loop_cancel_request (lr_loop_id loop)) (\<lambda>found. case found of
        None \<Rightarrow> retM ()
      | Some r \<Rightarrow> bindM (liftM (cancel_error E r)) raiseM)))"

definition renew_running_step_lease :: "string \<Rightarrow> jobj lm" where
  "renew_running_step_lease action_type = thenM raise_if_cancelled (withE (\<lambda>E. bindM curL (\<lambda>loop.
     case latest_running_step loop of
       None \<Rightarrow> raiseM (RuntimeError (''No running action lease for '' @ action_type))
     | Some step \<Rightarrow>
        if step_type step \<noteq> action_type then raiseM (RuntimeError (''No running action lease for '' @ action_type))
        else if execution_from_checkpoint step = [] then raiseM (RuntimeError (''No execution lease for '' @ action_type))
        else bindM nowL (\<lambda>now. let lease_seconds = action_lease_seconds E (lr_metadata loop);
               execution = execution_from_checkpoint step in
          bindM (liftM (py_int (jor (jget execution ''renewal_count'') (JInt 0)))) (\<lambda>renewals.
          let execution' = jset (jset (jset (jset execution ''heartbeat_at'' (JFloat now)) ''lease_seconds'' (JFloat lease_seconds))
                ''lease_expires_at'' (JFloat (now + lease_seconds))) ''renewal_count'' (JInt (renewals + 1));
              step' = step\<lparr>lp_checkpoint := jset (lp_checkpoint step) ''execution'' (JObj execution'), lp_updated_at := now\<rparr> in
          thenM (updL (put_step step'))
          (thenM save_loop
          (thenM (emit ''loop.step.heartbeat'' (heartbeat_payload step' execution'))
          (retM (heartbeat_payload step' execution')))))))))"

section \<open>Running steps that fail or are cancelled\<close>

definition running_step_of :: "string \<Rightarrow> loop_step option lm" where
  "running_step_of action_type = bindM curL (\<lambda>loop. retM (case latest_running_step loop of
      Some step \<Rightarrow> if step_type step = action_type then Some step else None | None \<Rightarrow> None))"

definition mark_running_step_failed :: "loop_adapters \<Rightarrow> string \<Rightarrow> py_exc \<Rightarrow> jobj \<Rightarrow> loop_step option lm" where
  "mark_running_step_failed A action_type exc extra = bindM (running_step_of action_type) (\<lambda>found. case found of
      None \<Rightarrow> retM None
    | Some step \<Rightarrow> bindM (settle_step A step ''failed'' ''failed''
        ([(''action_type'', JStr action_type)] @ extra @
         [(''error'', JStr (exc_str exc)), (''failure_type'', JStr (failure_type_for_exception exc))]) ''failed'')
        (\<lambda>s. retM (Some s)))"

definition mark_running_step_cancelled :: "loop_adapters \<Rightarrow> string \<Rightarrow> string \<Rightarrow> jobj \<Rightarrow> string option \<Rightarrow> loop_step option lm" where
  "mark_running_step_cancelled A action_type reason extra cancel_category = withE (\<lambda>E.
     bindM (running_step_of action_type) (\<lambda>found. case found of
      None \<Rightarrow> retM None
    | Some step \<Rightarrow> bindM (liftM (normalize_cancel_category E (opt_json cancel_category) (JStr reason))) (\<lambda>category.
        bindM (settle_step A step ''cancelled'' ''cancelled''
          ([(''action_type'', JStr action_type)] @ extra @
           [(''reason'', JStr (if reason = [] then ''cancelled'' else reason)), (''cancel_category'', JStr category)]) ''cancelled'')
        (\<lambda>s. retM (Some s)))))"

section \<open>Findings\<close>

definition add_history :: "(string \<Rightarrow> jobj \<Rightarrow> jobj) \<Rightarrow> loop_run \<Rightarrow> jobj \<Rightarrow> loop_run" where
  "add_history entry loop item = (let h = entry (lr_loop_id loop) item in
     if finding_history_contains loop h then loop else loop\<lparr>lr_finding_history := lr_finding_history loop @ [h]\<rparr>)"

definition round_findings :: "pyenv \<Rightarrow> loop_run \<Rightarrow> string \<Rightarrow> jobj \<Rightarrow> jobj list" where
  "round_findings E loop action_type payload = normalize_findings E (jors [jget payload ''findings'', jget payload ''normalized_findings''])
     [(''source_gate'', JStr action_type), (''owner'', JStr (lr_agent loop)),
      (''repair_round'', jget_d payload ''repair_round'' (JInt (repair_round loop)))] True"

definition round_payload :: "pyenv \<Rightarrow> jobj list \<Rightarrow> jobj \<Rightarrow> jobj" where
  "round_payload E findings payload =
     jset (jset (jset (jset payload ''findings'' (objs findings)) ''normalized_findings'' (objs findings))
       ''finding_state'' (JStr (aggregate_finding_state E (objs findings) (jget payload ''finding_state''))))
       ''failed_gates'' (jstrs (failed_gate_ids_from_findings E (objs findings)))"

text \<open>The payload is updated in place: \<open>write\<close> says where else the loop refers to it.\<close>

definition record_finding_round :: "loop_step \<Rightarrow> jobj \<Rightarrow> (jobj \<Rightarrow> unit lm) \<Rightarrow> jobj lm" where
  "record_finding_round step payload write = withE (\<lambda>E. bindM curL (\<lambda>loop.
     let findings = round_findings E loop (step_type step) payload; payload' = round_payload E findings payload;
         state = aggregate_finding_state E (objs findings) (jget payload ''finding_state'') in
     if findings = [] then retM payload
     else thenM (write payload')
       (thenM (updL (\<lambda>l. foldl (add_history (history_item (step_type step) (lp_step_id step)))
          (l\<lparr>lr_finding_state := Some state, lr_findings := findings\<rparr>) findings))
       (thenM save_loop
       (thenM (emit ''loop.findings.updated'' [(''step_id'', JStr (lp_step_id step)), (''action_type'', JStr (step_type step)),
          (''repair_round'', jget_d payload ''repair_round'' (JInt (repair_round loop))), (''finding_state'', JStr state),
          (''failed_gates'', jget payload' ''failed_gates''), (''findings'', objs findings)])
       (retM payload'))))))"

definition block_findings_for_exhaustion :: "loop_step option \<Rightarrow> jobj list lm" where
  "block_findings_for_exhaustion step = withE (\<lambda>E. bindM curL (\<lambda>loop.
     bindM (liftM (finding_lifecycle_summary E loop)) (\<lambda>lifecycle.
     bindM (liftM (latest_round loop (fl_current lifecycle))) (\<lambda>rnd.
     let blocked = blocked_findings_for_exhaustion E (objs (fl_current lifecycle)) rnd;
         action_type = (case step of Some s \<Rightarrow> step_type s | None \<Rightarrow> ''quality_gate'') in
     if blocked = [] then retM []
     else if lr_finding_state loop = Some ''blocked'' \<and> list_all (\<lambda>item. jget item ''state'' = JStr ''blocked'') (lr_findings loop)
     then retM (lr_findings loop)
     else thenM (updL (\<lambda>l. foldl (add_history (blocked_history_item action_type (map_option lp_step_id step)))
          (l\<lparr>lr_finding_state := Some ''blocked'', lr_findings := blocked\<rparr>) blocked))
       (thenM save_loop
       (thenM (emit ''loop.findings.blocked'' [(''step_id'', opt_json (map_option lp_step_id step)),
          (''action_type'', JStr action_type), (''repair_round'', JInt rnd), (''reason'', JStr ''repair_exhausted''),
          (''finding_state'', JStr ''blocked''), (''failed_gates'', jstrs (failed_gate_ids_from_findings E (objs blocked))),
          (''findings'', objs blocked)])
       (retM blocked)))))))"

definition record_remediation_scheduled :: "loop_step option \<Rightarrow> unit lm" where
  "record_remediation_scheduled step = withE (\<lambda>E. bindM curL (\<lambda>loop.
     bindM (liftM (finding_lifecycle_summary E loop)) (\<lambda>lifecycle.
     bindM (liftM (latest_round loop (fl_current lifecycle))) (\<lambda>rnd.
     emit ''loop.findings.remediation_scheduled'' [(''step_id'', opt_json (map_option lp_step_id step)),
       (''from_repair_round'', JInt rnd), (''to_repair_round'', JInt (repair_round loop + 1)),
       (''finding_state'', opt_json (fl_state lifecycle)), (''failed_gates'', jstrs (fl_failed_gates lifecycle)),
       (''findings'', objs (fl_current lifecycle))]))))"

section \<open>Budgets\<close>

definition budget_reasonL :: "string option lm" where
  "budget_reasonL = withE (\<lambda>E. bindM curL (\<lambda>loop.
     bindM (if budget_max_runtime_seconds E (lr_metadata loop) = None then retM 0 else nowL) (\<lambda>now.
     retM (budget_exceeded_reason E loop now))))"

definition budget_policyL :: "jobj lm" where
  "budget_policyL = withE (\<lambda>E. bindM curL (\<lambda>loop. bindM nowL (\<lambda>now. retM (budget_policy E loop now))))"

section \<open>Executing an action\<close>

text \<open>Every execution is recorded; its number is what the adapters' answers depend on.\<close>

definition call_number :: "string \<Rightarrow> nat lm" where
  "call_number action_type = bindM (getsM (\<lambda>s. length (ls_calls s))) (\<lambda>n.
     thenM (modifyM (\<lambda>s. s\<lparr>ls_calls := ls_calls s @ [action_type]\<rparr>)) (retM n))"

definition swallow :: "'a lm \<Rightarrow> unit lm" where
  "swallow m = catchM (thenM m (retM ())) (\<lambda>_. retM ())"

definition heartbeat :: "string \<Rightarrow> unit lm" where
  "heartbeat action_type = swallow (renew_running_step_lease action_type)"

definition stop_dispatch_for_budget :: "string \<Rightarrow> string \<Rightarrow> 'a lm" where
  "stop_dispatch_for_budget action_type reason = bindM budget_policyL (\<lambda>budget.
     thenM (emit ''loop.budget.exceeded'' [(''reason'', JStr reason), (''failure_type'', JStr (failure_type_for_reason reason)),
       (''cancel_category'', JStr ''budget_exceeded''), (''action_type'', JStr action_type), (''budget'', JObj budget)])
     (raiseM (ActionCancelledError reason (Some ''budget_exceeded''))))"

definition cancel_dispatch :: "loop_adapters \<Rightarrow> string \<Rightarrow> dispatch_moment list \<Rightarrow> json res \<Rightarrow> py_exc \<Rightarrow> 'a lm" where
  "cancel_dispatch A action_type moments result exc = withE (\<lambda>E. case exc of
      ActionCancelledError reason category \<Rightarrow>
        if ad_requires_cancel_ack A then
          thenM (forM (filter (\<lambda>m. m = Beat) moments) (\<lambda>_. heartbeat action_type))
          (case result of Inl e \<Rightarrow> raiseM e | Inr _ \<Rightarrow> raiseM (ActionCancelledError reason category))
        else bindM (liftM (normalize_cancel_category E (opt_json category) (JStr reason))) (\<lambda>n.
          thenM (emit ''loop.dispatch.detached'' [(''action_type'', JStr action_type), (''reason'', JStr reason),
            (''cancel_category'', JStr n), (''dispatcher'', JStr (ad_dispatcher_name A))])
          (raiseM exc))
    | _ \<Rightarrow> raiseM exc)"

fun dispatch_wait :: "loop_adapters \<Rightarrow> string \<Rightarrow> dispatch_moment list \<Rightarrow> json res \<Rightarrow> jobj lm" where
  "dispatch_wait A action_type [] result = bindM (liftM result) (\<lambda>v. liftM (py_dict (jor v (JObj []))))"
| "dispatch_wait A action_type (Beat # moments) result =
     thenM (heartbeat action_type) (dispatch_wait A action_type moments result)"
| "dispatch_wait A action_type (Poll # moments) result = bindM budget_reasonL (\<lambda>budget_reason. case budget_reason of
      Some reason \<Rightarrow> stop_dispatch_for_budget action_type reason
    | None \<Rightarrow> thenM (catchM raise_if_cancelled (cancel_dispatch A action_type moments result))
        (dispatch_wait A action_type moments result))"

definition execute_dispatch :: "loop_adapters \<Rightarrow> string \<Rightarrow> jobj lm" where
  "execute_dispatch A action_type = withE (\<lambda>E. bindM curL (\<lambda>loop.
     let routing = agent_routing E loop action_type;
         agent = (case jget routing ''selected_agent'' of JStr a \<Rightarrow> a | _ \<Rightarrow> lr_agent loop);
         lease = (case latest_running_step loop of
           Some step \<Rightarrow> if step_type step = action_type then execution_from_checkpoint step else [] | None \<Rightarrow> []);
         context = loop_context loop @ [(''routing'', JObj routing)] @ (if lease = [] then [] else [(''lease'', JObj lease)]) in
     thenM raise_if_cancelled
     (bindM (call_number action_type) (\<lambda>n.
     let run = ad_dispatch A n (loop\<lparr>lr_agent := agent\<rparr>) action_type context in
     bindM (dispatch_wait A action_type (dr_moments run) (dr_result run)) (\<lambda>result.
     thenM raise_if_cancelled (retM result))))))"

definition execute_action :: "loop_adapters \<Rightarrow> string \<Rightarrow> jobj lm" where
  "execute_action A action_type = withE (\<lambda>E. bindM curL (\<lambda>loop.
     if action_type = ''memory_search'' then
       bindM (liftM (py_int (jor (jget (lr_memory_policy loop) ''limit'') (JInt 8)))) (\<lambda>limit.
       bindM (call_number action_type) (\<lambda>n.
       liftM (ad_search A n ([(''query'', JStr (lr_goal loop)), (''project_root'', JStr (lr_project_root loop)), (''limit'', JInt limit)]
         @ (if jget (lr_memory_policy loop) ''readStatus'' = JNull then []
            else [(''status'', JStr (py_str E (jget (lr_memory_policy loop) ''readStatus'')))])))))
     else if action_type \<in> {''task_dispatch'', ''remediation_dispatch''} then execute_dispatch A action_type
     else if action_type = ''quality_gate'' then
       bindM (call_number action_type) (\<lambda>n. bindM (liftM (ad_gate A n loop (loop_context loop))) (\<lambda>v.
       retM (normalize_quality_payload E loop action_type v)))
     else if action_type = ''memory_write_candidate'' then
       bindM (liftM (memory_candidate_text E loop)) (\<lambda>body. bindM (call_number action_type) (\<lambda>n.
       liftM (ad_remember A n body (lr_project_root loop) [''agent-loop'', lr_loop_id loop])))
     else if action_type = ''final_output'' then
       bindM (call_number action_type) (\<lambda>n. liftM (ad_finalize A n loop (loop_context loop)))
     else if is_host_declared_check_action action_type then
       bindM (call_number action_type) (\<lambda>n. liftM (execute_host_declared_check E (ad_files A n) loop action_type))
     else retM []))"

section \<open>Building a step\<close>

text \<open>\<open>set(policy.get('requireApprovalFor') or [])\<close>: the names that need approval; a list with an
  unhashable item raises.\<close>

definition approval_names :: "jobj \<Rightarrow> string list res" where
  "approval_names policy = (let v = jget policy ''requireApprovalFor'' in
     bindE (if truthy v then py_iter v else Inr []) (\<lambda>items.
     bindE (checkE (list_all (\<lambda>i. case i of JArr _ \<Rightarrow> False | JObj _ \<Rightarrow> False | _ \<Rightarrow> True) items) (TypeError ''unhashable type''))
       (\<lambda>_. Inr (List.map_filter (\<lambda>i. case i of JStr s \<Rightarrow> Some s | _ \<Rightarrow> None) items))))"

text \<open>A step whose action is executed at once.\<close>

definition finish_step :: "loop_adapters \<Rightarrow> loop_step \<Rightarrow> string \<Rightarrow> jobj \<Rightarrow> loop_step lm" where
  "finish_step A step action_type payload = withE (\<lambda>E.
     thenM (if action_type = ''final_output'' then updL (\<lambda>l. l\<lparr>lr_final_output := jget payload ''final_output''\<rparr>) else retM ())
     (if is_host_declared_check_action action_type \<and> host_declared_check_failed E payload
      then settle_step A step ''failed'' ''failed''
        (jsetdefault payload ''failure_type'' (JStr (failure_type_for_reason ''quality_gate_failed''))) ''failed''
      else settle_step A step ''completed'' ''completed'' payload ''completed''))"

definition run_step :: "loop_adapters \<Rightarrow> loop_step \<Rightarrow> string \<Rightarrow> loop_step lm" where
  "run_step A step0 action_type = bindM (mark_step_running A step0 []) (\<lambda>step.
     bindM (execute_action A action_type) (\<lambda>payload0.
     bindM (if is_quality_action action_type then record_finding_round step payload0 (\<lambda>_. retM ()) else retM payload0)
       (finish_step A step action_type)))"

definition build_step :: "loop_adapters \<Rightarrow> string \<Rightarrow> loop_step lm" where
  "build_step A action_type = withE (\<lambda>E. bindM curL (\<lambda>loop. let turn = lr_turn_count loop + 1 in
     bindM (liftM (approval_names (lr_approval_policy loop))) (\<lambda>gated.
     let requires_approval = action_type \<in> set gated in
     bindM (new_action action_type (action_title action_type) (action_payload E loop action_type) requires_approval) (\<lambda>action.
     if requires_approval then
       bindM (new_observation ''pending'' [(''approval'', JStr ''required'')]) (\<lambda>obs.
       new_step turn ''approval'' ''waiting_approval'' action obs [])
     else
       bindM (new_observation ''running'' [(''action_type'', JStr action_type)]) (\<lambda>obs.
       bindM (new_step turn (phase_for action_type) ''running'' action obs []) (\<lambda>step0.
       run_step A step0 action_type))))))"

definition build_failed_step :: "loop_adapters \<Rightarrow> string \<Rightarrow> py_exc \<Rightarrow> loop_step lm" where
  "build_failed_step A action_type exc = withE (\<lambda>E. bindM curL (\<lambda>loop. let turn = lr_turn_count loop + 1;
       payload = [(''action_type'', JStr action_type), (''error'', JStr (exc_str exc)),
         (''failure_type'', JStr (failure_type_for_exception exc))] in
     bindM (new_action action_type (action_title action_type) (action_payload E loop action_type) False) (\<lambda>action.
     bindM (new_observation ''failed'' payload) (\<lambda>obs.
     new_step turn (phase_for action_type) ''failed'' action obs
       (checkpoint_dict A loop action_type turn payload ''failed'' [])))))"

section \<open>Recovery\<close>

definition recovery_attempt_count :: "string \<Rightarrow> string \<Rightarrow> nat lm" where
  "recovery_attempt_count failure_type recovery_action = bindM curL (\<lambda>loop. bindM (list_loop_events (lr_loop_id loop)) (\<lambda>events.
     retM (length (filter (\<lambda>e. jget e ''type'' = JStr ''loop.step.recovered''
       \<and> jget (obj_or_empty (jget e ''payload'')) ''failure_type'' = JStr failure_type
       \<and> jget (obj_or_empty (jget e ''payload'')) ''recovery_action'' = JStr recovery_action) events))))"

definition rollback_loop :: "string \<Rightarrow> loop_run \<Rightarrow> loop_step list \<times> loop_run" where
  "rollback_loop step_id loop =
     (let kept = takeWhile (\<lambda>s. lp_step_id s \<noteq> step_id) (lr_steps loop);
          removed = dropWhile (\<lambda>s. lp_step_id s \<noteq> step_id) (lr_steps loop);
          loop' = loop\<lparr>lr_steps := kept, lr_turn_count := (if kept = [] then 0 else lp_turn (last kept)),
            lr_final_output := JNull, lr_error := None, lr_status := ''running''\<rparr> in
      if removed = [] then ([], loop) else (removed, loop'\<lparr>lr_checkpoint_count := checkpoint_count loop'\<rparr>))"

definition rollback_loop_to_step :: "string \<Rightarrow> loop_step list lm" where
  "rollback_loop_to_step step_id = bindM curL (\<lambda>loop.
     thenM (updL (\<lambda>l. snd (rollback_loop step_id l))) (retM (fst (rollback_loop step_id loop))))"

definition append_recovery_approval_step :: "loop_step \<Rightarrow> string \<Rightarrow> string \<Rightarrow> string \<Rightarrow> loop_step lm" where
  "append_recovery_approval_step failed_step failure_type reason err = bindM curL (\<lambda>loop.
     bindM (new_action (step_type failed_step) (''Approve recovery for '' @ spaces (step_type failed_step))
       (jmerge [(''recovery'', JStr ''require_human''), (''failed_step_id'', JStr (lp_step_id failed_step)),
         (''failure_type'', JStr failure_type), (''reason'', JStr reason), (''error'', JStr err)] (la_payload (lp_action failed_step))) True) (\<lambda>action.
     bindM (new_observation ''pending'' [(''approval'', JStr ''required''), (''recovery'', JStr ''require_human''),
       (''failed_step_id'', JStr (lp_step_id failed_step)), (''failure_type'', JStr failure_type)]) (\<lambda>obs.
     bindM (new_step (lr_turn_count loop + 1) ''approval'' ''waiting_approval'' action obs []) (\<lambda>step.
     thenM (updL (\<lambda>l. l\<lparr>lr_steps := lr_steps l @ [step], lr_turn_count := lp_turn step, lr_status := ''awaiting_approval'',
       lr_error := None, lr_final_output := JNull\<rparr>))
     (thenM count_checkpoints
     (thenM save_loop
     (thenM (emit ''loop.approval_required'' (step_to_dict step))
     (retM step))))))))"

definition decision_payload :: "loop_step \<Rightarrow> recovery_rule \<Rightarrow> string \<Rightarrow> string \<Rightarrow> string \<Rightarrow> int \<Rightarrow> bool \<Rightarrow> jobj" where
  "decision_payload step rule failure_type reason err attempt applied =
     [(''step_id'', JStr (lp_step_id step)), (''action_type'', JStr (step_type step)), (''failure_type'', JStr failure_type),
      (''reason'', JStr reason), (''error'', JStr err), (''recovery_action'', JStr (rr_action rule)),
      (''attempt'', JInt attempt), (''max_retries'', JInt (rr_max_retries rule)), (''applied'', JBool applied),
      (''source'', JStr (rr_source rule))]
     @ (if \<not> applied \<and> rr_action rule \<noteq> ''stop'' then [(''blocked_reason'', JStr ''max_retries_exceeded'')] else [])"

definition recover_by_retry :: "loop_step \<Rightarrow> jobj \<Rightarrow> unit lm" where
  "recover_by_retry step decision = withE (\<lambda>E. bindM (rollback_loop_to_step (lp_step_id step)) (\<lambda>removed.
     thenM save_loop (bindM curL (\<lambda>loop.
     emit ''loop.step.recovered'' (decision @ [(''recovered_from_step_id'', JStr (lp_step_id step)),
       (''removed_step_count'', JInt (int (length removed))), (''next_turn'', JInt (lr_turn_count loop + 1)),
       (''next_action'', opt_json (peek_next_action E loop))])))))"

definition recover_by_remediation :: "loop_step \<Rightarrow> jobj \<Rightarrow> unit lm" where
  "recover_by_remediation step decision =
     thenM (updL (\<lambda>l. l\<lparr>lr_status := ''running'', lr_error := None, lr_final_output := JNull,
       lr_metadata := jset (lr_metadata l) RECOVERY_NEXT_ACTION_METADATA_KEY (JStr ''remediation_dispatch'')\<rparr>))
     (thenM save_loop (bindM curL (\<lambda>loop.
     emit ''loop.step.recovered'' (decision @ [(''recovered_from_step_id'', JStr (lp_step_id step)),
       (''next_turn'', JInt (lr_turn_count loop + 1)), (''next_action'', JStr ''remediation_dispatch'')]))))"

definition recover_by_human :: "loop_step \<Rightarrow> string \<Rightarrow> string \<Rightarrow> string \<Rightarrow> jobj \<Rightarrow> unit lm" where
  "recover_by_human step failure_type reason err decision =
     bindM (append_recovery_approval_step step failure_type reason err) (\<lambda>approval.
     emit ''loop.step.recovered'' (decision @ [(''recovered_from_step_id'', JStr (lp_step_id step)),
       (''approval_step_id'', JStr (lp_step_id approval)), (''approval_action_id'', JStr (la_action_id (lp_action approval))),
       (''next_turn'', JInt (lp_turn approval)), (''next_action'', JStr (step_type approval))]))"

definition apply_recovery_policy :: "loop_step \<Rightarrow> string \<Rightarrow> string \<Rightarrow> string \<Rightarrow> bool lm" where
  "apply_recovery_policy step reason err failure_type = withE (\<lambda>E. bindM curL (\<lambda>loop.
     let ft = (if failure_type = [] then failure_type_for_loop E loop (Some reason) else failure_type) in
     case recovery_rule_for E (lr_metadata loop) ft of
       None \<Rightarrow> retM False
     | Some rule \<Rightarrow> bindM (recovery_attempt_count ft (rr_action rule)) (\<lambda>n.
         let attempt = int n + 1; applied = (rr_action rule \<noteq> ''stop'' \<and> attempt \<le> rr_max_retries rule);
             decision = decision_payload step rule ft reason err attempt applied in
         thenM (emit ''loop.step.recovery_decision'' decision)
         (if \<not> applied then retM False
          else if rr_action rule = ''retry'' then thenM (recover_by_retry step decision) (retM True)
          else if rr_action rule = ''remediation'' then thenM (recover_by_remediation step decision) (retM True)
          else if rr_action rule = ''require_human'' then thenM (recover_by_human step ft reason err decision) (retM True)
          else retM False))))"

section \<open>Ends of a loop\<close>

definition findings_fields :: "pyenv \<Rightarrow> loop_run \<Rightarrow> jobj" where
  "findings_fields E loop = [(''finding_state'', opt_json (lr_finding_state loop)),
     (''failed_gates'', jstrs (failed_gate_ids_from_findings E (objs (lr_findings loop)))),
     (''findings'', objs (lr_findings loop))]"

definition fail_loop :: "string \<Rightarrow> string \<Rightarrow> jobj \<Rightarrow> unit lm" where
  "fail_loop reason err payload = withE (\<lambda>E.
     thenM (updL (\<lambda>l. l\<lparr>lr_status := ''failed'', lr_error := Some reason\<rparr>)) (bindM curL (\<lambda>loop.
     let named = py_str E (jor (jget payload ''failure_type'') (JStr []));
         failure_type = (if named = [] then failure_type_for_loop E loop (Some reason) else named) in
     thenM (if failure_type = ''quality_failed'' \<and> lr_findings loop \<noteq> [] \<and> lr_finding_state loop \<noteq> Some ''blocked''
            then thenM (block_findings_for_exhaustion (latest_quality_action_step loop)) (retM ()) else retM ())
     (bindM curL (\<lambda>loop'.
     let p1 = jset payload ''failure_type'' (JStr failure_type);
         p2 = (if lr_findings loop' = [] then p1 else foldl (\<lambda>p f. jsetdefault p (fst f) (snd f)) p1 (findings_fields E loop')) in
     thenM save_loop (emit ''loop.failed'' (jmerge [(''reason'', JStr reason), (''error'', JStr err)] p2)))))))"

definition stop_loop_for_budget :: "string \<Rightarrow> unit lm" where
  "stop_loop_for_budget reason = (let clean_reason = (if reason = [] then ''budget_exceeded'' else reason) in
     thenM (updL (\<lambda>l. l\<lparr>lr_status := ''stopped'', lr_error := Some clean_reason\<rparr>))
     (bindM budget_policyL (\<lambda>budget. thenM save_loop (bindM curL (\<lambda>loop.
     let payload = [(''reason'', JStr clean_reason), (''failure_type'', JStr (failure_type_for_reason clean_reason)),
           (''cancel_category'', JStr ''budget_exceeded''), (''turn_count'', JInt (lr_turn_count loop)),
           (''max_turns'', JInt (lr_max_turns loop)), (''budget'', JObj budget)] in
     thenM (emit ''loop.budget.exceeded'' payload) (emit ''loop.stopped'' payload))))))"

definition cancel_step :: "loop_adapters \<Rightarrow> string \<Rightarrow> string \<Rightarrow> loop_step \<Rightarrow> loop_step list lm" where
  "cancel_step A reason category step =
     (if lp_status step = ''cancelled'' \<and> lo_status (lp_observation step) = ''cancelled'' then retM [step]
      else if lp_status step = ''running'' then
        bindM (settle_step A step ''cancelled'' ''cancelled'' [(''action_type'', JStr (step_type step)), (''reason'', JStr reason),
          (''cancel_category'', JStr category)] ''cancelled'') (\<lambda>s. retM [s])
      else if lp_status step = ''waiting_approval'' \<and> la_approval_status (lp_action step) = Some ''pending'' then
        bindM (new_observation ''cancelled'' [(''approval'', JStr ''cancelled''), (''reason'', JStr reason),
          (''cancel_category'', JStr category), (''action_type'', JStr (step_type step))]) (\<lambda>obs.
        bindM nowL (\<lambda>now. let s = step\<lparr>lp_action := (lp_action step)\<lparr>la_approval_status := Some ''cancelled''\<rparr>,
            lp_status := ''cancelled'', lp_observation := obs, lp_updated_at := now\<rparr> in
        thenM (updL (put_step s)) (retM [s])))
      else retM [])"

definition cancel_loop_state :: "loop_adapters \<Rightarrow> string \<Rightarrow> string option \<Rightarrow> unit lm" where
  "cancel_loop_state A reason cancel_category = withE (\<lambda>E. bindM curL (\<lambda>loop0.
     let cancel_reason = (if reason = [] then ''cancelled'' else reason) in
     bindM (liftM (normalize_cancel_category E (opt_json cancel_category) (JStr cancel_reason))) (\<lambda>category.
     bindM (foldM (\<lambda>acc step. bindM (cancel_step A cancel_reason category step) (\<lambda>c. retM (acc @ c))) [] (lr_steps loop0)) (\<lambda>cancelled.
     thenM (updL (\<lambda>l. l\<lparr>lr_status := ''cancelled'', lr_error := Some cancel_reason\<rparr>))
     (thenM count_checkpoints
     (thenM save_loop
     (thenM (clear_loop_cancel_request (lr_loop_id loop0))
     (thenM (forM cancelled (\<lambda>s. emit ''loop.step.cancelled'' (step_to_dict s)))
     (bindM curL (\<lambda>loop.
      thenM (if list_ex (\<lambda>s. step_type s = ''remediation_dispatch'') cancelled \<and> lr_findings loop \<noteq> []
        then emit ''loop.findings.remediation_cancelled''
          ([(''reason'', JStr cancel_reason), (''cancel_category'', JStr category)] @ findings_fields E loop) else retM ())
      (emit ''loop.cancelled'' ([(''reason'', JStr cancel_reason), (''cancel_category'', JStr category),
        (''turn_count'', JInt (lr_turn_count loop)), (''checkpoint_count'', JInt (int (lr_checkpoint_count loop)))]
        @ findings_fields E loop)))))))))))) "

section \<open>Selecting an action\<close>

definition take_recovery_action :: "loop_step option \<Rightarrow> string \<Rightarrow> unit lm" where
  "take_recovery_action quality action =
     thenM (updL (\<lambda>l. l\<lparr>lr_metadata := jpop (lr_metadata l) RECOVERY_NEXT_ACTION_METADATA_KEY\<rparr>))
     (thenM save_loop
     (if action = ''remediation_dispatch'' then record_remediation_scheduled quality else retM ()))"

definition fail_quality :: "loop_step \<Rightarrow> unit lm" where
  "fail_quality quality = withE (\<lambda>E. bindM (block_findings_for_exhaustion (Some quality)) (\<lambda>blocked.
     thenM (updL (\<lambda>l. l\<lparr>lr_status := ''failed'', lr_error := Some ''quality_gate_failed''\<rparr>))
     (thenM save_loop (bindM curL (\<lambda>loop.
     emit ''loop.failed'' [(''reason'', JStr ''quality_gate_failed''),
       (''failure_type'', JStr (failure_type_for_reason ''quality_gate_failed'')),
       (''failed_quality'', JObj (step_payload quality)), (''finding_state'', opt_json (lr_finding_state loop)),
       (''failed_gates'', jstrs (failed_gate_ids_from_findings E (objs (lr_findings loop)))),
       (''findings'', objs (if blocked \<noteq> [] then blocked else lr_findings loop))])))))"

definition recover_quality :: "loop_step \<Rightarrow> string option lm" where
  "recover_quality quality = withE (\<lambda>E.
     bindM (apply_recovery_policy quality ''quality_gate_failed'' ''quality_gate_failed''
       (failure_type_for_reason ''quality_gate_failed'')) (\<lambda>recovered.
     if recovered then bindM curL (\<lambda>loop.
       if lr_status loop = ''awaiting_approval'' then retM None
       else (case recovery_next_action E loop of
           Some a \<Rightarrow> thenM (take_recovery_action (Some quality) a) (retM (Some a))
         | None \<Rightarrow> retM (peek_next_action E loop)))
     else thenM (fail_quality quality) (retM None)))"

definition select_next_action :: "string option lm" where
  "select_next_action = withE (\<lambda>E. bindM curL (\<lambda>loop. case recovery_next_action E loop of
      Some a \<Rightarrow> thenM (take_recovery_action (latest_step loop ''quality_gate'') a) (retM (Some a))
    | None \<Rightarrow> (case peek_next_action E loop of
        Some a \<Rightarrow> thenM (if a = ''remediation_dispatch''
            then record_remediation_scheduled (latest_step loop ''quality_gate'') else retM ()) (retM (Some a))
      | None \<Rightarrow> (case latest_step loop ''quality_gate'' of
          Some quality \<Rightarrow> if quality_failed E quality then recover_quality quality else retM None
        | None \<Rightarrow> retM None))))"

end
