(* ===== verification/LoopDriver.thy ===== *)
theory LoopDriver
  imports LoopRuntime
begin

text \<open>
  The operations hosts call on the agent loop (\<open>agent_loop.py\<close>): \<open>start_loop\<close>,
  \<open>run_loop\<close>, \<open>approve_action\<close>, \<open>reject_action\<close>, \<open>retry_step\<close> and
  \<open>cancel_loop\<close>. \<open>run_loop\<close> drives turns until one of them ends the call; the number of
  turns is bounded by fuel, and running out of it is the value \<open>None\<close>.
\<close>

section \<open>Starting a loop\<close>

definition active_loop_count :: "nat lm" where
  "active_loop_count = bindM list_loop_ids (\<lambda>ids. getsM (\<lambda>s. length (filter (\<lambda>i. case map_of (ls_loops s) i of
      Some l \<Rightarrow> lr_status l \<notin> set TERMINAL_LOOP_STATUSES | None \<Rightarrow> False) ids)))"

definition enforce_start_concurrency_budget :: "jobj \<Rightarrow> unit lm" where
  "enforce_start_concurrency_budget metadata = (case budget_max_concurrent_loops metadata of
      None \<Rightarrow> retM ()
    | Some m \<Rightarrow> bindM active_loop_count (\<lambda>active. guardM (int active < m) (ConcurrencyError (int active) m)))"

record loop_request =
  rq_goal :: string
  rq_project_root :: string
  rq_agent :: string
  rq_max_turns :: int
  rq_memory_policy :: jobj
  rq_approval_policy :: jobj
  rq_metadata :: jobj
  rq_goal_execution_contract :: json

text \<open>\<open>resolve\<close> is the resolution of the project path by the file system.\<close>

definition new_loop :: "(string \<Rightarrow> string) \<Rightarrow> loop_request \<Rightarrow> int \<Rightarrow> jobj \<Rightarrow> loop_run lm" where
  "new_loop resolve rq max_turns metadata = bindM (new_id ''loop'') (\<lambda>i. bindM nowL (\<lambda>created. bindM nowL (\<lambda>updated. retM
     \<lparr>lr_loop_id = i, lr_goal = py_strip (rq_goal rq), lr_project_root = resolve (rq_project_root rq), lr_status = ''pending'',
      lr_agent = (if rq_agent rq = [] then ''owner'' else rq_agent rq), lr_max_turns = turns_or_default max_turns,
      lr_turn_count = 0,
      lr_memory_policy = jmerge [(''provider'', JStr ''across-context''), (''read'', JBool True), (''writeCandidates'', JBool True)]
        (rq_memory_policy rq),
      lr_approval_policy = jmerge [(''requireApprovalFor'', JArr [])] (rq_approval_policy rq),
      lr_metadata = metadata, lr_steps = [], lr_checkpoint_count = 0, lr_finding_state = None, lr_findings = [],
      lr_finding_history = [], lr_final_output = JNull, lr_error = None, lr_created_at = created, lr_updated_at = updated\<rparr>)))"

definition start_metadata :: "pyenv \<Rightarrow> loop_request \<Rightarrow> jobj res" where
  "start_metadata E rq = bindE (checkE (py_strip (rq_goal rq) \<noteq> []) (ValueError ''goal is required'')) (\<lambda>_.
     bindE (validated_metadata E (rq_metadata rq)) (\<lambda>metadata.
     if rq_goal_execution_contract rq = JNull then Inr metadata
     else bindE (normalize_goal_execution_contract (rq_goal_execution_contract rq)) (\<lambda>contract.
       Inr (jset metadata ''goal_execution_contract'' (JObj contract)))))"

definition start_loop :: "(string \<Rightarrow> string) \<Rightarrow> loop_request \<Rightarrow> unit lm" where
  "start_loop resolve rq = withE (\<lambda>E. bindM (liftM (start_metadata E rq)) (\<lambda>metadata.
     thenM (enforce_start_concurrency_budget metadata)
     (let requested = opt_or (budget_max_turns metadata) (rq_max_turns rq); effective = effective_max_turns E metadata requested in
      bindM (new_loop resolve rq effective metadata) (\<lambda>loop.
      thenM (updL (\<lambda>_. loop))
      (thenM save_loop
      (bindM budget_policyL (\<lambda>budget.
      emit ''loop.started'' ([(''goal'', JStr (lr_goal loop)), (''agent'', JStr (lr_agent loop)),
        (''memory_policy'', JObj (lr_memory_policy loop)), (''budget'', JObj budget)]
        @ (case action_plan_budget E metadata requested effective of None \<Rightarrow> [] | Some b \<Rightarrow> [(''action_plan_budget'', JObj b)])))))))))"

section \<open>One turn\<close>

definition cancel_for_request :: "loop_adapters \<Rightarrow> cancel_request \<Rightarrow> unit lm" where
  "cancel_for_request A r = withE (\<lambda>E.
     bindM (liftM (normalize_cancel_category E (JStr (cr_cancel_category r)) (JStr (cr_reason r)))) (\<lambda>category.
     cancel_loop_state A (if cr_reason r = [] then ''cancelled'' else cr_reason r) (Some category)))"

text \<open>What is done after a step failed: recovery lets the loop go on, unless it waits for a human;
  otherwise the loop fails. The value says whether the loop goes on.\<close>

definition recover_or_fail :: "loop_step \<Rightarrow> string \<Rightarrow> string \<Rightarrow> string \<Rightarrow> jobj \<Rightarrow> bool lm" where
  "recover_or_fail step reason err failure_type payload =
     bindM (apply_recovery_policy step reason err failure_type) (\<lambda>recovered.
     if recovered then bindM curL (\<lambda>loop. retM (lr_status loop \<noteq> ''awaiting_approval''))
     else thenM (fail_loop reason err payload) (retM False))"

definition failed_reason :: "string \<Rightarrow> string" where
  "failed_reason action_type = action_type @ ''_failed''"

definition step_failure_type :: "pyenv \<Rightarrow> loop_step \<Rightarrow> string" where
  "step_failure_type E step = py_str E (jor (jget (step_payload step) ''failure_type'') (JStr []))"

text \<open>The step that failed: the running one, or a new one when the exception came before it ran.\<close>

definition failed_step_for :: "loop_adapters \<Rightarrow> string \<Rightarrow> py_exc \<Rightarrow> loop_step lm" where
  "failed_step_for A action_type exc = bindM (mark_running_step_failed A action_type exc []) (\<lambda>marked. case marked of
      Some s \<Rightarrow> retM s
    | None \<Rightarrow> bindM (build_failed_step A action_type exc) (\<lambda>s.
        thenM (updL (\<lambda>l. l\<lparr>lr_steps := lr_steps l @ [s]\<rparr>)) (retM s)))"

definition turn_error :: "loop_adapters \<Rightarrow> string \<Rightarrow> py_exc \<Rightarrow> bool lm" where
  "turn_error A action_type exc = withE (\<lambda>E. bindM (failed_step_for A action_type exc) (\<lambda>step.
     thenM (updL (\<lambda>l. l\<lparr>lr_turn_count := lp_turn step\<rparr>))
     (thenM count_checkpoints
     (thenM save_loop
     (thenM (emit ''loop.step.failed'' (step_to_dict step))
     (recover_or_fail step (failed_reason action_type) (exc_str exc) (step_failure_type E step)
       [(''action_type'', JStr action_type), (''turn'', JInt (lp_turn step)), (''step_id'', JStr (lp_step_id step))]))))))"

definition turn_failed :: "loop_adapters \<Rightarrow> string \<Rightarrow> py_exc \<Rightarrow> bool lm" where
  "turn_failed A action_type exc = (case exc of
      ActionCancelledError reason category \<Rightarrow>
        thenM (mark_running_step_cancelled A action_type reason [] category)
        (thenM (cancel_loop_state A reason category) (retM False))
    | _ \<Rightarrow> turn_error A action_type exc)"

definition turn_built :: "string \<Rightarrow> loop_step \<Rightarrow> bool lm" where
  "turn_built action_type step = withE (\<lambda>E.
     thenM (updL (\<lambda>l. (if lp_step_id step \<in> lp_step_id ` set (lr_steps l) then l else l\<lparr>lr_steps := lr_steps l @ [step]\<rparr>)
       \<lparr>lr_turn_count := lp_turn step\<rparr>))
     (thenM count_checkpoints
     (if lp_status step = ''failed'' then
        thenM (emit ''loop.step.failed'' (step_to_dict step))
        (thenM save_loop
        (let named = step_failure_type E step;
             failure_type = (if named = [] then failure_type_for_reason ''quality_gate_failed'' else named);
             err = py_str E (jor (jget (step_payload step) ''summary'') (JStr (failed_reason action_type))) in
         recover_or_fail step (failed_reason action_type) err failure_type
           [(''action_type'', JStr action_type), (''turn'', JInt (lp_turn step)), (''step_id'', JStr (lp_step_id step)),
            (''failure_type'', JStr failure_type), (''validation'', JObj (step_payload step))]))
      else if lp_status step = ''waiting_approval'' then
        thenM (updL (\<lambda>l. l\<lparr>lr_status := ''awaiting_approval''\<rparr>))
        (thenM save_loop
        (thenM (emit ''loop.approval_required'' (step_to_dict step)) (retM False)))
      else thenM (emit ''loop.step.completed'' (step_to_dict step)) (thenM save_loop (retM True)))))"

definition complete_loop :: "unit lm" where
  "complete_loop = withE (\<lambda>E.
     thenM (updL (\<lambda>l. l\<lparr>lr_status := ''completed'',
       lr_final_output := (if lr_final_output l = JNull then JStr (''Agent loop completed for: '' @ lr_goal l) else lr_final_output l)\<rparr>))
     (thenM save_loop (bindM curL (\<lambda>loop.
     emit ''loop.completed'' ([(''final_output'', lr_final_output loop), (''turn_count'', JInt (lr_turn_count loop)),
       (''checkpoint_count'', JInt (int (lr_checkpoint_count loop)))] @ findings_fields E loop)))))"

definition perform_action :: "loop_adapters \<Rightarrow> string \<Rightarrow> bool lm" where
  "perform_action A action_type = withE (\<lambda>E. bindM curL (\<lambda>loop.
     if lr_turn_count loop \<ge> lr_max_turns loop then thenM (stop_loop_for_budget ''max_turns_exceeded'') (retM False)
     else thenM (emit ''loop.next_action.selected'' [(''action_type'', JStr action_type), (''turn'', JInt (lr_turn_count loop + 1)),
         (''reason'', JStr (next_action_reason E loop action_type))])
       (bindM (catchM (bindM (build_step A action_type) (\<lambda>s. retM (Inr s))) (\<lambda>exc. retM (Inl exc))) (\<lambda>built. case built of
          Inl exc \<Rightarrow> turn_failed A action_type exc
        | Inr step \<Rightarrow> turn_built action_type step))))"

definition run_turn :: "loop_adapters \<Rightarrow> bool lm" where
  "run_turn A = bindM budget_reasonL (\<lambda>budget_reason. case budget_reason of
      Some reason \<Rightarrow> thenM (stop_loop_for_budget reason) (retM False)
    | None \<Rightarrow> bindM curL (\<lambda>loop. bindM (load_loop_cancel_request (lr_loop_id loop)) (\<lambda>request. case request of
        Some r \<Rightarrow> thenM (cancel_for_request A r) (retM False)
      | None \<Rightarrow> bindM select_next_action (\<lambda>action. case action of
          Some a \<Rightarrow> perform_action A a
        | None \<Rightarrow> bindM curL (\<lambda>l.
            if lr_status l \<in> set TERMINAL_LOOP_STATUSES \<or> lr_status l = ''awaiting_approval'' then retM False
            else thenM complete_loop (retM False))))))"

section \<open>Running a loop\<close>

text \<open>An action that was running when the previous call died: held while its lease lives, failed or
  recovered once the lease is over. The value says whether the loop goes on.\<close>

definition recover_or_hold_running_action :: "loop_adapters \<Rightarrow> bool lm" where
  "recover_or_hold_running_action A = withE (\<lambda>E. bindM curL (\<lambda>loop. case latest_running_step loop of
      None \<Rightarrow> retM True
    | Some step \<Rightarrow>
       (let execution = execution_from_checkpoint step; expires = float_or_none E (jget execution ''lease_expires_at'') in
        bindM (if expires = None then retM 0 else nowL) (\<lambda>now.
        if (case expires of None \<Rightarrow> True | Some t \<Rightarrow> t > now) then
          thenM (updL (\<lambda>l. l\<lparr>lr_status := ''running''\<rparr>)) (thenM save_loop (retM False))
        else
          bindM (settle_step A step ''failed'' ''failed'' [(''action_type'', JStr (step_type step)), (''error'', JStr ''action_lease_expired''),
            (''failure_type'', JStr (failure_type_for_reason ''action_lease_expired'')), (''lease_id'', jget execution ''lease_id''),
            (''lease_expires_at'', opt_float expires)] ''failed'') (\<lambda>s.
          thenM (updL (\<lambda>l. l\<lparr>lr_turn_count := max (lr_turn_count l) (lp_turn s)\<rparr>))
          (thenM count_checkpoints
          (thenM save_loop
          (thenM (emit ''loop.step.lease_expired'' (step_to_dict s))
          (recover_or_fail s ''action_lease_expired'' ''action_lease_expired'' (failure_type_for_reason ''action_lease_expired'')
            [(''step_id'', JStr (lp_step_id s)), (''action_type'', JStr (step_type s)), (''lease_id'', jget execution ''lease_id''),
             (''lease_expires_at'', opt_float expires)])))))))))"

text \<open>What \<open>_run_loop_locked\<close> does before its loop; the value says whether the loop is entered.\<close>

definition prepare_run :: "loop_adapters \<Rightarrow> string \<Rightarrow> bool lm" where
  "prepare_run A loop_id = thenM (load_loop loop_id) (bindM curL (\<lambda>loop.
     if lr_status loop \<in> set TERMINAL_LOOP_STATUSES then thenM (clear_loop_cancel_request (lr_loop_id loop)) (retM False)
     else bindM budget_reasonL (\<lambda>budget_reason. case budget_reason of
        Some reason \<Rightarrow> thenM (stop_loop_for_budget reason) (retM False)
      | None \<Rightarrow> bindM (load_loop_cancel_request (lr_loop_id loop)) (\<lambda>request. case request of
          Some r \<Rightarrow> thenM (cancel_for_request A r) (retM False)
        | None \<Rightarrow> bindM (recover_or_hold_running_action A) (\<lambda>go.
            if \<not> go then retM False
            else bindM curL (\<lambda>l. if pending_approval_step l \<noteq> None
              then thenM (updL (\<lambda>l. l\<lparr>lr_status := ''awaiting_approval''\<rparr>)) (thenM save_loop (retM False))
              else thenM (updL (\<lambda>l. l\<lparr>lr_status := ''running'', lr_error := None\<rparr>)) (thenM save_loop (retM True))))))))"

fun run_turns :: "nat \<Rightarrow> loop_adapters \<Rightarrow> lstate \<Rightarrow> (unit res \<times> lstate) option" where
  "run_turns 0 A s = None"
| "run_turns (Suc n) A s = (case run_turn A s of
      (Inl e, t) \<Rightarrow> Some (Inl e, t)
    | (Inr go, t) \<Rightarrow> if go then run_turns n A t else Some (Inr (), t))"

definition run_loop :: "nat \<Rightarrow> loop_adapters \<Rightarrow> string \<Rightarrow> lstate \<Rightarrow> (unit res \<times> lstate) option" where
  "run_loop fuel A loop_id s = (case prepare_run A loop_id s of
      (Inl e, t) \<Rightarrow> Some (Inl e, t)
    | (Inr go, t) \<Rightarrow> if go then run_turns fuel A t else Some (Inr (), t))"

section \<open>Approvals\<close>

definition find_action :: "string \<Rightarrow> loop_run \<Rightarrow> loop_step option" where
  "find_action action_id loop = List.find (\<lambda>s. la_action_id (lp_action s) = action_id) (lr_steps loop)"

definition approval_failed :: "loop_adapters \<Rightarrow> string \<Rightarrow> loop_step \<Rightarrow> py_exc \<Rightarrow> unit lm" where
  "approval_failed A action_id step exc = (case exc of
      ActionCancelledError reason category \<Rightarrow>
        thenM (mark_running_step_cancelled A (step_type step) reason [(''approval'', JStr ''approved'')] category)
        (cancel_loop_state A reason category)
    | _ \<Rightarrow> withE (\<lambda>E.
        bindM (mark_running_step_failed A (step_type step) exc [(''approval'', JStr ''approved'')]) (\<lambda>marked.
        bindM (step_now step) (\<lambda>now. let failed = opt_or marked now in
        thenM count_checkpoints
        (thenM save_loop
        (thenM (emit ''loop.action.failed'' (step_to_dict failed))
        (bindM (apply_recovery_policy failed (failed_reason (step_type step)) (exc_str exc) (step_failure_type E failed)) (\<lambda>recovered.
        if recovered then retM ()
        else fail_loop (failed_reason (step_type step)) (exc_str exc)
          [(''action_id'', JStr action_id), (''action_type'', JStr (step_type step))]))))))))"

text \<open>An approved action that was executed: its step is completed whatever the payload says.\<close>

definition approval_done :: "loop_adapters \<Rightarrow> loop_step \<Rightarrow> jobj \<Rightarrow> unit lm" where
  "approval_done A step payload = withE (\<lambda>E.
     bindM (new_observation ''approved'' (jset payload ''approval'' (JStr ''approved''))) (\<lambda>obs.
     bindM (step_now step) (\<lambda>s0. let s1 = s0\<lparr>lp_status := ''completed'', lp_observation := obs\<rparr> in
     thenM (updL (put_step s1))
     (bindM (if is_quality_action (step_type s1)
        then record_finding_round s1 (lo_payload obs) (\<lambda>p. updL (put_step (s1\<lparr>lp_observation := obs\<lparr>lo_payload := p\<rparr>\<rparr>)))
        else retM (lo_payload obs)) (\<lambda>final.
     bindM curL (\<lambda>loop. bindM nowL (\<lambda>completed_at. bindM nowL (\<lambda>updated.
     let s2 = s1\<lparr>lp_observation := obs\<lparr>lo_payload := final\<rparr>,
           lp_checkpoint := checkpoint_dict A loop (step_type s1) (lp_turn s1) final ''completed'' (complete_execution E s1 completed_at),
           lp_updated_at := updated\<rparr> in
     thenM (updL (put_step s2))
     (thenM (updL (\<lambda>l. l\<lparr>lr_status := ''running''\<rparr>))
     (thenM count_checkpoints
     (thenM (if step_type s2 = ''final_output'' then updL (\<lambda>l. l\<lparr>lr_final_output := jget final ''final_output''\<rparr>) else retM ())
     (thenM save_loop
     (thenM (emit ''loop.action.approved'' (step_to_dict s2))
     (emit ''loop.step.completed'' (step_to_dict s2)))))))))))))))"

definition approve_action :: "loop_adapters \<Rightarrow> string \<Rightarrow> string \<Rightarrow> unit lm" where
  "approve_action A loop_id action_id = thenM (load_loop loop_id) (bindM curL (\<lambda>loop.
     if lr_status loop \<in> set TERMINAL_LOOP_STATUSES then retM ()
     else (case find_action action_id loop of
        None \<Rightarrow> raiseM (KeyError (''Action not found: '' @ action_id))
      | Some step \<Rightarrow>
          if lp_status step \<noteq> ''waiting_approval'' then retM ()
          else bindM (mark_step_running A (step\<lparr>lp_action := (lp_action step)\<lparr>la_approval_status := Some ''approved''\<rparr>\<rparr>)
              [(''approval'', JStr ''approved''), (''action_type'', JStr (step_type step))]) (\<lambda>running.
            bindM (catchM (bindM (execute_action A (step_type step)) (\<lambda>p. retM (Inr p))) (\<lambda>exc. retM (Inl exc))) (\<lambda>executed.
            case executed of
              Inl exc \<Rightarrow> approval_failed A action_id running exc
            | Inr payload \<Rightarrow> approval_done A running payload)))))"

definition reject_action :: "string \<Rightarrow> string \<Rightarrow> string \<Rightarrow> unit lm" where
  "reject_action loop_id action_id reason = thenM (load_loop loop_id) (bindM curL (\<lambda>loop.
     if lr_status loop \<in> set TERMINAL_LOOP_STATUSES then retM ()
     else (case find_action action_id loop of
        None \<Rightarrow> raiseM (KeyError (''Action not found: '' @ action_id))
      | Some step \<Rightarrow>
          if lp_status step \<noteq> ''waiting_approval'' then retM ()
          else let why = (if reason = [] then ''rejected'' else reason) in
            bindM (new_observation ''rejected'' [(''approval'', JStr ''rejected''), (''reason'', JStr why),
              (''failure_type'', JStr (failure_type_for_reason ''approval_rejected'')), (''action_type'', JStr (step_type step))]) (\<lambda>obs.
            bindM nowL (\<lambda>now. let s = step\<lparr>lp_action := (lp_action step)\<lparr>la_approval_status := Some ''rejected''\<rparr>,
                lp_status := ''rejected'', lp_observation := obs, lp_updated_at := now\<rparr> in
            thenM (updL (put_step s))
            (thenM (updL (\<lambda>l. l\<lparr>lr_status := ''stopped'', lr_error := Some ''approval_rejected''\<rparr>))
            (thenM save_loop
            (thenM (emit ''loop.action.rejected'' (step_to_dict s))
            (emit ''loop.stopped'' [(''reason'', JStr ''approval_rejected''),
              (''failure_type'', JStr (failure_type_for_reason ''approval_rejected'')), (''action_id'', JStr action_id),
              (''rejection_reason'', JStr why)])))))))))"

definition retry_step :: "string \<Rightarrow> string \<Rightarrow> unit lm" where
  "retry_step loop_id step_id = thenM (load_loop loop_id) (bindM (rollback_loop_to_step step_id) (\<lambda>removed. case removed of
      [] \<Rightarrow> raiseM (KeyError (''Step not found: '' @ step_id))
    | first # rest \<Rightarrow> thenM save_loop (bindM curL (\<lambda>loop.
        emit ''loop.step.retry_requested'' [(''step_id'', JStr step_id), (''action_type'', JStr (step_type first)),
          (''removed_step_count'', JInt (int (length removed))), (''next_turn'', JInt (lr_turn_count loop + 1))]))))"

text \<open>\<open>lock_free\<close>: whether the lock of the loop could be taken at once. If not, the process that holds
  it will see the request; the caller gets a copy of the loop that is marked cancelled but not saved.\<close>

definition cancel_loop :: "loop_adapters \<Rightarrow> bool \<Rightarrow> string \<Rightarrow> string \<Rightarrow> json \<Rightarrow> unit lm" where
  "cancel_loop A lock_free loop_id reason cancel_category = withE (\<lambda>E. thenM (load_loop loop_id) (bindM curL (\<lambda>loop.
     if lr_status loop \<in> set TERMINAL_LOOP_STATUSES then clear_loop_cancel_request (lr_loop_id loop)
     else let cancel_reason = (if reason = [] then ''cancelled'' else reason) in
       bindM (liftM (normalize_cancel_category E cancel_category (JStr cancel_reason))) (\<lambda>category.
       thenM (announce_cancel loop_id cancel_reason category)
       (thenM (load_loop loop_id) (bindM curL (\<lambda>l.
        if lock_free then
          (if lr_status l \<in> set TERMINAL_LOOP_STATUSES then clear_loop_cancel_request (lr_loop_id l)
           else cancel_loop_state A cancel_reason (Some category))
        else if lr_status l \<in> set TERMINAL_LOOP_STATUSES then retM ()
        else updL (\<lambda>l. l\<lparr>lr_status := ''cancelled'', lr_error := Some cancel_reason\<rparr>))))))))"

end
