(* ===== verification/LoopFrame.thy ===== *)
theory LoopFrame
  imports LoopDriver
begin

text \<open>
  What the operations of the agent loop leave alone. A state predicate that looks only at the
  control part of a loop (identity, budgets, policies, turn count, recoveries) is kept by every
  operation that does not change that part; the locales say which changes a predicate has to
  tolerate, and the operations are proved once for all such predicates.
\<close>

section \<open>Operations that keep a predicate and say something of their result\<close>

definition yields :: "('s \<Rightarrow> bool) \<Rightarrow> ('a \<Rightarrow> bool) \<Rightarrow> ('s, 'a) pyM \<Rightarrow> bool" where
  "yields P R m \<longleftrightarrow> (\<forall>s. P s \<longrightarrow> wpM m (\<lambda>x t. P t \<and> R x) (\<lambda>_. P) s)"

named_theorems yields_rules \<open>results of operations under a kept predicate\<close>

lemma yields_keeps: "yields P R m \<Longrightarrow> keeps P m"
  unfolding yields_def keeps_iff_wp by (blast intro: wpM_conseq)

lemma keeps_yields: "keeps P m \<Longrightarrow> yields P (\<lambda>_. True) m"
  by (simp add: yields_def keeps_iff_wp)

lemma yields_bindM: "yields P R m \<Longrightarrow> (\<And>x. R x \<Longrightarrow> yields P R' (f x)) \<Longrightarrow> yields P R' (bindM m f)"
  unfolding yields_def wp by (blast intro: wpM_conseq)

lemma yields_thenM: "keeps P m \<Longrightarrow> yields P R n \<Longrightarrow> yields P R (thenM m n)"
  unfolding thenM_def by (rule yields_bindM [OF keeps_yields])

lemma yields_keeps_bindM: "keeps P m \<Longrightarrow> (\<And>x. yields P R (f x)) \<Longrightarrow> yields P R (bindM m f)"
  by (rule yields_bindM [OF keeps_yields])

lemma keeps_bind_yields: "yields P R m \<Longrightarrow> (\<And>x. R x \<Longrightarrow> keeps P (f x)) \<Longrightarrow> keeps P (bindM m f)"
  by (rule yields_keeps [OF yields_bindM [OF _ keeps_yields]])

lemma yields_retM: "R x \<Longrightarrow> yields P R (retM x)"
  and yields_raiseM: "yields P R (raiseM e)"
  and yields_liftM: "yields P (\<lambda>x. r = Inr x) (liftM r)"
  by (simp_all add: yields_def wp split: sum.splits)

lemma yields_weaken: "yields P R m \<Longrightarrow> (\<And>x. R x \<Longrightarrow> R' x) \<Longrightarrow> yields P R' m"
  unfolding yields_def by (blast intro: wpM_conseq)

lemma yields_Let: "yields P R (f x) \<Longrightarrow> yields P R (Let x f)"
  by simp

lemma yields_if: "(b \<Longrightarrow> yields P R m) \<Longrightarrow> (\<not> b \<Longrightarrow> yields P R n) \<Longrightarrow> yields P R (if b then m else n)"
  by simp

lemma wpM_yields:
  "yields P R m \<Longrightarrow> P s \<Longrightarrow> (\<And>x t. P t \<Longrightarrow> R x \<Longrightarrow> Q x t) \<Longrightarrow> (\<And>e t. P t \<Longrightarrow> E e t) \<Longrightarrow> wpM m Q E s"
  unfolding yields_def by (blast intro: wpM_conseq)

lemma wpM_keeps: "keeps P m \<Longrightarrow> P s \<Longrightarrow> (\<And>x t. P t \<Longrightarrow> Q x t) \<Longrightarrow> (\<And>e t. P t \<Longrightarrow> E e t) \<Longrightarrow> wpM m Q E s"
  unfolding keeps_iff_wp by (blast intro: wpM_conseq)

lemma wpM_retM_fun: "wpM (retM x) Q E = Q x"
  by (rule ext) (simp add: wp)

section \<open>Control part of a loop\<close>

definition turns_ok :: "loop_run \<Rightarrow> bool" where
  "turns_ok loop \<longleftrightarrow> 0 \<le> lr_turn_count loop \<and> (\<forall>s\<in>set (lr_steps loop). 0 \<le> lp_turn s)"

definition same_control :: "loop_run \<Rightarrow> loop_run \<Rightarrow> bool" where
  "same_control l l' \<longleftrightarrow> lr_loop_id l' = lr_loop_id l \<and> lr_max_turns l' = lr_max_turns l
     \<and> lr_approval_policy l' = lr_approval_policy l \<and> lr_turn_count l' = lr_turn_count l
     \<and> jpop (lr_metadata l') RECOVERY_NEXT_ACTION_METADATA_KEY = jpop (lr_metadata l) RECOVERY_NEXT_ACTION_METADATA_KEY
     \<and> (turns_ok l \<longrightarrow> turns_ok l')"

lemma jpop_idem: "jpop (jpop o' k) k = jpop o' k"
  by (simp add: jpop_def)

lemma jpop_jset: "jpop (jset o' k v) k = jpop o' k"
  by (induction o' k v rule: jset.induct) (auto simp: jpop_def)

lemma foldl_add_history_control:
  "same_control l l' \<Longrightarrow> same_control l (foldl (add_history f) l' items)"
proof (induction items arbitrary: l')
  case (Cons x items)
  have "same_control l (add_history f l' x)"
    using Cons.prems by (simp add: add_history_def Let_def same_control_def turns_ok_def)
  then show ?case using Cons.IH by simp
qed simp

lemma put_step_control: "0 \<le> lp_turn s \<Longrightarrow> same_control l (put_step s l)"
  by (auto simp: same_control_def turns_ok_def put_step_def)

lemma turns_ok_find: "turns_ok l \<Longrightarrow> List.find P (lr_steps l) = Some s \<Longrightarrow> 0 \<le> lp_turn s"
  by (auto simp: turns_ok_def dest: find_Some_mem)

lemma turns_ok_find_rev: "turns_ok l \<Longrightarrow> List.find P (rev (lr_steps l)) = Some s \<Longrightarrow> 0 \<le> lp_turn s"
  by (auto simp: turns_ok_def dest: find_Some_mem)

section \<open>Predicates on the control part\<close>

locale loop_frame =
  fixes P :: "lstate \<Rightarrow> bool"
  assumes turns: "P s \<Longrightarrow> turns_ok (ls_cur s)"
    and tick: "P s \<Longrightarrow> P (s\<lparr>ls_tick := n\<rparr>)"
    and uuid: "P s \<Longrightarrow> P (s\<lparr>ls_uuid_next := n\<rparr>)"
    and look: "P s \<Longrightarrow> P (s\<lparr>ls_look := n\<rparr>)"
    and cancels: "P s \<Longrightarrow> P (s\<lparr>ls_cancels := c\<rparr>)"
    and loops: "P s \<Longrightarrow> P (s\<lparr>ls_loops := ls\<rparr>)"
    and events: "P s \<Longrightarrow> jget e ''type'' \<noteq> JStr ''loop.step.recovered'' \<Longrightarrow> P (s\<lparr>ls_events := log_add i e (ls_events s)\<rparr>)"
    and cur: "P s \<Longrightarrow> same_control (ls_cur s) l \<Longrightarrow> P (s\<lparr>ls_cur := l\<rparr>)"
begin

lemma keeps_nowL [keeps_rules]: "keeps P nowL"
  unfolding nowL_def by (intro keeps_rules keeps_modifyM tick)

lemma keeps_uuidL [keeps_rules]: "keeps P uuidL"
  unfolding uuidL_def by (intro keeps_rules keeps_modifyM uuid)

lemma keeps_new_id [keeps_rules]: "keeps P (new_id p)"
  unfolding new_id_def by (intro keeps_rules)

lemma keeps_updL: "(\<And>l. turns_ok l \<Longrightarrow> same_control l (f l)) \<Longrightarrow> keeps P (updL f)"
  unfolding updL_def by (intro keeps_modifyM cur) (auto dest: turns)

lemma event_type: "jget (build_loop_event E i ty p n u now) ''type'' = JStr ty"
  by (simp add: build_loop_event_def Let_def)

lemma keeps_append_loop_event [keeps_rules]:
  "ty \<noteq> ''loop.step.recovered'' \<Longrightarrow> keeps P (append_loop_event i ty p)"
  unfolding append_loop_event_def by (intro keeps_rules keeps_modifyM events) (simp_all add: event_type)

lemma keeps_emit [keeps_rules]: "ty \<noteq> ''loop.step.recovered'' \<Longrightarrow> keeps P (emit ty p)"
  unfolding emit_def by (intro keeps_rules)

lemma keeps_save_loop [keeps_rules]: "keeps P save_loop"
  unfolding save_loop_def
  by (intro keeps_rules keeps_updL keeps_modifyM loops) (simp_all add: same_control_def turns_ok_def)

lemma keeps_request [keeps_rules]: "keeps P (request_loop_cancel i r c)"
  unfolding request_loop_cancel_def by (intro keeps_rules keeps_modifyM cancels)

lemma keeps_announce [keeps_rules]: "keeps P (announce_cancel i r c)"
  unfolding announce_cancel_def by (intro keeps_rules) simp_all

lemma keeps_load_cancel [keeps_rules]: "keeps P (load_loop_cancel_request i)"
  unfolding load_loop_cancel_request_def by (intro keeps_rules keeps_modifyM look)

lemma keeps_clear_cancel [keeps_rules]: "keeps P (clear_loop_cancel_request i)"
  unfolding clear_loop_cancel_request_def by (intro keeps_modifyM cancels)

lemma keeps_new_action [keeps_rules]: "keeps P (new_action a t p r)"
  unfolding new_action_def by (intro keeps_rules)

lemma keeps_new_observation [keeps_rules]: "keeps P (new_observation st p)"
  unfolding new_observation_def by (intro keeps_rules)

lemma keeps_new_step [keeps_rules]: "keeps P (new_step t ph st a obs c)"
  unfolding new_step_def by (intro keeps_rules)

lemma keeps_count_checkpoints [keeps_rules]: "keeps P count_checkpoints"
  unfolding count_checkpoints_def by (intro keeps_updL) (simp add: same_control_def turns_ok_def)

lemma keeps_put_step: "0 \<le> lp_turn step \<Longrightarrow> keeps P (updL (put_step step))"
  by (intro keeps_updL put_step_control)

lemma yields_curL: "yields P turns_ok (getsM ls_cur)"
  by (simp add: yields_def wp turns)

lemma keeps_with_loop [keeps_rules]: "(\<And>loop. turns_ok loop \<Longrightarrow> keeps P (f loop)) \<Longrightarrow> keeps P (bindM (getsM ls_cur) f)"
  by (rule keeps_bind_yields [OF yields_curL])

lemma yields_step_now:
  "yields P (\<lambda>s. lp_turn s = lp_turn step \<and> lp_step_id s = lp_step_id step \<and> lp_action s = lp_action step) (step_now step)"
  unfolding step_now_def
  by (rule yields_bindM [OF yields_curL], rule yields_retM) (simp split: option.splits)

lemma yields_new_observation: "yields P (\<lambda>obs. lo_status obs = st \<and> lo_payload obs = p) (new_observation st p)"
  unfolding new_observation_def by (intro yields_keeps_bindM keeps_new_id yields_retM) simp

lemma yields_settle_step:
  assumes "0 \<le> lp_turn step"
  shows "yields P (\<lambda>r. lp_turn r = lp_turn step \<and> lp_status r = st \<and> step_payload r = p \<and> lp_step_id r = lp_step_id step
      \<and> lp_action r = lp_action step) (settle_step A step st os p cs)"
  unfolding settle_step_def
  apply (rule yields_keeps_bindM, rule keeps_getsM)
  apply (rule yields_bindM [OF yields_new_observation])
  apply (rule yields_bindM [OF yields_step_now])
  apply (rule yields_Let, rule yields_thenM, rule keeps_put_step, simp add: assms)
  apply (intro yields_keeps_bindM yields_Let yields_thenM yields_retM keeps_put_step keeps_nowL keeps_getsM)
   apply (simp_all add: assms)
  done

lemma keeps_settle_step [keeps_rules]: "0 \<le> lp_turn step \<Longrightarrow> keeps P (settle_step A step st os p cs)"
  by (rule yields_keeps [OF yields_settle_step])

lemma keeps_lease [keeps_rules]: "keeps P start_execution_lease"
  unfolding start_execution_lease_def by (intro keeps_rules)

lemma keeps_raise_if_cancelled [keeps_rules]: "keeps P raise_if_cancelled"
  unfolding raise_if_cancelled_def by (intro keeps_rules)

lemma keeps_renew [keeps_rules]: "keeps P (renew_running_step_lease a)"
  unfolding renew_running_step_lease_def
  by (intro keeps_rules keeps_put_step) (auto simp: latest_running_step_def dest: turns_ok_find_rev)

lemma yields_running_step_of:
  "yields P (\<lambda>r. \<forall>s. r = Some s \<longrightarrow> 0 \<le> lp_turn s) (running_step_of a)"
  unfolding running_step_of_def
  by (rule yields_bindM [OF yields_curL], rule yields_retM)
    (auto simp: latest_running_step_def split: option.splits if_splits dest: turns_ok_find_rev)

lemma yields_mark_failed:
  "yields P (\<lambda>r. \<forall>s. r = Some s \<longrightarrow> 0 \<le> lp_turn s \<and> lp_status s = ''failed'' \<and>
     step_payload s = [(''action_type'', JStr a)] @ extra @ [(''error'', JStr (exc_str exc)), (''failure_type'', JStr (failure_type_for_exception exc))])
   (mark_running_step_failed A a exc extra)"
  unfolding mark_running_step_failed_def
proof (rule yields_bindM [OF yields_running_step_of])
  fix found :: "loop_step option"
  assume "\<forall>s. found = Some s \<longrightarrow> 0 \<le> lp_turn s"
  then show "yields P (\<lambda>r. \<forall>s. r = Some s \<longrightarrow> 0 \<le> lp_turn s \<and> lp_status s = ''failed'' \<and>
     step_payload s = [(''action_type'', JStr a)] @ extra @ [(''error'', JStr (exc_str exc)), (''failure_type'', JStr (failure_type_for_exception exc))])
   (case found of None \<Rightarrow> retM None
    | Some step \<Rightarrow> bindM (settle_step A step ''failed'' ''failed''
        ([(''action_type'', JStr a)] @ extra @ [(''error'', JStr (exc_str exc)), (''failure_type'', JStr (failure_type_for_exception exc))]) ''failed'')
        (\<lambda>s. retM (Some s)))"
    by (cases found) (auto intro!: yields_retM yields_bindM [OF yields_settle_step])
qed

lemma keeps_mark_cancelled [keeps_rules]: "keeps P (mark_running_step_cancelled A a r extra c)"
  unfolding mark_running_step_cancelled_def
  by (intro keeps_rules keeps_bind_yields [OF yields_running_step_of]) simp

lemma keeps_record_round [keeps_rules]: "(\<And>p. keeps P (wr p)) \<Longrightarrow> keeps P (record_finding_round step payload wr)"
  unfolding record_finding_round_def
  by (intro keeps_rules keeps_updL foldl_add_history_control) (simp_all add: same_control_def turns_ok_def)

lemma keeps_block_findings [keeps_rules]: "keeps P (block_findings_for_exhaustion step)"
  unfolding block_findings_for_exhaustion_def
  by (intro keeps_rules keeps_updL foldl_add_history_control) (simp_all add: same_control_def turns_ok_def)

lemma keeps_remediation_scheduled [keeps_rules]: "keeps P (record_remediation_scheduled step)"
  unfolding record_remediation_scheduled_def by (intro keeps_rules) simp_all

lemma keeps_budget_reason [keeps_rules]: "keeps P budget_reasonL"
  unfolding budget_reasonL_def by (intro keeps_rules)

lemma keeps_budget_policy [keeps_rules]: "keeps P budget_policyL"
  unfolding budget_policyL_def by (intro keeps_rules)

lemma keeps_heartbeat [keeps_rules]: "keeps P (heartbeat a)"
  unfolding heartbeat_def swallow_def by (intro keeps_rules)

lemma keeps_stop_dispatch [keeps_rules]: "keeps P (stop_dispatch_for_budget a r)"
  unfolding stop_dispatch_for_budget_def by (intro keeps_rules) simp_all

lemma keeps_cancel_dispatch [keeps_rules]: "keeps P (cancel_dispatch A a ms res exc)"
  unfolding cancel_dispatch_def by (cases exc) (simp_all, (intro keeps_rules; simp)+)

lemma keeps_dispatch_wait [keeps_rules]: "keeps P (dispatch_wait A a ms res)"
  by (induction A a ms res rule: dispatch_wait.induct) (simp_all, (intro keeps_rules; simp)+)

lemma keeps_fail_loop [keeps_rules]: "keeps P (fail_loop reason err payload)"
  unfolding fail_loop_def
  by (intro keeps_rules keeps_updL) (simp_all add: same_control_def turns_ok_def)

lemma keeps_stop_loop [keeps_rules]: "keeps P (stop_loop_for_budget reason)"
  unfolding stop_loop_for_budget_def Let_def
  by (intro keeps_rules keeps_updL) (simp_all add: same_control_def turns_ok_def)

lemma keeps_cancel_step: "0 \<le> lp_turn step \<Longrightarrow> keeps P (cancel_step A reason category step)"
  unfolding cancel_step_def by (intro keeps_rules keeps_put_step) simp_all

lemma keeps_cancel_loop_state [keeps_rules]: "keeps P (cancel_loop_state A reason category)"
  unfolding cancel_loop_state_def
  by (intro keeps_rules keeps_updL keeps_cancel_step) (auto simp: same_control_def turns_ok_def)

lemma keeps_take_recovery [keeps_rules]: "keeps P (take_recovery_action q a)"
  unfolding take_recovery_action_def
  by (intro keeps_rules keeps_updL) (simp add: same_control_def turns_ok_def jpop_idem)

lemma keeps_fail_quality [keeps_rules]: "keeps P (fail_quality q)"
  unfolding fail_quality_def
  by (intro keeps_rules keeps_updL) (simp_all add: same_control_def turns_ok_def)

lemma keeps_complete_loop [keeps_rules]: "keeps P complete_loop"
  unfolding complete_loop_def
  by (intro keeps_rules keeps_updL) (simp_all add: same_control_def turns_ok_def)

lemma keeps_cancel_for_request [keeps_rules]: "keeps P (cancel_for_request A r)"
  unfolding cancel_for_request_def by (intro keeps_rules)

end

text \<open>A predicate that also tolerates executions of the actions it allows.\<close>

locale loop_exec = loop_frame +
  fixes allowed :: "string \<Rightarrow> bool"
  assumes calls: "P s \<Longrightarrow> allowed a \<Longrightarrow> P (s\<lparr>ls_calls := ls_calls s @ [a]\<rparr>)"
begin

lemma keeps_call_number: "allowed a \<Longrightarrow> keeps P (call_number a)"
  unfolding call_number_def by (intro keeps_rules keeps_modifyM calls)

lemma keeps_execute_dispatch: "allowed a \<Longrightarrow> keeps P (execute_dispatch A a)"
  unfolding execute_dispatch_def by (intro keeps_rules keeps_call_number)

lemma keeps_execute_action: "allowed a \<Longrightarrow> keeps P (execute_action A a)"
  unfolding execute_action_def by (intro keeps_rules keeps_call_number keeps_execute_dispatch)

end

end
