(* ===== verification/LoopTermination.thy ===== *)
theory LoopTermination
  imports LoopFrame
begin

text \<open>
  \<open>run_loop\<close> returns: every turn that lets the loop go on either uses up one of the recoveries the
  policy grants or advances the turn count towards the turn budget. When it returns it leaves the
  loop settled and saved.
\<close>

section \<open>State of a loop at a turn\<close>

definition control :: "lstate \<Rightarrow> string \<times> int \<times> jobj \<times> jobj \<times> pyenv" where
  "control s = (lr_loop_id (ls_cur s), lr_max_turns (ls_cur s), lr_approval_policy (ls_cur s),
     jpop (lr_metadata (ls_cur s)) RECOVERY_NEXT_ACTION_METADATA_KEY, ls_interp s)"

definition is_recovered :: "jobj \<Rightarrow> bool" where
  "is_recovered e \<longleftrightarrow> jget e ''type'' = JStr ''loop.step.recovered''"

definition recovered_events :: "lstate \<Rightarrow> jobj list" where
  "recovered_events s = filter is_recovered (log_entries (ls_events s) (lr_loop_id (ls_cur s)))"

definition loop_at :: "string \<times> int \<times> jobj \<times> jobj \<times> pyenv \<Rightarrow> jobj list \<Rightarrow> int \<Rightarrow> lstate \<Rightarrow> bool" where
  "loop_at c evs k s \<longleftrightarrow> control s = c \<and> recovered_events s = evs \<and> lr_turn_count (ls_cur s) = k \<and> turns_ok (ls_cur s)"

lemma recovered_events_add:
  "\<not> is_recovered e \<Longrightarrow> recovered_events (s\<lparr>ls_events := log_add i e (ls_events s)\<rparr>) = recovered_events s"
  by (simp add: recovered_events_def log_entries_add)

interpretation lat: loop_exec "loop_at c evs k" "\<lambda>_. True" for c evs k
proof unfold_locales
  show "loop_at c evs k (s\<lparr>ls_events := log_add i e (ls_events s)\<rparr>)"
    if "loop_at c evs k s" "jget e ''type'' \<noteq> JStr ''loop.step.recovered''" for s i e
    using that recovered_events_add [where e = e and s = s and i = i] by (simp add: loop_at_def control_def is_recovered_def)
  show "loop_at c evs k (s\<lparr>ls_cur := l\<rparr>)" if "loop_at c evs k s" "same_control (ls_cur s) l" for s l
    using that by (simp add: loop_at_def control_def same_control_def recovered_events_def)
qed (simp_all add: loop_at_def control_def recovered_events_def)

section \<open>Recoveries left\<close>

definition attempts :: "jobj list \<Rightarrow> string \<Rightarrow> string \<Rightarrow> nat" where
  "attempts evs failure_type recovery_action = length (filter (\<lambda>e.
     jget (obj_or_empty (jget e ''payload'')) ''failure_type'' = JStr failure_type
     \<and> jget (obj_or_empty (jget e ''payload'')) ''recovery_action'' = JStr recovery_action) evs)"

text \<open>The failure types a turn can end in.\<close>

definition turn_failure_types :: "string list" where
  "turn_failure_types = [''adapter_error'', ''environment_blocked'', ''quality_failed'', ''timeout'']"

definition recoveries_for :: "pyenv \<Rightarrow> jobj \<Rightarrow> jobj list \<Rightarrow> string \<Rightarrow> nat" where
  "recoveries_for E metadata evs failure_type = (case recovery_rule_for E metadata failure_type of
      None \<Rightarrow> 0
    | Some rule \<Rightarrow> nat (rr_max_retries rule) - attempts evs failure_type (rr_action rule))"

definition recoveries_left :: "pyenv \<Rightarrow> jobj \<Rightarrow> jobj list \<Rightarrow> nat" where
  "recoveries_left E metadata evs = sum_list (map (recoveries_for E metadata evs) turn_failure_types)"

lemma attempts_append:
  "attempts (evs @ [e]) ft act = attempts evs ft act +
     (if jget (obj_or_empty (jget e ''payload'')) ''failure_type'' = JStr ft
       \<and> jget (obj_or_empty (jget e ''payload'')) ''recovery_action'' = JStr act then 1 else 0)"
  by (simp add: attempts_def)

lemma jget_d_jpop: "k \<noteq> k' \<Longrightarrow> jget_d (jpop o' k') k d = jget_d o' k d"
  by (simp add: jget_d_def)

lemma jget2_jpop: "k \<noteq> x \<Longrightarrow> k' \<noteq> x \<Longrightarrow> jget2 (jpop o' x) k k' = jget2 o' k k'"
  by (simp add: jget2_def jget_d_jpop)

lemma recovery_rule_for_jpop [simp]:
  "recovery_rule_for E (jpop m RECOVERY_NEXT_ACTION_METADATA_KEY) ft = recovery_rule_for E m ft"
  unfolding recovery_rule_for_def by (simp add: jget2_jpop del: append.simps)

text \<open>A recovery event for a failure type, with the action its rule names.\<close>

definition recovery_event :: "string \<Rightarrow> string \<Rightarrow> jobj \<Rightarrow> bool" where
  "recovery_event ft act e \<longleftrightarrow> is_recovered e \<and> jget (obj_or_empty (jget e ''payload'')) ''failure_type'' = JStr ft
     \<and> jget (obj_or_empty (jget e ''payload'')) ''recovery_action'' = JStr act"

lemma recoveries_left_decrease:
  assumes "recovery_event ft (rr_action rule) e" "ft \<in> set turn_failure_types"
    and "recovery_rule_for E m ft = Some rule" "int (attempts evs ft (rr_action rule)) < rr_max_retries rule"
  shows "recoveries_left E m (evs @ [e]) < recoveries_left E m evs"
proof -
  have same: "recoveries_for E m (evs @ [e]) ft' = recoveries_for E m evs ft'" if "ft' \<noteq> ft" for ft'
    using that assms(1) by (auto simp: recoveries_for_def attempts_append recovery_event_def split: option.splits)
  have less: "recoveries_for E m (evs @ [e]) ft < recoveries_for E m evs ft"
    using assms(1,3,4) by (simp add: recoveries_for_def attempts_append recovery_event_def)
  show ?thesis using assms(2) same less
    unfolding recoveries_left_def turn_failure_types_def by auto
qed

section \<open>Recovery uses one up\<close>

text \<open>After a recovery: the same control part, one more recovery event, turns still counted from 0.\<close>

definition recovered_at :: "string \<times> int \<times> jobj \<times> jobj \<times> pyenv \<Rightarrow> jobj list \<Rightarrow> string \<Rightarrow> string \<Rightarrow> lstate \<Rightarrow> bool" where
  "recovered_at c evs ft act s \<longleftrightarrow> (\<exists>e k. recovery_event ft act e \<and> loop_at c (evs @ [e]) k s)"

lemma wp_emit_recovered:
  assumes "loop_at c evs k s" "jget p ''failure_type'' = JStr ft" "jget p ''recovery_action'' = JStr act"
  shows "wpM (emit ''loop.step.recovered'' p) (\<lambda>_. recovered_at c evs ft act) (\<lambda>_ _. False) s"
  using assms
  by (auto simp: emit_def append_loop_event_def uuidL_def nowL_def wp recovered_at_def loop_at_def control_def
      recovered_events_def log_entries_add is_recovered_def recovery_event_def lat.event_type
      obj_or_empty_def build_loop_event_def Let_def intro!: exI)

lemma rollback_control: "lr_loop_id (snd (rollback_loop i l)) = lr_loop_id l"
  "lr_max_turns (snd (rollback_loop i l)) = lr_max_turns l"
  "lr_approval_policy (snd (rollback_loop i l)) = lr_approval_policy l"
  "lr_metadata (snd (rollback_loop i l)) = lr_metadata l"
  by (simp_all add: rollback_loop_def Let_def)

lemma rollback_turns_ok: "turns_ok l \<Longrightarrow> turns_ok (snd (rollback_loop i l))"
proof -
  assume ok: "turns_ok l"
  let ?kept = "takeWhile (\<lambda>s. lp_step_id s \<noteq> i) (lr_steps l)"
  have "\<forall>s\<in>set ?kept. 0 \<le> lp_turn s" using ok by (auto simp: turns_ok_def dest: set_takeWhileD)
  moreover from this have "?kept \<noteq> [] \<Longrightarrow> 0 \<le> lp_turn (last ?kept)" by simp
  ultimately show ?thesis using ok by (auto simp: rollback_loop_def Let_def turns_ok_def)
qed

lemma decision_fields [simp]:
  "jget (decision_payload step rule ft reason err n b @ rest) ''failure_type'' = JStr ft"
  "jget (decision_payload step rule ft reason err n b @ rest) ''recovery_action'' = JStr (rr_action rule)"
  by (simp_all add: decision_payload_def)

lemma wp_rollback:
  assumes "loop_at c evs k s"
  shows "wpM (rollback_loop_to_step i) (\<lambda>_ t. \<exists>k'. loop_at c evs k' t) (\<lambda>_ _. False) s"
  using assms rollback_turns_ok [of "ls_cur s" i]
  by (simp add: rollback_loop_to_step_def updL_def wp loop_at_def control_def recovered_events_def rollback_control)

lemma wp_recover_by_retry:
  assumes "loop_at c evs k s"
  shows "wpM (recover_by_retry step (decision_payload step' rule ft reason err n b))
    (\<lambda>_. recovered_at c evs ft (rr_action rule)) (\<lambda>_ _. True) s"
  unfolding recover_by_retry_def wp
proof (rule wpM_conseq [OF wp_rollback [OF assms]])
  fix removed t assume "\<exists>k'. loop_at c evs k' t"
  then obtain k' where at: "loop_at c evs k' t" ..
  show "wpM save_loop (\<lambda>_ u. wpM (emit ''loop.step.recovered''
        (decision_payload step' rule ft reason err n b @
          [(''recovered_from_step_id'', JStr (lp_step_id step)), (''removed_step_count'', JInt (int (length removed))),
           (''next_turn'', JInt (lr_turn_count (ls_cur u) + 1)), (''next_action'', opt_json (peek_next_action (ls_interp s) (ls_cur u)))]))
      (\<lambda>_. recovered_at c evs ft (rr_action rule)) (\<lambda>_ _. True) u) (\<lambda>_ _. True) t"
    by (rule wpM_keeps [OF lat.keeps_save_loop at])
      (auto intro!: wpM_conseq [OF wp_emit_recovered])
qed simp

lemma wp_recover_by_remediation:
  assumes "loop_at c evs k s"
  shows "wpM (recover_by_remediation step (decision_payload step' rule ft reason err n b))
    (\<lambda>_. recovered_at c evs ft (rr_action rule)) (\<lambda>_ _. True) s"
proof -
  have upd: "keeps (loop_at c evs k) (updL (\<lambda>l. l\<lparr>lr_status := ''running'', lr_error := None, lr_final_output := JNull,
       lr_metadata := jset (lr_metadata l) RECOVERY_NEXT_ACTION_METADATA_KEY (JStr ''remediation_dispatch'')\<rparr>))"
    by (intro lat.keeps_updL) (simp add: same_control_def turns_ok_def jpop_jset)
  show ?thesis unfolding recover_by_remediation_def wp
    by (rule wpM_keeps [OF upd assms], rule wpM_keeps [OF lat.keeps_save_loop], assumption)
      (auto intro!: wpM_conseq [OF wp_emit_recovered])
qed

lemma wp_new_step_turn:
  assumes "loop_at c evs k s"
  shows "wpM (new_step turn ph st a obs cp)
    (\<lambda>r t. loop_at c evs k t \<and> lp_turn r = turn \<and> lp_status r = st \<and> lp_action r = a \<and> step_payload r = lo_payload obs) (\<lambda>_ _. False) s"
  using assms
  by (simp add: new_step_def new_id_def uuidL_def nowL_def wp loop_at_def control_def recovered_events_def)

lemma wp_recover_by_human:
  assumes at: "loop_at c evs k s"
  shows "wpM (recover_by_human step ft reason err (decision_payload step' rule ft' reason' err' n b))
    (\<lambda>_. recovered_at c evs ft' (rr_action rule)) (\<lambda>_ _. True) s"
proof -
  have k0: "0 \<le> k" using at by (simp add: loop_at_def turns_ok_def)
  have append: "wpM (append_recovery_approval_step step ft reason err) (\<lambda>_. loop_at c evs (k + 1)) (\<lambda>_ _. True) s"
    unfolding append_recovery_approval_step_def wp
    apply (rule wpM_keeps [OF lat.keeps_new_action at])
     apply (rule wpM_keeps [OF lat.keeps_new_observation], assumption)
      apply (rule wpM_conseq [OF wp_new_step_turn], assumption)
       apply (simp only: updL_def wp)
       apply (rule wpM_keeps [OF lat.keeps_count_checkpoints [where c = c and evs = evs and k = "k + 1"]])
    using at k0
         apply (auto simp: loop_at_def control_def recovered_events_def turns_ok_def)[1]
        apply (rule wpM_keeps [OF lat.keeps_save_loop], assumption)
         apply (rule wpM_keeps [OF lat.keeps_emit])
           apply simp_all
    done
  show ?thesis unfolding recover_by_human_def wp
    by (rule wpM_conseq [OF append]) (auto intro!: wpM_conseq [OF wp_emit_recovered])
qed

definition ctl_recoveries :: "string \<times> int \<times> jobj \<times> jobj \<times> pyenv \<Rightarrow> jobj list \<Rightarrow> nat" where
  "ctl_recoveries c evs = (case c of (i, mt, ap, m, E) \<Rightarrow> recoveries_left E m evs)"

text \<open>What an operation that may recover leaves: either nothing of the control part changed, or a
  recovery was used up.\<close>

definition recovery_used :: "string \<times> int \<times> jobj \<times> jobj \<times> pyenv \<Rightarrow> jobj list \<Rightarrow> lstate \<Rightarrow> bool" where
  "recovery_used c evs s \<longleftrightarrow> (\<exists>evs' k. loop_at c evs' k s \<and> ctl_recoveries c evs' < ctl_recoveries c evs)"

lemma control_rule:
  "loop_at c evs k s \<Longrightarrow> c = (i, mt, ap, m, E) \<Longrightarrow> recovery_rule_for (ls_interp s) (lr_metadata (ls_cur s)) ft = recovery_rule_for E m ft"
  by (auto simp: loop_at_def control_def)

lemma recovered_at_used:
  assumes "recovered_at c evs ft (rr_action rule) t" "ft \<in> set turn_failure_types"
    and "c = (i, mt, ap, m, E)" "recovery_rule_for E m ft = Some rule" "int (attempts evs ft (rr_action rule)) < rr_max_retries rule"
  shows "recovery_used c evs t"
  using assms recoveries_left_decrease [OF _ assms(2,4,5)]
  by (auto simp: recovered_at_def recovery_used_def ctl_recoveries_def)

lemma attempt_count_value:
  assumes "loop_at c evs k s"
  shows "recovery_attempt_count ft act s = (Inr (attempts evs ft act), s)"
proof -
  have "attempts evs ft act = length (filter (\<lambda>e. jget e ''type'' = JStr ''loop.step.recovered''
       \<and> jget (obj_or_empty (jget e ''payload'')) ''failure_type'' = JStr ft
       \<and> jget (obj_or_empty (jget e ''payload'')) ''recovery_action'' = JStr act)
     (log_entries (ls_events s) (lr_loop_id (ls_cur s))))"
    using assms by (auto simp: loop_at_def attempts_def recovered_events_def is_recovered_def conj_ac)
  then show ?thesis by (simp add: recovery_attempt_count_def list_loop_events_def monad_defs)
qed

lemma wpM_value: "m s = (Inr x, t) \<Longrightarrow> Q x t \<Longrightarrow> wpM m Q E s"
  by (simp add: wpM_def)

lemma wp_recovery_branch:
  assumes "Q False t" "b \<Longrightarrow> wpM m1 (\<lambda>_. Q True) E t" "b \<Longrightarrow> wpM m2 (\<lambda>_. Q True) E t" "b \<Longrightarrow> wpM m3 (\<lambda>_. Q True) E t"
  shows "wpM (if \<not> b then retM False else if x then thenM m1 (retM True) else if y then thenM m2 (retM True)
    else if z then thenM m3 (retM True) else retM False) Q E t"
  using assms by (auto simp: wp wpM_retM_fun)

lemma apply_rule:
  assumes at: "loop_at c evs k s" and ft: "failure_type \<noteq> []"
    and wps: "\<And>rule t. \<lbrakk>recovery_rule_for (ls_interp s) (lr_metadata (ls_cur s)) failure_type = Some rule;
        int (attempts evs failure_type (rr_action rule)) < rr_max_retries rule;
        recovered_at c evs failure_type (rr_action rule) t\<rbrakk> \<Longrightarrow> Q True t"
    and keep: "\<And>t. loop_at c evs k t \<Longrightarrow> Q False t"
  shows "wpM (apply_recovery_policy step reason err failure_type) Q (\<lambda>_ _. True) s"
proof (cases "recovery_rule_for (ls_interp s) (lr_metadata (ls_cur s)) failure_type")
  case None
  then show ?thesis using ft keep [OF at] by (simp add: apply_recovery_policy_def wp)
next
  case (Some rule)
  let ?n = "attempts evs failure_type (rr_action rule)"
  let ?applied = "rr_action rule \<noteq> ''stop'' \<and> int ?n + 1 \<le> rr_max_retries rule"
  let ?d = "decision_payload step rule failure_type reason err (int ?n + 1) ?applied"
  have used: "Q True t" if "?applied" "recovered_at c evs failure_type (rr_action rule) t" for t
    using wps [OF Some _ that(2)] that(1) by simp
  have body: "wpM (if \<not> ?applied then retM False
      else if rr_action rule = ''retry'' then thenM (recover_by_retry step ?d) (retM True)
      else if rr_action rule = ''remediation'' then thenM (recover_by_remediation step ?d) (retM True)
      else if rr_action rule = ''require_human'' then thenM (recover_by_human step failure_type reason err ?d) (retM True)
      else retM False) Q (\<lambda>_ _. True) t" if u: "loop_at c evs k t" for t
  proof (rule wp_recovery_branch)
    show "Q False t" using keep [OF u] .
    assume True: ?applied
    show "wpM (recover_by_retry step ?d) (\<lambda>_. Q True) (\<lambda>_ _. True) t"
      and "wpM (recover_by_remediation step ?d) (\<lambda>_. Q True) (\<lambda>_ _. True) t"
      and "wpM (recover_by_human step failure_type reason err ?d) (\<lambda>_. Q True) (\<lambda>_ _. True) t"
      by (rule wpM_conseq [OF wp_recover_by_retry [OF u]] wpM_conseq [OF wp_recover_by_remediation [OF u]]
          wpM_conseq [OF wp_recover_by_human [OF u]]; use True used in blast)+
  qed
  show ?thesis
    unfolding apply_recovery_policy_def wp Let_def if_not_P [OF ft] Some option.case
    apply (rule wpM_value, rule attempt_count_value [OF at])
    apply (rule wpM_keeps [OF lat.keeps_emit at], simp del: append.simps)
     apply (erule body [unfolded wp])
    apply simp
    done
qed

lemma wp_apply_recovery:
  assumes at: "loop_at c evs k s" and ft: "failure_type \<in> set turn_failure_types"
  shows "wpM (apply_recovery_policy step reason err failure_type)
    (\<lambda>r t. if r then recovery_used c evs t else loop_at c evs k t) (\<lambda>_ _. True) s"
proof (rule apply_rule [OF at])
  show "failure_type \<noteq> []" using ft by (auto simp: turn_failure_types_def)
  obtain i mt ap m E where c: "c = (i, mt, ap, m, E)" by (cases c) auto
  fix rule t
  assume "recovery_rule_for (ls_interp s) (lr_metadata (ls_cur s)) failure_type = Some rule"
    "int (attempts evs failure_type (rr_action rule)) < rr_max_retries rule"
    "recovered_at c evs failure_type (rr_action rule) t"
  then show "if True then recovery_used c evs t else loop_at c evs k t"
    using recovered_at_used [OF _ ft c] control_rule [OF at c] by simp
qed simp

section \<open>Failure types of a turn\<close>

lemma jhas_jset [simp]: "jhas (jset o' k v) k' \<longleftrightarrow> k' = k \<or> jhas o' k'"
  by (simp add: jhas_def)

lemma check_not_supported: "is_host_declared_check_action a \<Longrightarrow> a \<notin> set SUPPORTED_LOOP_ACTION_TYPES"
proof
  assume check: "is_host_declared_check_action a" and "a \<in> set SUPPORTED_LOOP_ACTION_TYPES"
  moreover have "list_all (\<lambda>t. \<not> is_host_declared_check_action t) SUPPORTED_LOOP_ACTION_TYPES" by code_simp
  ultimately show False by (simp add: list_all_iff)
qed

lemma normalize_payload_failure_type:
  "jhas (normalize_quality_payload E loop a (JObj o')) ''failure_type'' \<longleftrightarrow> jhas o' ''failure_type''"
  by (simp add: normalize_quality_payload_def normalize_quality_report_def jsetdefault_def Let_def del: append.simps)

lemma jhas_Cons: "jhas ((k, v) # o') k' \<longleftrightarrow> k' = k \<or> jhas o' k'"
  by (auto simp: jhas_def jlookup_def)

lemma jhas_append: "jhas (a @ b) k \<longleftrightarrow> jhas a k \<or> jhas b k"
  by (auto simp: jhas_def jlookup_def map_add_def split: option.splits)

lemma host_check_no_failure_type:
  assumes "execute_host_declared_check E files loop a = Inr p" shows "\<not> jhas p ''failure_type''"
  using assms
  by (auto simp: execute_host_declared_check_def evaluate_validation_contract_def validation_report_def Let_def
      bindE_Inr_iff jhas_Cons jhas_Nil jhas_append normalize_payload_failure_type simp del: append.simps
      split: if_splits)

lemma round_payload_failure_type: "jhas (round_payload E fs p) ''failure_type'' \<longleftrightarrow> jhas p ''failure_type''"
  by (simp add: round_payload_def)

lemma yields_execute_action:
  "yields (loop_at c evs k) (\<lambda>r. is_host_declared_check_action a \<longrightarrow> \<not> jhas r ''failure_type'') (execute_action A a)"
proof (cases "is_host_declared_check_action a")
  case True
  have "a \<notin> set SUPPORTED_LOOP_ACTION_TYPES" using True by (rule check_not_supported)
  then have "execute_action A a = withE (\<lambda>E. bindM curL (\<lambda>loop.
      bindM (call_number a) (\<lambda>n. liftM (execute_host_declared_check E (ad_files A n) loop a))))"
    using True by (simp add: execute_action_def SUPPORTED_LOOP_ACTION_TYPES_def)
  then show ?thesis
    by (auto intro!: yields_keeps_bindM keeps_getsM lat.keeps_call_number yields_weaken [OF yields_liftM]
        dest: host_check_no_failure_type)
next
  case False
  then show ?thesis
    by (intro yields_weaken [OF keeps_yields [OF lat.keeps_execute_action]]) simp_all
qed

lemma yields_record_round:
  assumes "\<And>p. keeps (loop_at c evs k) (wr p)"
  shows "yields (loop_at c evs k) (\<lambda>r. \<not> jhas payload ''failure_type'' \<longrightarrow> \<not> jhas r ''failure_type'')
    (record_finding_round step payload wr)"
  unfolding record_finding_round_def
  by (intro yields_keeps_bindM keeps_getsM yields_Let yields_if yields_retM yields_thenM assms lat.keeps_updL
      lat.keeps_save_loop lat.keeps_emit foldl_add_history_control)
    (auto simp: same_control_def turns_ok_def round_payload_failure_type)

section \<open>A step is built\<close>

lemma loop_at_nonneg: "loop_at c evs k s \<Longrightarrow> 0 \<le> k"
  by (simp add: loop_at_def turns_ok_def)

lemma put_running_step:
  assumes at: "loop_at c evs k s" and turn: "0 \<le> lp_turn step"
  shows "loop_at c evs (max k (lp_turn step))
    (s\<lparr>ls_cur := put_step step ((ls_cur s)\<lparr>lr_status := st, lr_turn_count := max (lr_turn_count (ls_cur s)) (lp_turn step)\<rparr>)\<rparr>)"
  using at turn by (auto simp: loop_at_def control_def recovered_events_def turns_ok_def put_step_def)

lemma wp_mark_step_running:
  assumes at: "loop_at c evs k s" and turn: "0 \<le> lp_turn step"
  shows "wpM (mark_step_running A step p)
    (\<lambda>r t. loop_at c evs (max k (lp_turn step)) t \<and> lp_turn r = lp_turn step \<and> lp_action r = lp_action step)
    (\<lambda>_ t. \<exists>k'. loop_at c evs k' t) s"
proof -
  let ?Q = "\<lambda>r t. loop_at c evs (max k (lp_turn step)) t \<and> lp_turn r = lp_turn step \<and> lp_action r = lp_action step"
  let ?X = "\<lambda>e t. \<exists>k'. loop_at c evs k' t"
  have tail: "wpM (thenM (updL (\<lambda>l. put_step x (l\<lparr>lr_status := ''running'', lr_turn_count := max (lr_turn_count l) (lp_turn x)\<rparr>)))
      (thenM count_checkpoints (thenM save_loop
      (thenM (emit ''loop.step.started'' (step_to_dict x))
      (thenM (emit ''loop.step.heartbeat'' (heartbeat_payload x execution)) (retM x)))))) ?Q ?X t"
    if u: "loop_at c evs k t" and x: "lp_turn x = lp_turn step" "lp_action x = lp_action step" for t x execution
  proof -
    let ?P = "loop_at c evs (max k (lp_turn step))"
    have rest: "yields ?P (\<lambda>r. r = x) (thenM count_checkpoints (thenM save_loop
      (thenM (emit ''loop.step.started'' (step_to_dict x))
      (thenM (emit ''loop.step.heartbeat'' (heartbeat_payload x execution)) (retM x)))))"
      by (intro yields_thenM lat.keeps_count_checkpoints lat.keeps_save_loop lat.keeps_emit yields_retM) simp_all
    have "?P (t\<lparr>ls_cur := put_step x ((ls_cur t)
        \<lparr>lr_status := ''running'', lr_turn_count := max (lr_turn_count (ls_cur t)) (lp_turn x)\<rparr>)\<rparr>)"
      using put_running_step [OF u, of x] turn x by simp
    then show ?thesis
      unfolding updL_def
      by (intro vcg_thenM [where m = "modifyM f" for f] vcg_modifyM) (rule wpM_yields [OF rest]; use x in auto)
  qed
  show ?thesis
    unfolding mark_step_running_def Let_def
    apply (rule vcg_bindM, rule wpM_keeps [OF lat.keeps_lease at])
     apply (rule vcg_bindM, rule wpM_keeps [OF lat.keeps_new_observation], assumption)
      apply (rule vcg_bindM, rule vcg_getsM, rule vcg_bindM, rule wpM_keeps [OF lat.keeps_nowL], assumption)
       apply (rule tail)
         apply auto
    done
qed

definition built_step :: "pyenv \<Rightarrow> int \<Rightarrow> loop_step \<Rightarrow> bool" where
  "built_step E k step \<longleftrightarrow> lp_turn step = k + 1 \<and> (lp_status step = ''failed'' \<longrightarrow> step_failure_type E step = ''quality_failed'')"

lemma step_failure_type_default:
  assumes "\<not> jhas p ''failure_type''" "step_payload r = jsetdefault p ''failure_type'' (JStr (failure_type_for_reason ''quality_gate_failed''))"
  shows "step_failure_type E r = ''quality_failed''"
proof -
  have "failure_type_for_reason ''quality_gate_failed'' = ''quality_failed''" by code_simp
  then show ?thesis using assms by (simp add: step_failure_type_def jsetdefault_def jor_str)
qed

lemma yields_finish_step:
  assumes "is_host_declared_check_action a \<longrightarrow> \<not> jhas p ''failure_type''" "lp_turn step = k + 1" "0 \<le> k"
  shows "yields (loop_at c evs k') (built_step E' k) (finish_step A step a p)"
  unfolding finish_step_def using assms
  by (intro yields_keeps_bindM keeps_getsM yields_thenM keeps_if keeps_retM lat.keeps_updL yields_if
      yields_weaken [OF lat.yields_settle_step])
    (auto simp: same_control_def turns_ok_def built_step_def intro: step_failure_type_default)

lemma wp_run_step:
  assumes at: "loop_at c evs k s" and step0: "lp_turn step0 = k + 1"
  shows "wpM (run_step A step0 a)
    (\<lambda>r t. built_step E' k r \<and> (\<exists>k'. loop_at c evs k' t)) (\<lambda>_ t. \<exists>k'. loop_at c evs k' t) s"
  unfolding run_step_def
proof (rule vcg_bindM, rule wpM_conseq [OF wp_mark_step_running [OF at]])
  have k0: "0 \<le> k" using at by (rule loop_at_nonneg)
  show "0 \<le> lp_turn step0" using k0 step0 by simp
  fix step :: loop_step and t
  assume running: "loop_at c evs (max k (lp_turn step0)) t \<and> lp_turn step = lp_turn step0 \<and> lp_action step = lp_action step0"
  let ?P = "loop_at c evs (max k (lp_turn step0))"
  have payload1: "yields ?P (\<lambda>r. is_host_declared_check_action a \<longrightarrow> \<not> jhas r ''failure_type'')
      (if is_quality_action a then record_finding_round step p (\<lambda>_. retM ()) else retM p)"
    if "is_host_declared_check_action a \<longrightarrow> \<not> jhas p ''failure_type''" for p
    using that by (auto intro!: yields_if yields_retM yields_weaken [OF yields_record_round] keeps_retM)
  have rest: "yields ?P (built_step E' k) (bindM (execute_action A a) (\<lambda>payload0.
       bindM (if is_quality_action a then record_finding_round step payload0 (\<lambda>_. retM ()) else retM payload0) (finish_step A step a)))"
    by (rule yields_bindM [OF yields_execute_action], rule yields_bindM [OF payload1], assumption,
        rule yields_finish_step) (use running step0 k0 in auto)
  show "wpM (bindM (execute_action A a) (\<lambda>payload0.
       bindM (if is_quality_action a then record_finding_round step payload0 (\<lambda>_. retM ()) else retM payload0) (finish_step A step a)))
      (\<lambda>r t. built_step E' k r \<and> (\<exists>k'. loop_at c evs k' t)) (\<lambda>_ t. \<exists>k'. loop_at c evs k' t) t"
    by (rule wpM_yields [OF rest]) (use running in auto)
qed simp

lemma wp_build_step:
  assumes at: "loop_at c evs k s"
  shows "wpM (build_step A a) (\<lambda>r t. built_step E' k r \<and> (\<exists>k'. loop_at c evs k' t)) (\<lambda>_ t. \<exists>k'. loop_at c evs k' t) s"
proof -
  have k: "lr_turn_count (ls_cur s) = k" using at by (simp add: loop_at_def)
  have new: "yields (loop_at c evs k) (\<lambda>r. la_type r = a) (new_action a title p b)" for title p b
    unfolding new_action_def by (intro yields_keeps_bindM lat.keeps_new_id yields_retM) simp
  show ?thesis
    unfolding build_step_def Let_def wpM_bindM wpM_getsM wpM_liftM k
  proof (cases "approval_names (lr_approval_policy (ls_cur s))", goal_cases)
    case (2 gated)
    then show ?case
      apply simp
      apply (rule wpM_yields [OF new at])
       apply (rule vcg_if)
        apply (rule vcg_bindM, rule wpM_keeps [OF lat.keeps_new_observation], assumption)
         apply (rule wpM_conseq [OF wp_new_step_turn], assumption)
          apply (auto simp: built_step_def)[3]
       apply (rule vcg_bindM, rule wpM_keeps [OF lat.keeps_new_observation], assumption)
        apply (rule vcg_bindM, rule wpM_conseq [OF wp_new_step_turn], assumption)
         apply (rule wp_run_step)
           apply auto
      done
  qed (use at in auto)
qed

section \<open>A turn makes progress\<close>

definition ctl_max_turns :: "string \<times> int \<times> jobj \<times> jobj \<times> pyenv \<Rightarrow> int" where
  "ctl_max_turns c = (case c of (i, mt, ap, m, E) \<Rightarrow> mt)"

definition advanced :: "string \<times> int \<times> jobj \<times> jobj \<times> pyenv \<Rightarrow> jobj list \<Rightarrow> int \<Rightarrow> lstate \<Rightarrow> bool" where
  "advanced c evs k s \<longleftrightarrow> recovery_used c evs s \<or> loop_at c evs (k + 1) s \<and> k < ctl_max_turns c"

lemma wp_recover_or_fail:
  assumes "loop_at c evs k s" "failure_type \<in> set turn_failure_types"
  shows "wpM (recover_or_fail step reason err failure_type payload) (\<lambda>go t. go \<longrightarrow> recovery_used c evs t) (\<lambda>_ _. True) s"
  unfolding recover_or_fail_def
proof (rule vcg_bindM, rule wpM_conseq [OF wp_apply_recovery [OF assms]])
  fix recovered t assume used: "if recovered then recovery_used c evs t else loop_at c evs k t"
  show "wpM (if recovered then bindM curL (\<lambda>loop. retM (lr_status loop \<noteq> ''awaiting_approval''))
     else thenM (fail_loop reason err payload) (retM False)) (\<lambda>go t. go \<longrightarrow> recovery_used c evs t) (\<lambda>_ _. True) t"
  proof (cases recovered)
    case False
    then show ?thesis using used by (simp add: wp wpM_retM_fun) (rule wpM_keeps [OF lat.keeps_fail_loop], auto)
  qed (use used in \<open>simp add: wp\<close>)
qed simp

lemma exception_failure_type: "failure_type_for_exception e \<in> set turn_failure_types"
  by (cases e) (simp_all add: failure_type_for_exception_def turn_failure_types_def)

lemma failed_payload_type:
  "step_payload s = [(''action_type'', JStr a)] @ [] @ [(''error'', JStr m), (''failure_type'', JStr ft)] \<Longrightarrow> step_failure_type E s = ft"
  by (simp add: step_failure_type_def jor_str)

definition exception_step :: "py_exc \<Rightarrow> loop_step \<Rightarrow> bool" where
  "exception_step exc s \<longleftrightarrow> 0 \<le> lp_turn s \<and> (\<forall>E. step_failure_type E s = failure_type_for_exception exc)"

lemma wp_build_failed_step:
  assumes at: "loop_at c evs k s"
  shows "wpM (build_failed_step A a exc) (\<lambda>r t. loop_at c evs k t \<and> exception_step exc r) (\<lambda>_ _. True) s"
proof -
  have k: "lr_turn_count (ls_cur s) = k" "0 \<le> k" using at by (auto simp: loop_at_def turns_ok_def)
  have obs: "yields (loop_at c evs k) (\<lambda>obs. lo_payload obs = p) (new_observation st p)" for st p
    by (rule yields_weaken [OF lat.yields_new_observation]) simp
  show ?thesis
    unfolding build_failed_step_def Let_def
    apply (rule vcg_bindM, rule vcg_getsM, rule vcg_bindM, rule vcg_getsM)
    apply (rule vcg_bindM, rule wpM_keeps [OF lat.keeps_new_action at])
     apply (rule vcg_bindM, rule wpM_yields [OF obs], assumption)
      apply (rule wpM_conseq [OF wp_new_step_turn], assumption)
       apply (auto simp: exception_step_def k intro: failed_payload_type)
    done
qed

lemma wp_failed_step:
  assumes at: "loop_at c evs k s"
  shows "wpM (failed_step_for A a exc) (\<lambda>r t. loop_at c evs k t \<and> exception_step exc r) (\<lambda>_ _. True) s"
  unfolding failed_step_for_def
proof (rule vcg_bindM, rule wpM_yields [OF lat.yields_mark_failed at])
  fix marked :: "loop_step option" and t
  assume t: "loop_at c evs k t" and m: "\<forall>s. marked = Some s \<longrightarrow> 0 \<le> lp_turn s \<and> lp_status s = ''failed'' \<and>
     step_payload s = [(''action_type'', JStr a)] @ [] @ [(''error'', JStr (exc_str exc)), (''failure_type'', JStr (failure_type_for_exception exc))]"
  show "wpM (case marked of Some s \<Rightarrow> retM s
          | None \<Rightarrow> bindM (build_failed_step A a exc) (\<lambda>s. thenM (updL (\<lambda>l. l\<lparr>lr_steps := lr_steps l @ [s]\<rparr>)) (retM s)))
    (\<lambda>r t. loop_at c evs k t \<and> exception_step exc r) (\<lambda>_ _. True) t"
  proof (cases marked)
    case None
    have "wpM (thenM (updL (\<lambda>l. l\<lparr>lr_steps := lr_steps l @ [x]\<rparr>)) (retM x))
        (\<lambda>r t. loop_at c evs k t \<and> exception_step exc r) (\<lambda>_ _. True) u" if "loop_at c evs k u" "exception_step exc x" for x u
      using that by (auto simp: updL_def wp loop_at_def control_def recovered_events_def turns_ok_def exception_step_def)
    then show ?thesis using None by (auto intro!: vcg_bindM wpM_conseq [OF wp_build_failed_step [OF t]])
  next
    case (Some x)
    then show ?thesis using m t by (simp add: wp exception_step_def failed_payload_type)
  qed
qed simp

lemma set_turn_count:
  "loop_at c evs k s \<Longrightarrow> 0 \<le> n \<Longrightarrow> loop_at c evs n (s\<lparr>ls_cur := (ls_cur s)\<lparr>lr_turn_count := n\<rparr>\<rparr>)"
  by (simp add: loop_at_def control_def recovered_events_def turns_ok_def)

lemma wp_turn_error:
  assumes at: "loop_at c evs k s"
  shows "wpM (turn_error A a exc) (\<lambda>go t. go \<longrightarrow> recovery_used c evs t) (\<lambda>_ _. True) s"
  unfolding turn_error_def
proof (rule vcg_bindM, rule vcg_getsM, rule vcg_bindM, rule wpM_conseq [OF wp_failed_step [OF at]])
  fix step t assume step: "loop_at c evs k t \<and> exception_step exc step"
  let ?t = "t\<lparr>ls_cur := (ls_cur t)\<lparr>lr_turn_count := lp_turn step\<rparr>\<rparr>"
  have t: "loop_at c evs (lp_turn step) ?t" using step by (auto simp: exception_step_def intro: set_turn_count)
  have ft: "step_failure_type (ls_interp s) step \<in> set turn_failure_types"
    using step exception_failure_type [of exc] by (simp add: exception_step_def)
  show "wpM (thenM (updL (\<lambda>l. l\<lparr>lr_turn_count := lp_turn step\<rparr>))
     (thenM count_checkpoints
     (thenM save_loop
     (thenM (emit ''loop.step.failed'' (step_to_dict step))
     (recover_or_fail step (failed_reason a) (exc_str exc) (step_failure_type (ls_interp s) step)
       [(''action_type'', JStr a), (''turn'', JInt (lp_turn step)), (''step_id'', JStr (lp_step_id step))])))))
     (\<lambda>go t. go \<longrightarrow> recovery_used c evs t) (\<lambda>_ _. True) t"
    unfolding updL_def
    apply (rule vcg_thenM, rule vcg_modifyM)
    apply (rule vcg_thenM, rule wpM_keeps [OF lat.keeps_count_checkpoints t])
     apply (rule vcg_thenM, rule wpM_keeps [OF lat.keeps_save_loop], assumption)
      apply (rule vcg_thenM, rule wpM_keeps [OF lat.keeps_emit], simp, assumption)
       apply (rule wp_recover_or_fail [OF _ ft])
       apply simp_all
    done
qed simp

lemma wp_turn_failed:
  assumes "loop_at c evs k s"
  shows "wpM (turn_failed A a exc) (\<lambda>go t. go \<longrightarrow> recovery_used c evs t) (\<lambda>_ _. True) s"
proof -
  have "wpM (thenM (mark_running_step_cancelled A a r [] cat) (thenM (cancel_loop_state A r cat) (retM False)))
      (\<lambda>go t. go \<longrightarrow> recovery_used c evs t) (\<lambda>_ _. True) s" for r cat
    by (auto simp: wpM_def thenM_def bindM_def retM_def split: prod.splits sum.splits)
  then show ?thesis unfolding turn_failed_def using wp_turn_error [OF assms] by (cases exc) simp_all
qed

lemma wp_turn_built:
  assumes at: "loop_at c evs k' s" and step: "built_step (ls_interp s) k step" and k: "0 \<le> k" "k < ctl_max_turns c"
  shows "wpM (turn_built a step) (\<lambda>go t. go \<longrightarrow> advanced c evs k t) (\<lambda>_ _. True) s"
proof -
  let ?upd = "\<lambda>l. (if lp_step_id step \<in> lp_step_id ` set (lr_steps l) then l else l\<lparr>lr_steps := lr_steps l @ [step]\<rparr>)
     \<lparr>lr_turn_count := lp_turn step\<rparr>"
  have t: "loop_at c evs (k + 1) (s\<lparr>ls_cur := ?upd (ls_cur s)\<rparr>)"
    using at step k by (auto simp: loop_at_def control_def recovered_events_def turns_ok_def built_step_def)
  have ft: "failure_type_for_reason ''quality_gate_failed'' = ''quality_failed''" by code_simp
  have failed: "wpM (thenM (emit ''loop.step.failed'' (step_to_dict step)) (thenM save_loop
      (recover_or_fail step reason err ''quality_failed'' payload))) (\<lambda>go t. go \<longrightarrow> advanced c evs k t) (\<lambda>_ _. True) t"
    if u: "loop_at c evs (k + 1) t" for t reason err payload
    apply (rule vcg_thenM, rule wpM_keeps [OF lat.keeps_emit u], simp)
     apply (rule vcg_thenM, rule wpM_keeps [OF lat.keeps_save_loop], assumption)
      apply (rule wpM_conseq [OF wp_recover_or_fail], assumption)
        apply (simp add: turn_failure_types_def)
       apply (simp_all add: advanced_def)
    done
  have completed: "wpM (thenM (emit ''loop.step.completed'' (step_to_dict step)) (thenM save_loop (retM True)))
      (\<lambda>go t. go \<longrightarrow> advanced c evs k t) (\<lambda>_ _. True) t" if u: "loop_at c evs (k + 1) t" for t
    by (rule vcg_thenM, rule wpM_keeps [OF lat.keeps_emit u], simp,
        rule vcg_thenM, rule wpM_keeps [OF lat.keeps_save_loop], assumption)
      (use k in \<open>simp_all add: wp advanced_def\<close>)
  have named: "lp_status step = ''failed'' \<Longrightarrow> step_failure_type (ls_interp s) step = ''quality_failed''"
    using step by (simp add: built_step_def)
  show ?thesis
    unfolding turn_built_def Let_def updL_def
    apply (rule vcg_bindM, rule vcg_getsM, rule vcg_thenM, rule vcg_modifyM)
    apply (rule vcg_thenM, rule wpM_keeps [OF lat.keeps_count_checkpoints t])
     apply (rule vcg_if)
      apply (simp only: named if_False list.distinct not_False_eq_True)
      apply (rule failed, assumption)
     apply (rule vcg_if)
      apply (auto simp: wpM_def thenM_def bindM_def retM_def split: prod.splits sum.splits)[1]
     apply (erule completed)
    apply simp
    done
qed

lemma wp_perform_action:
  assumes at: "loop_at c evs k s"
  shows "wpM (perform_action A a) (\<lambda>go t. go \<longrightarrow> advanced c evs k t) (\<lambda>_ _. True) s"
proof -
  have mt: "lr_max_turns (ls_cur s) = ctl_max_turns c" "lr_turn_count (ls_cur s) = k" "0 \<le> k"
    using at by (auto simp: loop_at_def control_def ctl_max_turns_def turns_ok_def)
  have interp: "loop_at c evs k' t \<Longrightarrow> ls_interp t = ls_interp s" for k' t
    using at by (auto simp: loop_at_def control_def)
  have built: "wpM (bindM (catchM (bindM (build_step A a) (\<lambda>s. retM (Inr s))) (\<lambda>exc. retM (Inl exc))) (\<lambda>built. case built of
          Inl exc \<Rightarrow> turn_failed A a exc | Inr step \<Rightarrow> turn_built a step)) (\<lambda>go t. go \<longrightarrow> advanced c evs k t) (\<lambda>_ _. True) t"
    if u: "loop_at c evs k t" and lt: "k < ctl_max_turns c" for t
  proof (rule vcg_bindM, rule vcg_catchM, rule vcg_bindM,
      rule wpM_conseq [OF wp_build_step [OF u, where E' = "ls_interp s"]])
    fix step v assume "built_step (ls_interp s) k step \<and> (\<exists>k'. loop_at c evs k' v)"
    then obtain k' where "built_step (ls_interp v) k step" "loop_at c evs k' v" using interp by auto
    then show "wpM (retM (Inr step)) (\<lambda>x. wpM (case x of Inl exc \<Rightarrow> turn_failed A a exc | Inr step \<Rightarrow> turn_built a step)
        (\<lambda>go t. go \<longrightarrow> advanced c evs k t) (\<lambda>_ _. True))
      (\<lambda>e. wpM (retM (Inl e)) (\<lambda>x. wpM (case x of Inl exc \<Rightarrow> turn_failed A a exc | Inr step \<Rightarrow> turn_built a step)
        (\<lambda>go t. go \<longrightarrow> advanced c evs k t) (\<lambda>_ _. True)) (\<lambda>_ _. True)) v"
      using wp_turn_built lt mt(3) by (simp add: wp)
  next
    fix e v assume "\<exists>k'. loop_at c evs k' v"
    then obtain k' where v: "loop_at c evs k' v" ..
    show "wpM (retM (Inl e)) (\<lambda>x. wpM (case x of Inl exc \<Rightarrow> turn_failed A a exc | Inr step \<Rightarrow> turn_built a step)
        (\<lambda>go t. go \<longrightarrow> advanced c evs k t) (\<lambda>_ _. True)) (\<lambda>_ _. True) v"
      by (simp add: wp) (rule wpM_conseq [OF wp_turn_failed [OF v]], auto simp: advanced_def)
  qed
  show ?thesis
    unfolding perform_action_def
    apply (rule vcg_bindM, rule vcg_getsM, rule vcg_bindM, rule vcg_getsM, rule vcg_if)
     apply (auto simp: wpM_def thenM_def bindM_def retM_def split: prod.splits sum.splits)[1]
    apply (rule vcg_thenM, rule wpM_keeps [OF lat.keeps_emit at], simp)
     apply (rule built, assumption)
     apply (simp_all add: mt)
    done
qed

text \<open>Selecting an action may itself recover a failed quality gate.\<close>

definition selected :: "string \<times> int \<times> jobj \<times> jobj \<times> pyenv \<Rightarrow> jobj list \<Rightarrow> int \<Rightarrow> lstate \<Rightarrow> bool" where
  "selected c evs k s \<longleftrightarrow> loop_at c evs k s \<or> recovery_used c evs s"

lemma recovery_used_keeps:
  assumes "\<And>evs' k. keeps (loop_at c evs' k) m" "recovery_used c evs s" "\<And>x t. recovery_used c evs t \<Longrightarrow> Q x t"
  shows "wpM m Q (\<lambda>_ _. True) s"
proof -
  obtain evs' k where at: "loop_at c evs' k s" and less: "ctl_recoveries c evs' < ctl_recoveries c evs"
    using assms(2) by (auto simp: recovery_used_def)
  show ?thesis
    by (rule wpM_keeps [OF assms(1) at]) (use less assms(3) in \<open>auto simp: recovery_used_def\<close>)
qed

lemma wp_recover_quality:
  assumes at: "loop_at c evs k s"
  shows "wpM (recover_quality q) (\<lambda>_. selected c evs k) (\<lambda>_ _. True) s"
proof -
  have ft: "failure_type_for_reason ''quality_gate_failed'' \<in> set turn_failure_types"
    unfolding turn_failure_types_def by code_simp
  have used: "wpM (bindM curL (\<lambda>loop.
       if lr_status loop = ''awaiting_approval'' then retM None
       else (case recovery_next_action E loop of
           Some a \<Rightarrow> thenM (take_recovery_action (Some q) a) (retM (Some a))
         | None \<Rightarrow> retM (peek_next_action E loop)))) (\<lambda>_. selected c evs k) (\<lambda>_ _. True) t"
    if "recovery_used c evs t" for E t
    using that by (auto simp: wp wpM_retM_fun selected_def split: option.splits
        intro!: recovery_used_keeps [OF lat.keeps_take_recovery])
  have failed: "wpM (thenM (fail_quality q) (retM None)) (\<lambda>_. selected c evs k) (\<lambda>_ _. True) t" if "loop_at c evs k t" for t
    by (rule vcg_thenM, rule wpM_keeps [OF lat.keeps_fail_quality that]) (simp_all add: wp selected_def)
  show ?thesis
    unfolding recover_quality_def
    by (rule vcg_bindM, rule vcg_getsM, rule vcg_bindM, rule wpM_conseq [OF wp_apply_recovery [OF at ft]])
      (auto simp: used failed split: if_splits)
qed

lemma wp_select_next_action:
  assumes at: "loop_at c evs k s"
  shows "wpM select_next_action (\<lambda>_. selected c evs k) (\<lambda>_ _. True) s"
proof -
  have kept: "keeps (loop_at c evs k) m \<Longrightarrow> wpM (thenM m (retM x)) (\<lambda>_. selected c evs k) (\<lambda>_ _. True) s" for m :: "unit lm" and x :: "string option"
    by (rule vcg_thenM, erule wpM_keeps [where P = "loop_at c evs k"]) (simp_all add: at wp selected_def)
  have keep: "wpM (retM x) (\<lambda>_. selected c evs k) (\<lambda>_ _. True) s" for x :: "string option"
    using at by (simp add: wp selected_def)
  show ?thesis
    unfolding select_next_action_def
    by (rule vcg_bindM, rule vcg_getsM, rule vcg_bindM, rule vcg_getsM)
      (auto simp: keep intro!: vcg_case_option kept vcg_if wp_recover_quality [OF at] keeps_if keeps_retM
        lat.keeps_take_recovery lat.keeps_remediation_scheduled)
qed

lemma wpM_final: "(\<And>x t. Q False t) \<Longrightarrow> wpM (thenM m (retM False)) Q (\<lambda>_ _. True) s"
  by (auto simp: wpM_def thenM_def bindM_def retM_def split: prod.splits sum.splits)

lemma advanced_mono:
  assumes "ctl_recoveries c evs' < ctl_recoveries c evs" "advanced c evs' k' t" shows "advanced c evs k t"
  using assms unfolding advanced_def recovery_used_def by (meson less_trans)

lemma wp_run_turn:
  assumes at: "loop_at c evs k s"
  shows "wpM (run_turn A) (\<lambda>go t. go \<longrightarrow> advanced c evs k t) (\<lambda>_ _. True) s"
proof -
  let ?Q = "\<lambda>go t. go \<longrightarrow> advanced c evs k t"
  have act: "wpM (case action of Some a \<Rightarrow> perform_action A a
        | None \<Rightarrow> bindM curL (\<lambda>l. if lr_status l \<in> set TERMINAL_LOOP_STATUSES \<or> lr_status l = ''awaiting_approval'' then retM False
            else thenM complete_loop (retM False))) ?Q (\<lambda>_ _. True) t" if sel: "selected c evs k t" for action t
  proof (cases action)
    case None
    then show ?thesis by (auto intro!: vcg_bindM vcg_getsM vcg_if vcg_retM wpM_final)
  next
    case (Some a)
    obtain evs' k' where u: "loop_at c evs' k' t" and "evs' = evs \<and> k' = k \<or> ctl_recoveries c evs' < ctl_recoveries c evs"
      using sel by (auto simp: selected_def recovery_used_def)
    then show ?thesis using Some
      by (auto intro: wpM_conseq [OF wp_perform_action [OF u]] dest: advanced_mono)
  qed
  show ?thesis
    unfolding run_turn_def
    apply (rule vcg_bindM, rule wpM_keeps [OF lat.keeps_budget_reason at])
     apply (rule vcg_case_option)
      apply (rule vcg_bindM, rule vcg_getsM, rule vcg_bindM, rule wpM_keeps [OF lat.keeps_load_cancel], assumption)
       apply (rule vcg_case_option)
        apply (rule vcg_bindM, rule wpM_conseq [OF wp_select_next_action], assumption)
         apply (erule act)
        apply (auto intro!: wpM_final)
    done
qed

section \<open>The loop of turns ends\<close>

definition potential :: "string \<times> int \<times> jobj \<times> jobj \<times> pyenv \<Rightarrow> jobj list \<Rightarrow> int \<Rightarrow> nat" where
  "potential c evs k = ctl_recoveries c evs * (nat (ctl_max_turns c) + 1) + nat (ctl_max_turns c - k)"

lemma advanced_potential:
  assumes "advanced c evs k t" "0 \<le> k"
  shows "\<exists>evs' k'. loop_at c evs' k' t \<and> potential c evs' k' < potential c evs k"
proof (cases "recovery_used c evs t")
  case True
  then obtain evs' k' where at: "loop_at c evs' k' t" and less: "ctl_recoveries c evs' < ctl_recoveries c evs"
    by (auto simp: recovery_used_def)
  let ?M = "nat (ctl_max_turns c)"
  have "nat (ctl_max_turns c - k') \<le> ?M" using loop_at_nonneg [OF at] by simp
  moreover have "(ctl_recoveries c evs' + 1) * (?M + 1) \<le> ctl_recoveries c evs * (?M + 1)"
    using less by (intro mult_le_mono1) simp
  ultimately have "potential c evs' k' < potential c evs k" by (simp add: potential_def)
  then show ?thesis using at by blast
next
  case False
  then have "loop_at c evs (k + 1) t" "k < ctl_max_turns c" using assms(1) by (auto simp: advanced_def)
  moreover from this have "potential c evs (k + 1) < potential c evs k" by (simp add: potential_def)
  ultimately show ?thesis by blast
qed

lemma run_turns_returns:
  "loop_at c evs k s \<Longrightarrow> potential c evs k < n \<Longrightarrow> \<exists>r. run_turns n A s = Some r"
proof (induction n arbitrary: evs k s)
  case (Suc n)
  obtain r t where turn: "run_turn A s = (r, t)" by fastforce
  show ?case
  proof (cases r)
    case (Inr go)
    show ?thesis
    proof (cases go)
      case True
      have "advanced c evs k t" using wp_run_turn [OF Suc.prems(1), of A] turn Inr True by (simp add: wpM_def)
      then obtain evs' k' where "loop_at c evs' k' t" "potential c evs' k' < potential c evs k"
        using advanced_potential loop_at_nonneg [OF Suc.prems(1)] by blast
      then show ?thesis using Suc.IH Suc.prems(2) turn Inr True by fastforce
    qed (use turn Inr in simp)
  qed (use turn in simp)
qed simp

lemma run_turns_mono: "run_turns n A s = Some r \<Longrightarrow> n \<le> m \<Longrightarrow> run_turns m A s = Some r"
proof (induction n arbitrary: m s)
  case (Suc n)
  then obtain m' where "m = Suc m'" "n \<le> m'" by (cases m) auto
  then show ?case using Suc by (auto split: prod.splits sum.splits if_splits)
qed simp

text \<open>Fuel that is enough: the recoveries the policy grants and the turn budget.\<close>

definition recovery_grant :: "pyenv \<Rightarrow> jobj \<Rightarrow> nat" where
  "recovery_grant E metadata = sum_list (map (\<lambda>ft. case recovery_rule_for E metadata ft of
     None \<Rightarrow> 0 | Some rule \<Rightarrow> nat (rr_max_retries rule)) turn_failure_types)"

definition turn_fuel :: "pyenv \<Rightarrow> loop_run \<Rightarrow> nat" where
  "turn_fuel E loop = (recovery_grant E (lr_metadata loop) + 1) * (nat (lr_max_turns loop) + 1)"

definition control_of :: "pyenv \<Rightarrow> loop_run \<Rightarrow> string \<times> int \<times> jobj \<times> jobj \<times> pyenv" where
  "control_of E loop = (lr_loop_id loop, lr_max_turns loop, lr_approval_policy loop,
     jpop (lr_metadata loop) RECOVERY_NEXT_ACTION_METADATA_KEY, E)"

lemma recoveries_left_grant: "recoveries_left E (jpop m RECOVERY_NEXT_ACTION_METADATA_KEY) evs \<le> recovery_grant E m"
  unfolding recoveries_left_def recovery_grant_def turn_failure_types_def
  by (auto simp: recoveries_for_def split: option.splits intro!: add_mono)

lemma potential_fuel:
  assumes "0 \<le> k" shows "potential (control_of E loop) evs k < turn_fuel E loop"
proof -
  let ?M = "nat (lr_max_turns loop)"
  let ?R = "recoveries_left E (jpop (lr_metadata loop) RECOVERY_NEXT_ACTION_METADATA_KEY) evs"
  have "?R * (?M + 1) \<le> recovery_grant E (lr_metadata loop) * (?M + 1)"
    by (rule mult_le_mono1 [OF recoveries_left_grant])
  moreover have "nat (lr_max_turns loop - k) \<le> ?M" using assms by simp
  ultimately show ?thesis
    by (simp add: potential_def turn_fuel_def control_of_def ctl_recoveries_def ctl_max_turns_def)
qed

lemma lease_expired_type: "failure_type_for_reason ''action_lease_expired'' = ''lease_expired''"
  by code_simp

lemma wp_recover_or_hold:
  assumes at: "loop_at c evs k s"
  shows "wpM (recover_or_hold_running_action A) (\<lambda>go t. go \<longrightarrow> (\<exists>evs k. loop_at c evs k t)) (\<lambda>_ _. True) s"
proof -
  let ?Q = "\<lambda>go t. go \<longrightarrow> (\<exists>evs k. loop_at c evs k t)"
  have fail: "wpM (recover_or_fail step reason err ''lease_expired'' payload) ?Q (\<lambda>_ _. True) t"
    if u: "loop_at c evs n t" for step reason err payload t n
    unfolding recover_or_fail_def
    apply (rule vcg_bindM, rule apply_rule [OF u], simp)
     apply (auto simp: wp recovered_at_def)[1]
    apply (simp only: if_False, rule wpM_final, simp)
    done
  have settle: "yields (loop_at c evs k) (\<lambda>r. 0 \<le> lp_turn r) (settle_step A step st os p cs)"
    if "0 \<le> lp_turn step" for step st os p cs
    by (rule yields_weaken [OF lat.yields_settle_step [OF that]]) (use that in simp)
  have upd: "loop_at c evs (max k n) (t\<lparr>ls_cur := (ls_cur t)\<lparr>lr_turn_count := max (lr_turn_count (ls_cur t)) n\<rparr>\<rparr>)"
    if "loop_at c evs k t" for t n
    using that by (auto simp: loop_at_def control_def recovered_events_def turns_ok_def)
  have turn: "latest_running_step (ls_cur s) = Some step \<Longrightarrow> 0 \<le> lp_turn step" for step
    using at unfolding latest_running_step_def loop_at_def by (blast intro: turns_ok_find_rev)
  show ?thesis
    unfolding recover_or_hold_running_action_def Let_def lease_expired_type updL_def
    apply (rule vcg_bindM, rule vcg_getsM, rule vcg_bindM, rule vcg_getsM, rule vcg_case_option)
     apply (use at in \<open>auto simp: wp\<close>)[1]
    apply (rule vcg_bindM, rule wpM_keeps [where P = "loop_at c evs k"], intro keeps_if keeps_retM lat.keeps_nowL, rule at)
     apply (rule vcg_if)
      apply (auto simp: wpM_def thenM_def bindM_def retM_def split: prod.splits sum.splits)[1]
     apply (rule vcg_bindM, rule wpM_yields [OF settle], erule turn, assumption)
      apply (rule vcg_thenM, rule vcg_modifyM)
      apply (rule vcg_thenM, rule wpM_keeps [OF lat.keeps_count_checkpoints], erule upd)
       apply (rule vcg_thenM, rule wpM_keeps [OF lat.keeps_save_loop], assumption)
        apply (rule vcg_thenM, rule wpM_keeps [OF lat.keeps_emit], simp, assumption)
         apply (erule fail)
        apply simp_all
    done
qed

lemma wp_prepare_run:
  assumes "map_of (ls_loops s) loop_id = Some loop" "turns_ok loop"
  shows "wpM (prepare_run A loop_id) (\<lambda>go t. go \<longrightarrow> (\<exists>evs k. loop_at (control_of (ls_interp s) loop) evs k t)) (\<lambda>_ _. True) s"
proof -
  let ?c = "control_of (ls_interp s) loop" and ?s = "s\<lparr>ls_cur := loop\<rparr>"
  let ?Q = "\<lambda>go t. go \<longrightarrow> (\<exists>evs k. loop_at ?c evs k t)"
  have at: "loop_at ?c (recovered_events ?s) (lr_turn_count loop) ?s"
    using assms by (simp add: loop_at_def control_def control_of_def)
  have upd: "keeps (loop_at c evs k) (updL (\<lambda>l. l\<lparr>lr_status := ''running'', lr_error := None\<rparr>))" for c evs k
    by (intro lat.keeps_updL) (simp add: same_control_def turns_ok_def)
  have enter: "wpM (bindM curL (\<lambda>l. if pending_approval_step l \<noteq> None
              then thenM (updL (\<lambda>l. l\<lparr>lr_status := ''awaiting_approval''\<rparr>)) (thenM save_loop (retM False))
              else thenM (updL (\<lambda>l. l\<lparr>lr_status := ''running'', lr_error := None\<rparr>)) (thenM save_loop (retM True)))) ?Q (\<lambda>_ _. True) t"
    if u: "loop_at ?c evs k t" for evs k t
    apply (rule vcg_bindM, rule vcg_getsM, rule vcg_if)
     apply (auto simp: wpM_def thenM_def bindM_def retM_def split: prod.splits sum.splits)[1]
    apply (rule vcg_thenM, rule wpM_keeps [OF upd u], rule vcg_thenM, rule wpM_keeps [OF lat.keeps_save_loop], assumption)
      apply (auto simp: wp)
    done
  have load: "load_loop loop_id s = (Inr (), ?s)" using assms by (simp add: load_loop_def updL_def monad_defs)
  have body: "wpM (bindM curL (\<lambda>loop.
     if lr_status loop \<in> set TERMINAL_LOOP_STATUSES then thenM (clear_loop_cancel_request (lr_loop_id loop)) (retM False)
     else bindM budget_reasonL (\<lambda>budget_reason. case budget_reason of
        Some reason \<Rightarrow> thenM (stop_loop_for_budget reason) (retM False)
      | None \<Rightarrow> bindM (load_loop_cancel_request (lr_loop_id loop)) (\<lambda>request. case request of
          Some r \<Rightarrow> thenM (cancel_for_request A r) (retM False)
        | None \<Rightarrow> bindM (recover_or_hold_running_action A) (\<lambda>go.
            if \<not> go then retM False
            else bindM curL (\<lambda>l. if pending_approval_step l \<noteq> None
              then thenM (updL (\<lambda>l. l\<lparr>lr_status := ''awaiting_approval''\<rparr>)) (thenM save_loop (retM False))
              else thenM (updL (\<lambda>l. l\<lparr>lr_status := ''running'', lr_error := None\<rparr>)) (thenM save_loop (retM True)))))))) ?Q (\<lambda>_ _. True) ?s"
    apply (rule vcg_bindM, rule vcg_getsM, rule vcg_if, rule wpM_final, simp)
    apply (rule vcg_bindM, rule wpM_keeps [OF lat.keeps_budget_reason at], rule vcg_case_option)
      apply (rule vcg_bindM, rule wpM_keeps [OF lat.keeps_load_cancel], assumption, rule vcg_case_option)
        apply (rule vcg_bindM, rule wpM_conseq [OF wp_recover_or_hold], assumption, rule vcg_if)
          apply (simp add: wp)
         apply (use enter in blast)
        apply (auto intro!: wpM_final)
    done
  show ?thesis unfolding prepare_run_def
    by (rule vcg_thenM, rule wpM_value, rule load, rule body)
qed

lemma run_loop_returns:
  assumes "map_of (ls_loops s) loop_id = Some loop" "turns_ok loop"
  shows "\<exists>r. \<forall>fuel \<ge> turn_fuel (ls_interp s) loop. run_loop fuel A loop_id s = Some r"
proof -
  obtain r t where prep: "prepare_run A loop_id s = (r, t)" by fastforce
  show ?thesis
  proof (cases "r = Inr True")
    case True
    then obtain evs k where at: "loop_at (control_of (ls_interp s) loop) evs k t"
      using wp_prepare_run [OF assms, of A] prep by (auto simp: wpM_def)
    obtain r' where r': "run_turns (turn_fuel (ls_interp s) loop) A t = Some r'"
      using run_turns_returns [OF at potential_fuel [OF loop_at_nonneg [OF at]]] by blast
    have "run_loop fuel A loop_id s = Some r'" if "turn_fuel (ls_interp s) loop \<le> fuel" for fuel
      using prep True run_turns_mono [OF r' that] by (simp add: run_loop_def)
    then show ?thesis by blast
  next
    case False
    then show ?thesis using prep by (cases r) (auto simp: run_loop_def)
  qed
qed

end
