(* ===== verification/LoopOutcome.thy ===== *)
theory LoopOutcome
  imports LoopTermination
begin

text \<open>
  How calls on a loop end: \<open>run_loop\<close> leaves a saved loop that is finished, waits for an
  approval or is held by a live lease; cancellation leaves no step running or pending; a finished
  loop is left alone; and no action that needs approval is executed by \<open>run_loop\<close>.
\<close>

section \<open>Postconditions that do not depend on the state before\<close>

definition ensures :: "('a \<Rightarrow> 's \<Rightarrow> bool) \<Rightarrow> ('s, 'a) pyM \<Rightarrow> bool" where
  "ensures Q m \<longleftrightarrow> (\<forall>s. wpM m Q (\<lambda>_ _. True) s)"

named_theorems ensures_rules \<open>postconditions established whatever the state before\<close>

lemma ensuresD: "ensures Q m \<Longrightarrow> wpM m Q (\<lambda>_ _. True) s"
  by (simp add: ensures_def)

lemma wpM_any: "(\<And>x t. Q x t) \<Longrightarrow> wpM m Q (\<lambda>_ _. True) s"
  by (auto simp: wpM_def split: prod.splits sum.splits)

lemma ensures_bindM [ensures_rules]: "(\<And>x. ensures Q (f x)) \<Longrightarrow> ensures Q (bindM m f)"
  and ensures_thenM [ensures_rules]: "ensures Q n \<Longrightarrow> ensures Q (thenM m n)"
  and ensures_raiseM [ensures_rules]: "ensures Q (raiseM e)"
  by (auto simp: ensures_def wp intro: wpM_any)

lemma ensures_if [ensures_rules]: "(b \<Longrightarrow> ensures Q m) \<Longrightarrow> (\<not> b \<Longrightarrow> ensures Q n) \<Longrightarrow> ensures Q (if b then m else n)"
  by simp

lemma ensures_Let [ensures_rules]: "ensures Q (f x) \<Longrightarrow> ensures Q (Let x f)"
  by simp

lemma ensures_case_option [ensures_rules]:
  "(x = None \<Longrightarrow> ensures Q m) \<Longrightarrow> (\<And>y. x = Some y \<Longrightarrow> ensures Q (f y)) \<Longrightarrow> ensures Q (case x of None \<Rightarrow> m | Some y \<Rightarrow> f y)"
  by (cases x) auto

lemma ensures_case_sum [ensures_rules]:
  "(\<And>e. x = Inl e \<Longrightarrow> ensures Q (f e)) \<Longrightarrow> (\<And>y. x = Inr y \<Longrightarrow> ensures Q (g y)) \<Longrightarrow>
   ensures Q (case x of Inl e \<Rightarrow> f e | Inr y \<Rightarrow> g y)"
  by (cases x) auto

lemma ensures_returning: "ensures (\<lambda>_. P) m \<Longrightarrow> (\<And>t. P t \<Longrightarrow> Q x t) \<Longrightarrow> ensures Q (thenM m (retM x))"
  unfolding ensures_def wp wpM_retM_fun by (blast intro: wpM_conseq)

lemma ensures_establish:
  "ensures (\<lambda>_. P) m \<Longrightarrow> keeps P n \<Longrightarrow> ensures (\<lambda>_. P) (thenM m n)"
  unfolding ensures_def wp by (blast intro: wpM_conseq wpM_keeps)

lemma ensures_weaken: "ensures Q m \<Longrightarrow> (\<And>x t. Q x t \<Longrightarrow> Q' x t) \<Longrightarrow> ensures Q' m"
  unfolding ensures_def by (blast intro: wpM_conseq)

section \<open>Saved loops\<close>

definition saved :: "lstate \<Rightarrow> bool" where
  "saved s \<longleftrightarrow> map_of (ls_loops s) (lr_loop_id (ls_cur s)) = Some (ls_cur s)"

definition with_status :: "string \<Rightarrow> lstate \<Rightarrow> bool" where
  "with_status x s \<longleftrightarrow> lr_status (ls_cur s) = x"

definition settled :: "lstate \<Rightarrow> bool" where
  "settled s \<longleftrightarrow> saved s \<and> lr_status (ls_cur s) \<in> insert ''awaiting_approval'' (set TERMINAL_LOOP_STATUSES)"

text \<open>Events and cancel requests concern neither the loop in memory nor the saved one.\<close>

lemma frame_log:
  "keeps (\<lambda>s. R (ls_cur s) (ls_loops s)) nowL" "keeps (\<lambda>s. R (ls_cur s) (ls_loops s)) uuidL"
  "keeps (\<lambda>s. R (ls_cur s) (ls_loops s)) (append_loop_event i ty p)"
  "keeps (\<lambda>s. R (ls_cur s) (ls_loops s)) (emit ty p)"
  "keeps (\<lambda>s. R (ls_cur s) (ls_loops s)) (clear_loop_cancel_request i)"
  "keeps (\<lambda>s. R (ls_cur s) (ls_loops s)) budget_reasonL"
  "keeps (\<lambda>s. R (ls_cur s) (ls_loops s)) budget_policyL"
  "keeps (\<lambda>s. R (ls_cur s) (ls_loops s)) (load_loop_cancel_request i)"
proof -
  show now: "keeps (\<lambda>s. R (ls_cur s) (ls_loops s)) nowL" and uuid: "keeps (\<lambda>s. R (ls_cur s) (ls_loops s)) uuidL"
    unfolding nowL_def uuidL_def by (intro keeps_rules keeps_modifyM; simp)+
  show event: "keeps (\<lambda>s. R (ls_cur s) (ls_loops s)) (append_loop_event i ty p)" for i ty p
    unfolding append_loop_event_def by (intro keeps_bindM keeps_getsM keeps_modifyM uuid now) simp
  show "keeps (\<lambda>s. R (ls_cur s) (ls_loops s)) (emit ty p)"
    unfolding emit_def by (intro keeps_bindM keeps_getsM event)
  show "keeps (\<lambda>s. R (ls_cur s) (ls_loops s)) (clear_loop_cancel_request i)"
    unfolding clear_loop_cancel_request_def by (intro keeps_modifyM) simp
  show "keeps (\<lambda>s. R (ls_cur s) (ls_loops s)) budget_reasonL" "keeps (\<lambda>s. R (ls_cur s) (ls_loops s)) budget_policyL"
    unfolding budget_reasonL_def budget_policyL_def by (intro keeps_bindM keeps_getsM keeps_retM keeps_if now)+
  show "keeps (\<lambda>s. R (ls_cur s) (ls_loops s)) (load_loop_cancel_request i)"
    unfolding load_loop_cancel_request_def announce_cancel_def request_loop_cancel_def Let_def
    by (intro keeps_bindM keeps_thenM keeps_getsM keeps_retM keeps_case_option keeps_modifyM now event) simp_all
qed

lemmas frame_saved = frame_log [where R = "\<lambda>l ls. map_of ls (lr_loop_id l) = Some l", folded saved_def]

lemmas frame_settled = frame_log [where R = "\<lambda>l ls. map_of ls (lr_loop_id l) = Some l
    \<and> lr_status l \<in> insert ''awaiting_approval'' (set TERMINAL_LOOP_STATUSES)", folded saved_def, folded settled_def]

lemmas frame_status = frame_log [where R = "\<lambda>l ls. lr_status l = x" for x, folded with_status_def]

lemma ensures_save: "ensures (\<lambda>_. saved) save_loop"
  by (simp add: ensures_def save_loop_def nowL_def updL_def wp saved_def)

lemma save_settles: "x \<in> insert ''awaiting_approval'' (set TERMINAL_LOOP_STATUSES) \<Longrightarrow> with_status x s \<Longrightarrow>
  wpM save_loop (\<lambda>_. settled) (\<lambda>_ _. True) s"
  by (simp add: save_loop_def nowL_def updL_def wp settled_def saved_def with_status_def)

text \<open>The pattern of every end: the status is set, kept until the loop is saved, and the rest only logs.\<close>

lemma wp_set_status: "(\<And>l. lr_status (f l) = x) \<Longrightarrow> wpM (updL f) (\<lambda>_. with_status x) (\<lambda>_ _. True) s"
  by (simp add: updL_def wp with_status_def)

lemma wp_save_then:
  assumes "x \<in> insert ''awaiting_approval'' (set TERMINAL_LOOP_STATUSES)" "with_status x s" "keeps settled n"
  shows "wpM (thenM save_loop n) (\<lambda>_. settled) (\<lambda>_ _. True) s"
  by (rule vcg_thenM, rule wpM_conseq [OF save_settles [OF assms(1,2)]], rule wpM_keeps [OF assms(3)]) auto

lemma status_upd: "(\<And>l. lr_status (f l) = lr_status l) \<Longrightarrow> keeps (with_status x) (updL f)"
  unfolding updL_def by (intro keeps_modifyM) (simp add: with_status_def)

lemma status_save: "keeps (with_status x) save_loop"
  unfolding save_loop_def by (intro keeps_bindM keeps_thenM frame_status status_upd keeps_modifyM) (simp_all add: with_status_def)

lemma status_count: "keeps (with_status x) count_checkpoints"
  unfolding count_checkpoints_def by (intro status_upd) simp

lemma add_history_status [simp]: "lr_status (foldl (add_history f) l items) = lr_status l"
  by (induction items arbitrary: l) (simp_all add: add_history_def Let_def)

lemma status_block: "keeps (with_status x) (block_findings_for_exhaustion step)"
  unfolding block_findings_for_exhaustion_def
  by (intro keeps_bindM keeps_thenM keeps_Let keeps_if keeps_getsM keeps_liftM keeps_retM status_upd status_save frame_status) simp

lemmas settled_logs = keeps_bindM keeps_thenM keeps_Let keeps_if keeps_getsM keeps_retM keeps_forM frame_settled

lemma ensures_stop_loop [ensures_rules]: "ensures (\<lambda>_. settled) (stop_loop_for_budget reason)"
  unfolding ensures_def stop_loop_for_budget_def Let_def
proof
  fix s
  show "wpM (thenM (updL (\<lambda>l. l\<lparr>lr_status := ''stopped'', lr_error := Some (if reason = [] then ''budget_exceeded'' else reason)\<rparr>))
     (bindM budget_policyL (\<lambda>budget. thenM save_loop (bindM curL (\<lambda>loop.
     thenM (emit ''loop.budget.exceeded'' [(''reason'', JStr (if reason = [] then ''budget_exceeded'' else reason)),
           (''failure_type'', JStr (failure_type_for_reason (if reason = [] then ''budget_exceeded'' else reason))),
           (''cancel_category'', JStr ''budget_exceeded''), (''turn_count'', JInt (lr_turn_count loop)),
           (''max_turns'', JInt (lr_max_turns loop)), (''budget'', JObj budget)])
       (emit ''loop.stopped'' [(''reason'', JStr (if reason = [] then ''budget_exceeded'' else reason)),
           (''failure_type'', JStr (failure_type_for_reason (if reason = [] then ''budget_exceeded'' else reason))),
           (''cancel_category'', JStr ''budget_exceeded''), (''turn_count'', JInt (lr_turn_count loop)),
           (''max_turns'', JInt (lr_max_turns loop)), (''budget'', JObj budget)])))))) (\<lambda>_. settled) (\<lambda>_ _. True) s"
    by (rule vcg_thenM, rule wpM_conseq [OF wp_set_status [where x = "''stopped''"]], simp,
        rule vcg_bindM, rule wpM_keeps [OF frame_status(7)], assumption,
        rule wp_save_then [where x = "''stopped''"], simp add: TERMINAL_LOOP_STATUSES_def, assumption, intro settled_logs) simp_all
qed

lemma ensures_complete_loop [ensures_rules]: "ensures (\<lambda>_. settled) complete_loop"
  unfolding complete_loop_def
  apply (rule ensures_bindM)
  unfolding ensures_def
  apply (rule allI, rule vcg_thenM, rule wpM_conseq [OF wp_set_status [where x = "''completed''"]], simp)
   apply (rule wp_save_then [where x = "''completed''"], simp add: TERMINAL_LOOP_STATUSES_def, assumption, intro settled_logs)
  apply simp
  done

lemma ensures_cancel_loop_state [ensures_rules]: "ensures (\<lambda>_. settled) (cancel_loop_state A reason category)"
  unfolding cancel_loop_state_def Let_def
  apply (rule ensures_bindM, rule ensures_bindM, rule ensures_bindM, rule ensures_bindM)
  unfolding ensures_def
  apply (rule allI, rule vcg_thenM, rule wpM_conseq [OF wp_set_status [where x = "''cancelled''"]], simp)
   apply (rule vcg_thenM, rule wpM_keeps [OF status_count], assumption)
    apply (rule wp_save_then [where x = "''cancelled''"], simp add: TERMINAL_LOOP_STATUSES_def, assumption, intro settled_logs)
   apply simp_all
  done

lemma ensures_cancel_for_request [ensures_rules]: "ensures (\<lambda>_. settled) (cancel_for_request A r)"
  unfolding cancel_for_request_def by (intro ensures_rules)

lemma ensures_fail_loop [ensures_rules]: "ensures (\<lambda>_. settled) (fail_loop reason err payload)"
  unfolding fail_loop_def Let_def
  apply (rule ensures_bindM)
  unfolding ensures_def
  apply (rule allI, rule vcg_thenM, rule wpM_conseq [OF wp_set_status [where x = "''failed''"]], simp)
   apply (rule vcg_bindM, rule vcg_getsM, rule vcg_thenM)
   apply (rule wpM_keeps [where P = "with_status ''failed''"], intro keeps_if keeps_thenM keeps_retM status_block, assumption)
    apply (rule vcg_bindM, rule vcg_getsM)
    apply (rule wp_save_then [where x = "''failed''"], simp add: TERMINAL_LOOP_STATUSES_def, assumption, intro settled_logs)
   apply simp_all
  done

lemma ensures_fail_quality: "ensures (\<lambda>_. settled) (fail_quality q)"
  unfolding fail_quality_def
  apply (rule ensures_bindM, rule ensures_bindM)
  unfolding ensures_def
  apply (rule allI, rule vcg_thenM, rule wpM_conseq [OF wp_set_status [where x = "''failed''"]], simp)
   apply (rule wp_save_then [where x = "''failed''"], simp add: TERMINAL_LOOP_STATUSES_def, assumption, intro settled_logs)
  apply simp
  done

lemma settled_saved: "settled s \<Longrightarrow> saved s"
  by (simp add: settled_def)

section \<open>Every recovery saves\<close>

lemma ensures_save_then: "keeps saved n \<Longrightarrow> ensures (\<lambda>_. saved) (thenM save_loop n)"
  by (rule ensures_establish [OF ensures_save])

lemmas saved_logs = keeps_bindM keeps_thenM keeps_Let keeps_if keeps_getsM keeps_retM keeps_forM frame_saved

lemma ensures_apply_recovery: "ensures (\<lambda>r t. r \<longrightarrow> saved t) (apply_recovery_policy step reason err ft)"
proof -
  have retry: "ensures (\<lambda>_. saved) (recover_by_retry step d)"
    and remediation: "ensures (\<lambda>_. saved) (recover_by_remediation step d)" for d
    unfolding recover_by_retry_def recover_by_remediation_def
    by (intro ensures_bindM ensures_thenM [where m = "updL f" for f] ensures_save_then saved_logs)+
  have human: "ensures (\<lambda>_. saved) (recover_by_human step ft' reason err d)" for ft' d
  proof -
    have "ensures (\<lambda>_. saved) (append_recovery_approval_step step ft' reason err)"
      unfolding append_recovery_approval_step_def
      by (intro ensures_bindM ensures_thenM [where m = "updL f" for f] ensures_thenM [where m = count_checkpoints]
          ensures_save_then saved_logs)
    then show ?thesis unfolding recover_by_human_def ensures_def wp
      by (blast intro: wpM_conseq wpM_keeps [OF frame_saved(4)])
  qed
  have no: "ensures (\<lambda>r t. r \<longrightarrow> saved t) (retM False)" by (simp add: ensures_def wp)
  show ?thesis unfolding apply_recovery_policy_def Let_def
    by (intro ensures_bindM ensures_thenM [where m = "emit ty p" for ty p] ensures_case_option ensures_if no
        ensures_returning [OF retry] ensures_returning [OF remediation] ensures_returning [OF human]) simp_all
qed

definition turn_result :: "bool \<Rightarrow> lstate \<Rightarrow> bool" where
  "turn_result go t \<longleftrightarrow> saved t \<and> (\<not> go \<longrightarrow> settled t)"

lemma ensures_ended: "ensures (\<lambda>_. settled) m \<Longrightarrow> ensures turn_result (thenM m (retM False))"
  by (erule ensures_returning) (simp add: turn_result_def settled_saved)

lemma ensures_recover_or_fail [ensures_rules]: "ensures turn_result (recover_or_fail step reason err ft payload)"
proof -
  have fail: "ensures turn_result (thenM (fail_loop reason err payload) (retM False))"
    by (intro ensures_ended ensures_rules)
  show ?thesis
    unfolding recover_or_fail_def ensures_def
    apply (rule allI, rule vcg_bindM, rule wpM_conseq [OF ensuresD [OF ensures_apply_recovery]])
     apply (rule vcg_if)
      apply (simp add: wp turn_result_def settled_def)
     apply (rule ensuresD [OF fail])
    apply simp
    done
qed

lemma ensures_turn_failed [ensures_rules]: "ensures turn_result (turn_failed A a exc)"
proof -
  have "ensures turn_result (turn_error A a exc)" unfolding turn_error_def by (intro ensures_rules)
  moreover have "ensures turn_result (thenM (mark_running_step_cancelled A a r [] cat) (thenM (cancel_loop_state A r cat) (retM False)))" for r cat
    by (intro ensures_thenM [where m = "mark_running_step_cancelled A a r [] cat"] ensures_ended ensures_cancel_loop_state)
  ultimately show ?thesis unfolding turn_failed_def by (cases exc) simp_all
qed

lemma ensures_turn_built [ensures_rules]: "ensures turn_result (turn_built a step)"
proof -
  have waiting: "ensures turn_result (thenM (updL (\<lambda>l. l\<lparr>lr_status := ''awaiting_approval''\<rparr>))
      (thenM save_loop (thenM (emit ty p) (retM False))))" for ty p
    unfolding ensures_def
    apply (rule allI, rule vcg_thenM, rule wpM_conseq [OF wp_set_status [where x = "''awaiting_approval''"]], simp)
     apply (rule vcg_thenM, rule wpM_conseq [OF save_settles [where x = "''awaiting_approval''"]], simp, assumption)
       apply (rule vcg_thenM, rule wpM_keeps [OF frame_settled(4)], assumption)
        apply (simp_all add: wp turn_result_def settled_saved)
    done
  have completed: "ensures turn_result (thenM (emit ty p) (thenM save_loop (retM True)))" for ty p
    by (rule ensures_thenM, rule ensures_returning [OF ensures_save]) (simp add: turn_result_def)
  show ?thesis unfolding turn_built_def Let_def
    by (intro ensures_bindM ensures_thenM [where m = "updL (\<lambda>l. f l\<lparr>lr_turn_count := n\<rparr>)" for f n] ensures_thenM [where m = count_checkpoints]
        ensures_if waiting completed) (intro ensures_rules)
qed

lemma ensures_perform_action [ensures_rules]: "ensures turn_result (perform_action A a)"
  unfolding perform_action_def by (intro ensures_bindM ensures_if ensures_ended ensures_stop_loop ensures_case_sum
      ensures_thenM [where m = "emit ty p" for ty p] ensures_turn_failed ensures_turn_built)

lemma wp_select_saved:
  assumes "saved s" shows "wpM select_next_action (\<lambda>r t. r = None \<longrightarrow> saved t) (\<lambda>_ _. True) s"
proof -
  have quality: "ensures (\<lambda>r t. r = None \<longrightarrow> saved t) (recover_quality q)" for q
  proof -
    have failed: "ensures (\<lambda>r t. r = None \<longrightarrow> saved t) (thenM (fail_quality q) (retM None))"
      by (rule ensures_returning [OF ensures_fail_quality]) (simp add: settled_saved)
    show ?thesis
      unfolding recover_quality_def
      apply (rule ensures_bindM)
      unfolding ensures_def
      apply (rule allI, rule vcg_bindM, rule wpM_conseq [OF ensuresD [OF ensures_apply_recovery]])
       apply (rule vcg_if)
        apply (rule vcg_bindM, rule vcg_getsM, rule vcg_if, simp add: wp)
        apply (rule vcg_case_option, simp add: wp)
        apply (rule vcg_thenM, rule wpM_any)
        apply (simp add: wp)
       apply (rule ensuresD [OF failed])
      apply simp
      done
  qed
  have some: "wpM (thenM m (retM (Some a))) (\<lambda>r t. r = None \<longrightarrow> saved t) (\<lambda>_ _. True) s" for m :: "unit lm" and a
    by (rule vcg_thenM, rule wpM_any) (simp add: wp)
  show ?thesis
    unfolding select_next_action_def
    by (rule vcg_bindM, rule vcg_getsM, rule vcg_bindM, rule vcg_getsM)
      (use assms in \<open>auto simp: wp intro!: vcg_case_option some vcg_if ensuresD [OF quality]\<close>)
qed

lemma wp_run_turn_saved:
  assumes "saved s" shows "wpM (run_turn A) turn_result (\<lambda>_ _. True) s"
  unfolding run_turn_def
  apply (rule vcg_bindM, rule wpM_keeps [OF frame_saved(6) assms], rule vcg_case_option)
    apply (rule vcg_bindM, rule vcg_getsM, rule vcg_bindM, rule wpM_keeps [OF frame_saved(8)], assumption, rule vcg_case_option)
      apply (rule vcg_bindM, rule wpM_conseq [OF wp_select_saved], assumption, rule vcg_case_option)
        apply (rule vcg_bindM, rule vcg_getsM, rule vcg_if)
         apply (auto simp: wp turn_result_def settled_def)[1]
        apply (rule ensuresD [OF ensures_ended [OF ensures_complete_loop]])
       apply (rule ensuresD [OF ensures_perform_action])
      apply simp
     apply (rule ensuresD [OF ensures_ended [OF ensures_cancel_for_request]])
    apply simp
   apply (rule ensuresD [OF ensures_ended [OF ensures_stop_loop]])
  apply simp
  done

lemma run_turns_settled: "saved s \<Longrightarrow> run_turns n A s = Some (Inr (), t) \<Longrightarrow> settled t"
proof (induction n arbitrary: s)
  case (Suc n)
  obtain r u where turn: "run_turn A s = (r, u)" by fastforce
  show ?case
  proof (cases r)
    case (Inr go)
    then have "turn_result go u" using wp_run_turn_saved [OF Suc.prems(1), of A] turn by (simp add: wpM_def)
    then show ?thesis using Suc turn Inr by (cases go) (auto simp: turn_result_def)
  qed (use Suc.prems turn in simp)
qed simp

section \<open>Outcome of a run\<close>

text \<open>A running step may still hold the loop: its process may be alive.\<close>

definition held :: "lstate \<Rightarrow> bool" where
  "held s \<longleftrightarrow> saved s \<and> lr_status (ls_cur s) = ''running'' \<and> latest_running_step (ls_cur s) \<noteq> None"

lemma wp_recover_or_hold_saved:
  assumes "saved s"
  shows "wpM (recover_or_hold_running_action A) (\<lambda>go t. saved t \<and> (\<not> go \<longrightarrow> settled t \<or> held t)) (\<lambda>_ _. True) s"
proof -
  have hold: "wpM (thenM (updL (\<lambda>l. l\<lparr>lr_status := ''running''\<rparr>)) (thenM save_loop (retM False)))
      (\<lambda>go t. saved t \<and> (\<not> go \<longrightarrow> settled t \<or> held t)) (\<lambda>_ _. True) t" if "latest_running_step (ls_cur t) \<noteq> None" for t
    using that by (simp add: save_loop_def nowL_def updL_def wp held_def saved_def latest_running_step_def)
  have recover: "ensures (\<lambda>go t. saved t \<and> (\<not> go \<longrightarrow> settled t \<or> held t)) (recover_or_fail step reason err ft payload)"
    for step reason err ft payload
    by (rule ensures_weaken [OF ensures_recover_or_fail]) (auto simp: turn_result_def)
  have now: "keeps (\<lambda>s. ls_cur s = l) nowL" for l
    using frame_log(1) [where R = "\<lambda>l' ls. l' = l"] .
  show ?thesis
    unfolding recover_or_hold_running_action_def Let_def
    apply (rule vcg_bindM, rule vcg_getsM, rule vcg_bindM, rule vcg_getsM, rule vcg_case_option)
     apply (simp add: wp assms)
    apply (rule vcg_bindM, rule wpM_keeps [where P = "\<lambda>t. ls_cur t = ls_cur s"], intro keeps_if keeps_retM now, rule refl)
     apply (rule vcg_if)
      apply (rule hold, simp)
     apply (rule ensuresD, intro ensures_bindM ensures_thenM [where m = "updL f" for f] ensures_thenM [where m = count_checkpoints]
        ensures_thenM [where m = save_loop] ensures_thenM [where m = "emit ty p" for ty p] recover)
    apply simp
    done
qed

lemma wp_prepare_saved:
  assumes "map_of (ls_loops s) loop_id = Some loop" "lr_loop_id loop = loop_id"
  shows "wpM (prepare_run A loop_id) (\<lambda>go t. saved t \<and> (\<not> go \<longrightarrow> settled t \<or> held t)) (\<lambda>_ _. True) s"
proof -
  let ?Q = "\<lambda>go t. saved t \<and> (\<not> go \<longrightarrow> settled t \<or> held t)"
  have load: "load_loop loop_id s = (Inr (), s\<lparr>ls_cur := loop\<rparr>)" using assms by (simp add: load_loop_def updL_def monad_defs)
  have loaded: "saved (s\<lparr>ls_cur := loop\<rparr>)" using assms by (simp add: saved_def)
  have ended: "ensures ?Q (thenM m (retM False))" if "ensures (\<lambda>_. settled) m" for m :: "unit lm"
    by (rule ensures_returning [OF that]) (simp add: settled_saved)
  have over: "wpM (thenM (clear_loop_cancel_request i) (retM False)) ?Q (\<lambda>_ _. True) t"
    if "settled t" for i t
    by (rule vcg_thenM, rule wpM_keeps [OF frame_settled(5) that]) (simp_all add: wp settled_saved)
  have enter: "ensures ?Q (bindM curL (\<lambda>l. if pending_approval_step l \<noteq> None
              then thenM (updL (\<lambda>l. l\<lparr>lr_status := ''awaiting_approval''\<rparr>)) (thenM save_loop (retM False))
              else thenM (updL (\<lambda>l. l\<lparr>lr_status := ''running'', lr_error := None\<rparr>)) (thenM save_loop (retM True))))"
    by (simp add: ensures_def save_loop_def nowL_def updL_def wp settled_def saved_def)
  show ?thesis
    unfolding prepare_run_def
    apply (rule vcg_thenM, rule wpM_value, rule load, rule vcg_bindM, rule vcg_getsM, rule vcg_if)
     apply (rule over, use loaded in \<open>simp add: settled_def\<close>)
    apply (rule vcg_bindM, rule wpM_keeps [OF frame_saved(6) loaded], rule vcg_case_option)
      apply (rule vcg_bindM, rule wpM_keeps [OF frame_saved(8)], assumption, rule vcg_case_option)
        apply (rule vcg_bindM, rule wpM_conseq [OF wp_recover_or_hold_saved], assumption, rule vcg_if)
          apply (simp add: wp)
         apply (rule ensuresD [OF enter])
        apply simp
       apply (rule ensuresD [OF ended [OF ensures_cancel_for_request]])
      apply simp
     apply (rule ensuresD [OF ended [OF ensures_stop_loop]])
    apply simp
    done
qed

lemma run_loop_outcome:
  assumes "map_of (ls_loops s) loop_id = Some loop" "lr_loop_id loop = loop_id"
    and run: "run_loop fuel A loop_id s = Some (Inr (), t)"
  shows "settled t \<or> held t"
proof -
  obtain r u where prep: "prepare_run A loop_id s = (r, u)" by fastforce
  then show ?thesis
  proof (cases r)
    case (Inr go)
    then have "saved u \<and> (\<not> go \<longrightarrow> settled u \<or> held u)"
      using wp_prepare_saved [OF assms(1,2), of A] prep by (simp add: wpM_def)
    then show ?thesis using run prep Inr run_turns_settled by (auto simp: run_loop_def split: if_splits)
  qed (use run in \<open>simp add: run_loop_def\<close>)
qed

section \<open>Cancellation\<close>

text \<open>A step that cancellation has nothing to do with any more.\<close>

definition step_closed :: "loop_step \<Rightarrow> bool" where
  "step_closed s \<longleftrightarrow> lp_status s \<noteq> ''running''
     \<and> \<not> (lp_status s = ''waiting_approval'' \<and> la_approval_status (lp_action s) = Some ''pending'')"

definition open_among :: "loop_step list \<Rightarrow> lstate \<Rightarrow> bool" where
  "open_among rest s \<longleftrightarrow> (\<forall>x\<in>set (lr_steps (ls_cur s)). step_closed x \<or> x \<in> set rest)"

lemma open_among_log: "keeps (open_among rest) nowL" "keeps (open_among rest) uuidL"
  using frame_log(1,2) [where R = "\<lambda>l ls. \<forall>x\<in>set (lr_steps l). step_closed x \<or> x \<in> set rest"]
  by (simp_all add: open_among_def [abs_def])

lemma put_closed:
  assumes "open_among (x # rest) s" "step_closed y" "lp_step_id y = lp_step_id x"
  shows "open_among rest (s\<lparr>ls_cur := put_step y (ls_cur s)\<rparr>)"
  using assms by (auto simp: open_among_def put_step_def)

lemma open_among_mono: "open_among rest s \<Longrightarrow> open_among (x # rest) s"
  by (auto simp: open_among_def)

lemma wp_cancel_step:
  assumes "open_among (x # rest) s"
  shows "wpM (cancel_step A reason category x) (\<lambda>_. open_among rest) (\<lambda>_ _. True) s"
proof -
  have obs: "keeps (open_among (x # rest)) (new_observation st p)" for st p
    unfolding new_observation_def new_id_def by (intro keeps_bindM keeps_retM open_among_log)
  have settle: "wpM (settle_step A x ''cancelled'' os p cs) (\<lambda>_. open_among rest) (\<lambda>_ _. True) s" for os p cs
  proof -
    have id: "wpM (step_now x) (\<lambda>r t. t = u \<and> lp_step_id r = lp_step_id x) (\<lambda>_ _. False) u" for u
      by (simp add: step_now_def wp split: option.splits)
    show ?thesis
      unfolding settle_step_def Let_def
      apply (rule vcg_bindM, rule vcg_getsM, rule vcg_bindM, rule wpM_keeps [OF obs assms])
       apply (rule vcg_bindM, rule wpM_conseq [OF id])
        apply (simp only: updL_def, rule vcg_thenM, rule vcg_modifyM)
        apply (rule vcg_bindM, rule vcg_getsM)
        apply (rule vcg_bindM, rule wpM_keeps [OF open_among_log(1) [where rest = "x # rest"]])
          apply (rule open_among_mono, rule put_closed, simp, simp add: step_closed_def, simp)
         apply (rule vcg_bindM, rule wpM_keeps [OF open_among_log(1)], assumption)
          apply (rule vcg_thenM, rule vcg_modifyM, rule vcg_retM)
          apply (rule put_closed, assumption, simp add: step_closed_def, simp)
         apply simp_all
      done
  qed
  have waiting: "wpM (bindM (new_observation ''cancelled'' p) (\<lambda>obs. bindM nowL (\<lambda>now.
        let s = x\<lparr>lp_action := (lp_action x)\<lparr>la_approval_status := Some ''cancelled''\<rparr>,
            lp_status := ''cancelled'', lp_observation := obs, lp_updated_at := now\<rparr> in
        thenM (updL (put_step s)) (retM [s])))) (\<lambda>_. open_among rest) (\<lambda>_ _. True) s" for p
    unfolding Let_def updL_def
    apply (rule vcg_bindM, rule wpM_keeps [OF obs assms])
     apply (rule vcg_bindM, rule wpM_keeps [OF open_among_log(1)], assumption)
      apply (rule vcg_thenM, rule vcg_modifyM, rule vcg_retM)
      apply (rule put_closed, assumption, simp_all add: step_closed_def)
    done
  have closed: "step_closed x \<Longrightarrow> open_among rest s" using assms by (auto simp: open_among_def)
  show ?thesis
    unfolding cancel_step_def
    apply (rule vcg_if, rule vcg_retM, rule closed, simp add: step_closed_def)
    apply (rule vcg_if)
     apply (rule vcg_bindM, rule wpM_conseq [OF settle], simp add: wp, simp)
    apply (rule vcg_if, rule waiting)
    apply (rule vcg_retM, rule closed, simp add: step_closed_def)
    done
qed

lemma wp_cancel_steps:
  "open_among steps s \<Longrightarrow> wpM (foldM (\<lambda>acc step. bindM (cancel_step A reason category step) (\<lambda>c. retM (acc @ c))) acc steps)
     (\<lambda>_. open_among []) (\<lambda>_ _. True) s"
proof (induction steps arbitrary: acc s)
  case (Cons x steps)
  show ?case
    by (simp add: wp) (rule wpM_conseq [OF wp_cancel_step [OF Cons.prems]], auto simp: wp intro: Cons.IH)
qed (simp add: wp)

lemma open_among_tail: "keeps (open_among []) save_loop" "keeps (open_among []) count_checkpoints"
  "keeps (open_among []) (emit ty p)" "keeps (open_among []) (clear_loop_cancel_request i)"
  "(\<And>l. lr_steps (f l) = lr_steps l) \<Longrightarrow> keeps (open_among []) (updL f)"
proof -
  have log: "keeps (open_among []) nowL" "keeps (open_among []) (emit ty p)" "keeps (open_among []) (clear_loop_cancel_request i)" for ty p i
    using frame_log(1,4,5) [where R = "\<lambda>l ls. \<forall>x\<in>set (lr_steps l). step_closed x"] by (simp_all add: open_among_def [abs_def])
  show upd: "(\<And>l. lr_steps (f l) = lr_steps l) \<Longrightarrow> keeps (open_among []) (updL f)" for f
    unfolding updL_def by (intro keeps_modifyM) (simp add: open_among_def)
  show "keeps (open_among []) save_loop" "keeps (open_among []) count_checkpoints"
    unfolding save_loop_def count_checkpoints_def
    by (intro keeps_bindM keeps_thenM log upd keeps_modifyM; simp add: open_among_def)+
  show "keeps (open_among []) (emit ty p)" "keeps (open_among []) (clear_loop_cancel_request i)" by (rule log)+
qed

lemma ensures_cancel_closes: "ensures (\<lambda>_. open_among []) (cancel_loop_state A reason category)"
  unfolding ensures_def cancel_loop_state_def Let_def
  apply (intro allI, rule vcg_bindM, rule vcg_getsM, rule vcg_bindM, rule vcg_getsM, rule vcg_bindM, rule vcg_liftM, simp)
  apply (rule vcg_bindM, rule wpM_conseq [OF wp_cancel_steps])
    apply (simp add: open_among_def)
   apply (rule wpM_keeps [where P = "open_among []"],
      intro keeps_bindM keeps_thenM keeps_if keeps_getsM keeps_retM keeps_forM open_among_tail)
      apply simp_all
  done

end
