(* ===== verification/LoopGate.thy ===== *)
theory LoopGate
  imports LoopOutcome
begin

text \<open>
  Approval gates: a run of the loop executes no action whose type the approval policy names; such an
  action waits for \<open>approve_action\<close>, which executes that action and no other.
\<close>

section \<open>Predicates that tolerate a whole turn\<close>

locale loop_log = loop_exec +
  assumes log: "P s \<Longrightarrow> P (s\<lparr>ls_events := log_add i e (ls_events s)\<rparr>)"
    and loop: "P s \<Longrightarrow> turns_ok l \<Longrightarrow> lr_approval_policy l = lr_approval_policy (ls_cur s) \<Longrightarrow> P (s\<lparr>ls_cur := l\<rparr>)"
begin

lemma keeps_event: "keeps P (append_loop_event i ty p)"
  unfolding append_loop_event_def by (intro keeps_bindM keeps_uuidL keeps_nowL keeps_getsM keeps_modifyM log)

lemma keeps_any_emit: "keeps P (emit ty p)"
  unfolding emit_def by (intro keeps_bindM keeps_getsM keeps_event)

lemma keeps_turn_upd:
  "(\<And>l. turns_ok l \<Longrightarrow> turns_ok (f l)) \<Longrightarrow> (\<And>l. lr_approval_policy (f l) = lr_approval_policy l) \<Longrightarrow> keeps P (updL f)"
  unfolding updL_def by (intro keeps_modifyM loop) (auto dest: turns)

lemma yields_new_step: "yields P (\<lambda>r. lp_turn r = turn) (new_step turn ph st a obs c)"
  unfolding new_step_def by (intro yields_keeps_bindM keeps_getsM keeps_new_id keeps_nowL yields_retM) simp

lemma yields_mark_running: "0 \<le> lp_turn step \<Longrightarrow> yields P (\<lambda>r. lp_turn r = lp_turn step) (mark_step_running A step p)"
  unfolding mark_step_running_def
  by (intro yields_Let yields_keeps_bindM keeps_lease keeps_new_observation keeps_getsM keeps_nowL yields_thenM keeps_turn_upd
      keeps_count_checkpoints keeps_save_loop keeps_any_emit yields_retM) (auto simp: turns_ok_def put_step_def)

lemma yields_finish: "0 \<le> lp_turn step \<Longrightarrow> yields P (\<lambda>r. 0 \<le> lp_turn r) (finish_step A step a p)"
  unfolding finish_step_def
  by (intro yields_keeps_bindM yields_thenM yields_if keeps_if keeps_getsM keeps_retM keeps_turn_upd
      yields_weaken [OF yields_settle_step]) (auto simp: turns_ok_def)

lemma yields_run_step:
  assumes "allowed a" "0 \<le> lp_turn step0" shows "yields P (\<lambda>r. 0 \<le> lp_turn r) (run_step A step0 a)"
  unfolding run_step_def
  by (rule yields_bindM [OF yields_mark_running [OF assms(2)]], rule yields_keeps_bindM [OF keeps_execute_action [OF assms(1)]],
      intro yields_keeps_bindM keeps_if keeps_record_round keeps_retM yields_finish) (use assms(2) in simp)

lemma keeps_failed_step_for: "yields P (\<lambda>r. 0 \<le> lp_turn r) (failed_step_for A a exc)"
  unfolding failed_step_for_def
proof (rule yields_bindM [OF yields_mark_failed])
  fix marked :: "loop_step option"
  assume m: "\<forall>s. marked = Some s \<longrightarrow> 0 \<le> lp_turn s \<and> lp_status s = ''failed'' \<and>
     step_payload s = [(''action_type'', JStr a)] @ [] @ [(''error'', JStr (exc_str exc)), (''failure_type'', JStr (failure_type_for_exception exc))]"
  have build: "yields P (\<lambda>r. 0 \<le> lp_turn r) (build_failed_step A a exc)"
    unfolding build_failed_step_def Let_def
    apply (rule yields_keeps_bindM [OF keeps_getsM], rule yields_bindM [OF yields_curL])
    apply (intro yields_keeps_bindM keeps_new_action keeps_new_observation)
    apply (rule yields_weaken [OF yields_new_step])
    apply (simp add: turns_ok_def)
    done
  show "yields P (\<lambda>r. 0 \<le> lp_turn r) (case marked of Some s \<Rightarrow> retM s
    | None \<Rightarrow> bindM (build_failed_step A a exc) (\<lambda>s. thenM (updL (\<lambda>l. l\<lparr>lr_steps := lr_steps l @ [s]\<rparr>)) (retM s)))"
  proof (cases marked)
    case None
    then show ?thesis
      by (auto intro!: yields_bindM [OF build] yields_thenM keeps_turn_upd yields_retM simp: turns_ok_def)
  qed (use m in \<open>simp add: yields_retM\<close>)
qed

lemma keeps_rollback: "keeps P (rollback_loop_to_step i)"
  unfolding rollback_loop_to_step_def
  by (intro keeps_bindM keeps_thenM keeps_getsM keeps_retM keeps_turn_upd) (simp_all add: rollback_turns_ok rollback_control)

lemma keeps_apply_recovery: "keeps P (apply_recovery_policy step reason err ft)"
proof -
  have retry: "keeps P (recover_by_retry step d)" and remediation: "keeps P (recover_by_remediation step d)" for d
    unfolding recover_by_retry_def recover_by_remediation_def
    by (intro keeps_bindM keeps_thenM keeps_getsM keeps_rollback keeps_save_loop keeps_any_emit keeps_turn_upd; simp add: turns_ok_def)+
  have append: "keeps P (append_recovery_approval_step step ft' reason err)" for ft'
    unfolding append_recovery_approval_step_def
    apply (rule keeps_bind_yields [OF yields_curL])
    apply (rule keeps_bindM [OF keeps_new_action], rule keeps_bindM [OF keeps_new_observation])
    apply (rule keeps_bind_yields [OF yields_new_step])
    apply (intro keeps_thenM keeps_turn_upd keeps_count_checkpoints keeps_save_loop keeps_any_emit keeps_retM)
     apply (auto simp: turns_ok_def)
    done
  show ?thesis
    unfolding apply_recovery_policy_def Let_def recovery_attempt_count_def list_loop_events_def recover_by_human_def
    by (intro keeps_bindM keeps_thenM keeps_if keeps_getsM keeps_retM keeps_case_option keeps_any_emit retry remediation append)
qed

lemma keeps_recover_or_fail: "keeps P (recover_or_fail step reason err ft payload)"
  unfolding recover_or_fail_def
  by (intro keeps_bindM keeps_apply_recovery keeps_if keeps_getsM keeps_retM keeps_thenM keeps_fail_loop)

lemma keeps_turn_failed: "keeps P (turn_failed A a exc)"
proof -
  have "keeps P (turn_error A a exc)"
    unfolding turn_error_def
    by (rule keeps_bindM [OF keeps_getsM], rule keeps_bind_yields [OF keeps_failed_step_for])
      (intro keeps_thenM keeps_turn_upd keeps_count_checkpoints keeps_save_loop keeps_any_emit keeps_recover_or_fail;
        simp add: turns_ok_def)
  then show ?thesis unfolding turn_failed_def
    by (cases exc) (simp_all add: keeps_thenM keeps_mark_cancelled keeps_cancel_loop_state keeps_retM)
qed

lemma keeps_turn_built: "0 \<le> lp_turn step \<Longrightarrow> keeps P (turn_built a step)"
  unfolding turn_built_def Let_def
  by (intro keeps_bindM keeps_thenM keeps_getsM keeps_if keeps_retM keeps_turn_upd keeps_count_checkpoints keeps_save_loop
      keeps_any_emit keeps_recover_or_fail) (auto simp: turns_ok_def)

lemma keeps_select_next_action: "keeps P select_next_action"
  unfolding select_next_action_def recover_quality_def
  by (intro keeps_bindM keeps_thenM keeps_getsM keeps_if keeps_retM keeps_case_option keeps_take_recovery
      keeps_remediation_scheduled keeps_apply_recovery keeps_fail_quality)

lemma keeps_approval_failed: "keeps P (approval_failed A i step exc)"
proof -
  have "keeps P (withE (\<lambda>E.
        bindM (mark_running_step_failed A (step_type step) exc [(''approval'', JStr ''approved'')]) (\<lambda>marked.
        bindM (step_now step) (\<lambda>now. let failed = opt_or marked now in
        thenM count_checkpoints
        (thenM save_loop
        (thenM (emit ''loop.action.failed'' (step_to_dict failed))
        (bindM (apply_recovery_policy failed (failed_reason (step_type step)) (exc_str exc) (step_failure_type E failed)) (\<lambda>recovered.
        if recovered then retM ()
        else fail_loop (failed_reason (step_type step)) (exc_str exc)
          [(''action_id'', JStr i), (''action_type'', JStr (step_type step))]))))))))"
    by (intro keeps_bindM keeps_thenM keeps_Let keeps_getsM keeps_if keeps_retM keeps_count_checkpoints keeps_save_loop
        keeps_any_emit keeps_apply_recovery keeps_fail_loop yields_keeps [OF yields_mark_failed] yields_keeps [OF yields_step_now])
  then show ?thesis unfolding approval_failed_def
    by (cases exc) (simp_all add: keeps_thenM keeps_mark_cancelled keeps_cancel_loop_state)
qed

lemma keeps_approval_done: "0 \<le> lp_turn step \<Longrightarrow> keeps P (approval_done A step payload)"
  unfolding approval_done_def Let_def
  apply (rule keeps_bindM [OF keeps_getsM], rule keeps_bindM [OF keeps_new_observation], rule keeps_bind_yields [OF yields_step_now])
  apply (intro keeps_bindM keeps_thenM keeps_getsM keeps_if keeps_retM keeps_put_step keeps_record_round keeps_nowL keeps_turn_upd
      keeps_count_checkpoints keeps_save_loop keeps_any_emit)
         apply (auto simp: turns_ok_def)
  done

end

text \<open>A predicate that also tolerates the execution of every action the policy lets through.\<close>

locale loop_turns = loop_log +
  assumes gate: "P s \<Longrightarrow> approval_names (lr_approval_policy (ls_cur s)) = Inr gated \<Longrightarrow> a \<notin> set gated \<Longrightarrow> allowed a"
begin

lemma yields_build_step: "yields P (\<lambda>r. 0 \<le> lp_turn r) (build_step A a)"
  unfolding yields_def
proof (intro allI impI)
  fix s assume P: "P s"
  let ?l = "ls_cur s"
  have k: "0 \<le> lr_turn_count ?l + 1" using turns [OF P] by (simp add: turns_ok_def)
  have ran: "yields P (\<lambda>r. 0 \<le> lp_turn r) (bindM (new_observation st p) (\<lambda>obs.
      bindM (new_step (lr_turn_count ?l + 1) ph st action obs []) (\<lambda>step0. run_step A step0 a)))" if "allowed a" for st p ph action
    by (rule yields_keeps_bindM [OF keeps_new_observation], rule yields_bindM [OF yields_new_step], rule yields_run_step)
      (use that k in simp_all)
  have waiting: "yields P (\<lambda>r. 0 \<le> lp_turn r) (bindM (new_observation st p) (\<lambda>obs.
      new_step (lr_turn_count ?l + 1) ph st' action obs []))" for st st' p ph action
    by (rule yields_keeps_bindM [OF keeps_new_observation], rule yields_weaken [OF yields_new_step]) (use k in simp)
  show "wpM (build_step A a) (\<lambda>x t. P t \<and> 0 \<le> lp_turn x) (\<lambda>_. P) s"
    unfolding build_step_def Let_def
    apply (rule vcg_bindM, rule vcg_getsM, rule vcg_bindM, rule vcg_getsM, rule vcg_bindM, rule vcg_liftM, rule P)
    apply (rule wpM_yields [where P = P and R = "\<lambda>r. 0 \<le> lp_turn r", OF _ P])
      apply (rule yields_keeps_bindM [OF keeps_new_action], rule yields_if, rule waiting)
      apply (rule ran, erule gate [OF P], assumption)
     apply simp_all
    done
qed

lemma keeps_perform_action: "keeps P (perform_action A a)"
proof -
  have built: "yields P (\<lambda>r. \<forall>step. r = Inr step \<longrightarrow> 0 \<le> lp_turn step)
      (catchM (bindM (build_step A a) (\<lambda>s. retM (Inr s))) (\<lambda>exc. retM (Inl exc)))"
    unfolding yields_def wp
    by (intro allI impI, rule wpM_yields [OF yields_build_step]) (simp_all add: wp)
  show ?thesis
    unfolding perform_action_def
    apply (intro keeps_bindM [where m = "getsM g" for g] keeps_getsM keeps_if)
     apply (intro keeps_thenM keeps_stop_loop keeps_retM)
    apply (rule keeps_thenM [OF keeps_any_emit], rule keeps_bind_yields [OF built])
    apply (intro keeps_case_sum keeps_turn_failed keeps_turn_built)
    apply simp
    done
qed

lemma keeps_run_turn: "keeps P (run_turn A)"
  unfolding run_turn_def
  by (intro keeps_bindM keeps_thenM keeps_getsM keeps_if keeps_retM keeps_case_option keeps_budget_reason keeps_stop_loop
      keeps_load_cancel keeps_cancel_for_request keeps_select_next_action keeps_perform_action keeps_complete_loop)

lemma keeps_recover_or_hold: "keeps P (recover_or_hold_running_action A)"
  unfolding recover_or_hold_running_action_def Let_def
  apply (rule keeps_bindM [OF keeps_getsM], rule keeps_bind_yields [OF yields_curL], rule keeps_case_option, rule keeps_retM)
  apply (rule keeps_bindM, intro keeps_if keeps_retM keeps_nowL)
  apply (rule keeps_if, intro keeps_thenM keeps_turn_upd keeps_save_loop keeps_retM, simp add: turns_ok_def, simp)
  apply (rule keeps_bind_yields [OF yields_settle_step], simp add: latest_running_step_def turns_ok_find_rev)
  apply (intro keeps_thenM keeps_turn_upd keeps_count_checkpoints keeps_save_loop keeps_any_emit keeps_recover_or_fail)
   apply (auto simp: turns_ok_def)
  done

lemma run_turns_keeps: "P s \<Longrightarrow> run_turns n A s = Some (r, t) \<Longrightarrow> P t"
proof (induction n arbitrary: s)
  case (Suc n)
  obtain q u where turn: "run_turn A s = (q, u)" by fastforce
  then have "P u" using keepsD [OF keeps_run_turn Suc.prems(1), of A] by simp
  then show ?case using Suc.IH Suc.prems(2) turn by (auto split: sum.splits if_splits)
qed simp

end

section \<open>Executions of a run\<close>

text \<open>Since \<open>calls\<close>, only actions that the policy lets through were executed.\<close>

definition gate_open :: "jobj \<Rightarrow> string \<Rightarrow> bool" where
  "gate_open policy a \<longleftrightarrow> (case approval_names policy of Inr gated \<Rightarrow> a \<notin> set gated | Inl _ \<Rightarrow> False)"

definition executed_ungated :: "jobj \<Rightarrow> string list \<Rightarrow> lstate \<Rightarrow> bool" where
  "executed_ungated policy calls s \<longleftrightarrow> turns_ok (ls_cur s) \<and> lr_approval_policy (ls_cur s) = policy
     \<and> (\<exists>new. ls_calls s = calls @ new \<and> list_all (gate_open policy) new)"

interpretation gated: loop_turns "executed_ungated policy calls" "gate_open policy" for policy calls
proof unfold_locales
  show "executed_ungated policy calls (s\<lparr>ls_calls := ls_calls s @ [a]\<rparr>)"
    if "executed_ungated policy calls s" "gate_open policy a" for s a
    using that by (auto simp: executed_ungated_def)
  show "gate_open policy a" if "executed_ungated policy calls s"
    "approval_names (lr_approval_policy (ls_cur s)) = Inr gated" "a \<notin> set gated" for s gated a
    using that by (simp add: executed_ungated_def gate_open_def)
qed (auto simp: executed_ungated_def same_control_def)

lemma prepare_run_keeps_gate:
  assumes "map_of (ls_loops s) loop_id = Some loop" "turns_ok loop" "prepare_run A loop_id s = (r, t)"
  shows "executed_ungated (lr_approval_policy loop) (ls_calls s) t"
proof -
  let ?s = "s\<lparr>ls_cur := loop\<rparr>" and ?P = "executed_ungated (lr_approval_policy loop) (ls_calls s)"
  have load: "load_loop loop_id s = (Inr (), ?s)" using assms by (simp add: load_loop_def updL_def monad_defs)
  have "wpM (prepare_run A loop_id) (\<lambda>_. ?P) (\<lambda>_. ?P) s"
    unfolding prepare_run_def
    apply (rule vcg_thenM, rule wpM_value, rule load)
    apply (rule wpM_keeps [where P = ?P])
       apply (intro keeps_bindM keeps_thenM keeps_getsM keeps_if keeps_retM keeps_case_option gated.keeps_clear_cancel
        gated.keeps_budget_reason gated.keeps_stop_loop gated.keeps_load_cancel gated.keeps_cancel_for_request
        gated.keeps_recover_or_hold gated.keeps_turn_upd gated.keeps_save_loop)
           apply (simp_all add: turns_ok_def)
    using assms(2) apply (simp add: executed_ungated_def turns_ok_def)
    done
  then show ?thesis using assms(3) by (simp add: wpM_state_only)
qed

lemma run_loop_gate:
  assumes "map_of (ls_loops s) loop_id = Some loop" "turns_ok loop" "run_loop fuel A loop_id s = Some (r, t)"
  shows "executed_ungated (lr_approval_policy loop) (ls_calls s) t"
proof -
  obtain q u where prep: "prepare_run A loop_id s = (q, u)" by fastforce
  have "executed_ungated (lr_approval_policy loop) (ls_calls s) u"
    using prepare_run_keeps_gate [OF assms(1,2) prep] .
  then show ?thesis using assms(3) prep gated.run_turns_keeps
    by (auto simp: run_loop_def split: sum.splits if_splits)
qed

text \<open>Nothing was executed since \<open>calls\<close>.\<close>

definition executed_none :: "string list \<Rightarrow> lstate \<Rightarrow> bool" where
  "executed_none calls s \<longleftrightarrow> turns_ok (ls_cur s) \<and> ls_calls s = calls"

interpretation idle: loop_log "executed_none calls" "\<lambda>_. False" for calls
  by unfold_locales (auto simp: executed_none_def same_control_def)

text \<open>At most one execution, and of the action \<open>a\<close>.\<close>

definition executed_once :: "string \<Rightarrow> string list \<Rightarrow> lstate \<Rightarrow> bool" where
  "executed_once a calls s \<longleftrightarrow> executed_none calls s \<or> executed_none (calls @ [a]) s"

lemma once_keeps: "(\<And>c. keeps (executed_none c) m) \<Longrightarrow> keeps (executed_once a calls) m"
  unfolding keeps_def executed_once_def by (blast intro: wpM_conseq)

lemma wp_call_number:
  "executed_none c s \<Longrightarrow> (\<And>n t. executed_none (c @ [a]) t \<Longrightarrow> wpM (f n) Q R t) \<Longrightarrow> wpM (bindM (call_number a) f) Q R s"
  by (simp add: call_number_def wp executed_none_def)

lemma wp_execute_action:
  assumes "executed_none c s"
  shows "wpM (execute_action A a) (\<lambda>_. executed_once a c) (\<lambda>_. executed_once a c) s"
proof -
  have end': "wpM m (\<lambda>_. executed_once a c) (\<lambda>_. executed_once a c) t" if "keeps (executed_none d) m" "executed_none d t" "d = c \<or> d = c @ [a]"
    for m :: "'x lm" and d t
    using that by (auto simp: executed_once_def intro: wpM_keeps)
  have dispatch: "wpM (execute_dispatch A a) (\<lambda>_. executed_once a c) (\<lambda>_. executed_once a c) s"
    unfolding execute_dispatch_def Let_def
    apply (rule vcg_bindM, rule vcg_getsM, rule vcg_bindM, rule vcg_getsM, rule vcg_thenM)
    apply (rule wpM_keeps [OF idle.keeps_raise_if_cancelled assms])
     apply (rule wp_call_number, assumption, rule end')
       apply (intro keeps_bindM keeps_thenM keeps_retM idle.keeps_raise_if_cancelled idle.keeps_dispatch_wait)
      apply (assumption, rule disjI2, rule refl)
    apply (simp add: executed_once_def)
    done
  have call: "wpM (bindM (call_number a) f) (\<lambda>_. executed_once a c) (\<lambda>_. executed_once a c) s"
    if "\<And>n d. keeps (executed_none d) (f n)" for f :: "nat \<Rightarrow> jobj lm"
    by (rule wp_call_number [OF assms], rule end' [OF that], assumption, rule disjI2, rule refl)
  have stay: "executed_once a c s" using assms by (simp add: executed_once_def)
  show ?thesis
    unfolding execute_action_def
    apply (rule vcg_bindM, rule vcg_getsM, rule vcg_bindM, rule vcg_getsM)
    apply (rule vcg_if, rule vcg_bindM, rule vcg_liftM, rule stay, rule call, rule keeps_liftM)
    apply (rule vcg_if, rule dispatch)
    apply (rule vcg_if, rule call, intro keeps_bindM keeps_liftM keeps_retM)
    apply (rule vcg_if, rule vcg_bindM, rule vcg_liftM, rule stay, rule call, rule keeps_liftM)
    apply (rule vcg_if, rule call, rule keeps_liftM)
    apply (rule vcg_if, rule call, rule keeps_liftM)
    apply (rule vcg_retM, rule stay)
    done
qed

lemma approve_executes_only:
  assumes "map_of (ls_loops s) loop_id = Some loop" "turns_ok loop" "find_action action_id loop = Some step"
    and "approve_action A loop_id action_id s = (r, t)"
  shows "executed_once (step_type step) (ls_calls s) t"
    and "lp_status step \<noteq> ''waiting_approval'' \<Longrightarrow> ls_calls t = ls_calls s"
proof -
  let ?s = "s\<lparr>ls_cur := loop\<rparr>" and ?P = "executed_once (step_type step) (ls_calls s)" and ?N = "executed_none (ls_calls s)"
  have load: "load_loop loop_id s = (Inr (), ?s)" using assms by (simp add: load_loop_def updL_def monad_defs)
  have N: "?N ?s" using assms(2) by (simp add: executed_none_def)
  then have P: "?P ?s" by (simp add: executed_once_def)
  have turn: "0 \<le> lp_turn step" using turns_ok_find [OF assms(2)] assms(3) by (simp add: find_action_def)
  have after: "keeps ?P (case executed of Inl exc \<Rightarrow> approval_failed A action_id running exc | Inr payload \<Rightarrow> approval_done A running payload)"
    if "0 \<le> lp_turn running" for executed running
    using that by (intro once_keeps keeps_case_sum idle.keeps_approval_failed idle.keeps_approval_done)
  have run: "wpM (bindM (mark_step_running A (step\<lparr>lp_action := (lp_action step)\<lparr>la_approval_status := Some ''approved''\<rparr>\<rparr>) p) (\<lambda>running.
      bindM (catchM (bindM (execute_action A (step_type step)) (\<lambda>p. retM (Inr p))) (\<lambda>exc. retM (Inl exc))) (\<lambda>executed.
      case executed of Inl exc \<Rightarrow> approval_failed A action_id running exc | Inr payload \<Rightarrow> approval_done A running payload)))
      (\<lambda>_. ?P) (\<lambda>_. ?P) ?s" for p
    apply (rule vcg_bindM, rule wpM_yields [OF idle.yields_mark_running N])
      apply (simp add: turn)
     apply (simp only: wpM_bindM wpM_catchM)
     apply (rule wpM_conseq [OF wp_execute_action], blast)
      apply (simp only: wpM_retM, rule wpM_keeps [OF after], simp add: turn, assumption+)
     apply (simp only: wpM_retM, rule wpM_keeps [OF after], simp add: turn, assumption+)
    apply (simp add: executed_once_def)
    done
  have "wpM (approve_action A loop_id action_id) (\<lambda>_. ?P) (\<lambda>_. ?P) s"
    unfolding approve_action_def
    apply (rule vcg_thenM, rule wpM_value, rule load, rule vcg_bindM, rule vcg_getsM, rule vcg_if, rule vcg_retM, rule P)
    apply (subgoal_tac "find_action action_id (ls_cur ?s) = Some step", simp only: option.case)
     apply (rule vcg_if, rule vcg_retM, rule P)
     apply (rule run)
    apply (simp add: assms(3))
    done
  then show "?P t" using assms(4) by (simp add: wpM_state_only)
  show "ls_calls t = ls_calls s" if "lp_status step \<noteq> ''waiting_approval''"
    using that assms(3,4) load by (auto simp: approve_action_def monad_defs split: if_splits)
qed

end
