(* ===== verification/LoopFacts.thy ===== *)
theory LoopFacts
  imports LoopGate "HOL-Library.Sublist"
begin

text \<open>
  Properties of the decisions of the agent loop: the contract and the budgets a loop starts with, the
  progress through a host's action plan, the agent a dispatch goes to, and what reaches the memory.
\<close>

section \<open>Progress through a plan\<close>

fun matched :: "'a list \<Rightarrow> 'a list \<Rightarrow> nat" where
  "matched [] xs = 0"
| "matched (p # ps) [] = 0"
| "matched (p # ps) (x # xs) = (if x = p then Suc (matched ps xs) else matched (p # ps) xs)"

lemma matched_le: "matched plan xs \<le> length plan"
  by (induction plan xs rule: matched.induct) auto

lemma progress_matched:
  "i \<le> length plan \<Longrightarrow> foldl (\<lambda>i step. if i \<ge> length plan then i else if step_type step = plan ! i then i + 1 else i) i steps
     = i + matched (drop i plan) (map step_type steps)"
proof (induction steps arbitrary: i)
  case Nil
  then show ?case by (cases "drop i plan") simp_all
next
  case (Cons s steps)
  show ?case
  proof (cases "i < length plan")
    case True
    then have "drop i plan = plan ! i # drop (Suc i) plan" by (simp add: Cons_nth_drop_Suc)
    then show ?thesis using True Cons.IH [of i] Cons.IH [of "Suc i"] by auto
  next
    case False
    then show ?thesis using Cons by simp
  qed
qed

lemma subseq_Cons_greedy: "subseq (p # ps) (x # xs) \<longleftrightarrow> (if x = p then subseq ps xs else subseq (p # ps) xs)"
  by (auto simp: subseq_Cons2_iff)

lemma matched_maximal: "n \<le> length plan \<Longrightarrow> subseq (take n plan) xs \<longleftrightarrow> n \<le> matched plan xs"
proof (induction plan xs arbitrary: n rule: matched.induct)
  case (2 p ps)
  then show ?case by (cases n) auto
next
  case (3 p ps x xs)
  then show ?case
  proof (cases "x = p")
    case True
    then show ?thesis using 3 by (cases n) (simp_all add: subseq_Cons_greedy)
  next
    case False
    then have "matched (p # ps) (x # xs) = matched (p # ps) xs" "n \<noteq> 0 \<Longrightarrow> subseq (take n (p # ps)) (x # xs) = subseq (take n (p # ps)) xs"
      by (cases n; simp add: subseq_Cons_greedy)+
    then show ?thesis using 3(2) [OF False] 3(3) by (cases "n = 0") simp_all
  qed
qed simp

text \<open>C12: The index the loop keeps into a host's action plan is the length of the longest prefix of the
  plan that the types of its steps contain in order.\<close>

theorem plan_progress_longest_prefix:
  "host_action_plan_progress loop plan = Max {n. n \<le> length plan \<and> subseq (take n plan) (map step_type (lr_steps loop))}"
proof -
  have "host_action_plan_progress loop plan = matched plan (map step_type (lr_steps loop))"
    using progress_matched [of 0 plan "lr_steps loop"] by (simp add: host_action_plan_progress_def)
  moreover have "{n. n \<le> length plan \<and> subseq (take n plan) (map step_type (lr_steps loop))}
      = {0..matched plan (map step_type (lr_steps loop))}"
    using matched_maximal [of _ plan "map step_type (lr_steps loop)"] matched_le [of plan "map step_type (lr_steps loop)"] by auto
  moreover have "Max {0..m} = m" for m :: nat by (rule Max_eqI) auto
  ultimately show ?thesis by simp
qed

section \<open>Goal execution contracts\<close>

definition execution_contract_typed :: "jobj \<Rightarrow> bool" where
  "execution_contract_typed c \<longleftrightarrow> set (map fst c) = set goal_execution_fields
     \<and> jget c ''schema_version'' = JStr ''across-goal-execution-contract/1.0''
     \<and> (\<exists>g. jget c ''goal_id'' = JStr g \<and> g \<noteq> [] \<and> py_strip g = g)
     \<and> (\<exists>t. jget c ''task_id'' = JStr t \<and> t \<noteq> [] \<and> py_strip t = t)
     \<and> (\<exists>n. jget c ''goal_revision'' = JInt n \<and> 1 \<le> n)
     \<and> (\<exists>xs. jget c ''criterion_ids'' = jstrs xs \<and> xs \<noteq> [] \<and> sorted xs \<and> distinct xs \<and> list_all (\<lambda>x. py_strip x \<noteq> []) xs)
     \<and> (\<exists>f. jget c ''input_fingerprint'' = JStr f \<and> length f = 64 \<and> list_all is_hex_lower f)"

lemma strip_strip [simp]: "py_strip (py_strip s) = py_strip s"
  using clean_strip [of undefined "JStr s"] by (simp add: clean_JStr)

lemma blank_stringE: "\<not> blank_string v \<Longrightarrow> (\<And>s. v = JStr s \<Longrightarrow> py_strip s \<noteq> [] \<Longrightarrow> thesis) \<Longrightarrow> thesis"
  by (auto simp: blank_string_def split: json.splits)

lemma string_items_Some:
  assumes "string_items v = Some xs" shows "v = jstrs xs \<and> xs \<noteq> [] \<and> list_all (\<lambda>x. py_strip x \<noteq> []) xs"
proof -
  obtain ys where v: "v = JArr ys" and ys: "ys \<noteq> []" "list_all (\<lambda>x. \<not> blank_string x) ys"
    and xs: "xs = map (\<lambda>x. case x of JStr s \<Rightarrow> s | _ \<Rightarrow> []) ys"
    using assms by (auto simp: string_items_def split: json.splits if_splits)
  have "map JStr xs = ys" "list_all (\<lambda>x. py_strip x \<noteq> []) xs"
    using ys(2) unfolding xs by (induction ys) (auto simp: blank_string_def split: json.splits)
  then show ?thesis using v ys xs by (auto simp: jstrs_def)
qed

lemma string_items_jstrs: "xs \<noteq> [] \<Longrightarrow> list_all (\<lambda>x. py_strip x \<noteq> []) xs \<Longrightarrow> string_items (jstrs xs) = Some xs"
proof -
  assume "xs \<noteq> []" "list_all (\<lambda>x. py_strip x \<noteq> []) xs"
  moreover have "list_all (\<lambda>x. \<not> blank_string x) (map JStr xs) \<longleftrightarrow> list_all (\<lambda>x. py_strip x \<noteq> []) xs"
    by (induction xs) (auto simp: blank_string_def)
  moreover have "map (\<lambda>x. case x of JStr s \<Rightarrow> s | _ \<Rightarrow> []) (map JStr xs) = xs" by (induction xs) auto
  ultimately show ?thesis by (simp add: string_items_def jstrs_def)
qed

lemma jset_same: "jlookup o' k = Some v \<Longrightarrow> jset o' k v = o'"
  by (induction o' k v rule: jset.induct) (auto simp: jlookup_def split: if_splits)

lemma jget_jlookup: "jget o' k = v \<Longrightarrow> v \<noteq> JNull \<Longrightarrow> jlookup o' k = Some v"
  by (cases "jlookup o' k") (auto simp: jget_def)

lemma execution_contract_result:
  assumes "normalize_goal_execution_contract v = Inr c"
  shows "execution_contract_typed c"
proof -
  obtain o' where v: "v = JObj o'" using assms by (cases v) (auto simp: normalize_goal_execution_contract_def)
  obtain xs where items: "string_items (jget o' ''criterion_ids'') = Some xs"
    using assms unfolding v normalize_goal_execution_contract_def
    by (cases "string_items (jget o' ''criterion_ids'')") (simp_all add: bindE_Inr_iff checkE_Inr_iff)
  note facts = assms [unfolded v normalize_goal_execution_contract_def, simplified, unfolded items bindE_Inr_iff checkE_Inr_iff, simplified]
  have keys: "set (map fst o') = set goal_execution_fields"
    and schema: "jget o' ''schema_version'' = JStr ''across-goal-execution-contract/1.0''"
    and goal: "\<not> blank_string (jget o' ''goal_id'')" and task: "\<not> blank_string (jget o' ''task_id'')"
    and rev: "case jget o' ''goal_revision'' of JInt n \<Rightarrow> 1 \<le> n | _ \<Rightarrow> False" and dist: "distinct xs"
    and fp: "case jget o' ''input_fingerprint'' of JStr f \<Rightarrow> length f = 64 \<and> list_all is_hex_lower f | _ \<Rightarrow> False"
    and c: "c = jset (jset (jset o' ''goal_id'' (stripped (jget o' ''goal_id''))) ''task_id'' (stripped (jget o' ''task_id'')))
       ''criterion_ids'' (jstrs (sort xs))"
    using facts by (simp_all add: bindE_Inr_iff checkE_Inr_iff)
  have "set (map fst c) = set goal_execution_fields"
  proof -
    have "''goal_id'' \<in> set goal_execution_fields" "''task_id'' \<in> set goal_execution_fields"
      "''criterion_ids'' \<in> set goal_execution_fields" by (simp_all add: goal_execution_fields_def)
    then show ?thesis by (simp only: c jset_keys keys insert_absorb)
  qed
  moreover have "\<exists>g. jget c ''goal_id'' = JStr g \<and> g \<noteq> [] \<and> py_strip g = g"
    using goal unfolding c by (elim blank_stringE) (simp add: stripped_def)
  moreover have "\<exists>t. jget c ''task_id'' = JStr t \<and> t \<noteq> [] \<and> py_strip t = t"
    using task unfolding c by (elim blank_stringE) (simp add: stripped_def)
  moreover have "\<exists>ys. jget c ''criterion_ids'' = jstrs ys \<and> ys \<noteq> [] \<and> sorted ys \<and> distinct ys \<and> list_all (\<lambda>x. py_strip x \<noteq> []) ys"
    using string_items_Some [OF items] dist unfolding c
    by (intro exI [of _ "sort xs"]) (auto simp: list_all_iff simp flip: set_empty)
  ultimately show ?thesis
    using schema rev fp unfolding execution_contract_typed_def c
    by (auto split: json.splits)
qed

lemma execution_contract_fixed:
  assumes "execution_contract_typed c" shows "normalize_goal_execution_contract (JObj c) = Inr c"
proof -
  obtain g t n xs f where f: "set (map fst c) = set goal_execution_fields"
    "jget c ''schema_version'' = JStr ''across-goal-execution-contract/1.0''"
    "jget c ''goal_id'' = JStr g" "g \<noteq> []" "py_strip g = g"
    "jget c ''task_id'' = JStr t" "t \<noteq> []" "py_strip t = t"
    "jget c ''goal_revision'' = JInt n" "1 \<le> n"
    "jget c ''criterion_ids'' = jstrs xs" "xs \<noteq> []" "sorted xs" "distinct xs" "list_all (\<lambda>x. py_strip x \<noteq> []) xs"
    "jget c ''input_fingerprint'' = JStr f" "length f = 64" "list_all is_hex_lower f"
    using assms by (auto simp: execution_contract_typed_def)
  have same: "jset c ''goal_id'' (JStr g) = c" "jset c ''task_id'' (JStr t) = c" "jset c ''criterion_ids'' (jstrs xs) = c"
    using f by (auto intro!: jset_same jget_jlookup simp: jstrs_def)
  show ?thesis
    using f by (simp add: normalize_goal_execution_contract_def blank_string_def stripped_def string_items_jstrs sort_key_id_if_sorted same)
qed

text \<open>C13: An accepted goal execution contract is well typed: exactly the known fields, non-blank stripped
  ids, a positive revision, sorted distinct criteria, a digest; accepting it again changes nothing, and
  every well-typed contract is accepted as it is.\<close>

theorem execution_contract_type:
  assumes "normalize_goal_execution_contract v = Inr c"
  shows "execution_contract_typed c \<and> normalize_goal_execution_contract (JObj c) = Inr c"
  using execution_contract_result [OF assms] execution_contract_fixed by blast

definition sample_contract :: jobj where
  "sample_contract = [(''schema_version'', JStr ''across-goal-execution-contract/1.0''), (''goal_id'', JStr '' g-1 ''),
     (''goal_revision'', JInt 2), (''task_id'', JStr ''t-1''), (''criterion_ids'', jstrs [''c2'', ''c1'']),
     (''input_fingerprint'', JStr (replicate 64 (CHR ''a'')))]"

theorem execution_contract_type_witness:
  "\<exists>c. normalize_goal_execution_contract (JObj sample_contract) = Inr c \<and> execution_contract_typed c
     \<and> jget c ''criterion_ids'' = jstrs [''c1'', ''c2'']"
proof -
  have ok: "normalize_goal_execution_contract (JObj sample_contract) =
      Inr (jset (jset (jset sample_contract ''goal_id'' (JStr ''g-1'')) ''task_id'' (JStr ''t-1'')) ''criterion_ids'' (jstrs [''c1'', ''c2'']))"
    by code_simp
  show ?thesis using execution_contract_type [OF ok] ok by simp
qed

section \<open>Starting a loop\<close>

text \<open>The other loops are as they were.\<close>

definition only_loop_changed :: "string \<Rightarrow> lstate \<Rightarrow> lstate \<Rightarrow> bool" where
  "only_loop_changed i s t \<longleftrightarrow> (\<forall>j. j \<noteq> i \<longrightarrow> map_of (ls_loops t) j = map_of (ls_loops s) j)"

lemma effective_max_turns_bounds:
  "1 \<le> effective_max_turns E m n" "n \<le> effective_max_turns E m n"
  "metadata_action_plan E m \<noteq> [] \<Longrightarrow>
     int (length (metadata_action_plan E m) + implicit_quality_turn_count (metadata_action_plan E m)) \<le> effective_max_turns E m n"
  by (auto simp: effective_max_turns_def turns_or_default_def action_plan_min_turns_def Let_def split: option.splits)

lemma turns_or_default_effective: "turns_or_default (effective_max_turns E m n) = effective_max_turns E m n"
  using effective_max_turns_bounds(1) [where E = E and m = m and n = n] by (auto simp: turns_or_default_def)

definition freshly_started :: "loop_request \<Rightarrow> jobj \<Rightarrow> lstate \<Rightarrow> lstate \<Rightarrow> bool" where
  "freshly_started rq m s t \<longleftrightarrow> (let l = ls_cur t; plan = host_action_plan (ls_interp s) l in
     saved t \<and> only_loop_changed (lr_loop_id l) s t \<and> turns_ok l \<and> lr_status l = ''pending'' \<and> lr_steps l = []
     \<and> lr_turn_count l = 0 \<and> lr_metadata l = m \<and> lr_goal l = py_strip (rq_goal rq)
     \<and> 1 \<le> lr_max_turns l \<and> opt_or (budget_max_turns m) (rq_max_turns rq) \<le> lr_max_turns l
     \<and> (plan \<noteq> [] \<longrightarrow> int (length plan + implicit_quality_turn_count plan) \<le> lr_max_turns l))"

lemma keeps_active_count: "keeps P active_loop_count"
  unfolding active_loop_count_def list_loop_ids_def by (intro keeps_bindM keeps_getsM)

lemma keeps_enforce: "keeps P (enforce_start_concurrency_budget m)"
  unfolding enforce_start_concurrency_budget_def
  by (intro keeps_case_option keeps_retM keeps_bindM keeps_active_count keeps_guardM)

lemma start_loop_spec:
  assumes "start_loop resolve rq s = (Inr (), t)"
  obtains m where "start_metadata (ls_interp s) rq = Inr m" "freshly_started rq m s t"
proof -
  obtain m where m: "start_metadata (ls_interp s) rq = Inr m"
    using assms by (auto simp: start_loop_def monad_defs split: sum.splits)
  let ?E = "ls_interp s"
  let ?req = "opt_or (budget_max_turns m) (rq_max_turns rq)"
  let ?N = "\<lambda>l. lr_status l = ''pending'' \<and> lr_steps l = [] \<and> lr_turn_count l = 0 \<and> lr_metadata l = m
      \<and> lr_goal l = py_strip (rq_goal rq) \<and> lr_max_turns l = effective_max_turns ?E m ?req"
  let ?R = "\<lambda>l ls. map_of ls (lr_loop_id l) = Some l \<and> (\<forall>j. j \<noteq> lr_loop_id l \<longrightarrow> map_of ls j = map_of (ls_loops s) j) \<and> ?N l"
  have saves: "wpM (thenM (updL (\<lambda>_. l)) (thenM save_loop n)) Q (\<lambda>_ _. True) u"
    if "\<And>v. ?R (ls_cur v) (ls_loops v) \<Longrightarrow> wpM n Q (\<lambda>_ _. True) v" "ls_loops u = ls_loops s \<and> ?N l" for l u Q and n :: "unit lm"
    unfolding updL_def save_loop_def nowL_def
    by (simp only: wpM_bindM wpM_thenM wpM_getsM wpM_modifyM wpM_retM) (rule that(1), use that(2) in simp)
  have tail: "keeps (\<lambda>u. ?R (ls_cur u) (ls_loops u)) (bindM budget_policyL (\<lambda>budget. emit ty (p budget)))" for ty p
    by (intro keeps_bindM frame_log)
  have new: "wpM (new_loop resolve rq (effective_max_turns ?E m ?req) m) (\<lambda>l u. ls_loops u = ls_loops s \<and> ?N l) (\<lambda>_ _. True) u"
    if "u = s" for u
    using that by (simp add: new_loop_def new_id_def uuidL_def nowL_def wp turns_or_default_effective)
  have "wpM (start_loop resolve rq) (\<lambda>_ u. ?R (ls_cur u) (ls_loops u)) (\<lambda>_ _. True) s"
    unfolding start_loop_def Let_def
    apply (rule vcg_bindM, rule vcg_getsM, rule vcg_bindM)
    apply (simp only: wpM_liftM m sum.case)
    apply (rule vcg_thenM, rule wpM_keeps [OF keeps_enforce [where P = "\<lambda>u. u = s"]], rule refl)
     apply (rule vcg_bindM, rule wpM_conseq [OF new])
      apply assumption
     apply (erule saves [rotated])
     apply (rule wpM_keeps [OF tail])
       apply simp_all
    done
  then have "?R (ls_cur t) (ls_loops t)" using assms by (simp add: wpM_def)
  then have "freshly_started rq m s t"
    using effective_max_turns_bounds [where E = ?E and m = m and n = ?req]
    by (auto simp: freshly_started_def saved_def only_loop_changed_def turns_ok_def host_action_plan_def Let_def)
  then show ?thesis using that m by blast
qed

text \<open>A started loop is saved, pending and without steps, with the validated metadata, and no other
  loop changes; its turn budget is at least one, at least what the caller asked for, and enough for every
  action of its plan and the quality gates the plan leaves implicit.\<close>

theorem start_loop_fits_plan:
  assumes "start_loop resolve rq s = (Inr (), t)"
  shows "\<exists>m. start_metadata (ls_interp s) rq = Inr m \<and> freshly_started rq m s t"
  using start_loop_spec [OF assms] by blast

definition loop_env :: pyenv where
  "loop_env = \<lparr>float_repr = (\<lambda>_. ''0.0''), float_of_str = (\<lambda>_. None), nfkc = (\<lambda>s. s), bracketed_host_ok = (\<lambda>_. False)\<rparr>"

definition sample_request :: loop_request where
  "sample_request = \<lparr>rq_goal = '' Ship it '', rq_project_root = ''/p'', rq_agent = [], rq_max_turns = 2, rq_memory_policy = [],
     rq_approval_policy = [(''requireApprovalFor'', jstrs [''final_output''])],
     rq_metadata = [(''actionPlan'', jstrs [''task_dispatch'', ''lint_check'', ''final_output''])], rq_goal_execution_contract = JNull\<rparr>"

definition sample_loop :: loop_run where
  "sample_loop = \<lparr>lr_loop_id = ''loop-1'', lr_goal = ''Ship it'', lr_project_root = ''/p'', lr_status = ''pending'', lr_agent = ''owner'',
     lr_max_turns = 5, lr_turn_count = 0, lr_memory_policy = [], lr_approval_policy = [(''requireApprovalFor'', jstrs [''final_output''])],
     lr_metadata = [], lr_steps = [], lr_checkpoint_count = 0, lr_finding_state = None, lr_findings = [], lr_finding_history = [],
     lr_final_output = JNull, lr_error = None, lr_created_at = 0, lr_updated_at = 0\<rparr>"

definition sample_store :: "loop_run list \<Rightarrow> lstate" where
  "sample_store loops = \<lparr>ls_cur = sample_loop, ls_loops = map (\<lambda>l. (lr_loop_id l, l)) loops, ls_events = [], ls_cancels = [],
     ls_clock = (\<lambda>n. of_nat n), ls_tick = 0, ls_uuids = (\<lambda>n. nat_str (n + 1000)), ls_uuid_next = 0,
     ls_arrivals = (\<lambda>_. None), ls_look = 0, ls_calls = [], ls_interp = loop_env\<rparr>"

lemma start_loop_succeeds:
  assumes "start_metadata (ls_interp s) rq = Inr m" "budget_max_concurrent_loops m = None"
  shows "\<exists>t. start_loop resolve rq s = (Inr (), t)"
proof -
  have "wpM (start_loop resolve rq) (\<lambda>_ _. True) (\<lambda>_ _. False) s"
    using assms
    by (simp add: start_loop_def enforce_start_concurrency_budget_def new_loop_def new_id_def uuidL_def nowL_def updL_def
        save_loop_def budget_policyL_def emit_def append_loop_event_def wp Let_def)
  then show ?thesis unfolding wpM_returns by auto
qed

theorem start_loop_fits_plan_sample:
  "\<exists>t m. start_loop (\<lambda>p. p) sample_request (sample_store []) = (Inr (), t) \<and> freshly_started sample_request m (sample_store []) t"
proof -
  have "start_metadata loop_env sample_request = Inr (rq_metadata sample_request)"
    "budget_max_concurrent_loops (rq_metadata sample_request) = None" by code_simp+
  moreover have "ls_interp (sample_store []) = loop_env" by (simp add: sample_store_def)
  ultimately obtain t where t: "start_loop (\<lambda>p. p) sample_request (sample_store []) = (Inr (), t)"
    using start_loop_succeeds [of "sample_store []" sample_request "rq_metadata sample_request" "\<lambda>p. p"] by metis
  show ?thesis using start_loop_fits_plan [OF t] t by auto
qed

section \<open>Routing\<close>

text \<open>C14: Unless the loop's own agent is forbidden, a dispatch never goes to an agent the host's capability
  constraints forbid, whatever static routes and capability hints say.\<close>

theorem routing_avoids_forbidden:
  assumes "lr_agent loop \<notin> set (capability_hint_forbidden_agents E loop)"
  shows "\<exists>a. jget (agent_routing E loop action_type) ''selected_agent'' = JStr a
    \<and> a \<notin> set (capability_hint_forbidden_agents E loop)"
  using routing_choice_allowed [OF assms] by (auto simp: agent_routing_agent)

definition fenced_loop :: loop_run where
  "fenced_loop = sample_loop\<lparr>lr_metadata := [(''agentRouting'', JObj [(''task_dispatch'', JStr ''rogue'')]),
     (''agentCapabilityHints'', JObj [(''constraints'', JObj [(''forbid'', JArr [JStr ''rogue''])]),
       (''preferred'', JObj [(''default'', JStr ''rogue'')])])]\<rparr>"

theorem routing_avoids_forbidden_witness:
  "capability_hint_forbidden_agents loop_env fenced_loop = [''rogue''] \<and>
   (\<exists>a. jget (agent_routing loop_env fenced_loop ''task_dispatch'') ''selected_agent'' = JStr a \<and> a \<notin> {''rogue''})"
proof -
  have f: "capability_hint_forbidden_agents loop_env fenced_loop = [''rogue'']" by code_simp
  show ?thesis using routing_avoids_forbidden [of fenced_loop loop_env "''task_dispatch''"]
    unfolding f by (simp add: fenced_loop_def sample_loop_def)
qed

section \<open>Memory\<close>

text \<open>The texts of a candidate that come from the goal, the project or the observations.\<close>

definition observed_keys :: "string list" where
  "observed_keys = [''goal'', ''project_root'', ''summary'', ''path'', ''action'', ''kind'', ''cmd'', ''failure_type'', ''gates'', ''memory_ids'']"

definition plain_texts :: "json \<Rightarrow> string list" where
  "plain_texts v = (case v of JStr s \<Rightarrow> [s] | JArr xs \<Rightarrow> List.map_filter (\<lambda>x. case x of JStr s \<Rightarrow> Some s | _ \<Rightarrow> None) xs | _ \<Rightarrow> [])"

fun observed_texts :: "json \<Rightarrow> string list" where
  "observed_texts (JObj o') = concat (map (\<lambda>p. if fst p \<in> set observed_keys then plain_texts (snd p) else observed_texts (snd p)) o')"
| "observed_texts (JArr xs) = concat (map observed_texts xs)"
| "observed_texts _ = []"

definition clean_text :: "string \<Rightarrow> bool" where
  "clean_text s \<longleftrightarrow> list_all (\<lambda>w. \<not> py_contains (py_lower s) w) memory_blocked_words"

lemma safe_clean: "clean_text (memory_safe_string E n v)"
  by (simp add: clean_text_def list_all_iff memory_safe_string_clean)

abbreviation shows_clean :: "json \<Rightarrow> bool" where
  "shows_clean v \<equiv> list_all clean_text (observed_texts v)"

lemma shows_clean_obj:
  "shows_clean (JObj o') \<longleftrightarrow> list_all (\<lambda>p. if fst p \<in> set observed_keys then list_all clean_text (plain_texts (snd p)) else shows_clean (snd p)) o'"
  by (induction o') (auto simp: list_all_iff)

lemma shows_clean_objs: "shows_clean (objs os) \<longleftrightarrow> list_all (\<lambda>o'. shows_clean (JObj o')) os"
  by (induction os) (auto simp: objs_def)

lemma list_all_concat: "list_all P (concat xss) \<longleftrightarrow> list_all (list_all P) xss"
  by (induction xss) auto

lemma list_all_map: "(\<And>x. P (f x)) \<Longrightarrow> list_all P (map f xs)"
  by (induction xs) auto

lemma list_all_map_filter: "(\<And>x y. f x = Some y \<Longrightarrow> P y) \<Longrightarrow> list_all P (List.map_filter f xs)"
  by (induction xs) (auto simp: List.map_filter_simps split: option.splits)

lemma plain_jstrs: "plain_texts (jstrs xs) = xs"
  by (induction xs) (auto simp: jstrs_def plain_texts_def List.map_filter_simps)

lemma constant_texts_clean: "clean_text ''remediation dispatch completed''" "clean_text ''pre_loop_search''"
  by code_simp+

lemma step_summary_clean: "memory_step_summary E step = Some s \<Longrightarrow> clean_text s"
  by (auto simp: memory_step_summary_def safe_clean)

lemmas clean_entry = shows_clean_obj observed_keys_def plain_texts_def [of "JStr s" for s] safe_clean constant_texts_clean

lemma memory_entries_clean:
  "shows_clean (JObj (memory_decision E step))"
  "memory_command E step = Some o1 \<Longrightarrow> shows_clean (JObj o1)"
  "memory_remediation E step = Some o2 \<Longrightarrow> shows_clean (JObj o2)"
  "memory_artifact E step item = Some o3 \<Longrightarrow> shows_clean (JObj o3)"
  by (auto simp: memory_decision_def memory_command_def memory_remediation_def memory_artifact_def clean_entry Let_def
      dest: step_summary_clean split: option.splits if_splits json.splits sum.splits prod.splits)

lemma safe_take_clean: "list_all clean_text (take n (map (\<lambda>x. memory_safe_string E k (f x)) xs))"
  by (auto simp: list_all_iff safe_clean dest!: in_set_takeD)

lemma safe_list_clean: "list_all clean_text (memory_safe_list E v)"
  using safe_take_clean [of 20 E 240 "\<lambda>x. x"] by (auto simp: memory_safe_list_def safe_clean split: json.splits)

lemma memory_failure_clean: "memory_failure E step = Some o' \<Longrightarrow> shows_clean (JObj o')"
  by (auto simp: memory_failure_def clean_entry plain_jstrs safe_list_clean Let_def split: if_splits)

lemma memory_refs_clean: "memory_refs E step = Inr os \<Longrightarrow> list_all (\<lambda>o'. shows_clean (JObj o')) os"
  by (auto simp: memory_refs_def clean_entry plain_jstrs bindE_Inr_iff Let_def safe_take_clean split: if_splits)

lemma memory_refs_all_clean:
  "mapE (memory_refs E) steps = Inr refs \<Longrightarrow> list_all (list_all (\<lambda>o'. shows_clean (JObj o'))) refs"
  by (induction steps arbitrary: refs) (auto simp: bindE_Inr_iff simp del: observed_texts.simps dest!: memory_refs_clean)

text \<open>The goal, the project root and every summary, path, command, failure, gate and memory id that a memory
  candidate takes from the loop's observations are free of the blocked words: secrets, credentials, keys, tokens and traces.\<close>

theorem memory_candidate_clean:
  assumes "memory_candidate_summary E loop = Inr o'"
  shows "list_all clean_text (observed_texts (JObj o'))"
proof -
  obtain refs where refs: "mapE (memory_refs E) (lr_steps loop) = Inr refs"
    and o': "o' = [(''schema_version'', JStr ''agent-loop-memory-candidate/1.0''), (''loop_id'', JStr (lr_loop_id loop)),
      (''goal'', JStr (memory_safe_string E 300 (JStr (lr_goal loop)))),
      (''project_root'', JStr (memory_safe_string E 500 (JStr (lr_project_root loop)))),
      (''outcome'', JStr (memory_candidate_outcome E loop)),
      (''decisions'', objs (map (memory_decision E) (lr_steps loop))),
      (''artifacts'', objs (concat (map (memory_artifacts E) (lr_steps loop)))),
      (''commands'', objs (List.map_filter (memory_command E) (lr_steps loop))),
      (''failure_types'', objs (List.map_filter (memory_failure E) (lr_steps loop))),
      (''remediation_outcomes'', objs (List.map_filter (memory_remediation E) (lr_steps loop))),
      (''memory_refs'', objs (concat refs))]"
    using assms by (auto simp: memory_candidate_summary_def bindE_Inr_iff)
  have "list_all (list_all (\<lambda>o'. shows_clean (JObj o'))) refs"
    using memory_refs_all_clean [OF refs] .
  then have "shows_clean (objs (concat refs))" unfolding shows_clean_objs list_all_concat .
  moreover have "list_all (\<lambda>o'. shows_clean (JObj o')) (memory_artifacts E step)" for step
    unfolding memory_artifacts_def Let_def
    by (cases "jors [jget (step_payload step) ''artifacts'', jget (step_payload step) ''artifact_paths'', jget (step_payload step) ''artifactPaths'', JArr []]")
      (simp_all add: list_all_map_filter memory_entries_clean(4) del: observed_texts.simps List.map_filter_simps)
  then have "shows_clean (objs (concat (map (memory_artifacts E) (lr_steps loop))))"
    unfolding shows_clean_objs list_all_concat by (rule list_all_map)
  moreover have "shows_clean (objs (List.map_filter (memory_command E) (lr_steps loop)))"
    "shows_clean (objs (List.map_filter (memory_failure E) (lr_steps loop)))"
    "shows_clean (objs (List.map_filter (memory_remediation E) (lr_steps loop)))"
    "shows_clean (objs (map (memory_decision E) (lr_steps loop)))"
    unfolding shows_clean_objs
    by (rule list_all_map_filter, erule memory_entries_clean memory_failure_clean)+ (rule list_all_map, rule memory_entries_clean(1))
  ultimately show ?thesis
    unfolding o' by (simp add: clean_entry del: observed_texts.simps(1,2))
qed

definition talkative_loop :: loop_run where
  "talkative_loop = sample_loop\<lparr>lr_goal := ''Rotate the API key'', lr_steps := [\<lparr>lp_step_id = ''step-1'', lp_loop_id = ''loop-1'', lp_turn = 1,
     lp_phase = ''execute'', lp_status = ''completed'',
     lp_action = \<lparr>la_action_id = ''action-1'', la_type = ''task_dispatch'', la_title = ''Dispatch'', la_payload = [],
       la_requires_approval = False, la_approval_status = None\<rparr>,
     lp_observation = \<lparr>lo_observation_id = ''observation-1'', lo_status = ''completed'',
       lo_payload = [(''summary'', JStr ''used TOKEN abc''), (''cmd'', JStr ''make test''), (''exit_code'', JInt 0)]\<rparr>,
     lp_checkpoint = [], lp_created_at = 0, lp_updated_at = 0\<rparr>]\<rparr>"

theorem memory_candidate_clean_sample:
  "\<exists>o'. memory_candidate_summary loop_env talkative_loop = Inr o' \<and> jget o' ''goal'' = JStr ''[redacted]''
     \<and> list_all clean_text (observed_texts (JObj o'))"
proof -
  obtain o' where o': "memory_candidate_summary loop_env talkative_loop = Inr o'"
    by (simp add: memory_candidate_summary_def talkative_loop_def sample_loop_def memory_refs_def)
  have "case memory_candidate_summary loop_env talkative_loop of Inr o' \<Rightarrow> jget o' ''goal'' = JStr ''[redacted]'' | Inl _ \<Rightarrow> False"
    by code_simp
  then show ?thesis using memory_candidate_clean [OF o'] o' by simp
qed

end
