(* ===== verification/LoopProps.thy ===== *)
theory LoopProps
  imports LoopFacts
begin

text \<open>
  Properties of whole calls on a loop: \<open>run_loop\<close> returns and leaves the loop settled or held,
  executes nothing that waits for an approval and nothing while the lease of a running action lives;
  \<open>cancel_loop\<close> closes every step; finished loops stay as they are.
\<close>

section \<open>Runs return\<close>

text \<open>C6: A run of a loop returns: its number of turns is bounded by the turn budget and the
  recoveries its metadata grant, whatever the adapters answer and whenever cancellations arrive.\<close>

theorem run_loop_terminates:
  assumes "map_of (ls_loops s) loop_id = Some loop" "turns_ok loop"
  shows "\<exists>r. \<forall>fuel \<ge> turn_fuel (ls_interp s) loop. run_loop fuel A loop_id s = Some r"
  by (rule run_loop_returns [OF assms])

abbreviation one_loop :: lstate where
  "one_loop \<equiv> sample_store [sample_loop]"

lemma one_loop_facts:
  "map_of (ls_loops one_loop) ''loop-1'' = Some sample_loop" "turns_ok sample_loop" "lr_loop_id sample_loop = ''loop-1''"
  "ls_interp one_loop = loop_env"
  by (simp_all add: sample_store_def sample_loop_def turns_ok_def)

definition host_adapters :: loop_adapters where
  "host_adapters = default_adapters loop_env False (\<lambda>_ _ _ _. Inr JNull) (\<lambda>_ _ _. MissingFile)"

theorem run_loop_terminates_witness:
  "turn_fuel loop_env sample_loop \<le> 18 \<and> (\<exists>r. run_loop 18 host_adapters ''loop-1'' one_loop = Some r)"
proof -
  have "turn_fuel loop_env sample_loop \<le> 18" by code_simp
  then show ?thesis
    using run_loop_terminates [OF one_loop_facts(1,2), of host_adapters] unfolding one_loop_facts(4) by blast
qed

section \<open>Outcome of a run\<close>



section \<open>Approvals\<close>

text \<open>C8: A run executes no action whose type the loop's approval policy names, and nothing at all
  when the policy cannot be read.\<close>

theorem run_loop_respects_approvals:
  assumes "map_of (ls_loops s) loop_id = Some loop" "turns_ok loop" "run_loop fuel A loop_id s = Some (r, t)"
  shows "\<exists>new. ls_calls t = ls_calls s @ new
    \<and> (\<forall>a\<in>set new. \<exists>gated. approval_names (lr_approval_policy loop) = Inr gated \<and> a \<notin> set gated)"
  using run_loop_gate [OF assms]
  by (cases "approval_names (lr_approval_policy loop)") (auto simp: executed_ungated_def gate_open_def list_all_iff)

theorem run_loop_respects_approvals_witness:
  "\<exists>r t. run_loop 18 host_adapters ''loop-1'' one_loop = Some (r, t) \<and> ''final_output'' \<notin> set (ls_calls t)"
proof -
  have "turn_fuel loop_env sample_loop \<le> 18" by code_simp
  then obtain r t where run: "run_loop 18 host_adapters ''loop-1'' one_loop = Some (r, t)"
    using run_loop_returns [OF one_loop_facts(1,2), of host_adapters] unfolding one_loop_facts(4) by (metis surj_pair)
  have "approval_names (lr_approval_policy sample_loop) = Inr [''final_output'']" by code_simp
  moreover have "ls_calls one_loop = []" by (simp add: sample_store_def)
  ultimately have "''final_output'' \<notin> set (ls_calls t)"
    using run_loop_respects_approvals [OF one_loop_facts(1,2) run] by auto
  then show ?thesis using run by blast
qed

text \<open>C9: Approving an action executes at most that action, at most once, and only if it still waits for
  an approval.\<close>

theorem approval_executes_approved_only:
  assumes "map_of (ls_loops s) loop_id = Some loop" "turns_ok loop" "find_action action_id loop = Some step"
    and "approve_action A loop_id action_id s = (r, t)"
  shows "(ls_calls t = ls_calls s \<or> ls_calls t = ls_calls s @ [step_type step])
    \<and> (lp_status step \<noteq> ''waiting_approval'' \<longrightarrow> ls_calls t = ls_calls s)"
  using approve_executes_only [OF assms] by (auto simp: executed_once_def executed_none_def)

definition waiting_step :: loop_step where
  "waiting_step = \<lparr>lp_step_id = ''step-1'', lp_loop_id = ''loop-1'', lp_turn = 1, lp_phase = ''approval'', lp_status = ''waiting_approval'',
     lp_action = \<lparr>la_action_id = ''action-1'', la_type = ''final_output'', la_title = ''Finish'', la_payload = [],
       la_requires_approval = True, la_approval_status = Some ''pending''\<rparr>,
     lp_observation = \<lparr>lo_observation_id = ''observation-1'', lo_status = ''pending'', lo_payload = []\<rparr>,
     lp_checkpoint = [], lp_created_at = 0, lp_updated_at = 0\<rparr>"

definition waiting_loop :: loop_run where
  "waiting_loop = sample_loop\<lparr>lr_status := ''awaiting_approval'', lr_turn_count := 1, lr_steps := [waiting_step]\<rparr>"

lemma waiting_loop_facts:
  "map_of (ls_loops (sample_store [waiting_loop])) ''loop-1'' = Some waiting_loop" "turns_ok waiting_loop"
  "lr_loop_id waiting_loop = ''loop-1''" "find_action ''action-1'' waiting_loop = Some waiting_step"
  "ls_interp (sample_store [waiting_loop]) = loop_env" "ls_calls (sample_store [waiting_loop]) = []"
  by (simp_all add: sample_store_def sample_loop_def waiting_loop_def waiting_step_def turns_ok_def find_action_def)

theorem approval_executes_approved_only_witness:
  "\<exists>r t. approve_action host_adapters ''loop-1'' ''action-1'' (sample_store [waiting_loop]) = (r, t)
     \<and> ls_calls t \<in> {[], [''final_output'']}"
proof -
  obtain r t where run: "approve_action host_adapters ''loop-1'' ''action-1'' (sample_store [waiting_loop]) = (r, t)" by fastforce
  show ?thesis
    using approval_executes_approved_only [OF waiting_loop_facts(1,2,4) run] run waiting_loop_facts(6)
    by (auto simp: waiting_step_def)
qed

section \<open>Leases\<close>

text \<open>The next two readings of the clock come before the end of the lease, if it has an end.\<close>

definition lease_lives :: "lstate \<Rightarrow> loop_step \<Rightarrow> bool" where
  "lease_lives s step \<longleftrightarrow> (case float_or_none (ls_interp s) (jget (execution_from_checkpoint step) ''lease_expires_at'') of
      None \<Rightarrow> True
    | Some expires \<Rightarrow> ls_clock s (ls_tick s) < expires \<and> ls_clock s (Suc (ls_tick s)) < expires)"

definition untouched :: "loop_run \<Rightarrow> lstate \<Rightarrow> lstate \<Rightarrow> bool" where
  "untouched loop s u \<longleftrightarrow> ls_cur u = loop \<and> ls_interp u = ls_interp s \<and> ls_clock u = ls_clock s
     \<and> (ls_tick u = ls_tick s \<or> ls_tick u = Suc (ls_tick s)) \<and> ls_calls u = ls_calls s"

lemma wp_hold_alive:
  assumes "untouched loop s u" "turns_ok loop" "latest_running_step loop = Some step" "lease_lives s step"
  shows "wpM (recover_or_hold_running_action A) (\<lambda>go t. executed_none (ls_calls s) t \<and> \<not> go) (\<lambda>_ _. False) u"
proof -
  let ?e = "float_or_none (ls_interp s) (jget (execution_from_checkpoint step) ''lease_expires_at'')"
  have u: "ls_cur u = loop" "ls_interp u = ls_interp s" "ls_clock u = ls_clock s" "ls_calls u = ls_calls s"
    and tick: "ls_tick u = ls_tick s \<or> ls_tick u = Suc (ls_tick s)" using assms(1) by (auto simp: untouched_def)
  have live: "case ?e of None \<Rightarrow> True | Some t \<Rightarrow> ls_clock s (ls_tick u) < t"
    using assms(4) tick by (auto simp: lease_lives_def split: option.splits)
  have hold: "wpM (thenM (updL (\<lambda>l. l\<lparr>lr_status := ''running''\<rparr>)) (thenM save_loop (retM False)))
      (\<lambda>go t. executed_none (ls_calls s) t \<and> \<not> go) (\<lambda>_ _. False) v" if "ls_cur v = loop" "ls_calls v = ls_calls s" for v
    using that assms(2) by (simp add: wp updL_def save_loop_def nowL_def executed_none_def turns_ok_def)
  show ?thesis
    unfolding recover_or_hold_running_action_def Let_def
    using live hold u assms(3) by (cases ?e) (simp_all add: wp nowL_def)
qed

lemma wp_look_untouched:
  assumes "untouched loop s u" "turns_ok loop"
  shows "wpM (load_loop_cancel_request i) (\<lambda>q t. executed_none (ls_calls s) t \<and> (q = None \<longrightarrow> untouched loop s t)) (\<lambda>_ _. False) u"
  using assms
  by (cases "ls_arrivals u (ls_look u)")
    (simp_all add: load_loop_cancel_request_def announce_cancel_def request_loop_cancel_def append_loop_event_def uuidL_def nowL_def
      Let_def wp executed_none_def untouched_def)

text \<open>C10: While the lease of a running action lives, or when the action has no lease that ends, another run of
  the loop executes nothing: the action is not started twice.\<close>

theorem live_lease_not_rerun:
  assumes "map_of (ls_loops s) loop_id = Some loop" "turns_ok loop" "latest_running_step loop = Some step" "lease_lives s step"
    and run: "run_loop fuel A loop_id s = Some (r, t)"
  shows "ls_calls t = ls_calls s"
proof -
  let ?N = "executed_none (ls_calls s)" and ?s = "s\<lparr>ls_cur := loop\<rparr>"
  let ?Q = "\<lambda>go t. ?N t \<and> \<not> go"
  have load: "load_loop loop_id s = (Inr (), ?s)" using assms by (simp add: load_loop_def updL_def monad_defs)
  have N: "untouched loop s u \<Longrightarrow> ?N u" for u using assms(2) by (simp add: executed_none_def untouched_def)
  have stop: "wpM (thenM m (retM False)) ?Q (\<lambda>_. ?N) u" if "keeps ?N m" "?N u" for m :: "unit lm" and u
    by (rule vcg_thenM, rule wpM_keeps [OF that]) (simp_all add: wp)
  have look: "wpM (bindM (load_loop_cancel_request i) (\<lambda>request. case request of
          Some q \<Rightarrow> thenM (cancel_for_request A q) (retM False)
        | None \<Rightarrow> bindM (recover_or_hold_running_action A) (\<lambda>go. if \<not> go then retM False else f go))) ?Q (\<lambda>_. ?N) u"
    if "untouched loop s u" for i u and f :: "bool \<Rightarrow> bool lm"
    apply (rule vcg_bindM, rule wpM_conseq [OF wp_look_untouched [OF that assms(2)]], rule vcg_case_option)
      apply (rule vcg_bindM, rule wpM_conseq [OF wp_hold_alive [OF _ assms(2-4)]], simp, simp add: wp, simp)
     apply (rule stop [OF idle.keeps_cancel_for_request], simp_all)
    done
  have "wpM (prepare_run A loop_id) ?Q (\<lambda>_. ?N) s"
    unfolding prepare_run_def
    apply (rule vcg_thenM, rule wpM_value, rule load, rule vcg_bindM, rule vcg_getsM, rule vcg_if)
     apply (rule stop [OF idle.keeps_clear_cancel], simp add: executed_none_def assms)
    apply (rule vcg_bindM, rule wpM_conseq [where Q = "\<lambda>_. untouched loop s" and E = "\<lambda>_ _. False"])
       apply (simp add: budget_reasonL_def nowL_def wp untouched_def)
      apply (rule vcg_case_option)
       apply (rule look, assumption)
      apply (rule stop [OF idle.keeps_stop_loop], rule N, assumption)
     apply simp
    done
  then show ?thesis using run by (auto simp: run_loop_def wpM_def executed_none_def split: prod.splits sum.splits if_splits)
qed

definition leased_loop :: loop_run where
  "leased_loop = sample_loop\<lparr>lr_status := ''running'', lr_turn_count := 1, lr_steps := [waiting_step\<lparr>lp_status := ''running'',
     lp_checkpoint := [(''execution'', JObj [(''lease_id'', JStr ''lease-1''), (''lease_expires_at'', JFloat 300)])]\<rparr>]\<rparr>"

theorem live_lease_not_rerun_witness:
  "\<exists>r t. run_loop 18 host_adapters ''loop-1'' (sample_store [leased_loop]) = Some (r, t) \<and> ls_calls t = []"
proof -
  let ?s = "sample_store [leased_loop]" and ?step = "hd (lr_steps leased_loop)"
  have loop: "map_of (ls_loops ?s) ''loop-1'' = Some leased_loop" "turns_ok leased_loop" "ls_interp ?s = loop_env" "ls_calls ?s = []"
    by (simp_all add: sample_store_def leased_loop_def sample_loop_def turns_ok_def waiting_step_def)
  have step: "latest_running_step leased_loop = Some ?step" by code_simp
  have "float_or_none loop_env (jget (execution_from_checkpoint ?step) ''lease_expires_at'') = Some 300" by code_simp
  then have alive: "lease_lives ?s ?step" by (simp add: lease_lives_def sample_store_def)
  have "turn_fuel loop_env leased_loop \<le> 18" by code_simp
  then obtain r t where run: "run_loop 18 host_adapters ''loop-1'' ?s = Some (r, t)"
    using run_loop_returns [OF loop(1,2), of host_adapters] unfolding loop(3) by (metis surj_pair)
  show ?thesis using live_lease_not_rerun [OF loop(1,2) step alive run] run loop(4) by simp
qed

section \<open>Finished loops\<close>

text \<open>What a caller can see of the loops: the stored ones, their events and the executed actions.\<close>

definition same_record :: "lstate \<Rightarrow> lstate \<Rightarrow> bool" where
  "same_record s t \<longleftrightarrow> ls_loops t = ls_loops s \<and> ls_events t = ls_events s \<and> ls_calls t = ls_calls s"

text \<open>Running, approving, rejecting and cancelling a finished loop succeed and change neither a stored loop nor
  an event log, and execute nothing.\<close>

theorem finished_loop_stays:
  assumes "map_of (ls_loops s) loop_id = Some loop" "lr_status loop \<in> set TERMINAL_LOOP_STATUSES"
  shows "(\<exists>t. run_loop fuel A loop_id s = Some (Inr (), t) \<and> same_record s t)
    \<and> (\<exists>t. approve_action A loop_id action_id s = (Inr (), t) \<and> same_record s t)
    \<and> (\<exists>t. reject_action loop_id action_id reason s = (Inr (), t) \<and> same_record s t)
    \<and> (\<exists>t. cancel_loop A lock_free loop_id reason category s = (Inr (), t) \<and> same_record s t)"
  using assms
  by (simp add: run_loop_def prepare_run_def approve_action_def reject_action_def cancel_loop_def load_loop_def updL_def
      clear_loop_cancel_request_def monad_defs same_record_def)

theorem finished_loop_stays_sample:
  "\<exists>t. cancel_loop host_adapters True ''loop-1'' ''late'' JNull (sample_store [sample_loop\<lparr>lr_status := ''completed''\<rparr>]) = (Inr (), t)
     \<and> map_of (ls_loops t) ''loop-1'' = Some (sample_loop\<lparr>lr_status := ''completed''\<rparr>)"
proof -
  have "map_of (ls_loops (sample_store [sample_loop\<lparr>lr_status := ''completed''\<rparr>])) ''loop-1'' = Some (sample_loop\<lparr>lr_status := ''completed''\<rparr>)"
    by (simp add: sample_store_def sample_loop_def)
  then show ?thesis
    using finished_loop_stays [of "sample_store [sample_loop\<lparr>lr_status := ''completed''\<rparr>]" "''loop-1''" "sample_loop\<lparr>lr_status := ''completed''\<rparr>"]
    by (fastforce simp: same_record_def TERMINAL_LOOP_STATUSES_def)
qed

section \<open>Cancellation\<close>

text \<open>Operations that never raise.\<close>

definition total :: "('s, 'a) pyM \<Rightarrow> bool" where
  "total m \<longleftrightarrow> (\<forall>s. \<exists>x t. m s = (Inr x, t))"

named_theorems total_rules \<open>operations that never raise\<close>

lemma total_basic [total_rules]: "total (retM x)" "total (getsM g)" "total (modifyM h)"
  by (simp_all add: total_def monad_defs)

lemma total_bindM [total_rules]: "total m \<Longrightarrow> (\<And>x. total (f x)) \<Longrightarrow> total (bindM m f)"
  unfolding total_def bindM_def by (metis (mono_tags, lifting) case_prod_conv sum.simps(6))

lemma total_thenM [total_rules]: "total m \<Longrightarrow> total n \<Longrightarrow> total (thenM m n)"
  unfolding thenM_def by (rule total_bindM)

lemma total_if [total_rules]: "total m \<Longrightarrow> total n \<Longrightarrow> total (if b then m else n)"
  by simp

lemma total_Let [total_rules]: "(\<And>x. total (f x)) \<Longrightarrow> total (Let v f)"
  by simp

lemma total_case_option [total_rules]: "total m \<Longrightarrow> (\<And>x. total (f x)) \<Longrightarrow> total (case v of None \<Rightarrow> m | Some x \<Rightarrow> f x)"
  by (cases v) auto

lemma total_foldM [total_rules]: "(\<And>a x. total (f a x)) \<Longrightarrow> total (foldM f a xs)"
  by (induction xs arbitrary: a) (auto intro: total_rules)

lemma total_forM [total_rules]: "(\<And>x. total (f x)) \<Longrightarrow> total (forM xs f)"
  by (induction xs) (auto intro: total_rules)

lemma total_liftM: "total (liftM (Inr x))"
  by (simp add: total_def monad_defs)

lemma total_primitives [total_rules]: "total nowL" "total uuidL" "total (updL f)" "total (clear_loop_cancel_request i)"
  unfolding nowL_def uuidL_def updL_def clear_loop_cancel_request_def by (intro total_rules)+

lemma total_store [total_rules]: "total (new_id p)" "total save_loop" "total (append_loop_event i ty q)" "total count_checkpoints"
  "total (step_now step)" "total (request_loop_cancel i r c)"
  unfolding new_id_def save_loop_def append_loop_event_def count_checkpoints_def step_now_def request_loop_cancel_def
  by (intro total_rules)+

lemma total_steps [total_rules]: "total (emit ty q)" "total (new_observation st q)" "total (announce_cancel i r c)"
  unfolding emit_def new_observation_def announce_cancel_def by (intro total_rules)+

lemma total_settle [total_rules]: "total (settle_step A step st os q cs)"
  unfolding settle_step_def by (intro total_rules)

lemma total_cancel_step [total_rules]: "total (cancel_step A reason category step)"
  unfolding cancel_step_def by (intro total_rules)

lemma cancel_category_value: "normalize_cancel_category E category reason = Inr c \<Longrightarrow> c \<in> set CANCEL_CATEGORY_VALUES"
proof -
  assume n: "normalize_cancel_category E category reason = Inr c"
  have aliases: "snd ` set CANCEL_CATEGORY_ALIASES = set CANCEL_CATEGORY_VALUES" by (auto simp: CANCEL_CATEGORY_ALIASES_def CANCEL_CATEGORY_VALUES_def)
  show ?thesis
  proof (cases "state_token E category = []")
    case True
    then show ?thesis using n by (auto simp: normalize_cancel_category_def Let_def CANCEL_CATEGORY_VALUES_def split: if_splits)
  next
    case False
    then have "map_of CANCEL_CATEGORY_ALIASES (state_token E category) = Some c"
      using n by (auto simp: normalize_cancel_category_def Let_def split: option.splits)
    then show ?thesis using aliases by (force dest: map_of_SomeD)
  qed
qed

lemma cancel_category_stable:
  assumes "normalize_cancel_category E category reason = Inr c"
  shows "normalize_cancel_category E' (JStr c) reason' = Inr c"
proof -
  have "list_all (\<lambda>c. py_strip c = c \<and> py_replace_char (CHR '' '') (CHR ''_'') (py_replace_char (CHR ''-'') (CHR ''_'') (py_lower c)) = c
      \<and> c \<noteq> [] \<and> map_of CANCEL_CATEGORY_ALIASES c = Some c) CANCEL_CATEGORY_VALUES" by code_simp
  then show ?thesis using cancel_category_value [OF assms]
    by (auto simp: list_all_iff normalize_cancel_category_def state_token_def clean_JStr Let_def)
qed

lemma total_wp: "total m \<Longrightarrow> wpM m (\<lambda>_ _. True) (\<lambda>_ _. False) s"
  by (simp add: total_def wpM_returns)

lemma cancel_loop_state_returns:
  assumes "normalize_cancel_category (ls_interp s) (opt_json category) (JStr (if reason = [] then ''cancelled'' else reason)) = Inr c"
  shows "\<exists>t. cancel_loop_state A reason category s = (Inr (), t)"
proof -
  have "wpM (cancel_loop_state A reason category) (\<lambda>_ _. True) (\<lambda>_ _. False) s"
    unfolding cancel_loop_state_def Let_def
    apply (rule vcg_bindM, rule vcg_getsM, rule vcg_bindM, rule vcg_getsM, rule vcg_bindM, rule vcg_liftM)
     apply (simp add: assms)
    apply (rule total_wp, intro total_rules)
    done
  then show ?thesis by (simp add: wpM_returns)
qed

lemma ensures_cancelled:
  "ensures (\<lambda>_ t. lr_status (ls_cur t) = ''cancelled'' \<and> lr_error (ls_cur t) = Some (if reason = [] then ''cancelled'' else reason))
     (cancel_loop_state A reason category)"
proof -
  let ?R = "\<lambda>l. lr_status l = ''cancelled'' \<and> lr_error l = Some (if reason = [] then ''cancelled'' else reason)"
  note frame = frame_log [where R = "\<lambda>l ls. ?R l"]
  have upd: "keeps (\<lambda>s. ?R (ls_cur s)) (updL f)" if "\<And>l. ?R l \<Longrightarrow> ?R (f l)" for f
    unfolding updL_def by (intro keeps_modifyM) (use that in simp)
  have save: "keeps (\<lambda>s. ?R (ls_cur s)) save_loop" "keeps (\<lambda>s. ?R (ls_cur s)) count_checkpoints"
    unfolding save_loop_def count_checkpoints_def by (intro keeps_bindM keeps_thenM frame upd keeps_modifyM; simp)+
  show ?thesis
    unfolding cancel_loop_state_def Let_def ensures_def
    apply (intro allI, rule vcg_bindM, rule vcg_getsM, rule vcg_bindM, rule vcg_getsM, rule vcg_bindM, rule vcg_liftM, simp)
    apply (rule vcg_bindM, rule wpM_any, rule vcg_thenM)
    apply (rule wpM_conseq [where Q = "\<lambda>_ t. ?R (ls_cur t)" and E = "\<lambda>_ _. False"], simp add: updL_def wp)
     apply (rule wpM_keeps [where P = "\<lambda>t. ?R (ls_cur t)"],
        intro keeps_bindM keeps_thenM keeps_if keeps_getsM keeps_retM keeps_forM frame save)
       apply simp_all
    done
qed

lemma wp_cancel_clears:
  assumes "lr_loop_id (ls_cur s) = i"
  shows "wpM (cancel_loop_state A reason category) (\<lambda>_ t. map_of (ls_cancels t) i = None) (\<lambda>_ _. True) s"
proof -
  let ?C = "\<lambda>t. map_of (ls_cancels t) i = None"
  have "keeps ?C nowL" "keeps ?C uuidL" unfolding nowL_def uuidL_def by (intro keeps_bindM keeps_thenM keeps_getsM keeps_modifyM keeps_retM; simp)+
  then have log: "keeps ?C (emit ty p)" for ty p
    unfolding emit_def append_loop_event_def by (intro keeps_bindM keeps_getsM keeps_modifyM) simp_all
  show ?thesis
    unfolding cancel_loop_state_def Let_def
    apply (rule vcg_bindM, rule vcg_getsM, rule vcg_bindM, rule vcg_getsM, rule vcg_bindM, rule vcg_liftM, simp)
    apply (rule vcg_bindM, rule wpM_any, rule vcg_thenM, rule wpM_any, rule vcg_thenM, rule wpM_any, rule vcg_thenM, rule wpM_any)
    apply (rule vcg_thenM, rule wpM_conseq [where Q = "\<lambda>_. ?C" and E = "\<lambda>_ _. False"])
      apply (simp add: clear_loop_cancel_request_def wp assms)
     apply (rule wpM_keeps [where P = ?C], intro keeps_bindM keeps_thenM keeps_if keeps_getsM keeps_retM keeps_forM log)
       apply simp_all
    done
qed

text \<open>C11: Cancelling an unfinished loop whose lock is free, with a category that is known or left out, succeeds:
  the stored loop is cancelled for the reason given, no step of it is running or waits for an approval, and the
  request is gone.\<close>

theorem cancel_loop_closes:
  assumes "map_of (ls_loops s) loop_id = Some loop" "lr_loop_id loop = loop_id" "lr_status loop \<notin> set TERMINAL_LOOP_STATUSES"
    and "normalize_cancel_category (ls_interp s) category (JStr (if reason = [] then ''cancelled'' else reason)) = Inr c"
  shows "\<exists>t. cancel_loop A True loop_id reason category s = (Inr (), t) \<and> saved t \<and> lr_status (ls_cur t) = ''cancelled''
    \<and> lr_error (ls_cur t) = Some (if reason = [] then ''cancelled'' else reason)
    \<and> list_all step_closed (lr_steps (ls_cur t)) \<and> map_of (ls_cancels t) loop_id = None"
proof -
  let ?r = "if reason = [] then ''cancelled'' else reason"
  obtain u where announced: "announce_cancel loop_id ?r c (s\<lparr>ls_cur := loop\<rparr>) = (Inr (), u)"
    and u: "ls_loops u = ls_loops s" "ls_interp u = ls_interp s"
    by (auto simp: announce_cancel_def request_loop_cancel_def append_loop_event_def uuidL_def nowL_def monad_defs Let_def)
  let ?u = "u\<lparr>ls_cur := loop\<rparr>"
  obtain t where t: "cancel_loop_state A ?r (Some c) ?u = (Inr (), t)"
    using cancel_loop_state_returns [of ?u "Some c" ?r] cancel_category_stable [OF assms(4)] by (fastforce simp: opt_json_def)
  have "cancel_loop A True loop_id reason category s = cancel_loop_state A ?r (Some c) ?u"
    using assms announced u by (simp add: cancel_loop_def load_loop_def updL_def monad_defs Let_def)
  moreover have "settled t" "open_among [] t" "lr_status (ls_cur t) = ''cancelled''" "lr_error (ls_cur t) = Some ?r"
    "map_of (ls_cancels t) loop_id = None"
    using ensuresD [OF ensures_cancel_loop_state, of A ?r "Some c" ?u] ensuresD [OF ensures_cancel_closes, of A ?r "Some c" ?u]
      ensuresD [OF ensures_cancelled [of ?r A "Some c"], of ?u] wp_cancel_clears [of ?u loop_id A ?r "Some c"] assms(2) t
    by (simp_all add: wpM_def split: if_splits)
  ultimately show ?thesis using t by (auto simp: settled_def open_among_def list_all_iff)
qed

theorem cancel_loop_closes_witness:
  "\<exists>t. cancel_loop host_adapters True ''loop-1'' [] (JStr ''Timeout'') (sample_store [waiting_loop]) = (Inr (), t)
     \<and> lr_status (ls_cur t) = ''cancelled'' \<and> list_all step_closed (lr_steps (ls_cur t))"
proof -
  have "normalize_cancel_category loop_env (JStr ''Timeout'') (JStr ''cancelled'') = Inr ''timeout_cancelled''" by code_simp
  moreover have "lr_status waiting_loop \<notin> set TERMINAL_LOOP_STATUSES" by (simp add: waiting_loop_def TERMINAL_LOOP_STATUSES_def)
  ultimately show ?thesis
    using cancel_loop_closes [OF waiting_loop_facts(1,3), of "JStr ''Timeout''" "[]" "''timeout_cancelled''" host_adapters]
    by (auto simp: waiting_loop_facts(5))
qed

section \<open>Irregularities\<close>

text \<open>\<open>retry_step\<close> reopens a loop whatever its status, also a completed or cancelled one, for which
  \<open>_executable_actions\<close> offers no retry.\<close>

lemma retry_reopens_finished:
  assumes "map_of (ls_loops s) loop_id = Some loop" "lr_steps loop = step # rest"
  shows "\<exists>t. retry_step loop_id (lp_step_id step) s = (Inr (), t) \<and> lr_status (ls_cur t) = ''running'' \<and> lr_steps (ls_cur t) = []"
  using assms
  by (simp add: retry_step_def load_loop_def updL_def rollback_loop_to_step_def rollback_loop_def save_loop_def emit_def
      append_loop_event_def uuidL_def nowL_def monad_defs Let_def)

lemma completed_offers_no_retry: "lr_status loop \<in> {''completed'', ''cancelled''} \<Longrightarrow> executable_actions loop pending = []"
  by (auto simp: executable_actions_def)

text \<open>An approved action ends as a completed step whatever its result: a host-declared check that fails after an
  approval is recorded as completed, while \<open>finish_step\<close> fails the same check of an ungated run.\<close>

lemma approved_check_completes:
  "ensures (\<lambda>_ t. \<exists>x\<in>set (lr_steps (ls_cur t)). lp_step_id x = lp_step_id step \<and> lp_status x = ''completed'') (approval_done A step payload)"
proof -
  let ?R = "\<lambda>l. \<exists>x\<in>set (lr_steps l). lp_step_id x = lp_step_id step \<and> lp_status x = ''completed''"
  note frame = frame_log [where R = "\<lambda>l ls. ?R l"]
  have upd: "keeps (\<lambda>s. ?R (ls_cur s)) (updL f)" if "\<And>l. lr_steps (f l) = lr_steps l" for f
    unfolding updL_def by (intro keeps_modifyM) (use that in simp)
  have save: "keeps (\<lambda>s. ?R (ls_cur s)) save_loop" "keeps (\<lambda>s. ?R (ls_cur s)) count_checkpoints"
    unfolding save_loop_def count_checkpoints_def by (intro keeps_bindM keeps_thenM frame upd keeps_modifyM; simp)+
  have put: "wpM (updL (put_step y)) (\<lambda>_ t. ?R (ls_cur t)) (\<lambda>_ _. True) u" if "lp_step_id y = lp_step_id step" "lp_status y = ''completed''" for y u
    using that by (auto simp: updL_def wp put_step_def)
  have now: "wpM (step_now step) (\<lambda>r t. lp_step_id r = lp_step_id step) (\<lambda>_ _. True) u" for u
    by (simp add: step_now_def wp split: option.splits)
  show ?thesis
    unfolding approval_done_def Let_def
    apply (rule ensures_bindM, rule ensures_bindM)
    unfolding ensures_def
    apply (rule allI, rule vcg_bindM, rule wpM_conseq [OF now], rule vcg_thenM, rule wpM_any, rule vcg_bindM, rule wpM_any)
     apply (rule vcg_bindM, rule wpM_any, rule vcg_bindM, rule wpM_any, rule vcg_bindM, rule wpM_any)
     apply (rule vcg_thenM, rule wpM_conseq [OF put], simp, simp)
      apply (rule wpM_keeps [where P = "\<lambda>t. ?R (ls_cur t)"], intro keeps_thenM keeps_if keeps_retM frame save upd)
         apply simp_all
    done
qed

end
