(* ===== verification/PyPath.thy ===== *)
theory PyPath
  imports LoopModel "HOL-Library.Sublist"
begin

text \<open>
  POSIX paths as \<open>pathlib\<close> and \<open>os.path\<close> have them, and the file system the code asks about them.
  A path is its root (\<open>''\<close>, \<open>/\<close> or \<open>//\<close>) and its parts. The answers of the operating system are
  parameters: home directories, the current directory, symbolic-link resolution, \<open>is_dir\<close> and
  \<open>lstat\<close>. They do not change during one call.
\<close>

record pypath =
  pp_root :: string
  pp_parts :: "string list"

text \<open>\<open>Path(s)\<close>: exactly two leading slashes are kept, any other number is one.\<close>

definition py_path :: "string \<Rightarrow> pypath" where
  "py_path s = \<lparr>pp_root = (if py_startswith s ''//'' \<and> \<not> py_startswith s ''///'' then ''//''
                           else if py_startswith s ''/'' then ''/'' else []),
                pp_parts = posix_parts s\<rparr>"

definition path_str :: "pypath \<Rightarrow> string" where
  "path_str p = (if pp_root p = [] \<and> pp_parts p = [] then ''.'' else pp_root p @ py_join ''/'' (pp_parts p))"

definition path_name :: "pypath \<Rightarrow> string" where
  "path_name p = (if pp_parts p = [] then [] else last (pp_parts p))"

definition is_absolute :: "pypath \<Rightarrow> bool" where
  "is_absolute p \<longleftrightarrow> pp_root p \<noteq> []"

text \<open>\<open>p == Path(p.anchor)\<close>\<close>

definition is_anchor :: "pypath \<Rightarrow> bool" where
  "is_anchor p \<longleftrightarrow> pp_parts p = []"

text \<open>\<open>p in q.parents\<close>\<close>

definition in_parents :: "pypath \<Rightarrow> pypath \<Rightarrow> bool" where
  "in_parents p q \<longleftrightarrow> pp_root p = pp_root q \<and> strict_prefix (pp_parts p) (pp_parts q)"

text \<open>\<open>q == p or p in q.parents\<close>: \<open>q\<close> is \<open>p\<close> or lies below it.\<close>

definition inside :: "pypath \<Rightarrow> pypath \<Rightarrow> bool" where
  "inside q p \<longleftrightarrow> q = p \<or> in_parents p q"

lemma inside_iff: "inside q p \<longleftrightarrow> pp_root p = pp_root q \<and> prefix (pp_parts p) (pp_parts q)"
  by (cases p; cases q) (auto simp: inside_def in_parents_def strict_prefix_def)

lemma inside_refl [simp]: "inside p p"
  by (simp add: inside_def)

lemma inside_trans: "inside r q \<Longrightarrow> inside q p \<Longrightarrow> inside r p"
  by (auto simp: inside_iff)

lemma inside_antisym: "inside q p \<Longrightarrow> inside p q \<Longrightarrow> p = q"
  by (cases p; cases q) (auto simp: inside_iff)

text \<open>Two paths with a common descendant are comparable.\<close>

lemma inside_common: "inside r p \<Longrightarrow> inside r q \<Longrightarrow> inside p q \<or> inside q p"
  by (auto simp: inside_iff dest: prefix_same_cases)

record file_system =
  fs_home :: "string \<Rightarrow> string option"
  fs_cwd :: string
  fs_resolve :: "pypath \<Rightarrow> pypath res"
  fs_resolve_strict :: "pypath \<Rightarrow> pypath res"
  fs_is_dir :: "pypath \<Rightarrow> bool"
  fs_lstat :: "pypath \<Rightarrow> (bool \<times> int \<times> int) res"

text \<open>\<open>p.expanduser()\<close>\<close>

definition expanduser :: "file_system \<Rightarrow> pypath \<Rightarrow> pypath res" where
  "expanduser F p = (case pp_parts p of
      h # rest \<Rightarrow> (if pp_root p = [] \<and> py_startswith h ''~'' then
          (case fs_home F h of
             None \<Rightarrow> Inl (RuntimeError ''Could not determine home directory.'')
           | Some home \<Rightarrow> Inr ((py_path home) \<lparr>pp_parts := pp_parts (py_path home) @ rest\<rparr>))
        else Inr p)
    | [] \<Rightarrow> Inr p)"

text \<open>\<open>Path(s).expanduser().resolve(strict=...)\<close>\<close>

definition resolve_text :: "file_system \<Rightarrow> string \<Rightarrow> pypath res" where
  "resolve_text F s = bindE (expanduser F (py_path s)) (fs_resolve F)"

definition resolve_strict :: "file_system \<Rightarrow> pypath \<Rightarrow> pypath res" where
  "resolve_strict F p = bindE (expanduser F p) (fs_resolve_strict F)"

text \<open>\<open>os.path.expanduser\<close>, \<open>normpath\<close> and \<open>abspath\<close> on texts.\<close>

definition os_expanduser :: "file_system \<Rightarrow> string \<Rightarrow> string" where
  "os_expanduser F s = (if py_startswith s ''~'' then
      (let h = takeWhile (\<lambda>c. c \<noteq> CHR ''/'') s; rest = drop (length h) s in
       case fs_home F h of None \<Rightarrow> s
       | Some home \<Rightarrow> (let r = List.rev (dropWhile (\<lambda>c. c = CHR ''/'') (List.rev home)) @ rest in if r = [] then ''/'' else r))
    else s)"

fun norm_parts :: "bool \<Rightarrow> string list \<Rightarrow> string list \<Rightarrow> string list" where
  "norm_parts rooted acc [] = acc"
| "norm_parts rooted acc (w # ws) = norm_parts rooted
     (if w = [] \<or> w = ''.'' then acc
      else if w \<noteq> ''..'' \<or> (\<not> rooted \<and> acc = []) \<or> (acc \<noteq> [] \<and> last acc = ''..'') then acc @ [w]
      else butlast acc) ws"

definition os_normpath :: "string \<Rightarrow> string" where
  "os_normpath s = (let r = pp_root (py_path s); body = r @ py_join ''/'' (norm_parts (r \<noteq> []) [] (py_split (CHR ''/'') s))
     in if body = [] then ''.'' else body)"

definition os_join :: "string \<Rightarrow> string \<Rightarrow> string" where
  "os_join a b = (if py_startswith b ''/'' then b else if a = [] \<or> py_endswith a ''/'' then a @ b else a @ ''/'' @ b)"

definition os_abspath :: "file_system \<Rightarrow> string \<Rightarrow> string" where
  "os_abspath F s = os_normpath (if py_startswith s ''/'' then s else os_join (fs_cwd F) s)"

text \<open>
  What the code relies on: resolving strictly differs from resolving leniently only in that it
  raises when the path does not exist, and a resolved path is absolute and resolves to itself.
\<close>

definition resolves_consistently :: "file_system \<Rightarrow> bool" where
  "resolves_consistently F \<longleftrightarrow>
     (\<forall>p q. fs_resolve_strict F p = Inr q \<longrightarrow> fs_resolve F p = Inr q \<and> is_absolute q \<and> fs_resolve_strict F q = Inr q)"

lemma expanduser_absolute: "is_absolute p \<Longrightarrow> expanduser F p = Inr p"
  by (auto simp: expanduser_def is_absolute_def split: list.splits)

lemma resolve_strict_again:
  "resolves_consistently F \<Longrightarrow> resolve_strict F p = Inr q \<Longrightarrow> resolve_strict F q = Inr q"
  by (auto simp: resolve_strict_def resolves_consistently_def expanduser_absolute bindE_def split: sum.splits)

lemma resolve_strict_text: "resolves_consistently F \<Longrightarrow> resolve_strict F (py_path s) = Inr q \<Longrightarrow> resolve_text F s = Inr q"
  by (auto simp: resolve_strict_def resolve_text_def resolves_consistently_def bindE_def split: sum.splits)

end
