(* ===== verification/Redaction.thy ===== *)
theory Redaction
  imports LoopModel "HOL-Library.Sublist"
begin

text \<open>
  Redaction of credentials in values that leave the process (\<open>redaction.py\<close>): values under
  sensitive keys and texts that look like keys of well-known services or private keys. After
  redaction nothing is left to redact.
\<close>

section \<open>Keys\<close>

text \<open>\<open>SENSITIVE_KEY_RE.search\<close>\<close>

definition sensitive_words :: "string list" where
  "sensitive_words = [''password'', ''passwd'', ''pwd'', ''secret'', ''token'', ''api_key'', ''api-key'', ''apikey'', ''credential'',
     ''client_secret'', ''client-secret'', ''clientsecret'', ''private_key'', ''private-key'', ''privatekey'']"

definition is_sensitive_key :: "string \<Rightarrow> bool" where
  "is_sensitive_key k \<longleftrightarrow> list_ex (py_contains (py_lower k)) sensitive_words"

text \<open>\<open>value in SAFE_SENSITIVE_FIELD_VALUES\<close>: \<open>False == 0 == 0.0\<close>; a list or dict is unhashable.\<close>

definition is_safe_sensitive_field_value :: "json \<Rightarrow> bool" where
  "is_safe_sensitive_field_value v \<longleftrightarrow> (case v of
      JNull \<Rightarrow> True | JBool b \<Rightarrow> \<not> b | JInt n \<Rightarrow> n = 0 | JFloat r \<Rightarrow> r = 0
    | JStr s \<Rightarrow> s \<in> {[], ''false'', ''none'', ''not_allowed'', ''disabled'', ''not_included''}
    | _ \<Rightarrow> False)"

section \<open>Texts\<close>

text \<open>A prefix, compared without case, followed by at least sixteen characters of a class.\<close>

definition match_token :: "string list \<Rightarrow> (char \<Rightarrow> bool) \<Rightarrow> string \<Rightarrow> nat option" where
  "match_token heads ok s = (case List.find (\<lambda>p. py_lower (take (length p) s) = p) heads of
      None \<Rightarrow> None
    | Some p \<Rightarrow> let k = length (takeWhile ok (drop (length p) s)) in if 16 \<le> k then Some (length p + k) else None)"

definition sk_char :: "char \<Rightarrow> bool" where
  "sk_char c \<longleftrightarrow> is_alnum_ascii c \<or> c = CHR ''_'' \<or> c = CHR ''-''"

definition gh_char :: "char \<Rightarrow> bool" where
  "gh_char c \<longleftrightarrow> is_alnum_ascii c \<or> c = CHR ''_''"

definition xox_char :: "char \<Rightarrow> bool" where
  "xox_char c \<longleftrightarrow> is_alnum_ascii c \<or> c = CHR ''-''"

definition match_service_key :: "string \<Rightarrow> nat option" where
  "match_service_key s = (case match_token [''sk-''] sk_char s of
      Some n \<Rightarrow> Some n
    | None \<Rightarrow> (case match_token [''ghp_'', ''gho_'', ''ghu_'', ''ghs_'', ''ghr_''] gh_char s of
        Some n \<Rightarrow> Some n
      | None \<Rightarrow> match_token [''xoxb-'', ''xoxa-'', ''xoxp-'', ''xoxr-'', ''xoxs-''] xox_char s))"

definition letter_or_space :: "char \<Rightarrow> bool" where
  "letter_or_space c \<longleftrightarrow> is_upper_ascii c \<or> is_lower_ascii c \<or> c = CHR '' ''"

text \<open>\<open>-----BEGIN [A-Z ]*PRIVATE KEY-----\<close> without case: the run of letters and spaces must end in the
  words and be followed by the dashes.\<close>

definition match_private_key :: "string \<Rightarrow> nat option" where
  "match_private_key s = (let run = takeWhile letter_or_space (drop 11 s) in
     if py_lower (take 11 s) = ''-----begin '' \<and> py_endswith (py_lower run) ''private key''
       \<and> py_startswith (drop (11 + length run) s) ''-----''
     then Some (16 + length run) else None)"

definition prev_alnum :: "char option \<Rightarrow> bool" where
  "prev_alnum prev \<longleftrightarrow> (case prev of Some c \<Rightarrow> is_alnum_ascii c | None \<Rightarrow> False)"

definition match_sensitive :: "char option \<Rightarrow> string \<Rightarrow> nat option" where
  "match_sensitive prev s = (case (if prev_alnum prev then None else match_service_key s) of
      Some n \<Rightarrow> Some n
    | None \<Rightarrow> match_private_key s)"

definition redact_text :: "string \<Rightarrow> string" where
  "redact_text s = re_sub match_sensitive ''[redacted]'' None s"

fun redact_sensitive_value :: "json \<Rightarrow> json" where
  "redact_sensitive_value (JObj o') = JObj (map (\<lambda>p. (fst p,
      if is_sensitive_key (fst p) \<and> \<not> is_safe_sensitive_field_value (snd p) then JStr ''[redacted]''
      else redact_sensitive_value (snd p))) o')"
| "redact_sensitive_value (JArr xs) = JArr (map redact_sensitive_value xs)"
| "redact_sensitive_value (JStr s) = JStr (redact_text s)"
| "redact_sensitive_value v = v"

section \<open>What redaction leaves\<close>

text \<open>Whether a secret starts at some place of a text.\<close>

fun has_secret :: "char option \<Rightarrow> string \<Rightarrow> bool" where
  "has_secret prev [] = False"
| "has_secret prev (c # cs) = (match_sensitive prev (c # cs) \<noteq> None \<or> has_secret (Some c) cs)"

definition stem :: "string \<Rightarrow> string" where
  "stem s = takeWhile (\<lambda>c. c \<noteq> CHR ''['') s"

lemma stem_simps: "stem [] = []" "stem (c # cs) = (if c = CHR ''['' then [] else c # stem cs)"
  by (simp_all add: stem_def)

text \<open>What a pattern accepts has no bracket, and is accepted whatever follows it.\<close>

definition self_contained :: "(string \<Rightarrow> nat option) \<Rightarrow> bool" where
  "self_contained m \<longleftrightarrow> (\<forall>s n. m s = Some n \<longrightarrow> 0 < n \<and> n \<le> length s \<and> CHR ''['' \<notin> set (take n s) \<and> (\<forall>y. m (take n s @ y) \<noteq> None))"

lemma self_containedD: "self_contained m \<Longrightarrow> m s = Some n \<Longrightarrow> 0 < n \<and> n \<le> length s \<and> CHR ''['' \<notin> set (take n s) \<and> (\<forall>y. m (take n s @ y) \<noteq> None)"
  by (simp add: self_contained_def)

lemma lower_no_bracket: "py_lower w = p \<Longrightarrow> CHR ''['' \<notin> set p \<Longrightarrow> CHR ''['' \<notin> set w"
proof
  assume "py_lower w = p" "CHR ''['' \<notin> set p" "CHR ''['' \<in> set w"
  moreover have "lower_char (CHR ''['') = CHR ''[''" by code_simp
  ultimately show False by (force simp: py_lower_def)
qed

lemma run_append: "k \<le> length (takeWhile ok xs) \<Longrightarrow> k \<le> length (takeWhile ok (takeWhile ok xs @ y))"
  by (simp add: takeWhile_append)

lemma token_self_contained:
  assumes "list_all (\<lambda>p. length p = L \<and> CHR ''['' \<notin> set p) heads" "\<not> ok (CHR ''['')" "0 < L"
  shows "self_contained (match_token heads ok)"
  unfolding self_contained_def
proof (intro allI impI)
  fix s n assume m: "match_token heads ok s = Some n"
  obtain p where p: "List.find (\<lambda>p. py_lower (take (length p) s) = p) heads = Some p"
    using m by (auto simp: match_token_def split: option.splits)
  let ?run = "takeWhile ok (drop L s)"
  have pp: "p \<in> set heads" "py_lower (take (length p) s) = p" using p by (auto simp: find_Some_iff in_set_conv_nth)
  then have len: "length p = L" "CHR ''['' \<notin> set p" using assms(1) by (auto simp: list_all_iff)
  have n: "n = L + length ?run" "16 \<le> length ?run" using m p len by (auto simp: match_token_def Let_def split: if_splits)
  have Ls: "L \<le> length s" using pp(2) len by (metis length_map length_take min.absorb_iff2 py_lower_def)
  have w: "take n s = take L s @ ?run"
    unfolding n take_add by (metis takeWhile_eq_take)
  have "CHR ''['' \<notin> set ?run" using assms(2) by (auto dest: set_takeWhileD)
  moreover have "CHR ''['' \<notin> set (take L s)" using lower_no_bracket pp(2) len by auto
  moreover have "match_token heads ok (take n s @ y) \<noteq> None" for y
  proof -
    have same: "take L (take n s @ y) = take L s" "drop L (take n s @ y) = ?run @ y" unfolding w using Ls by simp_all
    have eq: "py_lower (take (length q) (take n s @ y)) = q \<longleftrightarrow> py_lower (take (length q) s) = q" if "q \<in> set heads" for q
      using assms(1) that same by (auto simp: list_all_iff)
    have "List.find (\<lambda>q. py_lower (take (length q) (take n s @ y)) = q) heads = List.find (\<lambda>q. py_lower (take (length q) s) = q) heads"
      by (rule find_cong [OF refl]) (rule eq)
    then have "List.find (\<lambda>q. py_lower (take (length q) (take n s @ y)) = q) heads = Some p" using p by (simp only:)
    moreover have "16 \<le> length (takeWhile ok (?run @ y))"
      using run_append [OF n(2)] .
    ultimately show ?thesis unfolding match_token_def by (simp only: Let_def len same(2) option.case if_True) simp
  qed
  moreover have "n \<le> length s" unfolding n using Ls length_takeWhile_le [of ok "drop L s"] by simp
  moreover have "0 < n" using assms(3) n by simp
  ultimately show "0 < n \<and> n \<le> length s \<and> CHR ''['' \<notin> set (take n s) \<and> (\<forall>y. match_token heads ok (take n s @ y) \<noteq> None)"
    unfolding w by (simp only: set_append Un_iff) blast
qed


lemma private_key_self_contained: "self_contained match_private_key"
  unfolding self_contained_def
proof (intro allI impI)
  fix s n assume m: "match_private_key s = Some n"
  let ?run = "takeWhile letter_or_space (drop 11 s)"
  have h: "py_lower (take 11 s) = ''-----begin ''" "py_endswith (py_lower ?run) ''private key''"
      "py_startswith (drop (11 + length ?run) s) ''-----''" "n = 16 + length ?run"
    using m by (auto simp: match_private_key_def Let_def split: if_splits)
  have l11: "11 \<le> length s"
  proof -
    have "length (take 11 s) = length (''-----begin '' :: string)" using h(1) by (metis length_map py_lower_def)
    then show ?thesis by simp
  qed
  obtain rest where rest: "drop (11 + length ?run) s = ''-----'' @ rest"
    using h(3) by (metis append_take_drop_id py_startswith_def)
  have split: "s = take 11 s @ ?run @ ''-----'' @ rest"
  proof -
    have "drop 11 s = ?run @ drop (length ?run) (drop 11 s)" by (metis append_take_drop_id takeWhile_eq_take)
    then have "drop 11 s = ?run @ ''-----'' @ rest" using rest by (simp add: add.commute)
    then show ?thesis by (metis append_take_drop_id)
  qed
  have w: "take n s = take 11 s @ ?run @ ''-----''"
  proof -
    have l: "length (take 11 s @ ?run @ ''-----'') = n" using l11 h(4) by simp
    have "s = (take 11 s @ ?run @ ''-----'') @ rest" using split by (simp only: append_assoc)
    then have "take (length (take 11 s @ ?run @ ''-----'')) s = take 11 s @ ?run @ ''-----''" by (metis append_eq_conv_conj)
    then show ?thesis by (simp only: l)
  qed
  have "CHR ''['' \<notin> set (take 11 s)" by (rule lower_no_bracket [OF h(1)]) simp
  moreover have "CHR ''['' \<notin> set ?run"
  proof
    have "\<not> letter_or_space (CHR ''['')" by code_simp
    moreover assume "CHR ''['' \<in> set ?run"
    ultimately show False using set_takeWhileD by fastforce
  qed
  ultimately have nb: "CHR ''['' \<notin> set (take n s)" by (simp add: w)
  have len: "n \<le> length s"
  proof -
    have "length s = length (take 11 s @ ?run @ ''-----'' @ rest)" using split by (rule arg_cong)
    then show ?thesis using l11 unfolding h(4) by (simp only: length_append length_take list.size)
  qed
  have "match_private_key (take n s @ y) \<noteq> None" for y
  proof -
    let ?t = "take n s @ y"
    have a: "take 11 ?t = take 11 s" "drop 11 ?t = ?run @ ''-----'' @ y" unfolding w using l11 by simp_all
    have d: "\<not> letter_or_space (CHR ''-'')" by code_simp
    have "takeWhile letter_or_space (drop 11 ?t) = ?run" unfolding a
      by (subst takeWhile_append2) (auto simp: d dest: set_takeWhileD)
    moreover have "drop (11 + length ?run) ?t = ''-----'' @ y" using a(2) by (metis append_eq_conv_conj drop_drop add.commute)
    moreover have "py_startswith (''-----'' @ y) ''-----''" by (simp add: py_startswith_def)
    ultimately show ?thesis unfolding match_private_key_def Let_def by (simp only: h(1,2) a(1) simp_thms if_True option.distinct)
  qed
  then show "0 < n \<and> n \<le> length s \<and> CHR ''['' \<notin> set (take n s) \<and> (\<forall>y. match_private_key (take n s @ y) \<noteq> None)"
    using nb len h(4) by simp
qed


lemma self_contained_orelse:
  assumes "self_contained f" "self_contained g"
  shows "self_contained (\<lambda>s. case f s of Some n \<Rightarrow> Some n | None \<Rightarrow> g s)"
  unfolding self_contained_def
proof (intro allI impI)
  fix s n assume "(case f s of Some n \<Rightarrow> Some n | None \<Rightarrow> g s) = Some n"
  then consider "f s = Some n" | "g s = Some n" by (auto split: option.splits)
  then show "0 < n \<and> n \<le> length s \<and> CHR ''['' \<notin> set (take n s) \<and> (\<forall>y. (case f (take n s @ y) of Some n \<Rightarrow> Some n | None \<Rightarrow> g (take n s @ y)) \<noteq> None)"
    by cases (fastforce dest: self_containedD [OF assms(1)] self_containedD [OF assms(2)] split: option.splits)+
qed

lemma service_key_self_contained: "self_contained match_service_key"
proof -
  have b: "\<not> sk_char (CHR ''['')" "\<not> gh_char (CHR ''['')" "\<not> xox_char (CHR ''['')" by code_simp+
  show ?thesis
    unfolding match_service_key_def [abs_def]
    apply (rule self_contained_orelse)
     apply (rule token_self_contained [where L = 3]; simp add: b)
    apply (rule self_contained_orelse)
     apply (rule token_self_contained [where L = 4]; simp add: b)
    apply (rule token_self_contained [where L = 5]; simp add: b)
    done
qed

lemma sensitive_self_contained: "self_contained (match_sensitive prev)"
proof -
  have "self_contained (\<lambda>s. if prev_alnum prev then None else match_service_key s)"
    using service_key_self_contained by (auto simp: self_contained_def)
  from self_contained_orelse [OF this private_key_self_contained] show ?thesis
    by (simp add: match_sensitive_def [abs_def])
qed

lemma sensitive_prefix:
  assumes "match_sensitive prev t \<noteq> None" "prefix (stem t) s"
  shows "match_sensitive prev s \<noteq> None"
proof -
  obtain n where n: "match_sensitive prev t = Some n" using assms(1) by auto
  note c = self_containedD [OF sensitive_self_contained n]
  have "prefix (take n t) (stem t)"
  proof -
    have "\<And>x. x \<in> set (take n t) \<Longrightarrow> x \<noteq> CHR ''[''" using c by blast
    then have "stem (take n t @ drop n t) = take n t @ stem (drop n t)" unfolding stem_def by (rule takeWhile_append2)
    then show ?thesis unfolding append_take_drop_id by (simp add: prefix_def)
  qed
  then obtain y where "s = take n t @ y" using assms(2) by (meson prefix_def prefix_order.trans)
  then show ?thesis using c by simp
qed

lemma re_sub_Nil [simp]: "re_sub m rep prev [] = []"
  by (subst re_sub.simps) simp

lemma re_sub_keep: "m prev (c # cs) = None \<Longrightarrow> re_sub m rep prev (c # cs) = c # re_sub m rep (Some c) cs"
  by (subst re_sub.simps) simp

lemma re_sub_replace: "m prev (c # cs) = Some n \<Longrightarrow> 0 < n \<Longrightarrow>
    re_sub m rep prev (c # cs) = rep @ re_sub m rep (Some (last (take n (c # cs)))) (drop n (c # cs))"
  by (subst re_sub.simps) simp

text \<open>Induction along a substitution: a character is kept, or a match of positive length is replaced.\<close>

definition moves :: "(char option \<Rightarrow> string \<Rightarrow> nat option) \<Rightarrow> bool" where
  "moves m \<longleftrightarrow> (\<forall>prev s n. m prev s = Some n \<longrightarrow> 0 < n)"

lemma re_sub_induct [consumes 1, case_names Nil keep match]:
  assumes "moves m"
    and "\<And>prev. P prev []"
    and "\<And>prev c cs. m prev (c # cs) = None \<Longrightarrow> P (Some c) cs \<Longrightarrow> P prev (c # cs)"
    and "\<And>prev c cs n. m prev (c # cs) = Some n \<Longrightarrow> 0 < n \<Longrightarrow> P (Some (last (take n (c # cs)))) (drop n (c # cs)) \<Longrightarrow> P prev (c # cs)"
  shows "P prev s"
proof (induction "length s" arbitrary: prev s rule: less_induct)
  case less
  show ?case
  proof (cases s)
    case (Cons c cs)
    show ?thesis
    proof (cases "m prev (c # cs)")
      case None
      then show ?thesis using assms(3) less [of cs "Some c"] Cons by simp
    next
      case (Some n)
      then have "0 < n" using assms(1) by (simp add: moves_def)
      then show ?thesis using assms(4) [OF Some] less [of "drop n s"] Cons by simp
    qed
  qed (simp add: assms(2))
qed

text \<open>Up to the first placeholder the output is the input.\<close>

lemma re_sub_stem:
  assumes "moves m"
  shows "prefix (takeWhile (\<lambda>c. c \<noteq> d) (re_sub m (d # rep) prev s)) s"
  using assms
proof (induction prev s rule: re_sub_induct)
  case (keep prev c cs)
  then show ?case by (simp add: re_sub_keep)
next
  case (match prev c cs n)
  then show ?case by (simp add: re_sub_replace)
qed simp

lemma sensitive_moves: "moves match_sensitive"
  unfolding moves_def using self_containedD [OF sensitive_self_contained] by blast

lemmas scan_induct [consumes 0, case_names Nil keep match] = re_sub_induct [OF sensitive_moves]

lemma stem_of_scan: "prefix (stem (re_sub match_sensitive ''[redacted]'' prev s)) s"
  unfolding stem_def by (rule re_sub_stem [OF sensitive_moves])

text \<open>A service key needs at least one letter of its class first, a private key a dash.\<close>

lemma token_head: "match_token heads ok (c # cs) \<noteq> None \<Longrightarrow> list_all (\<lambda>p. p \<noteq> [] \<and> hd p = h) heads \<Longrightarrow> lower_char c = h"
  by (auto simp: match_token_def list_all_iff find_Some_iff py_lower_def neq_Nil_conv Let_def split: option.splits if_splits)
    (metis (no_types, lifting) list.sel(1) list.simps(9) nth_mem take_Suc_Cons length_Cons)

lemma service_key_head: "match_service_key (c # cs) \<noteq> None \<Longrightarrow> lower_char c \<in> {CHR ''s'', CHR ''g'', CHR ''x''}"
  using token_head [of "[''sk-'']" sk_char c cs "CHR ''s''"]
    token_head [of "[''ghp_'', ''gho_'', ''ghu_'', ''ghs_'', ''ghr_'']" gh_char c cs "CHR ''g''"]
    token_head [of "[''xoxb-'', ''xoxa-'', ''xoxp-'', ''xoxr-'', ''xoxs-'']" xox_char c cs "CHR ''x''"]
  by (auto simp: match_service_key_def split: option.splits)

lemma private_key_head: "match_private_key (c # cs) \<noteq> None \<Longrightarrow> lower_char c = CHR ''-''"
  by (simp add: match_private_key_def Let_def py_lower_def split: if_splits)

lemma sensitive_head: "lower_char c \<notin> {CHR ''s'', CHR ''g'', CHR ''x'', CHR ''-''} \<Longrightarrow> match_sensitive prev (c # cs) = None"
  using service_key_head [of c cs] private_key_head [of c cs]
  by (cases "match_private_key (c # cs)") (auto simp: match_sensitive_def split: option.splits)


text \<open>No service key starts right behind a service key: the character there is of no class that
  starts one.\<close>

lemma token_end:
  assumes "match_token heads ok s = Some n" "drop n s = c # cs"
  shows "\<not> ok c"
proof -
  obtain p where p: "List.find (\<lambda>p. py_lower (take (length p) s) = p) heads = Some p"
    using assms(1) by (auto simp: match_token_def split: option.splits)
  let ?d = "drop (length p) s"
  have "n = length p + length (takeWhile ok ?d)" using assms(1) p by (auto simp: match_token_def Let_def split: if_splits)
  then have "dropWhile ok ?d = c # cs" using assms(2) by (simp add: dropWhile_eq_drop add.commute)
  then show ?thesis by (metis dropWhile_eq_Cons_conv)
qed

lemma lower_alnum: "lower_char c \<in> {CHR ''s'', CHR ''g'', CHR ''x''} \<Longrightarrow> is_alnum_ascii c"
proof (rule ccontr)
  assume c: "lower_char c \<in> {CHR ''s'', CHR ''g'', CHR ''x''}" "\<not> is_alnum_ascii c"
  then have up: "\<not> is_upper_ascii c" "\<not> is_lower_ascii c" by (simp_all add: is_alnum_ascii_def)
  show False
  proof (cases "192 \<le> code_pt c \<and> code_pt c \<le> 222 \<and> code_pt c \<noteq> 215")
    case True
    then have "code_pt (lower_char c) = code_pt c + 32" by (simp add: lower_char_def Let_def code_pt_def)
    moreover have "code_pt (lower_char c) \<le> 122" using c(1) by (auto simp: code_pt_def)
    ultimately show False using True by simp
  next
    case False
    then have "c \<in> {CHR ''s'', CHR ''g'', CHR ''x''}" using c(1) up(1) by (auto simp: lower_char_def Let_def)
    then show False using up(2) by (auto simp: is_lower_ascii_def code_pt_def)
  qed
qed

lemma service_key_end:
  assumes "match_service_key s = Some n"
  shows "match_service_key (drop n s) = None"
proof (cases "drop n s")
  case Nil
  then show ?thesis by (simp add: match_service_key_def match_token_def py_lower_def)
next
  case (Cons c cs)
  have "\<not> is_alnum_ascii c"
  proof -
    consider "match_token [''sk-''] sk_char s = Some n"
      | "match_token [''ghp_'', ''gho_'', ''ghu_'', ''ghs_'', ''ghr_''] gh_char s = Some n"
      | "match_token [''xoxb-'', ''xoxa-'', ''xoxp-'', ''xoxr-'', ''xoxs-''] xox_char s = Some n"
      using assms unfolding match_service_key_def by (simp split: option.splits)
    then show ?thesis
      by cases (drule token_end [OF _ Cons], simp add: sk_char_def gh_char_def xox_char_def)+
  qed
  then show ?thesis using service_key_head [of c cs] lower_alnum [of c] by (cases "match_service_key (drop n s)") (auto simp: Cons)
qed


lemma service_key_Nil: "match_service_key [] = None"
  by (simp add: match_service_key_def match_token_def py_lower_def)

lemma private_key_last:
  assumes "match_private_key s = Some n"
  shows "last (take n s) = CHR ''-''"
proof -
  let ?run = "takeWhile letter_or_space (drop 11 s)"
  have n: "n = 11 + length ?run + 5" and d: "py_startswith (drop (11 + length ?run) s) ''-----''"
    using assms by (auto simp: match_private_key_def Let_def split: if_splits)
  have "take n s = take (11 + length ?run) s @ ''-----''"
    using d unfolding n take_add by (simp add: py_startswith_def numeral_eq_Suc)
  then show ?thesis by simp
qed

text \<open>Behind a match either nothing more depends on the character before, or that character is a
  dash.\<close>

lemma after_match:
  assumes "match_sensitive prev s = Some n"
  shows "\<not> prev_alnum (Some (last (take n s))) \<or> match_service_key (drop n s) = None"
proof -
  consider "match_service_key s = Some n" | "match_private_key s = Some n"
    using assms by (auto simp: match_sensitive_def split: option.splits if_splits)
  then show ?thesis
  proof cases
    case 2
    then show ?thesis using private_key_last by (simp add: prev_alnum_def is_alnum_ascii_def is_digit_def is_upper_ascii_def is_lower_ascii_def code_pt_def)
  qed (simp add: service_key_end)
qed

lemma placeholder_hides: "has_secret q (''[redacted]'' @ t) = has_secret (Some (CHR '']'')) t"
proof -
  have l: "lower_char c = c" if "c \<in> set ''[redacted]''" for c
    using that by (auto simp: lower_char_def Let_def is_upper_ascii_def code_pt_def)
  show ?thesis by (simp add: sensitive_head l)
qed

lemma sensitive_prev: "prev_alnum q = prev_alnum p \<or> match_service_key s = None \<Longrightarrow> match_sensitive q s = match_sensitive p s"
  by (auto simp: match_sensitive_def)

lemma scan_clean: "prev_alnum q = prev_alnum prev \<or> match_service_key s = None \<Longrightarrow> \<not> has_secret q (re_sub match_sensitive ''[redacted]'' prev s)"
proof (induction prev s arbitrary: q rule: scan_induct)
  case (keep prev c cs)
  let ?out = "c # re_sub match_sensitive ''[redacted]'' (Some c) cs"
  have "match_sensitive q ?out = None"
  proof (rule ccontr)
    assume "match_sensitive q ?out \<noteq> None"
    moreover have "prefix (stem ?out) (c # cs)" using stem_of_scan [of prev "c # cs"] keep(1) by (simp add: re_sub_keep)
    ultimately have "match_sensitive q (c # cs) \<noteq> None" by (rule sensitive_prefix)
    then show False using keep(1) sensitive_prev [OF keep(3)] by simp
  qed
  then show ?case using keep(1,2) by (simp add: re_sub_keep)
next
  case (match prev c cs n)
  have "\<not> prev_alnum (Some (CHR '']''))" by code_simp
  then have "\<not> has_secret (Some (CHR '']'')) (re_sub match_sensitive ''[redacted]'' (Some (last (take n (c # cs)))) (drop n (c # cs)))"
    using match(3) after_match [OF match(1)] by blast
  then show ?case unfolding re_sub_replace [of match_sensitive, OF match(1,2)] placeholder_hides .
qed simp

lemma no_secret_unchanged: "\<not> has_secret prev s \<Longrightarrow> re_sub match_sensitive ''[redacted]'' prev s = s"
  by (induction prev s rule: has_secret.induct) (simp_all add: re_sub_keep)

text \<open>What may leave the process: no sensitive key holds anything but a harmless value, no text
  holds a secret.\<close>

fun redacted :: "json \<Rightarrow> bool" where
  "redacted (JObj o') \<longleftrightarrow> list_all (\<lambda>p. is_sensitive_key (fst p) \<and> snd p = JStr ''[redacted]''
      \<or> (is_sensitive_key (fst p) \<longrightarrow> is_safe_sensitive_field_value (snd p)) \<and> redacted (snd p)) o'"
| "redacted (JArr xs) \<longleftrightarrow> list_all redacted xs"
| "redacted (JStr s) \<longleftrightarrow> \<not> has_secret None s"
| "redacted v \<longleftrightarrow> True"

lemma redact_text_clean: "\<not> has_secret None (redact_text s)"
  unfolding redact_text_def by (rule scan_clean) simp

lemma redact_safe: "is_safe_sensitive_field_value v \<Longrightarrow> redact_sensitive_value v = v"
proof (cases v)
  case (JStr s)
  assume "is_safe_sensitive_field_value v"
  then have "s \<in> {[], ''false'', ''none'', ''not_allowed'', ''disabled'', ''not_included''}" using JStr by (simp add: is_safe_sensitive_field_value_def)
  then have "\<not> has_secret None s" by (elim insertE) (simp_all, code_simp+)
  then show ?thesis using JStr by (simp add: redact_text_def no_secret_unchanged)
qed (simp_all add: is_safe_sensitive_field_value_def)

lemma redact_sensitive_value_redacted: "redacted (redact_sensitive_value v)"
proof (induction v rule: redact_sensitive_value.induct)
  case (1 o')
  have "redacted (redact_sensitive_value (snd p))" if "p \<in> set o'" "\<not> (is_sensitive_key (fst p) \<and> \<not> is_safe_sensitive_field_value (snd p))" for p
    using 1 that by blast
  then show ?case by (force simp: list_all_iff redact_safe)
qed (auto simp: list_all_iff redact_text_clean)

lemma redacted_unchanged: "redacted v \<Longrightarrow> redact_sensitive_value v = v"
proof (induction v rule: redact_sensitive_value.induct)
  case (1 o')
  have ph: "\<not> is_safe_sensitive_field_value (JStr ''[redacted]'')" by code_simp
  have "(fst p, if is_sensitive_key (fst p) \<and> \<not> is_safe_sensitive_field_value (snd p) then JStr ''[redacted]'' else redact_sensitive_value (snd p)) = p"
    if "p \<in> set o'" for p
    using 1 that ph by (cases p) (auto simp: list_all_iff)
  then show ?case by (simp add: map_idI)
qed (auto simp: list_all_iff redact_text_def no_secret_unchanged intro: map_idI)


section \<open>Redactors\<close>

text \<open>What a consumer of a redaction relies on: its results are clean, clean values pass unchanged.\<close>

locale redactor =
  fixes redact :: "'a \<Rightarrow> 'a" and clean_value :: "'a \<Rightarrow> bool"
  assumes result_clean: "clean_value (redact v)"
    and clean_kept: "clean_value v \<Longrightarrow> redact v = v"
begin

lemma redact_idem: "redact (redact v) = redact v"
  by (rule clean_kept [OF result_clean])

lemma unchanged_iff: "redact v = v \<longleftrightarrow> clean_value v"
  using result_clean [of v] clean_kept [of v] by metis

end

interpretation texts: redactor redact_text "\<lambda>s. \<not> has_secret None s"
  by unfold_locales (rule redact_text_clean, simp add: redact_text_def no_secret_unchanged)

interpretation vals: redactor redact_sensitive_value redacted
  by unfold_locales (rule redact_sensitive_value_redacted, rule redacted_unchanged)

text \<open>C33: redaction leaves nothing to redact. In the result no text holds a service key or a private
  key and no sensitive field holds more than a harmless value; redacting again changes nothing, and a
  value passes unchanged exactly when it was clean.\<close>

theorem redaction_complete:
  "redacted (redact_sensitive_value v) \<and> redact_sensitive_value (redact_sensitive_value v) = redact_sensitive_value v
     \<and> (redact_sensitive_value v = v) = redacted v"
  using vals.result_clean vals.redact_idem vals.unchanged_iff by blast

end
