(* ===== verification/Sandbox.thy ===== *)
theory Sandbox
  imports PyPath Redaction LoopPolicy
begin

text \<open>
  Sandbox policies (\<open>sandbox.py\<close>): a policy is normalized, checked against the command and the file
  system, and a command that passes is handed to a provider that declares that it enforces the
  policy's modes. A receipt reports what was done without the paths, arguments and credentials.

  The normalized policy dict is the record \<open>sandbox_policy\<close>, \<open>policy_to_dict\<close> is its JSON form. The
  file system is the parameter \<open>F\<close>. Providers are records of what they declare and do.
\<close>

section \<open>Policies\<close>

definition VALID_NETWORK_MODES :: "string list" where
  "VALID_NETWORK_MODES = [''none'', ''adapter_scoped'', ''allowlist'', ''unrestricted_requires_approval'']"

definition VALID_FILESYSTEM_MODES :: "string list" where
  "VALID_FILESYSTEM_MODES = [''read_only'', ''run_scoped'', ''candidate_workspace_only'', ''allowlist'']"

abbreviation "DEFAULT_TIMEOUT_SECONDS \<equiv> (30 :: rat)"
abbreviation "DEFAULT_MAX_OUTPUT_BYTES \<equiv> (262144 :: int)"
abbreviation "MAX_TIMEOUT_SECONDS \<equiv> (3600 :: rat)"
abbreviation "DEFAULT_MAX_WALL_TIMEOUT_SECONDS \<equiv> MAX_TIMEOUT_SECONDS"
abbreviation "MAX_OUTPUT_BYTES \<equiv> (16777216 :: int)"
abbreviation "MAX_RUNTIME_STATE_ROOTS \<equiv> (32 :: nat)"
abbreviation "MAX_RUNTIME_STATE_FILES \<equiv> (32 :: nat)"

record sandbox_policy =
  sp_risk_profile :: string
  sp_network_mode :: string
  sp_network_allowlist :: "string list"
  sp_filesystem_mode :: string
  sp_allowlist_roots :: "string list"
  sp_state_roots :: "string list"
  sp_state_files :: "string list"
  sp_max_model_calls :: int
  sp_max_candidate_repairs :: int
  sp_max_usd :: rat
  sp_timeout_seconds :: rat
  sp_refresh_timeout :: bool
  sp_max_wall_timeout :: rat
  sp_max_output_bytes :: int
  sp_human_approval_required :: bool
  sp_release_blocked :: bool
  sp_workspace_root :: string
  sp_command_allowlist :: "string list"

definition policy_to_dict :: "sandbox_policy \<Rightarrow> jobj" where
  "policy_to_dict P = [
     (''schema_version'', JStr ''across-sandbox-policy/1.0''),
     (''risk_profile'', JStr (sp_risk_profile P)),
     (''network_policy'', JObj [(''mode'', JStr (sp_network_mode P)), (''allowlist'', jstrs (sp_network_allowlist P))]),
     (''filesystem_policy'', JObj [
        (''mode'', JStr (sp_filesystem_mode P)),
        (''allowlist_roots'', jstrs (sp_allowlist_roots P)),
        (''runtime_state_roots'', jstrs (sp_state_roots P)),
        (''runtime_state_files'', jstrs (sp_state_files P))]),
     (''budget'', JObj [
        (''max_model_calls'', JInt (sp_max_model_calls P)),
        (''max_candidate_repairs'', JInt (sp_max_candidate_repairs P)),
        (''max_usd'', JFloat (sp_max_usd P))]),
     (''execution'', JObj [
        (''timeout_seconds'', JFloat (sp_timeout_seconds P)),
        (''refresh_timeout_on_output'', JBool (sp_refresh_timeout P)),
        (''max_wall_timeout_seconds'', JFloat (sp_max_wall_timeout P)),
        (''max_output_bytes'', JInt (sp_max_output_bytes P))]),
     (''promotion'', JObj [
        (''human_approval_required'', JBool (sp_human_approval_required P)),
        (''merge_release_signing_blocked'', JBool (sp_release_blocked P))]),
     (''workspace_root'', JStr (sp_workspace_root P)),
     (''command_allowlist'', jstrs (sp_command_allowlist P))]"

subsection \<open>Bounded values\<close>

definition bounded_float :: "pyenv \<Rightarrow> json \<Rightarrow> rat \<Rightarrow> rat \<Rightarrow> rat \<Rightarrow> string \<Rightarrow> rat res" where
  "bounded_float E v d mn mx name = bindE (if v = JNull then Inr d else py_float E v) (\<lambda>r.
     if r < mn \<or> mx < r
     then Inl (ValueError (name @ '' must be between '' @ float_repr E mn @ '' and '' @ float_repr E mx)) else Inr r)"

definition bounded_bool :: "json \<Rightarrow> bool \<Rightarrow> string \<Rightarrow> bool res" where
  "bounded_bool v d name = (case v of JNull \<Rightarrow> Inr d | JBool b \<Rightarrow> Inr b
     | _ \<Rightarrow> Inl (ValueError (name @ '' must be a boolean'')))"

definition bounded_int :: "json \<Rightarrow> int \<Rightarrow> int \<Rightarrow> int \<Rightarrow> string \<Rightarrow> int res" where
  "bounded_int v d mn mx name = bindE (if v = JNull then Inr d else py_int v) (\<lambda>r.
     if r < mn \<or> mx < r
     then Inl (ValueError (name @ '' must be between '' @ int_str mn @ '' and '' @ int_str mx)) else Inr r)"

subsection \<open>Normalization\<close>

definition policy_object :: "json \<Rightarrow> json \<Rightarrow> jobj" where
  "policy_object v fallback = (case v of
      JStr s \<Rightarrow> [(''mode'', JStr s)]
    | JObj o' \<Rightarrow> jset o' ''mode'' (jor (jget o' ''mode'') fallback)
    | _ \<Rightarrow> [(''mode'', fallback)])"

text \<open>\<open>str(item).strip()\<close> is not empty\<close>

definition nonblank :: "string \<Rightarrow> bool" where
  "nonblank s \<longleftrightarrow> py_strip s \<noteq> []"

definition command_key :: "pyenv \<Rightarrow> json \<Rightarrow> string" where
  "command_key E v = (case v of JArr xs \<Rightarrow> py_join '' '' (filter nonblank (map (py_str E) xs)) | _ \<Rightarrow> py_str E v)"

definition path_values :: "nat \<Rightarrow> string \<Rightarrow> string \<Rightarrow> json \<Rightarrow> string list res" where
  "path_values mx name kind v = (case v of
      JNull \<Rightarrow> Inr []
    | JArr xs \<Rightarrow>
        if mx < length xs then Inl (ValueError (name @ '' must contain at most '' @ nat_str mx @ '' paths''))
        else if list_ex (\<lambda>x. case x of JStr s \<Rightarrow> \<not> nonblank s | _ \<Rightarrow> True) xs
        then Inl (ValueError (name @ '' entries must be non-empty strings''))
        else Inr (map (\<lambda>x. case x of JStr s \<Rightarrow> s | _ \<Rightarrow> []) xs)
    | _ \<Rightarrow> Inl (ValueError (name @ '' must be an array of absolute '' @ kind @ '' paths'')))"

definition runtime_state_root_values :: "json \<Rightarrow> string list res" where
  "runtime_state_root_values v = path_values MAX_RUNTIME_STATE_ROOTS ''runtime_state_roots'' ''directory'' v"

definition runtime_state_file_values :: "json \<Rightarrow> string list res" where
  "runtime_state_file_values v = path_values MAX_RUNTIME_STATE_FILES ''runtime_state_files'' ''file'' v"

definition normalize_sandbox_policy :: "pyenv \<Rightarrow> jobj \<Rightarrow> sandbox_policy res" where
  "normalize_sandbox_policy E policy =
    bindE (get_dict policy ''runtime_policy'') (\<lambda>runtime_policy.
    let source = jmerge runtime_policy policy;
        network = policy_object (jget source ''network_policy'') (jor (jget source ''network'') (JStr ''none''));
        filesystem = policy_object (jget source ''filesystem_policy'') (jor (jget source ''filesystem'') (JStr ''read_only''))
    in bindE (get_dict source ''budget'') (\<lambda>budget.
       bindE (get_dict source ''promotion'') (\<lambda>promotion.
       bindE (get_dict source ''execution'') (\<lambda>execution.
       bindE (str_list_of E (jget network ''allowlist'')) (\<lambda>network_allowlist.
       bindE (str_list_of E (jor (jget filesystem ''allowlist_roots'') (jget filesystem ''allowlist''))) (\<lambda>allowlist_roots.
       bindE (runtime_state_root_values (jget filesystem ''runtime_state_roots'')) (\<lambda>state_roots.
       bindE (runtime_state_file_values (jget filesystem ''runtime_state_files'')) (\<lambda>state_files.
       bindE (get_int budget ''max_model_calls'' 0) (\<lambda>max_model_calls.
       bindE (get_int budget ''max_candidate_repairs'' 0) (\<lambda>max_candidate_repairs.
       bindE (get_float E budget ''max_usd'' 0) (\<lambda>max_usd.
       bindE (if jget execution ''timeout_seconds'' = JNull then Inr DEFAULT_TIMEOUT_SECONDS
              else py_float E (jget execution ''timeout_seconds'')) (\<lambda>timeout_seconds.
       bindE (bounded_bool (jget execution ''refresh_timeout_on_output'') False ''refresh_timeout_on_output'') (\<lambda>refresh.
       bindE (bounded_float E (jget execution ''max_wall_timeout_seconds'') DEFAULT_MAX_WALL_TIMEOUT_SECONDS
              (1 / 100) MAX_TIMEOUT_SECONDS ''max_wall_timeout_seconds'') (\<lambda>max_wall.
       bindE (if jget execution ''max_output_bytes'' = JNull then Inr DEFAULT_MAX_OUTPUT_BYTES
              else py_int (jget execution ''max_output_bytes'')) (\<lambda>max_output_bytes.
       bindE (py_iter (jor (jget source ''command_allowlist'') (JArr []))) (\<lambda>command_allowlist.
       Inr \<lparr>sp_risk_profile = get_str E source ''risk_profile'' ''low'',
            sp_network_mode = get_str E network ''mode'' ''none'',
            sp_network_allowlist = network_allowlist,
            sp_filesystem_mode = get_str E filesystem ''mode'' ''read_only'',
            sp_allowlist_roots = allowlist_roots,
            sp_state_roots = state_roots,
            sp_state_files = state_files,
            sp_max_model_calls = max_model_calls,
            sp_max_candidate_repairs = max_candidate_repairs,
            sp_max_usd = max_usd,
            sp_timeout_seconds = timeout_seconds,
            sp_refresh_timeout = refresh,
            sp_max_wall_timeout = max_wall,
            sp_max_output_bytes = max_output_bytes,
            sp_human_approval_required = (jget promotion ''human_approval_required'' \<noteq> JBool False),
            sp_release_blocked = (jget promotion ''merge_release_signing_blocked'' \<noteq> JBool False),
            sp_workspace_root = py_str E (jor (jor (jget source ''workspace_root'') (jget source ''workspace'')) (JStr [])),
            sp_command_allowlist = map (command_key E) command_allowlist\<rparr>))))))))))))))))"


section \<open>State roots and files\<close>

definition os_error :: "py_exc \<Rightarrow> bool" where
  "os_error e = (case e of FileNotFoundError _ \<Rightarrow> True | PermissionError _ \<Rightarrow> True | OSError _ \<Rightarrow> True
     | TimeoutError _ \<Rightarrow> True | _ \<Rightarrow> False)"

text \<open>\<open>except (FileNotFoundError, OSError, RuntimeError)\<close>, and with \<open>ValueError\<close>\<close>

definition os_or_runtime :: "py_exc \<Rightarrow> bool" where
  "os_or_runtime e \<longleftrightarrow> os_error e \<or> (case e of RuntimeError _ \<Rightarrow> True | _ \<Rightarrow> False)"

definition os_runtime_or_value :: "py_exc \<Rightarrow> bool" where
  "os_runtime_or_value e \<longleftrightarrow> os_or_runtime e \<or> (case e of ValueError _ \<Rightarrow> True | _ \<Rightarrow> False)"

text \<open>\<open>try: r except <caught>: raise ValueError(m)\<close>\<close>

definition reraise :: "(py_exc \<Rightarrow> bool) \<Rightarrow> string \<Rightarrow> 'a res \<Rightarrow> 'a res" where
  "reraise caught m r = (case r of Inl e \<Rightarrow> Inl (if caught e then ValueError m else e) | Inr x \<Rightarrow> Inr x)"

lemma reraise_Inr [simp]: "reraise c m r = Inr x \<longleftrightarrow> r = Inr x"
  by (cases r) (auto simp: reraise_def)

definition validated_state_root :: "file_system \<Rightarrow> pypath option \<Rightarrow> pypath list \<Rightarrow> string \<Rightarrow> pypath list res" where
  "validated_state_root F workspace roots v =
     bindE (expanduser F (py_path v)) (\<lambda>expanded.
     bindE (checkE (is_absolute expanded \<and> CHR 0x00 \<notin> set v)
        (ValueError ''runtime_state_roots entries must be absolute directory paths'')) (\<lambda>_.
     bindE (reraise os_or_runtime ''runtime_state_roots entries must be existing directories'' (fs_resolve_strict F expanded)) (\<lambda>root.
     bindE (checkE (fs_is_dir F root) (ValueError ''runtime_state_roots entries must be existing directories'')) (\<lambda>_.
     bindE (checkE (\<not> is_anchor root) (ValueError ''runtime_state_roots cannot include a filesystem root'')) (\<lambda>_.
     bindE (checkE (case workspace of None \<Rightarrow> True | Some w \<Rightarrow> \<not> in_parents root w)
        (ValueError ''runtime_state_roots cannot contain workspace_root'')) (\<lambda>_.
     bindE (checkE (\<not> list_ex (\<lambda>x. root = x \<or> in_parents root x \<or> in_parents x root) roots)
        (ValueError ''runtime_state_roots cannot overlap'')) (\<lambda>_.
     Inr (roots @ [root]))))))))"

definition validated_runtime_state_roots :: "file_system \<Rightarrow> string list \<Rightarrow> pypath option \<Rightarrow> pypath list res" where
  "validated_runtime_state_roots F values workspace_root =
     (if values = [] then Inr [] else
      bindE (reraise os_or_runtime ''workspace_root must be an existing directory''
        (case workspace_root of None \<Rightarrow> Inr None | Some w \<Rightarrow> bindE (resolve_strict F w) (\<lambda>w'. Inr (Some w')))) (\<lambda>workspace.
      foldE (validated_state_root F workspace) [] values))"

definition validated_state_file :: "file_system \<Rightarrow> pypath list \<Rightarrow> (pypath \<times> int \<times> int) list \<Rightarrow> string \<Rightarrow> (pypath \<times> int \<times> int) list res" where
  "validated_state_file F roots files v =
     bindE (expanduser F (py_path v)) (\<lambda>candidate.
     bindE (checkE (is_absolute candidate \<and> CHR 0x00 \<notin> set v)
        (ValueError ''runtime_state_files entries must be absolute file paths'')) (\<lambda>_.
     bindE (checkE (\<not> is_anchor candidate) (ValueError ''runtime_state_files cannot include a filesystem root'')) (\<lambda>_.
     bindE (reraise os_or_runtime ''runtime_state_files entries must be existing regular files''
        (bindE (fs_lstat F candidate) (\<lambda>st. bindE (fs_resolve_strict F candidate) (\<lambda>path. Inr (st, path))))) (\<lambda>(st, path).
     bindE (checkE (fst st) (ValueError ''runtime_state_files entries must be existing regular files'')) (\<lambda>_.
     bindE (checkE (path \<notin> set (map fst files) \<and> snd st \<notin> set (map snd files))
        (ValueError ''runtime_state_files cannot overlap'')) (\<lambda>_.
     bindE (checkE (\<not> list_ex (\<lambda>root. path = root \<or> in_parents root path) roots)
        (ValueError ''runtime_state_files cannot overlap runtime_state_roots'')) (\<lambda>_.
     Inr (files @ [(path, snd st)]))))))))"

definition validated_runtime_state_files :: "file_system \<Rightarrow> string list \<Rightarrow> pypath list \<Rightarrow> pypath list res" where
  "validated_runtime_state_files F values roots = bindE (foldE (validated_state_file F roots) [] values) (\<lambda>files. Inr (map fst files))"

definition json_hash :: "pyenv \<Rightarrow> json \<Rightarrow> string" where
  "json_hash E v = sha256_hex (dumps_ascii E v)"

definition paths_summary :: "pyenv \<Rightarrow> pypath list \<Rightarrow> jobj" where
  "paths_summary E ps = (let canonical = sort (map path_str ps) in
     [(''count'', JInt (int (length canonical))), (''sha256'', JStr (json_hash E (jstrs canonical)))])"

section \<open>Evaluation\<close>

record policy_check =
  ck_id :: string
  ck_passed :: bool
  ck_reason :: string
  ck_details :: jobj

definition check :: "string \<Rightarrow> bool \<Rightarrow> jobj \<Rightarrow> string option \<Rightarrow> policy_check" where
  "check cid passed details reason = \<lparr>ck_id = cid, ck_passed = passed,
     ck_reason = (case reason of Some (c # cs) \<Rightarrow> c # cs | _ \<Rightarrow> if passed then ''passed'' else cid), ck_details = details\<rparr>"

definition normalize_boundary_path :: "file_system \<Rightarrow> string \<Rightarrow> pypath res" where
  "normalize_boundary_path F v = (let t = py_strip v in
     if t = [] \<or> CHR 0x00 \<in> set t then Inl (ValueError ''path must be a non-empty string without null bytes'')
     else Inr (py_path (os_abspath F (os_expanduser F t))))"

text \<open>The two resolved paths of the boundary check: leniently resolved, or lexically when that fails.\<close>

definition boundary_paths :: "file_system \<Rightarrow> string \<Rightarrow> string \<Rightarrow> (pypath \<times> pypath) res" where
  "boundary_paths F cwd workspace_root =
     (case bindE (resolve_text F cwd) (\<lambda>c. bindE (resolve_text F workspace_root) (\<lambda>r. Inr (c, r))) of
        Inr cr \<Rightarrow> Inr cr
      | Inl e \<Rightarrow> if os_or_runtime e
          then bindE (normalize_boundary_path F cwd) (\<lambda>c. bindE (normalize_boundary_path F workspace_root) (\<lambda>r. Inr (c, r)))
          else Inl e)"

definition clean_command :: "string list \<Rightarrow> string list" where
  "clean_command command = filter nonblank command"

definition command_allowed :: "sandbox_policy \<Rightarrow> string list \<Rightarrow> bool" where
  "command_allowed P cmd \<longleftrightarrow> py_join '' '' cmd \<in> set (sp_command_allowlist P) \<or> hd cmd \<in> set (sp_command_allowlist P)"

definition evaluate_command :: "file_system \<Rightarrow> sandbox_policy \<Rightarrow> string list \<Rightarrow> string \<Rightarrow> (policy_check list \<times> string list) res" where
  "evaluate_command F P command cwd = (let cmd = clean_command command in
     if cmd = [] then
       (let reason = ''command must be a non-empty argv array'' in Inr ([check ''command_shape'' False [] (Some reason)], [reason]))
     else
       let key = py_join '' '' cmd;
           allowed = command_allowed P cmd;
           reason = ''command is not allowlisted: '' @ key;
           c1 = check ''command_allowlist'' allowed [(''command'', JStr key)] (if allowed then None else Some reason);
           b1 = (if allowed then [] else [reason])
       in if cwd \<noteq> [] \<and> sp_workspace_root P \<noteq> [] then
            bindE (boundary_paths F cwd (sp_workspace_root P)) (\<lambda>(cwd_path, root_path).
            let ok = inside cwd_path root_path; reason = ''cwd must stay inside workspace_root'' in
            Inr ([c1, check ''cwd_boundary'' ok [(''cwd'', JStr (path_str cwd_path)), (''workspace_root'', JStr (path_str root_path))]
                        (if ok then None else Some reason)],
                 b1 @ (if ok then [] else [reason])))
          else if cwd \<noteq> [] then
            (let reason = ''workspace_root is required when cwd is supplied'' in
             Inr ([c1, check ''cwd_boundary'' False [] (Some reason)], b1 @ [reason]))
          else Inr ([c1], b1))"

record policy_evaluation =
  ev_policy :: sandbox_policy
  ev_command :: "string list option"
  ev_cwd :: "string option"
  ev_checks :: "policy_check list"
  ev_blocked_reasons :: "string list"

text \<open>\<open>status\<close> is \<open>passed\<close>\<close>

definition ev_passed :: "policy_evaluation \<Rightarrow> bool" where
  "ev_passed ev \<longleftrightarrow> ev_blocked_reasons ev = []"

definition check_mode :: "string \<Rightarrow> string \<Rightarrow> string \<Rightarrow> string list \<Rightarrow> policy_check \<times> string list" where
  "check_mode cid kind mode valid = (check cid (mode \<in> set valid) [(''mode'', JStr mode)] None,
     if mode \<in> set valid then [] else [''unsupported '' @ kind @ '' policy: '' @ mode])"

text \<open>\<open>try: paths = ... except (...) as exc: blocked\<close>\<close>

definition check_paths :: "pyenv \<Rightarrow> string \<Rightarrow> pypath list res \<Rightarrow> (pypath list option \<times> policy_check \<times> string list) res" where
  "check_paths E cid r = (case r of
      Inr ps \<Rightarrow> Inr (Some ps, check cid True (paths_summary E ps) None, [])
    | Inl e \<Rightarrow> if os_runtime_or_value e then Inr (None, check cid False [] (Some (exc_str e)), [exc_str e]) else Inl e)"

definition add_reason :: "string list \<Rightarrow> policy_check \<Rightarrow> string list" where
  "add_reason rs ck = (if \<not> ck_passed ck \<and> ck_reason ck \<notin> set rs then rs @ [ck_reason ck] else rs)"

definition evaluate_sandbox_policy :: "pyenv \<Rightarrow> file_system \<Rightarrow> jobj \<Rightarrow> string list option \<Rightarrow> string option \<Rightarrow> policy_evaluation res" where
  "evaluate_sandbox_policy E F policy command cwd =
    bindE (normalize_sandbox_policy E policy) (\<lambda>P.
    let (c1, b1) = check_mode ''network_policy'' ''network'' (sp_network_mode P) VALID_NETWORK_MODES;
        (c2, b2) = check_mode ''filesystem_policy'' ''filesystem'' (sp_filesystem_mode P) VALID_FILESYSTEM_MODES
    in bindE (check_paths E ''runtime_state_roots'' (validated_runtime_state_roots F (sp_state_roots P)
          (if sp_workspace_root P = [] then None else Some (py_path (sp_workspace_root P))))) (\<lambda>(roots, c3, b3).
       let P1 = (case roots of None \<Rightarrow> P | Some rs \<Rightarrow> P\<lparr>sp_state_roots := map path_str rs\<rparr>)
       in bindE (check_paths E ''runtime_state_files'' (validated_runtime_state_files F (sp_state_files P1) (opt_or roots []))) (\<lambda>(files, c4, b4).
       let P2 = (case files of None \<Rightarrow> P1 | Some fs \<Rightarrow> P1\<lparr>sp_state_files := map path_str fs\<rparr>);
           c5 = check ''promotion_block'' (sp_release_blocked P2) [] None;
           c6 = check ''human_approval'' (sp_human_approval_required P2) [] None;
           n = sp_max_model_calls P2;
           c7 = check ''model_budget'' (0 \<le> n \<and> n \<le> 100) [(''max_model_calls'', JInt n)] None
       in bindE (case command of None \<Rightarrow> Inr ([], []) | Some argv \<Rightarrow> evaluate_command F P2 argv (opt_or cwd [])) (\<lambda>(cs, bs).
       let checks = [c1, c2, c3, c4, c5, c6, c7] @ cs in
       Inr \<lparr>ev_policy = P2,
            ev_command = (case command of Some (a # as) \<Rightarrow> Some (a # as) | _ \<Rightarrow> None),
            ev_cwd = (case cwd of Some (a # as) \<Rightarrow> Some (a # as) | _ \<Rightarrow> None),
            ev_checks = checks,
            ev_blocked_reasons = foldl add_reason (b1 @ b2 @ b3 @ b4 @ bs) checks\<rparr>))))"

end
