(* ===== verification/RunContracts.thy ===== *)
theory RunContracts
  imports Sandbox
begin

text \<open>
  Public contracts of a run (\<open>run_contracts.py\<close>): the execution policy with the risk it infers and
  the sandbox it selects, the comparison of two runs, and the plan of a replay with the approval it needs.
\<close>

section \<open>Cleaning of public values\<close>

definition path_heads :: "string list" where
  "path_heads = [''/Users'', ''/home'', ''/tmp'', ''/var'', ''/private'', ''/Volumes'', ''/opt'', ''/etc'', ''/usr'', ''/Applications'']"

text \<open>\<open>_ABSOLUTE_PATH_RE\<close> behind its first group: a well-known directory that ends there, or a drive.\<close>

definition absolute_path_here :: "string \<Rightarrow> bool" where
  "absolute_path_here s \<longleftrightarrow>
     list_ex (\<lambda>h. py_startswith s h \<and> (drop (length h) s = [] \<or> hd (drop (length h) s) = CHR ''/'')) path_heads
     \<or> (case s of c # d # e # _ \<Rightarrow> (is_upper_ascii c \<or> is_lower_ascii c) \<and> d = CHR '':'' \<and> e = CHR 0x5C | _ \<Rightarrow> False)"

fun absolute_path_search :: "bool \<Rightarrow> string \<Rightarrow> bool" where
  "absolute_path_search here [] = False"
| "absolute_path_search here (c # cs) = ((here \<and> absolute_path_here (c # cs)) \<or> absolute_path_search (is_space c) cs)"

definition credential_words :: "string list" where
  "credential_words = [''api_key'', ''api-key'', ''apikey'', ''token'', ''secret'', ''password'', ''credential'']"

definition credential_here :: "string \<Rightarrow> bool" where
  "credential_here s \<longleftrightarrow> list_ex (\<lambda>w. py_lower (take (length w) s) = w
     \<and> (case dropWhile is_space (drop (length w) s) of c # _ \<Rightarrow> c = CHR '':'' \<or> c = CHR ''='' | [] \<Rightarrow> False)) credential_words"

fun credential_search :: "string \<Rightarrow> bool" where
  "credential_search [] = False"
| "credential_search (c # cs) = (credential_here (c # cs) \<or> credential_search cs)"

definition clean_text :: "pyenv \<Rightarrow> json \<Rightarrow> nat \<Rightarrow> string" where
  "clean_text E v limit = (let t = py_strip (if truthy v then py_str E v else []) in
     if t = [] \<or> CHR 0x00 \<in> set t then []
     else if py_startswith t ''/'' \<or> absolute_path_search True t then []
     else if credential_search t then ''[REDACTED]''
     else take limit t)"

fun clean_items :: "pyenv \<Rightarrow> nat \<Rightarrow> nat \<Rightarrow> string list \<Rightarrow> json list \<Rightarrow> string list" where
  "clean_items E limit item_limit acc [] = acc"
| "clean_items E limit item_limit acc (v # vs) = (let c = clean_text E v item_limit;
       acc' = (if c \<noteq> [] \<and> c \<notin> set acc then acc @ [c] else acc)
     in if limit \<le> length acc' then acc' else clean_items E limit item_limit acc' vs)"

definition clean_string_list :: "pyenv \<Rightarrow> json \<Rightarrow> nat \<Rightarrow> nat \<Rightarrow> string list" where
  "clean_string_list E v limit item_limit = (case v of
      JStr s \<Rightarrow> clean_items E limit item_limit [] [JStr s]
    | JArr xs \<Rightarrow> clean_items E limit item_limit [] xs
    | _ \<Rightarrow> [])"

definition contract_int :: "json \<Rightarrow> int \<Rightarrow> int \<Rightarrow> int \<Rightarrow> int" where
  "contract_int v mn mx d = (case py_int v of Inr i \<Rightarrow> max mn (min i mx) | Inl _ \<Rightarrow> d)"

text \<open>The bounds are integers: a value outside them becomes one.\<close>

definition contract_float :: "pyenv \<Rightarrow> json \<Rightarrow> int \<Rightarrow> int \<Rightarrow> int \<Rightarrow> json" where
  "contract_float E v mn mx d = (case py_float E v of
      Inr r \<Rightarrow> if of_int mx < r then JInt (max mn mx) else if of_int mn < r then JFloat r else JInt mn
    | Inl _ \<Rightarrow> JInt d)"

fun prune :: "json \<Rightarrow> json" where
  "prune (JArr xs) = JArr (map prune xs)"
| "prune (JObj o') = JObj (map (\<lambda>p. (fst p, prune (snd p))) (filter (\<lambda>p. snd p \<noteq> JNull \<and> snd p \<noteq> JStr []) o'))"
| "prune v = v"

section \<open>Risk and sandbox selection\<close>

definition risk_rank :: "string \<Rightarrow> nat option" where
  "risk_rank r = map_of [(''low'', 0), (''medium'', 1), (''high'', 2), (''release'', 3)] r"

definition RELEASE_ACTIONS :: "string list" where
  "RELEASE_ACTIONS = [''merge'', ''publish'', ''release'', ''sign'', ''payment'', ''production'']"

definition NETWORK_ACTIONS :: "string list" where
  "NETWORK_ACTIONS = [''push'', ''network'', ''download'', ''install'', ''remote'', ''webhook'']"

definition WRITE_ACTIONS :: "string list" where
  "WRITE_ACTIONS = [''write'', ''patch'', ''mutate'', ''repair'', ''delete'', ''move'', ''rename'']"

text \<open>\<open>re.findall("[a-z0-9]+", s)\<close>\<close>

definition word_char :: "char \<Rightarrow> bool" where
  "word_char c \<longleftrightarrow> is_lower_ascii c \<or> is_digit c"

fun find_words :: "string \<Rightarrow> string \<Rightarrow> string list" where
  "find_words w [] = (if w = [] then [] else [w])"
| "find_words w (c # cs) = (if word_char c then find_words (w @ [c]) cs
     else (if w = [] then [] else [w]) @ find_words [] cs)"

definition action_words :: "string list \<Rightarrow> string list" where
  "action_words actions = concat (map (\<lambda>a. find_words [] (py_lower a)) actions)"

definition inferred_risk :: "string list \<Rightarrow> string \<times> string" where
  "inferred_risk words =
     (if list_ex (\<lambda>w. w \<in> set RELEASE_ACTIONS) words then (''release'', ''release or production side effect detected'')
      else if list_ex (\<lambda>w. w \<in> set NETWORK_ACTIONS) words then (''high'', ''external or network side effect detected'')
      else if list_ex (\<lambda>w. w \<in> set WRITE_ACTIONS) words then (''medium'', ''workspace mutation detected'')
      else (''low'', ''read-only or no side effects detected''))"

definition infer_risk :: "string \<Rightarrow> string list \<Rightarrow> string \<times> string" where
  "infer_risk explicit actions = (let lowered = py_lower explicit; e = (if lowered = ''critical'' then ''release'' else lowered);
       (inferred, reason) = inferred_risk (action_words actions)
     in case risk_rank e of
          None \<Rightarrow> (inferred, reason)
        | Some n \<Rightarrow> if opt_or (risk_rank inferred) 0 \<le> n then (e, ''explicit risk profile'')
                     else (inferred, ''risk raised above requested '' @ e @ '': '' @ reason))"

definition normalized_side_effects :: "pyenv \<Rightarrow> jobj \<Rightarrow> string list" where
  "normalized_side_effects E source = clean_string_list E (jor (jor (jget source ''external_side_effects'') (jget source ''side_effects'')) (JArr [])) 32 120"

definition policy_mode :: "pyenv \<Rightarrow> json \<Rightarrow> string" where
  "policy_mode E v = py_lower (clean_text E (case v of JObj o' \<Rightarrow> jget o' ''mode'' | _ \<Rightarrow> v) 64)"

definition default_network :: "string \<Rightarrow> string" where
  "default_network risk = (if risk = ''high'' \<or> risk = ''release'' then ''adapter_scoped'' else ''none'')"

definition default_filesystem :: "string \<Rightarrow> string" where
  "default_filesystem risk = (if risk = ''low'' then ''read_only'' else ''candidate_workspace_only'')"

definition selected_network :: "pyenv \<Rightarrow> string \<Rightarrow> jobj \<Rightarrow> string" where
  "selected_network E risk requested =
     (if risk = ''low'' \<or> policy_mode E (jor (jget requested ''network_policy'') (jget requested ''network'')) = ''none'' then ''none''
      else default_network risk)"

definition selected_filesystem :: "pyenv \<Rightarrow> string \<Rightarrow> jobj \<Rightarrow> string" where
  "selected_filesystem E risk requested =
     (if risk = ''low'' \<or> policy_mode E (jor (jget requested ''filesystem_policy'') (jget requested ''filesystem'')) = ''read_only'' then ''read_only''
      else default_filesystem risk)"

definition explicit_risk :: "pyenv \<Rightarrow> jobj \<Rightarrow> string" where
  "explicit_risk E source = clean_text E (jor (jget source ''risk_profile'') (jget (obj_or_empty (jget source ''runtime_policy'')) ''risk_profile'')) 32"

definition source_actions :: "pyenv \<Rightarrow> jobj \<Rightarrow> string list" where
  "source_actions E source = clean_string_list E (jor (jget source ''actions'') (jget source ''operations'')) 64 120 @ normalized_side_effects E source"

definition risk_of_source :: "pyenv \<Rightarrow> jobj \<Rightarrow> string \<times> string" where
  "risk_of_source E source = infer_risk (explicit_risk E source) (source_actions E source)"

definition selection_policy :: "string \<Rightarrow> string \<Rightarrow> string \<Rightarrow> jobj \<Rightarrow> jobj" where
  "selection_policy risk network filesystem source = [
     (''risk_profile'', JStr risk), (''network_policy'', JStr network), (''filesystem_policy'', JStr filesystem), (''workspace_root'', JStr []),
     (''budget'', JObj (obj_or_empty (jget source ''budget''))),
     (''promotion'', JObj [(''human_approval_required'', JBool True), (''merge_release_signing_blocked'', JBool True)])]"

definition select_risk_aware_sandbox_policy :: "pyenv \<Rightarrow> jobj \<Rightarrow> jobj res" where
  "select_risk_aware_sandbox_policy E source = (let (risk, reason) = risk_of_source E source;
       requested = obj_or_empty (jor (jget source ''sandbox'') (jget source ''runtime_policy''));
       network = selected_network E risk requested; filesystem = selected_filesystem E risk requested
     in bindE (normalize_sandbox_policy E (selection_policy risk network filesystem source)) (\<lambda>P.
        let normalized = policy_to_dict P in Inr [
          (''schema_version'', jget normalized ''schema_version''),
          (''risk_profile'', JStr risk),
          (''selection_reason'', JStr reason),
          (''network_policy'', jget normalized ''network_policy''),
          (''filesystem_policy'', jget normalized ''filesystem_policy''),
          (''promotion'', jget normalized ''promotion''),
          (''execution_mode'', JStr (if filesystem = ''read_only'' then ''read_only'' else ''isolated_candidate'')),
          (''external_side_effects_blocked'', JBool True)]))"

section \<open>The execution policy contract\<close>

definition role_label :: "pyenv \<Rightarrow> jobj \<Rightarrow> string \<Rightarrow> string" where
  "role_label E source role = clean_text E (jor (jget source ''role_label'') (JStr (py_title (py_replace_char (CHR ''_'') (CHR '' '') role)))) 100"

definition policy_contract :: "pyenv \<Rightarrow> jobj \<Rightarrow> jobj \<Rightarrow> jobj" where
  "policy_contract E source sandbox = (let
       role = clean_text E (jor (jor (jget source ''role'') (jget source ''capability_role'')) (JStr ''worker'')) 80;
       model = obj_or_empty (jor (jget source ''model_policy'') (jget source ''model''));
       budget = obj_or_empty (jget source ''budget'');
       risk = jget sandbox ''risk_profile'';
       effects = normalized_side_effects E source
     in [
       (''schema_version'', JStr ''across-execution-policy/1.0''),
       (''run_id'', JStr (clean_text E (jor (jor (jget source ''run_id'') (jget source ''task_id'')) (jget source ''loop_id'')) 160)),
       (''role'', JObj [(''id'', JStr role), (''label'', JStr (role_label E source role)),
          (''responsibility'', JStr (clean_text E (jget source ''responsibility'') 240))]),
       (''model_policy'', JObj [
          (''provider'', JStr (clean_text E (jor (jget model ''provider'') (jget model ''provider_id'')) 100)),
          (''model'', JStr (clean_text E (jor (jget model ''model'') (jget model ''model_id'')) 160)),
          (''fallback_models'', jstrs (clean_string_list E (jget model ''fallback_models'') 8 160)),
          (''required'', JBool (truthy (jget model ''required''))),
          (''host_owned_credentials'', JBool True),
          (''credentials_included'', JBool False)]),
       (''budget'', JObj [
          (''max_model_calls'', JInt (contract_int (jget budget ''max_model_calls'') 0 100 0)),
          (''max_candidate_repairs'', JInt (contract_int (jget budget ''max_candidate_repairs'') 0 20 0)),
          (''max_usd'', contract_float E (jget budget ''max_usd'') 0 1000 0),
          (''max_runtime_seconds'', contract_float E (jget budget ''max_runtime_seconds'') 0 86400 0)]),
       (''risk'', JObj [(''profile'', risk), (''reason'', jget sandbox ''selection_reason''), (''external_side_effects'', jstrs effects)]),
       (''sandbox'', JObj sandbox),
       (''approval'', JObj [
          (''required'', JBool (risk \<noteq> JStr ''low'' \<or> effects \<noteq> [])),
          (''renewed_approval_required_for_replay'', JBool (effects \<noteq> [])),
          (''proposer_approver_separation_required'', JBool (risk = JStr ''release'' \<or> effects \<noteq> []))]),
       (''privacy'', JObj [(''credentials_included'', JBool False), (''raw_transcript_included'', JBool False), (''absolute_paths_included'', JBool False)])])"

definition build_execution_policy_contract :: "pyenv \<Rightarrow> jobj \<Rightarrow> json res" where
  "build_execution_policy_contract E source = bindE (select_risk_aware_sandbox_policy E source) (\<lambda>sandbox.
     Inr (prune (redact_sensitive_value (JObj (policy_contract E source sandbox)))))"

section \<open>Snapshots of runs\<close>

definition check_status :: "pyenv \<Rightarrow> json \<Rightarrow> string" where
  "check_status E v = (let w = (case v of JObj o' \<Rightarrow> jor (jor (jget o' ''status'') (jget o' ''state'')) (jget o' ''verdict'') | _ \<Rightarrow> v) in
     case w of JBool True \<Rightarrow> ''passed'' | JBool False \<Rightarrow> ''failed''
     | _ \<Rightarrow> (let s = py_lower (clean_text E w 48) in if s = [] then ''unknown'' else s))"

definition set_check :: "jobj \<Rightarrow> string \<Rightarrow> string \<Rightarrow> jobj" where
  "set_check o' k s = (if k = [] then o' else jset o' k (JStr s))"

definition normalize_checks :: "pyenv \<Rightarrow> json \<Rightarrow> jobj" where
  "normalize_checks E v = (case v of
      JObj o' \<Rightarrow> foldl (\<lambda>r p. set_check r (clean_text E (JStr (fst p)) 120) (check_status E (snd p))) [] (sort_key fst o')
    | JArr xs \<Rightarrow> foldl (\<lambda>r (i, x). let entry = obj_or_empty x in
          set_check r (clean_text E (jor (jor (jget entry ''id'') (jget entry ''name'')) (JStr (''check-'' @ nat_str (i + 1)))) 120)
            (check_status E (JObj entry))) [] (enumerate 0 xs)
    | _ \<Rightarrow> [])"

definition evidence_id :: "pyenv \<Rightarrow> json \<Rightarrow> string" where
  "evidence_id E v = clean_text E (case v of
      JObj o' \<Rightarrow> jor (jor (jor (jget o' ''sha256'') (jget o' ''evidence_sha256'')) (jget o' ''id'')) (jget o' ''ref'')
    | _ \<Rightarrow> v) 200"

definition evidence_ids :: "pyenv \<Rightarrow> jobj \<Rightarrow> string list" where
  "evidence_ids E v = (let raw = jor (jor (jor (jget v ''evidence_ids'') (jget v ''evidence'')) (jget v ''evidence_refs'')) (JArr []);
       items = (case raw of JObj o' \<Rightarrow> map (JStr \<circ> fst) o' | JArr xs \<Rightarrow> xs | _ \<Rightarrow> [])
     in take 128 (sort (remdups (filter (\<lambda>s. s \<noteq> [] \<and> \<not> py_startswith s ''/'') (map (evidence_id E) items)))))"

definition budget_keys :: "string list" where
  "budget_keys = [''max_model_calls'', ''model_calls'', ''max_candidate_repairs'', ''candidate_repairs'',
     ''max_usd'', ''usd_used'', ''max_runtime_seconds'', ''runtime_seconds'']"

text \<open>\<open>isinstance(v, (int, float)) and not isinstance(v, bool)\<close>\<close>

definition is_number :: "json \<Rightarrow> bool" where
  "is_number v = (case v of JInt _ \<Rightarrow> True | JFloat _ \<Rightarrow> True | _ \<Rightarrow> False)"

definition public_budget :: "json \<Rightarrow> jobj" where
  "public_budget v = filter (is_number \<circ> snd) (map (\<lambda>k. (k, jget (obj_or_empty v) k)) budget_keys)"

definition snapshot_source :: "jobj \<Rightarrow> string \<Rightarrow> jobj" where
  "snapshot_source v fallback_id = [
     (''run_id'', jor (jor (jor (jget v ''run_id'') (jget v ''task_id'')) (jget v ''loop_id'')) (JStr fallback_id)),
     (''role'', jget v ''role''),
     (''model_policy'', jor (jget v ''model_policy'') (jget v ''model'')),
     (''budget'', jget v ''budget''),
     (''risk_profile'', jget v ''risk_profile''),
     (''actions'', jget v ''actions''),
     (''external_side_effects'', jget v ''external_side_effects'')]"

definition text_or :: "string \<Rightarrow> string \<Rightarrow> json" where
  "text_or s d = JStr (if s = [] then d else s)"

definition snapshot_fields :: "pyenv \<Rightarrow> jobj \<Rightarrow> json \<Rightarrow> json \<Rightarrow> jobj" where
  "snapshot_fields E v model_policy risk = (let quality = obj_or_empty (jget v ''quality'') in [
     (''status'', text_or (clean_text E (jget v ''status'') 48) ''unknown''),
     (''verdict'', text_or (clean_text E (jor (jget v ''verdict'') (jget quality ''status'')) 48) ''unknown''),
     (''checks'', JObj (normalize_checks E (jor (jget v ''checks'') (jget quality ''checks'')))),
     (''evidence_ids'', jstrs (evidence_ids E v)),
     (''code_revision'', JStr (clean_text E (jor (jor (jget v ''code_revision'') (jget v ''commit_sha'')) (jget v ''revision'')) 160)),
     (''model_policy'', model_policy),
     (''budget'', JObj (public_budget (jor (jget v ''budget'') (JObj [])))),
     (''risk'', risk)])"

definition normalize_run_snapshot :: "pyenv \<Rightarrow> jobj \<Rightarrow> string \<Rightarrow> jobj res" where
  "normalize_run_snapshot E v fallback_id = bindE (build_execution_policy_contract E (snapshot_source v fallback_id)) (\<lambda>contract.
     let policy = obj_or_empty contract in
     Inr (obj_or_empty (prune (JObj ((''run_id'', jor (jget policy ''run_id'') (JStr fallback_id))
       # snapshot_fields E v (jget policy ''model_policy'') (jget policy ''risk''))))))"

section \<open>Comparison\<close>

definition passing_statuses :: "string list" where
  "passing_statuses = [''passed'', ''ready'', ''completed'']"

definition classify :: "string \<Rightarrow> string \<Rightarrow> string" where
  "classify before after = (if before = after then ''unchanged''
     else if after \<in> set passing_statuses then ''improved''
     else if before \<in> set passing_statuses then ''regressed''
     else if before = ''missing'' then ''introduced''
     else if after = ''missing'' then ''removed''
     else ''changed'')"

definition check_in :: "jobj \<Rightarrow> string \<Rightarrow> string" where
  "check_in checks k = (case jget_d checks k (JStr ''missing'') of JStr s \<Rightarrow> s | _ \<Rightarrow> [])"

definition sorted_keys :: "jobj \<Rightarrow> jobj \<Rightarrow> string list" where
  "sorted_keys a b = sort (remdups (map fst a @ map fst b))"

definition compare_checks :: "jobj \<Rightarrow> jobj \<Rightarrow> jobj" where
  "compare_checks baseline candidate = (let ids = sorted_keys baseline candidate;
       kind = (\<lambda>k. classify (check_in baseline k) (check_in candidate k)) in [
     (''changed'', JBool (list_ex (\<lambda>k. kind k \<noteq> ''unchanged'') ids)),
     (''items'', objs (map (\<lambda>k. [(''id'', JStr k), (''before'', JStr (check_in baseline k)), (''after'', JStr (check_in candidate k)),
         (''classification'', JStr (kind k))]) ids)),
     (''improved'', jstrs (filter (\<lambda>k. kind k = ''improved'') ids)),
     (''regressed'', jstrs (filter (\<lambda>k. kind k = ''regressed'') ids))])"

definition change :: "json \<Rightarrow> json \<Rightarrow> jobj" where
  "change before after = [(''changed'', JBool (\<not> py_eq before after)), (''before'', before), (''after'', after)]"

definition object_change :: "pyenv \<Rightarrow> json \<Rightarrow> json \<Rightarrow> jobj" where
  "object_change E before after = [(''changed'', JBool (dumps_ascii E before \<noteq> dumps_ascii E after)), (''before'', before), (''after'', after)]"

definition set_change :: "string list \<Rightarrow> string list \<Rightarrow> jobj" where
  "set_change before after = [
     (''changed'', JBool (set before \<noteq> set after)),
     (''added'', jstrs (sort (remdups (filter (\<lambda>x. x \<notin> set before) after)))),
     (''removed'', jstrs (sort (remdups (filter (\<lambda>x. x \<notin> set after) before)))),
     (''retained'', jstrs (sort (remdups (filter (\<lambda>x. x \<in> set after) before))))]"

definition number_diff :: "json \<Rightarrow> json \<Rightarrow> json" where
  "number_diff right left = (case (right, left) of
      (JInt a, JInt b) \<Rightarrow> JInt (a - b)
    | (JInt a, JFloat b) \<Rightarrow> JFloat (of_int a - b)
    | (JFloat a, JInt b) \<Rightarrow> JFloat (a - of_int b)
    | (JFloat a, JFloat b) \<Rightarrow> JFloat (a - b)
    | _ \<Rightarrow> JNull)"

definition budget_change :: "jobj \<Rightarrow> jobj \<Rightarrow> jobj" where
  "budget_change before after = [
     (''changed'', JBool (\<not> py_eq (JObj before) (JObj after))),
     (''items'', objs (map (\<lambda>k. [(''id'', JStr k), (''before'', jget before k), (''after'', jget after k),
         (''delta'', number_diff (jget after k) (jget before k))]) (sorted_keys before after)))]"

definition strings_of :: "json \<Rightarrow> string list" where
  "strings_of v = (case v of JArr xs \<Rightarrow> concat (map (\<lambda>x. case x of JStr s \<Rightarrow> [s] | _ \<Rightarrow> []) xs) | _ \<Rightarrow> [])"

definition snapshot_changes :: "pyenv \<Rightarrow> jobj \<Rightarrow> jobj \<Rightarrow> jobj" where
  "snapshot_changes E baseline candidate = (let of' = (\<lambda>s k. obj_or_empty (jget s k)) in [
     (''verdict'', JObj (change (jget baseline ''verdict'') (jget candidate ''verdict''))),
     (''checks'', JObj (compare_checks (of' baseline ''checks'') (of' candidate ''checks''))),
     (''evidence'', JObj (set_change (strings_of (jget baseline ''evidence_ids'')) (strings_of (jget candidate ''evidence_ids'')))),
     (''code_revision'', JObj (change (jget baseline ''code_revision'') (jget candidate ''code_revision''))),
     (''model_policy'', JObj (object_change E (jor (jget baseline ''model_policy'') (JObj [])) (jor (jget candidate ''model_policy'') (JObj [])))),
     (''budget'', JObj (budget_change (of' baseline ''budget'') (of' candidate ''budget'')))])"

definition changed_sections :: "jobj \<Rightarrow> string list" where
  "changed_sections changes = map fst (filter (\<lambda>p. jget (obj_or_empty (snd p)) ''changed'' = JBool True) changes)"

definition comparison_of :: "pyenv \<Rightarrow> jobj \<Rightarrow> jobj \<Rightarrow> jobj" where
  "comparison_of E baseline candidate = (let changes = snapshot_changes E baseline candidate;
       sections = changed_sections changes; checks = obj_or_empty (jget changes ''checks'') in [
     (''schema_version'', JStr ''across-run-comparison/1.0''),
     (''baseline'', JObj baseline),
     (''candidate'', JObj candidate),
     (''changes'', JObj changes),
     (''summary'', JObj [
        (''changed'', JBool (sections \<noteq> [])),
        (''changed_sections'', jstrs sections),
        (''improved_checks'', jget checks ''improved''),
        (''regressed_checks'', jget checks ''regressed'')])])"

definition build_run_comparison :: "pyenv \<Rightarrow> jobj \<Rightarrow> json res" where
  "build_run_comparison E source =
     bindE (normalize_run_snapshot E (obj_or_empty (jor (jget source ''baseline'') (jget source ''before''))) ''baseline'') (\<lambda>baseline.
     bindE (normalize_run_snapshot E (obj_or_empty (jor (jget source ''candidate'') (jget source ''after''))) ''candidate'') (\<lambda>candidate.
     let comparison = comparison_of E baseline candidate in
     Inr (prune (redact_sensitive_value (JObj (comparison @ [(''comparison_sha256'', JStr (json_hash E (JObj comparison)))]))))))"

section \<open>Replay\<close>

definition approval_field :: "pyenv \<Rightarrow> jobj \<Rightarrow> string \<Rightarrow> string \<Rightarrow> nat \<Rightarrow> string" where
  "approval_field E receipt a b limit = clean_text E (jor (jget receipt a) (jget receipt b)) limit"

text \<open>\<open>integrity in {True, "verified", "valid"}\<close>: \<open>1\<close> and \<open>1.0\<close> equal \<open>True\<close>, a list or dict is unhashable.\<close>

definition integrity_verified :: "json \<Rightarrow> bool res" where
  "integrity_verified v = (case v of
      JArr _ \<Rightarrow> Inl (TypeError ''unhashable type'')
    | JObj _ \<Rightarrow> Inl (TypeError ''unhashable type'')
    | JStr s \<Rightarrow> Inr (s = ''verified'' \<or> s = ''valid'')
    | _ \<Rightarrow> Inr (num_val v = Some 1))"

definition valid_renewed_approval :: "pyenv \<Rightarrow> jobj \<Rightarrow> string \<Rightarrow> bool res" where
  "valid_renewed_approval E receipt source_sha256 = (if receipt = [] then Inr False else
     let proposer = approval_field E receipt ''proposer_id'' ''proposer'' 160;
         approver = approval_field E receipt ''approver_id'' ''approver'' 160;
         subject = approval_field E receipt ''subject_sha256'' ''target_sha256'' 80;
         decision = py_lower (approval_field E receipt ''decision'' ''status'' 40);
         scope = py_lower (approval_field E receipt ''scope'' ''action'' 120)
     in bindE (integrity_verified (jor (jor (jget receipt ''integrity_status'') (jget receipt ''verification'')) (jget receipt ''integrity''))) (\<lambda>verified.
        Inr (verified \<and> (decision = ''approved'' \<or> decision = ''approve'')
          \<and> proposer \<noteq> [] \<and> approver \<noteq> [] \<and> proposer \<noteq> approver
          \<and> subject = source_sha256
          \<and> list_ex (py_contains scope) [''replay'', ''external_side_effect'', ''run''])))"

definition replay_side_effects :: "pyenv \<Rightarrow> jobj \<Rightarrow> string list" where
  "replay_side_effects E source = (let own = normalized_side_effects E source in
     if own \<noteq> [] then own
     else clean_string_list E (jget (obj_or_empty (jor (jget source ''source'') (jget source ''run''))) ''external_side_effects'') 32 120)"

definition replay_plan_of :: "pyenv \<Rightarrow> jobj \<Rightarrow> string list \<Rightarrow> jobj \<Rightarrow> bool \<Rightarrow> jobj" where
  "replay_plan_of E snapshot effects approval approved = (let
       blocked = (if effects \<noteq> [] \<and> \<not> approved
                  then [''external side effects require a new verified approval bound to this replay snapshot''] else []) in [
     (''schema_version'', JStr ''across-replay-plan/1.0''),
     (''status'', JStr (if blocked \<noteq> [] then ''blocked'' else ''ready'')),
     (''mode'', JStr (if effects = [] then ''simulation'' else ''approved_side_effect_plan'')),
     (''source_snapshot'', JObj snapshot),
     (''source_snapshot_sha256'', JStr (json_hash E (JObj snapshot))),
     (''external_side_effects'', jstrs effects),
     (''renewed_approval'', JObj [
        (''required'', JBool (effects \<noteq> [])),
        (''verified'', JBool approved),
        (''receipt_id'', if approved then JStr (clean_text E (jget approval ''receipt_id'') 160) else JNull)]),
     (''execution'', JObj [(''performed'', JBool False), (''automatic_execution_allowed'', JBool False), (''side_effects_repeated'', JBool False)]),
     (''blocked_reasons'', jstrs blocked),
     (''next_action'', JStr (if blocked \<noteq> [] then ''request_new_approval'' else if effects \<noteq> [] then ''review_and_start_explicitly'' else ''review_simulation'')),
     (''privacy'', JObj [(''credentials_included'', JBool False), (''raw_transcript_included'', JBool False), (''absolute_paths_included'', JBool False)])])"

definition build_replay_plan :: "pyenv \<Rightarrow> jobj \<Rightarrow> json res" where
  "build_replay_plan E source =
     bindE (normalize_run_snapshot E (obj_or_empty (jor (jget source ''source'') (jget source ''run''))) ''source'') (\<lambda>snapshot.
     let effects = replay_side_effects E source;
         approval = obj_or_empty (jor (jget source ''renewed_approval'') (jget source ''approval_receipt''))
     in bindE (valid_renewed_approval E approval (json_hash E (JObj snapshot))) (\<lambda>approved.
        let plan = replay_plan_of E snapshot effects approval approved in
        Inr (prune (redact_sensitive_value (JObj (plan @ [(''plan_sha256'', JStr (json_hash E (JObj plan)))]))))))"

end
