(* ===== verification/SandboxRun.thy ===== *)
theory SandboxRun
  imports Sandbox "HOL-Library.AList"
begin

text \<open>
  Running a command under a sandbox policy (\<open>sandbox.py\<close>): requests, the providers and their
  registry, the local provider with its macOS profile, its bounded output and its supervision loop,
  and the receipts.

  The supervised process is a parameter: each round of the loop is a \<open>tick\<close> with what the code sees in
  that round (a cancellation, the data ready on the pipes, the clock, the exit code). A list of ticks that
  ends before the loop does is a process that is still being watched, the result \<open>None\<close>. The state
  of a command is the list of requests that were handed to a provider.
\<close>

section \<open>Requests and receipts\<close>

record sandbox_request =
  rq_argv :: "string list"
  rq_cwd :: pypath
  rq_workspace :: pypath
  rq_policy :: sandbox_policy
  rq_timeout :: rat
  rq_max_output :: int
  rq_refresh :: bool
  rq_max_wall :: rat
  rq_environment :: "(string \<times> string) list"

definition command_receipt :: "pyenv \<Rightarrow> string list \<Rightarrow> json" where
  "command_receipt E argv = JObj [
     (''executable'', case argv of [] \<Rightarrow> JNull | a # _ \<Rightarrow> JStr (path_name (py_path a))),
     (''argument_count'', JInt (int (length argv - 1))),
     (''argv_sha256'', JStr (json_hash E (jstrs argv)))]"

definition finalize_execution_receipt :: "pyenv \<Rightarrow> jobj \<Rightarrow> json" where
  "finalize_execution_receipt E receipt = (case redact_sensitive_value (JObj receipt) of
      JObj safe \<Rightarrow> JObj (jset safe ''receipt_sha256'' (JStr (json_hash E (JObj safe))))
    | v \<Rightarrow> v)"

definition provider_entry :: "string \<Rightarrow> string \<times> json" where
  "provider_entry pid = (''provider'', JObj [(''provider_id'', JStr pid), (''contract_version'', JStr ''across-sandbox-provider/1.0'')])"

definition not_performed :: "string \<times> json" where
  "not_performed = (''execution'', JObj [(''performed'', JBool False), (''timed_out'', JBool False), (''timeout_kind'', JNull)])"

definition public_block_reason :: "string \<Rightarrow> string" where
  "public_block_reason reason = (let t = (if reason = [] then ''blocked'' else reason) in
     if py_startswith t ''command is not allowlisted:'' then ''command is not allowlisted''
     else if py_startswith t ''workspace boundary cannot be resolved:'' then ''workspace boundary cannot be resolved''
     else t)"

definition blocked_execution_receipt :: "pyenv \<Rightarrow> policy_evaluation \<Rightarrow> string \<Rightarrow> json" where
  "blocked_execution_receipt E ev pid = finalize_execution_receipt E [
     (''schema_version'', JStr ''across-sandbox-execution/1.0''),
     (''status'', JStr ''blocked''),
     provider_entry pid,
     (''command'', command_receipt E (opt_or (ev_command ev) [])),
     not_performed,
     (''blocked_reasons'', jstrs (map public_block_reason (ev_blocked_reasons ev))),
     (''policy_evidence'', JObj [
        (''schema_version'', JStr ''across-sandbox-evidence/1.0''),
        (''policy_schema_version'', JStr ''across-sandbox-policy/1.0''),
        (''status'', JStr (if ev_passed ev then ''passed'' else ''blocked'')),
        (''network_mode'', JStr (sp_network_mode (ev_policy ev))),
        (''filesystem_mode'', JStr (sp_filesystem_mode (ev_policy ev))),
        (''checks'', JArr (map (\<lambda>ck. JObj [(''id'', JStr (ck_id ck)),
            (''status'', JStr (if ck_passed ck then ''passed'' else ''blocked'')),
            (''reason'', JStr (public_block_reason (ck_reason ck)))]) (ev_checks ev)))])]"

definition error_execution_receipt :: "pyenv \<Rightarrow> sandbox_request \<Rightarrow> string \<Rightarrow> string \<Rightarrow> string \<Rightarrow> json" where
  "error_execution_receipt E rq pid category message = finalize_execution_receipt E [
     (''schema_version'', JStr ''across-sandbox-execution/1.0''),
     (''status'', JStr ''error''),
     provider_entry pid,
     (''command'', command_receipt E (rq_argv rq)),
     not_performed,
     (''error'', JObj [(''category'', JStr category), (''message'', JStr message)])]"

definition provider_policy_blocked_receipt :: "pyenv \<Rightarrow> sandbox_request \<Rightarrow> string \<Rightarrow> string \<Rightarrow> json" where
  "provider_policy_blocked_receipt E rq pid reason = finalize_execution_receipt E [
     (''schema_version'', JStr ''across-sandbox-execution/1.0''),
     (''status'', JStr ''blocked''),
     provider_entry pid,
     (''command'', command_receipt E (rq_argv rq)),
     not_performed,
     (''blocked_reasons'', jstrs [reason])]"

section \<open>Providers\<close>

record sandbox_provider =
  pv_capabilities :: jobj
  pv_execute :: "sandbox_request \<Rightarrow> json res option"

type_synonym registry = "(string \<times> sandbox_provider) list"

definition registry_register :: "registry \<Rightarrow> string \<Rightarrow> sandbox_provider \<Rightarrow> bool \<Rightarrow> registry res" where
  "registry_register reg raw_id provider replace = (let pid = py_strip raw_id in
     if pid = [] then Inl (ValueError ''sandbox provider_id must be a non-empty string'')
     else if pid \<in> set (map fst reg) \<and> \<not> replace then Inl (ValueError (''sandbox provider is already registered: '' @ pid))
     else Inr (AList.update pid provider reg))"

definition registry_get :: "registry \<Rightarrow> string \<Rightarrow> sandbox_provider res" where
  "registry_get reg pid = (case map_of reg pid of Some p \<Rightarrow> Inr p
     | None \<Rightarrow> Inl (ValueError (''unknown sandbox provider: '' @ pid)))"

definition registry_list :: "registry \<Rightarrow> jobj list" where
  "registry_list reg = map (\<lambda>(pid, p). jmerge [(''provider_id'', JStr pid)] (pv_capabilities p)) (sort_key fst reg)"

text \<open>\<open>mode in capabilities.get(key, [])\<close>\<close>

definition mode_declared :: "jobj \<Rightarrow> string \<Rightarrow> string \<Rightarrow> bool res" where
  "mode_declared caps key mode = (case jget_d caps key (JArr []) of
      JArr xs \<Rightarrow> Inr (JStr mode \<in> set xs)
    | JObj o' \<Rightarrow> Inr (jhas o' mode)
    | JStr s \<Rightarrow> Inr (py_contains s mode)
    | _ \<Rightarrow> Inl (TypeError ''argument is not iterable''))"

section \<open>Executing a command\<close>

definition validated_write_root :: "file_system \<Rightarrow> pypath \<Rightarrow> string \<Rightarrow> pypath res" where
  "validated_write_root F workspace_root v = bindE (resolve_strict F (py_path v)) (\<lambda>root.
     if inside root workspace_root then Inr root
     else Inl (ValueError ''filesystem allowlist roots must stay inside workspace_root''))"

definition jfloat_opt :: "rat option \<Rightarrow> json" where
  "jfloat_opt x = (case x of None \<Rightarrow> JNull | Some r \<Rightarrow> JFloat r)"

record execution_options =
  eo_timeout :: "rat option"
  eo_refresh :: "bool option"
  eo_max_wall :: "rat option"
  eo_max_output :: "int option"
  eo_environment :: "(string \<times> string) list"

definition execution_request :: "pyenv \<Rightarrow> file_system \<Rightarrow> sandbox_policy \<Rightarrow> string list \<Rightarrow> string \<Rightarrow> execution_options \<Rightarrow> sandbox_request res" where
  "execution_request E F P command cwd opts =
     bindE (resolve_strict F (py_path (sp_workspace_root P))) (\<lambda>workspace_root.
     bindE (resolve_strict F (py_path cwd)) (\<lambda>cwd_path.
     bindE (checkE (fs_is_dir F workspace_root \<and> fs_is_dir F cwd_path)
        (ValueError ''workspace_root and cwd must be existing directories'')) (\<lambda>_.
     bindE (bounded_float E (JFloat (opt_or (eo_timeout opts) (sp_timeout_seconds P)))
        DEFAULT_TIMEOUT_SECONDS (1 / 100) MAX_TIMEOUT_SECONDS ''timeout_seconds'') (\<lambda>timeout.
     bindE (bounded_bool (JBool (opt_or (eo_refresh opts) (sp_refresh_timeout P))) False ''refresh_timeout_on_output'') (\<lambda>refresh.
     bindE (bounded_float E (JFloat (opt_or (eo_max_wall opts) (sp_max_wall_timeout P)))
        DEFAULT_MAX_WALL_TIMEOUT_SECONDS (1 / 100) MAX_TIMEOUT_SECONDS ''max_wall_timeout_seconds'') (\<lambda>max_wall.
     bindE (bounded_int (JInt (opt_or (eo_max_output opts) (sp_max_output_bytes P)))
        DEFAULT_MAX_OUTPUT_BYTES 1 MAX_OUTPUT_BYTES ''max_output_bytes'') (\<lambda>output_limit.
     Inr \<lparr>rq_argv = command, rq_cwd = cwd_path, rq_workspace = workspace_root, rq_policy = P,
          rq_timeout = timeout, rq_max_output = output_limit, rq_refresh = refresh, rq_max_wall = max_wall,
          rq_environment = eo_environment opts\<rparr>)))))))"

text \<open>The provider runs the request: it is entered in the state, the answer is redacted.\<close>

definition provider_execute :: "pyenv \<Rightarrow> string \<Rightarrow> sandbox_provider \<Rightarrow> sandbox_request \<Rightarrow> (sandbox_request list, json option) pyM" where
  "provider_execute E pid provider rq = thenM (modifyM (\<lambda>rqs. rqs @ [rq]))
     (case pv_execute provider rq of
        None \<Rightarrow> retM None
      | Some (Inr v) \<Rightarrow> retM (Some (redact_sensitive_value v))
      | Some (Inl (FileNotFoundError m)) \<Rightarrow> retM (Some (error_execution_receipt E rq pid ''command_not_found'' ''sandbox command was not found''))
      | Some (Inl (PermissionError m)) \<Rightarrow> retM (Some (error_execution_receipt E rq pid ''permission_denied'' ''sandbox command permission was denied''))
      | Some (Inl e) \<Rightarrow> raiseM e)"

definition write_roots_allowed :: "file_system \<Rightarrow> sandbox_request \<Rightarrow> pypath list res" where
  "write_roots_allowed F rq = (if sp_filesystem_mode (rq_policy rq) = ''allowlist''
     then mapE (validated_write_root F (rq_workspace rq)) (sp_allowlist_roots (rq_policy rq)) else Inr [])"

definition dispatch_request :: "pyenv \<Rightarrow> registry \<Rightarrow> string \<Rightarrow> sandbox_request \<Rightarrow> (sandbox_request list, json option) pyM" where
  "dispatch_request E reg pid rq =
     bindM (liftM (registry_get reg pid)) (\<lambda>provider.
     let network_mode = sp_network_mode (rq_policy rq); filesystem_mode = sp_filesystem_mode (rq_policy rq) in
     bindM (liftM (mode_declared (pv_capabilities provider) ''network_modes'' network_mode)) (\<lambda>network_ok.
     if \<not> network_ok then
       retM (Some (provider_policy_blocked_receipt E rq pid (''provider does not enforce network policy: '' @ network_mode)))
     else
     bindM (liftM (mode_declared (pv_capabilities provider) ''filesystem_modes'' filesystem_mode)) (\<lambda>filesystem_ok.
     if \<not> filesystem_ok then
       retM (Some (provider_policy_blocked_receipt E rq pid (''provider does not enforce filesystem policy: '' @ filesystem_mode)))
     else provider_execute E pid provider rq)))"

definition execute_sandbox_command ::
  "pyenv \<Rightarrow> file_system \<Rightarrow> registry \<Rightarrow> jobj \<Rightarrow> string list \<Rightarrow> string \<Rightarrow> string \<Rightarrow> execution_options \<Rightarrow> (sandbox_request list, json option) pyM" where
  "execute_sandbox_command E F reg policy command cwd pid opts =
     bindM (liftM (evaluate_sandbox_policy E F policy (Some command) (Some cwd))) (\<lambda>ev.
     if \<not> ev_passed ev then retM (Some (blocked_execution_receipt E ev pid))
     else
     bindM (liftM (execution_request E F (ev_policy ev) command cwd opts)) (\<lambda>rq.
     case write_roots_allowed F rq of
       Inl (FileNotFoundError m) \<Rightarrow> retM (Some (provider_policy_blocked_receipt E rq pid m))
     | Inl (ValueError m) \<Rightarrow> retM (Some (provider_policy_blocked_receipt E rq pid m))
     | Inl e \<Rightarrow> raiseM e
     | Inr _ \<Rightarrow> dispatch_request E reg pid rq))"


section \<open>The local provider\<close>

subsection \<open>Profile and environment\<close>

definition sandbox_quote :: "string \<Rightarrow> string" where
  "sandbox_quote v = concat (map (\<lambda>c. if c = CHR 0x22 then [CHR 0x5C, CHR 0x22] else [c])
     (concat (map (\<lambda>c. if c = CHR 0x5C then [CHR 0x5C, CHR 0x5C] else [c]) v)))"

definition quoted :: "pypath \<Rightarrow> string" where
  "quoted p = CHR 0x22 # sandbox_quote (path_str p) @ [CHR 0x22]"

definition subpath_rule :: "pypath \<Rightarrow> string" where
  "subpath_rule p = ''(allow file-write* (subpath '' @ quoted p @ ''))''"

definition literal_rule :: "pypath \<Rightarrow> string" where
  "literal_rule p = ''(allow file-write* (literal '' @ quoted p @ ''))''"

definition profile_head :: "string list" where
  "profile_head = [''(version 1)'', ''(deny default)'', ''(import '' @ [CHR 0x22] @ ''system.sb'' @ [CHR 0x22] @ '')'',
     ''(allow process-exec process-fork)'', ''(allow file-read*)'', ''(allow sysctl-read)'', ''(allow mach-lookup)'']"

definition network_lines :: "string \<Rightarrow> string list" where
  "network_lines mode = (if mode = ''none'' then [''(deny network*)'']
     else if mode = ''adapter_scoped'' then [''(allow network-outbound)''] else [])"

definition macos_profile_lines :: "file_system \<Rightarrow> sandbox_request \<Rightarrow> string list res" where
  "macos_profile_lines F rq = (let P = rq_policy rq in
     bindE (if sp_filesystem_mode P = ''read_only'' then Inr []
            else if sp_filesystem_mode P = ''allowlist'' then mapE (validated_write_root F (rq_workspace rq)) (sp_allowlist_roots P)
            else Inr [rq_workspace rq]) (\<lambda>roots.
     bindE (validated_runtime_state_roots F (sp_state_roots P) (Some (rq_workspace rq))) (\<lambda>state_roots.
     bindE (validated_runtime_state_files F (sp_state_files P) state_roots) (\<lambda>state_files.
     Inr (profile_head @ network_lines (sp_network_mode P)
        @ map subpath_rule roots @ map subpath_rule state_roots @ map literal_rule state_files)))))"

definition macos_sandbox_profile :: "file_system \<Rightarrow> sandbox_request \<Rightarrow> string res" where
  "macos_sandbox_profile F rq = bindE (macos_profile_lines F rq) (\<lambda>ls. Inr (py_join [CHR 0x0A] ls))"

definition native_backend :: "bool \<Rightarrow> string" where
  "native_backend darwin = (if darwin then ''macos-sandbox-exec'' else ''policy-boundary'')"

definition local_capabilities :: "bool \<Rightarrow> jobj" where
  "local_capabilities darwin = [
     (''contract_version'', JStr ''across-sandbox-provider/1.0''),
     (''runtime'', JStr ''local''),
     (''transport'', JStr ''in_process''),
     (''network_modes'', jstrs (if darwin then [''none'', ''adapter_scoped''] else [''none''])),
     (''filesystem_modes'', jstrs (if darwin then sort VALID_FILESYSTEM_MODES else [''run_scoped''])),
     (''native_policy_backend'', JStr (native_backend darwin))]"

definition sandboxed_command :: "file_system \<Rightarrow> bool \<Rightarrow> sandbox_request \<Rightarrow> (string list \<times> jobj) res" where
  "sandboxed_command F darwin rq = (let kept = (if darwin then ''kernel_enforced'' else ''declared_not_kernel_isolated'');
       enforcement = [(''backend'', JStr (native_backend darwin)), (''argv_without_shell'', JBool True),
         (''workspace_boundary'', JStr (if darwin then ''kernel_enforced'' else ''validated'')),
         (''network_policy'', JStr kept), (''filesystem_policy'', JStr kept)]
     in if \<not> darwin then Inr (rq_argv rq, enforcement)
        else bindE (macos_sandbox_profile F rq) (\<lambda>profile.
          Inr ([''/usr/bin/sandbox-exec'', ''-p'', profile, ''--''] @ rq_argv rq, enforcement)))"

definition env_update :: "(string \<times> string) list \<Rightarrow> (string \<times> string) list \<Rightarrow> (string \<times> string) list" where
  "env_update env new = foldl (\<lambda>e (k, v). AList.update k v e) env new"

definition execution_environment :: "(string \<times> string) list \<Rightarrow> sandbox_request \<Rightarrow> (string \<times> string) list" where
  "execution_environment environ rq = env_update (env_update environ
     [(''PYTHONDONTWRITEBYTECODE'', ''1''),
      (''ACROSS_SANDBOX_NETWORK_POLICY'', sp_network_mode (rq_policy rq)),
      (''ACROSS_SANDBOX_FILESYSTEM_POLICY'', sp_filesystem_mode (rq_policy rq))]) (rq_environment rq)"

subsection \<open>Bounded output\<close>

record bounded_output =
  bo_limit :: int
  bo_data :: bytes
  bo_total :: nat

definition bounded_new :: "int \<Rightarrow> bounded_output" where
  "bounded_new limit = \<lparr>bo_limit = limit, bo_data = [], bo_total = 0\<rparr>"

definition bo_truncated :: "bounded_output \<Rightarrow> bool" where
  "bo_truncated b \<longleftrightarrow> length (bo_data b) < bo_total b"

definition bo_append :: "bounded_output \<Rightarrow> bytes \<Rightarrow> bounded_output" where
  "bo_append b chunk = (let remaining = bo_limit b - int (length (bo_data b)) in
     b\<lparr>bo_total := bo_total b + length chunk,
       bo_data := (if 0 < remaining then bo_data b @ take (nat remaining) chunk else bo_data b)\<rparr>)"

subsection \<open>Supervision\<close>

datatype pipe = Stdout | Stderr

record ready =
  rd_pipe :: pipe
  rd_data :: bytes
  rd_time :: rat

record process_io =
  io_stdout :: bounded_output
  io_stderr :: bounded_output
  io_open :: "pipe list"
  io_activity :: rat

definition io_append :: "process_io \<Rightarrow> pipe \<Rightarrow> bytes \<Rightarrow> process_io" where
  "io_append io p chunk = (case p of
      Stdout \<Rightarrow> io\<lparr>io_stdout := bo_append (io_stdout io) chunk\<rparr>
    | Stderr \<Rightarrow> io\<lparr>io_stderr := bo_append (io_stderr io) chunk\<rparr>)"

text \<open>\<open>_drain_ready_streams\<close>: one read per ready pipe; an empty read closes it. A closed pipe is not selected.\<close>

fun drain_ready_streams :: "process_io \<Rightarrow> ready list \<Rightarrow> process_io \<times> bool" where
  "drain_ready_streams io [] = (io, False)"
| "drain_ready_streams io (r # rs) =
     (if rd_pipe r \<notin> set (io_open io) then drain_ready_streams io rs
      else let chunk = take 65536 (rd_data r) in
        if chunk = [] then drain_ready_streams (io\<lparr>io_open := removeAll (rd_pipe r) (io_open io)\<rparr>) rs
        else let (io', d) = drain_ready_streams ((io_append io (rd_pipe r) chunk)\<lparr>io_activity := rd_time r\<rparr>) rs in (io', True))"

fun drain_rest :: "process_io \<Rightarrow> ready list list \<Rightarrow> process_io" where
  "drain_rest io [] = io"
| "drain_rest io (rs # rss) = (let (io', d) = drain_ready_streams io rs in if d then drain_rest io' rss else io')"

datatype sent = Terminate | Kill | TermGroup | KillGroup

record tick =
  tk_cancel :: "(string \<times> string option) option"
  tk_ready :: "ready list"
  tk_now :: rat
  tk_poll :: "int option"
  tk_waited :: "ready list"

record process_host =
  ph_darwin :: bool
  ph_environ :: "(string \<times> string) list"
  ph_spawn_error :: "string list \<Rightarrow> pypath \<Rightarrow> (string \<times> string) list \<Rightarrow> py_exc option"
  ph_started :: rat
  ph_ticks :: "tick list"
  ph_after :: "ready list list"
  ph_finished :: rat
  ph_has_killpg :: bool
  ph_group_exists :: bool
  ph_exits_on_term :: bool
  ph_wait_code :: int
  ph_decode :: "bytes \<Rightarrow> string"

definition terminate_process_group :: "process_host \<Rightarrow> sent list" where
  "terminate_process_group H =
     (if \<not> ph_has_killpg H then Terminate # (if ph_exits_on_term H then [] else [Kill])
      else if \<not> ph_group_exists H then []
      else TermGroup # (if ph_exits_on_term H then [] else [KillGroup]))"

record run_outcome =
  ro_exit :: int
  ro_timeout_kind :: "string option"
  ro_sent :: "sent list"
  ro_io :: process_io

definition timed_out_outcome :: "process_host \<Rightarrow> string \<Rightarrow> process_io \<Rightarrow> run_outcome" where
  "timed_out_outcome H kind io = \<lparr>ro_exit = ph_wait_code H, ro_timeout_kind = Some kind, ro_sent = terminate_process_group H, ro_io = io\<rparr>"

text \<open>The loop of \<open>LocalWorkspaceSandboxProvider.execute\<close>\<close>

fun supervise :: "sandbox_request \<Rightarrow> process_host \<Rightarrow> process_io \<Rightarrow> tick list \<Rightarrow> run_outcome res option" where
  "supervise rq H io [] = None"
| "supervise rq H io (t # ts) = (case tk_cancel t of
      Some (reason, category) \<Rightarrow> Some (Inl (ActionCancelledError reason category))
    | None \<Rightarrow>
        let io1 = fst (drain_ready_streams io (tk_ready t)); now = tk_now t in
        if ph_started H + rq_max_wall rq \<le> now then Some (Inr (timed_out_outcome H ''max_wall'' io1))
        else if rq_refresh rq \<and> io_activity io1 + rq_timeout rq \<le> now then Some (Inr (timed_out_outcome H ''idle'' io1))
        else if \<not> rq_refresh rq \<and> ph_started H + rq_timeout rq \<le> now then Some (Inr (timed_out_outcome H ''max_wall'' io1))
        else case tk_poll t of
          Some code \<Rightarrow> Some (Inr \<lparr>ro_exit = code, ro_timeout_kind = None, ro_sent = [], ro_io = io1\<rparr>)
        | None \<Rightarrow> supervise rq H (fst (drain_ready_streams io1 (tk_waited t))) ts)"

definition process_start :: "sandbox_request \<Rightarrow> process_host \<Rightarrow> process_io" where
  "process_start rq H = \<lparr>io_stdout = bounded_new (rq_max_output rq), io_stderr = bounded_new (rq_max_output rq),
     io_open = [Stdout, Stderr], io_activity = ph_started H\<rparr>"

subsection \<open>The receipt\<close>

fun match_quoted_path :: "string \<Rightarrow> (string \<times> string) option" where
  "match_quoted_path (q # c # cs) = (if (q = CHR 0x27 \<or> q = CHR 0x22) \<and> c = CHR ''/'' then
      (let run = takeWhile (\<lambda>x. x \<notin> {CHR 0x27, CHR 0x22, CHR 0x0D, CHR 0x0A}) cs; rest = drop (length run) cs in
       if run \<noteq> [] \<and> rest \<noteq> [] \<and> hd rest = q then Some (c # run, tl rest) else None)
    else None)"
| "match_quoted_path _ = None"

lemma match_quoted_path_shorter: "match_quoted_path s = Some (p, rest) \<Longrightarrow> length rest < length s"
  by (induction s rule: match_quoted_path.induct) (auto simp: Let_def split: if_splits)

function quoted_paths :: "string \<Rightarrow> string list" where
  "quoted_paths s = (case match_quoted_path s of
      Some (p, rest) \<Rightarrow> p # quoted_paths rest
    | None \<Rightarrow> (case s of [] \<Rightarrow> [] | _ # cs \<Rightarrow> quoted_paths cs))"
  by pat_completeness auto
termination
  by (relation "measure length") (auto dest: match_quoted_path_shorter)

declare quoted_paths.simps [simp del]

definition execution_sensitive_paths :: "sandbox_request \<Rightarrow> pypath list \<Rightarrow> pypath list \<Rightarrow> pypath list" where
  "execution_sensitive_paths rq roots files = (let paths = [rq_workspace rq, rq_cwd rq] @ roots @ files
      @ concat (map (\<lambda>a. (if py_startswith a ''/'' then [py_path a] else []) @ map py_path (quoted_paths a)) (rq_argv rq))
    in sort_key (\<lambda>p. - int (length (path_str p))) (sort_key path_str (remdups paths)))"

text \<open>\<open>s.replace(old, new)\<close> for a text \<open>old\<close> that is not empty\<close>

definition match_text :: "string \<Rightarrow> char option \<Rightarrow> string \<Rightarrow> nat option" where
  "match_text old prev s = (if py_startswith s old then Some (length old) else None)"

definition py_replace :: "string \<Rightarrow> string \<Rightarrow> string \<Rightarrow> string" where
  "py_replace old new s = re_sub (match_text old) new None s"

definition redact_execution_output_paths :: "string \<Rightarrow> pypath list \<Rightarrow> string" where
  "redact_execution_output_paths t paths = foldl (\<lambda>r p. let v = path_str p in
     if v \<noteq> [] \<and> v \<noteq> ''/'' then py_replace v ''<redacted-path>'' r else r) t paths"

definition execution_receipt :: "pyenv \<Rightarrow> file_system \<Rightarrow> sandbox_request \<Rightarrow> process_host \<Rightarrow> run_outcome \<Rightarrow> jobj \<Rightarrow> json res" where
  "execution_receipt E F rq H out enforcement = (let P = rq_policy rq; timed_out = ro_timeout_kind out \<noteq> None; io = ro_io out in
     bindE (validated_runtime_state_roots F (sp_state_roots P) (Some (rq_workspace rq))) (\<lambda>roots.
     bindE (validated_runtime_state_files F (sp_state_files P) roots) (\<lambda>files.
     let sensitive = execution_sensitive_paths rq roots files in
     Inr (finalize_execution_receipt E [
       (''schema_version'', JStr ''across-sandbox-execution/1.0''),
       (''status'', JStr (if timed_out then ''timed_out'' else if ro_exit out = 0 then ''completed'' else ''failed'')),
       provider_entry ''local-workspace'',
       (''command'', command_receipt E (rq_argv rq)),
       (''workspace'', JObj [
          (''workspace_sha256'', JStr (sha256_hex (path_str (rq_workspace rq)))),
          (''cwd_sha256'', JStr (sha256_hex (path_str (rq_cwd rq)))),
          (''cwd_within_workspace'', JBool True)]),
       (''policy'', JObj [
          (''schema_version'', JStr ''across-sandbox-policy/1.0''),
          (''network_mode'', JStr (sp_network_mode P)),
          (''filesystem_mode'', JStr (sp_filesystem_mode P)),
          (''runtime_state_roots'', JObj (paths_summary E roots)),
          (''runtime_state_files'', JObj (paths_summary E files)),
          (''policy_sha256'', JStr (json_hash E (JObj (policy_to_dict P))))]),
       (''execution'', JObj [
          (''performed'', JBool True),
          (''exit_code'', JInt (ro_exit out)),
          (''timed_out'', JBool timed_out),
          (''timeout_kind'', jopt (ro_timeout_kind out)),
          (''timeout_seconds'', JFloat (rq_timeout rq)),
          (''refresh_timeout_on_output'', JBool (rq_refresh rq)),
          (''max_wall_timeout_seconds'', JFloat (rq_max_wall rq)),
          (''duration_ms'', JInt (rat_trunc ((ph_finished H - ph_started H) * 1000)))]),
       (''output'', JObj [
          (''encoding'', JStr ''utf-8''),
          (''max_bytes_per_stream'', JInt (rq_max_output rq)),
          (''stdout'', JStr (redact_execution_output_paths (ph_decode H (bo_data (io_stdout io))) sensitive)),
          (''stderr'', JStr (redact_execution_output_paths (ph_decode H (bo_data (io_stderr io))) sensitive)),
          (''stdout_bytes'', JInt (int (bo_total (io_stdout io)))),
          (''stderr_bytes'', JInt (int (bo_total (io_stderr io)))),
          (''stdout_truncated'', JBool (bo_truncated (io_stdout io))),
          (''stderr_truncated'', JBool (bo_truncated (io_stderr io)))]),
       (''enforcement'', JObj enforcement)]))))"

text \<open>\<open>LocalWorkspaceSandboxProvider.execute\<close>\<close>

definition local_execute :: "pyenv \<Rightarrow> file_system \<Rightarrow> process_host \<Rightarrow> sandbox_request \<Rightarrow> json res option" where
  "local_execute E F H rq = (case sandboxed_command F (ph_darwin H) rq of
      Inl e \<Rightarrow> Some (Inl e)
    | Inr (command, enforcement) \<Rightarrow> (case ph_spawn_error H command (rq_cwd rq) (execution_environment (ph_environ H) rq) of
        Some e \<Rightarrow> Some (Inl e)
      | None \<Rightarrow> (case supervise rq H (process_start rq H) (ph_ticks H) of
          None \<Rightarrow> None
        | Some (Inl e) \<Rightarrow> Some (Inl e)
        | Some (Inr out) \<Rightarrow> Some (execution_receipt E F rq H (out\<lparr>ro_io := drain_rest (ro_io out) (ph_after H)\<rparr>) enforcement))))"

definition local_workspace_provider :: "pyenv \<Rightarrow> file_system \<Rightarrow> process_host \<Rightarrow> sandbox_provider" where
  "local_workspace_provider E F H = \<lparr>pv_capabilities = local_capabilities (ph_darwin H), pv_execute = local_execute E F H\<rparr>"

end
