(* ===== verification/SandboxFacts.thy ===== *)
theory SandboxFacts
  imports SandboxRun
begin

text \<open>
  What the sandbox promises: state roots are disjoint directories that do not hold the workspace,
  the profile lets a command write nowhere else than the policy says, the output kept of a command
  is bounded, a command is watched no longer than its deadline, and only a command that the policy
  allows reaches a provider.
\<close>

section \<open>State roots and files\<close>

lemma foldE_invariant:
  assumes "foldE f b xs = Inr b'" "I b" "\<And>b x b'. x \<in> set xs \<Longrightarrow> I b \<Longrightarrow> f b x = Inr b' \<Longrightarrow> I b'"
  shows "I b'"
  using assms
proof (induction xs arbitrary: b)
  case (Cons x xs)
  then obtain c where "f b x = Inr c" "foldE f c xs = Inr b'" by (auto simp: bindE_def split: sum.splits)
  then show ?case using Cons.IH [of c] Cons.prems by (metis list.set_intros)
qed simp

lemma bindE_InrE:
  assumes "bindE m f = Inr y" obtains x where "m = Inr x" "f x = Inr y"
  using assms by (cases m) auto

lemma bindE_pairE:
  assumes "bindE m (\<lambda>(x, y). f x y) = Inr w" obtains x y where "m = Inr (x, y)" "f x y = Inr w"
  using assms by (cases m) auto

lemma bindE_tripleE:
  assumes "bindE m (\<lambda>(x, y, z). f x y z) = Inr w" obtains x y z where "m = Inr (x, y, z)" "f x y z = Inr w"
  using assms by (cases m) auto

lemma checkE_Inr [simp]: "checkE b e = Inr u \<longleftrightarrow> b"
  by (auto simp: checkE_def)

text \<open>Separate paths: neither is the other or below it.\<close>

definition apart :: "pypath \<Rightarrow> pypath \<Rightarrow> bool" where
  "apart p q \<longleftrightarrow> \<not> inside p q \<and> \<not> inside q p"

definition state_root_ok :: "file_system \<Rightarrow> pypath option \<Rightarrow> pypath \<Rightarrow> bool" where
  "state_root_ok F workspace r \<longleftrightarrow> fs_is_dir F r \<and> \<not> is_anchor r \<and> (\<forall>w. workspace = Some w \<longrightarrow> \<not> in_parents r w)"

fun pairwise_apart :: "pypath list \<Rightarrow> bool" where
  "pairwise_apart [] = True"
| "pairwise_apart (p # ps) = (list_all (apart p) ps \<and> pairwise_apart ps)"

lemma pairwise_apart_snoc: "pairwise_apart (ps @ [p]) \<longleftrightarrow> pairwise_apart ps \<and> list_all (\<lambda>q. apart q p) ps"
  by (induction ps) auto

lemma validated_state_rootD:
  assumes "validated_state_root F w roots v = Inr roots'"
  shows "\<exists>r. roots' = roots @ [r] \<and> state_root_ok F w r \<and> list_all (\<lambda>q. apart q r) roots"
  using assms unfolding validated_state_root_def
  by (elim bindE_InrE) (auto simp: state_root_ok_def apart_def inside_def list_all_iff list_ex_iff split: option.splits)

lemma validated_roots_fold:
  assumes "foldE (validated_state_root F w) [] vs = Inr roots"
  shows "list_all (state_root_ok F w) roots \<and> pairwise_apart roots"
  by (rule foldE_invariant [OF assms]) (auto dest!: validated_state_rootD simp: pairwise_apart_snoc)

lemma validated_roots_lemma:
  assumes "validated_runtime_state_roots F vs (Some w) = Inr roots" "resolve_strict F w = Inr w'"
  shows "list_all (state_root_ok F (Some w')) roots \<and> pairwise_apart roots"
  using assms by (auto simp: validated_runtime_state_roots_def split: if_splits elim!: bindE_InrE dest: validated_roots_fold)

lemma validated_state_fileD:
  assumes "validated_state_file F roots files v = Inr files'"
  shows "\<exists>p st. files' = files @ [(p, st)] \<and> p \<notin> fst ` set files \<and> st \<notin> snd ` set files \<and> list_all (\<lambda>r. \<not> inside p r) roots"
  using assms unfolding validated_state_file_def
  by (elim bindE_InrE) (auto simp: inside_def list_all_iff list_ex_iff elim!: bindE_InrE split: prod.splits)

lemma validated_files_lemma:
  assumes "validated_runtime_state_files F vs roots = Inr files"
  shows "distinct files \<and> list_all (\<lambda>p. list_all (\<lambda>r. \<not> inside p r) roots) files"
proof -
  obtain fs where fs: "foldE (validated_state_file F roots) [] vs = Inr fs" "files = map fst fs"
    using assms by (auto simp: validated_runtime_state_files_def elim!: bindE_InrE)
  have "distinct (map fst fs) \<and> list_all (\<lambda>p. list_all (\<lambda>r. \<not> inside p r) roots) (map fst fs)"
    by (rule foldE_invariant [OF fs(1)]) (auto dest!: validated_state_fileD)
  then show ?thesis using fs(2) by simp
qed

section \<open>The profile\<close>

text \<open>How the profile language reads a string literal: up to the closing quote, a backslash takes
  the next character as it is.\<close>

fun read_literal :: "string \<Rightarrow> (string \<times> string) option" where
  "read_literal [] = None"
| "read_literal (c # cs) = (if c = CHR 0x22 then Some ([], cs)
     else if c = CHR 0x5C then (case cs of [] \<Rightarrow> None | d # ds \<Rightarrow> map_option (\<lambda>(v, r). (d # v, r)) (read_literal ds))
     else map_option (\<lambda>(v, r). (c # v, r)) (read_literal cs))"

lemma sandbox_quote_simps [simp]:
  "sandbox_quote [] = []"
  "sandbox_quote (c # cs) = (if c = CHR 0x5C \<or> c = CHR 0x22 then [CHR 0x5C, c] else [c]) @ sandbox_quote cs"
  by (simp_all add: sandbox_quote_def)

lemma read_quote: "read_literal (sandbox_quote v @ CHR 0x22 # rest) = Some (v, rest)"
  by (induction v) simp_all

section \<open>Bounded output\<close>

lemma bo_append_chunks:
  "foldl bo_append (bounded_new n) cs = \<lparr>bo_limit = n, bo_data = take (nat n) (concat cs), bo_total = length (concat cs)\<rparr>"
proof (induction cs rule: rev_induct)
  case (snoc c cs)
  have "nat (n - int (min (length (concat cs)) (nat n))) = nat n - length (concat cs)"
    by (simp add: min_def) arith
  then show ?case using snoc by (auto simp: bo_append_def Let_def min_def)
qed (simp add: bounded_new_def)

text \<open>A buffer holds a prefix of what was read, cut at the limit.\<close>

definition holds_prefix :: "int \<Rightarrow> bounded_output \<Rightarrow> bool" where
  "holds_prefix n b \<longleftrightarrow> (\<exists>bs. b = \<lparr>bo_limit = n, bo_data = take (nat n) bs, bo_total = length bs\<rparr>)"

lemma holds_prefix_new: "holds_prefix n (bounded_new n)"
  by (auto simp: holds_prefix_def bounded_new_def)

lemma holds_prefix_append: "holds_prefix n b \<Longrightarrow> holds_prefix n (bo_append b chunk)"
proof -
  assume "holds_prefix n b"
  then obtain bs where "b = foldl bo_append (bounded_new n) [bs]" by (auto simp: holds_prefix_def bo_append_chunks simp del: foldl.simps)
  then have "bo_append b chunk = foldl bo_append (bounded_new n) [bs, chunk]" by simp
  then show ?thesis unfolding bo_append_chunks holds_prefix_def by blast
qed

definition io_bounded :: "int \<Rightarrow> process_io \<Rightarrow> bool" where
  "io_bounded n io \<longleftrightarrow> holds_prefix n (io_stdout io) \<and> holds_prefix n (io_stderr io)"

lemma drain_bounded: "io_bounded n io \<Longrightarrow> io_bounded n (fst (drain_ready_streams io rs))"
proof (induction io rs rule: drain_ready_streams.induct)
  case (2 io r rs)
  have "io_bounded n ((io_append io (rd_pipe r) c)\<lparr>io_activity := rd_time r\<rparr>)" for c
    using 2(4) by (auto simp: io_append_def io_bounded_def holds_prefix_append split: pipe.splits)
  moreover have "io_bounded n (io\<lparr>io_open := x\<rparr>)" for x using 2(4) by (simp add: io_bounded_def)
  ultimately show ?case using 2 by (auto simp: Let_def split: prod.splits) 
qed simp

lemma drain_rest_bounded: "io_bounded n io \<Longrightarrow> io_bounded n (drain_rest io rss)"
proof (induction io rss rule: drain_rest.induct)
  case (2 io rs rss)
  then show ?case using drain_bounded [of n io rs] by (auto split: prod.splits)
qed simp

lemma supervise_bounded: "io_bounded n io \<Longrightarrow> supervise rq H io ts = Some (Inr out) \<Longrightarrow> io_bounded n (ro_io out)"
proof (induction rq H io ts rule: supervise.induct)
  case (2 rq H io t ts)
  then show ?case by (auto simp: Let_def timed_out_outcome_def drain_bounded split: option.splits if_splits prod.splits)
qed simp

section \<open>Supervision\<close>

lemma supervise_returns:
  "\<exists>t\<in>set ts. ph_started H + rq_max_wall rq \<le> tk_now t \<Longrightarrow> supervise rq H io ts \<noteq> None"
proof (induction rq H io ts rule: supervise.induct)
  case (2 rq H io t ts)
  then show ?case by (auto simp: Let_def split: option.splits)
qed simp

text \<open>What ended the watch: the command's exit before every deadline, or a deadline.\<close>

definition ended_by :: "sandbox_request \<Rightarrow> process_host \<Rightarrow> run_outcome \<Rightarrow> tick \<Rightarrow> bool" where
  "ended_by rq H out t \<longleftrightarrow> tk_cancel t = None \<and> (case ro_timeout_kind out of
      None \<Rightarrow> tk_poll t = Some (ro_exit out) \<and> tk_now t < ph_started H + rq_max_wall rq \<and> ro_sent out = []
        \<and> (if rq_refresh rq then tk_now t < io_activity (ro_io out) + rq_timeout rq else tk_now t < ph_started H + rq_timeout rq)
    | Some kind \<Rightarrow> ro_sent out = terminate_process_group H \<and> ro_exit out = ph_wait_code H
        \<and> (if kind = ''idle'' then rq_refresh rq \<and> io_activity (ro_io out) + rq_timeout rq \<le> tk_now t
           else kind = ''max_wall'' \<and> (ph_started H + rq_max_wall rq \<le> tk_now t \<or> \<not> rq_refresh rq \<and> ph_started H + rq_timeout rq \<le> tk_now t)))"

lemma supervise_ended: "supervise rq H io ts = Some (Inr out) \<Longrightarrow> \<exists>t\<in>set ts. ended_by rq H out t"
proof (induction rq H io ts rule: supervise.induct)
  case (2 rq H io t ts)
  let ?io = "fst (drain_ready_streams io (tk_ready t))"
  show ?case
  proof (cases "tk_cancel t = None \<and> tk_poll t = None \<and> \<not> (ph_started H + rq_max_wall rq \<le> tk_now t)
      \<and> \<not> (rq_refresh rq \<and> io_activity ?io + rq_timeout rq \<le> tk_now t) \<and> \<not> (\<not> rq_refresh rq \<and> ph_started H + rq_timeout rq \<le> tk_now t)")
    case True
    then have "supervise rq H (fst (drain_ready_streams ?io (tk_waited t))) ts = Some (Inr out)" using 2(2) by (auto simp: Let_def)
    then show ?thesis using 2(1) True by (auto simp: Let_def)
  next
    case False
    then have "ended_by rq H out t" using 2(2)
      by (auto simp: Let_def ended_by_def timed_out_outcome_def split: option.splits if_splits prod.splits)
    then show ?thesis by simp
  qed
qed simp

section \<open>Paths in the output\<close>

text \<open>A text that has a slash and no angle bracket cannot overlap a placeholder.\<close>

definition path_like :: "string \<Rightarrow> bool" where
  "path_like v \<longleftrightarrow> CHR ''/'' \<in> set v \<and> CHR ''<'' \<notin> set v \<and> CHR ''>'' \<notin> set v"

lemma path_like_not_Nil: "path_like v \<Longrightarrow> v \<noteq> []"
  by (auto simp: path_like_def)

lemma contains_Nil: "py_contains [] v \<longleftrightarrow> v = []"
  by simp

lemma contains_Cons: "py_contains (c # cs) v \<longleftrightarrow> take (length v) (c # cs) = v \<or> py_contains cs v"
  by simp

lemma not_across:
  assumes "path_like v" "CHR ''/'' \<notin> set u"
  shows "take (length v) (u @ CHR ''>'' # t) \<noteq> v"
proof
  assume eq: "take (length v) (u @ CHR ''>'' # t) = v"
  show False
  proof (cases "length v \<le> length u")
    case True
    then have "set v \<subseteq> set u" using eq by (metis append_take_drop_id set_append sup_ge1 take_append take_all_iff diff_is_0_eq take_0 append_Nil2)
    then show False using assms by (auto simp: path_like_def)
  next
    case False
    then obtain k where "length v - length u = Suc k" by (cases "length v - length u") auto
    then have "take (length v) (u @ CHR ''>'' # t) = u @ CHR ''>'' # take k t" by simp
    then show False using eq assms(1) by (metis in_set_conv_decomp path_like_def)
  qed
qed

lemma contains_placeholder_tail: "path_like v \<Longrightarrow> CHR ''/'' \<notin> set u \<Longrightarrow> py_contains (u @ CHR ''>'' # t) v = py_contains t v"
proof (induction u)
  case Nil
  then show ?case using not_across [of v "[]" t] by (simp only: append_Nil contains_Cons) simp
next
  case (Cons c u)
  then show ?case using not_across [of v "c # u" t] by (simp only: append_Cons contains_Cons list.set insert_iff) simp
qed

lemma contains_placeholder: "path_like v \<Longrightarrow> py_contains (''<redacted-path>'' @ t) v = py_contains t v"
  using contains_placeholder_tail [of v "''<redacted-path''" t] by simp

lemma match_text_moves: "old \<noteq> [] \<Longrightarrow> moves (match_text old)"
  by (simp add: moves_def match_text_def)

lemma starts_in_stem:
  assumes "path_like v" "take (length v) out = v" "prefix (takeWhile (\<lambda>c. c \<noteq> CHR ''<'') out) s"
  shows "take (length v) s = v"
proof -
  have "takeWhile (\<lambda>c. c \<noteq> CHR ''<'') (take (length v) out @ drop (length v) out) = v @ takeWhile (\<lambda>c. c \<noteq> CHR ''<'') (drop (length v) out)"
    unfolding assms(2) by (rule takeWhile_append2) (use assms(1) in \<open>auto simp: path_like_def\<close>)
  then have "prefix v s" using assms(3) by (metis append_prefixD append_take_drop_id)
  then show ?thesis by (auto simp: prefix_def)
qed

lemma contains_drop: "py_contains (drop n s) v \<Longrightarrow> py_contains s v"
proof (induction n arbitrary: s)
  case (Suc n)
  then show ?case by (cases s) (auto simp only: drop_Suc_Cons drop_Nil contains_Cons)
qed simp

lemma replace_adds_nothing:
  assumes "moves m" "path_like v"
  shows "py_contains (re_sub m ''<redacted-path>'' prev s) v \<Longrightarrow> py_contains s v"
  using assms(1)
proof (induction prev s rule: re_sub_induct)
  case (keep prev c cs)
  let ?out = "re_sub m ''<redacted-path>'' (Some c) cs"
  have "prefix (takeWhile (\<lambda>x. x \<noteq> CHR ''<'') (c # ?out)) (c # cs)"
    using re_sub_stem [OF assms(1), of "CHR ''<''" "''redacted-path>''" prev "c # cs"] keep(1) by (simp add: re_sub_keep)
  then have "take (length v) (c # ?out) = v \<Longrightarrow> take (length v) (c # cs) = v" using starts_in_stem [OF assms(2)] by blast
  then show ?case using keep unfolding re_sub_keep [of m, OF keep(1)] contains_Cons by blast
next
  case (match prev c cs n)
  then show ?case unfolding re_sub_replace [of m, OF match(1,2)] contains_placeholder [OF assms(2)] by (blast intro: contains_drop)
qed simp

lemma replace_removes:
  assumes "path_like v"
  shows "\<not> py_contains (re_sub (match_text v) ''<redacted-path>'' prev s) v"
  using match_text_moves [OF path_like_not_Nil [OF assms]]
proof (induction prev s rule: re_sub_induct)
  case (keep prev c cs)
  let ?out = "re_sub (match_text v) ''<redacted-path>'' (Some c) cs"
  have "prefix (takeWhile (\<lambda>x. x \<noteq> CHR ''<'') (c # ?out)) (c # cs)"
    using re_sub_stem [OF match_text_moves, of v "CHR ''<''" "''redacted-path>''" prev "c # cs"] keep(1) path_like_not_Nil [OF assms] by (simp add: re_sub_keep)
  then have "take (length v) (c # ?out) = v \<Longrightarrow> take (length v) (c # cs) = v" using starts_in_stem [OF assms] by blast
  moreover have "take (length v) (c # cs) \<noteq> v" using keep(1) by (auto simp: match_text_def py_startswith_def)
  ultimately show ?case using keep(2) unfolding re_sub_keep [of "match_text v", OF keep(1)] contains_Cons by blast
next
  case (match prev c cs n)
  then show ?case unfolding re_sub_replace [of "match_text v", OF match(1,2)] contains_placeholder [OF assms] by simp
qed (use assms path_like_not_Nil in auto)

lemma redact_step_absent:
  "path_like v \<Longrightarrow> \<not> py_contains r v \<Longrightarrow> \<not> py_contains (redact_execution_output_paths r ps) v"
proof (induction ps arbitrary: r)
  case (Cons p ps)
  have "\<not> py_contains (py_replace (path_str p) ''<redacted-path>'' r) v" if "path_str p \<noteq> []"
    using replace_adds_nothing [OF match_text_moves [OF that] Cons(2)] Cons(3) by (auto simp: py_replace_def)
  then show ?case using Cons by (auto simp: redact_execution_output_paths_def Let_def)
qed (simp add: redact_execution_output_paths_def)

lemma redact_paths_absent:
  "p \<in> set ps \<Longrightarrow> path_like (path_str p) \<Longrightarrow> path_str p \<noteq> ''/'' \<Longrightarrow> \<not> py_contains (redact_execution_output_paths t ps) (path_str p)"
proof (induction ps arbitrary: t)
  case (Cons q ps)
  show ?case
  proof (cases "p = q")
    case True
    have "\<not> py_contains (py_replace (path_str p) ''<redacted-path>'' t) (path_str p)"
      unfolding py_replace_def by (rule replace_removes [OF Cons(3)])
    from redact_step_absent [OF Cons(3) this, of ps] show ?thesis
      using True Cons(3,4) path_like_not_Nil by (simp add: redact_execution_output_paths_def Let_def)
  next
    case False
    then show ?thesis using Cons by (simp add: redact_execution_output_paths_def)
  qed
qed simp

section \<open>Which commands reach a provider\<close>

text \<open>What a request that is executed satisfies.\<close>

definition within_limits :: "sandbox_request \<Rightarrow> bool" where
  "within_limits rq \<longleftrightarrow> 1 / 100 \<le> rq_timeout rq \<and> rq_timeout rq \<le> MAX_TIMEOUT_SECONDS
     \<and> 1 / 100 \<le> rq_max_wall rq \<and> rq_max_wall rq \<le> MAX_TIMEOUT_SECONDS
     \<and> 1 \<le> rq_max_output rq \<and> rq_max_output rq \<le> MAX_OUTPUT_BYTES"

definition policy_holds :: "sandbox_policy \<Rightarrow> string list \<Rightarrow> bool" where
  "policy_holds P command \<longleftrightarrow> sp_network_mode P \<in> set VALID_NETWORK_MODES \<and> sp_filesystem_mode P \<in> set VALID_FILESYSTEM_MODES
     \<and> sp_release_blocked P \<and> sp_human_approval_required P \<and> 0 \<le> sp_max_model_calls P \<and> sp_max_model_calls P \<le> 100
     \<and> clean_command command \<noteq> [] \<and> command_allowed P (clean_command command)"

lemma add_reason_Nil: "add_reason rs ck = [] \<longleftrightarrow> rs = [] \<and> ck_passed ck"
  by (auto simp: add_reason_def)

lemma foldl_add_reason_Nil: "foldl add_reason rs cks = [] \<longleftrightarrow> rs = [] \<and> list_all ck_passed cks"
  by (induction cks arbitrary: rs) (simp_all add: add_reason_Nil)

lemma Nil_foldl_add_reason: "[] = foldl add_reason rs cks \<longleftrightarrow> rs = [] \<and> list_all ck_passed cks"
  using foldl_add_reason_Nil by metis

lemma check_passed [simp]: "ck_passed (check cid b d r) = b"
  by (simp add: check_def)

lemma evaluate_command_passes:
  assumes "evaluate_command F P command cwd = Inr (cks, [])"
  shows "clean_command command \<noteq> [] \<and> command_allowed P (clean_command command)
     \<and> (cwd \<noteq> [] \<longrightarrow> sp_workspace_root P \<noteq> [] \<and> (\<exists>c r. boundary_paths F cwd (sp_workspace_root P) = Inr (c, r) \<and> inside c r))"
  using assms unfolding evaluate_command_def Let_def by (auto split: if_splits elim!: bindE_InrE)

lemma evaluation_passes:
  assumes "evaluate_sandbox_policy E F policy (Some command) (Some cwd) = Inr ev" "ev_passed ev"
  shows "policy_holds (ev_policy ev) command
     \<and> (cwd \<noteq> [] \<longrightarrow> sp_workspace_root (ev_policy ev) \<noteq> []
          \<and> (\<exists>c r. boundary_paths F cwd (sp_workspace_root (ev_policy ev)) = Inr (c, r) \<and> inside c r))"
proof -
  have roots: "sp_network_mode (case roots of None \<Rightarrow> P | Some rs \<Rightarrow> P\<lparr>sp_state_roots := map path_str rs\<rparr>) = sp_network_mode P"
    "sp_filesystem_mode (case roots of None \<Rightarrow> P | Some rs \<Rightarrow> P\<lparr>sp_state_roots := map path_str rs\<rparr>) = sp_filesystem_mode P"
    for roots and P :: sandbox_policy by (simp_all split: option.splits)
  have files: "sp_network_mode (case files of None \<Rightarrow> P | Some fs \<Rightarrow> P\<lparr>sp_state_files := map path_str fs\<rparr>) = sp_network_mode P"
    "sp_filesystem_mode (case files of None \<Rightarrow> P | Some fs \<Rightarrow> P\<lparr>sp_state_files := map path_str fs\<rparr>) = sp_filesystem_mode P"
    for files and P :: sandbox_policy by (simp_all split: option.splits)
  show ?thesis
    using assms unfolding evaluate_sandbox_policy_def check_mode_def ev_passed_def
    apply (elim bindE_InrE)
    apply (simp only: Let_def prod.case)
    apply (erule bindE_tripleE, erule bindE_tripleE, erule bindE_pairE)
    apply (simp only: sum.inject(2))
    apply (drule sym, hypsubst)
    apply (simp only: policy_evaluation.simps Nil_foldl_add_reason list_all_append list.pred_inject check_passed append_is_Nil_conv option.case opt_or_def)
    apply (elim conjE, hypsubst, drule evaluate_command_passes)
    apply (auto simp only: policy_holds_def roots files split: if_splits)
    done
qed

definition admitted :: "file_system \<Rightarrow> registry \<Rightarrow> string list \<Rightarrow> string \<Rightarrow> string \<Rightarrow> sandbox_request \<Rightarrow> bool" where
  "admitted F reg command cwd pid rq \<longleftrightarrow> rq_argv rq = command \<and> policy_holds (rq_policy rq) command \<and> within_limits rq
     \<and> fs_is_dir F (rq_workspace rq) \<and> fs_is_dir F (rq_cwd rq)
     \<and> (cwd \<noteq> [] \<longrightarrow> inside (rq_cwd rq) (rq_workspace rq))
     \<and> (sp_filesystem_mode (rq_policy rq) = ''allowlist'' \<longrightarrow>
          list_all (\<lambda>v. \<exists>r. resolve_strict F (py_path v) = Inr r \<and> inside r (rq_workspace rq)) (sp_allowlist_roots (rq_policy rq)))
     \<and> (\<exists>p. map_of reg pid = Some p \<and> mode_declared (pv_capabilities p) ''network_modes'' (sp_network_mode (rq_policy rq)) = Inr True
          \<and> mode_declared (pv_capabilities p) ''filesystem_modes'' (sp_filesystem_mode (rq_policy rq)) = Inr True)"

lemma bounded_float_Inr: "bounded_float E v d mn mx n = Inr r \<Longrightarrow> mn \<le> r \<and> r \<le> mx"
  unfolding bounded_float_def by (erule bindE_InrE) (auto split: if_splits)

lemma bounded_int_Inr: "bounded_int v d mn mx n = Inr r \<Longrightarrow> mn \<le> r \<and> r \<le> mx"
  unfolding bounded_int_def by (erule bindE_InrE) (auto split: if_splits)

lemma execution_request_ok:
  assumes "execution_request E F P command cwd opts = Inr rq"
  shows "rq_argv rq = command \<and> rq_policy rq = P \<and> within_limits rq \<and> fs_is_dir F (rq_workspace rq) \<and> fs_is_dir F (rq_cwd rq)
    \<and> resolve_strict F (py_path (sp_workspace_root P)) = Inr (rq_workspace rq) \<and> resolve_strict F (py_path cwd) = Inr (rq_cwd rq)"
  using assms unfolding execution_request_def
  by (elim bindE_InrE) (auto simp: within_limits_def dest!: bounded_float_Inr bounded_int_Inr)

lemma boundary_of_request:
  assumes "resolves_consistently F" "resolve_strict F (py_path c) = Inr c'" "resolve_strict F (py_path w) = Inr w'"
  shows "boundary_paths F c w = Inr (c', w')"
  using resolve_strict_text [OF assms(1,2)] resolve_strict_text [OF assms(1,3)] by (simp add: boundary_paths_def)

lemma mapE_Inr_all: "mapE f xs = Inr ys \<Longrightarrow> list_all (\<lambda>x. \<exists>y. f x = Inr y) xs"
  by (induction xs arbitrary: ys) (auto elim!: bindE_InrE)

lemma write_roots_ok:
  assumes "write_roots_allowed F rq = Inr rs" "sp_filesystem_mode (rq_policy rq) = ''allowlist''"
  shows "list_all (\<lambda>v. \<exists>r. resolve_strict F (py_path v) = Inr r \<and> inside r (rq_workspace rq)) (sp_allowlist_roots (rq_policy rq))"
proof -
  have "list_all (\<lambda>v. \<exists>r. validated_write_root F (rq_workspace rq) v = Inr r) (sp_allowlist_roots (rq_policy rq))"
    using assms by (auto simp: write_roots_allowed_def dest: mapE_Inr_all)
  then show ?thesis
    by (rule list.pred_mono_strong) (auto simp: validated_write_root_def elim!: bindE_InrE split: if_splits)
qed

text \<open>The provider sees at most one request, and only an admitted one.\<close>

abbreviation at_most_one :: "(sandbox_request \<Rightarrow> bool) \<Rightarrow> sandbox_request list \<Rightarrow> sandbox_request list \<Rightarrow> bool" where
  "at_most_one A rqs rqs' \<equiv> rqs' = rqs \<or> (\<exists>rq. rqs' = rqs @ [rq] \<and> A rq)"

lemma snd_liftM_bind: "snd (bindM (liftM r) f s) = (case r of Inl e \<Rightarrow> s | Inr x \<Rightarrow> snd (f x s))"
  by (cases r) (simp_all add: bindM_def liftM_def)

lemma provider_execute_state: "snd (provider_execute E pid p rq s) = s @ [rq]"
  by (auto simp: provider_execute_def thenM_def bindM_def modifyM_def retM_def raiseM_def split: option.splits sum.splits py_exc.splits)

lemma dispatch_state:
  "at_most_one (\<lambda>r. r = rq \<and> (\<exists>p. map_of reg pid = Some p \<and> mode_declared (pv_capabilities p) ''network_modes'' (sp_network_mode (rq_policy rq)) = Inr True
      \<and> mode_declared (pv_capabilities p) ''filesystem_modes'' (sp_filesystem_mode (rq_policy rq)) = Inr True))
    s (snd (dispatch_request E reg pid rq s))"
  by (auto simp: dispatch_request_def snd_liftM_bind Let_def registry_get_def retM_def provider_execute_state split: sum.splits option.splits)

lemma execute_state:
  assumes "resolves_consistently F"
  shows "at_most_one (admitted F reg command cwd pid) s (snd (execute_sandbox_command E F reg policy command cwd pid opts s))"
proof (cases "evaluate_sandbox_policy E F policy (Some command) (Some cwd)")
  case (Inl e)
  then show ?thesis by (simp add: execute_sandbox_command_def snd_liftM_bind)
next
  case (Inr ev)
  show ?thesis
  proof (cases "ev_passed ev \<and> (\<exists>rq rs. execution_request E F (ev_policy ev) command cwd opts = Inr rq \<and> write_roots_allowed F rq = Inr rs)")
    case False
    then show ?thesis using Inr
      by (auto simp: execute_sandbox_command_def snd_liftM_bind retM_def raiseM_def split: sum.splits py_exc.splits)
  next
    case True
    then obtain rq rs where rq: "execution_request E F (ev_policy ev) command cwd opts = Inr rq" "write_roots_allowed F rq = Inr rs"
      and ev: "ev_passed ev" by blast
    note r = execution_request_ok [OF rq(1)] and e = evaluation_passes [OF Inr ev] and w = write_roots_ok [OF rq(2)]
    have "inside (rq_cwd rq) (rq_workspace rq)" if "cwd \<noteq> []"
      using e r that boundary_of_request [OF assms, of cwd "rq_cwd rq" "sp_workspace_root (ev_policy ev)" "rq_workspace rq"] by auto
    moreover have "snd (execute_sandbox_command E F reg policy command cwd pid opts s) = snd (dispatch_request E reg pid rq s)"
      using Inr ev rq by (simp add: execute_sandbox_command_def snd_liftM_bind)
    ultimately show ?thesis using dispatch_state [where s = s and rq = rq and reg = reg and pid = pid and E = E] r e w by (auto simp: admitted_def)
  qed
qed

section \<open>Receipts hold no secret\<close>

lemma hex_no_secret: "list_all is_hex_lower s \<Longrightarrow> \<not> has_secret prev s"
proof (induction prev s rule: has_secret.induct)
  case (2 prev c cs)
  have "lower_char c = c" using 2(2) by (auto simp: lower_char_def Let_def is_hex_lower_def is_digit_def is_upper_ascii_def)
  moreover have "c \<notin> {CHR ''s'', CHR ''g'', CHR ''x'', CHR ''-''}" using 2(2) by (auto simp: is_hex_lower_def is_digit_def code_pt_def)
  ultimately show ?case using 2 sensitive_head [of c prev cs] by simp
qed simp

lemma redacted_jset:
  "redacted (JObj o') \<Longrightarrow> redacted v \<Longrightarrow> \<not> is_sensitive_key k \<Longrightarrow> redacted (JObj (jset o' k v))"
  by (induction o' k v rule: jset.induct) auto

lemma receipt_key_plain: "\<not> is_sensitive_key ''receipt_sha256''"
  by code_simp

lemma finalized_redacted: "redacted (finalize_execution_receipt E r)"
proof -
  obtain safe where safe: "redact_sensitive_value (JObj r) = JObj safe" by simp
  have "redacted (JStr (json_hash E (JObj safe)))"
    using sha256_hex_format by (auto simp: json_hash_def is_sha256_hex_def hex_no_secret)
  moreover have "redacted (JObj safe)" using redact_sensitive_value_redacted [of "JObj r"] unfolding safe .
  ultimately show ?thesis unfolding finalize_execution_receipt_def safe by (simp only: json.case redacted_jset receipt_key_plain not_False_eq_True)
qed

lemma blocked_redacted: "redacted (blocked_execution_receipt E ev pid)"
  unfolding blocked_execution_receipt_def by (rule finalized_redacted)

lemma error_redacted: "redacted (error_execution_receipt E rq pid c m)"
  unfolding error_execution_receipt_def by (rule finalized_redacted)

lemma policy_blocked_redacted: "redacted (provider_policy_blocked_receipt E rq pid m)"
  unfolding provider_policy_blocked_receipt_def by (rule finalized_redacted)

definition gives_redacted :: "json option \<Rightarrow> 's \<Rightarrow> bool" where
  "gives_redacted r s \<longleftrightarrow> (\<forall>v. r = Some v \<longrightarrow> redacted v)"

lemma gives_redacted_simps [simp]: "gives_redacted None s" "gives_redacted (Some v) s = redacted v"
  by (simp_all add: gives_redacted_def)

lemma provider_execute_redacted: "wpM (provider_execute E pid p rq) gives_redacted (\<lambda>_ _. True) s"
  by (auto simp: provider_execute_def wp redact_sensitive_value_redacted error_redacted split: option.splits sum.splits py_exc.splits)

lemma dispatch_redacted: "wpM (dispatch_request E reg pid rq) gives_redacted (\<lambda>_ _. True) s"
  by (auto simp: dispatch_request_def wp Let_def policy_blocked_redacted provider_execute_redacted split: sum.splits)

lemma execute_redacted: "wpM (execute_sandbox_command E F reg policy command cwd pid opts) gives_redacted (\<lambda>_ _. True) s"
  by (auto simp: execute_sandbox_command_def wp blocked_redacted policy_blocked_redacted dispatch_redacted split: sum.splits py_exc.splits)

lemma write_roots_inside: "mapE (validated_write_root F w) vs = Inr rs \<Longrightarrow> list_all (\<lambda>p. inside p w) rs"
  by (induction vs arbitrary: rs) (auto simp: validated_write_root_def elim!: bindE_InrE split: if_splits)

end
