(* ===== verification/SandboxProps.thy ===== *)
theory SandboxProps
  imports SandboxFacts
begin

text \<open>
  The properties of the sandbox, each with a sample, and what the policy check misses: an empty
  \<open>cwd\<close>, blank arguments, and a state root that is the workspace.
\<close>

section \<open>A sample host\<close>

text \<open>A file system without links in which every path exists.\<close>

definition rooted :: "pypath \<Rightarrow> pypath" where
  "rooted p = p\<lparr>pp_root := ''/''\<rparr>"

definition plain_fs :: file_system where
  "plain_fs = \<lparr>fs_home = (\<lambda>_. None), fs_cwd = ''/srv'', fs_resolve = (\<lambda>p. Inr (rooted p)), fs_resolve_strict = (\<lambda>p. Inr (rooted p)),
     fs_is_dir = (\<lambda>_. True), fs_lstat = (\<lambda>_. Inr (True, 0, 1))\<rparr>"


lemma plain_fs_resolves: "pp_root p \<noteq> [] \<Longrightarrow> resolve_strict plain_fs p = Inr (rooted p)"
  by (simp add: resolve_strict_def expanduser_absolute is_absolute_def plain_fs_def)

definition plain_env :: pyenv where
  "plain_env = \<lparr>float_repr = (\<lambda>_. ''0''), float_of_str = (\<lambda>_. None), nfkc = id, bracketed_host_ok = (\<lambda>_. True)\<rparr>"

definition sample_policy :: jobj where
  "sample_policy = [(''command_allowlist'', jstrs [''echo'']), (''workspace_root'', JStr ''/w''), (''filesystem_policy'', JStr ''run_scoped'')]"

definition sample_provider :: sandbox_provider where
  "sample_provider = \<lparr>pv_capabilities = local_capabilities False, pv_execute = (\<lambda>_. Some (Inr (JObj [(''password'', JStr ''x'')])))\<rparr>"

definition sample_options :: execution_options where
  "sample_options = \<lparr>eo_timeout = None, eo_refresh = None, eo_max_wall = None, eo_max_output = None, eo_environment = []\<rparr>"

definition sample_normal :: sandbox_policy where
  "sample_normal = \<lparr>sp_risk_profile = ''low'', sp_network_mode = ''none'', sp_network_allowlist = [], sp_filesystem_mode = ''run_scoped'',
     sp_allowlist_roots = [], sp_state_roots = [], sp_state_files = [], sp_max_model_calls = 0, sp_max_candidate_repairs = 0,
     sp_max_usd = 0, sp_timeout_seconds = 30, sp_refresh_timeout = False, sp_max_wall_timeout = 3600, sp_max_output_bytes = 262144,
     sp_human_approval_required = True, sp_release_blocked = True, sp_workspace_root = ''/w'', sp_command_allowlist = [''echo'']\<rparr>"

lemma sample_normalizes: "normalize_sandbox_policy plain_env sample_policy = Inr sample_normal"
  by code_simp

definition verdict_of :: "(policy_check list \<times> string list) res \<Rightarrow> bool" where
  "verdict_of r = (case r of Inr (cks, bs) \<Rightarrow> bs = [] \<and> list_all ck_passed cks | _ \<Rightarrow> False)"

lemma evaluate_passing:
  assumes "normalize_sandbox_policy E policy = Inr P" "verdict_of (evaluate_command F P command cwd)"
    "sp_state_roots P = [] \<and> sp_state_files P = [] \<and> sp_network_mode P \<in> set VALID_NETWORK_MODES \<and> sp_filesystem_mode P \<in> set VALID_FILESYSTEM_MODES
     \<and> sp_release_blocked P \<and> sp_human_approval_required P \<and> 0 \<le> sp_max_model_calls P \<and> sp_max_model_calls P \<le> 100"
  shows "\<exists>ev. evaluate_sandbox_policy E F policy (Some command) (Some cwd) = Inr ev \<and> ev_passed ev \<and> ev_policy ev = P"
proof -
  obtain cks where c: "evaluate_command F P command cwd = Inr (cks, [])" "list_all ck_passed cks"
    using assms(2) by (auto simp: verdict_of_def split: sum.splits)
  have P: "P\<lparr>sp_state_roots := []\<rparr> = P" "P\<lparr>sp_state_files := []\<rparr> = P" using assms(3) by (cases P; simp)+
  show ?thesis
    using assms(1,3) c
    by (simp add: evaluate_sandbox_policy_def check_mode_def check_paths_def validated_runtime_state_roots_def
        validated_runtime_state_files_def opt_or_def P ev_passed_def foldl_add_reason_Nil Let_def del: foldl.simps)
qed


definition sample_request :: sandbox_request where
  "sample_request = \<lparr>rq_argv = [''echo'', ''hi''], rq_cwd = py_path ''/w/a'', rq_workspace = py_path ''/w'', rq_policy = sample_normal,
     rq_timeout = 30, rq_max_output = 262144, rq_refresh = False, rq_max_wall = 3600, rq_environment = []\<rparr>"

lemma execute_dispatches:
  assumes "\<exists>ev. evaluate_sandbox_policy E F policy (Some command) (Some cwd) = Inr ev \<and> ev_passed ev \<and> ev_policy ev = P"
    "execution_request E F P command cwd opts = Inr rq" "sp_filesystem_mode P \<noteq> ''allowlist''" "rq_policy rq = P" "map_of reg pid = Some p"
    "mode_declared (pv_capabilities p) ''network_modes'' (sp_network_mode P) = Inr True"
    "mode_declared (pv_capabilities p) ''filesystem_modes'' (sp_filesystem_mode P) = Inr True"
  shows "execute_sandbox_command E F reg policy command cwd pid opts s = provider_execute E pid p rq s"
proof -
  obtain ev where "evaluate_sandbox_policy E F policy (Some command) (Some cwd) = Inr ev" "ev_passed ev" "ev_policy ev = P"
    using assms(1) by blast
  then show ?thesis using assms(2-)
    by (simp add: execute_sandbox_command_def bindM_def liftM_def write_roots_allowed_def dispatch_request_def registry_get_def Let_def)
qed

lemma sample_executes:
  "execute_sandbox_command plain_env plain_fs [(''p'', sample_provider)] sample_policy [''echo'', ''hi''] ''/w/a'' ''p'' sample_options s
     = provider_execute plain_env ''p'' sample_provider sample_request s"
proof (rule execute_dispatches [where P = sample_normal])
  have "verdict_of (evaluate_command plain_fs sample_normal [''echo'', ''hi''] ''/w/a'')" by code_simp
  then show "\<exists>ev. evaluate_sandbox_policy plain_env plain_fs sample_policy (Some [''echo'', ''hi'']) (Some ''/w/a'') = Inr ev \<and> ev_passed ev \<and> ev_policy ev = sample_normal"
    by (rule evaluate_passing [OF sample_normalizes]) (simp add: sample_normal_def VALID_NETWORK_MODES_def VALID_FILESYSTEM_MODES_def)
qed ((simp add: sample_request_def sample_normal_def; fail) | code_simp)+

section \<open>Properties\<close>



text \<open>Every receipt that \<open>execute_sandbox_command\<close> returns is free of credentials, whatever the
  provider answered, the command was or the reason for refusing it says.\<close>

theorem sandbox_receipts_redacted:
  assumes "fst (execute_sandbox_command E F reg policy command cwd pid opts rqs) = Inr (Some receipt)"
  shows "redacted receipt"
  using execute_redacted [of E F reg policy command cwd pid opts rqs] assms
  by (auto simp: wpM_def split: prod.splits sum.splits)

theorem sandbox_receipts_redacted_sample:
  "fst (execute_sandbox_command plain_env plain_fs [(''p'', sample_provider)] sample_policy [''echo'', ''hi''] ''/w/a'' ''p'' sample_options [])
     = Inr (Some (JObj [(''password'', JStr ''[redacted]'')])) \<and> redacted (JObj [(''password'', JStr ''[redacted]'')])"
proof -
  have v: "redact_sensitive_value (JObj [(''password'', JStr ''x'')]) = JObj [(''password'', JStr ''[redacted]'')]" by code_simp
  have e: "fst (execute_sandbox_command plain_env plain_fs [(''p'', sample_provider)] sample_policy [''echo'', ''hi''] ''/w/a'' ''p'' sample_options [])
      = Inr (Some (JObj [(''password'', JStr ''[redacted]'')]))"
    unfolding sample_executes by (simp add: provider_execute_def thenM_def bindM_def modifyM_def sample_provider_def v retM_def del: redact_sensitive_value.simps)
  then show ?thesis using sandbox_receipts_redacted [OF e] by simp
qed




text \<open>C17: a supervised command always comes back. Once the clock shows the wall deadline in some
  round, the local provider has answered; and when the watch ended without a cancellation, either the
  command had exited before every deadline and that exit code is reported and nothing was sent to it,
  or a deadline had passed, the process group was terminated and the timeout is reported with its kind.\<close>

theorem supervision_ends:
  assumes "t \<in> set (ph_ticks H)" "ph_started H + rq_max_wall rq \<le> tk_now t"
  shows "local_execute E F H rq \<noteq> None
    \<and> (\<forall>out. supervise rq H (process_start rq H) (ph_ticks H) = Some (Inr out) \<longrightarrow> (\<exists>t'\<in>set (ph_ticks H). ended_by rq H out t'))"
proof -
  have "supervise rq H (process_start rq H) (ph_ticks H) \<noteq> None" using supervise_returns assms by blast
  then show ?thesis by (auto simp: local_execute_def supervise_ended split: sum.splits option.splits)
qed

definition quiet_tick :: tick where
  "quiet_tick = \<lparr>tk_cancel = None, tk_ready = [], tk_now = 10, tk_poll = None, tk_waited = [\<lparr>rd_pipe = Stdout, rd_data = [104, 105], rd_time = 11\<rparr>]\<rparr>"

definition sample_host :: process_host where
  "sample_host = \<lparr>ph_darwin = False, ph_environ = [], ph_spawn_error = (\<lambda>_ _ _. None), ph_started = 0,
     ph_ticks = [quiet_tick, quiet_tick\<lparr>tk_now := 4000\<rparr>], ph_after = [], ph_finished = 4001, ph_has_killpg = True,
     ph_group_exists = True, ph_exits_on_term = False, ph_wait_code = -9, ph_decode = map char_of\<rparr>"

lemma sample_supervised: "supervise sample_request sample_host (process_start sample_request sample_host) (ph_ticks sample_host) =
    Some (Inr (timed_out_outcome sample_host ''max_wall''
      \<lparr>io_stdout = \<lparr>bo_limit = 262144, bo_data = [104, 105], bo_total = 2\<rparr>, io_stderr = bounded_new 262144, io_open = [Stdout, Stderr], io_activity = 11\<rparr>))"
  by (simp add: sample_host_def quiet_tick_def process_start_def sample_request_def bounded_new_def bo_append_def io_append_def Let_def timed_out_outcome_def terminate_process_group_def)

theorem supervision_ends_witness:
  "local_execute plain_env plain_fs sample_host sample_request \<noteq> None
    \<and> (\<exists>out. supervise sample_request sample_host (process_start sample_request sample_host) (ph_ticks sample_host) = Some (Inr out)
        \<and> ro_sent out = [TermGroup, KillGroup] \<and> (\<exists>t\<in>set (ph_ticks sample_host). ended_by sample_request sample_host out t))"
proof -
  have s: "ro_sent (timed_out_outcome sample_host k io) = [TermGroup, KillGroup]" for k io
    by (simp add: timed_out_outcome_def terminate_process_group_def sample_host_def)
  have t: "quiet_tick\<lparr>tk_now := 4000\<rparr> \<in> set (ph_ticks sample_host)" by (simp add: sample_host_def)
  show ?thesis using supervision_ends [OF t, of sample_request plain_env plain_fs] sample_supervised
    by (auto simp: s) (simp_all add: sample_host_def sample_request_def)
qed



text \<open>No sensitive path is left in the output a receipt shows: not the workspace, the working
  directory, a state root, a state file or an absolute path among the arguments, as long as the path
  has no angle bracket, which the placeholder is written with.\<close>

theorem output_paths_redacted:
  assumes "p \<in> set (execution_sensitive_paths rq roots files)" "path_like (path_str p)" "path_str p \<noteq> ''/''"
  shows "\<not> py_contains (redact_execution_output_paths t (execution_sensitive_paths rq roots files)) (path_str p)"
  using redact_paths_absent [OF assms] .

theorem output_paths_redacted_sample:
  "py_path ''/w/a'' \<in> set (execution_sensitive_paths sample_request [] [])
    \<and> redact_execution_output_paths ''in /w/a/f'' (execution_sensitive_paths sample_request [] []) = ''in <redacted-path>/f''
    \<and> \<not> py_contains (redact_execution_output_paths ''in /w/a/f'' (execution_sensitive_paths sample_request [] [])) (path_str (py_path ''/w/a''))"
proof -
  have m: "py_path ''/w/a'' \<in> set (execution_sensitive_paths sample_request [] [])" by code_simp
  have r: "redact_execution_output_paths ''in /w/a/f'' (execution_sensitive_paths sample_request [] []) = ''in <redacted-path>/f''" by code_simp
  have "path_like (path_str (py_path ''/w/a''))" "path_str (py_path ''/w/a'') \<noteq> ''/''" by code_simp+
  from output_paths_redacted [OF m this, of "''in /w/a/f''"] m r show ?thesis by blast
qed

section \<open>What the policy check misses\<close>

text \<open>An empty \<open>cwd\<close> skips the boundary check and is the process's own directory, here \<open>/srv\<close> outside
  the workspace \<open>/w\<close>.\<close>

definition srv_resolve :: "pypath \<Rightarrow> pypath res" where
  "srv_resolve p = Inr (if is_absolute p then rooted p else \<lparr>pp_root = ''/'', pp_parts = ''srv'' # pp_parts p\<rparr>)"

definition srv_fs :: file_system where
  "srv_fs = plain_fs\<lparr>fs_resolve := srv_resolve, fs_resolve_strict := srv_resolve\<rparr>"

lemma srv_fs_consistent: "resolves_consistently srv_fs"
  by (auto simp: resolves_consistently_def srv_fs_def srv_resolve_def rooted_def is_absolute_def)

lemma empty_cwd_escapes:
  "snd (execute_sandbox_command plain_env srv_fs [(''p'', sample_provider)] sample_policy [''echo'', ''hi''] '''' ''p'' sample_options [])
     = [sample_request\<lparr>rq_cwd := py_path ''/srv''\<rparr>] \<and> \<not> inside (py_path ''/srv'') (py_path ''/w'')"
proof -
  have e: "execute_sandbox_command plain_env srv_fs [(''p'', sample_provider)] sample_policy [''echo'', ''hi''] '''' ''p'' sample_options []
     = provider_execute plain_env ''p'' sample_provider (sample_request\<lparr>rq_cwd := py_path ''/srv''\<rparr>) []"
  proof (rule execute_dispatches [where P = sample_normal])
    have "verdict_of (evaluate_command srv_fs sample_normal [''echo'', ''hi''] '''')" by code_simp
    then show "\<exists>ev. evaluate_sandbox_policy plain_env srv_fs sample_policy (Some [''echo'', ''hi'']) (Some '''') = Inr ev \<and> ev_passed ev \<and> ev_policy ev = sample_normal"
      by (rule evaluate_passing [OF sample_normalizes]) (simp add: sample_normal_def VALID_NETWORK_MODES_def VALID_FILESYSTEM_MODES_def)
  qed ((simp add: sample_request_def sample_normal_def; fail) | code_simp)+
  have "\<not> inside (py_path ''/srv'') (py_path ''/w'')" by code_simp
  then show ?thesis unfolding e provider_execute_state append_Nil by (rule conjI [OF refl])
qed

text \<open>The allowlist is checked on the command without its blank arguments, the provider gets them all:
  the program that runs is the blank one.\<close>

lemma blank_argument_runs_other_program:
  "verdict_of (evaluate_command plain_fs sample_normal ['' '', ''echo''] ''/w/a'')
     \<and> map_sum id rq_argv (execution_request plain_env plain_fs sample_normal ['' '', ''echo''] ''/w/a'' sample_options) = Inr ['' '', ''echo'']"
  by code_simp

text \<open>A state root may be the workspace itself, which makes a read-only policy writable there.\<close>

lemma read_only_workspace_writable:
  "map_sum id (\<lambda>rules. subpath_rule (py_path ''/w'') \<in> set rules)
     (macos_profile_lines plain_fs (sample_request\<lparr>rq_policy := sample_normal\<lparr>sp_filesystem_mode := ''read_only'', sp_state_roots := [''/w'']\<rparr>\<rparr>)) = Inr True"
  by code_simp

end
