(* ===== verification/RunContractFacts.thy ===== *)
theory RunContractFacts
  imports RunContracts SandboxProps
begin

text \<open>
  What the public contracts promise: a caller can raise the risk and narrow the sandbox but never the
  reverse, a replay with side effects is ready only under a fresh approval of this very snapshot by
  somebody else than the proposer, and a run compared with itself shows no change.
\<close>

section \<open>Risk\<close>

lemma inferred_risk_rank: "\<exists>n. risk_rank (fst (inferred_risk ws)) = Some n"
  by (simp add: inferred_risk_def risk_rank_def)

definition requested_risk :: "string \<Rightarrow> string" where
  "requested_risk explicit = (if py_lower explicit = ''critical'' then ''release'' else py_lower explicit)"

lemma infer_risk_bound:
  "\<exists>n. risk_rank (fst (infer_risk explicit actions)) = Some n \<and> opt_or (risk_rank (fst (inferred_risk (action_words actions)))) 0 \<le> n
     \<and> opt_or (risk_rank (requested_risk explicit)) 0 \<le> n"
proof -
  obtain inf reason where i: "inferred_risk (action_words actions) = (inf, reason)" by fastforce
  obtain m where m: "risk_rank inf = Some m" using inferred_risk_rank [of "action_words actions"] i by auto
  have o: "opt_or (risk_rank inf) 0 = m" using m by (simp add: opt_or_def)
  have e: "infer_risk explicit actions = (case risk_rank (requested_risk explicit) of
      None \<Rightarrow> (inf, reason) | Some n \<Rightarrow> if m \<le> n then (requested_risk explicit, ''explicit risk profile'')
         else (inf, ''risk raised above requested '' @ requested_risk explicit @ '': '' @ reason))"
    unfolding infer_risk_def requested_risk_def Let_def i prod.case o ..
  show ?thesis
    using m unfolding e i by (cases "risk_rank (requested_risk explicit)") (auto simp: opt_or_def)
qed

lemma risk_rank_cases: "risk_rank r = Some n \<Longrightarrow> r \<in> {''low'', ''medium'', ''high'', ''release''}"
  by (auto simp: risk_rank_def split: if_splits)

lemma selection_normalized:
  assumes "normalize_sandbox_policy E (selection_policy risk network filesystem source) = Inr P" "network \<noteq> []" "filesystem \<noteq> []"
  shows "sp_network_mode P = network \<and> sp_filesystem_mode P = filesystem \<and> sp_human_approval_required P \<and> sp_release_blocked P
     \<and> sp_state_roots P = [] \<and> sp_state_files P = [] \<and> sp_command_allowlist P = []"
  using assms unfolding normalize_sandbox_policy_def selection_policy_def
  by (elim bindE_InrE) (auto simp: Let_def get_dict_def get_str_def jor_def jmerge_def py_dict_def policy_object_def py_str_def
      runtime_state_root_values_def runtime_state_file_values_def path_values_def py_iter_def elim!: bindE_InrE)

lemma selected_modes:
  "selected_network E risk requested \<in> {''none'', default_network risk}"
  "selected_filesystem E risk requested \<in> {''read_only'', default_filesystem risk}"
  "selected_network E risk requested \<noteq> []" "selected_filesystem E risk requested \<noteq> []"
  by (auto simp: selected_network_def selected_filesystem_def default_network_def default_filesystem_def)

text \<open>The mode of a policy entry of a selected sandbox.\<close>

definition mode_of :: "jobj \<Rightarrow> string \<Rightarrow> json" where
  "mode_of sandbox k = jget (obj_or_empty (jget sandbox k)) ''mode''"

lemma selection_shape:
  assumes "select_risk_aware_sandbox_policy E source = Inr sel" "risk = fst (risk_of_source E source)"
    "requested = obj_or_empty (jor (jget source ''sandbox'') (jget source ''runtime_policy''))"
  shows "jget sel ''risk_profile'' = JStr risk \<and> mode_of sel ''network_policy'' = JStr (selected_network E risk requested)
     \<and> mode_of sel ''filesystem_policy'' = JStr (selected_filesystem E risk requested)
     \<and> jget sel ''promotion'' = JObj [(''human_approval_required'', JBool True), (''merge_release_signing_blocked'', JBool True)]"
proof -
  obtain P where P: "normalize_sandbox_policy E (selection_policy risk (selected_network E risk requested) (selected_filesystem E risk requested) source) = Inr P"
    and sel: "jget sel ''risk_profile'' = JStr risk" "jget sel ''network_policy'' = jget (policy_to_dict P) ''network_policy''"
      "jget sel ''filesystem_policy'' = jget (policy_to_dict P) ''filesystem_policy''" "jget sel ''promotion'' = jget (policy_to_dict P) ''promotion''"
    using assms(1) unfolding select_risk_aware_sandbox_policy_def Let_def split_beta assms(2,3)
    by (elim bindE_InrE) (auto simp: Let_def)
  from selection_normalized [OF P selected_modes(3,4)] sel show ?thesis
    by (simp add: mode_of_def policy_to_dict_def obj_or_empty_def)
qed

section \<open>Published values\<close>

text \<open>What a reader finds under a plain key of a redacted and pruned object.\<close>

lemma published_get:
  assumes "jlookup o' k = Some v" "\<not> is_sensitive_key k" "redact_sensitive_value v \<noteq> JNull" "redact_sensitive_value v \<noteq> JStr []"
  shows "jget (obj_or_empty (prune (redact_sensitive_value (JObj o')))) k = prune (redact_sensitive_value v)"
  using assms(1) by (induction o') (auto simp: assms(2-4) jlookup_def obj_or_empty_def split: if_splits)

lemma published_is_object: "\<exists>o''. prune (redact_sensitive_value (JObj o')) = JObj o''"
  by simp

lemma status_key_plain: "\<not> is_sensitive_key ''status''" "\<not> is_sensitive_key ''execution''" "\<not> is_sensitive_key ''performed''"
    "\<not> is_sensitive_key ''automatic_execution_allowed''" "\<not> is_sensitive_key ''side_effects_repeated''" "\<not> is_sensitive_key ''summary''"
    "\<not> is_sensitive_key ''changed''" "\<not> is_sensitive_key ''changed_sections''" "\<not> is_sensitive_key ''improved_checks''" "\<not> is_sensitive_key ''regressed_checks''"
  by code_simp+

lemma valid_approvalD:
  assumes "valid_renewed_approval E approval h = Inr True"
  shows "integrity_verified (jor (jor (jget approval ''integrity_status'') (jget approval ''verification'')) (jget approval ''integrity'')) = Inr True
    \<and> py_lower (approval_field E approval ''decision'' ''status'' 40) \<in> {''approved'', ''approve''}
    \<and> approval_field E approval ''subject_sha256'' ''target_sha256'' 80 = h
    \<and> approval_field E approval ''proposer_id'' ''proposer'' 160 \<noteq> []
    \<and> approval_field E approval ''approver_id'' ''approver'' 160 \<notin> {[], approval_field E approval ''proposer_id'' ''proposer'' 160}"
  using assms unfolding valid_renewed_approval_def Let_def by (auto split: if_splits elim!: bindE_InrE)

section \<open>Properties\<close>

text \<open>C19: the selected sandbox follows the risk. The risk is at least what the actions and side
  effects imply and at least what the caller asks for; the network and file-system modes are the
  defaults of that risk or tighter, tighter whenever the caller asks for it, and fully closed at low risk; release
  promotion stays blocked and human approval required whatever the caller passes.\<close>

theorem sandbox_selection_restricts:
  assumes "select_risk_aware_sandbox_policy E source = Inr sel"
    "requested = obj_or_empty (jor (jget source ''sandbox'') (jget source ''runtime_policy''))"
  shows "\<exists>risk n. jget sel ''risk_profile'' = JStr risk \<and> risk_rank risk = Some n
      \<and> opt_or (risk_rank (fst (inferred_risk (action_words (source_actions E source))))) 0 \<le> n
      \<and> opt_or (risk_rank (requested_risk (explicit_risk E source))) 0 \<le> n
      \<and> mode_of sel ''network_policy'' = JStr (if risk = ''low'' \<or> policy_mode E (jor (jget requested ''network_policy'') (jget requested ''network'')) = ''none''
           then ''none'' else default_network risk)
      \<and> mode_of sel ''filesystem_policy'' = JStr (if risk = ''low'' \<or> policy_mode E (jor (jget requested ''filesystem_policy'') (jget requested ''filesystem'')) = ''read_only''
           then ''read_only'' else ''candidate_workspace_only'')
      \<and> jget sel ''promotion'' = JObj [(''human_approval_required'', JBool True), (''merge_release_signing_blocked'', JBool True)]"
proof -
  let ?risk = "fst (risk_of_source E source)"
  obtain n where n: "risk_rank ?risk = Some n" "opt_or (risk_rank (fst (inferred_risk (action_words (source_actions E source))))) 0 \<le> n"
      "opt_or (risk_rank (requested_risk (explicit_risk E source))) 0 \<le> n"
    using infer_risk_bound [of "explicit_risk E source" "source_actions E source"] unfolding risk_of_source_def by blast
  note shape = selection_shape [OF assms(1) refl assms(2)]
  show ?thesis
    by (rule exI [of _ ?risk], rule exI [of _ n])
      (use n shape in \<open>simp add: selected_network_def selected_filesystem_def default_filesystem_def\<close>)
qed

theorem sandbox_selection_restricts_witness:
  "\<exists>sel. select_risk_aware_sandbox_policy plain_env [(''actions'', jstrs [''sign'']), (''risk_profile'', JStr ''low'')] = Inr sel
     \<and> jget sel ''risk_profile'' = JStr ''release'' \<and> mode_of sel ''network_policy'' = JStr ''adapter_scoped''
     \<and> jget sel ''promotion'' = JObj [(''human_approval_required'', JBool True), (''merge_release_signing_blocked'', JBool True)]"
proof -
  let ?src = "[(''actions'', jstrs [''sign'']), (''risk_profile'', JStr ''low'')]"
  have c: "map_sum id (\<lambda>s. (jget s ''risk_profile'', mode_of s ''network_policy'')) (select_risk_aware_sandbox_policy plain_env ?src) = Inr (JStr ''release'', JStr ''adapter_scoped'')"
    by code_simp
  then obtain sel where sel: "select_risk_aware_sandbox_policy plain_env ?src = Inr sel"
    by (cases "select_risk_aware_sandbox_policy plain_env ?src") auto
  with c show ?thesis using sandbox_selection_restricts [OF sel refl] by auto
qed

lemma replay_plan_status:
  assumes "plan = prune (redact_sensitive_value (JObj (replay_plan_of E snapshot effects approval approved @ rest)))"
  shows "jget (obj_or_empty plan) ''status'' = JStr (if effects \<noteq> [] \<and> \<not> approved then ''blocked'' else ''ready'')"
proof -
  have r: "redact_sensitive_value (JStr ''ready'') = JStr ''ready''" "redact_sensitive_value (JStr ''blocked'') = JStr ''blocked''" by code_simp+
  show ?thesis
  proof (cases "effects \<noteq> [] \<and> \<not> approved")
    case True
    then show ?thesis unfolding assms
      by (subst published_get [of _ _ "JStr ''blocked''"]) (simp_all add: replay_plan_of_def jlookup_def Let_def status_key_plain r del: redact_sensitive_value.simps)
  next
    case False
    then show ?thesis unfolding assms
      by (subst published_get [of _ _ "JStr ''ready''"]) (auto simp: replay_plan_of_def jlookup_def Let_def status_key_plain r simp del: redact_sensitive_value.simps)
  qed
qed

text \<open>C18: a replay never runs by itself, and with side effects it is ready only under a renewed
  approval: a verified receipt that decides \<open>approved\<close>, names the hash of this very snapshot, and whose
  approver is not the proposer.\<close>

theorem replay_needs_fresh_approval:
  assumes "build_replay_plan E source = Inr plan"
    "approval = obj_or_empty (jor (jget source ''renewed_approval'') (jget source ''approval_receipt''))"
  shows "jget (obj_or_empty plan) ''execution'' = JObj [(''performed'', JBool False), (''automatic_execution_allowed'', JBool False), (''side_effects_repeated'', JBool False)]
    \<and> (jget (obj_or_empty plan) ''status'' = JStr ''ready'' \<and> replay_side_effects E source \<noteq> [] \<longrightarrow>
        (\<exists>snapshot. normalize_run_snapshot E (obj_or_empty (jor (jget source ''source'') (jget source ''run''))) ''source'' = Inr snapshot
          \<and> integrity_verified (jor (jor (jget approval ''integrity_status'') (jget approval ''verification'')) (jget approval ''integrity'')) = Inr True
          \<and> py_lower (approval_field E approval ''decision'' ''status'' 40) \<in> {''approved'', ''approve''}
          \<and> approval_field E approval ''subject_sha256'' ''target_sha256'' 80 = json_hash E (JObj snapshot)
          \<and> approval_field E approval ''proposer_id'' ''proposer'' 160 \<noteq> []
          \<and> approval_field E approval ''approver_id'' ''approver'' 160 \<notin> {[], approval_field E approval ''proposer_id'' ''proposer'' 160}))"
proof -
  obtain snapshot approved where
    s: "normalize_run_snapshot E (obj_or_empty (jor (jget source ''source'') (jget source ''run''))) ''source'' = Inr snapshot"
    and a: "valid_renewed_approval E approval (json_hash E (JObj snapshot)) = Inr approved"
    and p: "plan = prune (redact_sensitive_value (JObj (replay_plan_of E snapshot (replay_side_effects E source) approval approved
        @ [(''plan_sha256'', JStr (json_hash E (JObj (replay_plan_of E snapshot (replay_side_effects E source) approval approved))))])))"
    using assms(1) unfolding build_replay_plan_def Let_def assms(2) [symmetric] by (elim bindE_InrE) simp
  note st = replay_plan_status [OF p]
  have ex: "jget (obj_or_empty plan) ''execution'' = JObj [(''performed'', JBool False), (''automatic_execution_allowed'', JBool False), (''side_effects_repeated'', JBool False)]"
    unfolding p by (subst published_get) (auto simp: replay_plan_of_def jlookup_def Let_def status_key_plain)
  have "approved = True" if "jget (obj_or_empty plan) ''status'' = JStr ''ready''" "replay_side_effects E source \<noteq> []"
    using that st by (simp split: if_splits)
  then show ?thesis using ex s a valid_approvalD [of E approval "json_hash E (JObj snapshot)"] by blast
qed

text \<open>A digest passes the cleaning unchanged.\<close>

lemma no_path_here: "CHR ''/'' \<notin> set s \<Longrightarrow> CHR '':'' \<notin> set s \<Longrightarrow> \<not> absolute_path_search b s"
proof (induction s arbitrary: b)
  case (Cons c cs)
  have "\<not> py_startswith (c # cs) h" if "h \<in> set path_heads" for h
  proof -
    have "hd h = CHR ''/'' \<and> h \<noteq> []" using that by (auto simp: path_heads_def)
    then show ?thesis using Cons.prems(1) by (cases h) (auto simp: py_startswith_def)
  qed
  then have "\<not> absolute_path_here (c # cs)" using Cons.prems by (auto simp: absolute_path_here_def list_ex_iff split: list.splits)
  then show ?case using Cons by simp
qed simp

lemma no_credential: "CHR '':'' \<notin> set s \<Longrightarrow> CHR ''='' \<notin> set s \<Longrightarrow> \<not> credential_search s"
proof (induction s)
  case (Cons c cs)
  have "\<not> (case dropWhile is_space (drop n (c # cs)) of d # _ \<Rightarrow> d = CHR '':'' \<or> d = CHR ''='' | [] \<Rightarrow> False)" for n
  proof (cases "dropWhile is_space (drop n (c # cs))")
    case (Cons d ds)
    then have "d \<in> set (c # cs)" by (metis in_set_dropD list.set_intros(1) set_dropWhileD)
    then show ?thesis using Cons \<open>CHR '':'' \<notin> set (c # cs)\<close> \<open>CHR ''='' \<notin> set (c # cs)\<close> by auto
  next
    case Nil
    then show ?thesis by (simp only: Nil list.case simp_thms)
  qed
  then have "\<not> credential_here (c # cs)" unfolding credential_here_def list_ex_iff by blast
  then show ?case using Cons by simp
qed simp

lemma hex_char: "is_hex_lower c \<Longrightarrow> \<not> is_space c \<and> c \<notin> {CHR ''/'', CHR '':'', CHR ''='', CHR 0x00}"
  by (auto simp: is_hex_lower_def is_digit_def is_space_def Let_def code_pt_def)

lemma strip_nonspace: "list_all (\<lambda>c. \<not> is_space c) s \<Longrightarrow> py_strip s = s"
proof -
  assume a: "list_all (\<lambda>c. \<not> is_space c) s"
  have d: "dropWhile is_space t = t" if "list_all (\<lambda>c. \<not> is_space c) t" for t using that by (cases t) auto
  show ?thesis using a d [OF a] d [of "List.rev s"] by (simp add: py_strip_def py_lstrip_def py_rstrip_def list_all_iff)
qed

lemma clean_digest: "clean_text E (JStr (sha256_hex t)) 80 = sha256_hex t"
proof -
  let ?h = "sha256_hex t"
  have h: "length ?h = 64" "list_all is_hex_lower ?h" using sha256_hex_format [of t] by (simp_all add: is_sha256_hex_def)
  have c: "\<not> is_space c \<and> c \<notin> {CHR ''/'', CHR '':'', CHR ''='', CHR 0x00}" if "c \<in> set ?h" for c
    using hex_char h(2) that unfolding list_all_iff by blast
  have n: "CHR ''/'' \<notin> set ?h" "CHR '':'' \<notin> set ?h" "CHR ''='' \<notin> set ?h" "CHR 0x00 \<notin> set ?h" using c by blast+
  have n5: "list_all (\<lambda>c. \<not> is_space c) ?h" using c unfolding list_all_iff by blast
  have n6: "?h \<noteq> []" using h(1) by force
  have "\<not> py_startswith ?h ''/''" using n(1) n6 by (cases ?h) (auto simp: py_startswith_def)
  moreover have "take 80 ?h = ?h" using h(1) by (simp only: take_all_iff)
  ultimately show ?thesis using n n5 n6 unfolding clean_text_def
    by (simp only: Let_def py_str_def json.case truthy.simps strip_nonspace no_path_here no_credential if_True if_False simp_thms)
qed

lemma snapshot_ok:
  "isOK (select_risk_aware_sandbox_policy E (snapshot_source v fid)) \<Longrightarrow> isOK (normalize_run_snapshot E v fid)"
  by (auto simp: isOK_def normalize_run_snapshot_def build_execution_policy_contract_def Let_def split: sum.splits)

definition sample_run :: jobj where
  "sample_run = [(''run_id'', JStr ''r1''), (''status'', JStr ''completed'')]"

definition sample_replay :: "string \<Rightarrow> jobj" where
  "sample_replay h = [(''source'', JObj sample_run), (''external_side_effects'', jstrs [''deploy'']),
     (''renewed_approval'', JObj [(''integrity_status'', JStr ''verified''), (''decision'', JStr ''approved''), (''proposer_id'', JStr ''ann''),
        (''approver_id'', JStr ''bob''), (''scope'', JStr ''replay''), (''subject_sha256'', JStr h)])]"

theorem replay_needs_fresh_approval_witness:
  "\<exists>h plan. build_replay_plan plain_env (sample_replay h) = Inr plan \<and> replay_side_effects plain_env (sample_replay h) = [''deploy'']
     \<and> jget (obj_or_empty plan) ''status'' = JStr ''ready''
     \<and> (\<exists>snapshot. normalize_run_snapshot plain_env sample_run ''source'' = Inr snapshot
          \<and> approval_field plain_env (obj_or_empty (jget (sample_replay h) ''renewed_approval'')) ''subject_sha256'' ''target_sha256'' 80 = json_hash plain_env (JObj snapshot))"
proof -
  have "isOK (select_risk_aware_sandbox_policy plain_env (snapshot_source sample_run ''source''))" by code_simp
  then have "isOK (normalize_run_snapshot plain_env sample_run ''source'')" by (rule snapshot_ok)
  then obtain snapshot where s: "normalize_run_snapshot plain_env sample_run ''source'' = Inr snapshot" by (auto simp: isOK_def split: sum.splits)
  let ?h = "json_hash plain_env (JObj snapshot)"
  let ?src = "sample_replay ?h"
  define approval where "approval = obj_or_empty (jor (jget ?src ''renewed_approval'') (jget ?src ''approval_receipt''))"
  have e: "replay_side_effects plain_env ?src = [''deploy'']"
  proof -
    have "normalized_side_effects plain_env [(''external_side_effects'', jstrs [''deploy''])] = [''deploy'']" by code_simp
    then show ?thesis by (simp add: sample_replay_def replay_side_effects_def normalized_side_effects_def)
  qed
  have run: "obj_or_empty (jor (jget ?src ''source'') (jget ?src ''run'')) = sample_run"
    by (simp add: sample_replay_def jor_def obj_or_empty_def sample_run_def)
  have ap: "approval = [(''integrity_status'', JStr ''verified''), (''decision'', JStr ''approved''), (''proposer_id'', JStr ''ann''),
        (''approver_id'', JStr ''bob''), (''scope'', JStr ''replay''), (''subject_sha256'', JStr ?h)]"
    "obj_or_empty (jget ?src ''renewed_approval'') = approval"
    by (simp_all add: approval_def sample_replay_def jor_def obj_or_empty_def)
  have "valid_renewed_approval plain_env approval ?h = Inr True"
  proof -
    have c: "clean_text plain_env (JStr ''approved'') 40 = ''approved''" "clean_text plain_env (JStr ''ann'') 160 = ''ann''"
      "clean_text plain_env (JStr ''bob'') 160 = ''bob''" "clean_text plain_env (JStr ''replay'') 120 = ''replay''"
      "py_lower ''approved'' = ''approved''" "py_lower ''replay'' = ''replay''" by code_simp+
    have h: "clean_text plain_env (JStr ?h) 80 = ?h" unfolding json_hash_def by (rule clean_digest)
    have "length ?h = 64" using sha256_hex_format unfolding json_hash_def is_sha256_hex_def by blast
    then have "?h \<noteq> []" by force
    with h show ?thesis by (simp add: valid_renewed_approval_def ap(1) approval_field_def jor_def c h integrity_verified_def Let_def)
  qed
  then obtain plan where plan: "build_replay_plan plain_env ?src = Inr plan"
      "plan = prune (redact_sensitive_value (JObj (replay_plan_of plain_env snapshot [''deploy''] approval True
        @ [(''plan_sha256'', JStr (json_hash plain_env (JObj (replay_plan_of plain_env snapshot [''deploy''] approval True))))])))"
    unfolding build_replay_plan_def run e approval_def [symmetric] s by (simp add: Let_def)
  have "jget (obj_or_empty plan) ''status'' = JStr ''ready''" using replay_plan_status [OF plan(2)] by simp
  moreover from this have "\<exists>snapshot. normalize_run_snapshot plain_env sample_run ''source'' = Inr snapshot
      \<and> approval_field plain_env approval ''subject_sha256'' ''target_sha256'' 80 = json_hash plain_env (JObj snapshot)"
    using replay_needs_fresh_approval [OF plan(1) approval_def] unfolding run e by blast
  ultimately show ?thesis using plan(1) e ap(2) by blast
qed

section \<open>Comparing a run with itself\<close>

lemma published_skip: "fst p \<noteq> k \<Longrightarrow>
    jget (obj_or_empty (prune (redact_sensitive_value (JObj (p # o'))))) k = jget (obj_or_empty (prune (redact_sensitive_value (JObj o')))) k"
  by (simp add: obj_or_empty_def)

lemma prune_skip: "fst p \<noteq> k \<Longrightarrow> jget (obj_or_empty (prune (JObj (p # o')))) k = jget (obj_or_empty (prune (JObj o'))) k"
  by (simp add: obj_or_empty_def)

lemma select_same: "select_risk_aware_sandbox_policy E (snapshot_source v f) = select_risk_aware_sandbox_policy E (snapshot_source v g)"
  by (simp add: select_risk_aware_sandbox_policy_def risk_of_source_def explicit_risk_def source_actions_def normalized_side_effects_def
      selection_policy_def snapshot_source_def)

lemma policy_contract_split:
  "\<exists>x rest. policy_contract E (snapshot_source v f) sb = (''schema_version'', JStr ''across-execution-policy/1.0'') # (''run_id'', x f) # rest
     \<and> policy_contract E (snapshot_source v g) sb = (''schema_version'', JStr ''across-execution-policy/1.0'') # (''run_id'', x g) # rest"
  by (rule exI [of _ "\<lambda>f. JStr (clean_text E (jor (jor (jget (snapshot_source v f) ''run_id'') (jget (snapshot_source v f) ''task_id'')) (jget (snapshot_source v f) ''loop_id'')) 160)"])
    (simp add: policy_contract_def Let_def snapshot_source_def role_label_def normalized_side_effects_def)

lemma contract_same:
  assumes "build_execution_policy_contract E (snapshot_source v f) = Inr c" "build_execution_policy_contract E (snapshot_source v g) = Inr d" "k \<noteq> ''schema_version''" "k \<noteq> ''run_id''"
  shows "jget (obj_or_empty c) k = jget (obj_or_empty d) k"
proof -
  obtain sb where sb: "select_risk_aware_sandbox_policy E (snapshot_source v f) = Inr sb"
    and c: "c = prune (redact_sensitive_value (JObj (policy_contract E (snapshot_source v f) sb)))"
    using assms(1) unfolding build_execution_policy_contract_def by (elim bindE_InrE) simp
  have d: "d = prune (redact_sensitive_value (JObj (policy_contract E (snapshot_source v g) sb)))"
    using assms(2) sb select_same [of E v g f] unfolding build_execution_policy_contract_def by simp
  from policy_contract_split [of E v f sb g] show ?thesis unfolding c d using assms(3,4)
    by (elim exE conjE) (simp only: published_skip fst_conv not_False_eq_True)
qed

lemma snapshot_same:
  assumes "normalize_run_snapshot E v f = Inr s" "normalize_run_snapshot E v g = Inr t" "k \<noteq> ''run_id''"
  shows "jget s k = jget t k"
proof -
  obtain c d where c: "build_execution_policy_contract E (snapshot_source v f) = Inr c" and d: "build_execution_policy_contract E (snapshot_source v g) = Inr d"
    and st: "s = obj_or_empty (prune (JObj ((''run_id'', jor (jget (obj_or_empty c) ''run_id'') (JStr f))
        # snapshot_fields E v (jget (obj_or_empty c) ''model_policy'') (jget (obj_or_empty c) ''risk''))))"
      "t = obj_or_empty (prune (JObj ((''run_id'', jor (jget (obj_or_empty d) ''run_id'') (JStr g))
        # snapshot_fields E v (jget (obj_or_empty d) ''model_policy'') (jget (obj_or_empty d) ''risk''))))"
    using assms(1,2) unfolding normalize_run_snapshot_def Let_def by (elim bindE_InrE) simp
  have same: "jget (obj_or_empty c) ''model_policy'' = jget (obj_or_empty d) ''model_policy''" "jget (obj_or_empty c) ''risk'' = jget (obj_or_empty d) ''risk''"
    by (rule contract_same [OF c d]; simp)+
  show ?thesis unfolding st same using assms(3) by (simp only: prune_skip fst_conv not_False_eq_True)
qed

lemma compare_checks_refl: "compare_checks c c = [(''changed'', JBool False),
    (''items'', objs (map (\<lambda>k. [(''id'', JStr k), (''before'', JStr (check_in c k)), (''after'', JStr (check_in c k)), (''classification'', JStr ''unchanged'')]) (sorted_keys c c))),
    (''improved'', JArr []), (''regressed'', JArr [])]"
  by (simp add: compare_checks_def classify_def Let_def jstrs_def list_ex_iff)

lemma self_unchanged: "changed_sections (snapshot_changes E s s) = []"
  by (simp add: changed_sections_def snapshot_changes_def Let_def obj_or_empty_def change_def set_change_def object_change_def budget_change_def
      compare_checks_def classify_def list_ex_iff del: py_eq.simps)

lemma snapshot_changes_cong:
  assumes "\<And>k. k \<noteq> ''run_id'' \<Longrightarrow> jget s k = jget t k"
  shows "snapshot_changes E s t = snapshot_changes E s s"
  unfolding snapshot_changes_def Let_def by (simp add: assms [symmetric])

text \<open>A run compared with itself shows no change: the summary of the published comparison reports
  no changed section, no improved and no regressed check, also when the run has no id of its own and the two
  sides get different ones.\<close>

theorem self_comparison_unchanged:
  assumes "build_run_comparison E source = Inr comparison"
    "obj_or_empty (jor (jget source ''baseline'') (jget source ''before'')) = obj_or_empty (jor (jget source ''candidate'') (jget source ''after''))"
  shows "jget (obj_or_empty comparison) ''summary'' = JObj [(''changed'', JBool False), (''changed_sections'', JArr []), (''improved_checks'', JArr []), (''regressed_checks'', JArr [])]"
proof -
  let ?v = "obj_or_empty (jor (jget source ''baseline'') (jget source ''before''))"
  let ?summary = "JObj [(''changed'', JBool False), (''changed_sections'', JArr []), (''improved_checks'', JArr []), (''regressed_checks'', JArr [])]"
  obtain s t where s: "normalize_run_snapshot E ?v ''baseline'' = Inr s" and t: "normalize_run_snapshot E ?v ''candidate'' = Inr t"
    and c: "comparison = prune (redact_sensitive_value (JObj (comparison_of E s t @ [(''comparison_sha256'', JStr (json_hash E (JObj (comparison_of E s t))))])))"
    using assms unfolding build_run_comparison_def Let_def by (elim bindE_InrE) simp
  have ch: "snapshot_changes E s t = snapshot_changes E s s" by (rule snapshot_changes_cong) (rule snapshot_same [OF s t])
  have lk: "jlookup (comparison_of E s t @ rest) ''summary'' = Some (JObj [(''changed'', JBool False), (''changed_sections'', JArr []), (''improved_checks'', JArr []), (''regressed_checks'', JArr [])])" for rest
    unfolding comparison_of_def Let_def ch self_unchanged
    by (simp add: jlookup_def jstrs_def snapshot_changes_def Let_def obj_or_empty_def compare_checks_refl del: py_eq.simps)
  have r: "redact_sensitive_value ?summary = ?summary" by code_simp
  have pr: "prune ?summary = ?summary" by simp
  have nn: "redact_sensitive_value ?summary \<noteq> JNull" "redact_sensitive_value ?summary \<noteq> JStr []" unfolding r by simp_all
  show ?thesis unfolding c published_get [OF lk status_key_plain(6) nn] r pr ..
qed

theorem self_comparison_unchanged_sample:
  "\<exists>comparison. build_run_comparison plain_env [(''before'', JObj sample_run), (''after'', JObj sample_run)] = Inr comparison
     \<and> jget (obj_or_empty comparison) ''summary'' = JObj [(''changed'', JBool False), (''changed_sections'', JArr []), (''improved_checks'', JArr []), (''regressed_checks'', JArr [])]"
proof -
  have "isOK (select_risk_aware_sandbox_policy plain_env (snapshot_source sample_run fid))" for fid
    using select_same [of plain_env sample_run fid "''x''"] by (simp only:) code_simp
  then have ok: "isOK (normalize_run_snapshot plain_env sample_run fid)" for fid by (rule snapshot_ok)
  let ?src = "[(''before'', JObj sample_run), (''after'', JObj sample_run)]"
  have o: "obj_or_empty (jor (jget ?src ''baseline'') (jget ?src ''before'')) = sample_run" "obj_or_empty (jor (jget ?src ''candidate'') (jget ?src ''after'')) = sample_run"
    by (simp_all add: jor_def obj_or_empty_def)
  obtain comparison where c: "build_run_comparison plain_env ?src = Inr comparison"
    using ok [of "''baseline''"] ok [of "''candidate''"] unfolding build_run_comparison_def o by (auto simp: isOK_def Let_def split: sum.splits)
  from self_comparison_unchanged [OF c] show ?thesis using c o by simp
qed

section \<open>What the contracts miss\<close>

text \<open>The contract bounds its own budget with defaults for malformed values, but the sandbox selection
  converts the same budget strictly and raises.\<close>

lemma malformed_budget_raises:
  "\<not> isOK (normalize_sandbox_policy plain_env (selection_policy ''low'' ''none'' ''read_only'' [(''budget'', JObj [(''max_usd'', JStr ''lots'')])]))
     \<and> contract_float plain_env (JStr ''lots'') 0 1000 0 = JInt 0"
  by code_simp

text \<open>The flag that the host owns the credentials is redacted, because its name is a sensitive key.\<close>

lemma host_owned_credentials_redacted:
  "is_sensitive_key ''host_owned_credentials''
     \<and> redact_sensitive_value (JObj [(''host_owned_credentials'', JBool True)]) = JObj [(''host_owned_credentials'', JStr ''[redacted]'')]"
  by code_simp

text \<open>A side effect that is written as an absolute path is dropped before the risk is inferred.\<close>

lemma path_side_effect_dropped:
  "normalized_side_effects plain_env [(''external_side_effects'', jstrs [''/opt/publish''])] = []
     \<and> fst (inferred_risk (action_words [])) = ''low'' \<and> fst (inferred_risk (action_words [''publish''])) = ''release''"
  by code_simp

end
