(* ===== verification/TaskModel.thy ===== *)
theory TaskModel
  imports PyPath LoopDriver
begin

text \<open>
  Tasks and their plans (\<open>models.py\<close>, \<open>planning.py\<close>). The task part of \<open>LocalStore\<close> (\<open>store.py\<close>) keeps
  the dictionary forms of tasks and their event logs beside the state of the loops, which has the clock
  and the generated ids; \<open>ts_files\<close> are the managed artifacts written under the store's directory.
  \<open>ts_runs\<close> records which subtasks of which task were given to an adapter, in order.
\<close>

section \<open>Records\<close>

record subtask =
  sb_id :: string
  sb_goal :: string
  sb_path :: string
  sb_agent :: string
  sb_role :: "string option"
  sb_status :: string
  sb_wave :: int
  sb_deps :: "string list"
  sb_priority :: int
  sb_attempts :: int
  sb_error :: "string option"

record task =
  tsk_id :: string
  tsk_goal :: string
  tsk_root :: string
  tsk_status :: string
  tsk_agent :: string
  tsk_subtasks :: "subtask list"
  tsk_contract :: jobj
  tsk_metadata :: jobj
  tsk_finding_state :: "string option"
  tsk_findings :: "jobj list"
  tsk_history :: "jobj list"
  tsk_created :: time
  tsk_updated :: time

text \<open>The state of the runtime: the loops with their clock and ids, and beside them the tasks.\<close>

record tstate =
  ts_loop :: lstate
  ts_tasks :: "jobj coll"
  ts_events :: "jobj logs"
  ts_files :: "(string \<times> string) list"
  ts_runs :: "(string \<times> string) list"
  ts_looks :: nat

type_synonym 'a tm = "(tstate, 'a) pyM"

text \<open>An operation of the agent loop's runtime on its part of the state.\<close>

definition loopT :: "'a lm \<Rightarrow> 'a tm" where
  "loopT m s = (case m (ts_loop s) of (r, l) \<Rightarrow> (r, s\<lparr>ts_loop := l\<rparr>))"

definition interpT :: "pyenv tm" where
  "interpT = getsM (\<lambda>s. ls_interp (ts_loop s))"

section \<open>Paths of artifacts\<close>

definition normalize_artifact_path :: "string \<Rightarrow> string res" where
  "normalize_artifact_path path = (let v = dropWhile (\<lambda>c. c = CHR ''/'') (py_replace_char (CHR 0x5C) (CHR ''/'') (py_strip path)) in
     if v = [] then Inl (ValueError ''deliverable path cannot be empty'')
     else let parts = posix_parts v in
       if ''..'' \<in> set parts then Inl (ValueError (''deliverable path must stay inside project root: '' @ path))
       else Inr (py_join ''/'' parts))"

text \<open>The first deliverable with a path; what is left is the value of the last one looked at.\<close>

fun deliverable_path :: "json \<Rightarrow> json list \<Rightarrow> json res" where
  "deliverable_path path [] = Inr path"
| "deliverable_path path (JObj d # ds) = (let p = jor (jget d ''path_hint'') (jget d ''path'') in
     if truthy p then Inr p else deliverable_path p ds)"
| "deliverable_path path (_ # ds) = Inl (AttributeError ''object has no attribute get'')"

definition path_from_subtask_spec :: "pyenv \<Rightarrow> jobj \<Rightarrow> string res" where
  "path_from_subtask_spec E spec = (let path = jor (jor (jget spec ''path'') (jget spec ''output_file'')) (jget spec ''path_hint'') in
     bindE (if truthy path then Inr path
            else bindE (py_iter (jor (jget spec ''deliverables'') (JArr []))) (deliverable_path path)) (\<lambda>path.
     normalize_artifact_path (py_str E (jor path (JStr ''README.md'')))))"

section \<open>New tasks\<close>

definition subtask_new :: "string \<Rightarrow> string \<Rightarrow> string \<Rightarrow> string option \<Rightarrow> int \<Rightarrow> string list \<Rightarrow> int \<Rightarrow> subtask tm" where
  "subtask_new goal path agent role wave deps priority = bindM (loopT (new_id ''subtask'')) (\<lambda>i.
     retM \<lparr>sb_id = i, sb_goal = goal, sb_path = path, sb_agent = agent, sb_role = role, sb_status = ''pending'',
       sb_wave = max 1 (if wave = 0 then 1 else wave), sb_deps = deps, sb_priority = max 1 (if priority = 0 then 1 else priority),
       sb_attempts = 0, sb_error = None\<rparr>)"

fun mapTM :: "('a \<Rightarrow> 'b tm) \<Rightarrow> 'a list \<Rightarrow> 'b list tm" where
  "mapTM f [] = retM []"
| "mapTM f (x # xs) = bindM (f x) (\<lambda>y. bindM (mapTM f xs) (\<lambda>ys. retM (y # ys)))"

definition task_record :: "string \<Rightarrow> string \<Rightarrow> string \<Rightarrow> string \<Rightarrow> subtask list \<Rightarrow> jobj \<Rightarrow> task tm" where
  "task_record i goal base agent subtasks contract = bindM (loopT nowL) (\<lambda>created. bindM (loopT nowL) (\<lambda>updated.
     retM \<lparr>tsk_id = i, tsk_goal = goal, tsk_root = base, tsk_status = ''pending'', tsk_agent = agent, tsk_subtasks = subtasks,
       tsk_contract = contract, tsk_metadata = [], tsk_finding_state = None, tsk_findings = [], tsk_history = [],
       tsk_created = created, tsk_updated = updated\<rparr>))"

definition resolved_root :: "file_system \<Rightarrow> string \<Rightarrow> string res" where
  "resolved_root F base = bindE (resolve_text F base) (\<lambda>p. Inr (path_str p))"

definition produce_goal :: "string \<Rightarrow> string \<Rightarrow> string" where
  "produce_goal path goal = ''Produce '' @ path @ '' for: '' @ goal"

definition task_new :: "file_system \<Rightarrow> string \<Rightarrow> string \<Rightarrow> string list \<Rightarrow> string \<Rightarrow> task tm" where
  "task_new F goal base deliverables agent =
     bindM (liftM (resolved_root F base)) (\<lambda>resolved.
     bindM (liftM (mapE normalize_artifact_path deliverables)) (\<lambda>clean_deliverables.
     bindM (loopT (new_id ''task'')) (\<lambda>i.
     bindM (mapTM (\<lambda>path. subtask_new (produce_goal path goal) path agent None 1 [] 1) clean_deliverables) (\<lambda>subtasks.
     task_record i goal resolved agent subtasks [
       (''contractVersion'', JStr ''0.1''), (''goal'', JStr goal), (''requiredArtifacts'', jstrs clean_deliverables),
       (''qualityGates'', jstrs [''required_artifacts_present'', ''no_artifacts_outside_project''])]))))"

definition opt_nonempty :: "string \<Rightarrow> string option" where
  "opt_nonempty s = (if s = [] then None else Some s)"

definition planned_subtask :: "string \<Rightarrow> string \<Rightarrow> nat \<Rightarrow> jobj \<Rightarrow> (string \<times> subtask) tm" where
  "planned_subtask goal agent index spec = bindM (interpT) (\<lambda>E.
     bindM (liftM (path_from_subtask_spec E spec)) (\<lambda>path.
     let spec_id = py_str E (jor (jor (jget spec ''id'') (jget spec ''subtask_id'')) (JStr (''stage-'' @ nat_str index))) in
     bindM (liftM (py_int (jor (jor (jget spec ''wave'') (jget spec ''wave_number'')) (JInt (int index))))) (\<lambda>wave.
     bindM (liftM (str_list_of E (jget spec ''dependencies''))) (\<lambda>deps.
     bindM (liftM (py_int (jor (jget spec ''priority'') (JInt (int index))))) (\<lambda>priority.
     bindM (subtask_new (py_str E (jor (jor (jget spec ''goal'') (jget spec ''description'')) (JStr (produce_goal path goal)))) path
        (py_str E (jor (jor (jget spec ''agent'') (JStr agent)) (JStr ''demo'')))
        (opt_nonempty (py_str E (jor (jor (jget spec ''capability_role'') (jget spec ''role'')) (JStr []))))
        wave deps priority) (\<lambda>subtask.
     retM (spec_id, subtask)))))))"

text \<open>Dependencies by the ids of the plan become ids of subtasks; of two equal ids the last counts.\<close>

definition resolve_dep :: "(string \<times> string) list \<Rightarrow> string \<Rightarrow> string" where
  "resolve_dep ids dep = opt_or (map_of (List.rev ids) dep) dep"

definition resolve_deps :: "(string \<times> subtask) list \<Rightarrow> subtask list" where
  "resolve_deps planned = map (\<lambda>(_, st). st\<lparr>sb_deps := map (resolve_dep (map (\<lambda>(k, st). (k, sb_id st)) planned)) (sb_deps st)\<rparr>) planned"

definition task_from_plan :: "file_system \<Rightarrow> string \<Rightarrow> string \<Rightarrow> jobj list \<Rightarrow> string list \<Rightarrow> string \<Rightarrow> task tm" where
  "task_from_plan F goal base specs deliverables agent =
     bindM (liftM (resolved_root F base)) (\<lambda>resolved.
     bindM (mapTM (\<lambda>(i, spec). planned_subtask goal agent i spec) (enumerate 1 specs)) (\<lambda>planned.
     bindM (liftM (mapE normalize_artifact_path deliverables)) (\<lambda>paths.
     bindM (loopT (new_id ''task'')) (\<lambda>i.
     task_record i goal resolved agent (resolve_deps planned) [
       (''contractVersion'', JStr ''0.2-plan''), (''goal'', JStr goal),
       (''requiredArtifacts'', jstrs (first_occurrences (map (sb_path \<circ> snd) planned @ paths))),
       (''qualityGates'', jstrs [''required_artifacts_present'', ''no_artifacts_outside_project'', ''serial_wave_dependencies'']),
       (''serialPlan'', JBool True)]))))"

section \<open>Strict chains\<close>

definition linked :: "nat \<Rightarrow> subtask option \<Rightarrow> subtask \<Rightarrow> subtask" where
  "linked index prev st0 = (let st = st0\<lparr>sb_priority := max 1 (if sb_priority st0 = 0 then int index else sb_priority st0)\<rparr> in
     case prev of None \<Rightarrow> st\<lparr>sb_deps := []\<rparr>
     | Some p \<Rightarrow> if sb_deps st = []
         then st\<lparr>sb_deps := [sb_id p], sb_wave := (if sb_wave st \<le> sb_wave p then sb_wave p + 1 else sb_wave st)\<rparr>
         else st)"

fun chain_from :: "nat \<Rightarrow> subtask option \<Rightarrow> subtask list \<Rightarrow> subtask list" where
  "chain_from index prev [] = []"
| "chain_from index prev (st # sts) = linked index prev st # chain_from (Suc index) (Some (linked index prev st)) sts"

definition ensure_strict_dependency_chain :: "task \<Rightarrow> task res" where
  "ensure_strict_dependency_chain t = (let contract = jset (tsk_contract t) ''serialPlan'' (JBool True) in
     bindE (py_iter (jor (jget contract ''qualityGates'') (JArr []))) (\<lambda>gates.
     let gates' = (if JStr ''serial_wave_dependencies'' \<in> set gates then gates else gates @ [JStr ''serial_wave_dependencies'']) in
     Inr (t\<lparr>tsk_contract := jset contract ''qualityGates'' (JArr gates'), tsk_subtasks := chain_from 1 None (tsk_subtasks t)\<rparr>)))"

section \<open>Dictionary forms\<close>

definition subtask_to_dict :: "subtask \<Rightarrow> jobj" where
  "subtask_to_dict st = [(''subtask_id'', JStr (sb_id st)), (''goal'', JStr (sb_goal st)), (''path'', JStr (sb_path st)),
     (''agent'', JStr (sb_agent st)), (''capability_role'', jopt (sb_role st)), (''status'', JStr (sb_status st)),
     (''wave'', JInt (sb_wave st)), (''dependencies'', jstrs (sb_deps st)), (''priority'', JInt (sb_priority st)),
     (''attempts'', JInt (sb_attempts st)), (''error'', jopt (sb_error st))]"

definition task_to_dict :: "task \<Rightarrow> jobj" where
  "task_to_dict t = [(''task_id'', JStr (tsk_id t)), (''goal'', JStr (tsk_goal t)), (''project_root'', JStr (tsk_root t)),
     (''status'', JStr (tsk_status t)), (''agent'', JStr (tsk_agent t)),
     (''subtasks'', objs (map subtask_to_dict (tsk_subtasks t))), (''contract'', JObj (tsk_contract t)), (''metadata'', JObj (tsk_metadata t)),
     (''finding_state'', jopt (tsk_finding_state t)), (''findings'', objs (tsk_findings t)), (''finding_history'', objs (tsk_history t)),
     (''created_at'', JFloat (tsk_created t)), (''updated_at'', JFloat (tsk_updated t))]"

text \<open>Reading back. The dataclasses do not convert their fields; a file with a field of another type than
  \<open>to_dict\<close> writes is outside the model and read as a \<open>TypeError\<close>.\<close>

definition dec_str :: "json \<Rightarrow> string res" where
  "dec_str v = (case v of JStr s \<Rightarrow> Inr s | _ \<Rightarrow> Inl (TypeError ''string expected''))"

definition dec_opt :: "json \<Rightarrow> string option res" where
  "dec_opt v = (case v of JStr s \<Rightarrow> Inr (Some s) | JNull \<Rightarrow> Inr None | _ \<Rightarrow> Inl (TypeError ''string or null expected''))"

definition dec_int :: "json \<Rightarrow> int res" where
  "dec_int v = (case v of JInt i \<Rightarrow> Inr i | _ \<Rightarrow> Inl (TypeError ''integer expected''))"

definition dec_strs :: "json \<Rightarrow> string list res" where
  "dec_strs v = (case v of JArr xs \<Rightarrow> mapE dec_str xs | _ \<Rightarrow> Inl (TypeError ''list expected''))"

definition dec_obj :: "json \<Rightarrow> jobj res" where
  "dec_obj v = (case v of JObj o' \<Rightarrow> Inr o' | _ \<Rightarrow> Inl (TypeError ''dict expected''))"

definition subtask_from_dict :: "json \<Rightarrow> subtask res" where
  "subtask_from_dict raw = bindE (py_dict raw) (\<lambda>o'.
     let o1 = (if jhas o' ''wave_number'' \<and> \<not> jhas o' ''wave'' then jset (jpop o' ''wave_number'') ''wave'' (jget o' ''wave_number'') else o')
     in bindE (checkE (jhas o1 ''subtask_id'' \<and> jhas o1 ''goal'' \<and> jhas o1 ''path'') (TypeError ''missing required argument'')) (\<lambda>_.
        bindE (dec_str (jget o1 ''subtask_id'')) (\<lambda>i. bindE (dec_str (jget o1 ''goal'')) (\<lambda>goal. bindE (dec_str (jget o1 ''path'')) (\<lambda>path.
        bindE (dec_str (jget_d o1 ''agent'' (JStr ''demo''))) (\<lambda>agent. bindE (dec_opt (jget o1 ''capability_role'')) (\<lambda>role.
        bindE (dec_str (jget_d o1 ''status'' (JStr ''pending''))) (\<lambda>status. bindE (dec_int (jget_d o1 ''wave'' (JInt 1))) (\<lambda>wave.
        bindE (dec_strs (jget_d o1 ''dependencies'' (JArr []))) (\<lambda>deps. bindE (dec_int (jget_d o1 ''priority'' (JInt 1))) (\<lambda>priority.
        bindE (dec_int (jget_d o1 ''attempts'' (JInt 0))) (\<lambda>attempts. bindE (dec_opt (jget o1 ''error'')) (\<lambda>error.
        Inr \<lparr>sb_id = i, sb_goal = goal, sb_path = path, sb_agent = agent, sb_role = role, sb_status = status, sb_wave = wave,
          sb_deps = deps, sb_priority = priority, sb_attempts = attempts, sb_error = error\<rparr>)))))))))))))"

definition only_objects :: "json \<Rightarrow> jobj list res" where
  "only_objects v = bindE (py_iter v) (\<lambda>xs. Inr (List.map_filter as_obj xs))"

definition status_alias :: "string \<Rightarrow> string" where
  "status_alias s = (if s = ''stopped'' then ''failed'' else s)"

section \<open>Migration of old app-grade tasks\<close>

definition APP_GRADE_ENGINE :: string where
  "APP_GRADE_ENGINE = ''app_grade_release_e2e''"

definition DEFAULT_APP_GRADE_EXECUTORS :: "string list" where
  "DEFAULT_APP_GRADE_EXECUTORS = [''openclaw'', ''hermes'', ''claude'', ''deepseek'', ''minimax'']"

definition legacy_role_from_agent :: "string \<Rightarrow> string option" where
  "legacy_role_from_agent agent = (let v = py_lower (py_strip agent) in
     if py_endswith v ''-agent'' then Some (take (length v - 6) v) else None)"

definition add_executor :: "pyenv \<Rightarrow> string list \<Rightarrow> json \<Rightarrow> string list" where
  "add_executor E acc item = (let v = py_lower (py_strip (if truthy item then py_str E item else [])) in
     if v \<noteq> [] \<and> v \<notin> set acc \<and> \<not> py_endswith v ''-agent'' \<and> v \<noteq> ''app-grade'' then acc @ [v] else acc)"

definition legacy_app_grade_executors :: "pyenv \<Rightarrow> task \<Rightarrow> string list res" where
  "legacy_app_grade_executors E t = (let body = obj_or_empty (jget (obj_or_empty (jget (tsk_metadata t) ''app_grade_request'')) ''request'') in
     bindE (py_iter (jor (jget body ''executor_agents'') (JArr []))) (\<lambda>xs.
     bindE (py_iter (jor (jget (tsk_contract t) ''executor_agents'') (JArr []))) (\<lambda>ys.
     let cleaned = foldl (add_executor E) [] (xs @ ys @ map (JStr \<circ> sb_agent) (tsk_subtasks t)) in
     Inr (if cleaned = [] then DEFAULT_APP_GRADE_EXECUTORS else cleaned))))"

definition migrate_item :: "pyenv \<Rightarrow> string list \<Rightarrow> string \<Rightarrow> nat \<Rightarrow> json \<Rightarrow> json" where
  "migrate_item E executors key i item = (case item of
      JObj o' \<Rightarrow> (case legacy_role_from_agent (py_str E (jor (jor (jget o' key) (jget o' ''agent'')) (JStr []))) of
         Some role \<Rightarrow> if role = [] then JObj o' else JObj (jset (jsetdefault o' ''capability_role'' (JStr role)) key (JStr (executors ! (i mod length executors))))
       | None \<Rightarrow> JObj o')
    | v \<Rightarrow> v)"

definition migrate_payload :: "pyenv \<Rightarrow> string list \<Rightarrow> string \<Rightarrow> json \<Rightarrow> json res" where
  "migrate_payload E executors key payload = (case payload of
      JObj o' \<Rightarrow> (let o1 = (case jget o' ''request'' of JObj r \<Rightarrow> jset o' ''request'' (JObj (jset r ''executor_agents'' (jstrs executors))) | _ \<Rightarrow> o')
        in case jget o1 ''subtasks'' of
             JArr xs \<Rightarrow> Inr (JObj (jset o1 ''subtasks'' (JArr (map (\<lambda>(i, x). migrate_item E executors key i x) (enumerate 0 xs)))))
           | v \<Rightarrow> bindE (py_iter (jor v (JArr []))) (\<lambda>_. Inr (JObj o1)))
    | v \<Rightarrow> Inr v)"

definition migrate_subtask :: "string list \<Rightarrow> nat \<Rightarrow> subtask \<Rightarrow> subtask" where
  "migrate_subtask executors i st = (case legacy_role_from_agent (sb_agent st) of
      Some role \<Rightarrow> if role = [] then st
        else st\<lparr>sb_role := (if opt_truthy (sb_role st) then sb_role st else Some role), sb_agent := executors ! (i mod length executors)\<rparr>
    | None \<Rightarrow> st)"

text \<open>A payload is an object in the metadata; changing it in place is writing it back.\<close>

definition migrate_entry :: "pyenv \<Rightarrow> string list \<Rightarrow> string \<Rightarrow> string \<Rightarrow> jobj \<Rightarrow> jobj res" where
  "migrate_entry E executors key k md = (if jhas md k then bindE (migrate_payload E executors key (jget md k)) (\<lambda>v. Inr (jset md k v)) else Inr md)"

definition migrate_legacy_app_grade_agents :: "pyenv \<Rightarrow> task \<Rightarrow> task res" where
  "migrate_legacy_app_grade_agents E t = (if jget (tsk_contract t) ''engine'' \<noteq> JStr APP_GRADE_ENGINE then Inr t else
     bindE (legacy_app_grade_executors E t) (\<lambda>executors.
     bindE (migrate_entry E executors ''agent'' ''app_grade_request'' (tsk_metadata t)) (\<lambda>md.
     bindE (migrate_entry E executors ''agent_id'' ''app_grade'' md) (\<lambda>md'.
     Inr (t\<lparr>tsk_agent := (if tsk_agent t = ''app-grade'' \<or> py_endswith (tsk_agent t) ''-agent'' then hd executors else tsk_agent t),
            tsk_subtasks := map (\<lambda>(i, st). migrate_subtask executors i st) (enumerate 0 (tsk_subtasks t)),
            tsk_metadata := md'\<rparr>)))))"

definition require_key :: "jobj \<Rightarrow> string \<Rightarrow> json res" where
  "require_key o' k = (case jlookup o' k of Some v \<Rightarrow> Inr v | None \<Rightarrow> Inl (KeyError k))"

definition task_from_dict :: "pyenv \<Rightarrow> time \<Rightarrow> time \<Rightarrow> jobj \<Rightarrow> task res" where
  "task_from_dict E created_now updated_now o' =
     bindE (py_iter (jget_d o' ''subtasks'' (JArr []))) (\<lambda>raw. bindE (mapE subtask_from_dict raw) (\<lambda>subtasks.
     bindE (bindE (require_key o' ''task_id'') dec_str) (\<lambda>i. bindE (bindE (require_key o' ''goal'') dec_str) (\<lambda>goal.
     bindE (bindE (require_key o' ''project_root'') dec_str) (\<lambda>base.
     bindE (dec_str (jget_d o' ''agent'' (JStr ''demo''))) (\<lambda>agent.
     bindE (dec_obj (jget_d o' ''contract'' (JObj []))) (\<lambda>contract. bindE (dec_obj (jget_d o' ''metadata'' (JObj []))) (\<lambda>metadata.
     bindE (dec_opt (jget o' ''finding_state'')) (\<lambda>finding_state.
     bindE (only_objects (jget_d o' ''findings'' (JArr []))) (\<lambda>findings. bindE (only_objects (jget_d o' ''finding_history'' (JArr []))) (\<lambda>history.
     bindE (py_float E (jget_d o' ''created_at'' (JFloat created_now))) (\<lambda>created. bindE (py_float E (jget_d o' ''updated_at'' (JFloat updated_now))) (\<lambda>updated.
     migrate_legacy_app_grade_agents E \<lparr>tsk_id = i, tsk_goal = goal, tsk_root = base,
       tsk_status = status_alias (py_str E (jor (jget_d o' ''status'' (JStr ''pending'')) (JStr ''pending''))), tsk_agent = agent,
       tsk_subtasks = subtasks, tsk_contract = contract, tsk_metadata = metadata, tsk_finding_state = finding_state,
       tsk_findings = findings, tsk_history = history, tsk_created = created, tsk_updated = updated\<rparr>)))))))))))))"

end
