(* ===== verification/TaskQuality.thy ===== *)
theory TaskQuality
  imports TaskModel
begin

text \<open>
  The quality of a task from what its agents left on disk (\<open>evidence.py\<close>): the records of its
  required artifacts, the gates of a reference delivery, claims about remote Workers that no evidence
  backs, and the report. What the code reads from disk is a parameter that does not change during a
  call. Artifact texts are Latin-1, so the Chinese alternatives of the code's patterns never match them.
\<close>

section \<open>Files\<close>

datatype text_read = FileText string | NotUtf8 | Unreadable py_exc

record project_files =
  pf_exists :: "pypath \<Rightarrow> bool"
  pf_is_file :: "pypath \<Rightarrow> bool"
  pf_bytes :: "pypath \<Rightarrow> bytes res"
  pf_size :: "pypath \<Rightarrow> nat res"
  pf_text :: "pypath \<Rightarrow> text_read"
  pf_tree :: "pypath \<Rightarrow> (string \<times> bool) list"
  pf_node :: "pypath \<Rightarrow> string \<Rightarrow> bool res"

text \<open>\<open>p / s\<close>: an absolute \<open>s\<close> replaces \<open>p\<close>.\<close>

definition path_join :: "pypath \<Rightarrow> string \<Rightarrow> pypath" where
  "path_join p s = (let q = py_path s in if is_absolute q then q else p\<lparr>pp_parts := pp_parts p @ pp_parts q\<rparr>)"

definition path_parent :: "pypath \<Rightarrow> pypath" where
  "path_parent p = p\<lparr>pp_parts := butlast (pp_parts p)\<rparr>"

text \<open>\<open>p / v\<close> for a decoded value: only texts are path segments.\<close>

definition path_text :: "json \<Rightarrow> string res" where
  "path_text v = (case v of JStr s \<Rightarrow> Inr s | _ \<Rightarrow> Inl (TypeError ''expected str, bytes or os.PathLike object''))"

definition read_text :: "project_files \<Rightarrow> pypath \<Rightarrow> string res" where
  "read_text P p = (case pf_text P p of FileText s \<Rightarrow> Inr s | NotUtf8 \<Rightarrow> Inl (ValueError ''utf-8 codec can't decode'') | Unreadable e \<Rightarrow> Inl e)"

text \<open>\<open>v or {}\<close> where the code goes on with \<open>.get\<close>.\<close>

definition dict_or_empty :: "json \<Rightarrow> jobj res" where
  "dict_or_empty v = (case v of JObj o' \<Rightarrow> Inr o' | _ \<Rightarrow> if truthy v then Inl (AttributeError ''object has no attribute get'') else Inr [])"

section \<open>Records of artifacts\<close>

definition baseline_fresh :: "pyenv \<Rightarrow> jobj \<Rightarrow> string \<Rightarrow> nat \<Rightarrow> bool res" where
  "baseline_fresh E baseline digest n = (if py_str E (jor (jget baseline ''sha256'') (JStr [])) \<noteq> digest then Inr True
     else bindE (py_int (jor (jget baseline ''size'') (JInt (- 1)))) (\<lambda>i. Inr (i \<noteq> int n)))"

definition artifact_record :: "pyenv \<Rightarrow> file_system \<Rightarrow> project_files \<Rightarrow> string \<Rightarrow> json \<Rightarrow> json \<Rightarrow> jobj res" where
  "artifact_record E F P project_root path baseline =
     bindE (fs_resolve F (py_path project_root)) (\<lambda>base.
     bindE (path_text path) (\<lambda>rel. bindE (fs_resolve F (path_join base rel)) (\<lambda>target.
     if \<not> py_startswith (path_str target) (path_str base)
     then Inr [(''path'', path), (''present'', JBool False), (''error'', JStr ''outside_project'')]
     else if \<not> (pf_exists P target \<and> pf_is_file P target) then Inr [(''path'', path), (''present'', JBool False)]
     else bindE (pf_bytes P target) (\<lambda>data. let digest = hexdigest (sha256 data);
       rec = [(''path'', path), (''present'', JBool True), (''size'', JInt (int (length data))), (''sha256'', JStr digest)] in
     if \<not> truthy baseline then Inr rec
     else bindE (dict_or_empty baseline) (\<lambda>b. bindE (baseline_fresh E b digest (length data)) (\<lambda>fresh.
       Inr (rec @ [(''fresh'', JBool fresh)])))))))"

definition managed_root_valid :: "task \<Rightarrow> pypath \<Rightarrow> bool" where
  "managed_root_valid t base \<longleftrightarrow> PyPath.path_name base = tsk_id t \<and> PyPath.path_name (path_parent base) = ''artifacts''"

definition relative_parts :: "string \<Rightarrow> string list" where
  "relative_parts s = posix_parts (dropWhile (\<lambda>c. c = CHR ''/'') (py_replace_char (CHR 0x5C) (CHR ''/'') s))"

definition managed_record :: "pyenv \<Rightarrow> file_system \<Rightarrow> project_files \<Rightarrow> task \<Rightarrow> pypath option \<Rightarrow> json \<Rightarrow> json \<Rightarrow> jobj res" where
  "managed_record E F P t base managed path =
     bindE (dict_or_empty managed) (\<lambda>m. bindE (case path of JStr s \<Rightarrow> py_dict (jor (jget m s) (JObj [])) | _ \<Rightarrow> Inr []) (\<lambda>item.
     let parts = relative_parts (py_str E path) in
     case base of
       None \<Rightarrow> Inr [(''path'', path), (''present'', JBool False), (''fresh'', JBool False), (''error'', JStr ''invalid_managed_path'')]
     | Some b \<Rightarrow>
        if \<not> managed_root_valid t b \<or> parts = [] \<or> ''..'' \<in> set parts
        then Inr [(''path'', path), (''present'', JBool False), (''fresh'', JBool False), (''error'', JStr ''invalid_managed_path'')]
        else bindE (fs_resolve F (b\<lparr>pp_parts := pp_parts b @ parts\<rparr>)) (\<lambda>target.
          if \<not> in_parents b target \<or> \<not> pf_is_file P target
          then Inr [(''path'', path), (''present'', JBool False), (''fresh'', JBool False)]
          else bindE (pf_bytes P target) (\<lambda>data. let digest = hexdigest (sha256 data);
            valid = (py_str E (jor (jget item ''storage_path'') (JStr [])) = path_str target
              \<and> digest = py_str E (jor (jget item ''sha256'') (JStr []))) in
          Inr [(''path'', path), (''storage_path'', JStr (path_str target)), (''present'', JBool valid), (''fresh'', JBool True),
            (''size'', JInt (int (length data))), (''sha256'', JStr digest), (''source'', JStr ''managed_read_only'')]))))"

definition required_artifacts :: "task \<Rightarrow> json list res" where
  "required_artifacts t = py_iter (jget_d (tsk_contract t) ''requiredArtifacts'' (JArr []))"

definition baseline_of :: "json \<Rightarrow> json \<Rightarrow> json res" where
  "baseline_of baselines path = bindE (dict_or_empty baselines) (\<lambda>b. Inr (case path of JStr s \<Rightarrow> jget b s | _ \<Rightarrow> JNull))"

definition task_artifact_records :: "pyenv \<Rightarrow> file_system \<Rightarrow> project_files \<Rightarrow> task \<Rightarrow> jobj list res" where
  "task_artifact_records E F P t = bindE (required_artifacts t) (\<lambda>required.
     if jget (tsk_metadata t) ''artifact_delivery_mode'' \<noteq> JStr ''managed_read_only'' then
       mapE (\<lambda>path. bindE (baseline_of (jget (tsk_metadata t) ''artifact_baseline'') path) (artifact_record E F P (tsk_root t) path)) required
     else let root_value = py_str E (jor (jget (tsk_metadata t) ''managed_artifact_root'') (JStr [])) in
       bindE (if root_value = [] then Inr None else bindE (fs_resolve F (py_path root_value)) (\<lambda>p. Inr (Some p))) (\<lambda>base.
       mapE (managed_record E F P t base (jget (tsk_metadata t) ''managed_artifacts'')) required))"

section \<open>Claims in artifacts\<close>

text \<open>The places of a text, each with the character before it.\<close>

fun places :: "char option \<Rightarrow> string \<Rightarrow> (char option \<times> string) list" where
  "places p [] = [(p, [])]"
| "places p (c # cs) = (p, c # cs) # places (Some c) cs"

text \<open>\<open>\w\<close> on Latin-1 characters.\<close>

definition is_word :: "char \<Rightarrow> bool" where
  "is_word c \<longleftrightarrow> is_alnum_ascii c \<or> c = CHR ''_'' \<or> code_pt c \<in> {170, 178, 179, 181, 185, 186, 188, 189, 190}
     \<or> 192 \<le> code_pt c \<and> code_pt c \<noteq> 215 \<and> code_pt c \<noteq> 247"

definition word_before :: "char option \<Rightarrow> bool" where
  "word_before p = (case p of None \<Rightarrow> False | Some c \<Rightarrow> is_word c)"

definition word_after :: "string \<Rightarrow> bool" where
  "word_after s = (case s of [] \<Rightarrow> False | c # cs \<Rightarrow> is_word c)"

text \<open>A whole word of a list at a place: the places after it.\<close>

definition whole_words :: "string list \<Rightarrow> char option \<times> string \<Rightarrow> (char option \<times> string) list" where
  "whole_words ws = (\<lambda>(p, s). [(Some (last w), drop (length w) s).
     w \<leftarrow> ws, \<not> word_before p, py_startswith s w, \<not> word_after (drop (length w) s)])"

text \<open>\<open>\bremote\s+worker\b\<close>\<close>

definition remote_worker_at :: "char option \<times> string \<Rightarrow> (char option \<times> string) list" where
  "remote_worker_at = (\<lambda>(p, s). let rest = drop 6 s; after = dropWhile is_space rest in
     if \<not> word_before p \<and> py_startswith s ''remote'' \<and> after \<noteq> rest then whole_words [''worker''] (Some (CHR '' ''), after) else [])"

text \<open>\<open>.{0,n}\<close>\<close>

definition gap :: "nat \<Rightarrow> char option \<times> string \<Rightarrow> (char option \<times> string) list" where
  "gap n = (\<lambda>(p, s). take (Suc n) (places p s))"

definition positive_remote :: "string \<Rightarrow> bool" where
  "positive_remote line = (let ps = places None (py_lower line) in
     list_ex (\<lambda>x. remote_worker_at x \<noteq> [])
       (concat (map (gap 40) (concat (map (whole_words [''used'', ''ran'', ''executed'', ''dispatched'', ''delegated'', ''through'', ''via'']) ps))))
     \<or> list_ex (\<lambda>x. whole_words [''completed'', ''executed'', ''returned'', ''produced''] x \<noteq> [])
       (concat (map (gap 30) (concat (map remote_worker_at ps)))))"

definition negative_remote :: "string \<Rightarrow> bool" where
  "negative_remote line = list_ex (\<lambda>x. py_startswith (snd x) ''worker'')
     (concat (map (\<lambda>x. gap 12 (None, drop 6 (snd x))) (filter (\<lambda>x. py_startswith (snd x) ''remote'')
       (concat (map (\<lambda>(p, s). concat (map (\<lambda>w. if py_startswith s w then gap 18 (None, drop (length w) s) else []) [''no'', ''not'', ''without'']))
          (places None (py_lower line)))))))"

text \<open>\<open>str.splitlines()\<close>\<close>

definition line_end :: "char \<Rightarrow> bool" where
  "line_end c \<longleftrightarrow> code_pt c \<in> {10, 11, 12, 13, 28, 29, 30, 133}"

fun lines_from :: "string \<Rightarrow> string \<Rightarrow> string list" where
  "lines_from w [] = (if w = [] then [] else [w])"
| "lines_from w (c # cs) = (if code_pt c = 13 \<and> cs \<noteq> [] \<and> code_pt (hd cs) = 10 then lines_from w cs
     else if line_end c then w # lines_from [] cs else lines_from (w @ [c]) cs)"

definition py_splitlines :: "string \<Rightarrow> string list" where
  "py_splitlines s = lines_from [] s"

definition artifact_text :: "pyenv \<Rightarrow> file_system \<Rightarrow> project_files \<Rightarrow> task \<Rightarrow> jobj \<Rightarrow> string res" where
  "artifact_text E F P t artifact =
     bindE (if truthy (jget artifact ''storage_path'')
       then bindE (fs_resolve F (py_path (py_str E (jget artifact ''storage_path'')))) (\<lambda>p. Inr (Some p))
       else bindE (fs_resolve F (py_path (tsk_root t))) (\<lambda>base.
         bindE (fs_resolve F (path_join base (py_str E (jor (jget artifact ''path'') (JStr []))))) (\<lambda>target.
         Inr (if inside target base then Some target else None)))) (\<lambda>where_to.
     Inr (case where_to of None \<Rightarrow> []
       | Some target \<Rightarrow> if \<not> pf_is_file P target then []
           else (case pf_size P target of Inl _ \<Rightarrow> []
             | Inr n \<Rightarrow> if n > 2 * 1024 * 1024 then [] else (case pf_text P target of FileText s \<Rightarrow> s | _ \<Rightarrow> []))))"

definition routed_to_worker :: "pyenv \<Rightarrow> task \<Rightarrow> bool res" where
  "routed_to_worker E t = bindE (dict_or_empty (jget (tsk_metadata t) ''host_metadata'')) (\<lambda>host.
     bindE (dict_or_empty (jget host ''execution_contract'')) (\<lambda>contract.
     Inr (py_lower (py_str E (jor (jget contract ''route'') (JStr ''local''))) = ''worker'')))"

definition unsupported_execution_claims :: "pyenv \<Rightarrow> file_system \<Rightarrow> project_files \<Rightarrow> task \<Rightarrow> jobj list \<Rightarrow> string list res" where
  "unsupported_execution_claims E F P t artifacts = bindE (routed_to_worker E t) (\<lambda>remote. if remote then Inr []
     else bindE (mapE (\<lambda>a. bindE (artifact_text E F P t a) (\<lambda>s.
         Inr (if list_ex (\<lambda>line. positive_remote line \<and> \<not> negative_remote line) (py_splitlines s)
              then [''unsupported_remote_worker_claim:'' @ py_str E (jget a ''path'')] else []))) artifacts) (\<lambda>cs.
       Inr (sort (remdups (concat cs)))))"

definition blocked_phrases :: "string list" where
  "blocked_phrases = [''not safe to execute'', ''not safe to proceed'', ''cannot safely execute'', ''cannot safely proceed'']"

fun any_blocked :: "pyenv \<Rightarrow> file_system \<Rightarrow> project_files \<Rightarrow> task \<Rightarrow> jobj list \<Rightarrow> bool res" where
  "any_blocked E F P t [] = Inr False"
| "any_blocked E F P t (a # as) = bindE (artifact_text E F P t a) (\<lambda>s.
     if list_ex (py_contains (py_lower s)) blocked_phrases then Inr True else any_blocked E F P t as)"

definition analysis_outcome :: "pyenv \<Rightarrow> file_system \<Rightarrow> project_files \<Rightarrow> task \<Rightarrow> jobj list \<Rightarrow> string res" where
  "analysis_outcome E F P t artifacts = bindE (any_blocked E F P t artifacts) (\<lambda>b.
     Inr (if b then ''decision_required'' else ''delivered''))"

section \<open>Gates of a reference delivery\<close>

text \<open>Of two subtasks with one id the last counts.\<close>

definition subtask_by_id :: "task \<Rightarrow> string \<Rightarrow> subtask option" where
  "subtask_by_id t i = List.find (\<lambda>st. sb_id st = i) (List.rev (tsk_subtasks t))"

definition first_wave :: "task \<Rightarrow> int" where
  "first_wave t = Min (set (map sb_wave (tsk_subtasks t)))"

definition serial_wave_dependencies_pass :: "task \<Rightarrow> bool" where
  "serial_wave_dependencies_pass t \<longleftrightarrow> \<not> truthy (jget (tsk_contract t) ''serialPlan'') \<or> tsk_subtasks t = [] \<or>
     list_all (\<lambda>st. sb_wave st = first_wave t \<or> sb_deps st \<noteq> [] \<and>
       list_all (\<lambda>d. case subtask_by_id t d of None \<Rightarrow> False | Some dep \<Rightarrow> sb_wave dep < sb_wave st) (sb_deps st)) (tsk_subtasks t)"

definition templated_paths :: "string list" where
  "templated_paths = [''api/server.mjs'', ''cli/verify.mjs'', ''tests/e2e-serial.mjs'', ''web/index.html'', ''web/styles.css'', ''web/app.js'']"

definition content_ok :: "string \<Rightarrow> string \<Rightarrow> bool" where
  "content_ok path body \<longleftrightarrow> py_strip body \<noteq> [] \<and> \<not> py_contains body ''Generated by Across Orchestrator demo adapter'' \<and>
     (py_contains (py_lower body) ''across orchestrator reference delivery'' \<or> py_contains (py_lower body) ''reference delivery''
      \<or> py_contains (py_lower body) ''across-reference-delivery'' \<or> path \<in> set templated_paths)"

text \<open>Every readable text passes; a file that is not text is passed over.\<close>

fun all_texts :: "project_files \<Rightarrow> (string \<Rightarrow> pypath res) \<Rightarrow> (string \<Rightarrow> string \<Rightarrow> bool) \<Rightarrow> string list \<Rightarrow> bool res" where
  "all_texts P locate ok [] = Inr True"
| "all_texts P locate ok (path # rest) = bindE (locate path) (\<lambda>target. case pf_text P target of
      NotUtf8 \<Rightarrow> all_texts P locate ok rest
    | Unreadable e \<Rightarrow> Inl e
    | FileText s \<Rightarrow> if ok path s then all_texts P locate ok rest else Inr False)"

definition content_quality_pass :: "file_system \<Rightarrow> project_files \<Rightarrow> pypath \<Rightarrow> string list \<Rightarrow> bool res" where
  "content_quality_pass F P base paths = all_texts P (\<lambda>path. fs_resolve F (path_join base path)) content_ok paths"

definition forbidden_dirs :: "string list" where
  "forbidden_dirs = [''node_modules'', ''.git'', ''__pycache__'', ''.pytest_cache'']"

definition workspace_hygiene_pass :: "project_files \<Rightarrow> pypath \<Rightarrow> string list \<Rightarrow> bool" where
  "workspace_hygiene_pass P base expected \<longleftrightarrow> list_all (\<lambda>(rel, is_file).
     \<not> list_ex (\<lambda>part. part \<in> set forbidden_dirs) (py_split (CHR ''/'') rel) \<and> (is_file \<longrightarrow> rel \<in> set expected)) (pf_tree P base)"

text \<open>\<open>sk-[A-Za-z0-9]{16,}\<close>, \<open>AKIA[0-9A-Z]{16}\<close> and the head of a private key.\<close>

definition secret_here :: "string \<Rightarrow> bool" where
  "secret_here s \<longleftrightarrow> py_startswith s ''sk-'' \<and> 16 \<le> length (takeWhile is_alnum_ascii (drop 3 s))
     \<or> py_startswith s ''AKIA'' \<and> 16 \<le> length (takeWhile (\<lambda>c. is_digit c \<or> is_upper_ascii c) (drop 4 s))
     \<or> py_startswith s ''-----BEGIN '' \<and> (let rest = drop 11 s; k = length (takeWhile (\<lambda>c. is_upper_ascii c \<or> c = CHR '' '') rest) in
         list_ex (\<lambda>x. py_startswith (snd x) ''PRIVATE KEY-----'') (take (Suc k) (places None rest)))"

definition privacy_ok :: "string \<Rightarrow> string \<Rightarrow> bool" where
  "privacy_ok path body \<longleftrightarrow> \<not> list_ex (\<lambda>x. secret_here (snd x)) (places None body)
     \<and> (py_contains (py_lower body) ''http://'' \<longrightarrow> py_contains body ''127.0.0.1'' \<or> py_contains body ''localhost'')
     \<and> (py_contains body ''https://'' \<longrightarrow> py_contains body ''nodejs.org'')"

definition security_privacy_pass :: "project_files \<Rightarrow> pypath \<Rightarrow> string list \<Rightarrow> bool res" where
  "security_privacy_pass P base paths = all_texts P (\<lambda>path. Inr (path_join base path)) privacy_ok paths"

definition static_web_smoke_pass :: "project_files \<Rightarrow> pypath \<Rightarrow> string list \<Rightarrow> bool res" where
  "static_web_smoke_pass P base paths = (if ''web/index.html'' \<notin> set paths then Inr True
     else bindE (read_text P (path_join base ''web/index.html'')) (\<lambda>html.
       if \<not> (py_contains html ''./styles.css'' \<and> py_contains html ''./app.js'') then Inr False
       else if py_contains html ''https://'' \<or> py_contains html ''http://'' then Inr False
       else bindE (if ''web/styles.css'' \<in> set paths
           then bindE (read_text P (path_join base ''web/styles.css'')) (\<lambda>css. Inr (py_strip css \<noteq> [])) else Inr True) (\<lambda>styled.
         if \<not> styled then Inr False
         else if ''web/app.js'' \<in> set paths
           then bindE (read_text P (path_join base ''web/app.js'')) (\<lambda>js. Inr (py_contains js ''localStorage'')) else Inr True)))"

definition api_service_pass :: "project_files \<Rightarrow> pypath \<Rightarrow> string list \<Rightarrow> bool res" where
  "api_service_pass P base paths = (if ''api/server.mjs'' \<notin> set paths then Inr True
     else bindE (read_text P (path_join base ''api/server.mjs'')) (\<lambda>source.
       Inr (list_all (py_contains source) [''createServer'', ''/health'', ''/api/pipeline'', ''/api/gates''])))"

definition node_script_pass :: "project_files \<Rightarrow> pypath \<Rightarrow> string list \<Rightarrow> string \<Rightarrow> bool res" where
  "node_script_pass P base paths rel = (if rel \<in> set paths then pf_node P base rel else Inr True)"

definition is_present :: "jobj \<Rightarrow> bool" where
  "is_present artifact = truthy (jget artifact ''present'')"

definition reference_delivery_gates :: "pyenv \<Rightarrow> file_system \<Rightarrow> project_files \<Rightarrow> task \<Rightarrow> jobj list \<Rightarrow> (string \<times> bool) list res" where
  "reference_delivery_gates E F P t artifacts = bindE (fs_resolve F (py_path (tsk_root t))) (\<lambda>base.
     let paths = map (\<lambda>a. py_str E (jor (jget a ''path'') (JStr []))) (filter is_present artifacts) in
     bindE (content_quality_pass F P base paths) (\<lambda>content.
     bindE (security_privacy_pass P base paths) (\<lambda>privacy.
     bindE (static_web_smoke_pass P base paths) (\<lambda>web.
     bindE (api_service_pass P base paths) (\<lambda>api.
     bindE (node_script_pass P base paths ''cli/verify.mjs'') (\<lambda>cli.
     bindE (node_script_pass P base paths ''tests/e2e-serial.mjs'') (\<lambda>e2e.
     Inr [(''serial_wave_dependencies'', serial_wave_dependencies_pass t), (''content_quality'', content),
       (''workspace_hygiene'', workspace_hygiene_pass P base paths), (''security_privacy'', privacy),
       (''agent_mix'', tsk_subtasks t \<noteq> []), (''static_web_smoke'', web), (''api_service'', api), (''cli_generic'', cli),
       (''browser_e2e'', e2e)])))))))"

section \<open>The report\<close>

definition is_stale :: "jobj \<Rightarrow> bool" where
  "is_stale artifact \<longleftrightarrow> is_present artifact \<and> jget artifact ''fresh'' = JBool False"

definition is_delivered :: "jobj \<Rightarrow> bool" where
  "is_delivered artifact \<longleftrightarrow> is_present artifact \<and> jget artifact ''fresh'' \<noteq> JBool False"

definition app_grade_quality :: "pyenv \<Rightarrow> json \<Rightarrow> jobj res" where
  "app_grade_quality E raw = bindE (py_dict raw) (\<lambda>report.
     Inr (enrich_with_finding_state E (jsetdefault report ''status'' (jget_d report ''quality_gate'' (JStr ''unknown'')))
       ''app_grade_quality'' ''app_grade'' (Some ''App-grade quality report.'')))"

definition reference_quality :: "pyenv \<Rightarrow> json list \<Rightarrow> jobj list \<Rightarrow> (string \<times> bool) list \<Rightarrow> jobj res" where
  "reference_quality E required artifacts gates0 = (let
     missing = map (\<lambda>a. jget a ''path'') (filter (\<lambda>a. \<not> is_present a) artifacts);
     stale = map (\<lambda>a. jget a ''path'') (filter is_stale artifacts);
     present = filter is_delivered artifacts;
     gates = gates0 @ [(''required_artifacts_present'', missing = [] \<and> stale = []), (''no_artifacts_outside_project'', True),
       (''artifact_integrity'', missing = [])];
     failed = map fst (filter (\<lambda>g. \<not> snd g) gates) in
     bindE (mapE path_text (map (\<lambda>a. jget a ''path'') present)) (\<lambda>produced.
     Inr (enrich_with_finding_state E [
       (''status'', JStr (if failed = [] then ''passed'' else ''failed'')),
       (''required_artifacts'', JInt (int (length required))), (''present_artifacts'', JInt (int (length present))),
       (''missing_artifacts'', JArr missing), (''gates'', JObj (map (\<lambda>g. (fst g, JBool (snd g))) gates)), (''failures'', jstrs failed),
       (''produced_files'', jstrs (sort produced)), (''required_files'', JArr required)]
       ''reference_delivery_quality'' ''reference_delivery'' (Some ''Reference delivery quality gate.''))))"

definition structural_failures :: "pyenv \<Rightarrow> jobj list \<Rightarrow> string list \<Rightarrow> string list" where
  "structural_failures E artifacts claims =
     map (\<lambda>a. ''missing_artifact:'' @ py_str E (jget a ''path'')) (filter (\<lambda>a. \<not> is_present a) artifacts)
     @ map (\<lambda>a. ''stale_artifact:'' @ py_str E (jget a ''path'')) (filter is_stale artifacts) @ claims"

definition structurally_passed :: "pyenv \<Rightarrow> json list \<Rightarrow> jobj list \<Rightarrow> string list \<Rightarrow> bool" where
  "structurally_passed E required artifacts claims \<longleftrightarrow>
     structural_failures E artifacts claims = [] \<and> length (filter is_delivered artifacts) = length required"

definition structural_finding :: "bool \<Rightarrow> bool \<Rightarrow> json list \<Rightarrow> json list \<Rightarrow> json list \<Rightarrow> string list \<Rightarrow> json" where
  "structural_finding ok review required missing stale claims = JObj [
     (''id'', JStr ''task_artifact_quality''), (''state'', JStr (if ok then ''pass'' else ''failed'')),
     (''severity'', JStr (if ok then ''info'' else ''error'')),
     (''summary'', JStr (if ok \<and> review then ''Structural delivery checks passed; semantic acceptance remains human-reviewed.''
        else if ok then ''Required artifact quality gate passed.''
        else ''Required artifacts are missing, stale, or contain unsupported execution claims.'')),
     (''source_gate'', JStr ''required_artifacts''),
     (''evidence'', JObj [(''missing_artifacts'', JArr missing), (''stale_artifacts'', JArr stale),
        (''unsupported_execution_claims'', jstrs claims), (''required_artifacts'', JArr required)]),
     (''suggested_action'', if ok then JNull
        else JStr ''Produce fresh artifacts and remove claims that are not backed by durable execution evidence.'')]"

definition structural_report :: "pyenv \<Rightarrow> json list \<Rightarrow> jobj list \<Rightarrow> string list \<Rightarrow> bool \<Rightarrow> string \<Rightarrow> jobj" where
  "structural_report E required artifacts claims review outcome = (let
     missing = map (\<lambda>a. jget a ''path'') (filter (\<lambda>a. \<not> is_present a) artifacts);
     stale = map (\<lambda>a. jget a ''path'') (filter is_stale artifacts);
     hard = structural_failures E artifacts claims;
     ok = structurally_passed E required artifacts claims;
     verdict = JStr (if ok then ''passed'' else ''failed'');
     score = JInt (if \<not> ok then 0 else if review then 70 else 100) in
     [(''status'', verdict), (''quality_score'', score),
      (''verification_scope'', JStr (if review then ''structural_plus_human_semantic_review'' else ''structural'')),
      (''analysis_outcome'', JStr outcome), (''required_artifacts'', JInt (int (length required))),
      (''present_artifacts'', JInt (int (length (filter is_delivered artifacts)))), (''missing_artifacts'', JArr missing),
      (''stale_artifacts'', JArr stale), (''failures'', jstrs hard),
      (''gates'', JObj [(''required_artifacts_present'', JBool (missing = [] \<and> stale = [])), (''required_artifacts_fresh'', JBool (stale = [])),
         (''no_artifacts_outside_project'', JBool True), (''execution_claims_bound_to_evidence'', JBool (claims = [])),
         (''semantic_review_recorded'', JBool review)]),
      (''quality_report'', JObj [(''quality_gate'', verdict), (''can_complete'', JBool ok), (''generated_quality_score'', score),
         (''final_quality_score'', score), (''required_failed_count'', JInt (int (length hard))),
         (''manual_required_count'', JInt (if review \<and> ok then 1 else 0)), (''skipped_required_count'', JInt 0),
         (''checks'', JObj [(''artifact_integrity'', JBool (missing = [] \<and> stale = [])),
            (''execution_claims_bound_to_evidence'', JBool (claims = []))])]),
      (''findings'', JArr [structural_finding ok review required missing stale claims])])"

definition build_quality :: "pyenv \<Rightarrow> file_system \<Rightarrow> project_files \<Rightarrow> task \<Rightarrow> jobj res" where
  "build_quality E F P t = bindE (dict_or_empty (jget (tsk_metadata t) ''app_grade'')) (\<lambda>app_grade.
     if truthy (jget app_grade ''quality_report'') then app_grade_quality E (jget app_grade ''quality_report'')
     else bindE (required_artifacts t) (\<lambda>required. bindE (task_artifact_records E F P t) (\<lambda>artifacts.
       if jget (tsk_metadata t) ''execution_mode'' = JStr ''reference_delivery''
       then bindE (reference_delivery_gates E F P t artifacts) (reference_quality E required artifacts)
       else bindE (unsupported_execution_claims E F P t artifacts) (\<lambda>claims.
         bindE (dict_or_empty (jget (tsk_metadata t) ''host_metadata'')) (\<lambda>host.
         bindE (analysis_outcome E F P t artifacts) (\<lambda>outcome.
         Inr (enrich_with_finding_state E
           (structural_report E required artifacts claims (truthy (jget host ''semantic_review_required'')) outcome)
           ''task_artifact_quality'' ''required_artifacts'' (Some ''Required artifact quality gate.''))))))))"

end
