(* ===== verification/EvidenceReceipt.thy ===== *)
theory EvidenceReceipt
  imports TaskQuality EvidenceBinding SandboxProps
begin

text \<open>
  Evidence receipts and the evidence bundle of a task (\<open>evidence.py\<close>): the commit of a workspace read
  from its git metadata, values freed of secrets, the verdict, and the bundle that carries one receipt per
  sandboxed execution.
\<close>

section \<open>The commit of a workspace\<close>

definition is_commit :: "string \<Rightarrow> bool" where
  "is_commit s \<longleftrightarrow> 40 \<le> length s \<and> length s \<le> 64 \<and> list_all (\<lambda>c. is_hex_lower (lower_char c)) s"

text \<open>Reading inside the \<open>try\<close>: \<open>None\<close> is an error the code swallows.\<close>

definition readable :: "project_files \<Rightarrow> pypath \<Rightarrow> string option" where
  "readable P p = (case pf_text P p of FileText s \<Rightarrow> Some s | _ \<Rightarrow> None)"

definition is_os_error :: "py_exc \<Rightarrow> bool" where
  "is_os_error e = (case e of OSError m \<Rightarrow> True | FileNotFoundError m \<Rightarrow> True | PermissionError m \<Rightarrow> True | _ \<Rightarrow> False)"

text \<open>\<open>line.partition(' ')\<close>\<close>

definition packed_commit :: "string \<Rightarrow> string \<Rightarrow> string option" where
  "packed_commit ref_name line = (let commit = takeWhile (\<lambda>c. c \<noteq> CHR '' '') line; rest = drop (length commit) line in
     if line \<noteq> [] \<and> \<not> py_startswith line ''#'' \<and> \<not> py_startswith line ''^'' \<and> rest \<noteq> [] \<and> tl rest = ref_name \<and> is_commit commit
     then Some (py_lower commit) else None)"

text \<open>A reference below one directory: the commit if found; the outer \<open>None\<close> is a swallowed error.\<close>

definition ref_commit :: "project_files \<Rightarrow> string \<Rightarrow> pypath \<Rightarrow> string option option" where
  "ref_commit P ref_name base = (let ref_path = path_join base ref_name; packed = path_join base ''packed-refs'';
     loose = (if pf_is_file P ref_path
       then map_option (\<lambda>s. let commit = py_strip s in if is_commit commit then Some (py_lower commit) else None) (readable P ref_path)
       else Some None) in
     case loose of None \<Rightarrow> None
     | Some (Some c) \<Rightarrow> Some (Some c)
     | Some None \<Rightarrow> if pf_is_file P packed
         then map_option (\<lambda>s. first_some (map (packed_commit ref_name) (py_splitlines s))) (readable P packed)
         else Some None)"

definition git_dir_of :: "file_system \<Rightarrow> project_files \<Rightarrow> pypath \<Rightarrow> pypath option res" where
  "git_dir_of F P marker = (if fs_is_dir F marker then Inr (Some marker)
     else (case readable P marker of None \<Rightarrow> Inr None
       | Some raw \<Rightarrow> let declaration = py_strip raw in
           if \<not> py_startswith declaration ''gitdir:'' then Inr None
           else let v = py_strip (drop 7 declaration) in
             (case fs_resolve F (if is_absolute (py_path v) then py_path v else path_join (path_parent marker) v) of
                Inr p \<Rightarrow> Inr (Some p) | Inl e \<Rightarrow> if is_os_error e then Inr None else Inl e)))"

definition common_dir_of :: "file_system \<Rightarrow> project_files \<Rightarrow> pypath \<Rightarrow> pypath option res" where
  "common_dir_of F P git_dir = (let marker = path_join git_dir ''commondir'' in
     if \<not> pf_is_file P marker then Inr (Some git_dir)
     else (case readable P marker of None \<Rightarrow> Inr None
       | Some raw \<Rightarrow> (case fs_resolve F (path_join git_dir (py_strip raw)) of
            Inr p \<Rightarrow> Inr (Some p) | Inl e \<Rightarrow> if is_os_error e then Inr None else Inl e)))"

definition head_commit :: "file_system \<Rightarrow> project_files \<Rightarrow> pypath \<Rightarrow> string res" where
  "head_commit F P git_dir = (case readable P (path_join git_dir ''HEAD'') of None \<Rightarrow> Inr []
     | Some raw \<Rightarrow> let head = py_strip raw in
        if is_commit head then Inr (py_lower head)
        else if \<not> py_startswith head ''ref:'' then Inr []
        else let ref_name = py_strip (drop 4 head) in
          bindE (common_dir_of F P git_dir) (\<lambda>common. Inr (case common of None \<Rightarrow> []
            | Some c \<Rightarrow> (case ref_commit P ref_name git_dir of None \<Rightarrow> []
               | Some (Some sha) \<Rightarrow> sha
               | Some None \<Rightarrow> (case ref_commit P ref_name c of Some (Some sha) \<Rightarrow> sha | _ \<Rightarrow> [])))))"

definition git_commit_sha :: "file_system \<Rightarrow> project_files \<Rightarrow> pypath \<Rightarrow> string res" where
  "git_commit_sha F P workspace_root = bindE (fs_resolve F workspace_root) (\<lambda>base. let marker = path_join base ''.git'' in
     if \<not> pf_exists P marker then Inr []
     else bindE (git_dir_of F P marker) (\<lambda>found. case found of None \<Rightarrow> Inr [] | Some git_dir \<Rightarrow> head_commit F P git_dir))"

section \<open>Values without secrets\<close>

fun jdepth :: "json \<Rightarrow> nat" where
  "jdepth (JArr xs) = Suc (foldr max (map jdepth xs) 0)"
| "jdepth (JObj o') = Suc (foldr max (map (\<lambda>p. jdepth (snd p)) o') 0)"
| "jdepth _ = 0"

lemma foldr_max_le: "foldr max ns 0 \<le> (m::nat) \<longleftrightarrow> (\<forall>n\<in>set ns. n \<le> m)"
  by (induction ns) auto

lemma jdepth_item: "x \<in> set xs \<Longrightarrow> jdepth x < jdepth (JArr xs)"
  using foldr_max_le [of "map jdepth xs" "foldr max (map jdepth xs) 0"] by (auto simp: less_Suc_eq_le)

lemma jdepth_field: "p \<in> set o' \<Longrightarrow> jdepth (snd p) < jdepth (JObj o')"
  using foldr_max_le [of "map (\<lambda>p. jdepth (snd p)) o'" "foldr max (map (\<lambda>p. jdepth (snd p)) o') 0"] by (auto simp: less_Suc_eq_le)

lemma jdepth_redact: "jdepth (redact_sensitive_value v) \<le> jdepth v"
proof (induction v rule: redact_sensitive_value.induct)
  case (1 o')
  have "jdepth (snd (fst p, if is_sensitive_key (fst p) \<and> \<not> is_safe_sensitive_field_value (snd p) then JStr ''[redacted]''
      else redact_sensitive_value (snd p))) < jdepth (JObj o')" if "p \<in> set o'" for p
  proof (cases "is_sensitive_key (fst p) \<and> \<not> is_safe_sensitive_field_value (snd p)")
    case True
    then show ?thesis by simp
  next
    case False
    then have "jdepth (redact_sensitive_value (snd p)) \<le> jdepth (snd p)" using 1 that by blast
    then show ?thesis using False jdepth_field [OF that] by (simp only: if_False snd_conv le_less_trans)
  qed
  then show ?case by (auto simp: foldr_max_le less_Suc_eq_le)
next
  case (2 xs)
  then show ?case using jdepth_item [of _ xs] by (fastforce simp: foldr_max_le less_Suc_eq_le)
qed auto

lemma jdepth_redacted_field: "redact_sensitive_value v = JObj o' \<Longrightarrow> p \<in> set o' \<Longrightarrow> jdepth (snd p) < jdepth v"
  using jdepth_field [of p o'] jdepth_redact [of v] by simp

lemma jdepth_redacted_item: "redact_sensitive_value v = JArr xs \<Longrightarrow> x \<in> set xs \<Longrightarrow> jdepth x < jdepth v"
  using jdepth_item [of x xs] jdepth_redact [of v] by simp

definition hidden_keys :: "string list" where
  "hidden_keys = [''env'', ''environment'', ''headers'', ''authorization'']"

function (sequential) secret_free_value :: "json \<Rightarrow> json" where
  "secret_free_value v = (case redact_sensitive_value v of
      JObj o' \<Rightarrow> JObj (map (\<lambda>p. (fst p, secret_free_value (snd p))) (filter (\<lambda>p. py_lower (fst p) \<notin> set hidden_keys) o'))
    | JArr xs \<Rightarrow> JArr (map secret_free_value xs)
    | safe \<Rightarrow> safe)"
  by pat_completeness auto
termination
  by (relation "measure jdepth") (auto dest: jdepth_redacted_field jdepth_redacted_item)

declare secret_free_value.simps [simp del]

definition text_sha256 :: "string \<Rightarrow> string" where
  "text_sha256 s = sha256_hex s"

definition output_digest :: "jobj \<Rightarrow> string \<Rightarrow> jobj \<Rightarrow> jobj" where
  "output_digest output stream safe = (case jget output stream of JStr raw \<Rightarrow> jset safe (stream @ ''_sha256'') (JStr (text_sha256 raw)) | _ \<Rightarrow> safe)"

definition secret_free_sandbox_receipt :: "json \<Rightarrow> jobj" where
  "secret_free_sandbox_receipt v = (case secret_free_value v of
      JObj receipt \<Rightarrow> (case jget receipt ''output'' of
         JObj output \<Rightarrow> jset receipt ''output'' (JObj (output_digest output ''stderr'' (output_digest output ''stdout''
           (filter (\<lambda>p. fst p \<notin> {''stdout'', ''stderr''}) output))))
       | _ \<Rightarrow> receipt)
    | _ \<Rightarrow> [])"

definition normalize_receipt_artifact :: "pyenv \<Rightarrow> json \<Rightarrow> jobj res" where
  "normalize_receipt_artifact E v = (case v of
      JObj o' \<Rightarrow> (let content = jget o' ''content''; safe0 = jpop (obj_or_empty (secret_free_value v)) ''content'';
          safe1 = (if content \<noteq> JNull \<and> \<not> jhas safe0 ''sha256'' then jset safe0 ''sha256'' (JStr (text_sha256 (py_str E content))) else safe0);
          path = py_str E (jor (jget safe1 ''path'') (JStr [])) in
        Inr (if path \<noteq> [] \<and> is_absolute (py_path path) then jset safe1 ''path'' (JStr (PyPath.path_name (py_path path))) else safe1))
    | _ \<Rightarrow> Inl (ValueError ''each artifact must be an object''))"

definition normalize_receipt_artifacts :: "pyenv \<Rightarrow> json \<Rightarrow> jobj list res" where
  "normalize_receipt_artifacts E v = (case v of JArr xs \<Rightarrow> mapE (normalize_receipt_artifact E) xs
     | _ \<Rightarrow> Inl (ValueError ''artifacts must be an array''))"

section \<open>The verdict\<close>

definition validation_statuses :: "pyenv \<Rightarrow> json \<Rightarrow> string list" where
  "validation_statuses E validations = map (\<lambda>row. py_lower (py_str E (jor (jor (jget row ''status'') (jget row ''quality_gate'')) (JStr []))))
     (List.map_filter as_obj (case validations of JArr xs \<Rightarrow> xs | v \<Rightarrow> [v]))"

definition evidence_verdict :: "pyenv \<Rightarrow> jobj \<Rightarrow> json \<Rightarrow> string" where
  "evidence_verdict E sandbox_receipt validations =
     (if py_lower (py_str E (jor (jget sandbox_receipt ''status'') (JStr []))) \<noteq> ''completed'' then ''blocked''
      else let statuses = set (validation_statuses E validations) in
        if statuses \<inter> {''blocked'', ''failed'', ''error'', ''cancelled'', ''timed_out''} \<noteq> {} then ''blocked''
        else if statuses \<inter> {''needs_review'', ''attention'', ''pending'', ''unknown''} \<noteq> {} then ''needs_review''
        else (case jget sandbox_receipt ''enforcement'' of
           JObj enforcement \<Rightarrow> if enforcement = [] then ''needs_review''
             else if list_ex (\<lambda>p. let v = py_lower (py_str E (snd p)) in py_contains v ''not_'' \<or> py_contains v ''declared'') enforcement
             then ''needs_review'' else ''ready''
         | _ \<Rightarrow> ''needs_review''))"

section \<open>Receipts\<close>

definition EVIDENCE_RECEIPT_SCHEMA :: string where
  "EVIDENCE_RECEIPT_SCHEMA = ''across-evidence-receipt/1.0''"

definition workspace_of :: "jobj \<Rightarrow> jobj res" where
  "workspace_of payload = py_dict (jor (jor (jget payload ''workspace'') (jget payload ''workspace_binding'')) (JObj []))"

definition stripped_or :: "pyenv \<Rightarrow> json \<Rightarrow> json \<Rightarrow> string" where
  "stripped_or E v w = py_strip (py_str E (jor (jor v w) (JStr [])))"

definition workspace_identity :: "pyenv \<Rightarrow> file_system \<Rightarrow> project_files \<Rightarrow> jobj \<Rightarrow> jobj \<Rightarrow> (string \<times> string) res" where
  "workspace_identity E F P payload workspace = (let
     base = stripped_or E (jget workspace ''root'') (jget payload ''workspace_root'');
     commit = stripped_or E (jget workspace ''commit_sha'') (jget payload ''commit_sha'') in
     if base \<noteq> [] then
       bindE (resolve_strict F (py_path base)) (\<lambda>resolved.
       bindE (checkE (fs_is_dir F resolved) (ValueError ''workspace root must be a directory'')) (\<lambda>_.
       bindE (if commit = [] then git_commit_sha F P resolved else Inr commit) (\<lambda>sha.
       Inr (sha, text_sha256 (path_str resolved)))))
     else Inr (commit, py_strip (py_str E (jor (jget workspace ''workspace_sha256'') (JStr [])))))"

definition workspace_binding :: "pyenv \<Rightarrow> jobj \<Rightarrow> jobj \<Rightarrow> string \<Rightarrow> string \<Rightarrow> jobj" where
  "workspace_binding E payload workspace commit digest = [
     (''commit_sha'', JStr commit), (''commit_state'', JStr (if commit \<noteq> ''unversioned'' then ''bound'' else ''unversioned'')),
     (''workspace_sha256'', JStr digest),
     (''workspace_id'', JStr (py_str E (jor (jor (jget workspace ''workspace_id'') (jget payload ''workspace_id'')) (JStr ''workspace''))))]"

definition receipt_body :: "pyenv \<Rightarrow> jobj \<Rightarrow> jobj \<Rightarrow> json \<Rightarrow> jobj list \<Rightarrow> json \<Rightarrow> jobj" where
  "receipt_body E binding sandbox_receipt validations artifacts provenance = [
     (''schema_version'', JStr EVIDENCE_RECEIPT_SCHEMA),
     (''verdict'', JStr (evidence_verdict E sandbox_receipt validations)),
     (''workspace_binding'', JObj binding), (''sandbox_receipt'', JObj sandbox_receipt), (''validations'', validations),
     (''artifacts'', objs artifacts),
     (''provenance'', JObj [(''sources'', provenance), (''hashes'', JObj [
        (''workspace_binding_sha256'', JStr (canonical_sha256 E (JObj binding))),
        (''sandbox_receipt_sha256'', JStr (canonical_sha256 E (JObj sandbox_receipt))),
        (''validations_sha256'', JStr (canonical_sha256 E validations)),
        (''artifacts_sha256'', JStr (canonical_sha256 E (objs artifacts))),
        (''provenance_sha256'', JStr (canonical_sha256 E provenance))])])]"

definition build_evidence_receipt :: "pyenv \<Rightarrow> file_system \<Rightarrow> project_files \<Rightarrow> jobj \<Rightarrow> jobj res" where
  "build_evidence_receipt E F P payload = bindE (workspace_of payload) (\<lambda>workspace.
     bindE (workspace_identity E F P payload workspace) (\<lambda>(sha, digest). let commit = (if sha = [] then ''unversioned'' else sha) in
     bindE (checkE (digest \<noteq> []) (ValueError ''workspace_root or workspace_sha256 is required'')) (\<lambda>_.
     bindE (normalize_receipt_artifacts E (jor (jget payload ''artifacts'') (JArr []))) (\<lambda>artifacts.
     let body = receipt_body E (workspace_binding E payload workspace commit digest)
       (secret_free_sandbox_receipt (jor (jor (jget payload ''sandbox_receipt'') (jget payload ''sandbox'')) (JObj [])))
       (secret_free_value (jor (jget payload ''validations'') (JArr []))) artifacts
       (secret_free_value (jor (jget payload ''provenance'') (JObj []))) in
     Inr (jset body ''evidence_sha256'' (JStr (canonical_sha256 E (JObj body))))))))"

section \<open>The bundle of a task\<close>

definition sandbox_receipts_of :: "task \<Rightarrow> jobj list res" where
  "sandbox_receipts_of t = bindE (py_iter (jor (jget (tsk_metadata t) ''sandbox_executions'') (JArr []))) (\<lambda>entries.
     Inr (List.map_filter (\<lambda>e. case e of JObj o' \<Rightarrow> as_obj (jget o' ''receipt'') | _ \<Rightarrow> None) entries))"

definition receipt_payload :: "pyenv \<Rightarrow> task \<Rightarrow> jobj \<Rightarrow> jobj list \<Rightarrow> jobj \<Rightarrow> jobj" where
  "receipt_payload E t quality artifacts receipt = [
     (''workspace'', JObj [(''root'', JStr (tsk_root t)), (''workspace_id'', JStr (tsk_id t)),
        (''commit_sha'', JStr (py_str E (jor (jget (tsk_metadata t) ''commit_sha'') (JStr []))))]),
     (''sandbox_receipt'', JObj receipt), (''validations'', objs [quality]), (''artifacts'', objs artifacts),
     (''provenance'', JObj [(''producer'', JStr ''across-orchestrator''), (''task_id'', JStr (tsk_id t)),
        (''sandbox_receipt_sha256'', jget receipt ''receipt_sha256'')])]"

definition bundle_core :: "task \<Rightarrow> jobj list \<Rightarrow> jobj \<Rightarrow> jobj list \<Rightarrow> jobj" where
  "bundle_core t artifacts quality events = [
     (''schema_version'', JStr ''0.1''), (''task_id'', JStr (tsk_id t)), (''goal'', JStr (tsk_goal t)), (''status'', JStr (tsk_status t)),
     (''project_root'', JStr (tsk_root t)), (''contract'', JObj (tsk_contract t)), (''metadata'', JObj (tsk_metadata t)),
     (''subtasks'', objs (map subtask_to_dict (tsk_subtasks t))), (''artifacts'', objs artifacts),
     (''finding_state'', jor (jget quality ''finding_state'') (jopt (tsk_finding_state t))),
     (''findings'', jor (jget quality ''findings'') (objs (tsk_findings t))), (''finding_history'', objs (tsk_history t)),
     (''quality'', JObj quality), (''events'', objs events)]
     @ (if truthy (jget (tsk_metadata t) ''app_grade'') then [(''app_grade'', jget (tsk_metadata t) ''app_grade'')] else [])"

definition build_evidence_bundle :: "pyenv \<Rightarrow> file_system \<Rightarrow> project_files \<Rightarrow> task \<Rightarrow> jobj list \<Rightarrow> jobj res" where
  "build_evidence_bundle E F P t events = bindE (task_artifact_records E F P t) (\<lambda>artifacts.
     bindE (build_quality E F P t) (\<lambda>quality. bindE (sandbox_receipts_of t) (\<lambda>receipts.
     if receipts = [] then Inr (bundle_core t artifacts quality events)
     else bindE (mapE (\<lambda>r. build_evidence_receipt E F P (receipt_payload E t quality artifacts r)) receipts) (\<lambda>unified.
       Inr (bundle_core t artifacts quality events @ [(''sandbox_executions'', objs receipts), (''evidence_receipts'', objs unified),
         (''sandbox_execution'', JObj (last receipts)), (''evidence_receipt'', JObj (last unified))])))))"

end
