(* ===== verification/TaskStore.thy ===== *)
theory TaskStore
  imports EvidenceReceipt "HOL-Library.Product_Lexorder"
begin

text \<open>
  What the task runtime stands on: the task part of \<open>LocalStore\<close> (\<open>store.py\<close>), the choice of an agent
  adapter and the policy of the command adapter (\<open>adapters.py\<close>), the allowed project roots and managed
  artifacts (\<open>runtime.py\<close>).
\<close>

section \<open>Tasks and events on disk\<close>

text \<open>Saving sets the time on the object; the value is the object afterwards.\<close>

definition save_task :: "task \<Rightarrow> task tm" where
  "save_task t = bindM (loopT nowL) (\<lambda>now. let t' = t\<lparr>tsk_updated := now\<rparr> in
     thenM (modifyM (\<lambda>s. s\<lparr>ts_tasks := coll_upd (tsk_id t') (task_to_dict t') (ts_tasks s)\<rparr>)) (retM t'))"

definition load_task :: "string \<Rightarrow> task tm" where
  "load_task task_id = bindM (getsM (\<lambda>s. map_of (ts_tasks s) task_id)) (\<lambda>found. case found of
      None \<Rightarrow> raiseM (KeyError (''Task not found: '' @ task_id))
    | Some d \<Rightarrow> bindM interpT (\<lambda>E. bindM (loopT nowL) (\<lambda>created. bindM (loopT nowL) (\<lambda>updated.
        liftM (task_from_dict E created updated d)))))"

definition list_task_ids :: "string list tm" where
  "list_task_ids = getsM (\<lambda>s. sort (filter (\<lambda>i. py_startswith i ''task-'') (map fst (ts_tasks s))))"

definition task_loop_id :: "pyenv \<Rightarrow> jobj coll \<Rightarrow> string \<Rightarrow> string option" where
  "task_loop_id E tasks task_id = (case map_of tasks task_id of None \<Rightarrow> None
     | Some d \<Rightarrow> (case jget d ''metadata'' of JObj md \<Rightarrow> (case jget md ''agent_loop'' of
          JObj agent_loop \<Rightarrow> clean_string E (jget agent_loop ''loop_id'') | _ \<Rightarrow> None) | _ \<Rightarrow> None))"

definition build_task_event :: "pyenv \<Rightarrow> string \<Rightarrow> string \<Rightarrow> jobj \<Rightarrow> nat \<Rightarrow> string option \<Rightarrow> string \<Rightarrow> time \<Rightarrow> jobj" where
  "build_task_event E task_id event_type payload sequence loop_id uuid now =
     (let payload_loop_id = first_string_for_key E [''loop_id'', ''loopId''] (JObj payload);
          subtask_id = first_string_for_key E [''subtask_id'', ''subtaskId''] (JObj payload);
          effective = (if loop_id = None then payload_loop_id else loop_id);
          correlation = (case subtask_id of Some i \<Rightarrow> ''subtask:'' @ i
            | None \<Rightarrow> (case effective of Some i \<Rightarrow> ''loop:'' @ i | None \<Rightarrow> ''task:'' @ task_id));
          causation_id = first_string_for_key E [''causation_id'', ''causationId'', ''parent_event_id'', ''parentEventId''] (JObj payload) in
      [(''event_id'', JStr (''task-event-'' @ uuid)), (''sequence'', JInt (int sequence)), (''type'', JStr event_type),
       (''task_id'', JStr task_id), (''timestamp'', JFloat now), (''payload'', JObj payload)]
      @ string_field ''loop_id'' effective @ string_field ''subtask_id'' subtask_id @ [(''correlation_id'', JStr correlation)]
      @ string_field ''causation_id'' causation_id)"

definition append_event :: "string \<Rightarrow> string \<Rightarrow> jobj \<Rightarrow> unit tm" where
  "append_event task_id event_type payload = bindM interpT (\<lambda>E. bindM (loopT uuidL) (\<lambda>u. bindM (loopT nowL) (\<lambda>now.
     modifyM (\<lambda>s. s\<lparr>ts_events := log_add task_id (build_task_event E task_id event_type payload
       (length (log_entries (ts_events s) task_id) + 1) (task_loop_id E (ts_tasks s) task_id) u now) (ts_events s)\<rparr>))))"

definition list_events :: "string \<Rightarrow> jobj list tm" where
  "list_events task_id = getsM (\<lambda>s. log_entries (ts_events s) task_id)"

section \<open>Agent adapters\<close>

datatype agent_adapter = DemoAgentAdapter | CommandAgentAdapter "string list" jobj | ReferenceDeliveryAdapter string

definition adapter_kind :: "pyenv \<Rightarrow> jobj \<Rightarrow> string" where
  "adapter_kind E spec = py_lower (py_strip (py_str E (jor (jor (jget spec ''type'') (jget spec ''kind'')) (JStr []))))"

definition normalize_adapter_spec :: "pyenv \<Rightarrow> string \<times> json \<Rightarrow> (string \<times> json) res" where
  "normalize_adapter_spec E p = (let agent = py_strip (fst p) in
     bindE (checkE (agent \<noteq> []) (ValueError ''agent adapter id cannot be empty'')) (\<lambda>_.
     case snd p of
       JObj raw \<Rightarrow> (let kind = adapter_kind E raw; spec = jset raw ''type'' (JStr kind) in
         if kind = [] then Inl (ValueError (''agent adapter spec for '' @ agent @ '' requires type''))
         else if kind = ''command'' then
           (case jget spec ''command'' of
              JArr (c # cs) \<Rightarrow> Inr (agent, JObj (jset spec ''command'' (jstrs (map (py_str E) (c # cs)))))
            | _ \<Rightarrow> Inl (ValueError (''command adapter for '' @ agent @ '' requires a non-empty command array'')))
         else if kind \<in> {''demo'', ''reference'', ''reference_delivery''} then Inr (agent, JObj spec)
         else Inl (ValueError (''unsupported agent adapter type for '' @ agent @ '': '' @ kind)))
     | _ \<Rightarrow> Inl (ValueError (''agent adapter spec for '' @ agent @ '' must be an object''))))"

definition normalize_agent_adapter_specs :: "pyenv \<Rightarrow> json \<Rightarrow> jobj res" where
  "normalize_agent_adapter_specs E specs = (case specs of
      JNull \<Rightarrow> Inr []
    | JObj o' \<Rightarrow> bindE (mapE (normalize_adapter_spec E) o') (\<lambda>ps. Inr (jmerge [] ps))
    | _ \<Rightarrow> Inl (ValueError ''agent_adapters must be an object keyed by agent id''))"

text \<open>The sandbox settings of a command adapter that names none.\<close>

definition spec_sandbox :: "jobj \<Rightarrow> jobj" where
  "spec_sandbox spec = [
     (''policy'', jors [jget spec ''sandboxPolicy'', jget spec ''sandbox_policy'', JObj []]),
     (''provider_id'', jor (jget spec ''sandboxProvider'') (jget spec ''sandbox_provider'')),
     (''timeout_seconds'', jor (jget spec ''timeoutSeconds'') (jget spec ''timeout_seconds'')),
     (''refresh_timeout_on_output'', jget_d spec ''refreshTimeoutOnOutput'' (jget spec ''refresh_timeout_on_output'')),
     (''max_wall_timeout_seconds'', jget_d spec ''maxWallTimeoutSeconds'' (jget spec ''max_wall_timeout_seconds'')),
     (''max_output_bytes'', jor (jget spec ''maxOutputBytes'') (jget spec ''max_output_bytes''))]"

definition command_adapter :: "string list \<Rightarrow> json \<Rightarrow> agent_adapter res" where
  "command_adapter command sandbox = (if command = [] then Inl (ValueError ''command adapter requires a command'')
     else bindE (py_dict (jor sandbox (JObj []))) (\<lambda>sb. Inr (CommandAgentAdapter command sb)))"

definition adapter_for :: "pyenv \<Rightarrow> string \<Rightarrow> string list \<Rightarrow> jobj \<Rightarrow> agent_adapter res" where
  "adapter_for E agent command spec = (if spec \<noteq> [] then
      (let kind = adapter_kind E spec in
       if kind = ''command'' then bindE (py_iter (jor (jget spec ''command'') (JArr []))) (\<lambda>items.
         command_adapter (map (py_str E) items) (jor (jget spec ''sandbox'') (JObj (spec_sandbox spec))))
       else if kind = ''demo'' then Inr DemoAgentAdapter
       else if kind \<in> {''reference'', ''reference_delivery''} then Inr (ReferenceDeliveryAdapter (if agent = [] then ''reference'' else agent))
       else Inl (ValueError (''unsupported agent adapter type for '' @ agent @ '': '' @ kind)))
     else if agent = ''demo'' then Inr DemoAgentAdapter
     else if agent = ''command'' then command_adapter command (JObj [])
     else Inl (RuntimeError (''No adapter configured for agent '' @ agent @ ''. Provide agent_adapters with type command, demo, or reference.'')))"

definition agent_adapter_spec_for :: "task \<Rightarrow> string \<Rightarrow> jobj" where
  "agent_adapter_spec_for t agent = (case jor (jget (tsk_metadata t) ''agent_adapters'') (JObj []) of
      JObj specs \<Rightarrow> opt_or (first_some (map (\<lambda>k. as_obj (jget specs k)) [agent, ''default'', ''*''])) []
    | _ \<Rightarrow> [])"

subsection \<open>The command adapter\<close>

definition policy_keys :: "string list" where
  "policy_keys = [''network'', ''network_policy'', ''filesystem'', ''filesystem_policy'', ''runtime_policy'']"

definition configured_policy :: "jobj \<Rightarrow> json" where
  "configured_policy sandbox = (let named = jor (jget sandbox ''policy'') (jget sandbox ''sandbox_policy'') in
     if named = JNull \<and> list_ex (jhas sandbox) policy_keys then JObj sandbox else named)"

definition adapter_option :: "jobj \<Rightarrow> string \<Rightarrow> string \<Rightarrow> json" where
  "adapter_option sandbox snake camel = jget_d sandbox snake (jget sandbox camel)"

definition set_unless_none :: "jobj \<Rightarrow> string \<Rightarrow> json \<Rightarrow> jobj" where
  "set_unless_none o' k v = (if v = JNull then o' else jset o' k v)"

definition command_policy :: "task \<Rightarrow> string list \<Rightarrow> jobj \<Rightarrow> jobj res" where
  "command_policy t command sandbox = bindE (py_dict (jor (configured_policy sandbox) (JObj []))) (\<lambda>p0.
     let p1 = jsetdefault (jsetdefault (jsetdefault p0 ''network_policy'' (JStr ''none'')) ''filesystem_policy'' (JStr ''run_scoped''))
       ''command_allowlist'' (JArr [jstrs command]) in
     bindE (py_dict (jor (jget p1 ''execution'') (JObj []))) (\<lambda>x0.
     let x = set_unless_none (set_unless_none (set_unless_none (jsetdefault x0 ''timeout_seconds'' (JInt 300))
           ''timeout_seconds'' (adapter_option sandbox ''timeout_seconds'' ''timeoutSeconds''))
           ''refresh_timeout_on_output'' (adapter_option sandbox ''refresh_timeout_on_output'' ''refreshTimeoutOnOutput''))
           ''max_wall_timeout_seconds'' (adapter_option sandbox ''max_wall_timeout_seconds'' ''maxWallTimeoutSeconds'') in
     Inr (jset (jset p1 ''execution'' (JObj x)) ''workspace_root'' (JStr (tsk_root t)))))"

text \<open>\<open>json.dumps(v, sort_keys=True)\<close>: non-ASCII characters are escaped.\<close>

definition escape_ascii :: "string \<Rightarrow> string" where
  "escape_ascii s = concat (map (\<lambda>c. let n = code_pt c in
     if 127 \<le> n then [CHR 0x5C, CHR ''u'', CHR ''0'', CHR ''0'', hex_digit (n div 16), hex_digit (n mod 16)] else [c]) s)"

text \<open>The options as the request checks them, after the policy has been normalised with the same values;
  \<open>float\<close> and \<open>int\<close> are applied here instead of at the check.\<close>

definition command_options :: "pyenv \<Rightarrow> task \<Rightarrow> subtask \<Rightarrow> jobj \<Rightarrow> execution_options res" where
  "command_options E t st sandbox = (let
     timeout = adapter_option sandbox ''timeout_seconds'' ''timeoutSeconds'';
     refresh = adapter_option sandbox ''refresh_timeout_on_output'' ''refreshTimeoutOnOutput'';
     wall = adapter_option sandbox ''max_wall_timeout_seconds'' ''maxWallTimeoutSeconds'';
     output = adapter_option sandbox ''max_output_bytes'' ''maxOutputBytes'' in
     bindE (if timeout = JNull then Inr None else bindE (py_float E timeout) (\<lambda>r. Inr (Some r))) (\<lambda>x1.
     bindE (if refresh = JNull then Inr None else bindE (bounded_bool refresh False ''refresh_timeout_on_output'') (\<lambda>b. Inr (Some b))) (\<lambda>x2.
     bindE (if wall = JNull then Inr None else bindE (py_float E wall) (\<lambda>r. Inr (Some r))) (\<lambda>x3.
     bindE (if output = JNull then Inr None else bindE (py_int output) (\<lambda>i. Inr (Some i))) (\<lambda>x4.
     Inr \<lparr>eo_timeout = x1, eo_refresh = x2, eo_max_wall = x3, eo_max_output = x4, eo_environment = [
       (''ACROSS_TASK_JSON'', escape_ascii (dumps_spaced E (JObj (task_to_dict t)))),
       (''ACROSS_SUBTASK_JSON'', escape_ascii (dumps_spaced E (JObj (subtask_to_dict st))))]\<rparr>)))))"

text \<open>What the adapter makes of a receipt.\<close>

definition command_result :: "pyenv \<Rightarrow> subtask \<Rightarrow> json \<Rightarrow> json res" where
  "command_result E st receipt = bindE (py_dict receipt) (\<lambda>r. bindE (py_dict (jor (jget r ''output'') (JObj []))) (\<lambda>output.
     if jget r ''status'' = JStr ''timed_out'' then Inl (TimeoutError ''timed out'')
     else if jget r ''status'' \<noteq> JStr ''completed'' then
       (let message = py_strip (py_str E (jors [jget output ''stderr'', jget output ''stdout'', JStr ''command adapter failed''])) in
        Inl (RuntimeError (if message = [] then ''command adapter failed'' else message)))
     else Inr (JObj [(''path'', JStr (sb_path st)), (''message'', JStr (py_strip (py_str E (jor (jget output ''stdout'') (JStr []))))),
       (''sandbox_receipt'', receipt)])))"

text \<open>The run of a command adapter; \<open>None\<close> while the process is still supervised.\<close>

definition command_adapter_run ::
  "pyenv \<Rightarrow> file_system \<Rightarrow> registry \<Rightarrow> string list \<Rightarrow> jobj \<Rightarrow> task \<Rightarrow> subtask \<Rightarrow> (sandbox_request list, json option) pyM" where
  "command_adapter_run E F reg command sandbox t st =
     bindM (liftM (command_policy t command sandbox)) (\<lambda>policy. bindM (liftM (command_options E t st sandbox)) (\<lambda>opts.
     bindM (execute_sandbox_command E F reg policy command (tsk_root t)
       (py_str E (jors [jget sandbox ''provider_id'', jget sandbox ''provider'', JStr ''local-workspace''])) opts) (\<lambda>receipt.
     case receipt of None \<Rightarrow> retM None
     | Some r \<Rightarrow> bindM (liftM (command_result E st r)) (\<lambda>result. retM (Some result)))))"

section \<open>Project roots\<close>

definition real_path :: "file_system \<Rightarrow> string \<Rightarrow> pypath res" where
  "real_path F s = fs_resolve F (py_path (os_expanduser F s))"

fun allowed_from :: "file_system \<Rightarrow> string list \<Rightarrow> pypath list res" where
  "allowed_from F [] = Inr []"
| "allowed_from F (item # items) = (let s = py_strip item in
     if s = [] then allowed_from F items
     else if CHR 0x00 \<in> set s then Inl (ValueError ''ACROSS_ORCHESTRATOR_ALLOWED_PROJECT_ROOTS contains a null byte'')
     else bindE (real_path F s) (\<lambda>p. bindE (allowed_from F items) (\<lambda>ps. Inr (p # ps))))"

definition allowed_project_roots :: "file_system \<Rightarrow> string \<Rightarrow> pypath list res" where
  "allowed_project_roots F raw = allowed_from F (py_split (CHR '':'') raw)"

definition resolve_project_root :: "file_system \<Rightarrow> string \<Rightarrow> string \<Rightarrow> pypath res" where
  "resolve_project_root F raw project_root = (let s = py_strip project_root in
     if s = [] \<or> CHR 0x00 \<in> set s then Inl (ValueError ''project_root must be a non-empty path without null bytes'')
     else bindE (real_path F s) (\<lambda>resolved. bindE (allowed_project_roots F raw) (\<lambda>allowed.
       if allowed \<noteq> [] \<and> \<not> list_ex (inside resolved) allowed
       then Inl (ValueError ''project_root is outside ACROSS_ORCHESTRATOR_ALLOWED_PROJECT_ROOTS'')
       else Inr resolved)))"

section \<open>Baselines and managed artifacts\<close>

definition slashed :: "string \<Rightarrow> string" where
  "slashed s = dropWhile (\<lambda>c. c = CHR ''/'') (py_replace_char (CHR 0x5C) (CHR ''/'') s)"

definition baseline_entry :: "file_system \<Rightarrow> project_files \<Rightarrow> pypath \<Rightarrow> jobj \<Rightarrow> string \<Rightarrow> jobj res" where
  "baseline_entry F P base acc raw = (let path = slashed raw in bindE (fs_resolve F (path_join base path)) (\<lambda>target.
     if path = [] \<or> \<not> in_parents base target \<or> \<not> pf_is_file P target then Inr acc
     else bindE (pf_bytes P target) (\<lambda>data.
       Inr (jset acc path (JObj [(''size'', JInt (int (length data))), (''sha256'', JStr (hexdigest (sha256 data)))])))))"

definition artifact_baseline :: "file_system \<Rightarrow> project_files \<Rightarrow> pypath \<Rightarrow> string list \<Rightarrow> jobj res" where
  "artifact_baseline F P base paths = bindE (fs_resolve F base) (\<lambda>resolved. foldE (baseline_entry F P resolved) [] paths)"

text \<open>\<open>loads\<close> is \<open>json.loads\<close>, \<open>None\<close> where it raises.\<close>

definition reported_output :: "pyenv \<Rightarrow> (string \<Rightarrow> json option) \<Rightarrow> string \<Rightarrow> string option" where
  "reported_output E loads line = (case loads line of
      Some (JObj o') \<Rightarrow> if py_strip (py_str E (jor (jget o' ''output'') (JStr []))) \<noteq> [] then Some (py_str E (jget o' ''output'')) else None
    | _ \<Rightarrow> None)"

definition adapter_report_content :: "pyenv \<Rightarrow> (string \<Rightarrow> json option) \<Rightarrow> string \<Rightarrow> string" where
  "adapter_report_content E loads stdout =
     opt_or (first_some (map (reported_output E loads) (List.rev (py_splitlines stdout)))) stdout"

definition managed_target :: "file_system \<Rightarrow> string \<Rightarrow> task \<Rightarrow> subtask \<Rightarrow> (pypath \<times> pypath) res" where
  "managed_target F artifacts_dir t st = (let parts = posix_parts (slashed (sb_path st)) in
     if parts = [] \<or> ''..'' \<in> set parts then Inl (ValueError ''managed artifact path is unsafe'')
     else bindE (fs_resolve F (path_join (py_path artifacts_dir) (tsk_id t))) (\<lambda>base.
       bindE (fs_resolve F (base\<lparr>pp_parts := pp_parts base @ parts\<rparr>)) (\<lambda>target.
       if in_parents base target then Inr (base, target) else Inl (ValueError ''managed artifact path escaped task storage''))))"

definition managed_content :: "pyenv \<Rightarrow> (string \<Rightarrow> json option) \<Rightarrow> json \<Rightarrow> string res" where
  "managed_content E loads result = (let
     message = (case result of JObj o' \<Rightarrow> py_str E (jor (jget o' ''message'') (JStr [])) | v \<Rightarrow> py_str E (jor v (JStr [])));
     content = adapter_report_content E loads message in
     if py_strip content = [] then Inl (ValueError ''read-only adapter returned no report content'')
     else Inr (py_rstrip content @ [CHR 0x0A]))"

definition managed_metadata :: "task \<Rightarrow> subtask \<Rightarrow> pypath \<Rightarrow> pypath \<Rightarrow> string \<Rightarrow> jobj res" where
  "managed_metadata t st base target content = (let relative = slashed (sb_path st); md = jset (tsk_metadata t) ''managed_artifact_root'' (JStr (path_str base)) in
     case jget_d md ''managed_artifacts'' (JObj []) of
       JObj m \<Rightarrow> Inr (jset md ''managed_artifacts'' (JObj (jset m relative (JObj [
         (''path'', JStr relative), (''storage_path'', JStr (path_str target)), (''present'', JBool True), (''fresh'', JBool True),
         (''size'', JInt (int (length (utf8 content)))), (''sha256'', JStr (sha256_hex content)), (''source'', JStr ''command_adapter_inline'')]))))
     | _ \<Rightarrow> Inl (TypeError ''object does not support item assignment''))"

definition persist_managed_adapter_artifact ::
  "file_system \<Rightarrow> (string \<Rightarrow> json option) \<Rightarrow> string \<Rightarrow> task \<Rightarrow> subtask \<Rightarrow> json \<Rightarrow> task tm" where
  "persist_managed_adapter_artifact F loads artifacts_dir t st result = bindM interpT (\<lambda>E.
     bindM (liftM (managed_target F artifacts_dir t st)) (\<lambda>(base, target).
     bindM (liftM (managed_content E loads result)) (\<lambda>content.
     thenM (modifyM (\<lambda>s. s\<lparr>ts_files := AList.update (path_str target) content (ts_files s)\<rparr>))
     (bindM (liftM (managed_metadata t st base target content)) (\<lambda>md. retM (t\<lparr>tsk_metadata := md\<rparr>))))))"

end
