(* ===== verification/TaskRuntime.thy ===== *)
theory TaskRuntime
  imports TaskStore
begin

text \<open>
  The task runtime (\<open>runtime.py\<close>) and the engine in front of it (\<open>engine.py\<close>): submission, the dispatch of
  subtasks, quality, cancellation, and the adapters through which an agent loop drives a task.

  A host is a record of parameters: the file system, what is on disk at each look, the run of an agent
  adapter (a result or an exception, and the metadata it leaves in the task object), \<open>json.loads\<close>, the
  application scenarios of \<open>app_grade.py\<close>, and the adapters of the loop runtime. A run of the agent loop
  (\<open>LoopDriver\<close>) is seen from here as an episode: the calls it makes to the runtime's dispatcher, quality
  gate and finalizer, its own work on the loop state between them, and how it ends.
\<close>

section \<open>Hosts\<close>

record task_host =
  th_fs :: file_system
  th_files :: "nat \<Rightarrow> project_files"
  th_allowed_roots :: string
  th_artifacts_dir :: string
  th_run :: "agent_adapter \<Rightarrow> nat \<Rightarrow> task \<Rightarrow> subtask \<Rightarrow> json res \<times> jobj"
  th_loads :: "string \<Rightarrow> json option"
  th_app_payload :: "task \<Rightarrow> string list \<Rightarrow> jobj"
  th_app_run :: "nat \<Rightarrow> task \<Rightarrow> json \<Rightarrow> jobj res"
  th_loop_adapters :: loop_adapters
  th_lock_free :: bool

definition TERMINAL_TASK_STATUSES :: "string list" where
  "TERMINAL_TASK_STATUSES = [''completed'', ''failed'', ''cancelled'']"

text \<open>What is on disk now; the next look may see something else.\<close>

definition lookT :: "task_host \<Rightarrow> project_files tm" where
  "lookT H = bindM (getsM ts_looks) (\<lambda>n. thenM (modifyM (\<lambda>s. s\<lparr>ts_looks := Suc (ts_looks s)\<rparr>)) (retM (th_files H n)))"

definition tryM :: "('s, 'a) pyM \<Rightarrow> ('s, 'a res) pyM" where
  "tryM m = catchM (bindM m (\<lambda>x. retM (Inr x))) (\<lambda>e. retM (Inl e))"

section \<open>Submission\<close>

definition clean_task_types :: "pyenv \<Rightarrow> json list \<Rightarrow> string list" where
  "clean_task_types E items = first_occurrences (filter (\<lambda>v. v \<noteq> []) (map (\<lambda>i. py_lower (py_strip (py_str E (jor i (JStr []))))) items))"

definition delivery_mode_for_task_types :: "string list \<Rightarrow> string" where
  "delivery_mode_for_task_types types = (if length types > 1 then ''composite'' else case types of [] \<Rightarrow> ''artifact'' | v # vs \<Rightarrow> v)"

definition with_task_types :: "string list \<Rightarrow> task \<Rightarrow> task" where
  "with_task_types types t = (if types = [] then t else t\<lparr>tsk_metadata := jset (jset (tsk_metadata t) ''task_types'' (jstrs types))
     ''delivery_mode'' (JStr (delivery_mode_for_task_types types))\<rparr>)"

definition with_metadata :: "string \<Rightarrow> json \<Rightarrow> task \<Rightarrow> task" where
  "with_metadata k v t = t\<lparr>tsk_metadata := jset (tsk_metadata t) k v\<rparr>"

definition planned_task :: "task_host \<Rightarrow> string \<Rightarrow> string \<Rightarrow> jobj list \<Rightarrow> string list \<Rightarrow> string \<Rightarrow> bool \<Rightarrow> task tm" where
  "planned_task H goal base subtasks paths agent strict =
     bindM (if subtasks \<noteq> [] then task_from_plan (th_fs H) goal base subtasks paths agent
            else task_new (th_fs H) goal base paths agent) (\<lambda>t.
     if strict \<and> length (tsk_subtasks t) > 1 then liftM (ensure_strict_dependency_chain t) else retM t)"

record task_request =
  tq_goal :: string
  tq_project_root :: string
  tq_deliverables :: "string list"
  tq_agent :: string
  tq_subtasks :: "jobj list"
  tq_strict :: bool
  tq_types :: "json list"
  tq_adapters :: json
  tq_metadata :: jobj

definition host_metadata_of :: "task_host \<Rightarrow> pyenv \<Rightarrow> pypath \<Rightarrow> string list \<Rightarrow> jobj \<Rightarrow> task \<Rightarrow> task tm" where
  "host_metadata_of H E base paths md t = (let t1 = (if md = [] then t else with_metadata ''host_metadata'' (JObj md) t) in
     bindM (if jget md ''require_fresh_artifacts'' = JBool True
       then bindM (lookT H) (\<lambda>P. bindM (liftM (artifact_baseline (th_fs H) P base paths)) (\<lambda>b. retM (with_metadata ''artifact_baseline'' (JObj b) t1)))
       else retM t1) (\<lambda>t2.
     retM (if py_lower (py_strip (py_str E (jor (jget md ''intent_mode'') (JStr [])))) = ''read_only_analysis''
       then with_metadata ''artifact_delivery_mode'' (JStr ''managed_read_only'') t2 else t2)))"

definition remote_managed :: "pyenv \<Rightarrow> jobj \<Rightarrow> bool" where
  "remote_managed E md = (case jget md ''execution_contract'' of
      JObj c \<Rightarrow> py_lower (py_strip (py_str E (jor (jget c ''route'') (JStr [])))) = ''worker'' | _ \<Rightarrow> False)"

definition created_events :: "task \<Rightarrow> string \<Rightarrow> jobj \<Rightarrow> unit tm" where
  "created_events t event payload =
     thenM (append_event (tsk_id t) ''task.created'' [(''goal'', JStr (tsk_goal t)), (''agent'', JStr (tsk_agent t))])
     (thenM (append_event (tsk_id t) ''contract.created'' (tsk_contract t))
     (thenM (append_event (tsk_id t) event payload)
     (forM (tsk_subtasks t) (\<lambda>st. append_event (tsk_id t) ''subtask.created'' (subtask_to_dict st)))))"

definition loop_binding :: "string \<Rightarrow> jobj" where
  "loop_binding loop_id = [(''loop_id'', JStr loop_id), (''runtime'', JStr ''across-orchestrator''), (''mode'', JStr ''durable'')]"

definition start_task_loop :: "task_host \<Rightarrow> task \<Rightarrow> string \<Rightarrow> string \<Rightarrow> jobj \<Rightarrow> string tm" where
  "start_task_loop H t base agent md =
     thenM (loopT (start_loop (\<lambda>p. case resolve_text (th_fs H) p of Inr q \<Rightarrow> path_str q | Inl _ \<Rightarrow> p)
       \<lparr>rq_goal = tsk_goal t, rq_project_root = base, rq_agent = agent, rq_max_turns = 8, rq_memory_policy = [], rq_approval_policy = [],
        rq_metadata = md, rq_goal_execution_contract = JNull\<rparr>))
     (getsM (\<lambda>s. lr_loop_id (ls_cur (ts_loop s))))"

definition submit_task :: "task_host \<Rightarrow> task_request \<Rightarrow> task tm" where
  "submit_task H rq = bindM interpT (\<lambda>E.
     thenM (guardM (py_strip (tq_goal rq) \<noteq> []) (ValueError ''goal is required''))
     (bindM (liftM (resolve_project_root (th_fs H) (th_allowed_roots H) (tq_project_root rq))) (\<lambda>base.
     let paths = (if tq_deliverables rq = [] then [''README.md''] else tq_deliverables rq); md = tq_metadata rq in
     bindM (planned_task H (py_strip (tq_goal rq)) (path_str base) (tq_subtasks rq) paths (tq_agent rq) (tq_strict rq)) (\<lambda>t0.
     let t1 = with_task_types (clean_task_types E (tq_types rq)) t0 in
     bindM (liftM (normalize_agent_adapter_specs E (tq_adapters rq))) (\<lambda>specs.
     let t2 = (if specs = [] then t1 else with_metadata ''agent_adapters'' (JObj specs) t1) in
     bindM (host_metadata_of H E base paths md t2) (\<lambda>t3.
     if remote_managed E md then
       (let t4 = with_metadata ''agent_loop'' (JObj [(''runtime'', JStr ''across-orchestrator''), (''mode'', JStr ''remote-managed''), (''status'', JStr ''queued'')])
          (with_metadata ''execution_mode'' (JStr ''remote_worker'') t3) in
        bindM (save_task t4) (\<lambda>t5.
        thenM (created_events t5 ''task.remote_worker.created'' [(''execution_contract'', jget md ''execution_contract'')]) (retM t5)))
     else
       bindM (start_task_loop H t3 (path_str base) (tq_agent rq)
         [(''task_id'', JStr (tsk_id t3)), (''task_kind'', JStr ''delivery''), (''host_metadata'', JObj md)]) (\<lambda>loop_id.
       bindM (save_task (with_metadata ''agent_loop'' (JObj (loop_binding loop_id)) t3)) (\<lambda>t5.
       thenM (created_events t5 ''agent_loop.created'' (loop_binding loop_id)) (retM t5)))))))))"

section \<open>Dispatching subtasks\<close>

definition put_subtask :: "subtask \<Rightarrow> task \<Rightarrow> task" where
  "put_subtask st t = t\<lparr>tsk_subtasks := map (\<lambda>x. if sb_id x = sb_id st then st else x) (tsk_subtasks t)\<rparr>"

definition mark_task_started :: "task \<Rightarrow> task tm" where
  "mark_task_started t = (if tsk_status t \<in> set (''running'' # TERMINAL_TASK_STATUSES) then retM t
     else bindM (save_task (t\<lparr>tsk_status := ''running''\<rparr>)) (\<lambda>t'.
       thenM (append_event (tsk_id t') ''task.started'' [(''agent'', JStr (tsk_agent t'))]) (retM t')))"

text \<open>\<open>cancellation.raise_if_cancelled()\<close>, when there is a cancellation token.\<close>

definition poll_cancelled :: "bool \<Rightarrow> unit tm" where
  "poll_cancelled cancellable = (if cancellable then loopT raise_if_cancelled else retM ())"

definition managed_read_only :: "task \<Rightarrow> bool" where
  "managed_read_only t \<longleftrightarrow> jget (tsk_metadata t) ''artifact_delivery_mode'' = JStr ''managed_read_only''"

text \<open>The body of the \<open>try\<close>: the result or the exception, and the task object afterwards.\<close>

definition attempt_subtask :: "task_host \<Rightarrow> string list \<Rightarrow> bool \<Rightarrow> task \<Rightarrow> subtask \<Rightarrow> (json res \<times> task) tm" where
  "attempt_subtask H command cancellable t st = bindM interpT (\<lambda>E.
     case adapter_for E (sb_agent st) command (agent_adapter_spec_for t (sb_agent st)) of
       Inl e \<Rightarrow> retM (Inl e, t)
     | Inr adapter \<Rightarrow> bindM (tryM (poll_cancelled cancellable)) (\<lambda>polled. case polled of
         Inl e \<Rightarrow> retM (Inl e, t)
       | Inr _ \<Rightarrow> bindM (getsM (\<lambda>s. length (ts_runs s))) (\<lambda>n.
           thenM (modifyM (\<lambda>s. s\<lparr>ts_runs := ts_runs s @ [(tsk_id t, sb_id st)]\<rparr>))
           (case th_run H adapter n t st of (answer, md) \<Rightarrow> let t1 = t\<lparr>tsk_metadata := md\<rparr> in
            (case answer of Inl e \<Rightarrow> retM (Inl e, t1)
             | Inr result \<Rightarrow> bindM (tryM (poll_cancelled cancellable)) (\<lambda>again. case again of
                 Inl e \<Rightarrow> retM (Inl e, t1)
               | Inr _ \<Rightarrow> if managed_read_only t1
                   then bindM (tryM (persist_managed_adapter_artifact (th_fs H) (th_loads H) (th_artifacts_dir H) t1 st result)) (\<lambda>kept.
                     case kept of Inl e \<Rightarrow> retM (Inl e, t1) | Inr t2 \<Rightarrow> retM (Inr result, t2))
                   else retM (Inr result, t1)))))))"

definition subtask_cancelled :: "task \<Rightarrow> subtask \<Rightarrow> string \<Rightarrow> string option \<Rightarrow> 'a tm" where
  "subtask_cancelled t st reason category = bindM interpT (\<lambda>E.
     bindM (liftM (normalize_cancel_category E (jopt category) (JStr reason))) (\<lambda>cancel_category.
     let st' = st\<lparr>sb_status := ''cancelled'', sb_error := Some reason\<rparr>; t' = (put_subtask st' t)\<lparr>tsk_status := ''cancelled''\<rparr> in
     thenM (append_event (tsk_id t') ''subtask.cancelled'' (jset (subtask_to_dict st') ''cancel_category'' (JStr cancel_category)))
     (thenM (save_task t')
     (thenM (append_event (tsk_id t') ''task.cancelled'' [(''error'', JStr reason), (''cancel_category'', JStr cancel_category)])
     (raiseM (ActionCancelledError reason category))))))"

definition subtask_failed :: "task \<Rightarrow> subtask \<Rightarrow> py_exc \<Rightarrow> 'a tm" where
  "subtask_failed t st e = (let failure_type = failure_type_for_exception e;
       st' = st\<lparr>sb_status := ''failed'', sb_error := Some (exc_str e)\<rparr>; t' = (put_subtask st' t)\<lparr>tsk_status := ''failed''\<rparr> in
     thenM (append_event (tsk_id t') ''subtask.failed'' (jset (subtask_to_dict st') ''failure_type'' (JStr failure_type)))
     (thenM (save_task t')
     (thenM (append_event (tsk_id t') ''task.failed'' [(''error'', JStr (exc_str e)), (''failure_type'', JStr failure_type)])
     (raiseM e))))"

definition add_sandbox_execution :: "task \<Rightarrow> jobj \<Rightarrow> task res" where
  "add_sandbox_execution t entry = (case jget_d (tsk_metadata t) ''sandbox_executions'' (JArr []) of
      JArr xs \<Rightarrow> Inr (with_metadata ''sandbox_executions'' (JArr (xs @ [JObj entry])) t)
    | _ \<Rightarrow> Inl (AttributeError ''object has no attribute append''))"

definition record_sandbox_execution :: "task \<Rightarrow> subtask \<Rightarrow> json \<Rightarrow> task tm" where
  "record_sandbox_execution t st result = (case result of
      JObj o' \<Rightarrow> (case jget o' ''sandbox_receipt'' of
         JObj receipt \<Rightarrow> (let entry = [(''subtask_id'', JStr (sb_id st)), (''agent'', JStr (sb_agent st)), (''receipt'', JObj receipt)] in
           bindM (liftM (add_sandbox_execution t entry)) (\<lambda>t'. thenM (append_event (tsk_id t) ''sandbox.execution.completed'' entry) (retM t')))
       | _ \<Rightarrow> retM t)
    | _ \<Rightarrow> retM t)"

definition subtask_completed :: "task \<Rightarrow> subtask \<Rightarrow> json \<Rightarrow> task tm" where
  "subtask_completed t st result = bindM (record_sandbox_execution t st result) (\<lambda>t1.
     let st' = st\<lparr>sb_status := ''completed'', sb_error := None\<rparr>; t2 = put_subtask st' t1 in
     thenM (append_event (tsk_id t2) ''subtask.completed'' (jset (subtask_to_dict st') ''result'' result)) (save_task t2))"

definition dispatch_subtask :: "task_host \<Rightarrow> string list \<Rightarrow> bool \<Rightarrow> task \<Rightarrow> subtask \<Rightarrow> task tm" where
  "dispatch_subtask H command cancellable t st0 = (let st = st0\<lparr>sb_status := ''running'', sb_attempts := sb_attempts st0 + 1\<rparr>; t1 = put_subtask st t in
     thenM (append_event (tsk_id t1) ''subtask.started'' (subtask_to_dict st))
     (bindM (attempt_subtask H command cancellable t1 st) (\<lambda>(answer, t2). case answer of
         Inl (ActionCancelledError reason category) \<Rightarrow> subtask_cancelled t2 st reason category
       | Inl e \<Rightarrow> subtask_failed t2 st e
       | Inr result \<Rightarrow> subtask_completed t2 st result)))"

text \<open>\<open>sorted(task.subtasks, key=lambda item: (item.wave, item.priority, item.subtask_id))\<close>\<close>

definition dispatch_order :: "task \<Rightarrow> subtask list" where
  "dispatch_order t = sort_key (\<lambda>st. (sb_wave st, sb_priority st, sb_id st)) (tsk_subtasks t)"

section \<open>Dispatch from the agent loop\<close>

definition is_app_grade :: "task \<Rightarrow> bool" where
  "is_app_grade t \<longleftrightarrow> jget (tsk_contract t) ''engine'' = JStr APP_GRADE_ENGINE"

definition dispatch_app_grade_task :: "task_host \<Rightarrow> task \<Rightarrow> (jobj \<times> task) tm" where
  "dispatch_app_grade_task H t = (let stored = jget (tsk_metadata t) ''app_grade_request'';
       payload = (if truthy stored then stored else JObj (th_app_payload H t (map sb_agent (tsk_subtasks t))));
       t1 = (if truthy stored then t else with_metadata ''app_grade_request'' payload t) in
     bindM (getsM ts_looks) (\<lambda>n. thenM (modifyM (\<lambda>s. s\<lparr>ts_looks := Suc (ts_looks s)\<rparr>))
     (bindM (liftM (th_app_run H n t1 payload)) (\<lambda>result.
     let t2 = with_metadata ''app_grade'' (JObj result)
       (t1\<lparr>tsk_subtasks := map (\<lambda>st. st\<lparr>sb_status := ''completed'', sb_error := None\<rparr>) (tsk_subtasks t1)\<rparr>) in
     bindM (save_task t2) (\<lambda>t3.
     bindM (liftM (require_key result ''delivery_quality'')) (\<lambda>dq. bindM (liftM (require_key result ''exact_files'')) (\<lambda>files.
     thenM (append_event (tsk_id t3) ''app_grade.host_conformance.completed'' [(''delivery_quality'', dq), (''exact_files'', files)])
     (retM (result, t3)))))))))"

definition dispatchable :: "bool \<Rightarrow> subtask \<Rightarrow> bool" where
  "dispatchable remediation st \<longleftrightarrow> sb_status st \<noteq> ''completed''
     \<and> (remediation \<longrightarrow> sb_status st \<in> {''failed'', ''pending'', ''running''})"

text \<open>One subtask of the loop over ids: the numbers of dispatched and skipped subtasks, and the task object.\<close>

definition dispatch_next :: "task_host \<Rightarrow> string list \<Rightarrow> bool \<Rightarrow> bool \<Rightarrow> nat \<times> nat \<times> task \<Rightarrow> string \<Rightarrow> (nat \<times> nat \<times> task) tm" where
  "dispatch_next H command cancellable remediation = (\<lambda>(completed, skipped, t0) subtask_id. bindM (load_task (tsk_id t0)) (\<lambda>t.
     case List.find (\<lambda>st. sb_id st = subtask_id) (tsk_subtasks t) of
       None \<Rightarrow> retM (completed, Suc skipped, t)
     | Some st \<Rightarrow> if \<not> dispatchable remediation st then retM (completed, Suc skipped, t)
         else thenM (dispatch_subtask H command cancellable t st)
           (bindM (load_task (tsk_id t)) (\<lambda>t'. retM (Suc completed, skipped, t')))))"

definition dispatch_task_from_loop :: "task_host \<Rightarrow> string \<Rightarrow> string list \<Rightarrow> bool \<Rightarrow> bool \<Rightarrow> jobj tm" where
  "dispatch_task_from_loop H task_id command remediation cancellable = bindM (load_task task_id) (\<lambda>t0. bindM (mark_task_started t0) (\<lambda>t.
     if is_app_grade t then bindM (dispatch_app_grade_task H t) (\<lambda>(result, t1). bindM (load_task (tsk_id t1)) (\<lambda>now. retM [
       (''dispatch'', JStr ''completed''), (''adapter'', JStr ''runtime''), (''task_id'', JStr (tsk_id t1)), (''task_status'', JStr (tsk_status now)),
       (''completed_subtasks'', JInt (int (length (tsk_subtasks t1)))), (''failed_subtasks'', JInt 0), (''remediation'', JBool remediation),
       (''app_grade'', JObj [(''scenario_id'', jget result ''scenario_id''), (''delivery_quality'', jget result ''delivery_quality'')])]))
     else bindM (foldM (dispatch_next H command cancellable remediation) (0, 0, t) (map sb_id (dispatch_order t))) (\<lambda>(completed, skipped, t').
       let failed = length (filter (\<lambda>st. sb_status st = ''failed'') (tsk_subtasks t')) in
       retM [(''dispatch'', JStr (if failed = 0 then ''completed'' else ''failed'')), (''adapter'', JStr ''runtime''), (''task_id'', JStr (tsk_id t')),
         (''task_status'', JStr (tsk_status t')), (''completed_subtasks'', JInt (int completed)), (''skipped_subtasks'', JInt (int skipped)),
         (''failed_subtasks'', JInt (int failed)), (''remediation'', JBool remediation), (''project_root'', JStr (tsk_root t'))])))"

section \<open>Quality\<close>

definition task_history_key :: "jobj \<Rightarrow> json list" where
  "task_history_key item = [jget item ''id'', jget item ''state'', jget item ''repair_round'', jget item ''source_gate'']"

definition task_history_item :: "string \<Rightarrow> jobj \<Rightarrow> jobj" where
  "task_history_item task_id item = jset item ''metadata'' (JObj (jset (obj_or_empty (jget item ''metadata'')) ''task_id'' (JStr task_id)))"

definition add_history :: "string \<Rightarrow> jobj list \<Rightarrow> jobj \<Rightarrow> jobj list" where
  "add_history task_id history item = (let h = task_history_item task_id item in
     if list_ex (\<lambda>x. list_all2 py_eq (task_history_key x) (task_history_key h)) history then history else history @ [h])"

definition evaluate_task_quality :: "task_host \<Rightarrow> string \<Rightarrow> int \<Rightarrow> jobj tm" where
  "evaluate_task_quality H task_id rnd = bindM interpT (\<lambda>E. bindM (load_task task_id) (\<lambda>t. bindM (lookT H) (\<lambda>P.
     bindM (liftM (build_quality E (th_fs H) P t)) (\<lambda>report.
     let quality = normalize_quality_report E report ''task_quality'' ''task_quality'' None (Some (tsk_agent t)) (Some rnd);
         findings = List.map_filter as_obj (as_list (jget quality ''findings''));
         passed = quality_report_passed E quality;
         t1 = t\<lparr>tsk_finding_state := (case jget quality ''finding_state'' of JStr s \<Rightarrow> Some s | _ \<Rightarrow> None), tsk_findings := findings,
           tsk_history := foldl (add_history (tsk_id t)) (tsk_history t) findings, tsk_status := (if passed then ''completed'' else ''failed'')\<rparr> in
     bindM (save_task t1) (\<lambda>t2.
     thenM (append_event (tsk_id t2) (if passed then ''task.completed'' else ''task.failed'')
       (if passed then quality else jset quality ''failure_type'' (JStr (failure_type_for_reason ''quality_gate_failed''))))
     (retM quality))))))"

section \<open>The adapters of the agent loop\<close>

fun task_id_in_steps :: "json list \<Rightarrow> string option" where
  "task_id_in_steps [] = None"
| "task_id_in_steps (step # steps) =
     (case jget (obj_or_empty (jget (obj_or_empty step) ''observation'')) ''payload'' of
        JObj payload \<Rightarrow> (case jor (jget payload ''task_id'') (jget payload ''taskId'') of
            JStr v \<Rightarrow> if py_strip v \<noteq> [] then Some (py_strip v) else task_id_in_steps steps
          | _ \<Rightarrow> task_id_in_steps steps)
      | _ \<Rightarrow> task_id_in_steps steps)"

definition metadata_task_id :: "jobj \<Rightarrow> string \<Rightarrow> string option" where
  "metadata_task_id md k = (case jget md k of JStr v \<Rightarrow> if py_strip v \<noteq> [] then Some (py_strip v) else None | _ \<Rightarrow> None)"

definition task_id_from_loop_context :: "loop_run \<Rightarrow> jobj \<Rightarrow> string option" where
  "task_id_from_loop_context loop context = (case first_some (map (metadata_task_id (lr_metadata loop)) [''task_id'', ''taskId'']) of
      Some i \<Rightarrow> Some i
    | None \<Rightarrow> task_id_in_steps (List.rev (case jget context ''steps'' of JArr xs \<Rightarrow> xs | _ \<Rightarrow> [])))"

definition declaring_keys :: "string list" where
  "declaring_keys = [''deliverables'', ''requiredArtifacts'', ''required_artifacts'', ''subtasks'', ''taskTypes'', ''task_types'',
     ''agentAdapters'', ''agent_adapters'', ''strictDependency'', ''strict_dependency'']"

definition loop_declares_runtime_task :: "loop_run \<Rightarrow> bool" where
  "loop_declares_runtime_task loop = list_ex (jhas (lr_metadata loop)) declaring_keys"

definition loop_deliverables :: "pyenv \<Rightarrow> jobj \<Rightarrow> string list" where
  "loop_deliverables E md = (case jors [jget md ''deliverables'', jget md ''requiredArtifacts'', jget md ''required_artifacts''] of
      JArr (x # xs) \<Rightarrow> map (py_str E) (x # xs) | _ \<Rightarrow> [''README.md''])"

definition loop_subtasks :: "jobj \<Rightarrow> jobj list res" where
  "loop_subtasks md = (case jget md ''subtasks'' of
      JArr xs \<Rightarrow> mapE (\<lambda>x. case x of JObj o' \<Rightarrow> Inr o' | _ \<Rightarrow> Inl (AttributeError ''object has no attribute get'')) xs | _ \<Rightarrow> Inr [])"

definition create_task_for_loop :: "task_host \<Rightarrow> loop_run \<Rightarrow> task tm" where
  "create_task_for_loop H loop = (let md = lr_metadata loop in bindM interpT (\<lambda>E.
     bindM (liftM (loop_subtasks md)) (\<lambda>subtasks.
     bindM (planned_task H (lr_goal loop) (lr_project_root loop) subtasks (loop_deliverables E md) (lr_agent loop)
       (truthy (jor (jget md ''strictDependency'') (jget md ''strict_dependency'')))) (\<lambda>t0.
     bindM (liftM (py_iter (jors [jget md ''taskTypes'', jget md ''task_types'', JArr []]))) (\<lambda>types.
     let t1 = with_task_types (clean_task_types E types) t0 in
     bindM (liftM (normalize_agent_adapter_specs E (jors [jget md ''agentAdapters'', jget md ''agent_adapters'', JNull]))) (\<lambda>specs.
     let t2 = (if specs = [] then t1 else with_metadata ''agent_adapters'' (JObj specs) t1) in
     bindM (save_task (with_metadata ''agent_loop'' (JObj (loop_binding (lr_loop_id loop))) t2)) (\<lambda>t3.
     thenM (created_events t3 ''agent_loop.bound'' (loop_binding (lr_loop_id loop))) (retM t3))))))))"

text \<open>\<open>fallback\<close> is \<open>HostLoopDispatcher\<close>, which touches no task.\<close>

definition runtime_dispatch :: "task_host \<Rightarrow> (loop_run \<Rightarrow> string \<Rightarrow> jobj \<Rightarrow> json res) \<Rightarrow> string list \<Rightarrow> loop_run \<Rightarrow> string \<Rightarrow> jobj \<Rightarrow> json tm" where
  "runtime_dispatch H fallback command loop action_type context =
     (case task_id_from_loop_context loop context of
        Some task_id \<Rightarrow> bindM (dispatch_task_from_loop H task_id command (action_type = ''remediation_dispatch'') True) (\<lambda>r. retM (JObj r))
      | None \<Rightarrow> if \<not> loop_declares_runtime_task loop then liftM (fallback loop action_type context)
          else bindM (create_task_for_loop H loop) (\<lambda>t.
            thenM (loopT (thenM (updL (\<lambda>l. l\<lparr>lr_metadata := jset (lr_metadata l) ''task_id'' (JStr (tsk_id t))\<rparr>)) save_loop))
            (bindM (dispatch_task_from_loop H (tsk_id t) command (action_type = ''remediation_dispatch'') True) (\<lambda>r. retM (JObj r)))))"

definition quality_summary :: "pyenv \<Rightarrow> jobj \<Rightarrow> string res" where
  "quality_summary E quality = (let status = py_str E (jor (jget quality ''status'') (JStr ''unknown''));
       missing = jors [jget quality ''missing_artifacts'', jget quality ''missingArtifacts'', JArr []];
       present = jget quality ''present_artifacts''; required = jget quality ''required_artifacts'' in
     if truthy missing then bindE (py_iter missing) (\<lambda>xs.
       Inr (''Quality '' @ status @ ''; missing artifacts: '' @ py_join '', '' (map (py_str E) xs) @ ''.''))
     else Inr (if present \<noteq> JNull \<and> required \<noteq> JNull
       then ''Quality '' @ status @ ''; '' @ py_str E present @ ''/'' @ py_str E required @ '' required artifacts present.''
       else ''Quality '' @ status @ ''.''))"

definition remediation_rounds :: "loop_run \<Rightarrow> int" where
  "remediation_rounds loop = int (length (filter (\<lambda>s. step_type s = ''remediation_dispatch'') (lr_steps loop)))"

definition runtime_gate :: "task_host \<Rightarrow> loop_run \<Rightarrow> jobj \<Rightarrow> json tm" where
  "runtime_gate H loop context = (case task_id_from_loop_context loop context of
      None \<Rightarrow> liftM (default_quality_gate loop)
    | Some task_id \<Rightarrow> bindM interpT (\<lambda>E. bindM (load_task task_id) (\<lambda>t.
        bindM (evaluate_task_quality H (tsk_id t) (remediation_rounds loop)) (\<lambda>q.
        bindM (liftM (quality_summary E q)) (\<lambda>summary.
        retM (JObj (jset (jset (jset (jset q ''task_id'' (JStr task_id)) ''quality'' (JStr (py_str E (jor (jget q ''status'') (JStr ''failed'')))))
          ''passed'' (JBool (quality_report_passed E q))) ''summary'' (JStr summary)))))))) "

definition runtime_finalize :: "task_host \<Rightarrow> loop_run \<Rightarrow> jobj \<Rightarrow> jobj tm" where
  "runtime_finalize H loop context = bindM interpT (\<lambda>E. case task_id_from_loop_context loop context of
      None \<Rightarrow> liftM (default_finalize E loop)
    | Some task_id \<Rightarrow> bindM (load_task task_id) (\<lambda>t. bindM (lookT H) (\<lambda>P.
        bindM (liftM (build_quality E (th_fs H) P t)) (\<lambda>quality.
        let status = (if tsk_status t = [] then ''unknown'' else tsk_status t) in
        retM [(''final_output'', JStr (''Task '' @ tsk_id t @ '' '' @ status @ '' for: '' @ tsk_goal t)), (''status'', JStr status),
          (''task_id'', JStr (tsk_id t)), (''task_status'', JStr status),
          (''quality'', JStr (py_str E (jor (jget quality ''status'') (JStr ''unknown'')))),
          (''finding_state'', jget quality ''finding_state''), (''findings'', jor (jget quality ''findings'') (JArr [])),
          (''passed'', JBool (status = ''completed'' \<and> quality_report_passed E quality))]))))"

section \<open>Running a task\<close>

datatype loop_call =
    OwnWork "lstate \<Rightarrow> lstate"
  | DispatchCall loop_run string jobj
  | GateCall loop_run jobj
  | FinalizeCall loop_run jobj

text \<open>What a run of the loop does to tasks: an exception of an adapter is the loop's to handle.\<close>

definition loop_call_step :: "task_host \<Rightarrow> (loop_run \<Rightarrow> string \<Rightarrow> jobj \<Rightarrow> json res) \<Rightarrow> string list \<Rightarrow> loop_call \<Rightarrow> unit tm" where
  "loop_call_step H fallback command call = (case call of
      OwnWork f \<Rightarrow> modifyM (\<lambda>s. s\<lparr>ts_loop := f (ts_loop s)\<rparr>)
    | DispatchCall loop action_type context \<Rightarrow> thenM (tryM (runtime_dispatch H fallback command loop action_type context)) (retM ())
    | GateCall loop context \<Rightarrow> thenM (tryM (runtime_gate H loop context)) (retM ())
    | FinalizeCall loop context \<Rightarrow> thenM (tryM (runtime_finalize H loop context)) (retM ()))"

record loop_episode =
  ep_fallback :: "loop_run \<Rightarrow> string \<Rightarrow> jobj \<Rightarrow> json res"
  ep_calls :: "loop_call list"
  ep_end :: "loop_run res"

definition loop_event_type :: "string \<Rightarrow> string" where
  "loop_event_type status = (if status \<in> {''completed'', ''failed'', ''awaiting_approval'', ''stopped'', ''cancelled''}
     then ''agent_loop.'' @ status else ''agent_loop.updated'')"

definition loop_outcome :: "pyenv \<Rightarrow> loop_run \<Rightarrow> jobj" where
  "loop_outcome E loop = [(''status'', JStr (lr_status loop)), (''turn_count'', JInt (lr_turn_count loop)),
     (''checkpoint_count'', JInt (int (lr_checkpoint_count loop))), (''error'', jopt (lr_error loop)),
     (''finding_state'', jopt (lr_finding_state loop)), (''failed_gates'', jstrs (failed_gate_ids_from_findings E (objs (lr_findings loop)))),
     (''findings'', objs (lr_findings loop))]
     @ (if lr_status loop \<in> {''failed'', ''stopped''} then [(''failure_type'', JStr (failure_type_for_loop E loop None))] else [])"

definition synced_status :: "string \<Rightarrow> string \<Rightarrow> string option" where
  "synced_status loop_status task_status = (if loop_status = ''cancelled'' then Some ''cancelled''
     else if loop_status \<in> {''failed'', ''stopped''} then Some ''failed''
     else if loop_status = ''completed'' \<and> task_status \<notin> set TERMINAL_TASK_STATUSES then Some ''completed'' else None)"

definition sync_task_status_from_loop :: "task \<Rightarrow> loop_run \<Rightarrow> task tm" where
  "sync_task_status_from_loop t loop = bindM interpT (\<lambda>E. case synced_status (lr_status loop) (tsk_status t) of
      None \<Rightarrow> retM t
    | Some target \<Rightarrow> if tsk_status t = target then retM t
        else thenM (append_event (tsk_id t)
          (if target = ''completed'' then ''task.completed'' else if target = ''cancelled'' then ''task.cancelled'' else ''task.failed'')
          ([(''loop_id'', JStr (lr_loop_id loop)), (''loop_status'', JStr (lr_status loop)), (''error'', jopt (lr_error loop)),
            (''finding_state'', jopt (lr_finding_state loop)), (''failed_gates'', jstrs (failed_gate_ids_from_findings E (objs (lr_findings loop)))),
            (''findings'', objs (lr_findings loop))]
            @ (if target = ''failed'' then [(''failure_type'', JStr (failure_type_for_loop E loop None))] else [])))
          (retM (t\<lparr>tsk_status := target\<rparr>)))"

definition bound_loop_id :: "pyenv \<Rightarrow> task \<Rightarrow> string res" where
  "bound_loop_id E t = bindE (dict_or_empty (jget (tsk_metadata t) ''agent_loop'')) (\<lambda>o'. Inr (py_str E (jor (jget o' ''loop_id'') (JStr []))))"

definition update_agent_loop :: "pyenv \<Rightarrow> loop_run \<Rightarrow> task \<Rightarrow> task res" where
  "update_agent_loop E loop t = (case jget_d (tsk_metadata t) ''agent_loop'' (JObj []) of
      JObj o' \<Rightarrow> Inr (with_metadata ''agent_loop'' (JObj (jmerge o' (loop_outcome E loop))) t)
    | _ \<Rightarrow> Inl (AttributeError ''object has no attribute update''))"

text \<open>The value says whether the task has a loop.\<close>

definition run_task_loop :: "task_host \<Rightarrow> string list \<Rightarrow> loop_episode \<Rightarrow> task \<Rightarrow> bool tm" where
  "run_task_loop H command ep t = bindM interpT (\<lambda>E. bindM (liftM (bound_loop_id E t)) (\<lambda>loop_id.
     if loop_id = [] then retM False
     else thenM (forM (ep_calls ep) (loop_call_step H (ep_fallback ep) command))
       (bindM (liftM (ep_end ep)) (\<lambda>loop.
       thenM (append_event (tsk_id t) (loop_event_type (lr_status loop)) ((''loop_id'', JStr (lr_loop_id loop)) # loop_outcome E loop))
       (bindM (load_task (tsk_id t)) (\<lambda>current. bindM (liftM (update_agent_loop E loop current)) (\<lambda>current1.
       bindM (sync_task_status_from_loop current1 loop) (\<lambda>current2. thenM (save_task current2) (retM True)))))))))"

definition run_open_subtask :: "task_host \<Rightarrow> string list \<Rightarrow> task \<Rightarrow> string \<Rightarrow> task tm" where
  "run_open_subtask H command t subtask_id = (case List.find (\<lambda>st. sb_id st = subtask_id) (tsk_subtasks t) of
      None \<Rightarrow> retM t
    | Some st \<Rightarrow> if sb_status st = ''completed'' then retM t else dispatch_subtask H command False t st)"

definition run_task :: "task_host \<Rightarrow> string \<Rightarrow> string list \<Rightarrow> loop_episode \<Rightarrow> task tm" where
  "run_task H task_id command ep = bindM (load_task task_id) (\<lambda>t.
     if tsk_status t \<in> set TERMINAL_TASK_STATUSES then retM t
     else if jget (tsk_metadata t) ''execution_mode'' = JStr ''remote_worker'' then retM t
     else bindM (mark_task_started t) (\<lambda>t1. bindM (run_task_loop H command ep t1) (\<lambda>looped.
       if looped then load_task (tsk_id t1)
       else if is_app_grade t1 then
         thenM (dispatch_app_grade_task H t1) (thenM (evaluate_task_quality H (tsk_id t1) 0) (load_task (tsk_id t1)))
       else thenM (foldM (run_open_subtask H command) t1 (map sb_id (dispatch_order t1)))
         (thenM (evaluate_task_quality H (tsk_id t1) 0) (load_task (tsk_id t1))))))"

section \<open>Cancellation and views\<close>

text \<open>\<open>task.error\<close> is no field of \<open>Task\<close>: the reason stays on the object and is not written.\<close>

definition cancel_task :: "task_host \<Rightarrow> string \<Rightarrow> string \<Rightarrow> task tm" where
  "cancel_task H task_id reason = bindM interpT (\<lambda>E. bindM (load_task task_id) (\<lambda>t.
     if tsk_status t \<in> set TERMINAL_TASK_STATUSES then retM t
     else bindM (liftM (bound_loop_id E t)) (\<lambda>loop_id.
       thenM (if loop_id = [] then retM () else loopT (cancel_loop (th_loop_adapters H) (th_lock_free H) loop_id reason (JStr ''user'')))
       (bindM (save_task (t\<lparr>tsk_status := ''cancelled''\<rparr>)) (\<lambda>t'.
        thenM (append_event (tsk_id t') ''task.cancelled'' [(''reason'', JStr reason), (''source'', JStr ''host'')]) (retM t'))))))"

definition agent_loop_summary :: "task \<Rightarrow> jobj option tm" where
  "agent_loop_summary t = bindM interpT (\<lambda>E. bindM (liftM (bound_loop_id E t)) (\<lambda>loop_id.
     if loop_id = [] then retM None
     else bindM (getsM (\<lambda>s. map_of (ls_loops (ts_loop s)) loop_id)) (\<lambda>found. case found of
        None \<Rightarrow> retM (Some [(''loop_id'', JStr loop_id), (''status'', JStr ''missing''), (''step_count'', JInt 0), (''checkpoint_count'', JInt 0),
          (''action_types'', JArr [])])
      | Some loop \<Rightarrow> bindM (getsM (\<lambda>s. log_entries (ls_events (ts_loop s)) (lr_loop_id loop))) (\<lambda>events. retM (Some [
          (''loop_id'', JStr (lr_loop_id loop)), (''status'', JStr (lr_status loop)), (''agent'', JStr (lr_agent loop)),
          (''turn_count'', JInt (lr_turn_count loop)), (''step_count'', JInt (int (length (lr_steps loop)))),
          (''checkpoint_count'', JInt (int (lr_checkpoint_count loop))), (''action_types'', jstrs (map step_type (lr_steps loop))),
          (''memory_policy'', JObj (lr_memory_policy loop)), (''approval_policy'', JObj (lr_approval_policy loop)),
          (''finding_state'', jopt (lr_finding_state loop)), (''findings'', objs (lr_findings loop)),
          (''finding_history'', objs (lr_finding_history loop)), (''final_output'', lr_final_output loop), (''events'', objs events)])))))"

definition evidence_bundle :: "task_host \<Rightarrow> string \<Rightarrow> jobj tm" where
  "evidence_bundle H task_id = bindM interpT (\<lambda>E. bindM (load_task task_id) (\<lambda>t. bindM (list_events task_id) (\<lambda>events. bindM (lookT H) (\<lambda>P.
     bindM (liftM (build_evidence_bundle E (th_fs H) P t events)) (\<lambda>bundle. bindM (agent_loop_summary t) (\<lambda>summary.
     retM (case summary of None \<Rightarrow> bundle | Some s \<Rightarrow> jset bundle ''agent_loop'' (JObj s))))))))"

definition quality_benchmark :: "task_host \<Rightarrow> string \<Rightarrow> jobj tm" where
  "quality_benchmark H task_id = bindM interpT (\<lambda>E. bindM (load_task task_id) (\<lambda>t. bindM (lookT H) (\<lambda>P.
     liftM (build_quality E (th_fs H) P t))))"

section \<open>The engine\<close>

fun first_agent :: "pyenv \<Rightarrow> json list \<Rightarrow> string option" where
  "first_agent E [] = None"
| "first_agent E (v # vs) = (let agent = py_strip (py_str E (jor v (JStr []))) in if agent \<noteq> [] then Some agent else first_agent E vs)"

definition context_agent :: "pyenv \<Rightarrow> jobj \<Rightarrow> string res" where
  "context_agent E context = (if truthy (jget context ''agent'') then Inr (py_str E (jget context ''agent''))
     else bindE (py_iter (jor (jget context ''allowed_subtask_agents'') (JArr []))) (\<lambda>xs. case first_agent E xs of
        Some a \<Rightarrow> Inr a
      | None \<Rightarrow> bindE (py_iter (jor (jget context ''agents'') (JArr []))) (\<lambda>ys. Inr (opt_or (first_agent E ys) ''demo''))))"

definition subtask_spec :: "pyenv \<Rightarrow> jobj \<Rightarrow> nat \<Rightarrow> string list \<Rightarrow> string \<Rightarrow> jobj option res" where
  "subtask_spec E item index deliverables default_agent = (let
     named = jors [jget item ''path'', jget item ''path_hint'', jget item ''output_file''];
     path = (if \<not> truthy named \<and> index \<le> length deliverables then JStr (deliverables ! (index - 1)) else named) in
     if \<not> truthy path then Inr None
     else bindE (py_int (jors [jget item ''wave'', jget item ''wave_number'', JInt (int index)])) (\<lambda>wave.
       bindE (py_int (jor (jget item ''priority'') (JInt (int index)))) (\<lambda>priority.
       bindE (str_list_of E (jget item ''dependencies'')) (\<lambda>deps.
       Inr (Some [(''id'', JStr (py_str E (jors [jget item ''id'', jget item ''subtask_id'', JStr (''stage-'' @ nat_str index)]))),
         (''description'', JStr (py_str E (jors [jget item ''description'', jget item ''goal'', JStr (''Produce '' @ py_str E path @ ''.'')]))),
         (''path'', JStr (py_str E path)),
         (''agent'', JStr (py_str E (jors [jget item ''agent'', jget item ''agent_id'', JStr default_agent]))),
         (''wave'', JInt wave), (''priority'', JInt priority), (''dependencies'', jstrs deps)])))))"

definition subtasks_from_items :: "pyenv \<Rightarrow> jobj list \<Rightarrow> string list \<Rightarrow> string \<Rightarrow> jobj list res" where
  "subtasks_from_items E items deliverables agent =
     bindE (mapE (\<lambda>(i, item). subtask_spec E item i deliverables agent) (enumerate 1 items)) (\<lambda>specs. Inr (List.map_filter id specs))"

text \<open>\<open>decompose\<close> is the owner agent: the subtasks it puts into the planning task. Items are dictionaries.\<close>

definition engine_submit_task :: "task_host \<Rightarrow> (string \<Rightarrow> string \<Rightarrow> jobj \<Rightarrow> jobj list) \<Rightarrow> string \<Rightarrow> jobj \<Rightarrow> string tm" where
  "engine_submit_task H decompose goal context = bindM interpT (\<lambda>E.
     let project_root = py_str E (jors [jget context ''project_root'', jget context ''project_dir'', JStr ''.'']) in
     bindM (liftM (str_list_of E (jor (jget context ''deliverables'') (jstrs [''README.md''])))) (\<lambda>deliverables.
     bindM (liftM (context_agent E context)) (\<lambda>agent.
     bindM (liftM (if jget context ''subtasks'' \<noteq> JNull then bindE (py_iter (jor (jget context ''subtasks'') (JArr [])))
         (mapE (\<lambda>x. case x of JObj o' \<Rightarrow> Inr o' | _ \<Rightarrow> Inl (TypeError ''dictionary items only''))) else Inr (decompose goal project_root context))) (\<lambda>items.
     bindM (liftM (subtasks_from_items E items deliverables agent)) (\<lambda>specs.
     bindM (liftM (py_iter (jor (jget context ''task_types'') (JArr [])))) (\<lambda>types.
     bindM (submit_task H \<lparr>tq_goal = goal, tq_project_root = project_root, tq_deliverables = deliverables, tq_agent = agent, tq_subtasks = specs,
       tq_strict = truthy (jget_d context ''strict_dependency'' (JBool True)), tq_types = types,
       tq_adapters = jors [jget context ''agent_adapters'', jget context ''agentAdapters'', JNull], tq_metadata = []\<rparr>) (\<lambda>t.
     retM (tsk_id t))))))))"

definition resume_task :: "task_host \<Rightarrow> string \<Rightarrow> loop_episode \<Rightarrow> task tm" where
  "resume_task H task_id ep = run_task H task_id [] ep"

end
