(* ===== verification/TaskFacts.thy ===== *)
theory TaskFacts
  imports TaskRuntime
begin

text \<open>
  Facts about tasks: what a task file gives back, the order in which subtasks run, strict chains, and
  what an evidence receipt guarantees.
\<close>

section \<open>Task files\<close>

lemma mapE_dec_str [simp]: "mapE dec_str (map JStr ss) = Inr ss"
  by (induction ss) (simp_all add: dec_str_def)

lemma dec_simps [simp]:
  "dec_str (JStr s) = Inr s" "dec_opt (jopt x) = Inr x" "dec_int (JInt i) = Inr i" "dec_strs (jstrs ss) = Inr ss" "dec_obj (JObj o') = Inr o'"
  by (simp_all add: dec_str_def dec_opt_def dec_int_def dec_strs_def dec_obj_def jopt_def jstrs_def split: option.splits)

lemma jhas_first [simp]: "jhas ((k, v) # o') k' \<longleftrightarrow> k = k' \<or> jhas o' k'"
  by (auto simp: jhas_def)

lemma subtask_roundtrip: "subtask_from_dict (JObj (subtask_to_dict st)) = Inr st"
  by (simp add: subtask_from_dict_def subtask_to_dict_def Let_def)

lemma mapE_subtasks: "mapE subtask_from_dict (map (JObj \<circ> subtask_to_dict) sts) = Inr sts"
  by (induction sts) (simp_all add: subtask_roundtrip)

lemma only_objects_objs [simp]: "only_objects (objs os) = Inr os"
  by (simp add: only_objects_def objs_def comp_def)

text \<open>A task whose file gives it back as it is: no status that is read as another, and no task of the old
  application scenario, whose agents are migrated.\<close>

definition plain_task :: "task \<Rightarrow> bool" where
  "plain_task t \<longleftrightarrow> tsk_status t \<notin> {[], ''stopped''} \<and> \<not> is_app_grade t"

lemma task_file_roundtrip: "plain_task t \<Longrightarrow> task_from_dict E created updated (task_to_dict t) = Inr t"
proof -
  assume p: "plain_task t"
  have subs: "py_iter (objs (map subtask_to_dict (tsk_subtasks t))) = Inr (map (JObj \<circ> subtask_to_dict) (tsk_subtasks t))"
    by (simp add: objs_def)
  have m: "migrate_legacy_app_grade_agents E x = Inr x" if "tsk_contract x = tsk_contract t" for x
    using p that by (simp add: migrate_legacy_app_grade_agents_def plain_task_def is_app_grade_def)
  show ?thesis
    using p by (simp add: task_from_dict_def task_to_dict_def subs mapE_subtasks require_key_def m plain_task_def status_alias_def)
qed

section \<open>Order of dispatch\<close>

lemma sorted_before:
  assumes "sorted (map f xs)" "a \<in> set xs" "b \<in> set xs" "f a < f b"
  shows "\<exists>us vs ws. xs = us @ a # vs @ b # ws"
proof -
  obtain us rest where xs: "xs = us @ a # rest" using split_list [OF assms(2)] by blast
  have "b \<notin> set us"
  proof
    assume "b \<in> set us"
    then have "f b \<le> f a" using assms(1) unfolding xs by (auto simp: sorted_append)
    with assms(4) show False by simp
  qed
  then have "b \<in> set rest" using assms(3,4) unfolding xs by auto
  then show ?thesis unfolding xs by (metis split_list)
qed

lemma dispatch_order_sorted: "sorted (map (\<lambda>st. (sb_wave st, sb_priority st, sb_id st)) (dispatch_order t))"
  by (simp add: dispatch_order_def)

lemma set_dispatch_order [simp]: "set (dispatch_order t) = set (tsk_subtasks t)"
  by (simp add: dispatch_order_def)

lemma distinct_dispatch_order:
  "distinct (map sb_id (tsk_subtasks t)) \<Longrightarrow> distinct (map sb_id (dispatch_order t))"
  by (auto simp: dispatch_order_def distinct_map)

lemma earlier_wave_first:
  assumes "dep \<in> set (tsk_subtasks t)" "st \<in> set (tsk_subtasks t)" "sb_wave dep < sb_wave st"
  shows "\<exists>us vs ws. dispatch_order t = us @ dep # vs @ st # ws"
  using sorted_before [OF dispatch_order_sorted, of dep t st] assms by (simp add: less_prod_simp)

lemma subtask_by_id_Some: "subtask_by_id t i = Some st \<Longrightarrow> st \<in> set (tsk_subtasks t) \<and> sb_id st = i"
  using find_Some_mem [of "\<lambda>st. sb_id st = i" "List.rev (tsk_subtasks t)" st] by (simp add: subtask_by_id_def)

section \<open>Strict chains\<close>

abbreviation rising :: "subtask list \<Rightarrow> bool" where
  "rising sts \<equiv> sorted_wrt (\<lambda>a b. sb_wave a < sb_wave b) sts"

lemma rising_dispatch_order: "rising (tsk_subtasks t) \<Longrightarrow> dispatch_order t = tsk_subtasks t"
proof -
  assume r: "rising (tsk_subtasks t)"
  then have "sorted (map (\<lambda>st. (sb_wave st, sb_priority st, sb_id st)) (tsk_subtasks t))"
    by (auto simp: sorted_map less_eq_prod_def elim: sorted_wrt_mono_rel [rotated])
  then show ?thesis by (simp add: dispatch_order_def sort_key_id_if_sorted)
qed

text \<open>Every subtask but the first depends on its predecessor.\<close>

fun chained :: "subtask list \<Rightarrow> bool" where
  "chained (a # b # sts) \<longleftrightarrow> sb_deps b = [sb_id a] \<and> sb_wave a < sb_wave b \<and> chained (b # sts)"
| "chained sts \<longleftrightarrow> True"

lemma linked_id [simp]: "sb_id (linked n p st) = sb_id st"
  by (cases p) (simp_all add: linked_def Let_def)

lemma linked_to: "sb_deps st = [] \<Longrightarrow> sb_deps (linked n (Some p) st) = [sb_id p] \<and> sb_wave p < sb_wave (linked n (Some p) st)"
  by (simp add: linked_def Let_def)

lemma chain_from_ids [simp]: "map sb_id (chain_from n p sts) = map sb_id sts"
  by (induction n p sts rule: chain_from.induct) simp_all

lemma chain_from_chained: "list_all (\<lambda>st. sb_deps st = []) sts \<Longrightarrow> chained (q # chain_from n (Some q) sts)"
  by (induction sts arbitrary: n q) (simp_all add: linked_to)

lemma chain_chained: "list_all (\<lambda>st. sb_deps st = []) sts \<Longrightarrow> chained (chain_from n None sts)"
  by (cases sts) (simp_all add: chain_from_chained)

lemma chained_rising: "chained sts \<Longrightarrow> rising sts"
proof (induction sts rule: chained.induct)
  case (1 a b sts)
  then show ?case by auto
qed auto

lemma chained_dep:
  "chained sts \<Longrightarrow> st \<in> set (tl sts) \<Longrightarrow> \<exists>a\<in>set sts. sb_deps st = [sb_id a] \<and> sb_wave a < sb_wave st"
  by (induction sts rule: chained.induct) auto

section \<open>What the operations leave alone\<close>

abbreviation kept :: "tstate \<Rightarrow> tstate \<Rightarrow> bool" where
  "kept s s' \<equiv> ts_tasks s' = ts_tasks s \<and> ts_runs s' = ts_runs s"

text \<open>An operation that touches neither the task files nor the log of runs.\<close>

definition quiet :: "'a tm \<Rightarrow> bool" where
  "quiet m \<longleftrightarrow> (\<forall>s. kept s (snd (m s)))"

lemma quietI: "(\<And>s. kept s (snd (m s))) \<Longrightarrow> quiet m"
  by (simp add: quiet_def)

lemma quiet_base [intro!, simp]:
  "quiet (retM x)" "quiet (raiseM e)" "quiet (getsM g)" "quiet (liftM r)" "quiet (guardM b e)"
  by (simp_all add: quiet_def monad_defs)

lemma quiet_bindM [intro!]: "quiet m \<Longrightarrow> (\<And>x. quiet (f x)) \<Longrightarrow> quiet (bindM m f)"
  unfolding quiet_def bindM_def by (auto split: prod.splits sum.splits) (metis snd_conv)+

lemma quiet_thenM [intro!]: "quiet m \<Longrightarrow> quiet n \<Longrightarrow> quiet (thenM m n)"
  unfolding thenM_def by blast

lemma quiet_if [intro!]: "(b \<Longrightarrow> quiet m) \<Longrightarrow> (\<not> b \<Longrightarrow> quiet n) \<Longrightarrow> quiet (if b then m else n)"
  by simp

lemma quiet_loopT [intro!, simp]: "quiet (loopT m)"
  by (auto simp: quiet_def loopT_def split: prod.splits)

lemma quiet_interpT [intro!, simp]: "quiet interpT"
  by (simp add: interpT_def)

lemma quiet_poll [simp]: "quiet (poll_cancelled c)"
  by (simp add: poll_cancelled_def)

lemma quiet_append_event [simp]: "quiet (append_event i k p)"
  unfolding append_event_def by (intro quiet_bindM quiet_interpT quiet_loopT) (simp add: quiet_def modifyM_def)

lemma wp_quiet:
  assumes "quiet m" "\<And>x s'. kept s s' \<Longrightarrow> Q x s'" "\<And>e s'. kept s s' \<Longrightarrow> X e s'"
  shows "wpM m Q X s"
  using assms(1) unfolding quiet_def wpM_def
  by (auto split: prod.splits sum.splits intro!: assms(2,3)) (metis snd_conv)+

lemma wp_tryM: "wpM (tryM m) Q X s \<longleftrightarrow> wpM m (\<lambda>x. Q (Inr x)) (\<lambda>e. Q (Inl e)) s"
  unfolding tryM_def wpM_catchM wpM_bindM wpM_retM ..

lemma loopT_returns: "(\<And>l. \<exists>x l'. m l = (Inr x, l')) \<Longrightarrow> wpM (loopT m) (\<lambda>x s'. kept s s') (\<lambda>e s'. False) s"
proof -
  assume "\<And>l. \<exists>x l'. m l = (Inr x, l')"
  then obtain x l' where "m (ts_loop s) = (Inr x, l')" by blast
  then show ?thesis by (simp add: wpM_def loopT_def)
qed

lemma clock_returns: "wpM (loopT nowL) (\<lambda>x s'. kept s s') (\<lambda>e s'. False) s" "wpM (loopT uuidL) (\<lambda>x s'. kept s s') (\<lambda>e s'. False) s"
  by (rule loopT_returns, simp add: nowL_def uuidL_def monad_defs)+

lemma wp_clock: "(\<And>x s'. kept s s' \<Longrightarrow> Q x s') \<Longrightarrow> wpM (loopT nowL) Q X s" "(\<And>x s'. kept s s' \<Longrightarrow> R x s') \<Longrightarrow> wpM (loopT uuidL) R X s"
  by (rule wpM_conseq [OF clock_returns(1)]; simp) (rule wpM_conseq [OF clock_returns(2)]; simp)

lemma wp_append_event: "(\<And>s'. kept s s' \<Longrightarrow> Q () s') \<Longrightarrow> wpM (append_event i k p) Q X s"
  unfolding append_event_def interpT_def by (intro vcg wp_clock) simp

lemma wp_save_task:
  "(\<And>u s'. ts_tasks s' = coll_upd (tsk_id t) (task_to_dict (t\<lparr>tsk_updated := u\<rparr>)) (ts_tasks s) \<Longrightarrow> ts_runs s' = ts_runs s
      \<Longrightarrow> Q (t\<lparr>tsk_updated := u\<rparr>) s') \<Longrightarrow> wpM (save_task t) Q X s"
  unfolding save_task_def Let_def by (intro vcg wp_clock) simp

lemma wp_load_task:
  "map_of (ts_tasks s) i = Some (task_to_dict t) \<Longrightarrow> plain_task t \<Longrightarrow> (\<And>s'. kept s s' \<Longrightarrow> Q t s') \<Longrightarrow> wpM (load_task i) Q X s"
  unfolding load_task_def interpT_def by (intro vcg wp_clock) (simp_all add: task_file_roundtrip)

section \<open>One subtask\<close>

definition finished :: "subtask \<Rightarrow> subtask" where
  "finished st = st\<lparr>sb_status := ''completed'', sb_attempts := sb_attempts st + 1, sb_error := None\<rparr>"

lemma put_subtask_simps [simp]:
  "tsk_id (put_subtask st t) = tsk_id t" "tsk_contract (put_subtask st t) = tsk_contract t" "tsk_status (put_subtask st t) = tsk_status t"
  "tsk_metadata (put_subtask st t) = tsk_metadata t"
  "tsk_subtasks (put_subtask st t) = map (\<lambda>x. if sb_id x = sb_id st then st else x) (tsk_subtasks t)"
  by (simp_all add: put_subtask_def)

lemma wp_persist:
  "(\<And>md s'. kept s s' \<Longrightarrow> Q (t\<lparr>tsk_metadata := md\<rparr>) s') \<Longrightarrow> (\<And>e s'. kept s s' \<Longrightarrow> X e s')
     \<Longrightarrow> wpM (persist_managed_adapter_artifact F loads d t st r) Q X s"
  unfolding persist_managed_adapter_artifact_def interpT_def by (intro vcg) simp_all

lemma wp_try_poll: "(\<And>r s'. kept s s' \<Longrightarrow> Q r s') \<Longrightarrow> wpM (tryM (poll_cancelled c)) Q X s"
  unfolding wp_tryM by (rule wp_quiet [OF quiet_poll])

lemma wp_try_persist:
  "(\<And>md s'. kept s s' \<Longrightarrow> Q (Inr (t\<lparr>tsk_metadata := md\<rparr>)) s') \<Longrightarrow> (\<And>e s'. kept s s' \<Longrightarrow> Q (Inl e) s')
     \<Longrightarrow> wpM (tryM (persist_managed_adapter_artifact F loads d t st r)) Q X s"
  unfolding wp_tryM by (rule wp_persist)

lemma wp_attempt_subtask:
  assumes ran: "\<And>answer md s'. ts_tasks s' = ts_tasks s \<Longrightarrow> ts_runs s' = ts_runs s @ [(tsk_id t, sb_id st)] \<Longrightarrow> Q (answer, t\<lparr>tsk_metadata := md\<rparr>) s'"
    and refused: "\<And>e s'. kept s s' \<Longrightarrow> Q (Inl e, t) s'"
  shows "wpM (attempt_subtask H command c t st) Q X s"
  unfolding attempt_subtask_def interpT_def Let_def
  by (intro vcg wp_try_poll wp_try_persist) (auto simp: ran refused)

text \<open>A dispatched subtask is finished, or the dispatch raises; then the task file is as before or differs in
  that subtask, the status and what the adapter left in the metadata.\<close>

lemma wp_record_sandbox:
  "(\<And>md s'. kept s s' \<Longrightarrow> Q (t\<lparr>tsk_metadata := md\<rparr>) s') \<Longrightarrow> (\<And>e s'. kept s s' \<Longrightarrow> X e s')
     \<Longrightarrow> wpM (record_sandbox_execution t st r) Q X s"
proof -
  assume Q: "\<And>md s'. kept s s' \<Longrightarrow> Q (t\<lparr>tsk_metadata := md\<rparr>) s'" and X: "\<And>e s'. kept s s' \<Longrightarrow> X e s'"
  have same: "Q t s" using Q [of s "tsk_metadata t"] by simp
  have entry: "add_sandbox_execution t en = Inr t' \<Longrightarrow> \<exists>md. t' = t\<lparr>tsk_metadata := md\<rparr>" for en t'
    by (auto simp: add_sandbox_execution_def with_metadata_def split: json.splits)
  show ?thesis
    unfolding record_sandbox_execution_def Let_def
    by (cases r; simp add: wp same; cases "jget (the (as_obj r)) ''sandbox_receipt''"; simp add: wp same)
      (auto simp: wp split: sum.splits dest!: entry intro!: wp_append_event Q X)
qed

definition ended :: "subtask \<Rightarrow> subtask \<Rightarrow> bool" where
  "ended st st' \<longleftrightarrow> sb_id st' = sb_id st \<and> sb_status st' \<in> {''failed'', ''cancelled''}"

lemma wp_dispatch_subtask:
  assumes ok: "\<And>md u s'. let t' = (put_subtask (finished st) t)\<lparr>tsk_metadata := md, tsk_updated := u\<rparr> in
       ts_tasks s' = coll_upd (tsk_id t) (task_to_dict t') (ts_tasks s) \<longrightarrow> ts_runs s' = ts_runs s @ [(tsk_id t, sb_id st)] \<longrightarrow> Q t' s'"
    and unsaved: "\<And>e s'. ts_tasks s' = ts_tasks s \<Longrightarrow> ts_runs s' \<in> {ts_runs s, ts_runs s @ [(tsk_id t, sb_id st)]} \<Longrightarrow> X e s'"
    and saved: "\<And>e st' t' s'. ended st st' \<Longrightarrow> tsk_subtasks t' = tsk_subtasks (put_subtask st' t) \<Longrightarrow> tsk_id t' = tsk_id t
       \<Longrightarrow> ts_tasks s' = coll_upd (tsk_id t) (task_to_dict t') (ts_tasks s)
       \<Longrightarrow> ts_runs s' \<in> {ts_runs s, ts_runs s @ [(tsk_id t, sb_id st)]} \<Longrightarrow> X e s'"
  shows "wpM (dispatch_subtask H command c t st) Q X s"
proof -
  let ?st = "st\<lparr>sb_status := ''running'', sb_attempts := sb_attempts st + 1\<rparr>"
  let ?runs = "{ts_runs s, ts_runs s @ [(tsk_id t, sb_id st)]}"
  have put: "put_subtask b (put_subtask a x) = put_subtask b x" if "sb_id a = sb_id b" for a b x
    using that by (simp add: put_subtask_def)
  have failed: "wpM (subtask_failed t2 ?st e) Q X s'"
    if "ts_tasks s' = ts_tasks s" "ts_runs s' \<in> ?runs" "t2 = (put_subtask ?st t)\<lparr>tsk_metadata := md\<rparr>" for e t2 s' md
    unfolding subtask_failed_def Let_def that(3)
    by (intro vcg wp_append_event wp_save_task)
      (rule saved [where st' = "?st\<lparr>sb_status := ''failed'', sb_error := Some (exc_str e)\<rparr>"]; use that(1,2) in \<open>simp add: ended_def\<close>)
  have cancelled: "wpM (subtask_cancelled t2 ?st r cat) Q X s'"
    if "ts_tasks s' = ts_tasks s" "ts_runs s' \<in> ?runs" "t2 = (put_subtask ?st t)\<lparr>tsk_metadata := md\<rparr>" for r cat t2 s' md
    unfolding subtask_cancelled_def interpT_def Let_def that(3)
  proof (intro vcg wp_append_event wp_save_task, goal_cases)
    case (1 e)
    show ?case by (rule unsaved [OF that(1,2)])
  next
    case (2 x s1 u s2 s3)
    then show ?case
      using that(1,2) by (intro saved [where st' = "?st\<lparr>sb_status := ''cancelled'', sb_error := Some r\<rparr>"]) (simp_all add: ended_def)
  qed
  have raised: "wpM (case answer of Inl (ActionCancelledError r cat) \<Rightarrow> subtask_cancelled t2 ?st r cat | Inl e \<Rightarrow> subtask_failed t2 ?st e
       | Inr result \<Rightarrow> subtask_completed t2 ?st result) Q X s'"
    if "answer = Inl e" "ts_tasks s' = ts_tasks s" "ts_runs s' \<in> ?runs" "t2 = (put_subtask ?st t)\<lparr>tsk_metadata := md\<rparr>" for answer e t2 s' md
    unfolding that(1) by (cases e) (simp_all only: sum.case py_exc.case, (rule failed [OF that(2-4)] cancelled [OF that(2-4)])+)
  have completed: "wpM (subtask_completed t2 ?st r) Q X s'"
    if s': "ts_tasks s' = ts_tasks s" "ts_runs s' = ts_runs s @ [(tsk_id t, sb_id st)]" and t2: "t2 = (put_subtask ?st t)\<lparr>tsk_metadata := md\<rparr>" for r t2 s' md
  proof -
    have fin: "(put_subtask (st\<lparr>sb_attempts := sb_attempts st + 1, sb_status := ''completed'', sb_error := None\<rparr>) (put_subtask ?st t\<lparr>tsk_metadata := md\<rparr>))
        = (put_subtask (finished st) t)\<lparr>tsk_metadata := md\<rparr>" for md
      by (simp add: put_subtask_def finished_def comp_def)
    show ?thesis
      unfolding subtask_completed_def Let_def t2
      by (intro vcg wp_record_sandbox wp_append_event wp_save_task)
        (use ok s' in \<open>simp_all add: fin Let_def unsaved\<close>)
  qed
  show ?thesis
    unfolding dispatch_subtask_def Let_def
  proof (intro vcg_thenM vcg_bindM wp_append_event wp_attempt_subtask, goal_cases)
    case (1 s1 answer md s2)
    then show ?case
      using completed [of s2 "put_subtask ?st t\<lparr>tsk_metadata := md\<rparr>" md] raised [of answer _ s2 "put_subtask ?st t\<lparr>tsk_metadata := md\<rparr>" md]
      by (cases answer) simp_all
  next
    case (2 s1 e s2)
    then show ?case using raised [of "Inl e" e s2 "put_subtask ?st t" "tsk_metadata t"] by simp
  qed
qed

section \<open>All subtasks of a task\<close>

definition due :: "bool \<Rightarrow> subtask list \<Rightarrow> string list" where
  "due remediation sts = map sb_id (filter (dispatchable remediation) sts)"

lemma due_simps [simp]:
  "due m [] = []" "due m (xs @ ys) = due m xs @ due m ys"
  "due m (st # sts) = (if dispatchable m st then sb_id st # due m sts else due m sts)"
  by (simp_all add: due_def)

lemma due_ids: "set (due m sts) \<subseteq> sb_id ` set sts"
  by (auto simp: due_def)

definition with_finished :: "string list \<Rightarrow> subtask list \<Rightarrow> subtask list" where
  "with_finished ids sts = map (\<lambda>x. if sb_id x \<in> set ids then finished x else x) sts"

lemma finished_simps [simp]: "sb_id (finished st) = sb_id st" "sb_status (finished st) = ''completed''" "sb_deps (finished st) = sb_deps st"
    "sb_wave (finished st) = sb_wave st"
  by (simp_all add: finished_def)

lemma with_finished_Nil [simp]: "with_finished [] sts = sts"
  by (simp add: with_finished_def)

lemma find_id: "distinct (map sb_id sts) \<Longrightarrow> st \<in> set sts \<Longrightarrow> List.find (\<lambda>x. sb_id x = sb_id st) sts = Some st"
  by (induction sts) (auto simp: image_iff)

lemma find_with_finished:
  assumes "distinct (map sb_id sts)" "st \<in> set sts" "sb_id st \<notin> set ids"
  shows "List.find (\<lambda>x. sb_id x = sb_id st) (with_finished ids sts) = Some st"
proof (rule find_id)
  show "distinct (map sb_id (with_finished ids sts))" using assms(1) by (simp add: with_finished_def comp_def if_distrib cong: if_cong)
  show "st \<in> set (with_finished ids sts)" using assms(2,3) by (force simp: with_finished_def)
qed

lemma with_finished_put:
  assumes "distinct (map sb_id sts)" "st \<in> set sts" "sb_id st \<notin> set ids"
  shows "map (\<lambda>x. if sb_id x = sb_id (finished st) then finished st else x) (with_finished ids sts) = with_finished (ids @ [sb_id st]) sts"
proof -
  have "x = st" if "x \<in> set sts" "sb_id x = sb_id st" for x
    using that assms(1,2) by (auto simp: distinct_map inj_on_def)
  then show ?thesis using assms(3) by (auto simp: with_finished_def)
qed

text \<open>The state of the loop over subtasks: some are done, and the task file says so.\<close>

definition dispatched :: "string \<Rightarrow> bool \<Rightarrow> task \<Rightarrow> (string \<times> string) list \<Rightarrow> subtask list \<Rightarrow> task \<Rightarrow> tstate \<Rightarrow> bool" where
  "dispatched i m t runs ds t' s \<longleftrightarrow> tsk_id t' = i \<and> plain_task t' \<and> map_of (ts_tasks s) i = Some (task_to_dict t')
     \<and> tsk_subtasks t' = with_finished (due m ds) (tsk_subtasks t) \<and> ts_runs s = runs @ map (Pair i) (due m ds)"

text \<open>The loop was left at a subtask: it and none after it may have run, all before it are finished.\<close>

definition stopped_at :: "string \<Rightarrow> bool \<Rightarrow> (string \<times> string) list \<Rightarrow> subtask list \<Rightarrow> subtask \<Rightarrow> tstate \<Rightarrow> bool" where
  "stopped_at i m runs ds st s \<longleftrightarrow> dispatchable m st
     \<and> ts_runs s \<in> {runs @ map (Pair i) (due m ds), runs @ map (Pair i) (due m ds @ [sb_id st])}
     \<and> (\<exists>t'. map_of (ts_tasks s) i = Some (task_to_dict t')
         \<and> list_all (\<lambda>x. sb_id x \<in> set (due m ds) \<longrightarrow> sb_status x = ''completed'') (tsk_subtasks t'))"

lemma with_finished_done: "list_all (\<lambda>x. sb_id x \<in> set ids \<longrightarrow> sb_status x = ''completed'') (with_finished ids sts)"
  by (auto simp: with_finished_def list_all_iff)

lemma wp_dispatch_next:
  assumes d: "dispatched i m t runs ds t' s" and order: "dispatch_order t = ds @ st # rs" and ids: "distinct (map sb_id (tsk_subtasks t))"
    and going: "\<And>t'' s' n k'. dispatched i m t runs (ds @ [st]) t'' s' \<Longrightarrow> n = c + length (due m [st]) \<Longrightarrow> Q (n, k', t'') s'"
    and stop: "\<And>e s'. stopped_at i m runs ds st s' \<Longrightarrow> X e s'"
  shows "wpM (dispatch_next H command can m (c, k, t') (sb_id st)) Q X s"
proof -
  have mem: "st \<in> set (tsk_subtasks t)" by (metis order set_dispatch_order in_set_conv_decomp)
  have "distinct (map sb_id (dispatch_order t))" by (rule distinct_dispatch_order [OF ids])
  then have new: "sb_id st \<notin> set (due m ds)" using due_ids [of m ds] unfolding order by auto
  have t': "tsk_id t' = i" "plain_task t'" "map_of (ts_tasks s) i = Some (task_to_dict t')"
    and subs: "tsk_subtasks t' = with_finished (due m ds) (tsk_subtasks t)" and runs: "ts_runs s = runs @ map (Pair i) (due m ds)"
    using d by (simp_all add: dispatched_def)
  have find: "List.find (\<lambda>x. sb_id x = sb_id st) (tsk_subtasks t') = Some st"
    unfolding subs by (rule find_with_finished [OF ids mem new])
  show ?thesis
  proof (cases "dispatchable m st")
    case False
    then have "dispatched i m t runs (ds @ [st]) t' s'" if "kept s s'" for s'
      using d that by (simp add: dispatched_def)
    then show ?thesis unfolding dispatch_next_def using t' False
      by (auto simp: find wp intro!: wp_load_task [of s _ t'] going)
  next
    case True
    have saved: "dispatched i m t runs (ds @ [st]) t'' s'"
      if "t'' = (put_subtask (finished st) t')\<lparr>tsk_metadata := md, tsk_updated := u\<rparr>" "ts_tasks s' = coll_upd i (task_to_dict t'') (ts_tasks s)"
        "ts_runs s' = ts_runs s @ [(i, sb_id st)]" for t'' s' md u
      using that True t'(1,2) with_finished_put [OF ids mem new] by (simp add: dispatched_def runs subs plain_task_def is_app_grade_def)
    have left: "stopped_at i m runs ds st s'"
      if "map_of (ts_tasks s') i = Some (task_to_dict t'')" "tsk_subtasks t'' = tsk_subtasks t' \<or> (\<exists>st'. ended st st' \<and> tsk_subtasks t'' = tsk_subtasks (put_subtask st' t'))"
        "ts_runs s' \<in> {ts_runs s, ts_runs s @ [(i, sb_id st)]}" for t'' s'
      using that True new with_finished_done [of "due m ds" "tsk_subtasks t"]
      by (auto simp: stopped_at_def runs subs ended_def list_all_iff intro!: exI [of _ t''])
    have dispatch: "wpM (thenM (dispatch_subtask H command can t' st) (bindM (load_task (tsk_id t')) (\<lambda>t'. retM (Suc c, k, t')))) Q X s1"
      if s1: "kept s s1" for s1
    proof (intro vcg_thenM wp_dispatch_subtask, goal_cases)
      case (1 md u s2)
      let ?t = "(put_subtask (finished st) t')\<lparr>tsk_metadata := md, tsk_updated := u\<rparr>"
      have "wpM (bindM (load_task i) (\<lambda>t'. retM (Suc c, k, t'))) Q X s2" if d2: "dispatched i m t runs (ds @ [st]) ?t s2"
        by (intro vcg wp_load_task [where t = ?t] going)
          (use d2 True in \<open>simp_all add: dispatched_def\<close>)
      then show ?case using saved [where t'' = ?t and md = md and u = u and s' = s2] s1 t'(1) by (simp add: Let_def)
    next
      case (2 e s2)
      then show ?case using s1 t' by (intro stop left [where s' = s2 and t'' = t']) simp_all
    next
      case (3 e st' t2 s2)
      then show ?case using s1 t' by (intro stop left [where s' = s2 and t'' = t2]) auto
    qed
    show ?thesis
      unfolding dispatch_next_def prod.case
      by (intro vcg_bindM wp_load_task [where t = t']) (use t' True dispatch in \<open>simp_all add: find\<close>)
  qed
qed

lemma wp_dispatch_all:
  assumes "dispatched i m t runs [] t s" "distinct (map sb_id (tsk_subtasks t))"
  shows "wpM (foldM (dispatch_next H command can m) (0, 0, t) (map sb_id (dispatch_order t)))
     (\<lambda>(c, k, t') s'. c = length (due m (dispatch_order t)) \<and> dispatched i m t runs (dispatch_order t) t' s')
     (\<lambda>e s'. \<exists>ds st rs. dispatch_order t = ds @ st # rs \<and> stopped_at i m runs ds st s') s"
proof (rule wpM_foldM_rest [where I = "\<lambda>xs b s'. \<exists>ds rs. dispatch_order t = ds @ rs \<and> xs = map sb_id rs \<and>
      (case b of (c, k, t') \<Rightarrow> c = length (due m ds) \<and> dispatched i m t runs ds t' s')"], goal_cases)
  case 1
  show ?case using assms(1) by (intro exI [of _ "[]"] exI [of _ "dispatch_order t"]) simp
next
  case (2 x ys b s')
  then obtain ds st rs c k t' where b: "b = (c, k, t')" "c = length (due m ds)" "dispatched i m t runs ds t' s'"
    and o': "dispatch_order t = ds @ st # rs" "x = sb_id st" "ys = map sb_id rs" by (auto simp: Cons_eq_map_conv)
  show ?case unfolding b(1) o'(2)
  proof (rule wp_dispatch_next [OF b(3) o'(1) assms(2)], goal_cases)
    case (1 t2 s2 n k2)
    then show ?case using b(2) o' by (intro exI [of _ "ds @ [st]"] exI [of _ rs]) simp
  next
    case (2 e s2)
    then show ?case using o'(1) by blast
  qed
next
  case (3 b s')
  then show ?case by auto
qed

lemma wp_mark_started:
  assumes "map_of (ts_tasks s) (tsk_id t) = Some (task_to_dict t)" "plain_task t"
    and "\<And>t' s'. map_of (ts_tasks s') (tsk_id t) = Some (task_to_dict t') \<Longrightarrow> plain_task t' \<Longrightarrow> tsk_id t' = tsk_id t
      \<Longrightarrow> tsk_subtasks t' = tsk_subtasks t \<Longrightarrow> ts_runs s' = ts_runs s \<Longrightarrow> Q t' s'"
  shows "wpM (mark_task_started t) Q X s"
  unfolding mark_task_started_def
  by (intro vcg wp_append_event wp_save_task) (use assms in \<open>auto simp: plain_task_def is_app_grade_def\<close>)

lemma wp_dispatch_task:
  assumes stored: "map_of (ts_tasks s) i = Some (task_to_dict t)" "tsk_id t = i" "plain_task t" and ids: "distinct (map sb_id (tsk_subtasks t))"
    and ok: "\<And>reply t' s'. jget reply ''dispatch'' = JStr ''completed'' \<Longrightarrow> jget reply ''completed_subtasks'' = JInt (int (length (due m (dispatch_order t))))
       \<Longrightarrow> dispatched i m t (ts_runs s) (dispatch_order t) t' s' \<Longrightarrow> Q reply s'"
    and stop: "\<And>e ds st rs s'. dispatch_order t = ds @ st # rs \<Longrightarrow> stopped_at i m (ts_runs s) ds st s' \<Longrightarrow> X e s'"
  shows "wpM (dispatch_task_from_loop H i command m can) Q X s"
proof -
  have started: "wpM (if is_app_grade t1 then a else bindM (foldM (dispatch_next H command can m) (0, 0, t1) (map sb_id (dispatch_order t1)))
       (\<lambda>(completed, skipped, t').
         let failed = length (filter (\<lambda>st. sb_status st = ''failed'') (tsk_subtasks t')) in
         retM [(''dispatch'', JStr (if failed = 0 then ''completed'' else ''failed'')), (''adapter'', JStr ''runtime''), (''task_id'', JStr (tsk_id t')),
           (''task_status'', JStr (tsk_status t')), (''completed_subtasks'', JInt (int completed)), (''skipped_subtasks'', JInt (int skipped)),
           (''failed_subtasks'', JInt (int failed)), (''remediation'', JBool m), (''project_root'', JStr (tsk_root t'))])) Q X s1"
    if t1: "map_of (ts_tasks s1) i = Some (task_to_dict t1)" "plain_task t1" "tsk_id t1 = i" "tsk_subtasks t1 = tsk_subtasks t" "ts_runs s1 = ts_runs s"
    for a t1 s1
  proof -
    have order: "dispatch_order t1 = dispatch_order t" using t1(4) by (simp add: dispatch_order_def)
    have start: "dispatched i m t1 (ts_runs s) [] t1 s1" using t1 by (simp add: dispatched_def)
    have ends: "Q [(''dispatch'', JStr (if length (filter (\<lambda>st. sb_status st = ''failed'') (tsk_subtasks t')) = 0 then ''completed'' else ''failed'')), (''adapter'', JStr ''runtime''),
        (''task_id'', JStr (tsk_id t')), (''task_status'', JStr (tsk_status t')), (''completed_subtasks'', JInt (int c)), (''skipped_subtasks'', JInt (int k)),
        (''failed_subtasks'', JInt (int (length (filter (\<lambda>st. sb_status st = ''failed'') (tsk_subtasks t'))))), (''remediation'', JBool m), (''project_root'', JStr (tsk_root t'))] s'"
      if d: "c = length (due m (dispatch_order t1))" "dispatched i m t1 (ts_runs s) (dispatch_order t1) t' s'" for c k t' s'
    proof -
      have "filter (\<lambda>st. sb_status st = ''failed'') (tsk_subtasks t') = []"
        using d(2) by (auto simp: dispatched_def with_finished_def filter_empty_conv due_def dispatchable_def image_iff)
      then show ?thesis using d order t1(4) by (intro ok [where t' = t']) (simp_all add: dispatched_def)
    qed
    have "\<not> is_app_grade t1" using t1(2) by (simp add: plain_task_def)
    then show ?thesis
      by (simp only: if_False, intro vcg_bindM) (rule wpM_conseq [OF wp_dispatch_all [OF start]],
        use ids t1(4) stop order ends in \<open>auto simp: wp Let_def simp del: length_0_conv length_greater_0_conv\<close>)
  qed
  show ?thesis unfolding dispatch_task_from_loop_def
    by (intro vcg_bindM wp_load_task [OF stored(1,3)] wp_mark_started started) (use stored in simp_all)
qed

end
