(* ===== verification/TaskProps.thy ===== *)
theory TaskProps
  imports TaskFacts LoopFacts
begin

text \<open>
  The properties of tasks: what one dispatch runs and in which order, serial plans and strict chains, settled
  tasks, and task files.
\<close>

section \<open>A sample host\<close>

definition sample_project_files :: project_files where
  "sample_project_files = \<lparr>pf_exists = (\<lambda>p. False), pf_is_file = (\<lambda>p. False), pf_bytes = (\<lambda>p. Inl (FileNotFoundError ''no file'')),
     pf_size = (\<lambda>p. Inl (FileNotFoundError ''no file'')), pf_text = (\<lambda>p. Unreadable (FileNotFoundError ''no file'')),
     pf_tree = (\<lambda>p. []), pf_node = (\<lambda>p r. Inr False)\<rparr>"

definition sample_task_host :: task_host where
  "sample_task_host = \<lparr>th_fs = plain_fs, th_files = (\<lambda>n. sample_project_files), th_allowed_roots = [], th_artifacts_dir = ''/store/artifacts'',
     th_run = (\<lambda>a n t st. (Inr (JObj [(''path'', JStr (sb_path st))]), tsk_metadata t)), th_loads = (\<lambda>s. None), th_app_payload = (\<lambda>t as. []),
     th_app_run = (\<lambda>n t p. Inr []), th_loop_adapters = default_adapters plain_env False (\<lambda>_ _ _ _. Inr JNull) (\<lambda>_ _ _. MissingFile), th_lock_free = True\<rparr>"

definition demo_subtask :: "string \<Rightarrow> int \<Rightarrow> string list \<Rightarrow> string \<Rightarrow> subtask" where
  "demo_subtask i wave deps status = \<lparr>sb_id = i, sb_goal = ''write'', sb_path = i, sb_agent = ''demo'', sb_role = None, sb_status = status,
     sb_wave = wave, sb_deps = deps, sb_priority = 1, sb_attempts = 0, sb_error = None\<rparr>"

definition demo_task :: "string \<Rightarrow> subtask list \<Rightarrow> task" where
  "demo_task status sts = \<lparr>tsk_id = ''task-1'', tsk_goal = ''g'', tsk_root = ''/w'', tsk_status = status, tsk_agent = ''demo'', tsk_subtasks = sts,
     tsk_contract = [(''serialPlan'', JBool True)], tsk_metadata = [], tsk_finding_state = None, tsk_findings = [], tsk_history = [],
     tsk_created = 0, tsk_updated = 0\<rparr>"

definition demo_tstate :: "task \<Rightarrow> tstate" where
  "demo_tstate t = \<lparr>ts_loop = sample_store [], ts_tasks = [(tsk_id t, task_to_dict t)], ts_events = [], ts_files = [], ts_runs = [], ts_looks = 0\<rparr>"

lemmas demo_simps = demo_subtask_def demo_task_def demo_tstate_def plain_task_def is_app_grade_def

section \<open>Dispatch\<close>

text \<open>C20: one dispatch of a task by its loop runs every open subtask once, in the order of wave, priority and id.
  If it returns, exactly the open subtasks were given to their agents, each is recorded as completed with one
  more attempt, all others are as they were, and the reply says so. If it raises, it stopped at one open subtask:
  the ones before it have run and are recorded as completed, it may have run, and none after it did.\<close>

theorem dispatch_in_order:
  assumes "map_of (ts_tasks s) i = Some (task_to_dict t)" "tsk_id t = i" "plain_task t" "distinct (map sb_id (tsk_subtasks t))"
  shows "case dispatch_task_from_loop H i command m can s of
      (Inr reply, s') \<Rightarrow> ts_runs s' = ts_runs s @ map (Pair i) (due m (dispatch_order t))
        \<and> jget reply ''dispatch'' = JStr ''completed'' \<and> jget reply ''completed_subtasks'' = JInt (int (length (due m (dispatch_order t))))
        \<and> (\<exists>t'. map_of (ts_tasks s') i = Some (task_to_dict t')
            \<and> tsk_subtasks t' = map (\<lambda>st. if dispatchable m st then finished st else st) (tsk_subtasks t))
    | (Inl e, s') \<Rightarrow> \<exists>ds st rs. dispatch_order t = ds @ st # rs \<and> stopped_at i m (ts_runs s) ds st s'"
proof -
  have "with_finished (due m (dispatch_order t)) (tsk_subtasks t) = map (\<lambda>st. if dispatchable m st then finished st else st) (tsk_subtasks t)"
    using assms(4) by (auto simp: with_finished_def due_def distinct_map inj_on_def)
  then have "wpM (dispatch_task_from_loop H i command m can)
      (\<lambda>reply s'. ts_runs s' = ts_runs s @ map (Pair i) (due m (dispatch_order t))
        \<and> jget reply ''dispatch'' = JStr ''completed'' \<and> jget reply ''completed_subtasks'' = JInt (int (length (due m (dispatch_order t))))
        \<and> (\<exists>t'. map_of (ts_tasks s') i = Some (task_to_dict t')
            \<and> tsk_subtasks t' = map (\<lambda>st. if dispatchable m st then finished st else st) (tsk_subtasks t)))
      (\<lambda>e s'. \<exists>ds st rs. dispatch_order t = ds @ st # rs \<and> stopped_at i m (ts_runs s) ds st s') s"
    by (intro wp_dispatch_task [OF assms]) (auto simp: dispatched_def)
  then show ?thesis by (simp only: wpM_def)
qed

theorem dispatch_in_order_witness:
  "let t = demo_task ''pending'' [demo_subtask ''b'' 2 [''a''] ''pending'', demo_subtask ''a'' 1 [] ''pending'', demo_subtask ''c'' 1 [] ''completed''] in
   due False (dispatch_order t) = [''a'', ''b''] \<and>
   (case dispatch_task_from_loop sample_task_host ''task-1'' [] False False (demo_tstate t) of
      (Inr reply, s') \<Rightarrow> ts_runs s' = [(''task-1'', ''a''), (''task-1'', ''b'')]
    | (Inl e, s') \<Rightarrow> \<exists>ds st rs. dispatch_order t = ds @ st # rs \<and> stopped_at ''task-1'' False [] ds st s')"
proof -
  let ?t = "demo_task ''pending'' [demo_subtask ''b'' 2 [''a''] ''pending'', demo_subtask ''a'' 1 [] ''pending'', demo_subtask ''c'' 1 [] ''completed'']"
  have d: "due False (dispatch_order ?t) = [''a'', ''b'']" by code_simp
  show ?thesis
    using dispatch_in_order [where s = "demo_tstate ?t" and i = "''task-1''" and t = ?t and H = sample_task_host and command = "[]" and m = False and can = False] d
    by (simp add: demo_simps Let_def split: prod.splits sum.splits)
qed

text \<open>C21: a serial plan that passes its gate runs dependencies first. For every subtask behind the first wave,
  each subtask it depends on exists and comes before it in the order of dispatch.\<close>

theorem serial_plan_dependencies_first:
  assumes "serial_wave_dependencies_pass t" "truthy (jget (tsk_contract t) ''serialPlan'')"
    and "st \<in> set (tsk_subtasks t)" "sb_wave st \<noteq> first_wave t" "d \<in> set (sb_deps st)"
  shows "\<exists>dep us vs ws. sb_id dep = d \<and> dispatch_order t = us @ dep # vs @ st # ws"
proof -
  have "case subtask_by_id t d of None \<Rightarrow> False | Some dep \<Rightarrow> sb_wave dep < sb_wave st"
    using assms unfolding serial_wave_dependencies_pass_def list_all_iff by fastforce
  then obtain dep where dep: "subtask_by_id t d = Some dep" "sb_wave dep < sb_wave st" by (auto split: option.splits)
  show ?thesis using earlier_wave_first [of dep t st] subtask_by_id_Some [OF dep(1)] dep(2) assms(3) by blast
qed

theorem serial_plan_dependencies_first_witness:
  "let t = demo_task ''pending'' [demo_subtask ''b'' 2 [''a''] ''pending'', demo_subtask ''a'' 1 [] ''pending''] in
   serial_wave_dependencies_pass t \<and> (\<exists>dep us vs ws. sb_id dep = ''a'' \<and> dispatch_order t = us @ dep # vs @ demo_subtask ''b'' 2 [''a''] ''pending'' # ws)"
proof -
  let ?t = "demo_task ''pending'' [demo_subtask ''b'' 2 [''a''] ''pending'', demo_subtask ''a'' 1 [] ''pending'']"
  have g: "serial_wave_dependencies_pass ?t" and w: "first_wave ?t = 1" by code_simp+
  show ?thesis
    using serial_plan_dependencies_first [OF g, of "demo_subtask ''b'' 2 [''a''] ''pending''" "''a''"] g w
    by (simp add: Let_def demo_task_def demo_subtask_def)
qed

text \<open>C22: strict tasks form a real serial chain. When no subtask names dependencies, the chain keeps the subtasks
  and their order, makes each but the first depend on exactly its predecessor in a later wave, passes the gate
  for serial plans, and is dispatched in the order in which the subtasks were given.\<close>

theorem strict_chain_serial:
  assumes "ensure_strict_dependency_chain t = Inr t'" "list_all (\<lambda>st. sb_deps st = []) (tsk_subtasks t)" "distinct (map sb_id (tsk_subtasks t))"
  shows "map sb_id (dispatch_order t') = map sb_id (tsk_subtasks t) \<and> chained (tsk_subtasks t') \<and> serial_wave_dependencies_pass t'"
proof -
  have t': "tsk_subtasks t' = chain_from 1 None (tsk_subtasks t)"
    using assms(1) by (auto simp: ensure_strict_dependency_chain_def Let_def bindE_def split: sum.splits)
  have c: "chained (tsk_subtasks t')" unfolding t' by (rule chain_chained [OF assms(2)])
  have ids: "map sb_id (tsk_subtasks t') = map sb_id (tsk_subtasks t)" by (simp add: t')
  have by_id: "subtask_by_id t' (sb_id a) = Some a" if "a \<in> set (tsk_subtasks t')" for a
    using that assms(3) find_id [of "List.rev (tsk_subtasks t')" a] ids by (simp add: subtask_by_id_def rev_map [symmetric])
  have "serial_wave_dependencies_pass t'"
  proof (cases "tsk_subtasks t'")
    case (Cons a sts)
    have "sb_wave a = first_wave t'"
      using chained_rising [OF c] unfolding first_wave_def Cons by (intro Min_eqI [symmetric]) (auto simp: less_imp_le)
    moreover have "\<exists>b\<in>set (tsk_subtasks t'). sb_deps st = [sb_id b] \<and> sb_wave b < sb_wave st" if "st \<in> set sts" for st
      using chained_dep [OF c, of st] that Cons by simp
    ultimately show ?thesis using by_id unfolding serial_wave_dependencies_pass_def list_all_iff Cons by fastforce
  qed (simp add: serial_wave_dependencies_pass_def)
  then show ?thesis using c ids rising_dispatch_order [OF chained_rising [OF c]] by simp
qed

theorem strict_chain_serial_witness:
  "\<exists>t'. ensure_strict_dependency_chain (demo_task ''pending'' [demo_subtask ''b'' 1 [] ''pending'', demo_subtask ''a'' 1 [] ''pending'']) = Inr t'
     \<and> map sb_id (dispatch_order t') = [''b'', ''a''] \<and> serial_wave_dependencies_pass t'"
proof -
  let ?t = "demo_task ''pending'' [demo_subtask ''b'' 1 [] ''pending'', demo_subtask ''a'' 1 [] ''pending'']"
  obtain t' where t': "ensure_strict_dependency_chain ?t = Inr t'"
    by (simp add: ensure_strict_dependency_chain_def Let_def demo_task_def)
  show ?thesis using strict_chain_serial [OF t'] t' by (simp add: demo_task_def demo_subtask_def)
qed

section \<open>Settled tasks and task files\<close>

text \<open>C23: running a settled task changes nothing. A task that is completed, failed or cancelled, and a task that a
  remote Worker executes, is returned as it is stored, whatever the loop would do: no subtask runs, no file,
  event or loop changes, only the clock is read.\<close>

theorem settled_task_not_run:
  assumes "map_of (ts_tasks s) i = Some (task_to_dict t)" "plain_task t"
    and "tsk_status t \<in> set TERMINAL_TASK_STATUSES \<or> jget (tsk_metadata t) ''execution_mode'' = JStr ''remote_worker''"
  shows "\<exists>n. run_task H i command ep s = (Inr t, s\<lparr>ts_loop := (ts_loop s)\<lparr>ls_tick := n\<rparr>\<rparr>)"
proof -
  have "load_task i s = (Inr t, s\<lparr>ts_loop := (ts_loop s)\<lparr>ls_tick := Suc (Suc (ls_tick (ts_loop s)))\<rparr>\<rparr>)"
    using assms(1,2) by (simp add: load_task_def interpT_def monad_defs loopT_def nowL_def task_file_roundtrip)
  then show ?thesis using assms(3) by (auto simp: run_task_def bindM_def retM_def)
qed

theorem settled_task_not_run_witness:
  "\<exists>n. run_task sample_task_host ''task-1'' [] \<lparr>ep_fallback = (\<lambda>_ _ _. Inr JNull), ep_calls = [], ep_end = Inl (RuntimeError ''x'')\<rparr>
      (demo_tstate (demo_task ''cancelled'' [demo_subtask ''a'' 1 [] ''pending'']))
    = (Inr (demo_task ''cancelled'' [demo_subtask ''a'' 1 [] ''pending'']),
       (demo_tstate (demo_task ''cancelled'' [demo_subtask ''a'' 1 [] ''pending'']))\<lparr>ts_loop := (sample_store [])\<lparr>ls_tick := n\<rparr>\<rparr>)"
  using settled_task_not_run [of "demo_tstate (demo_task ''cancelled'' [demo_subtask ''a'' 1 [] ''pending''])" "''task-1''"
      "demo_task ''cancelled'' [demo_subtask ''a'' 1 [] ''pending'']" sample_task_host "[]"
      "\<lparr>ep_fallback = (\<lambda>_ _ _. Inr JNull), ep_calls = [], ep_end = Inl (RuntimeError ''x'')\<rparr>"]
  by (simp add: demo_simps TERMINAL_TASK_STATUSES_def)

text \<open>C32: a task file gives back the task that was saved, subtask by subtask and field by field, unless its status
  is one that is read as another or the task belongs to the old application scenario.\<close>

theorem task_roundtrip:
  "plain_task t \<Longrightarrow> task_from_dict E created updated (task_to_dict t) = Inr t"
  by (rule task_file_roundtrip)

theorem task_roundtrip_witness:
  "task_from_dict plain_env 1 2 (task_to_dict (demo_task ''running'' [demo_subtask ''a'' 1 [] ''pending'']))
     = Inr (demo_task ''running'' [demo_subtask ''a'' 1 [] ''pending''])"
  by (rule task_roundtrip) (simp add: demo_simps)

end
