(* ===== verification/EvidenceFacts.thy ===== *)
theory EvidenceFacts
  imports EvidenceReceipt
begin

text \<open>
  What evidence receipts guarantee: no secrets in the parts that come from executions and validators, a
  seal that the binding of evidence accepts, and a verdict that says ready only for commands a kernel
  confined.
\<close>

section \<open>Published values\<close>

fun hidden_free :: "json \<Rightarrow> bool" where
  "hidden_free (JObj o') \<longleftrightarrow> list_all (\<lambda>p. py_lower (fst p) \<notin> set hidden_keys \<and> hidden_free (snd p)) o'"
| "hidden_free (JArr xs) \<longleftrightarrow> list_all hidden_free xs"
| "hidden_free v \<longleftrightarrow> True"

definition publishable :: "json \<Rightarrow> bool" where
  "publishable v \<longleftrightarrow> redacted v \<and> hidden_free v"

lemma secret_free_cases:
  "secret_free_value v = (case redact_sensitive_value v of
      JObj o' \<Rightarrow> JObj (map (\<lambda>p. (fst p, secret_free_value (snd p))) (filter (\<lambda>p. py_lower (fst p) \<notin> set hidden_keys) o'))
    | JArr xs \<Rightarrow> JArr (map secret_free_value xs) | safe \<Rightarrow> safe)"
  by (rule secret_free_value.simps)

lemma placeholder_redacted: "redacted (JStr ''[redacted]'')"
  by code_simp

lemma secret_free_scalar: "redacted (JStr s) \<Longrightarrow> secret_free_value (JStr s) = JStr s"
  by (simp add: secret_free_cases [of "JStr s"] redacted_unchanged del: redact_sensitive_value.simps redacted.simps)

lemma secret_free_safe: "is_safe_sensitive_field_value v \<Longrightarrow> secret_free_value v = v"
proof -
  assume safe: "is_safe_sensitive_field_value v"
  show ?thesis using safe unfolding secret_free_cases [of v] redact_safe [OF safe]
    by (cases v) (simp_all add: is_safe_sensitive_field_value_def)
qed

lemma secret_free_hidden_free: "hidden_free (secret_free_value v)"
proof (induction v rule: secret_free_value.induct)
  case (1 v)
  show ?case
  proof (cases "redact_sensitive_value v")
    case (JArr xs)
    then show ?thesis using 1(1) [OF JArr] by (simp add: secret_free_cases [of v] list_all_iff)
  next
    case (JObj o')
    then show ?thesis using 1(2) [OF JObj] by (auto simp: secret_free_cases [of v] list_all_iff)
  qed (simp_all add: secret_free_cases [of v])
qed

lemma secret_free_redacted: "redacted (secret_free_value v)"
proof (induction v rule: secret_free_value.induct)
  case (1 v)
  have r: "redacted (redact_sensitive_value v)" by (rule redact_sensitive_value_redacted)
  show ?case
  proof (cases "redact_sensitive_value v")
    case (JArr xs)
    then show ?thesis using 1(1) [OF JArr] by (simp add: secret_free_cases [of v] list_all_iff)
  next
    case (JObj o')
    have "is_sensitive_key (fst p) \<and> secret_free_value (snd p) = JStr ''[redacted]''
        \<or> (is_sensitive_key (fst p) \<longrightarrow> is_safe_sensitive_field_value (secret_free_value (snd p))) \<and> redacted (secret_free_value (snd p))"
      if p: "p \<in> set o'" "py_lower (fst p) \<notin> set hidden_keys" for p
    proof -
      have "is_sensitive_key (fst p) \<and> snd p = JStr ''[redacted]'' \<or> (is_sensitive_key (fst p) \<longrightarrow> is_safe_sensitive_field_value (snd p)) \<and> redacted (snd p)"
        using r p(1) unfolding JObj by (auto simp: list_all_iff)
      then show ?thesis using 1(2) [OF JObj] p secret_free_scalar [OF placeholder_redacted] secret_free_safe by auto
    qed
    then show ?thesis using JObj by (auto simp: secret_free_cases [of v] list_all_iff)
  qed (use r in \<open>simp_all add: secret_free_cases [of v]\<close>)
qed

lemma secret_free_publishable: "publishable (secret_free_value v)"
  by (simp add: publishable_def secret_free_redacted secret_free_hidden_free)

lemma publishable_jset:
  assumes "publishable (JObj o')" "publishable v" "\<not> is_sensitive_key k" "py_lower k \<notin> set hidden_keys"
  shows "publishable (JObj (jset o' k v))"
proof -
  have "hidden_free (JObj (jset o' k v))" using assms by (induction o' k v rule: jset.induct) (auto simp: publishable_def)
  then show ?thesis using assms redacted_jset [of o' v k] by (simp add: publishable_def del: redacted.simps hidden_free.simps)
qed

lemma publishable_filter: "publishable (JObj o') \<Longrightarrow> publishable (JObj (filter P o'))"
  by (auto simp: publishable_def list_all_iff)

lemma publishable_field: "publishable (JObj o') \<Longrightarrow> jget o' k = JObj x \<Longrightarrow> publishable (JObj x)"
proof -
  assume p: "publishable (JObj o')" and "jget o' k = JObj x"
  then have "(k, JObj x) \<in> set o'" by (auto simp: jget_def jlookup_def opt_or_def split: option.splits dest!: map_of_SomeD)
  then have "redacted (JObj x) \<and> hidden_free (JObj x)" using p unfolding publishable_def redacted.simps(1) [of o'] hidden_free.simps(1) [of o'] list_all_iff
    by fastforce
  then show ?thesis by (simp add: publishable_def)
qed

lemma publishable_digest: "publishable (JStr (text_sha256 s))"
  using sha256_hex_format [of s] hex_no_secret [of "sha256_hex s" None] by (simp add: publishable_def text_sha256_def is_sha256_hex_def)

lemma output_digest_publishable:
  assumes "publishable (JObj safe)" "stream \<in> {''stdout'', ''stderr''}"
  shows "publishable (JObj (output_digest produced stream safe))"
proof -
  have "\<not> is_sensitive_key (stream @ ''_sha256'') \<and> py_lower (stream @ ''_sha256'') \<notin> set hidden_keys"
    using assms(2) by (elim insertE) (simp_all, code_simp+)
  then show ?thesis using assms(1) publishable_digest unfolding output_digest_def
    by (cases "jget produced stream") (simp_all add: publishable_jset)
qed

lemma sandbox_part_publishable: "publishable (JObj (secret_free_sandbox_receipt v))"
proof (cases "secret_free_value v")
  case (JObj receipt)
  have p: "publishable (JObj receipt)" using secret_free_publishable [of v] by (simp only: JObj)
  show ?thesis
  proof (cases "jget receipt ''output''")
    case (JObj produced)
    have k: "\<not> is_sensitive_key ''output''" "py_lower ''output'' \<notin> set hidden_keys" by code_simp+
    show ?thesis using \<open>secret_free_value v = _\<close> JObj publishable_field [OF p JObj]
      by (simp add: secret_free_sandbox_receipt_def publishable_jset [OF p _ k] output_digest_publishable publishable_filter)
  qed (use p \<open>secret_free_value v = _\<close> in \<open>simp_all add: secret_free_sandbox_receipt_def\<close>)
qed (simp_all add: secret_free_sandbox_receipt_def publishable_def)

section \<open>Receipts\<close>

lemma built_receipt_parts:
  assumes "build_evidence_receipt E F P payload = Inr r"
  obtains binding artifacts where "r = jset (receipt_body E binding
       (secret_free_sandbox_receipt (jor (jor (jget payload ''sandbox_receipt'') (jget payload ''sandbox'')) (JObj [])))
       (secret_free_value (jor (jget payload ''validations'') (JArr []))) artifacts (secret_free_value (jor (jget payload ''provenance'') (JObj []))))
     ''evidence_sha256'' (JStr (canonical_sha256 E (JObj (receipt_body E binding
       (secret_free_sandbox_receipt (jor (jor (jget payload ''sandbox_receipt'') (jget payload ''sandbox'')) (JObj [])))
       (secret_free_value (jor (jget payload ''validations'') (JArr []))) artifacts (secret_free_value (jor (jget payload ''provenance'') (JObj [])))))))"
  using assms unfolding build_evidence_receipt_def Let_def
  by (elim bindE_InrE bindE_pairE) (simp add: case_prod_beta, elim bindE_InrE, blast)

lemma sealed_receipt_hash:
  assumes "map fst body = [''schema_version'', ''verdict'', ''workspace_binding'', ''sandbox_receipt'', ''validations'', ''artifacts'', ''provenance'']"
    and "jget body ''schema_version'' = JStr EVIDENCE_RECEIPT_SCHEMA" and r: "r = jset body ''evidence_sha256'' (JStr (canonical_sha256 E (JObj body)))"
  shows "receipt_hash_field r = ''evidence_sha256'' \<and> get_str E r (receipt_hash_field r) '''' = observed_receipt_hash E r"
proof -
  have f: "receipt_hash_field r = ''evidence_sha256''"
    using assms(2) by (simp add: receipt_hash_field_def r py_eq_JStr_right EVIDENCE_RECEIPT_SCHEMA_def EVIDENCE_SCHEMA_def)
  have "jpop r ''evidence_sha256'' = body" unfolding r by (rule jpop_jset_fresh) (simp add: assms(1) flip: list.set_map)
  moreover have "jget r ''evidence_sha256'' = JStr (canonical_sha256 E (JObj body))" by (simp add: r)
  ultimately show ?thesis by (simp add: f observed_receipt_hash_def get_str_def jor_str)
qed

text \<open>Publishable values pass unchanged, so the cleaning of evidence is a redactor too.\<close>

lemma secret_free_unchanged: "publishable v \<Longrightarrow> secret_free_value v = v"
proof (induction v rule: secret_free_value.induct)
  case (1 v)
  have same: "redact_sensitive_value v = v" using "1.prems" by (simp add: publishable_def redacted_unchanged)
  show ?case
  proof (cases v)
    case (JArr xs)
    have "secret_free_value x = x" if "x \<in> set xs" for x
      using 1(1) [OF trans [OF same JArr] that] "1.prems" that by (simp add: JArr publishable_def list_all_iff)
    then have "map secret_free_value xs = xs" by (simp add: map_idI)
    then show ?thesis unfolding secret_free_cases [of v] same by (simp add: JArr)
  next
    case (JObj o')
    have p: "py_lower (fst p) \<notin> set hidden_keys \<and> (fst p, secret_free_value (snd p)) = p" if "p \<in> set o'" for p
    proof -
      have h: "py_lower (fst p) \<notin> set hidden_keys" "hidden_free (snd p)"
        using "1.prems" that unfolding JObj publishable_def by (simp_all add: list_all_iff)
      have "redacted (snd p)"
        using "1.prems" that placeholder_redacted unfolding JObj publishable_def redacted.simps(1) [of o'] list_all_iff by metis
      then have "publishable (snd p)" using h by (simp add: publishable_def)
      then show ?thesis using 1(2) [OF trans [OF same JObj]] h that by simp
    qed
    have "filter (\<lambda>p. py_lower (fst p) \<notin> set hidden_keys) o' = o'" using p by (simp add: filter_id_conv)
    moreover have "map (\<lambda>p. (fst p, secret_free_value (snd p))) o' = o'" using p by (simp add: map_idI)
    ultimately show ?thesis unfolding secret_free_cases [of v] same by (simp add: JObj)
  qed (unfold secret_free_cases [of v] same, simp_all)
qed

interpretation evidence_values: redactor secret_free_value publishable
  by unfold_locales (rule secret_free_publishable, rule secret_free_unchanged)

lemma jget_map_filter:
  assumes "P k" "f JNull = JNull"
  shows "jget (map (\<lambda>p. (fst p, f (snd p))) (filter (\<lambda>p. P (fst p)) o')) k = f (jget o' k)"
  using assms by (induction o') auto

lemma jget_redact:
  assumes "\<not> is_sensitive_key k" "redact_sensitive_value (JObj o') = JObj safe"
  shows "jget safe k = redact_sensitive_value (jget o' k)"
proof -
  have "jget (map (\<lambda>p. (fst p, if is_sensitive_key (fst p) \<and> \<not> is_safe_sensitive_field_value (snd p) then JStr ''[redacted]''
      else redact_sensitive_value (snd p))) o') k = redact_sensitive_value (jget o' k)"
    using assms(1) by (induction o') auto
  then show ?thesis using assms(2) by simp
qed

lemma jget_secret_free:
  assumes "secret_free_value (JObj o') = JObj safe" "\<not> is_sensitive_key k" "py_lower k \<notin> set hidden_keys"
  shows "jget safe k = secret_free_value (redact_sensitive_value (jget o' k))"
proof -
  obtain mid where mid: "redact_sensitive_value (JObj o') = JObj mid" by simp
  have null: "secret_free_value JNull = JNull" by (simp add: secret_free_cases [of JNull])
  have "safe = map (\<lambda>p. (fst p, secret_free_value (snd p))) (filter (\<lambda>p. py_lower (fst p) \<notin> set hidden_keys) mid)"
    using assms(1) mid by (simp add: secret_free_cases [of "JObj o'"] del: redact_sensitive_value.simps)
  then show ?thesis
    using jget_map_filter [where P = "\<lambda>k. py_lower k \<notin> set hidden_keys" and f = secret_free_value and o' = mid and k = k] null assms(3) jget_redact [OF assms(2) mid] by simp
qed

lemma published_field:
  assumes "publishable (jget o' k)" "\<not> is_sensitive_key k" "py_lower k \<notin> set hidden_keys" "k \<noteq> ''output''"
  shows "jget (secret_free_sandbox_receipt (JObj o')) k = jget o' k"
proof -
  obtain safe where safe: "secret_free_value (JObj o') = JObj safe"
    by (simp add: secret_free_cases [of "JObj o'"])
  have "redact_sensitive_value (jget o' k) = jget o' k" using assms(1) by (simp add: publishable_def redacted_unchanged)
  then have "jget safe k = jget o' k" using jget_secret_free [OF safe assms(2,3)] secret_free_unchanged [OF assms(1)] by simp
  then show ?thesis using assms(4) safe by (simp add: secret_free_sandbox_receipt_def split: json.splits)
qed

section \<open>The verdict on a local execution\<close>

definition local_enforcement :: "bool \<Rightarrow> jobj" where
  "local_enforcement darwin = (let kept = (if darwin then ''kernel_enforced'' else ''declared_not_kernel_isolated'') in
     [(''backend'', JStr (native_backend darwin)), (''argv_without_shell'', JBool True),
      (''workspace_boundary'', JStr (if darwin then ''kernel_enforced'' else ''validated'')),
      (''network_policy'', JStr kept), (''filesystem_policy'', JStr kept)])"

lemma local_enforcement_publishable: "publishable (JObj (local_enforcement darwin))"
proof -
  have words: "\<not> has_secret None ''kernel_enforced''" "\<not> has_secret None ''declared_not_kernel_isolated''" "\<not> has_secret None ''validated''"
    "\<not> has_secret None ''macos-sandbox-exec''" "\<not> has_secret None ''policy-boundary''" by code_simp+
  have keys: "\<not> is_sensitive_key ''backend''" "\<not> is_sensitive_key ''argv_without_shell''" "\<not> is_sensitive_key ''workspace_boundary''"
    "\<not> is_sensitive_key ''network_policy''" "\<not> is_sensitive_key ''filesystem_policy''" by code_simp+
  have hidden: "py_lower k \<notin> set hidden_keys" if "k \<in> {''backend'', ''argv_without_shell'', ''workspace_boundary'', ''network_policy'', ''filesystem_policy''}" for k
    using that by (elim insertE) (simp_all, code_simp+)
  show ?thesis using hidden words keys
    by (cases darwin) (simp_all add: publishable_def local_enforcement_def native_backend_def Let_def del: has_secret.simps)
qed

definition local_status :: "run_outcome \<Rightarrow> string" where
  "local_status out = (if ro_timeout_kind out \<noteq> None then ''timed_out'' else if ro_exit out = 0 then ''completed'' else ''failed'')"

lemma local_status_publishable: "publishable (JStr (local_status out))"
proof -
  have "\<not> has_secret None ''timed_out''" "\<not> has_secret None ''completed''" "\<not> has_secret None ''failed''" by code_simp+
  then show ?thesis by (simp add: local_status_def publishable_def del: has_secret.simps)
qed

lemma execution_receipt_body:
  assumes "execution_receipt E F rq H out enforcement = Inr receipt"
  shows "\<exists>body. receipt = finalize_execution_receipt E body \<and> jget body ''enforcement'' = JObj enforcement \<and> jget body ''status'' = JStr (local_status out)"
  using assms unfolding execution_receipt_def Let_def local_status_def
  apply (elim bindE_InrE)
  apply (simp only: sum.inject)
  apply (intro exI conjI, erule sym)
   apply (simp_all add: provider_entry_def)
  done

lemma sandboxed_command_enforcement:
  "sandboxed_command F darwin rq = Inr (command, enforcement) \<Longrightarrow> enforcement = local_enforcement darwin"
  unfolding sandboxed_command_def local_enforcement_def Let_def
  by (cases darwin) (simp_all, elim bindE_InrE, simp)

lemma local_execute_receipt:
  assumes "local_execute E F H rq = Some (Inr receipt)"
  shows "\<exists>out. supervise rq H (process_start rq H) (ph_ticks H) = Some (Inr out)
    \<and> execution_receipt E F rq H (out\<lparr>ro_io := drain_rest (ro_io out) (ph_after H)\<rparr>) (local_enforcement (ph_darwin H)) = Inr receipt"
proof -
  obtain command enforcement where c: "sandboxed_command F (ph_darwin H) rq = Inr (command, enforcement)"
    using assms by (cases "sandboxed_command F (ph_darwin H) rq") (auto simp only: local_execute_def sum.case option.inject sum.distinct)
  show ?thesis using assms sandboxed_command_enforcement [OF c] unfolding local_execute_def c
    by (simp only: sum.case prod.case) (simp only: option.inject sum.inject sum.distinct split: option.splits sum.splits, blast+)
qed

lemma local_receipt_fields:
  assumes "local_execute E F H rq = Some (Inr receipt)"
  shows "\<exists>o' out. receipt = JObj o' \<and> supervise rq H (process_start rq H) (ph_ticks H) = Some (Inr out)
    \<and> jget o' ''enforcement'' = JObj (local_enforcement (ph_darwin H)) \<and> jget o' ''status'' = JStr (local_status out)"
proof -
  let ?e = "local_enforcement (ph_darwin H)"
  obtain out where out: "supervise rq H (process_start rq H) (ph_ticks H) = Some (Inr out)"
    and r: "execution_receipt E F rq H (out\<lparr>ro_io := drain_rest (ro_io out) (ph_after H)\<rparr>) ?e = Inr receipt" using local_execute_receipt [OF assms] by blast
  have st: "local_status (out\<lparr>ro_io := drain_rest (ro_io out) (ph_after H)\<rparr>) = local_status out" by (simp add: local_status_def)
  from execution_receipt_body [OF r] obtain body where body: "receipt = finalize_execution_receipt E body"
    "jget body ''enforcement'' = JObj ?e" "jget body ''status'' = JStr (local_status out)" unfolding st by blast
  have keys: "\<not> is_sensitive_key ''enforcement''" "\<not> is_sensitive_key ''status''" by code_simp+
  have e: "redact_sensitive_value (JObj ?e) = JObj ?e" using local_enforcement_publishable by (simp only: publishable_def redacted_unchanged)
  have s: "redact_sensitive_value (JStr (local_status out)) = JStr (local_status out)"
    using local_status_publishable [of out] by (simp only: publishable_def redacted_unchanged)
  obtain safe where safe: "redact_sensitive_value (JObj body) = JObj safe" by simp
  have "receipt = JObj (jset safe ''receipt_sha256'' (JStr (json_hash E (JObj safe))))"
    unfolding body(1) finalize_execution_receipt_def safe by simp
  then show ?thesis using jget_redact [OF keys(1) safe] jget_redact [OF keys(2) safe] body(2,3) out e s
    by (intro exI [where x = "jset safe ''receipt_sha256'' (JStr (json_hash E (JObj safe)))"] exI [where x = out])
      (simp del: redact_sensitive_value.simps)
qed

definition settled_badly :: "string set" where
  "settled_badly = {''blocked'', ''failed'', ''error'', ''cancelled'', ''timed_out'', ''needs_review'', ''attention'', ''pending'', ''unknown''}"

lemma local_verdict:
  assumes "jget s ''enforcement'' = JObj (local_enforcement darwin)" "jget s ''status'' = JStr (local_status out)"
  shows "evidence_verdict E s validations = ''ready''
    \<longleftrightarrow> darwin \<and> local_status out = ''completed'' \<and> set (validation_statuses E validations) \<inter> settled_badly = {}"
proof -
  have st: "py_lower (py_str E (jor (jget s ''status'') (JStr []))) = ''completed'' \<longleftrightarrow> local_status out = ''completed''"
    unfolding assms(2) by (cases "ro_timeout_kind out") (simp_all add: local_status_def, code_simp+)
  let ?weak = "\<lambda>p. let v = py_lower (py_str E (snd p)) in py_contains v ''not_'' \<or> py_contains v ''declared''"
  have w: "py_contains (py_lower ''declared_not_kernel_isolated'') ''not_''" "\<not> ?weak (k, JStr ''macos-sandbox-exec'')"
    "\<not> ?weak (k, JStr ''kernel_enforced'')" "\<not> ?weak (k, JBool True)" for k :: string
    by (simp_all only: snd_conv py_str_def json.case py_repr.simps if_True, code_simp+)
  have "list_ex ?weak (local_enforcement darwin) \<longleftrightarrow> \<not> darwin"
    using w by (cases darwin) (simp_all add: local_enforcement_def native_backend_def Let_def)
  moreover have "local_enforcement darwin \<noteq> []" by (simp add: local_enforcement_def Let_def)
  ultimately have e: "(case jget s ''enforcement'' of JObj enforcement \<Rightarrow> if enforcement = [] then ''needs_review''
      else if list_ex ?weak enforcement then ''needs_review'' else ''ready'' | _ \<Rightarrow> ''needs_review'') = ''ready'' \<longleftrightarrow> darwin"
    unfolding assms(1) by simp
  show ?thesis unfolding evidence_verdict_def Let_def [of "set _"] using st e by (auto simp: settled_badly_def)
qed

section \<open>Properties\<close>

lemma sandbox_part_no_raw_output:
  "jget (secret_free_sandbox_receipt v) ''output'' = JObj out \<Longrightarrow> jget out ''stdout'' = JNull \<and> jget out ''stderr'' = JNull"
proof -
  have gone: "jget (filter (\<lambda>p. fst p \<notin> {''stdout'', ''stderr''}) o') k = JNull" if "k \<in> {''stdout'', ''stderr''}" for o' k
    using that by (induction o') auto
  have kept: "jget (output_digest produced stream safe) k = jget safe k" if "k \<in> {''stdout'', ''stderr''}" "stream \<in> {''stdout'', ''stderr''}" for produced stream safe k
    using that by (auto simp: output_digest_def split: json.splits)
  assume a: "jget (secret_free_sandbox_receipt v) ''output'' = JObj out"
  show ?thesis
  proof (cases "secret_free_value v")
    case (JObj receipt)
    then show ?thesis using a kept gone by (cases "jget receipt ''output''") (auto simp: secret_free_sandbox_receipt_def)
  qed (use a in \<open>simp_all add: secret_free_sandbox_receipt_def\<close>)
qed

lemma receipt_body_parts:
  assumes "r = jset (receipt_body E binding s validations artifacts sources) ''evidence_sha256'' h"
  shows "jget r ''sandbox_receipt'' = JObj s" "jget r ''validations'' = validations"
    "jget (obj_or_empty (jget r ''provenance'')) ''sources'' = sources" "jget r ''verdict'' = JStr (evidence_verdict E s validations)"
  by (simp_all add: assms receipt_body_def obj_or_empty_def)

text \<open>C25: an evidence receipt is sealed and shows no secret. Its hash field holds the hash that the
  binding of evidence recomputes over the rest of the receipt; the execution receipt, the validations and
  the sources in it have no service key, no sensitive field and no environment or header, and the
  captured output appears only as digests.\<close>

theorem evidence_receipt_sealed:
  assumes "build_evidence_receipt E F P payload = Inr r"
  shows "get_str E r (receipt_hash_field r) '''' = observed_receipt_hash E r
    \<and> publishable (jget r ''sandbox_receipt'') \<and> publishable (jget r ''validations'')
    \<and> publishable (jget (obj_or_empty (jget r ''provenance'')) ''sources'')
    \<and> (\<forall>shown. jget (obj_or_empty (jget r ''sandbox_receipt'')) ''output'' = JObj shown \<longrightarrow> jget shown ''stdout'' = JNull \<and> jget shown ''stderr'' = JNull)"
proof -
  obtain binding s validations artifacts sources v where s: "s = secret_free_sandbox_receipt v" "publishable validations" "publishable sources"
    and r: "r = jset (receipt_body E binding s validations artifacts sources) ''evidence_sha256'' (JStr (canonical_sha256 E (JObj (receipt_body E binding s validations artifacts sources))))"
    using built_receipt_parts [OF assms] secret_free_publishable by metis
  have "get_str E r (receipt_hash_field r) '''' = observed_receipt_hash E r"
    by (rule conjunct2 [OF sealed_receipt_hash [OF _ _ r]]) (simp_all add: receipt_body_def)
  then show ?thesis using receipt_body_parts [OF r] s sandbox_part_publishable [of v] sandbox_part_no_raw_output [of v]
    by (simp add: obj_or_empty_def)
qed

text \<open>C24: \<open>ready\<close> needs isolation. The evidence of a command that the local provider ran is ready
  exactly when the kernel confined it, it ended with exit code 0 before every deadline, and no validation
  reports a failure or an open question; on every other host the policy is only declared and the evidence
  is at best \<open>needs_review\<close>.\<close>

theorem ready_needs_isolation:
  assumes "local_execute E F H rq = Some (Inr receipt)" "jget payload ''sandbox_receipt'' = receipt"
    "build_evidence_receipt E F' P payload = Inr r"
  shows "jget r ''verdict'' = JStr ''ready'' \<longleftrightarrow> ph_darwin H
    \<and> (\<exists>out. supervise rq H (process_start rq H) (ph_ticks H) = Some (Inr out) \<and> ro_timeout_kind out = None \<and> ro_exit out = 0)
    \<and> set (validation_statuses E (jget r ''validations'')) \<inter> settled_badly = {}"
proof -
  obtain o' out where o: "receipt = JObj o'" "supervise rq H (process_start rq H) (ph_ticks H) = Some (Inr out)"
    "jget o' ''enforcement'' = JObj (local_enforcement (ph_darwin H))" "jget o' ''status'' = JStr (local_status out)"
    using local_receipt_fields [OF assms(1)] by blast
  have "o' \<noteq> []" using o(4) by auto
  then have v: "jor (jor (jget payload ''sandbox_receipt'') (jget payload ''sandbox'')) (JObj []) = JObj o'" by (simp add: assms(2) o(1) jor_def)
  let ?s = "secret_free_sandbox_receipt (JObj o')"
  obtain binding validations artifacts sources h where
    r: "r = jset (receipt_body E binding ?s validations artifacts sources) ''evidence_sha256'' h"
    using built_receipt_parts [OF assms(3)] unfolding v by metis
  have keys: "\<not> is_sensitive_key ''enforcement''" "\<not> is_sensitive_key ''status''" "py_lower ''enforcement'' \<notin> set hidden_keys" "py_lower ''status'' \<notin> set hidden_keys"
    by code_simp+
  have "jget ?s ''enforcement'' = JObj (local_enforcement (ph_darwin H))"
    using published_field [where k = "''enforcement''" and o' = o'] o(3) local_enforcement_publishable keys by simp
  moreover have "jget ?s ''status'' = JStr (local_status out)"
    using published_field [where k = "''status''" and o' = o'] o(4) local_status_publishable keys by simp
  ultimately have "evidence_verdict E ?s validations = ''ready'' \<longleftrightarrow> ph_darwin H \<and> local_status out = ''completed'' \<and> set (validation_statuses E validations) \<inter> settled_badly = {}"
    by (rule local_verdict)
  then show ?thesis using o(2) receipt_body_parts(2,4) [OF r] by (simp add: local_status_def)
qed

text \<open>A command on a host with kernel confinement that exits at once.\<close>

definition mac_host :: process_host where
  "mac_host = sample_host\<lparr>ph_darwin := True, ph_ticks := [quiet_tick\<lparr>tk_poll := Some 0\<rparr>]\<rparr>"

definition no_files :: project_files where
  "no_files = \<lparr>pf_exists = (\<lambda>p. False), pf_is_file = (\<lambda>p. False), pf_bytes = (\<lambda>p. Inl (FileNotFoundError ''no file'')),
     pf_size = (\<lambda>p. Inl (FileNotFoundError ''no file'')), pf_text = (\<lambda>p. Unreadable (FileNotFoundError ''no file'')),
     pf_tree = (\<lambda>p. []), pf_node = (\<lambda>p r. Inr False)\<rparr>"

definition mac_payload :: "json \<Rightarrow> jobj" where
  "mac_payload receipt = [(''workspace'', JObj [(''workspace_sha256'', JStr ''ab'')]), (''sandbox_receipt'', receipt)]"

lemma mac_supervised: "\<exists>io. supervise sample_request mac_host (process_start sample_request mac_host) (ph_ticks mac_host)
    = Some (Inr \<lparr>ro_exit = 0, ro_timeout_kind = None, ro_sent = [], ro_io = io\<rparr>)"
  by (simp add: mac_host_def sample_host_def quiet_tick_def process_start_def sample_request_def)

lemma mac_payload_built: "\<exists>r. build_evidence_receipt E F P (mac_payload receipt) = Inr r \<and> jget r ''validations'' = JArr []"
proof -
  have d: "stripped_or E JNull JNull = ''''" "py_strip (py_str E (jor (JStr ''ab'') (JStr []))) = ''ab''" 
    by (simp_all add: stripped_or_def jor_def) code_simp+
  have "secret_free_value (JArr []) = JArr []" by (simp add: secret_free_cases [of "JArr []"])
  then show ?thesis using d
    by (simp add: build_evidence_receipt_def mac_payload_def workspace_of_def py_dict_def jor_def workspace_identity_def normalize_receipt_artifacts_def receipt_body_def Let_def)
qed

lemma mac_receipt: "\<exists>receipt. local_execute plain_env plain_fs mac_host sample_request = Some (Inr receipt)"
proof -
  have "\<exists>command enforcement. sandboxed_command plain_fs (ph_darwin mac_host) sample_request = Inr (command, enforcement)"
  proof -
    have "\<not> isl (macos_sandbox_profile plain_fs sample_request)" by code_simp
    then show ?thesis by (cases "macos_sandbox_profile plain_fs sample_request") (simp_all add: sandboxed_command_def mac_host_def Let_def)
  qed
  moreover have "ph_spawn_error mac_host c d e = None" for c d e by (simp add: mac_host_def sample_host_def)
  moreover have "\<exists>receipt. execution_receipt plain_env plain_fs sample_request mac_host out enforcement = Inr receipt" for out enforcement
    by (simp add: execution_receipt_def sample_request_def sample_normal_def validated_runtime_state_roots_def validated_runtime_state_files_def Let_def)
  ultimately show ?thesis using mac_supervised by (auto simp: local_execute_def)
qed

theorem evidence_receipt_sealed_witness:
  "\<exists>r. build_evidence_receipt plain_env plain_fs no_files (mac_payload (JObj [(''output'', JObj [(''stdout'', JStr ''hi'')]), (''password'', JStr ''x'')])) = Inr r
    \<and> get_str plain_env r (receipt_hash_field r) '''' = observed_receipt_hash plain_env r \<and> publishable (jget r ''sandbox_receipt'')"
  using mac_payload_built evidence_receipt_sealed by metis

theorem ready_needs_isolation_witness:
  "\<exists>receipt r. local_execute plain_env plain_fs mac_host sample_request = Some (Inr receipt)
    \<and> build_evidence_receipt plain_env plain_fs no_files (mac_payload receipt) = Inr r \<and> jget r ''verdict'' = JStr ''ready''"
proof -
  obtain receipt where receipt: "local_execute plain_env plain_fs mac_host sample_request = Some (Inr receipt)" using mac_receipt by blast
  obtain r where r: "build_evidence_receipt plain_env plain_fs no_files (mac_payload receipt) = Inr r" "jget r ''validations'' = JArr []" using mac_payload_built by blast
  have "jget (mac_payload receipt) ''sandbox_receipt'' = receipt" by (simp add: mac_payload_def)
  from ready_needs_isolation [OF receipt this r(1)] have "jget r ''verdict'' = JStr ''ready''"
    using mac_supervised by (auto simp: r(2) validation_statuses_def mac_host_def map_filter_def)
  then show ?thesis using receipt r(1) by blast
qed

end
