(* ===== verification/Spec2Isabelle.thy ===== *)
theory Spec2Isabelle
  imports Coordinator GoalContracts Relay LoopProps RunContractFacts TaskProps EvidenceFacts
begin

text \<open>
  A verification development of Across Orchestrator: its Worker control plane, its agent loop, its
  sandbox and its task runtime (\<open>src/src/across_orchestrator\<close>).

  \<^bold>\<open>The program.\<close> A host runs a coordinator. Worker nodes are enrolled with a one-shot pairing
  code and a verification code a person compares, connect over one of several transports, and take
  jobs by leases. A job is submitted as a manifest under an idempotency key, leased to the best
  capable node, and reported on by events; a terminal event closes it with an evidence receipt.
  Model calls of a job are paid from grants with budgets. Jobs belong to a goal at a revision: a new
  revision fences older work, changed inputs invalidate criteria, and a revalidation replaces stale
  evidence. Reports of quality gates are normalised and decide whether a run may finish.
  On the host an agent loop drives one goal: it picks an action, executes it through the host's
  adapters (memory, dispatcher, quality gate, finalizer), records a step with a lease, repairs or
  recovers after failures, waits for approvals, and ends completed, failed, stopped or cancelled.
  A task is a plan of subtasks in waves; its runtime dispatches them to agents, in the order of the plan
  and on behalf of the task's loop, and judges what they delivered. Commands of agents run in a sandbox
  under a policy that is normalised and checked first; what they did is recorded in redacted receipts,
  and the receipts, validations and artifacts of a task are sealed into evidence with a verdict. Runs
  are compared and replayed under contracts that infer their risk.

  \<^bold>\<open>The model.\<close> One theory per part, in the order of their dependencies.

  \<^item> \<open>Prelude\<close>: the error monad \<open>res\<close> (a Python exception is a value), the state-and-exception
    monad \<open>pyM\<close>, its weakest preconditions (\<open>wpM\<close>, rules \<open>vcg\<close>) and preservation (\<open>keeps\<close>).
  \<^item> \<open>PyText\<close>, \<open>PyJson\<close>, \<open>PyHash\<close>, \<open>PyUrl\<close>: what the code uses of Python's \<open>str\<close>, \<open>json\<close>,
    \<open>hashlib\<close>/\<open>hmac\<close>/\<open>base64\<close> and \<open>urllib.parse\<close>; SHA-256 is defined in full on 32-bit words.
  \<^item> \<open>WorkerProtocol\<close>, \<open>WorkerModels\<close> (\<open>worker_protocol.py\<close>): identifiers, paths, redaction, the
    capability manifest, job manifest, lease, event, artifact, grant, their validation and their
    dictionary forms. \<open>ProtocolFacts\<close> has the properties of both.
  \<^item> \<open>WorkerStore\<close> (\<open>worker_store.py\<close>): collections and logs, with the locales \<open>record_store\<close> and
    \<open>append_log\<close> for what the coordinator relies on, interpreted on the model.
  \<^item> \<open>CoordState\<close>: the typed state of \<open>coordinator.py\<close> (one field per collection, the clock, the
    id and random streams, the pairing secret) and its accessors.
  \<^item> \<open>Enrollment\<close>, \<open>Nodes\<close>, \<open>Jobs\<close>, \<open>Grants\<close>, \<open>Events\<close> (\<open>coordinator.py\<close>): every operation of the
    enrollment authority and the coordinator. \<open>JobFacts\<close>, \<open>JobProps\<close>, \<open>EventFacts\<close> and
    \<open>TerminalRecovery\<close> prove what they guarantee.
  \<^item> \<open>EvidenceBinding\<close> (\<open>evidence.py\<close>): the binding of a receipt to criteria.
  \<^item> \<open>GoalGraph\<close>, \<open>GoalContracts\<close>, \<open>Revalidation\<close>, \<open>RevalFacts\<close> (\<open>goal_graph.py\<close>,
    \<open>goal_contracts.py\<close>, \<open>revalidation.py\<close>): invalidation, contracts, revalidation attempts.
  \<^item> \<open>Relay\<close> (\<open>relay.py\<close>): frames and the router. \<open>Findings\<close> (\<open>findings.py\<close>): quality reports.
  \<^item> \<open>Coordinator\<close>: all public operations as one state machine, with the locale
    \<open>coordinator_invariant\<close> and its four interpretations.

  \<^item> \<open>LoopModel\<close>, \<open>LoopStore\<close> (\<open>failures.py\<close>, \<open>store.py\<close>, the data of \<open>agent_loop.py\<close>): failure
    types, cancel categories, the records of a loop, and the state \<open>lstate\<close>: the loop in memory, the
    stored loops, their events and cancel requests, the clock, ids, arriving cancellations, and the
    log of executed actions.
  \<^item> \<open>LoopPolicy\<close>, \<open>LoopRouting\<close>, \<open>LoopValidation\<close>, \<open>LoopMemory\<close> (\<open>agent_loop.py\<close>,
    \<open>autopilot_contract.py\<close>): the pure decisions: contracts, budgets, plans, the next action, recovery
    rules, findings; the agent of a dispatch; host-declared checks; memory candidates and adapters.
  \<^item> \<open>LoopRuntime\<close>, \<open>LoopDriver\<close> (\<open>agent_loop.py\<close>): the operations on steps, and \<open>start_loop\<close>,
    \<open>run_loop\<close>, \<open>approve_action\<close>, \<open>reject_action\<close>, \<open>retry_step\<close>, \<open>cancel_loop\<close>.
  \<^item> \<open>LoopFrame\<close>, \<open>LoopTermination\<close>, \<open>LoopOutcome\<close>, \<open>LoopGate\<close>: the locales \<open>loop_frame\<close>,
    \<open>loop_exec\<close>, \<open>loop_log\<close>, \<open>loop_turns\<close> say which changes of the state a predicate tolerates and
    derive that the operations keep it; they are interpreted for the turn count and recoveries, for
    the approval gate and for executing nothing. \<open>LoopFacts\<close> and \<open>LoopProps\<close> state the properties.

  \<^item> \<open>Redaction\<close> (\<open>redaction.py\<close>): sensitive keys, the patterns of service and private keys as
    matchers, and the redaction of values, with the locale \<open>redactor\<close> (the result is clean, clean
    values are kept), interpreted for texts, for values and in \<open>EvidenceFacts\<close> for evidence.
  \<^item> \<open>PyPath\<close>: what the code uses of \<open>pathlib\<close>; a \<open>file_system\<close> answers for links and directories.
  \<^item> \<open>Sandbox\<close>, \<open>SandboxRun\<close>, \<open>SandboxFacts\<close>, \<open>SandboxProps\<close> (\<open>sandbox.py\<close>): policies and their
    checks; providers, requests, the profile for macOS, the bounded output, the supervision of the
    process and the receipts; what they guarantee.
  \<^item> \<open>RunContracts\<close>, \<open>RunContractFacts\<close> (\<open>run_contracts.py\<close>): risk, the selected sandbox, comparison
    of runs, replay plans and renewed approvals.
  \<^item> \<open>TaskModel\<close> (\<open>models.py\<close>, \<open>planning.py\<close>): tasks, subtasks, their dictionary forms, strict chains,
    and the state \<open>tstate\<close>: the loop state, the task files, their events, the files written, and the log of
    subtasks given to agents.
    \<open>TaskQuality\<close>, \<open>EvidenceReceipt\<close> (\<open>evidence.py\<close>): artifact records, the gates of a delivery and the
    quality report; the commit of a workspace, receipts and bundles.
  \<^item> \<open>TaskStore\<close> (\<open>store.py\<close>, \<open>adapters.py\<close>): task files and events, managed artifacts, the command adapter.
    \<open>TaskRuntime\<close> (\<open>runtime.py\<close>, \<open>engine.py\<close>): submission, dispatch of subtasks, quality, \<open>run_task\<close>,
    \<open>cancel_task\<close>, and the dispatcher, gate and finalizer a task gives to its loop.
    \<open>TaskFacts\<close>, \<open>TaskProps\<close> and \<open>EvidenceFacts\<close> prove what they guarantee.

  \<^bold>\<open>What is shown.\<close> A job ends at most once, in every log and in every reachable state; a crash at
  any write of a terminal transaction is repaired to exactly the uninterrupted result; events are
  accepted only from the holder of the live, acknowledged lease at the authorised goal revision and
  otherwise change nothing but quarantine; leases go to the best capable node; submission, starting
  a revalidation and completing one are idempotent; goal revisions never move back and fence older
  work; grants keep their budgets; pairing codes work once and within a number of guesses;
  revocation is complete; evidence is verified only by registered validators of the host;
  invalidation is the least closure and splits the evidence; the relay delivers increasing
  sequence numbers; normal forms are stable and dictionary forms round trip; redacted values have
  no secrets, and accepted paths stay inside their directories.
  A run of an agent loop returns and leaves the loop saved and finished, waiting for an approval or
  held by a live lease; it executes nothing the approval policy names and nothing while a lease
  lives; an approval executes that action once; cancelling closes every step; a finished loop stays
  as it is; a started loop has turns enough for its plan, and the plan index is the longest prefix
  of the plan the steps contain; dispatches avoid forbidden agents; execution contracts are well
  typed; memory candidates are free of blocked words.
  A command reaches a provider only if its policy allows it, and the profile for macOS lets it write only
  where the policy says; supervision ends and tells exits from timeouts; the kept output is bounded;
  redaction leaves nothing to redact. A replay with side effects needs a fresh approval, and a caller
  can only narrow the selected sandbox. A dispatch of a task runs every open subtask once, in the order
  of the plan, and a failure stops it; serial plans run dependencies first, strict tasks become such
  plans; settled tasks are not run again; task files round trip. Evidence is sealed under a hash its
  reader recomputes, shows no secret, and is ready only for commands the kernel confined.

  \<^bold>\<open>Choices.\<close> Strings are lists of Latin-1 characters, floats are rationals, the clock is constant
  within one operation, ids and random numbers come from streams of the state. An operation runs
  alone: the locks of the code are modelled by their names, which can be invalid, and a crash by the
  states between two writes. Every operation of the control plane is a total function without fuel;
  the fixpoint of \<open>compute_invalidation\<close> has a termination proof. The loop of \<open>run_loop\<close> takes fuel,
  one unit per turn; \<open>turn_fuel\<close>, the turn budget plus one times the recoveries the metadata grant
  plus one, is shown to be enough. The clock of an agent loop advances at every reading. An adapter
  may answer differently at every call and raise; it does not change the loop it is given, and the
  moments at which a dispatcher sends heartbeats and the runtime polls are part of its answer. Step
  objects are identified by their ids. The file system does not change during one call of the sandbox;
  a supervised process is a list of rounds with what the code sees in each, and a list that ends too
  early is a process still watched (\<open>None\<close>); providers are records of their operations. The project
  files may be different at every look of the runtime, an agent's run is a function of the host
  (\<open>task_host\<close>) that may answer anything and change the task's metadata, and a run of the loop under a task is
  seen as the calls it makes to the task's dispatcher, gate and finalizer (\<open>loop_episode\<close>). Decoded
  records stand for the JSON files of the store. \<open>pyenv\<close> carries what depends on the interpreter
  (the text of a float and its parsing, unicode normalisation, the check of a bracketed host).

  \<^bold>\<open>Not modelled.\<close> The health, evidence and telemetry views of an agent loop, the resolution of
  artifact paths and the decoding of artifacts in its checks (parameters), heartbeats of a dispatcher
  after it was detached, the process of a host model command, the application scenarios of
  \<open>app_grade.py\<close> (a parameter of the runtime) with \<open>submit_release_e2e_task\<close>, the texts that the demo and
  reference adapters write, the transports and their cryptography, the HTTP, MCP and command-line
  front ends, adapters to other tools, and report rendering: they are I/O around the parts above.
  \<open>fsync\<close> and file locks of the store are below the model's atomic writes.
\<close>

end
